(* ===== verification/Prelude.thy ===== *)
theory Prelude
  imports Main "HOL-Library.Word"
begin

text \<open>
  Shared vocabulary of the development.

  Rust's \<open>Result\<close> is a datatype with one more constructor, \<open>Panic\<close>, for the places where the
  source calls \<open>expect\<close> or indexes a vector: reaching one of them is an observable outcome of
  the model and its absence is a theorem. Fixed-width unsigned integers are natural numbers with
  the checked and saturating operations written out at their width. Lookup by an index map into
  a vector (\<open>attempt_indexes\<close>, \<open>tool_call_indexes\<close>) is generic here, with the invariant that ties
  the map to the vector.
\<close>

named_theorems result_simps \<open>inversion of the outcomes of fallible code\<close>
named_theorems inv_defs \<open>the definitions of the invariants of the components\<close>

section \<open>Results\<close>

datatype ('a, 'e) result = Ok 'a | Err 'e | Panic

fun and_then :: "('a, 'e) result \<Rightarrow> ('a \<Rightarrow> ('b, 'e) result) \<Rightarrow> ('b, 'e) result" where
  "and_then (Ok x) f = f x"
| "and_then (Err e) f = Err e"
| "and_then Panic f = Panic"

fun map_err :: "('e \<Rightarrow> 'f) \<Rightarrow> ('a, 'e) result \<Rightarrow> ('a, 'f) result" where
  "map_err f (Ok x) = Ok x"
| "map_err f (Err e) = Err (f e)"
| "map_err f Panic = Panic"

definition ensure :: "bool \<Rightarrow> 'e \<Rightarrow> (unit, 'e) result" where
  "ensure b e = (if b then Ok () else Err e)"

definition ok_or :: "'a option \<Rightarrow> 'e \<Rightarrow> ('a, 'e) result" where
  "ok_or x e = (case x of None \<Rightarrow> Err e | Some y \<Rightarrow> Ok y)"

definition expect :: "'a option \<Rightarrow> ('a, 'e) result" where
  "expect x = (case x of None \<Rightarrow> Panic | Some y \<Rightarrow> Ok y)"

fun is_ok :: "('a, 'e) result \<Rightarrow> bool" where
  "is_ok (Ok x) = True"
| "is_ok (Err e) = False"
| "is_ok Panic = False"

lemma and_then_assoc: "and_then (and_then m f) g = and_then m (\<lambda>x. and_then (f x) g)"
  by (cases m) simp_all

lemma and_then_Ok [result_simps]:
  "and_then m f = Ok y \<longleftrightarrow> (\<exists>x. m = Ok x \<and> f x = Ok y)"
  by (cases m) auto

lemma and_then_Err [result_simps]:
  "and_then m f = Err e \<longleftrightarrow> m = Err e \<or> (\<exists>x. m = Ok x \<and> f x = Err e)"
  by (cases m) auto

lemma and_then_Panic [result_simps]:
  "and_then m f = Panic \<longleftrightarrow> m = Panic \<or> (\<exists>x. m = Ok x \<and> f x = Panic)"
  by (cases m) auto

lemma map_err_Ok [result_simps]: "map_err f m = Ok x \<longleftrightarrow> m = Ok x"
  by (cases m) auto

lemma map_err_Err [result_simps]: "map_err f m = Err e \<longleftrightarrow> (\<exists>d. m = Err d \<and> e = f d)"
  by (cases m) auto

lemma map_err_Panic [result_simps]: "map_err f m = Panic \<longleftrightarrow> m = Panic"
  by (cases m) auto

lemma ensure_Ok [result_simps, simp]: "ensure b e = Ok u \<longleftrightarrow> b"
  by (simp add: ensure_def)

lemma ensure_Err [result_simps, simp]: "ensure b e = Err d \<longleftrightarrow> \<not> b \<and> d = e"
  by (auto simp: ensure_def)

lemma ensure_no_Panic [result_simps, simp]: "ensure b e \<noteq> Panic"
  by (simp add: ensure_def)

lemma ensure_simps [simp]: "ensure True e = Ok ()" "ensure False e = Err e"
  by (simp_all add: ensure_def)

lemma ok_or_Ok [result_simps, simp]: "ok_or x e = Ok y \<longleftrightarrow> x = Some y"
  by (simp add: ok_or_def split: option.splits)

lemma ok_or_Err [result_simps, simp]: "ok_or x e = Err d \<longleftrightarrow> x = None \<and> d = e"
  by (auto simp: ok_or_def split: option.splits)

lemma ok_or_no_Panic [result_simps, simp]: "ok_or x e \<noteq> Panic"
  by (simp add: ok_or_def split: option.splits)

lemma ok_or_simps [simp]: "ok_or (Some y) e = Ok y" "ok_or None e = Err e"
  by (simp_all add: ok_or_def)

lemma expect_Ok [result_simps, simp]: "expect x = Ok y \<longleftrightarrow> x = Some y"
  by (simp add: expect_def split: option.splits)

lemma expect_Panic [result_simps, simp]: "expect x = Panic \<longleftrightarrow> x = None"
  by (simp add: expect_def split: option.splits)

lemma expect_no_Err [result_simps, simp]: "expect x \<noteq> Err e"
  by (simp add: expect_def split: option.splits)

lemma expect_simps [simp]: "expect (Some y) = Ok y" "expect None = Panic"
  by (simp_all add: expect_def)

lemma is_ok_iff: "is_ok m \<longleftrightarrow> (\<exists>x. m = Ok x)"
  by (cases m) auto

text \<open>A loop that runs a fallible step over a list and stops at the first failure.\<close>

fun try_fold :: "('s \<Rightarrow> 'x \<Rightarrow> ('s, 'e) result) \<Rightarrow> 's \<Rightarrow> 'x list \<Rightarrow> ('s, 'e) result" where
  "try_fold f s [] = Ok s"
| "try_fold f s (x # xs) = and_then (f s x) (\<lambda>t. try_fold f t xs)"

lemma try_fold_append:
  "try_fold f s (xs @ ys) = and_then (try_fold f s xs) (\<lambda>t. try_fold f t ys)"
proof (induction xs arbitrary: s)
  case (Cons x xs)
  then show ?case by (cases "f s x") simp_all
qed simp

lemma try_fold_invariant:
  assumes "try_fold f s xs = Ok t" and "P s"
    and "\<And>s x t. x \<in> set xs \<Longrightarrow> P s \<Longrightarrow> f s x = Ok t \<Longrightarrow> P t"
  shows "P t"
  using assms
proof (induction xs arbitrary: s)
  case (Cons x xs)
  from Cons.prems(1) obtain s' where "f s x = Ok s'" "try_fold f s' xs = Ok t"
    by (auto simp: result_simps)
  then show ?case using Cons.IH [of s'] Cons.prems(2,3) by auto
qed simp

lemma try_fold_no_panic:
  assumes "P s"
    and "\<And>s x. x \<in> set xs \<Longrightarrow> P s \<Longrightarrow> f s x \<noteq> Panic"
    and "\<And>s x t. x \<in> set xs \<Longrightarrow> P s \<Longrightarrow> f s x = Ok t \<Longrightarrow> P t"
  shows "try_fold f s xs \<noteq> Panic"
  using assms
proof (induction xs arbitrary: s)
  case (Cons x xs)
  from Cons.prems have "f s x \<noteq> Panic" by simp
  moreover have "try_fold f t xs \<noteq> Panic" if "f s x = Ok t" for t
    using Cons.IH [of t] Cons.prems that by (meson list.set_intros)
  ultimately show ?case by (auto simp: result_simps)
qed simp

lemma try_fold_never_panics: "(\<And>s x. f s x \<noteq> Panic) \<Longrightarrow> try_fold f s xs \<noteq> Panic"
  by (rule try_fold_no_panic [where P = "\<lambda>_. True"]) simp_all

text \<open>\<open>collect\<close> of a fallible iterator: the first failure, or every result.\<close>

fun try_map :: "('a \<Rightarrow> ('b, 'e) result) \<Rightarrow> 'a list \<Rightarrow> ('b list, 'e) result" where
  "try_map f [] = Ok []"
| "try_map f (x # xs) = and_then (f x) (\<lambda>y. and_then (try_map f xs) (\<lambda>ys. Ok (y # ys)))"

lemma try_map_Ok:
  assumes "\<And>x. x \<in> set xs \<Longrightarrow> \<exists>y. f x = Ok y \<and> P x y"
  shows "\<exists>ys. try_map f xs = Ok ys \<and> list_all2 P xs ys"
  using assms by (induction xs) fastforce+

lemma try_map_each: "try_map f xs = Ok ys \<Longrightarrow> list_all2 (\<lambda>x y. f x = Ok y) xs ys"
  by (induction xs arbitrary: ys) (auto simp: result_simps)

lemma try_map_never_panics: "(\<And>x. f x \<noteq> Panic) \<Longrightarrow> try_map f xs \<noteq> Panic"
  by (induction xs) (auto simp: and_then_Panic)

section \<open>Fixed-width integers\<close>

definition u16_max :: nat where "u16_max = 2 ^ 16 - 1"
definition u32_max :: nat where "u32_max = 2 ^ 32 - 1"
definition u64_max :: nat where "u64_max = 2 ^ 64 - 1"
definition i64_max :: nat where "i64_max = 2 ^ 63 - 1"

definition checked_add_u32 :: "nat \<Rightarrow> nat \<Rightarrow> nat option" where
  "checked_add_u32 a b = (if a + b \<le> u32_max then Some (a + b) else None)"

definition checked_add_u64 :: "nat \<Rightarrow> nat \<Rightarrow> nat option" where
  "checked_add_u64 a b = (if a + b \<le> u64_max then Some (a + b) else None)"

lemma int_max_values [simp]:
  "u32_max = 4294967295" "u64_max = 18446744073709551615" "i64_max = 9223372036854775807"
  by (simp_all add: u32_max_def u64_max_def i64_max_def)

lemma checked_add_u32_Some: "checked_add_u32 a b = Some c \<longleftrightarrow> c = a + b \<and> a + b \<le> u32_max"
  by (auto simp: checked_add_u32_def)

lemma checked_add_u64_Some: "checked_add_u64 a b = Some c \<longleftrightarrow> c = a + b \<and> a + b \<le> u64_max"
  by (auto simp: checked_add_u64_def)

section \<open>Vectors\<close>

text \<open>\<open>Iterator::position\<close>.\<close>

fun position :: "('a \<Rightarrow> bool) \<Rightarrow> 'a list \<Rightarrow> nat option" where
  "position P [] = None"
| "position P (x # xs) = (if P x then Some 0 else map_option Suc (position P xs))"

lemma find_append: "find P (xs @ ys) = (case find P xs of None \<Rightarrow> find P ys | Some x \<Rightarrow> Some x)"
  by (induction xs) simp_all

lemma position_Some: "position P xs = Some i \<Longrightarrow> i < length xs \<and> P (xs ! i)"
  by (induction xs arbitrary: i) (auto split: if_splits)

lemma position_first: "position P xs = Some i \<Longrightarrow> find P xs = Some (xs ! i)"
  by (induction xs arbitrary: i) (auto split: if_splits)

lemma position_None: "position P xs = None \<longleftrightarrow> find P xs = None"
  by (induction xs) auto

section \<open>Vectors indexed by identity\<close>

text \<open>
  A vector \<open>xs\<close> with an index map \<open>ix\<close>: \<open>index_ok key ix xs\<close> says the map sends exactly the keys
  of the vector's elements to their position. It implies that keys are distinct.
\<close>

definition get_index :: "('k \<rightharpoonup> nat) \<Rightarrow> 'v list \<Rightarrow> 'k \<Rightarrow> 'v option" where
  "get_index ix xs k =
     (case ix k of None \<Rightarrow> None | Some i \<Rightarrow> if i < length xs then Some (xs ! i) else None)"

definition index_ok :: "('v \<Rightarrow> 'k) \<Rightarrow> ('k \<rightharpoonup> nat) \<Rightarrow> 'v list \<Rightarrow> bool" where
  "index_ok key ix xs \<longleftrightarrow> (\<forall>k i. ix k = Some i \<longleftrightarrow> i < length xs \<and> key (xs ! i) = k)"

lemma index_ok_empty [simp]: "index_ok key Map.empty []"
  by (simp add: index_ok_def)

lemma index_okD: "index_ok key ix xs \<Longrightarrow> ix k = Some i \<Longrightarrow> i < length xs \<and> key (xs ! i) = k"
  by (simp add: index_ok_def)

lemma index_ok_nth: "index_ok key ix xs \<Longrightarrow> i < length xs \<Longrightarrow> ix (key (xs ! i)) = Some i"
  by (simp add: index_ok_def)

lemma index_ok_None:
  assumes ok: "index_ok key ix xs"
  shows "ix k = None \<longleftrightarrow> k \<notin> key ` set xs"
proof
  assume "ix k = None"
  then show "k \<notin> key ` set xs"
    using index_ok_nth [OF ok] by (auto simp: in_set_conv_nth)
next
  assume "k \<notin> key ` set xs"
  then show "ix k = None"
    using index_okD [OF ok, of k] by (cases "ix k") auto
qed

lemma index_ok_snoc:
  assumes "index_ok key ix xs" and "ix (key x) = None"
  shows "index_ok key (ix(key x \<mapsto> length xs)) (xs @ [x])"
  using assms unfolding index_ok_def
  by (auto simp: nth_append less_Suc_eq) (metis option.distinct(1))+

lemma index_ok_update:
  assumes "index_ok key ix xs" and "i < length xs" and "key y = key (xs ! i)"
  shows "index_ok key ix (xs[i := y])"
  using assms unfolding index_ok_def by (auto simp: nth_list_update)

lemma index_ok_distinct:
  assumes "index_ok key ix xs"
  shows "distinct (map key xs)"
  unfolding distinct_conv_nth
proof (intro allI impI)
  fix i j
  assume "i < length (map key xs)" "j < length (map key xs)" "i \<noteq> j"
  then show "map key xs ! i \<noteq> map key xs ! j"
    using index_ok_nth [OF assms, of i] index_ok_nth [OF assms, of j] by auto
qed

lemma get_index_Some:
  "get_index ix xs k = Some x \<longleftrightarrow> (\<exists>i. ix k = Some i \<and> i < length xs \<and> x = xs ! i)"
  by (auto simp: get_index_def split: option.splits)

lemma get_index_None_iff:
  "index_ok key ix xs \<Longrightarrow> get_index ix xs k = None \<longleftrightarrow> ix k = None"
  by (auto simp: get_index_def index_ok_def split: option.splits)

lemma get_index_key: "index_ok key ix xs \<Longrightarrow> get_index ix xs k = Some x \<Longrightarrow> key x = k"
  by (auto simp: get_index_Some index_ok_def)

lemma get_index_mem: "get_index ix xs k = Some x \<Longrightarrow> x \<in> set xs"
  by (auto simp: get_index_Some)

lemma get_index_of_mem: "index_ok key ix xs \<Longrightarrow> x \<in> set xs \<Longrightarrow> get_index ix xs (key x) = Some x"
  by (auto simp: get_index_Some in_set_conv_nth index_ok_def)

lemma get_index_snoc:
  assumes "index_ok key ix xs" and "ix (key x) = None"
  shows "get_index (ix(key x \<mapsto> length xs)) (xs @ [x]) k =
           (if k = key x then Some x else get_index ix xs k)"
  using index_okD [OF assms(1), of k] by (auto simp: get_index_def nth_append split: option.splits)

lemma get_index_update:
  assumes "index_ok key ix xs" and "ix k = Some i"
  shows "get_index ix (xs[i := y]) k' = (if k' = k then Some y else get_index ix xs k')"
  using index_okD [OF assms] index_okD [OF assms(1), of k'] assms(2)
  by (auto simp: get_index_def nth_list_update split: option.splits)

end
