(* ===== verification/Domain_Text.thy ===== *)
theory Domain_Text
  imports Prelude
begin

text \<open>
  Text handling of \<open>autoharness-domain\<close>: the validated strings of \<open>value.rs\<close>, identifiers
  (\<open>id.rs\<close>) and the escaping of security-critical text (\<open>text.rs\<close>). A Rust string is the list of
  its Unicode scalar values; \<open>str_len\<close> is its UTF-8 byte length, which is what \<open>str::len\<close> counts.
  The character predicates are those of the standard library: general category Cc for
  \<open>is_control\<close> and the White\_Space property for \<open>is_whitespace\<close>.
\<close>

section \<open>Unicode strings\<close>

type_synonym ustring = "nat list"

definition ascii :: "string \<Rightarrow> ustring" where
  "ascii s = map of_char s"

lemma ascii_inject: "ascii s = ascii t \<longleftrightarrow> s = t"
  by (simp add: ascii_def inj_map_eq_map inj_of_char)

definition len_utf8 :: "nat \<Rightarrow> nat" where
  "len_utf8 c = (if c < 0x80 then 1 else if c < 0x800 then 2 else if c < 0x10000 then 3 else 4)"

definition str_len :: "ustring \<Rightarrow> nat" where
  "str_len s = sum_list (map len_utf8 s)"

definition is_control :: "nat \<Rightarrow> bool" where
  "is_control c \<longleftrightarrow> c \<le> 0x1F \<or> (0x7F \<le> c \<and> c \<le> 0x9F)"

definition is_whitespace :: "nat \<Rightarrow> bool" where
  "is_whitespace c \<longleftrightarrow> (0x09 \<le> c \<and> c \<le> 0x0D) \<or> c = 0x20 \<or> c = 0x85 \<or> c = 0xA0 \<or> c = 0x1680
     \<or> (0x2000 \<le> c \<and> c \<le> 0x200A) \<or> c = 0x2028 \<or> c = 0x2029 \<or> c = 0x202F \<or> c = 0x205F
     \<or> c = 0x3000"

definition is_ascii_alphanumeric :: "nat \<Rightarrow> bool" where
  "is_ascii_alphanumeric c \<longleftrightarrow>
     (48 \<le> c \<and> c \<le> 57) \<or> (65 \<le> c \<and> c \<le> 90) \<or> (97 \<le> c \<and> c \<le> 122)"

text \<open>\<open>value.trim().is_empty()\<close>: nothing but white space.\<close>

definition trim_is_empty :: "ustring \<Rightarrow> bool" where
  "trim_is_empty s \<longleftrightarrow> list_all is_whitespace s"

definition str_trim :: "ustring \<Rightarrow> ustring" where
  "str_trim s = rev (dropWhile is_whitespace (rev (dropWhile is_whitespace s)))"

definition to_ascii_lower :: "ustring \<Rightarrow> ustring" where
  "to_ascii_lower s = map (\<lambda>c. if 0x41 \<le> c \<and> c \<le> 0x5A then c + 0x20 else c) s"

text \<open>
  \<open>str::lines\<close>: split after every line feed; a terminated line loses its line feed and one
  carriage return before it, and an unterminated last line is kept as it is.
\<close>

fun split_lf :: "ustring \<Rightarrow> ustring \<Rightarrow> (ustring \<times> bool) list" where
  "split_lf acc [] = (if acc = [] then [] else [(rev acc, False)])"
| "split_lf acc (c # s) = (if c = 0x0A then (rev acc, True) # split_lf [] s else split_lf (c # acc) s)"

definition strip_cr :: "ustring \<Rightarrow> ustring" where
  "strip_cr s = (if s \<noteq> [] \<and> last s = 0x0D then butlast s else s)"

definition str_lines :: "ustring \<Rightarrow> ustring list" where
  "str_lines s = map (\<lambda>(l, terminated). if terminated then strip_cr l else l) (split_lf [] s)"

text \<open>\<open>String::truncate\<close>: panics when the byte offset is inside a character.\<close>

fun str_truncate :: "nat \<Rightarrow> ustring \<Rightarrow> (ustring, 'e) result" where
  "str_truncate n s =
     (if n = 0 then Ok []
      else case s of [] \<Rightarrow> Ok []
        | c # cs \<Rightarrow> if len_utf8 c \<le> n
                    then and_then (str_truncate (n - len_utf8 c) cs) (\<lambda>r. Ok (c # r))
                    else Panic)"

declare str_truncate.simps [simp del]

lemma len_utf8_pos [simp]: "0 < len_utf8 c"
  by (simp add: len_utf8_def)

lemma len_utf8_le4: "len_utf8 c \<le> 4"
  by (simp add: len_utf8_def)

lemma str_len_simps [simp]:
  "str_len [] = 0" "str_len (c # s) = len_utf8 c + str_len s" "str_len (s @ t) = str_len s + str_len t"
  by (simp_all add: str_len_def)

lemma str_len_pos [simp]: "0 < str_len s \<longleftrightarrow> s \<noteq> []"
  by (cases s) simp_all

lemma str_len_zero [simp]: "str_len s = 0 \<longleftrightarrow> s = []"
  by (cases s) simp_all

lemma str_truncate_prefix: "str_truncate (str_len s) (s @ t) = Ok s"
proof (induction s)
  case Nil
  then show ?case by (simp add: str_truncate.simps)
next
  case (Cons c s)
  then show ?case by (simp add: str_truncate.simps [of "len_utf8 c + str_len s" "c # s @ t"])
qed

section \<open>Value errors\<close>

text \<open>The constructors of \<open>ValueError\<close>.\<close>

datatype value_error =
    EmptyIdentifier | IdentifierContainsWhitespace | IdentifierContainsControlCharacter
  | IdentifierContainsUnsafeCharacter | IdentifierTooLong | EmptyPrompt | EmptySessionTitle
  | SessionTitleTooLong | InvalidSessionTitle | EmptyResponseText | EmptyPublicMessage
  | PublicMessageTooLong | InvalidToolArguments | InvalidResource | InvalidRunLimits
  | ToolOutputTooLong | InvalidArtifact | ZeroSequence | SequenceTooLarge | EmptyMemoryContent
  | MemoryContentTooLong | EmptyMemoryEvidenceExcerpt | MemoryEvidenceExcerptTooLong
  | InvalidSha256Digest | ConfidenceOutOfRange | ZeroMemorySequence | MemorySequenceTooLarge
  | ZeroMemoryRevision | MemoryRevisionTooLarge | InvalidMemoryValidity | InvalidMemoryEvidence
  | InvalidMemoryValidation | InvalidMemoryExpectedSequence | CollectionTooLarge | ZeroVersion
  | InvalidContextTokenBudget | EstimatedTokensTooLarge | ZeroContextRunTurn
  | InvalidContextObservation | MemoryGenerationTooLarge | ZeroContextOrdinal | InvalidContextEpoch
  | InvalidContextManifest

section \<open>Identifiers\<close>

definition max_identifier_bytes :: nat where "max_identifier_bytes = 512"

definition is_safe_identifier_character :: "nat \<Rightarrow> bool" where
  "is_safe_identifier_character c \<longleftrightarrow>
     is_ascii_alphanumeric c \<or> c \<in> set (ascii ''-_.:/@+%~'')"

definition validate_identifier :: "ustring \<Rightarrow> (unit, value_error) result" where
  "validate_identifier value =
     and_then (ensure (value \<noteq> []) EmptyIdentifier) (\<lambda>_.
     and_then (ensure (\<not> list_ex is_control value) IdentifierContainsControlCharacter) (\<lambda>_.
     and_then (ensure (\<not> list_ex is_whitespace value) IdentifierContainsWhitespace) (\<lambda>_.
     and_then (ensure (list_all is_safe_identifier_character value)
                 IdentifierContainsUnsafeCharacter) (\<lambda>_.
     ensure (str_len value \<le> max_identifier_bytes) IdentifierTooLong))))"

section \<open>Prompts, titles, responses and messages\<close>

datatype prompt_text = PromptText ustring
datatype session_title = SessionTitle ustring
datatype response_text = ResponseText ustring
datatype public_message = PublicMessage ustring

fun prompt_str :: "prompt_text \<Rightarrow> ustring" where "prompt_str (PromptText s) = s"
fun title_str :: "session_title \<Rightarrow> ustring" where "title_str (SessionTitle s) = s"
fun response_str :: "response_text \<Rightarrow> ustring" where "response_str (ResponseText s) = s"

definition prompt_new :: "ustring \<Rightarrow> (prompt_text, value_error) result" where
  "prompt_new value =
     and_then (ensure (\<not> trim_is_empty value) EmptyPrompt) (\<lambda>_. Ok (PromptText value))"

definition title_max_bytes :: nat where "title_max_bytes = 128"

definition title_new :: "ustring \<Rightarrow> (session_title, value_error) result" where
  "title_new value =
     and_then (ensure (\<not> trim_is_empty value) EmptySessionTitle) (\<lambda>_.
     and_then (ensure (str_len value \<le> title_max_bytes) SessionTitleTooLong) (\<lambda>_.
     and_then (ensure (\<not> list_ex is_control value) InvalidSessionTitle) (\<lambda>_.
     Ok (SessionTitle value))))"

definition response_new :: "ustring \<Rightarrow> (response_text, value_error) result" where
  "response_new value =
     and_then (ensure (value \<noteq> []) EmptyResponseText) (\<lambda>_. Ok (ResponseText value))"

definition public_message_max_bytes :: nat where "public_message_max_bytes = 4096"

definition public_message_new :: "ustring \<Rightarrow> (public_message, value_error) result" where
  "public_message_new value =
     and_then (ensure (\<not> trim_is_empty value) EmptyPublicMessage) (\<lambda>_.
     and_then (ensure (str_len value \<le> public_message_max_bytes) PublicMessageTooLong) (\<lambda>_.
     Ok (PublicMessage value)))"

text \<open>
  The loop of \<open>derive_from_line\<close>: \<open>title\<close>, \<open>needs_separator\<close> and \<open>word_start\<close> are the locals of
  the source; the three returns inside the loop are the \<open>Some\<close> results before the end.
\<close>

fun derive_loop :: "ustring \<Rightarrow> bool \<Rightarrow> nat \<Rightarrow> ustring \<Rightarrow> (session_title option, 'e) result" where
  "derive_loop title sep ws [] = Ok (if title \<noteq> [] then Some (SessionTitle title) else None)"
| "derive_loop title sep ws (c # cs) =
     (if is_whitespace c \<or> is_control c then derive_loop title (sep \<or> title \<noteq> []) ws cs
      else if sep \<and> str_len title + 1 + len_utf8 c > title_max_bytes
           then Ok (Some (SessionTitle title))
      else
        (let ws' = (if sep then str_len title else ws);
             title' = (if sep then title @ [0x20] else title)
         in if str_len title' + len_utf8 c > title_max_bytes
            then (if ws' > 0
                  then and_then (str_truncate ws' title') (\<lambda>t. Ok (Some (SessionTitle t)))
                  else Ok (Some (SessionTitle title')))
            else derive_loop (title' @ [c]) False ws' cs))"

definition derive_from_line :: "ustring \<Rightarrow> (session_title option, 'e) result" where
  "derive_from_line line = derive_loop [] False 0 line"

fun derive_from_lines :: "ustring list \<Rightarrow> (session_title, 'e) result" where
  "derive_from_lines [] = Ok (SessionTitle (ascii ''New session''))"
| "derive_from_lines (l # ls) =
     and_then (derive_from_line l) (\<lambda>t. case t of Some title \<Rightarrow> Ok title | None \<Rightarrow> derive_from_lines ls)"

definition derive_from_prompt :: "prompt_text \<Rightarrow> (session_title, 'e) result" where
  "derive_from_prompt prompt = derive_from_lines (str_lines (prompt_str prompt))"

section \<open>Display-safe text\<close>

definition is_unsafe_display_control :: "nat \<Rightarrow> bool" where
  "is_unsafe_display_control c \<longleftrightarrow> is_control c \<or> c = 0xAD \<or> c = 0x34F \<or> c = 0x61C
     \<or> (0x115F \<le> c \<and> c \<le> 0x1160) \<or> (0x17B4 \<le> c \<and> c \<le> 0x17B5) \<or> (0x180B \<le> c \<and> c \<le> 0x180F)
     \<or> (0x200B \<le> c \<and> c \<le> 0x200F) \<or> (0x202A \<le> c \<and> c \<le> 0x202E) \<or> (0x2060 \<le> c \<and> c \<le> 0x206F)
     \<or> c = 0x3164 \<or> (0xFE00 \<le> c \<and> c \<le> 0xFE0F) \<or> c = 0xFEFF \<or> c = 0xFFA0
     \<or> (0xFFF0 \<le> c \<and> c \<le> 0xFFFB) \<or> (0x1BCA0 \<le> c \<and> c \<le> 0x1BCA3)
     \<or> (0x1D173 \<le> c \<and> c \<le> 0x1D17A) \<or> (0xE0000 \<le> c \<and> c \<le> 0xE0FFF)"

definition contains_unsafe_display_control :: "ustring \<Rightarrow> bool" where
  "contains_unsafe_display_control text = list_ex is_unsafe_display_control text"

definition hex_digit :: "nat \<Rightarrow> nat" where
  "hex_digit d = (if d < 10 then 48 + d else 87 + d)"

fun lower_hex :: "nat \<Rightarrow> ustring" where
  "lower_hex n = (if n < 16 then [hex_digit n] else lower_hex (n div 16) @ [hex_digit (n mod 16)])"

declare lower_hex.simps [simp del]

definition escape_char :: "nat \<Rightarrow> ustring" where
  "escape_char c =
     (if c = 0x5C then [0x5C, 0x5C]
      else if is_unsafe_display_control c then [0x5C, 0x75, 0x7B] @ lower_hex c @ [0x7D]
      else [c])"

definition security_display_safe :: "ustring \<Rightarrow> ustring" where
  "security_display_safe text = concat (map escape_char text)"

section \<open>Derived titles are valid titles\<close>

text \<open>
  Invariant of the loop: the title so far has visible characters only, separated by single
  spaces, ends in a visible character, fits the bound, and \<open>word_start\<close> is the byte offset of the
  separator before its last word (0 for the first word).
\<close>

definition visible :: "nat \<Rightarrow> bool" where
  "visible c \<longleftrightarrow> \<not> is_whitespace c \<and> \<not> is_control c"

definition title_shape :: "ustring \<Rightarrow> bool" where
  "title_shape t \<longleftrightarrow> t \<noteq> [] \<and> visible (hd t) \<and> list_all (\<lambda>c. visible c \<or> c = 0x20) t
     \<and> str_len t \<le> title_max_bytes"

definition word_start_ok :: "nat \<Rightarrow> ustring \<Rightarrow> bool" where
  "word_start_ok ws t \<longleftrightarrow> ws = 0 \<or> (\<exists>u v. t = u @ v \<and> ws = str_len u \<and> title_shape u)"

lemma word_start_ok_append: "word_start_ok ws t \<Longrightarrow> word_start_ok ws (t @ v)"
  unfolding word_start_ok_def by (elim disjE exE conjE) (blast, metis append.assoc)

lemma space_not_control [simp]: "\<not> is_control 32"
  by (simp add: is_control_def)

lemma title_shape_valid:
  assumes "title_shape t"
  shows "title_new t = Ok (SessionTitle t)"
proof -
  have "\<not> is_whitespace (hd t)" "hd t \<in> set t" and ctl: "\<not> list_ex is_control t"
    using assms by (auto simp: title_shape_def visible_def list_all_iff list_ex_iff)
  then have "\<not> trim_is_empty t"
    by (auto simp: trim_is_empty_def list_all_iff)
  then show ?thesis using assms ctl by (simp add: title_new_def title_shape_def)
qed

lemma title_shape_snoc:
  assumes "t = [] \<or> title_shape t" and "visible c"
    and "str_len t + len_utf8 c \<le> title_max_bytes"
  shows "title_shape (t @ [c])"
  using assms by (auto simp: title_shape_def)

lemma title_shape_space_snoc:
  assumes "title_shape t" and "visible c" and "str_len t + 1 + len_utf8 c \<le> title_max_bytes"
  shows "title_shape (t @ [0x20, c])"
  using assms by (auto simp: title_shape_def len_utf8_def)

lemma derive_loop_shape:
  assumes "title = [] \<or> title_shape title" and "sep \<longrightarrow> title \<noteq> []" and "word_start_ok ws title"
  shows "\<exists>r. (derive_loop title sep ws line :: (session_title option, 'e) result) = Ok r
           \<and> (case r of None \<Rightarrow> True | Some t \<Rightarrow> title_shape (title_str t))"
  using assms
proof (induction title sep ws line rule: derive_loop.induct)
  case (1 title sep ws)
  then show ?case by auto
next
  case (2 title sep ws c cs)
  define ws' where "ws' = (if sep then str_len title else ws)"
  define title' where "title' = (if sep then title @ [0x20] else title)"
  have len1: "len_utf8 32 = 1" by (simp add: len_utf8_def)
  consider (blank) "is_whitespace c \<or> is_control c"
    | (full) "visible c" "sep" "str_len title + 1 + len_utf8 c > title_max_bytes"
    | (over) "visible c" "\<not> (sep \<and> str_len title + 1 + len_utf8 c > title_max_bytes)"
             "str_len title' + len_utf8 c > title_max_bytes"
    | (push) "visible c" "\<not> (sep \<and> str_len title + 1 + len_utf8 c > title_max_bytes)"
             "str_len title' + len_utf8 c \<le> title_max_bytes"
    unfolding visible_def by linarith
  then show ?case
  proof cases
    case blank
    then show ?thesis using 2 by auto
  next
    case full
    then show ?thesis using "2.prems" by (auto simp: visible_def)
  next
    case over
    then have nosep: "\<not> sep" by (auto simp: title'_def len1)
    then have eq: "(derive_loop title sep ws (c # cs) :: (_, 'e) result) =
        (if ws > 0 then and_then (str_truncate ws title) (\<lambda>t. Ok (Some (SessionTitle t)))
         else Ok (Some (SessionTitle title)))"
      using over by (simp add: title'_def visible_def)
    have "title \<noteq> []"
      using over nosep len_utf8_le4 [of c] by (auto simp: title'_def title_max_bytes_def)
    with 2 have shape: "title_shape title" by auto
    show ?thesis
    proof (cases "ws > 0")
      case True
      with "2.prems"(3) obtain u v where "title = u @ v" "ws = str_len u" "title_shape u"
        by (auto simp: word_start_ok_def)
      with True show ?thesis unfolding eq by (simp add: str_truncate_prefix)
    next
      case False
      then show ?thesis unfolding eq using shape by simp
    qed
  next
    case push
    have shape: "title_shape (title' @ [c])"
    proof (cases sep)
      case True
      with 2 push show ?thesis
        using title_shape_space_snoc [of title c] by (auto simp: title'_def len1)
    next
      case False
      with 2 push show ?thesis using title_shape_snoc [of title c] by (simp add: title'_def)
    qed
    have word: "word_start_ok ws' (title' @ [c])"
    proof (cases sep)
      case True
      with "2.prems" show ?thesis by (auto simp: word_start_ok_def ws'_def title'_def)
    next
      case False
      with "2.prems"(3) show ?thesis
        using word_start_ok_append [of ws title "[c]"] by (simp add: ws'_def title'_def)
    qed
    have "derive_loop title sep ws (c # cs) = (derive_loop (title' @ [c]) False ws' cs :: (_, 'e) result)"
      using push by (auto simp: title'_def ws'_def visible_def Let_def)
    moreover have "\<exists>r. (derive_loop (title' @ [c]) False ws' cs :: (_, 'e) result) = Ok r
        \<and> (case r of None \<Rightarrow> True | Some t \<Rightarrow> title_shape (title_str t))"
      using "2.IH"(2) [OF _ _ ws'_def title'_def] push shape word by (auto simp: visible_def)
    ultimately show ?thesis by simp
  qed
qed

lemma derive_from_line_shape:
  "\<exists>r. derive_from_line l = Ok r \<and> (case r of None \<Rightarrow> True | Some t \<Rightarrow> title_shape (title_str t))"
  unfolding derive_from_line_def by (rule derive_loop_shape) (simp_all add: word_start_ok_def)

lemma fallback_title_shape: "title_shape (ascii ''New session'')"
  by (simp add: title_shape_def visible_def ascii_def is_whitespace_def is_control_def
      title_max_bytes_def len_utf8_def)

lemma derive_from_lines_shape:
  "\<exists>t. (derive_from_lines ls :: (session_title, 'e) result) = Ok t \<and> title_shape (title_str t)"
proof (induction ls)
  case Nil
  then show ?case by (simp add: fallback_title_shape)
next
  case (Cons l ls)
  obtain r where "(derive_from_line l :: (session_title option, 'e) result) = Ok r"
    and "case r of None \<Rightarrow> True | Some t \<Rightarrow> title_shape (title_str t)"
    using derive_from_line_shape by blast
  with Cons.IH show ?case by (cases r) auto
qed

lemma derive_from_prompt_total: "\<exists>t. derive_from_prompt p = Ok t"
  unfolding derive_from_prompt_def using derive_from_lines_shape by blast

section \<open>Escaped text can be read back\<close>

text \<open>
  The inverse of the escaping: after a backslash either a second backslash or \<open>u{\<close>, hexadecimal
  digits and a closing brace. It exists only to show that escaping loses nothing.
\<close>

definition unhex_digit :: "nat \<Rightarrow> nat" where
  "unhex_digit c = (if c < 58 then c - 48 else c - 87)"

fun unescape :: "ustring \<Rightarrow> ustring"
  and unescape_hex :: "nat \<Rightarrow> ustring \<Rightarrow> ustring" where
  "unescape [] = []"
| "unescape (c # s) =
     (if c = 0x5C then
        (case s of d # s' \<Rightarrow> if d = 0x5C then 0x5C # unescape s' else unescape_hex 0 (drop 1 s')
                 | [] \<Rightarrow> [])
      else c # unescape s)"
| "unescape_hex acc [] = []"
| "unescape_hex acc (c # s) =
     (if c = 0x7D then acc # unescape s else unescape_hex (acc * 16 + unhex_digit c) s)"

lemma lower_hex_chars: "d \<in> set (lower_hex n) \<Longrightarrow> (48 \<le> d \<and> d \<le> 57) \<or> (97 \<le> d \<and> d \<le> 102)"
proof (induction n rule: lower_hex.induct)
  case (1 n)
  have digit: "(48 \<le> hex_digit m \<and> hex_digit m \<le> 57) \<or> (97 \<le> hex_digit m \<and> hex_digit m \<le> 102)"
    if "m < 16" for m
    using that by (auto simp: hex_digit_def)
  show ?case
  proof (cases "n < 16")
    case True
    then show ?thesis using "1.prems" digit [of n] by (auto simp: lower_hex.simps [of n])
  next
    case False
    then show ?thesis using 1 digit [of "n mod 16"] by (auto simp: lower_hex.simps [of n])
  qed
qed

lemma unhex_hex_digit: "d < 16 \<Longrightarrow> unhex_digit (hex_digit d) = d"
  by (simp add: unhex_digit_def hex_digit_def)

lemma hex_digit_not_brace: "d < 16 \<Longrightarrow> hex_digit d \<noteq> 0x7D"
  by (simp add: hex_digit_def)

text \<open>Reading the digits of \<open>n\<close> with an accumulator \<open>acc\<close> yields \<open>n\<close> in the low digits.\<close>

lemma unescape_lower_hex:
  "\<exists>k. \<forall>acc s. unescape_hex acc (lower_hex n @ s) = unescape_hex (acc * k + n) s"
proof (induction n rule: lower_hex.induct)
  case (1 n)
  show ?case
  proof (cases "n < 16")
    case True
    then show ?thesis
      by (intro exI [of _ 16]) (simp add: lower_hex.simps [of n] unhex_hex_digit hex_digit_not_brace)
  next
    case False
    with "1.IH" obtain k where
      k: "\<And>acc s. unescape_hex acc (lower_hex (n div 16) @ s) = unescape_hex (acc * k + n div 16) s"
      by blast
    show ?thesis
      using False
      by (intro exI [of _ "k * 16"])
         (simp add: lower_hex.simps [of n] k unhex_hex_digit hex_digit_not_brace algebra_simps)
  qed
qed

lemma unescape_escape_char: "unescape (escape_char c @ s) = c # unescape s"
proof -
  obtain k where k: "\<And>acc s. unescape_hex acc (lower_hex c @ s) = unescape_hex (acc * k + c) s"
    using unescape_lower_hex by blast
  show ?thesis by (simp add: escape_char_def k)
qed

lemma escape_char_safe: "d \<in> set (escape_char c) \<Longrightarrow> \<not> is_unsafe_display_control d"
proof -
  have hex: "\<not> is_unsafe_display_control d" if "d \<in> set (lower_hex c)" for d
    using lower_hex_chars [OF that] by (auto simp: is_unsafe_display_control_def is_control_def)
  have "\<not> is_unsafe_display_control 92" "\<not> is_unsafe_display_control 117"
    "\<not> is_unsafe_display_control 123" "\<not> is_unsafe_display_control 125"
    by (simp_all add: is_unsafe_display_control_def is_control_def)
  then show "d \<in> set (escape_char c) \<Longrightarrow> \<not> is_unsafe_display_control d"
    using hex by (auto simp: escape_char_def split: if_splits)
qed

lemma unescape_display_safe: "unescape (security_display_safe s) = s"
  unfolding security_display_safe_def
  by (induction s) (simp_all add: unescape_escape_char del: unescape.simps(2))

section \<open>Properties\<close>

text \<open>
  Deriving a title from a prompt is total and never cuts a character in two: for every prompt it
  returns a title, the title passes the validation of \<open>SessionTitle::new\<close> (not blank, at most 128 bytes,
  no control character), it begins with a visible character and its only white space is U+0020.
\<close>

theorem derived_title_is_valid:
  "\<exists>t. (derive_from_prompt p :: (session_title, value_error) result) = Ok t
     \<and> title_new (title_str t) = Ok t
     \<and> \<not> is_whitespace (hd (title_str t))
     \<and> list_all (\<lambda>c. c = 0x20 \<or> \<not> is_whitespace c \<and> \<not> is_control c) (title_str t)"
proof -
  obtain t where t: "(derive_from_prompt p :: (session_title, value_error) result) = Ok t"
    "title_shape (title_str t)"
    using derive_from_lines_shape unfolding derive_from_prompt_def by blast
  then have "title_new (title_str t) = Ok t"
    using title_shape_valid [OF t(2)] by (cases t) simp
  then show ?thesis
    using t unfolding title_shape_def visible_def by (auto simp: list_all_iff)
qed

text \<open>
  C34: Text made safe for display contains no control or invisible format character, and nothing is
  lost: the original text can be read back, so two different texts never look the same.
\<close>

theorem display_safe_is_safe_and_faithful:
  "\<not> contains_unsafe_display_control (security_display_safe s)
   \<and> unescape (security_display_safe s) = s
   \<and> (security_display_safe s = security_display_safe s' \<longleftrightarrow> s = s')"
proof -
  have "\<not> contains_unsafe_display_control (security_display_safe s)"
    unfolding contains_unsafe_display_control_def security_display_safe_def
    by (auto simp: list_ex_iff dest: escape_char_safe)
  moreover have "security_display_safe s = security_display_safe s' \<longleftrightarrow> s = s'"
    using unescape_display_safe by metis
  ultimately show ?thesis using unescape_display_safe by simp
qed

end
