(* ===== verification/Domain_Types.thy ===== *)
theory Domain_Types
  imports Domain_Text
begin

text \<open>
  The provider-neutral values, commands and events of \<open>autoharness-domain\<close>. Identifiers are
  newtypes over text, one per \<open>identifier!\<close> of \<open>id.rs\<close> that the modelled components use. Enum
  variants keep their names; where two Rust enums share a variant name the enum's name is
  prefixed. Session sequences and other unsigned integers are natural numbers, timestamps are
  integers. A JSON value is serde\_json's \<open>Value\<close>, with a number as its literal text.
\<close>

section \<open>Identifiers\<close>

datatype session_id = SessionId ustring
datatype command_id = CommandId ustring
datatype event_id = EventId ustring
datatype input_id = InputId ustring
datatype attempt_id = AttemptId ustring
datatype tool_call_id = ToolCallId ustring
datatype provider_call_id = ProviderCallId ustring
datatype permission_decision_id = PermissionDecisionId ustring
datatype artifact_id = ArtifactId ustring
datatype tool_name = ToolName ustring
datatype correlation_id = CorrelationId ustring
datatype provider_id = ProviderId ustring
datatype model_id = ModelId ustring
datatype context_turn_id = ContextTurnId ustring
datatype error_code = ErrorCode ustring
datatype sha256_digest = Sha256Digest ustring

section \<open>Error classes and retry advice\<close>

datatype error_class =
    Class_Validation | Class_NotFound | Class_Conflict | Class_Authentication
  | Class_PermissionDenied | Class_RateLimited | Class_Timeout | Class_Unavailable
  | Class_Cancelled | Class_Protocol | Class_Storage | Class_Internal

datatype retry_advice = Retry_Never | Retry_Immediate | Retry_Backoff | Retry_After nat

section \<open>Values\<close>

record model_ref =
  model_provider :: provider_id
  model_name :: model_id

record usage_snapshot =
  input_tokens :: "nat option"
  output_tokens :: "nat option"
  total_tokens :: "nat option"
  cached_input_tokens :: "nat option"
  reasoning_tokens :: "nat option"
  tool_tokens :: "nat option"

record attempt_failure =
  fail_class :: error_class
  fail_code :: error_code
  fail_message :: public_message
  fail_retry_advice :: retry_advice

datatype delivery_mode = NextTurn

type_synonym session_sequence = nat
type_synonym timestamp_millis = int

definition sequence_first :: session_sequence where "sequence_first = 1"

definition sequence_new :: "nat \<Rightarrow> (session_sequence, value_error) result" where
  "sequence_new value =
     and_then (ensure (value \<noteq> 0) ZeroSequence) (\<lambda>_.
     and_then (ensure (value \<le> i64_max) SequenceTooLarge) (\<lambda>_. Ok value))"

definition checked_next :: "session_sequence \<Rightarrow> session_sequence option" where
  "checked_next s =
     (case checked_add_u64 s 1 of Some v \<Rightarrow> if v \<le> i64_max then Some v else None | None \<Rightarrow> None)"

lemma checked_next_Some: "checked_next s = Some t \<longleftrightarrow> t = Suc s \<and> s < i64_max"
  by (auto simp: checked_next_def checked_add_u64_def split: option.splits if_splits)

section \<open>Tool calls\<close>

datatype json =
    JNull | JBool bool | JNumber ustring | JString ustring
  | JArray "json list" | JObject "(ustring \<times> json) list"

datatype tool_arguments = ToolArguments "(ustring \<times> json) list"

datatype capability_kind =
    InvalidToolCall | Cap_MemoryProposal | FilesystemRead | FilesystemWrite
  | ProcessExecute | Cap_HttpRequest

datatype resource_ref = ResourceRef ustring

fun resource_str :: "resource_ref \<Rightarrow> ustring" where "resource_str (ResourceRef s) = s"

record capability_request =
  cap_kind :: capability_kind
  cap_resource :: resource_ref

datatype permission_outcome = Outcome_Deny | Outcome_Ask | Outcome_Allow

datatype permission_answer = Answer_AllowOnce | Answer_Deny

record tool_call_spec =
  spec_tool_call_id :: tool_call_id
  spec_provider_call_id :: provider_call_id
  spec_tool_name :: tool_name
  spec_schema_version :: nat
  spec_arguments :: tool_arguments
  spec_capability :: capability_request

record run_limits =
  max_turns :: nat
  max_time_ms :: nat
  max_tokens :: nat
  max_output_bytes :: nat
  max_concurrency :: nat

definition run_limits_new :: "nat \<Rightarrow> nat \<Rightarrow> nat \<Rightarrow> nat \<Rightarrow> nat \<Rightarrow> (run_limits, value_error) result" where
  "run_limits_new turns time_ms tokens output_bytes concurrency =
     (if turns = 0 \<or> time_ms = 0 \<or> tokens = 0 \<or> output_bytes = 0 \<or> concurrency = 0
      then Err InvalidRunLimits
      else Ok \<lparr>max_turns = turns, max_time_ms = time_ms, max_tokens = tokens,
               max_output_bytes = output_bytes, max_concurrency = concurrency\<rparr>)"

record artifact_ref =
  artifact_ref_id :: artifact_id
  artifact_byte_len :: nat
  artifact_media_type :: ustring

definition max_media_type_bytes :: nat where "max_media_type_bytes = 255"

definition artifact_ref_new :: "artifact_id \<Rightarrow> nat \<Rightarrow> ustring \<Rightarrow> (artifact_ref, value_error) result" where
  "artifact_ref_new aid byte_len media_type =
     (if byte_len = 0 \<or> media_type = [] \<or> str_len media_type > max_media_type_bytes
         \<or> list_ex is_control media_type
      then Err InvalidArtifact
      else Ok \<lparr>artifact_ref_id = aid, artifact_byte_len = byte_len, artifact_media_type = media_type\<rparr>)"

record tool_output =
  output_content :: ustring
  output_artifact :: "artifact_ref option"
  output_original_bytes :: nat
  output_truncated :: bool

definition max_inline_tool_output_bytes :: nat where "max_inline_tool_output_bytes = 64 * 1024"

definition tool_output_new ::
  "ustring \<Rightarrow> artifact_ref option \<Rightarrow> nat \<Rightarrow> bool \<Rightarrow> (tool_output, value_error) result" where
  "tool_output_new content artifact original_bytes truncated =
     (if str_len content > max_inline_tool_output_bytes \<or> original_bytes < str_len content
         \<or> truncated \<noteq> (artifact \<noteq> None)
      then Err ToolOutputTooLong
      else Ok \<lparr>output_content = content, output_artifact = artifact,
               output_original_bytes = original_bytes, output_truncated = truncated\<rparr>)"

definition max_resource_bytes :: nat where "max_resource_bytes = 4 * 1024"

definition resource_ref_new :: "ustring \<Rightarrow> (resource_ref, value_error) result" where
  "resource_ref_new value =
     (if trim_is_empty value \<or> str_len value > max_resource_bytes \<or> list_ex is_control value
      then Err InvalidResource else Ok (ResourceRef value))"

section \<open>Commands\<close>

datatype command_payload =
    CreateSession session_id
  | RenameSession session_id session_title
  | ArchiveSession session_id
  | UnarchiveSession session_id
  | SelectModel session_id model_ref
  | AdmitPrompt session_id input_id prompt_text delivery_mode
  | AdmitPromptAndPrepareAttempt session_id input_id prompt_text delivery_mode attempt_id
  | PrepareAttempt session_id attempt_id input_id "attempt_id option"
  | StartAttempt session_id attempt_id
  | AppendAttemptText session_id attempt_id response_text
  | RecordAttemptUsage session_id attempt_id usage_snapshot
  | RequestAttemptCancellation session_id attempt_id
  | CompleteAttempt session_id attempt_id
  | FailAttempt session_id attempt_id attempt_failure
  | CancelAttempt session_id attempt_id
  | MarkAttemptUnknown session_id attempt_id
  | ConfigureRunBudget session_id attempt_id run_limits
  | BindContextTurn session_id attempt_id nat context_turn_id sha256_digest
  | StartRunTurn session_id attempt_id
  | ProposeToolCall session_id attempt_id tool_call_spec
  | RecordToolPermission session_id tool_call_id permission_decision_id permission_outcome
  | AnswerToolPermission session_id tool_call_id permission_decision_id permission_answer
  | StartToolCall session_id tool_call_id
  | CompleteToolCall session_id tool_call_id tool_output
  | FailToolCall session_id tool_call_id attempt_failure
  | DenyToolCall session_id tool_call_id
  | CancelToolCall session_id tool_call_id
  | MarkToolCallUnknown session_id tool_call_id
  | PauseAttemptForTools session_id attempt_id
  | ResumeAttemptAfterTools session_id attempt_id

fun command_session_id :: "command_payload \<Rightarrow> session_id" where
  "command_session_id (CreateSession s) = s"
| "command_session_id (RenameSession s _) = s"
| "command_session_id (ArchiveSession s) = s"
| "command_session_id (UnarchiveSession s) = s"
| "command_session_id (SelectModel s _) = s"
| "command_session_id (AdmitPrompt s _ _ _) = s"
| "command_session_id (AdmitPromptAndPrepareAttempt s _ _ _ _) = s"
| "command_session_id (PrepareAttempt s _ _ _) = s"
| "command_session_id (StartAttempt s _) = s"
| "command_session_id (AppendAttemptText s _ _) = s"
| "command_session_id (RecordAttemptUsage s _ _) = s"
| "command_session_id (RequestAttemptCancellation s _) = s"
| "command_session_id (CompleteAttempt s _) = s"
| "command_session_id (FailAttempt s _ _) = s"
| "command_session_id (CancelAttempt s _) = s"
| "command_session_id (MarkAttemptUnknown s _) = s"
| "command_session_id (ConfigureRunBudget s _ _) = s"
| "command_session_id (BindContextTurn s _ _ _ _) = s"
| "command_session_id (StartRunTurn s _) = s"
| "command_session_id (ProposeToolCall s _ _) = s"
| "command_session_id (RecordToolPermission s _ _ _) = s"
| "command_session_id (AnswerToolPermission s _ _ _) = s"
| "command_session_id (StartToolCall s _) = s"
| "command_session_id (CompleteToolCall s _ _) = s"
| "command_session_id (FailToolCall s _ _) = s"
| "command_session_id (DenyToolCall s _) = s"
| "command_session_id (CancelToolCall s _) = s"
| "command_session_id (MarkToolCallUnknown s _) = s"
| "command_session_id (PauseAttemptForTools s _) = s"
| "command_session_id (ResumeAttemptAfterTools s _) = s"

record command_envelope =
  cmd_id :: command_id
  cmd_correlation_id :: correlation_id
  cmd_payload :: command_payload

section \<open>Events\<close>

definition event_schema_v1 :: nat where "event_schema_v1 = 1"

datatype causation = Cause_Command command_id | Cause_Event event_id

datatype event_payload =
    SessionCreated
  | SessionRenamed session_title
  | SessionArchived
  | SessionUnarchived
  | ModelSelected model_ref
  | InputAdmitted input_id prompt_text delivery_mode
  | AttemptPrepared attempt_id input_id model_ref "attempt_id option"
  | AttemptStarted attempt_id
  | AttemptTextAppended attempt_id response_text
  | AttemptUsageRecorded attempt_id usage_snapshot
  | AttemptCancellationRequested attempt_id
  | AttemptCompleted attempt_id
  | AttemptFailed attempt_id attempt_failure
  | AttemptCancelled attempt_id
  | AttemptMarkedUnknown attempt_id
  | RunBudgetConfigured attempt_id run_limits
  | ContextTurnBound attempt_id nat context_turn_id sha256_digest
  | RunTurnStarted attempt_id nat
  | ToolCallProposed attempt_id tool_call_spec
  | ToolPermissionRecorded tool_call_id permission_decision_id permission_outcome
  | ToolPermissionAnswered tool_call_id permission_decision_id permission_answer
  | ToolCallStarted tool_call_id
  | ToolCallCompleted tool_call_id tool_output
  | ToolCallFailed tool_call_id attempt_failure
  | ToolCallDenied tool_call_id
  | ToolCallCancelled tool_call_id
  | ToolCallMarkedUnknown tool_call_id
  | AttemptPausedForTools attempt_id
  | AttemptResumedAfterTools attempt_id

record event_envelope =
  ev_schema_version :: nat
  ev_event_id :: event_id
  ev_session_id :: session_id
  ev_sequence :: session_sequence
  ev_occurred_at :: timestamp_millis
  ev_causation :: causation
  ev_correlation_id :: correlation_id
  ev_payload :: event_payload

definition event_new_v1 ::
  "event_id \<Rightarrow> session_id \<Rightarrow> session_sequence \<Rightarrow> timestamp_millis \<Rightarrow> causation \<Rightarrow> correlation_id
     \<Rightarrow> event_payload \<Rightarrow> event_envelope" where
  "event_new_v1 eid sid seq at cause corr payload =
     \<lparr>ev_schema_version = event_schema_v1, ev_event_id = eid, ev_session_id = sid, ev_sequence = seq,
      ev_occurred_at = at, ev_causation = cause, ev_correlation_id = corr, ev_payload = payload\<rparr>"

lemma event_new_v1_sel [simp]:
  "ev_schema_version (event_new_v1 eid sid seq at cause corr payload) = event_schema_v1"
  "ev_event_id (event_new_v1 eid sid seq at cause corr payload) = eid"
  "ev_session_id (event_new_v1 eid sid seq at cause corr payload) = sid"
  "ev_sequence (event_new_v1 eid sid seq at cause corr payload) = seq"
  "ev_occurred_at (event_new_v1 eid sid seq at cause corr payload) = at"
  "ev_causation (event_new_v1 eid sid seq at cause corr payload) = cause"
  "ev_correlation_id (event_new_v1 eid sid seq at cause corr payload) = corr"
  "ev_payload (event_new_v1 eid sid seq at cause corr payload) = payload"
  by (simp_all add: event_new_v1_def)

end
