(* ===== verification/Aggregate.thy ===== *)
theory Aggregate
  imports Domain_Types
begin

text \<open>
  The event-sourced session aggregate of \<open>autoharness-engine\<close> (\<open>aggregate.rs\<close>, with the error
  enums of \<open>error.rs\<close>): the projections, \<open>decide\<close>, which turns a command into event payloads
  without changing state, and \<open>apply_one\<close>, which validates and applies one durable event. Both are
  one \<^theory_text>\<open>match\<close> over thirty payloads in the source; here they are split by the part of the
  lifecycle a payload belongs to and composed again by \<open>decide_payload\<close> and \<open>apply_payload\<close>.
  \<open>expect\<close> and out-of-range indexing are \<open>Panic\<close>.
\<close>

section \<open>Rejections and replay errors\<close>

datatype command_rejection =
    CR_DuplicateCommand command_id
  | CR_SessionAlreadyExists session_id
  | CR_SessionNotFound session_id
  | CR_SessionArchived session_id
  | CR_InvalidSessionState session_id
  | CR_SessionHasUnsettledWork session_id
  | CR_DuplicateInput session_id input_id
  | CR_ModelNotSelected session_id
  | CR_InputNotFound session_id input_id
  | CR_InputAlreadyPromoted session_id input_id
  | CR_DuplicateAttempt session_id attempt_id
  | CR_AttemptNotFound session_id attempt_id
  | CR_DuplicateToolCall session_id tool_call_id
  | CR_ToolCallNotFound session_id tool_call_id
  | CR_InvalidToolCallState session_id tool_call_id
  | CR_InvalidAttemptState session_id attempt_id
  | CR_DuplicateContextTurn session_id context_turn_id
  | CR_InvalidContextTurnBinding session_id attempt_id
  | CR_RetryNotAllowed session_id attempt_id
  | CR_RetryInputMismatch session_id attempt_id input_id
  | CR_WrongSession session_id session_id

fun rejection_class :: "command_rejection \<Rightarrow> error_class" where
  "rejection_class (CR_SessionNotFound _) = Class_NotFound"
| "rejection_class (CR_InputNotFound _ _) = Class_NotFound"
| "rejection_class (CR_AttemptNotFound _ _) = Class_NotFound"
| "rejection_class (CR_ToolCallNotFound _ _) = Class_NotFound"
| "rejection_class (CR_WrongSession _ _) = Class_Validation"
| "rejection_class (CR_ModelNotSelected _) = Class_Validation"
| "rejection_class (CR_RetryInputMismatch _ _ _) = Class_Validation"
| "rejection_class _ = Class_Conflict"

datatype replay_error =
    RE_UnsupportedSchema event_id nat
  | RE_WrongSession session_id session_id event_id
  | RE_DuplicateAttempt session_id attempt_id event_id
  | RE_DuplicateToolCall session_id tool_call_id event_id
  | RE_UnknownToolCall session_id tool_call_id event_id
  | RE_IllegalToolCallTransition session_id tool_call_id event_id
  | RE_UnknownInput session_id input_id event_id
  | RE_UnknownAttempt session_id attempt_id event_id
  | RE_IllegalAttemptTransition session_id attempt_id event_id
  | RE_DuplicateContextTurn session_id context_turn_id event_id
  | RE_IllegalContextTurnBinding session_id attempt_id event_id
  | RE_InvalidRetry session_id attempt_id event_id
  | RE_InputAlreadyPromoted session_id input_id event_id
  | RE_ModelSnapshotMismatch session_id attempt_id event_id
  | RE_NonContiguousSequence session_id nat nat event_id
  | RE_DuplicateEventId event_id
  | RE_DuplicateCommandCausation event_id command_id
  | RE_UnknownCausation event_id event_id
  | RE_SessionAlreadyCreated session_id event_id
  | RE_SessionNotCreated session_id event_id
  | RE_IllegalSessionTransition session_id event_id
  | RE_DuplicateInput session_id input_id event_id
  | RE_SequenceExhausted session_id

section \<open>Projections\<close>

record admitted_input =
  ai_input_id :: input_id
  ai_prompt :: prompt_text
  ai_delivery_mode :: delivery_mode
  ai_promoted_by :: "attempt_id option"

datatype attempt_status =
    Attempt_Prepared | Attempt_InFlight | Attempt_AwaitingTools | Attempt_CancellationRequested
  | Attempt_Completed | Attempt_Failed | Attempt_Cancelled | Attempt_Unknown

definition attempt_is_settled :: "attempt_status \<Rightarrow> bool" where
  "attempt_is_settled st \<longleftrightarrow>
     st \<in> {Attempt_Completed, Attempt_Failed, Attempt_Cancelled, Attempt_Unknown}"

record context_turn_binding =
  ctb_run_turn :: nat
  ctb_context_turn_id :: context_turn_id
  ctb_manifest_hash :: sha256_digest
  ctb_bound_sequence :: session_sequence

datatype tool_call_status =
    Tool_Proposed | Tool_PermissionPending | Tool_Authorized | Tool_DeniedPending | Tool_Running
  | Tool_Completed | Tool_Failed | Tool_Denied | Tool_Cancelled | Tool_Unknown

definition tool_is_settled :: "tool_call_status \<Rightarrow> bool" where
  "tool_is_settled st \<longleftrightarrow>
     st \<in> {Tool_Completed, Tool_Failed, Tool_Denied, Tool_Cancelled, Tool_Unknown}"

record tool_call_projection =
  tc_attempt_id :: attempt_id
  tc_call :: tool_call_spec
  tc_status :: tool_call_status
  tc_policy_decision :: "(permission_decision_id \<times> permission_outcome) option"
  tc_human_answer :: "(permission_decision_id \<times> permission_answer) option"
  tc_output :: "tool_output option"
  tc_failure :: "attempt_failure option"

record attempt_projection =
  ap_attempt_id :: attempt_id
  ap_input_id :: input_id
  ap_model :: model_ref
  ap_retry_of :: "attempt_id option"
  ap_status :: attempt_status
  ap_text :: "response_text list"
  ap_usage :: "usage_snapshot option"
  ap_failure :: "attempt_failure option"
  ap_run_limits :: "run_limits option"
  ap_turns_started :: nat
  ap_context_turn_bindings :: "context_turn_binding list"
  ap_provider_dispatch_ready :: bool
  ap_started_at :: "timestamp_millis option"
  ap_completed_sequence :: "session_sequence option"

definition response_text_of :: "attempt_projection \<Rightarrow> ustring" where
  "response_text_of a = concat (map response_str (ap_text a))"

definition pending_context_turn :: "attempt_projection \<Rightarrow> context_turn_binding option" where
  "pending_context_turn a =
     (case checked_add_u32 (ap_turns_started a) 1 of
        None \<Rightarrow> None
      | Some expected \<Rightarrow>
          if ap_context_turn_bindings a \<noteq> []
             \<and> ctb_run_turn (last (ap_context_turn_bindings a)) = expected
          then Some (last (ap_context_turn_bindings a)) else None)"

definition is_provider_dispatch_ready :: "attempt_projection \<Rightarrow> bool" where
  "is_provider_dispatch_ready a \<longleftrightarrow> ap_status a = Attempt_InFlight \<and> ap_provider_dispatch_ready a"

definition can_retry :: "attempt_projection \<Rightarrow> bool" where
  "can_retry a =
     (case ap_status a of
        Attempt_Failed \<Rightarrow>
          (case ap_failure a of None \<Rightarrow> False | Some f \<Rightarrow> fail_retry_advice f \<noteq> Retry_Never)
      | Attempt_Cancelled \<Rightarrow> True
      | Attempt_Unknown \<Rightarrow> True
      | _ \<Rightarrow> False)"

record session_aggregate =
  sa_session_id :: session_id
  sa_is_created :: bool
  sa_title :: "session_title option"
  sa_is_archived :: bool
  sa_selected_model :: "model_ref option"
  sa_admitted_inputs :: "admitted_input list"
  sa_admitted_input_ids :: "input_id set"
  sa_attempts :: "attempt_projection list"
  sa_attempt_indexes :: "attempt_id \<rightharpoonup> nat"
  sa_tool_calls :: "tool_call_projection list"
  sa_tool_call_indexes :: "tool_call_id \<rightharpoonup> nat"
  sa_context_turn_ids :: "context_turn_id set"
  sa_applied_event_ids :: "event_id set"
  sa_applied_command_ids :: "command_id set"
  sa_last_sequence :: "session_sequence option"
  sa_last_event_id :: "event_id option"

definition aggregate_empty :: "session_id \<Rightarrow> session_aggregate" where
  "aggregate_empty sid =
     \<lparr>sa_session_id = sid, sa_is_created = False, sa_title = None, sa_is_archived = False,
      sa_selected_model = None, sa_admitted_inputs = [], sa_admitted_input_ids = {},
      sa_attempts = [], sa_attempt_indexes = Map.empty, sa_tool_calls = [],
      sa_tool_call_indexes = Map.empty, sa_context_turn_ids = {}, sa_applied_event_ids = {},
      sa_applied_command_ids = {}, sa_last_sequence = None, sa_last_event_id = None\<rparr>"

definition attempt :: "session_aggregate \<Rightarrow> attempt_id \<Rightarrow> attempt_projection option" where
  "attempt s a = get_index (sa_attempt_indexes s) (sa_attempts s) a"

definition tool_call :: "session_aggregate \<Rightarrow> tool_call_id \<Rightarrow> tool_call_projection option" where
  "tool_call s t = get_index (sa_tool_call_indexes s) (sa_tool_calls s) t"

definition find_input :: "session_aggregate \<Rightarrow> input_id \<Rightarrow> admitted_input option" where
  "find_input s i = find (\<lambda>x. ai_input_id x = i) (sa_admitted_inputs s)"

section \<open>Command guards\<close>

definition require_created :: "session_aggregate \<Rightarrow> (unit, command_rejection) result" where
  "require_created s = ensure (sa_is_created s) (CR_SessionNotFound (sa_session_id s))"

definition require_not_archived :: "session_aggregate \<Rightarrow> (unit, command_rejection) result" where
  "require_not_archived s = ensure (\<not> sa_is_archived s) (CR_SessionArchived (sa_session_id s))"

definition require_attempt_status ::
  "session_aggregate \<Rightarrow> attempt_id \<Rightarrow> attempt_status list \<Rightarrow> (unit, command_rejection) result" where
  "require_attempt_status s a allowed =
     and_then (ok_or (attempt s a) (CR_AttemptNotFound (sa_session_id s) a)) (\<lambda>p.
     ensure (ap_status p \<in> set allowed) (CR_InvalidAttemptState (sa_session_id s) a))"

definition require_tool_call_status ::
  "session_aggregate \<Rightarrow> tool_call_id \<Rightarrow> tool_call_status list \<Rightarrow> (unit, command_rejection) result" where
  "require_tool_call_status s t allowed =
     and_then (ok_or (tool_call s t) (CR_ToolCallNotFound (sa_session_id s) t)) (\<lambda>c.
     ensure (tc_status c \<in> set allowed) (CR_InvalidToolCallState (sa_session_id s) t))"

definition has_live_tool_call :: "session_aggregate \<Rightarrow> attempt_id \<Rightarrow> bool" where
  "has_live_tool_call s a =
     list_ex (\<lambda>c. tc_attempt_id c = a \<and> \<not> tool_is_settled (tc_status c)) (sa_tool_calls s)"

definition require_attempt_tool_calls_settled ::
  "session_aggregate \<Rightarrow> attempt_id \<Rightarrow> (unit, command_rejection) result" where
  "require_attempt_tool_calls_settled s a =
     ensure (\<not> has_live_tool_call s a) (CR_InvalidAttemptState (sa_session_id s) a)"

section \<open>Deciding commands\<close>

definition admit_prompt_events ::
  "session_aggregate \<Rightarrow> input_id \<Rightarrow> prompt_text \<Rightarrow> delivery_mode
     \<Rightarrow> (event_payload list, command_rejection) result" where
  "admit_prompt_events s i p m =
     (if sa_admitted_inputs s = [] \<and> sa_title s = None
      then and_then (derive_from_prompt p) (\<lambda>t. Ok [InputAdmitted i p m, SessionRenamed t])
      else Ok [InputAdmitted i p m])"

fun decide_session ::
  "session_aggregate \<Rightarrow> command_payload \<Rightarrow> (event_payload list, command_rejection) result" where
  "decide_session s (CreateSession _) =
     and_then (ensure (\<not> sa_is_created s) (CR_SessionAlreadyExists (sa_session_id s))) (\<lambda>_.
     Ok [SessionCreated])"
| "decide_session s (RenameSession _ title) =
     and_then (require_created s) (\<lambda>_. Ok [SessionRenamed title])"
| "decide_session s (ArchiveSession _) =
     and_then (require_created s) (\<lambda>_.
     and_then (ensure (\<not> sa_is_archived s) (CR_InvalidSessionState (sa_session_id s))) (\<lambda>_.
     and_then (ensure (\<not> list_ex (\<lambda>a. \<not> attempt_is_settled (ap_status a)
                                      \<or> ap_status a = Attempt_AwaitingTools) (sa_attempts s))
                 (CR_SessionHasUnsettledWork (sa_session_id s))) (\<lambda>_.
     Ok [SessionArchived])))"
| "decide_session s (UnarchiveSession _) =
     and_then (require_created s) (\<lambda>_.
     and_then (ensure (sa_is_archived s) (CR_InvalidSessionState (sa_session_id s))) (\<lambda>_.
     Ok [SessionUnarchived]))"
| "decide_session s (SelectModel _ model) =
     and_then (require_created s) (\<lambda>_. Ok [ModelSelected model])"
| "decide_session s _ = Ok []"

fun decide_prompt ::
  "session_aggregate \<Rightarrow> command_payload \<Rightarrow> (event_payload list, command_rejection) result" where
  "decide_prompt s (AdmitPrompt _ i p m) =
     and_then (require_created s) (\<lambda>_.
     and_then (ensure (i \<notin> sa_admitted_input_ids s) (CR_DuplicateInput (sa_session_id s) i)) (\<lambda>_.
     admit_prompt_events s i p m))"
| "decide_prompt s (AdmitPromptAndPrepareAttempt _ i p m a) =
     and_then (require_created s) (\<lambda>_.
     and_then (ensure (i \<notin> sa_admitted_input_ids s) (CR_DuplicateInput (sa_session_id s) i)) (\<lambda>_.
     and_then (ensure (sa_attempt_indexes s a = None) (CR_DuplicateAttempt (sa_session_id s) a)) (\<lambda>_.
     and_then (ok_or (sa_selected_model s) (CR_ModelNotSelected (sa_session_id s))) (\<lambda>model.
     and_then (admit_prompt_events s i p m) (\<lambda>events.
     Ok (events @ [AttemptPrepared a i model None]))))))"
| "decide_prompt s (PrepareAttempt _ a i retry_of) =
     and_then (require_created s) (\<lambda>_.
     and_then (ensure (sa_attempt_indexes s a = None) (CR_DuplicateAttempt (sa_session_id s) a)) (\<lambda>_.
     and_then (ok_or (find_input s i) (CR_InputNotFound (sa_session_id s) i)) (\<lambda>input.
     and_then
       (case retry_of of
          Some prior_id \<Rightarrow>
            and_then (ok_or (attempt s prior_id) (CR_AttemptNotFound (sa_session_id s) prior_id)) (\<lambda>prior.
            and_then (ensure (can_retry prior) (CR_RetryNotAllowed (sa_session_id s) prior_id)) (\<lambda>_.
            and_then (ensure (ap_input_id prior = i)
                        (CR_RetryInputMismatch (sa_session_id s) prior_id i)) (\<lambda>_.
            Ok (ap_model prior))))
        | None \<Rightarrow>
            and_then (ensure (ai_promoted_by input = None)
                        (CR_InputAlreadyPromoted (sa_session_id s) i)) (\<lambda>_.
            ok_or (sa_selected_model s) (CR_ModelNotSelected (sa_session_id s)))) (\<lambda>model.
     Ok [AttemptPrepared a i model retry_of]))))"
| "decide_prompt s _ = Ok []"

fun decide_attempt ::
  "session_aggregate \<Rightarrow> command_payload \<Rightarrow> (event_payload list, command_rejection) result" where
  "decide_attempt s (StartAttempt _ a) =
     and_then (require_attempt_status s a [Attempt_Prepared]) (\<lambda>_. Ok [AttemptStarted a])"
| "decide_attempt s (AppendAttemptText _ a text) =
     and_then (require_attempt_status s a [Attempt_InFlight, Attempt_CancellationRequested]) (\<lambda>_.
     Ok [AttemptTextAppended a text])"
| "decide_attempt s (RecordAttemptUsage _ a usage) =
     and_then (require_attempt_status s a [Attempt_InFlight, Attempt_CancellationRequested]) (\<lambda>_.
     Ok [AttemptUsageRecorded a usage])"
| "decide_attempt s (RequestAttemptCancellation _ a) =
     and_then (require_attempt_status s a [Attempt_InFlight, Attempt_AwaitingTools]) (\<lambda>_.
     Ok [AttemptCancellationRequested a])"
| "decide_attempt s (CompleteAttempt _ a) =
     and_then (require_attempt_status s a
                 [Attempt_InFlight, Attempt_AwaitingTools, Attempt_CancellationRequested]) (\<lambda>_.
     and_then (require_attempt_tool_calls_settled s a) (\<lambda>_. Ok [AttemptCompleted a]))"
| "decide_attempt s (FailAttempt _ a failure) =
     and_then (require_attempt_status s a
                 [Attempt_Prepared, Attempt_InFlight, Attempt_AwaitingTools,
                  Attempt_CancellationRequested]) (\<lambda>_.
     and_then (require_attempt_tool_calls_settled s a) (\<lambda>_. Ok [AttemptFailed a failure]))"
| "decide_attempt s (CancelAttempt _ a) =
     and_then (require_attempt_status s a [Attempt_CancellationRequested]) (\<lambda>_.
     and_then (require_attempt_tool_calls_settled s a) (\<lambda>_. Ok [AttemptCancelled a]))"
| "decide_attempt s (MarkAttemptUnknown _ a) =
     and_then (require_attempt_status s a [Attempt_InFlight, Attempt_CancellationRequested]) (\<lambda>_.
     and_then (require_attempt_tool_calls_settled s a) (\<lambda>_. Ok [AttemptMarkedUnknown a]))"
| "decide_attempt s _ = Ok []"

definition exceeds_turn_limit :: "attempt_projection \<Rightarrow> nat option \<Rightarrow> bool" where
  "exceeds_turn_limit p turn =
     (case ap_run_limits p of
        None \<Rightarrow> False
      | Some limits \<Rightarrow> (case turn of None \<Rightarrow> True | Some t \<Rightarrow> t > max_turns limits))"

definition decide_pause ::
  "session_aggregate \<Rightarrow> attempt_id \<Rightarrow> (event_payload list, command_rejection) result" where
  [simp]: "decide_pause s a =
     and_then (require_attempt_status s a [Attempt_InFlight]) (\<lambda>_.
     and_then (expect (attempt s a)) (\<lambda>p.
     and_then (ensure (\<not> (ap_provider_dispatch_ready p \<or> ap_turns_started p = 0
                          \<or> \<not> list_ex (\<lambda>c. tc_attempt_id c = a) (sa_tool_calls s)))
                 (CR_InvalidAttemptState (sa_session_id s) a)) (\<lambda>_.
     Ok [AttemptPausedForTools a])))"

definition decide_resume ::
  "session_aggregate \<Rightarrow> attempt_id \<Rightarrow> (event_payload list, command_rejection) result" where
  [simp]: "decide_resume s a =
     and_then (require_attempt_status s a [Attempt_AwaitingTools]) (\<lambda>_.
     and_then (ensure (\<not> has_live_tool_call s a) (CR_InvalidAttemptState (sa_session_id s) a)) (\<lambda>_.
     Ok [AttemptResumedAfterTools a]))"

fun decide_run ::
  "session_aggregate \<Rightarrow> command_payload \<Rightarrow> (event_payload list, command_rejection) result" where
  "decide_run s (ConfigureRunBudget _ a limits) =
     and_then (require_attempt_status s a [Attempt_Prepared]) (\<lambda>_.
     and_then (ensure (\<not> (case attempt s a of None \<Rightarrow> False | Some p \<Rightarrow> ap_run_limits p \<noteq> None))
                 (CR_InvalidAttemptState (sa_session_id s) a)) (\<lambda>_.
     Ok [RunBudgetConfigured a limits]))"
| "decide_run s (BindContextTurn _ a run_turn turn_id manifest_hash) =
     and_then (require_attempt_status s a [Attempt_InFlight]) (\<lambda>_.
     and_then (ensure (turn_id \<notin> sa_context_turn_ids s)
                 (CR_DuplicateContextTurn (sa_session_id s) turn_id)) (\<lambda>_.
     and_then (expect (attempt s a)) (\<lambda>p.
     let expected = checked_add_u32 (ap_turns_started p) 1 in
     and_then (ensure (\<not> (\<not> ap_provider_dispatch_ready p \<or> expected \<noteq> Some run_turn
                          \<or> pending_context_turn p \<noteq> None \<or> exceeds_turn_limit p expected))
                 (CR_InvalidContextTurnBinding (sa_session_id s) a)) (\<lambda>_.
     Ok [ContextTurnBound a run_turn turn_id manifest_hash]))))"
| "decide_run s (StartRunTurn _ a) =
     and_then (require_attempt_status s a [Attempt_InFlight]) (\<lambda>_.
     and_then (expect (attempt s a)) (\<lambda>p.
     and_then (ok_or (checked_add_u32 (ap_turns_started p) 1)
                 (CR_InvalidAttemptState (sa_session_id s) a)) (\<lambda>turn.
     let exact_adjacent_binding =
           (case pending_context_turn p of
              None \<Rightarrow> False
            | Some b \<Rightarrow> ctb_run_turn b = turn \<and> sa_last_sequence s = Some (ctb_bound_sequence b)) in
     and_then (ensure (\<not> (\<not> ap_provider_dispatch_ready p \<or> \<not> exact_adjacent_binding
                          \<or> exceeds_turn_limit p (Some turn)))
                 (CR_InvalidContextTurnBinding (sa_session_id s) a)) (\<lambda>_.
     Ok [RunTurnStarted a turn]))))"
| "decide_run s (PauseAttemptForTools _ a) = decide_pause s a"
| "decide_run s (ResumeAttemptAfterTools _ a) = decide_resume s a"
| "decide_run s _ = Ok []"

fun decide_tool ::
  "session_aggregate \<Rightarrow> command_payload \<Rightarrow> (event_payload list, command_rejection) result" where
  "decide_tool s (ProposeToolCall _ a call) =
     and_then (require_attempt_status s a [Attempt_InFlight]) (\<lambda>_.
     and_then (ensure (sa_tool_call_indexes s (spec_tool_call_id call) = None)
                 (CR_DuplicateToolCall (sa_session_id s) (spec_tool_call_id call))) (\<lambda>_.
     Ok [ToolCallProposed a call]))"
| "decide_tool s (RecordToolPermission _ t d outcome) =
     and_then (require_tool_call_status s t [Tool_Proposed]) (\<lambda>_.
     Ok [ToolPermissionRecorded t d outcome])"
| "decide_tool s (AnswerToolPermission _ t d answer) =
     and_then (require_tool_call_status s t [Tool_PermissionPending]) (\<lambda>_.
     Ok [ToolPermissionAnswered t d answer])"
| "decide_tool s (StartToolCall _ t) =
     and_then (require_tool_call_status s t [Tool_Authorized]) (\<lambda>_.
     and_then (expect (tool_call s t)) (\<lambda>c.
     and_then (require_attempt_status s (tc_attempt_id c)
                 [Attempt_InFlight, Attempt_AwaitingTools]) (\<lambda>_.
     Ok [ToolCallStarted t])))"
| "decide_tool s (CompleteToolCall _ t output) =
     and_then (require_tool_call_status s t [Tool_Running]) (\<lambda>_. Ok [ToolCallCompleted t output])"
| "decide_tool s (FailToolCall _ t failure) =
     and_then (require_tool_call_status s t [Tool_Running]) (\<lambda>_. Ok [ToolCallFailed t failure])"
| "decide_tool s (DenyToolCall _ t) =
     and_then (require_tool_call_status s t [Tool_DeniedPending]) (\<lambda>_. Ok [ToolCallDenied t])"
| "decide_tool s (CancelToolCall _ t) =
     and_then (require_tool_call_status s t
                 [Tool_Proposed, Tool_PermissionPending, Tool_Authorized, Tool_Running]) (\<lambda>_.
     Ok [ToolCallCancelled t])"
| "decide_tool s (MarkToolCallUnknown _ t) =
     and_then (require_tool_call_status s t [Tool_Running]) (\<lambda>_. Ok [ToolCallMarkedUnknown t])"
| "decide_tool s _ = Ok []"

fun is_lifecycle_command :: "command_payload \<Rightarrow> bool" where
  "is_lifecycle_command (CreateSession _) = True"
| "is_lifecycle_command (RenameSession _ _) = True"
| "is_lifecycle_command (ArchiveSession _) = True"
| "is_lifecycle_command (UnarchiveSession _) = True"
| "is_lifecycle_command _ = False"

text \<open>The arm of the source's match that a payload selects.\<close>

fun decide_payload ::
  "session_aggregate \<Rightarrow> command_payload \<Rightarrow> (event_payload list, command_rejection) result" where
  "decide_payload s p =
     (case p of
        CreateSession _ \<Rightarrow> decide_session s p
      | RenameSession _ _ \<Rightarrow> decide_session s p
      | ArchiveSession _ \<Rightarrow> decide_session s p
      | UnarchiveSession _ \<Rightarrow> decide_session s p
      | SelectModel _ _ \<Rightarrow> decide_session s p
      | AdmitPrompt _ _ _ _ \<Rightarrow> decide_prompt s p
      | AdmitPromptAndPrepareAttempt _ _ _ _ _ \<Rightarrow> decide_prompt s p
      | PrepareAttempt _ _ _ _ \<Rightarrow> decide_prompt s p
      | ConfigureRunBudget _ _ _ \<Rightarrow> decide_run s p
      | BindContextTurn _ _ _ _ _ \<Rightarrow> decide_run s p
      | StartRunTurn _ _ \<Rightarrow> decide_run s p
      | PauseAttemptForTools _ _ \<Rightarrow> decide_run s p
      | ResumeAttemptAfterTools _ _ \<Rightarrow> decide_run s p
      | ProposeToolCall _ _ _ \<Rightarrow> decide_tool s p
      | RecordToolPermission _ _ _ _ \<Rightarrow> decide_tool s p
      | AnswerToolPermission _ _ _ _ \<Rightarrow> decide_tool s p
      | StartToolCall _ _ \<Rightarrow> decide_tool s p
      | CompleteToolCall _ _ _ \<Rightarrow> decide_tool s p
      | FailToolCall _ _ _ \<Rightarrow> decide_tool s p
      | DenyToolCall _ _ \<Rightarrow> decide_tool s p
      | CancelToolCall _ _ \<Rightarrow> decide_tool s p
      | MarkToolCallUnknown _ _ \<Rightarrow> decide_tool s p
      | _ \<Rightarrow> decide_attempt s p)"

definition decide ::
  "session_aggregate \<Rightarrow> command_envelope \<Rightarrow> (event_payload list, command_rejection) result" where
  "decide s cmd =
     and_then (ensure (command_session_id (cmd_payload cmd) = sa_session_id s)
                 (CR_WrongSession (sa_session_id s) (command_session_id (cmd_payload cmd)))) (\<lambda>_.
     and_then (if is_lifecycle_command (cmd_payload cmd) then Ok () else require_not_archived s) (\<lambda>_.
     decide_payload s (cmd_payload cmd)))"

end
