(* ===== verification/Replay.thy ===== *)
theory Replay
  imports Aggregate
begin

text \<open>
  Applying durable events to the aggregate (\<open>apply_one\<close>, \<open>apply_batch\<close> and \<open>rehydrate\<close> of
  \<open>aggregate.rs\<close>). A failing event leaves the aggregate as it was: every check of an arm comes before
  its first write, so the model returns the new aggregate or an error.
\<close>

section \<open>Checks\<close>

definition require_created_for_replay ::
  "session_aggregate \<Rightarrow> event_envelope \<Rightarrow> (unit, replay_error) result" where
  "require_created_for_replay s ev =
     ensure (sa_is_created s) (RE_SessionNotCreated (sa_session_id s) (ev_event_id ev))"

definition require_replay_attempt_tool_calls_settled ::
  "session_aggregate \<Rightarrow> event_envelope \<Rightarrow> attempt_id \<Rightarrow> (unit, replay_error) result" where
  "require_replay_attempt_tool_calls_settled s ev a =
     ensure (\<not> has_live_tool_call s a)
       (RE_IllegalAttemptTransition (sa_session_id s) a (ev_event_id ev))"

definition transition_attempt ::
  "session_aggregate \<Rightarrow> event_envelope \<Rightarrow> attempt_id \<Rightarrow> attempt_status list
     \<Rightarrow> (attempt_projection \<Rightarrow> attempt_projection) \<Rightarrow> (session_aggregate, replay_error) result" where
  "transition_attempt s ev a allowed f =
     and_then (ok_or (sa_attempt_indexes s a)
                 (RE_UnknownAttempt (sa_session_id s) a (ev_event_id ev))) (\<lambda>i.
     if i < length (sa_attempts s)
     then and_then (ensure (ap_status (sa_attempts s ! i) \<in> set allowed)
                      (RE_IllegalAttemptTransition (sa_session_id s) a (ev_event_id ev))) (\<lambda>_.
          Ok (s\<lparr>sa_attempts := (sa_attempts s)[i := f (sa_attempts s ! i)]\<rparr>))
     else Panic)"

definition transition_tool_call ::
  "session_aggregate \<Rightarrow> event_envelope \<Rightarrow> tool_call_id \<Rightarrow> tool_call_status list
     \<Rightarrow> (tool_call_projection \<Rightarrow> tool_call_projection) \<Rightarrow> (session_aggregate, replay_error) result" where
  "transition_tool_call s ev t allowed f =
     and_then (ok_or (sa_tool_call_indexes s t)
                 (RE_UnknownToolCall (sa_session_id s) t (ev_event_id ev))) (\<lambda>i.
     if i < length (sa_tool_calls s)
     then and_then (ensure (tc_status (sa_tool_calls s ! i) \<in> set allowed)
                      (RE_IllegalToolCallTransition (sa_session_id s) t (ev_event_id ev))) (\<lambda>_.
          Ok (s\<lparr>sa_tool_calls := (sa_tool_calls s)[i := f (sa_tool_calls s ! i)]\<rparr>))
     else Panic)"

definition expected_sequence :: "session_aggregate \<Rightarrow> (session_sequence, replay_error) result" where
  "expected_sequence s =
     (case sa_last_sequence s of
        Some q \<Rightarrow> ok_or (checked_next q) (RE_SequenceExhausted (sa_session_id s))
      | None \<Rightarrow> Ok sequence_first)"

definition validate_envelope ::
  "session_aggregate \<Rightarrow> event_envelope \<Rightarrow> (unit, replay_error) result" where
  "validate_envelope s ev =
     and_then (ensure (ev_schema_version ev = event_schema_v1)
                 (RE_UnsupportedSchema (ev_event_id ev) (ev_schema_version ev))) (\<lambda>_.
     and_then (ensure (ev_session_id ev = sa_session_id s)
                 (RE_WrongSession (sa_session_id s) (ev_session_id ev) (ev_event_id ev))) (\<lambda>_.
     and_then (ensure (ev_event_id ev \<notin> sa_applied_event_ids s)
                 (RE_DuplicateEventId (ev_event_id ev))) (\<lambda>_.
     and_then (case ev_causation ev of
                 Cause_Command c \<Rightarrow>
                   ensure (c \<notin> sa_applied_command_ids s)
                     (RE_DuplicateCommandCausation (ev_event_id ev) c)
               | Cause_Event e \<Rightarrow>
                   ensure (e \<in> sa_applied_event_ids s) (RE_UnknownCausation (ev_event_id ev) e)) (\<lambda>_.
     and_then (expected_sequence s) (\<lambda>expected.
     ensure (ev_sequence ev = expected)
       (RE_NonContiguousSequence (sa_session_id s) expected (ev_sequence ev) (ev_event_id ev)))))))"

section \<open>Applying one event\<close>

fun apply_session ::
  "session_aggregate \<Rightarrow> event_envelope \<Rightarrow> event_payload \<Rightarrow> (session_aggregate, replay_error) result" where
  "apply_session s ev SessionCreated =
     and_then (ensure (\<not> sa_is_created s)
                 (RE_SessionAlreadyCreated (sa_session_id s) (ev_event_id ev))) (\<lambda>_.
     Ok (s\<lparr>sa_is_created := True\<rparr>))"
| "apply_session s ev (SessionRenamed title) =
     and_then (require_created_for_replay s ev) (\<lambda>_. Ok (s\<lparr>sa_title := Some title\<rparr>))"
| "apply_session s ev SessionArchived =
     and_then (require_created_for_replay s ev) (\<lambda>_.
     and_then (ensure (\<not> sa_is_archived s)
                 (RE_IllegalSessionTransition (sa_session_id s) (ev_event_id ev))) (\<lambda>_.
     Ok (s\<lparr>sa_is_archived := True\<rparr>)))"
| "apply_session s ev SessionUnarchived =
     and_then (require_created_for_replay s ev) (\<lambda>_.
     and_then (ensure (sa_is_archived s)
                 (RE_IllegalSessionTransition (sa_session_id s) (ev_event_id ev))) (\<lambda>_.
     Ok (s\<lparr>sa_is_archived := False\<rparr>)))"
| "apply_session s ev (ModelSelected model) =
     and_then (require_created_for_replay s ev) (\<lambda>_. Ok (s\<lparr>sa_selected_model := Some model\<rparr>))"
| "apply_session s ev _ = Ok s"

definition new_attempt ::
  "attempt_id \<Rightarrow> input_id \<Rightarrow> model_ref \<Rightarrow> attempt_id option \<Rightarrow> attempt_projection" where
  "new_attempt a i model retry_of =
     \<lparr>ap_attempt_id = a, ap_input_id = i, ap_model = model, ap_retry_of = retry_of,
      ap_status = Attempt_Prepared, ap_text = [], ap_usage = None, ap_failure = None,
      ap_run_limits = None, ap_turns_started = 0, ap_context_turn_bindings = [],
      ap_provider_dispatch_ready = False, ap_started_at = None, ap_completed_sequence = None\<rparr>"

definition push_attempt :: "session_aggregate \<Rightarrow> attempt_projection \<Rightarrow> session_aggregate" where
  "push_attempt s p =
     s\<lparr>sa_attempts := sa_attempts s @ [p],
       sa_attempt_indexes := (sa_attempt_indexes s)(ap_attempt_id p \<mapsto> length (sa_attempts s))\<rparr>"

fun apply_prompt ::
  "session_aggregate \<Rightarrow> event_envelope \<Rightarrow> event_payload \<Rightarrow> (session_aggregate, replay_error) result" where
  "apply_prompt s ev (InputAdmitted i p m) =
     and_then (require_created_for_replay s ev) (\<lambda>_.
     and_then (ensure (i \<notin> sa_admitted_input_ids s)
                 (RE_DuplicateInput (sa_session_id s) i (ev_event_id ev))) (\<lambda>_.
     Ok (s\<lparr>sa_admitted_input_ids := insert i (sa_admitted_input_ids s),
           sa_admitted_inputs := sa_admitted_inputs s @
             [\<lparr>ai_input_id = i, ai_prompt = p, ai_delivery_mode = m, ai_promoted_by = None\<rparr>]\<rparr>)))"
| "apply_prompt s ev (AttemptPrepared a i model retry_of) =
     and_then (require_created_for_replay s ev) (\<lambda>_.
     and_then (ensure (sa_attempt_indexes s a = None)
                 (RE_DuplicateAttempt (sa_session_id s) a (ev_event_id ev))) (\<lambda>_.
     and_then (ok_or (position (\<lambda>x. ai_input_id x = i) (sa_admitted_inputs s))
                 (RE_UnknownInput (sa_session_id s) i (ev_event_id ev))) (\<lambda>n.
     case retry_of of
       Some prior_id \<Rightarrow>
         and_then (ok_or (attempt s prior_id)
                     (RE_InvalidRetry (sa_session_id s) a (ev_event_id ev))) (\<lambda>prior.
         and_then (ensure (\<not> (\<not> can_retry prior \<or> ap_input_id prior \<noteq> i \<or> ap_model prior \<noteq> model))
                     (RE_InvalidRetry (sa_session_id s) a (ev_event_id ev))) (\<lambda>_.
         Ok (push_attempt s (new_attempt a i model retry_of))))
     | None \<Rightarrow>
         and_then (ensure (ai_promoted_by (sa_admitted_inputs s ! n) = None)
                     (RE_InputAlreadyPromoted (sa_session_id s) i (ev_event_id ev))) (\<lambda>_.
         and_then (ensure (sa_selected_model s = Some model)
                     (RE_ModelSnapshotMismatch (sa_session_id s) a (ev_event_id ev))) (\<lambda>_.
         Ok (push_attempt
              (s\<lparr>sa_admitted_inputs :=
                   (sa_admitted_inputs s)
                     [n := (sa_admitted_inputs s ! n)\<lparr>ai_promoted_by := Some a\<rparr>]\<rparr>)
              (new_attempt a i model retry_of)))))))"
| "apply_prompt s ev _ = Ok s"

fun apply_attempt ::
  "session_aggregate \<Rightarrow> event_envelope \<Rightarrow> event_payload \<Rightarrow> (session_aggregate, replay_error) result" where
  "apply_attempt s ev (AttemptStarted a) =
     transition_attempt s ev a [Attempt_Prepared]
       (\<lambda>p. p\<lparr>ap_status := Attempt_InFlight, ap_provider_dispatch_ready := True,
              ap_started_at := Some (ev_occurred_at ev)\<rparr>)"
| "apply_attempt s ev (AttemptTextAppended a text) =
     transition_attempt s ev a [Attempt_InFlight, Attempt_CancellationRequested]
       (\<lambda>p. p\<lparr>ap_text := ap_text p @ [text]\<rparr>)"
| "apply_attempt s ev (AttemptUsageRecorded a usage) =
     transition_attempt s ev a [Attempt_InFlight, Attempt_CancellationRequested]
       (\<lambda>p. p\<lparr>ap_usage := Some usage\<rparr>)"
| "apply_attempt s ev (AttemptCancellationRequested a) =
     transition_attempt s ev a [Attempt_InFlight, Attempt_AwaitingTools]
       (\<lambda>p. p\<lparr>ap_status := Attempt_CancellationRequested\<rparr>)"
| "apply_attempt s ev (AttemptCompleted a) =
     and_then (require_replay_attempt_tool_calls_settled s ev a) (\<lambda>_.
     transition_attempt s ev a
       [Attempt_InFlight, Attempt_AwaitingTools, Attempt_CancellationRequested]
       (\<lambda>p. p\<lparr>ap_status := Attempt_Completed, ap_completed_sequence := Some (ev_sequence ev)\<rparr>))"
| "apply_attempt s ev (AttemptFailed a failure) =
     and_then (require_replay_attempt_tool_calls_settled s ev a) (\<lambda>_.
     transition_attempt s ev a
       [Attempt_Prepared, Attempt_InFlight, Attempt_AwaitingTools, Attempt_CancellationRequested]
       (\<lambda>p. p\<lparr>ap_status := Attempt_Failed, ap_failure := Some failure\<rparr>))"
| "apply_attempt s ev (AttemptCancelled a) =
     and_then (require_replay_attempt_tool_calls_settled s ev a) (\<lambda>_.
     transition_attempt s ev a [Attempt_CancellationRequested]
       (\<lambda>p. p\<lparr>ap_status := Attempt_Cancelled\<rparr>))"
| "apply_attempt s ev (AttemptMarkedUnknown a) =
     and_then (require_replay_attempt_tool_calls_settled s ev a) (\<lambda>_.
     transition_attempt s ev a [Attempt_InFlight, Attempt_CancellationRequested]
       (\<lambda>p. p\<lparr>ap_status := Attempt_Unknown\<rparr>))"
| "apply_attempt s ev _ = Ok s"

definition apply_pause ::
  "session_aggregate \<Rightarrow> event_envelope \<Rightarrow> attempt_id \<Rightarrow> (session_aggregate, replay_error) result" where
  [simp]: "apply_pause s ev a =
     and_then (ensure (\<not> ((case attempt s a of None \<Rightarrow> True
                            | Some p \<Rightarrow> ap_provider_dispatch_ready p \<or> ap_turns_started p = 0)
                          \<or> \<not> list_ex (\<lambda>c. tc_attempt_id c = a) (sa_tool_calls s)))
                 (RE_IllegalAttemptTransition (sa_session_id s) a (ev_event_id ev))) (\<lambda>_.
     transition_attempt s ev a [Attempt_InFlight] (\<lambda>p. p\<lparr>ap_status := Attempt_AwaitingTools\<rparr>))"

definition apply_resume ::
  "session_aggregate \<Rightarrow> event_envelope \<Rightarrow> attempt_id \<Rightarrow> (session_aggregate, replay_error) result" where
  [simp]: "apply_resume s ev a =
     and_then (ensure (\<not> has_live_tool_call s a)
                 (RE_IllegalAttemptTransition (sa_session_id s) a (ev_event_id ev))) (\<lambda>_.
     transition_attempt s ev a [Attempt_AwaitingTools]
       (\<lambda>p. p\<lparr>ap_status := Attempt_InFlight, ap_provider_dispatch_ready := True\<rparr>))"

fun apply_run ::
  "session_aggregate \<Rightarrow> event_envelope \<Rightarrow> event_payload \<Rightarrow> (session_aggregate, replay_error) result" where
  "apply_run s ev (RunBudgetConfigured a limits) =
     and_then (ensure (\<not> (case attempt s a of None \<Rightarrow> False | Some p \<Rightarrow> ap_run_limits p \<noteq> None))
                 (RE_IllegalAttemptTransition (sa_session_id s) a (ev_event_id ev))) (\<lambda>_.
     transition_attempt s ev a [Attempt_Prepared] (\<lambda>p. p\<lparr>ap_run_limits := Some limits\<rparr>))"
| "apply_run s ev (ContextTurnBound a run_turn turn_id manifest_hash) =
     and_then (require_created_for_replay s ev) (\<lambda>_.
     and_then (ensure (turn_id \<notin> sa_context_turn_ids s)
                 (RE_DuplicateContextTurn (sa_session_id s) turn_id (ev_event_id ev))) (\<lambda>_.
     and_then (ok_or (attempt s a) (RE_UnknownAttempt (sa_session_id s) a (ev_event_id ev))) (\<lambda>p.
     let expected = checked_add_u32 (ap_turns_started p) 1 in
     and_then (ensure (\<not> (ap_status p \<noteq> Attempt_InFlight \<or> \<not> ap_provider_dispatch_ready p
                          \<or> expected \<noteq> Some run_turn \<or> pending_context_turn p \<noteq> None
                          \<or> exceeds_turn_limit p expected))
                 (RE_IllegalContextTurnBinding (sa_session_id s) a (ev_event_id ev))) (\<lambda>_.
     and_then (transition_attempt s ev a [Attempt_InFlight]
                 (\<lambda>p. p\<lparr>ap_context_turn_bindings := ap_context_turn_bindings p @
                         [\<lparr>ctb_run_turn = run_turn, ctb_context_turn_id = turn_id,
                           ctb_manifest_hash = manifest_hash,
                           ctb_bound_sequence = ev_sequence ev\<rparr>]\<rparr>)) (\<lambda>t.
     Ok (t\<lparr>sa_context_turn_ids := insert turn_id (sa_context_turn_ids t)\<rparr>))))))"
| "apply_run s ev (RunTurnStarted a turn) =
     (let exact_adjacent_binding =
            (case attempt s a of
               None \<Rightarrow> False
             | Some p \<Rightarrow> ap_provider_dispatch_ready p
                 \<and> (case pending_context_turn p of
                      None \<Rightarrow> False
                    | Some b \<Rightarrow> ctb_run_turn b = turn
                        \<and> checked_next (ctb_bound_sequence b) = Some (ev_sequence ev)));
          expected = (case attempt s a of None \<Rightarrow> None | Some p \<Rightarrow> checked_add_u32 (ap_turns_started p) 1)
      in
     and_then (ensure (\<not> (\<not> exact_adjacent_binding \<or> expected \<noteq> Some turn
                          \<or> (case attempt s a of None \<Rightarrow> False
                               | Some p \<Rightarrow> exceeds_turn_limit p (Some turn))))
                 (RE_IllegalContextTurnBinding (sa_session_id s) a (ev_event_id ev))) (\<lambda>_.
     transition_attempt s ev a [Attempt_InFlight]
       (\<lambda>p. p\<lparr>ap_turns_started := turn, ap_provider_dispatch_ready := False\<rparr>)))"
| "apply_run s ev (AttemptPausedForTools a) = apply_pause s ev a"
| "apply_run s ev (AttemptResumedAfterTools a) = apply_resume s ev a"
| "apply_run s ev _ = Ok s"

definition new_tool_call :: "attempt_id \<Rightarrow> tool_call_spec \<Rightarrow> tool_call_projection" where
  "new_tool_call a call =
     \<lparr>tc_attempt_id = a, tc_call = call, tc_status = Tool_Proposed, tc_policy_decision = None,
      tc_human_answer = None, tc_output = None, tc_failure = None\<rparr>"

abbreviation tc_id :: "tool_call_projection \<Rightarrow> tool_call_id" where
  "tc_id c \<equiv> spec_tool_call_id (tc_call c)"

definition push_tool_call :: "session_aggregate \<Rightarrow> tool_call_projection \<Rightarrow> session_aggregate" where
  "push_tool_call s c =
     s\<lparr>sa_tool_calls := sa_tool_calls s @ [c],
       sa_tool_call_indexes := (sa_tool_call_indexes s)(tc_id c \<mapsto> length (sa_tool_calls s))\<rparr>"

fun status_of_outcome :: "permission_outcome \<Rightarrow> tool_call_status" where
  "status_of_outcome Outcome_Deny = Tool_DeniedPending"
| "status_of_outcome Outcome_Ask = Tool_PermissionPending"
| "status_of_outcome Outcome_Allow = Tool_Authorized"

fun status_of_answer :: "permission_answer \<Rightarrow> tool_call_status" where
  "status_of_answer Answer_AllowOnce = Tool_Authorized"
| "status_of_answer Answer_Deny = Tool_DeniedPending"

fun apply_tool ::
  "session_aggregate \<Rightarrow> event_envelope \<Rightarrow> event_payload \<Rightarrow> (session_aggregate, replay_error) result" where
  "apply_tool s ev (ToolCallProposed a call) =
     and_then (require_created_for_replay s ev) (\<lambda>_.
     and_then (ensure (sa_tool_call_indexes s (spec_tool_call_id call) = None)
                 (RE_DuplicateToolCall (sa_session_id s) (spec_tool_call_id call) (ev_event_id ev))) (\<lambda>_.
     and_then (ensure (\<not> (case attempt s a of None \<Rightarrow> True | Some p \<Rightarrow> ap_status p \<noteq> Attempt_InFlight))
                 (RE_IllegalAttemptTransition (sa_session_id s) a (ev_event_id ev))) (\<lambda>_.
     Ok (push_tool_call s (new_tool_call a call)))))"
| "apply_tool s ev (ToolPermissionRecorded t d outcome) =
     transition_tool_call s ev t [Tool_Proposed]
       (\<lambda>c. c\<lparr>tc_policy_decision := Some (d, outcome), tc_status := status_of_outcome outcome\<rparr>)"
| "apply_tool s ev (ToolPermissionAnswered t d answer) =
     transition_tool_call s ev t [Tool_PermissionPending]
       (\<lambda>c. c\<lparr>tc_human_answer := Some (d, answer), tc_status := status_of_answer answer\<rparr>)"
| "apply_tool s ev (ToolCallStarted t) =
     (let parent_is_active =
            (case tool_call s t of
               None \<Rightarrow> False
             | Some c \<Rightarrow> (case attempt s (tc_attempt_id c) of
                            None \<Rightarrow> False
                          | Some p \<Rightarrow> ap_status p \<in> {Attempt_InFlight, Attempt_AwaitingTools}))
      in
     and_then (ensure parent_is_active
                 (RE_IllegalToolCallTransition (sa_session_id s) t (ev_event_id ev))) (\<lambda>_.
     transition_tool_call s ev t [Tool_Authorized] (\<lambda>c. c\<lparr>tc_status := Tool_Running\<rparr>)))"
| "apply_tool s ev (ToolCallCompleted t output) =
     transition_tool_call s ev t [Tool_Running]
       (\<lambda>c. c\<lparr>tc_status := Tool_Completed, tc_output := Some output\<rparr>)"
| "apply_tool s ev (ToolCallFailed t failure) =
     transition_tool_call s ev t [Tool_Running]
       (\<lambda>c. c\<lparr>tc_status := Tool_Failed, tc_failure := Some failure\<rparr>)"
| "apply_tool s ev (ToolCallDenied t) =
     transition_tool_call s ev t [Tool_DeniedPending] (\<lambda>c. c\<lparr>tc_status := Tool_Denied\<rparr>)"
| "apply_tool s ev (ToolCallCancelled t) =
     transition_tool_call s ev t
       [Tool_Proposed, Tool_PermissionPending, Tool_Authorized, Tool_Running]
       (\<lambda>c. c\<lparr>tc_status := Tool_Cancelled\<rparr>)"
| "apply_tool s ev (ToolCallMarkedUnknown t) =
     transition_tool_call s ev t [Tool_Running] (\<lambda>c. c\<lparr>tc_status := Tool_Unknown\<rparr>)"
| "apply_tool s ev _ = Ok s"

fun apply_payload ::
  "session_aggregate \<Rightarrow> event_envelope \<Rightarrow> event_payload \<Rightarrow> (session_aggregate, replay_error) result" where
  "apply_payload s ev p =
     (case p of
        SessionCreated \<Rightarrow> apply_session s ev p
      | SessionRenamed _ \<Rightarrow> apply_session s ev p
      | SessionArchived \<Rightarrow> apply_session s ev p
      | SessionUnarchived \<Rightarrow> apply_session s ev p
      | ModelSelected _ \<Rightarrow> apply_session s ev p
      | InputAdmitted _ _ _ \<Rightarrow> apply_prompt s ev p
      | AttemptPrepared _ _ _ _ \<Rightarrow> apply_prompt s ev p
      | RunBudgetConfigured _ _ \<Rightarrow> apply_run s ev p
      | ContextTurnBound _ _ _ _ \<Rightarrow> apply_run s ev p
      | RunTurnStarted _ _ \<Rightarrow> apply_run s ev p
      | AttemptPausedForTools _ \<Rightarrow> apply_run s ev p
      | AttemptResumedAfterTools _ \<Rightarrow> apply_run s ev p
      | ToolCallProposed _ _ \<Rightarrow> apply_tool s ev p
      | ToolPermissionRecorded _ _ _ \<Rightarrow> apply_tool s ev p
      | ToolPermissionAnswered _ _ _ \<Rightarrow> apply_tool s ev p
      | ToolCallStarted _ \<Rightarrow> apply_tool s ev p
      | ToolCallCompleted _ _ \<Rightarrow> apply_tool s ev p
      | ToolCallFailed _ _ \<Rightarrow> apply_tool s ev p
      | ToolCallDenied _ \<Rightarrow> apply_tool s ev p
      | ToolCallCancelled _ \<Rightarrow> apply_tool s ev p
      | ToolCallMarkedUnknown _ \<Rightarrow> apply_tool s ev p
      | _ \<Rightarrow> apply_attempt s ev p)"

definition record_envelope :: "event_envelope \<Rightarrow> session_aggregate \<Rightarrow> session_aggregate" where
  "record_envelope ev s =
     s\<lparr>sa_applied_event_ids := insert (ev_event_id ev) (sa_applied_event_ids s),
       sa_applied_command_ids :=
         (case ev_causation ev of
            Cause_Command c \<Rightarrow> insert c (sa_applied_command_ids s)
          | Cause_Event _ \<Rightarrow> sa_applied_command_ids s),
       sa_last_sequence := Some (ev_sequence ev),
       sa_last_event_id := Some (ev_event_id ev)\<rparr>"

definition apply_one ::
  "session_aggregate \<Rightarrow> event_envelope \<Rightarrow> (session_aggregate, replay_error) result" where
  "apply_one s ev =
     and_then (validate_envelope s ev) (\<lambda>_.
     and_then (apply_payload s ev (ev_payload ev)) (\<lambda>t.
     Ok (record_envelope ev t)))"

definition apply_uncommitted_batch ::
  "session_aggregate \<Rightarrow> event_envelope list \<Rightarrow> (session_aggregate, replay_error) result" where
  "apply_uncommitted_batch s events = try_fold apply_one s events"

text \<open>\<open>apply_batch\<close> works on a copy: the caller's aggregate changes only when every event applies.\<close>

definition apply_batch ::
  "session_aggregate \<Rightarrow> event_envelope list \<Rightarrow> session_aggregate \<times> (unit, replay_error) result" where
  "apply_batch s events =
     (case apply_uncommitted_batch s events of
        Ok candidate \<Rightarrow> (candidate, Ok ())
      | Err e \<Rightarrow> (s, Err e)
      | Panic \<Rightarrow> (s, Panic))"

definition rehydrate ::
  "session_id \<Rightarrow> event_envelope list \<Rightarrow> (session_aggregate, replay_error) result" where
  "rehydrate sid events = try_fold apply_one (aggregate_empty sid) events"

end
