(* ===== verification/Aggregate_View.thy ===== *)
theory Aggregate_View
  imports Replay
begin

text \<open>
  The lookup view of the aggregate. The source keeps vectors with index maps beside them; the
  clients only see the lookups \<open>attempt\<close>, \<open>tool_call\<close> and \<open>find_input\<close>. This theory states what ties
  the two together (\<open>indexes_ok\<close>) and describes each write of \<open>apply_one\<close> by its effect on the
  lookups, so that the invariant proofs never index a vector.
\<close>

section \<open>Settled statuses\<close>

lemma attempt_is_settled_simps [simp]:
  "\<not> attempt_is_settled Attempt_Prepared" "\<not> attempt_is_settled Attempt_InFlight"
  "\<not> attempt_is_settled Attempt_AwaitingTools" "\<not> attempt_is_settled Attempt_CancellationRequested"
  "attempt_is_settled Attempt_Completed" "attempt_is_settled Attempt_Failed"
  "attempt_is_settled Attempt_Cancelled" "attempt_is_settled Attempt_Unknown"
  by (simp_all add: attempt_is_settled_def)

lemma tool_is_settled_simps [simp]:
  "\<not> tool_is_settled Tool_Proposed" "\<not> tool_is_settled Tool_PermissionPending"
  "\<not> tool_is_settled Tool_Authorized" "\<not> tool_is_settled Tool_DeniedPending"
  "\<not> tool_is_settled Tool_Running"
  "tool_is_settled Tool_Completed" "tool_is_settled Tool_Failed" "tool_is_settled Tool_Denied"
  "tool_is_settled Tool_Cancelled" "tool_is_settled Tool_Unknown"
  by (simp_all add: tool_is_settled_def)

section \<open>Well-formed indexes\<close>

definition indexes_ok :: "session_aggregate \<Rightarrow> bool" where
  "indexes_ok s \<longleftrightarrow>
     index_ok ap_attempt_id (sa_attempt_indexes s) (sa_attempts s)
     \<and> index_ok tc_id (sa_tool_call_indexes s) (sa_tool_calls s)
     \<and> distinct (map ai_input_id (sa_admitted_inputs s))
     \<and> sa_admitted_input_ids s = ai_input_id ` set (sa_admitted_inputs s)"

lemma indexes_ok_empty: "indexes_ok (aggregate_empty sid)"
  by (simp add: indexes_ok_def aggregate_empty_def)

lemma attempt_id_of: "indexes_ok s \<Longrightarrow> attempt s a = Some p \<Longrightarrow> ap_attempt_id p = a"
  unfolding indexes_ok_def attempt_def by (blast intro: get_index_key)

lemma tool_call_id_of: "indexes_ok s \<Longrightarrow> tool_call s t = Some c \<Longrightarrow> tc_id c = t"
  unfolding indexes_ok_def tool_call_def
  using get_index_key [of tc_id "sa_tool_call_indexes s" "sa_tool_calls s" t c] by blast

lemma attempt_None_iff: "indexes_ok s \<Longrightarrow> attempt s a = None \<longleftrightarrow> sa_attempt_indexes s a = None"
  unfolding indexes_ok_def attempt_def
  using get_index_None_iff [of ap_attempt_id "sa_attempt_indexes s" "sa_attempts s" a] by blast

lemma tool_call_None_iff:
  "indexes_ok s \<Longrightarrow> tool_call s t = None \<longleftrightarrow> sa_tool_call_indexes s t = None"
  unfolding indexes_ok_def tool_call_def
  using get_index_None_iff [of tc_id "sa_tool_call_indexes s" "sa_tool_calls s" t] by blast

lemma attempts_mem: "indexes_ok s \<Longrightarrow> p \<in> set (sa_attempts s) \<longleftrightarrow> attempt s (ap_attempt_id p) = Some p"
  unfolding indexes_ok_def attempt_def by (blast intro: get_index_of_mem get_index_mem)

lemma tool_calls_mem: "indexes_ok s \<Longrightarrow> c \<in> set (sa_tool_calls s) \<longleftrightarrow> tool_call s (tc_id c) = Some c"
  unfolding indexes_ok_def tool_call_def
  using get_index_of_mem [of tc_id "sa_tool_call_indexes s" "sa_tool_calls s" c]
    get_index_mem [of "sa_tool_call_indexes s" "sa_tool_calls s" "tc_id c" c] by blast

lemma has_live_tool_call_iff:
  "indexes_ok s \<Longrightarrow> has_live_tool_call s a \<longleftrightarrow>
     (\<exists>t c. tool_call s t = Some c \<and> tc_attempt_id c = a \<and> \<not> tool_is_settled (tc_status c))"
  unfolding has_live_tool_call_def list_ex_iff
  by (metis tool_calls_mem tool_call_id_of)

lemma find_input_Some: "find_input s i = Some x \<Longrightarrow> x \<in> set (sa_admitted_inputs s) \<and> ai_input_id x = i"
  by (auto simp: find_input_def find_Some_iff)

lemma find_input_None_iff: "indexes_ok s \<Longrightarrow> find_input s i = None \<longleftrightarrow> i \<notin> sa_admitted_input_ids s"
  by (auto simp: indexes_ok_def find_input_def find_None_iff)

lemma inputs_mem:
  assumes "indexes_ok s"
  shows "x \<in> set (sa_admitted_inputs s) \<longleftrightarrow> find_input s (ai_input_id x) = Some x"
proof
  have "\<lbrakk>x \<in> set xs; distinct (map ai_input_id xs)\<rbrakk> \<Longrightarrow>
          find (\<lambda>y. ai_input_id y = ai_input_id x) xs = Some x" for xs
    by (induction xs) (auto simp: rev_image_eqI)
  moreover assume "x \<in> set (sa_admitted_inputs s)"
  ultimately show "find_input s (ai_input_id x) = Some x"
    using assms by (simp add: find_input_def indexes_ok_def)
qed (use find_input_Some in blast)

section \<open>Effects of the writes\<close>

definition set_attempt :: "session_aggregate \<Rightarrow> attempt_id \<Rightarrow> attempt_projection \<Rightarrow> session_aggregate" where
  "set_attempt s a q = s\<lparr>sa_attempts := (sa_attempts s)[the (sa_attempt_indexes s a) := q]\<rparr>"

definition set_tool_call ::
  "session_aggregate \<Rightarrow> tool_call_id \<Rightarrow> tool_call_projection \<Rightarrow> session_aggregate" where
  "set_tool_call s t c = s\<lparr>sa_tool_calls := (sa_tool_calls s)[the (sa_tool_call_indexes s t) := c]\<rparr>"

lemma transition_attempt_Ok:
  assumes "indexes_ok s"
  shows "transition_attempt s ev a allowed f = Ok t \<longleftrightarrow>
           (\<exists>p. attempt s a = Some p \<and> ap_status p \<in> set allowed \<and> t = set_attempt s a (f p))"
  using assms
  by (auto simp: transition_attempt_def set_attempt_def attempt_def get_index_Some indexes_ok_def
      result_simps dest: index_okD)

lemma transition_attempt_no_Panic:
  "indexes_ok s \<Longrightarrow> transition_attempt s ev a allowed f \<noteq> Panic"
  by (auto simp: transition_attempt_def indexes_ok_def result_simps dest: index_okD)

lemma transition_tool_call_Ok:
  assumes "indexes_ok s"
  shows "transition_tool_call s ev t allowed f = Ok s' \<longleftrightarrow>
           (\<exists>c. tool_call s t = Some c \<and> tc_status c \<in> set allowed \<and> s' = set_tool_call s t (f c))"
proof -
  have "i < length (sa_tool_calls s)" if "sa_tool_call_indexes s t = Some i" for i
    using assms that index_okD [of tc_id "sa_tool_call_indexes s" "sa_tool_calls s" t i]
    by (simp add: indexes_ok_def)
  then show ?thesis
    by (auto simp: transition_tool_call_def set_tool_call_def tool_call_def get_index_Some result_simps)
qed

lemma transition_tool_call_no_Panic:
  "indexes_ok s \<Longrightarrow> transition_tool_call s ev t allowed f \<noteq> Panic"
  using index_okD [of tc_id "sa_tool_call_indexes s" "sa_tool_calls s" t]
  by (auto simp: transition_tool_call_def indexes_ok_def result_simps)

lemma set_attempt_sel [simp]:
  "sa_session_id (set_attempt s a q) = sa_session_id s"
  "sa_is_created (set_attempt s a q) = sa_is_created s"
  "sa_title (set_attempt s a q) = sa_title s"
  "sa_is_archived (set_attempt s a q) = sa_is_archived s"
  "sa_selected_model (set_attempt s a q) = sa_selected_model s"
  "sa_admitted_inputs (set_attempt s a q) = sa_admitted_inputs s"
  "sa_admitted_input_ids (set_attempt s a q) = sa_admitted_input_ids s"
  "sa_attempt_indexes (set_attempt s a q) = sa_attempt_indexes s"
  "sa_tool_calls (set_attempt s a q) = sa_tool_calls s"
  "sa_tool_call_indexes (set_attempt s a q) = sa_tool_call_indexes s"
  "sa_context_turn_ids (set_attempt s a q) = sa_context_turn_ids s"
  "sa_applied_event_ids (set_attempt s a q) = sa_applied_event_ids s"
  "sa_applied_command_ids (set_attempt s a q) = sa_applied_command_ids s"
  "sa_last_sequence (set_attempt s a q) = sa_last_sequence s"
  "sa_last_event_id (set_attempt s a q) = sa_last_event_id s"
  "tool_call (set_attempt s a q) = tool_call s"
  "find_input (set_attempt s a q) = find_input s"
  by (auto simp: set_attempt_def tool_call_def find_input_def)

lemma set_tool_call_sel [simp]:
  "sa_session_id (set_tool_call s t c) = sa_session_id s"
  "sa_is_created (set_tool_call s t c) = sa_is_created s"
  "sa_title (set_tool_call s t c) = sa_title s"
  "sa_is_archived (set_tool_call s t c) = sa_is_archived s"
  "sa_selected_model (set_tool_call s t c) = sa_selected_model s"
  "sa_admitted_inputs (set_tool_call s t c) = sa_admitted_inputs s"
  "sa_admitted_input_ids (set_tool_call s t c) = sa_admitted_input_ids s"
  "sa_attempts (set_tool_call s t c) = sa_attempts s"
  "sa_attempt_indexes (set_tool_call s t c) = sa_attempt_indexes s"
  "sa_tool_call_indexes (set_tool_call s t c) = sa_tool_call_indexes s"
  "sa_context_turn_ids (set_tool_call s t c) = sa_context_turn_ids s"
  "sa_applied_event_ids (set_tool_call s t c) = sa_applied_event_ids s"
  "sa_applied_command_ids (set_tool_call s t c) = sa_applied_command_ids s"
  "sa_last_sequence (set_tool_call s t c) = sa_last_sequence s"
  "sa_last_event_id (set_tool_call s t c) = sa_last_event_id s"
  "attempt (set_tool_call s t c) = attempt s"
  "find_input (set_tool_call s t c) = find_input s"
  by (auto simp: set_tool_call_def attempt_def find_input_def)

lemma push_attempt_sel [simp]:
  "sa_session_id (push_attempt s p) = sa_session_id s"
  "sa_is_created (push_attempt s p) = sa_is_created s"
  "sa_title (push_attempt s p) = sa_title s"
  "sa_is_archived (push_attempt s p) = sa_is_archived s"
  "sa_selected_model (push_attempt s p) = sa_selected_model s"
  "sa_admitted_inputs (push_attempt s p) = sa_admitted_inputs s"
  "sa_admitted_input_ids (push_attempt s p) = sa_admitted_input_ids s"
  "sa_tool_calls (push_attempt s p) = sa_tool_calls s"
  "sa_tool_call_indexes (push_attempt s p) = sa_tool_call_indexes s"
  "sa_context_turn_ids (push_attempt s p) = sa_context_turn_ids s"
  "sa_applied_event_ids (push_attempt s p) = sa_applied_event_ids s"
  "sa_applied_command_ids (push_attempt s p) = sa_applied_command_ids s"
  "sa_last_sequence (push_attempt s p) = sa_last_sequence s"
  "sa_last_event_id (push_attempt s p) = sa_last_event_id s"
  "tool_call (push_attempt s p) = tool_call s"
  "find_input (push_attempt s p) = find_input s"
  by (auto simp: push_attempt_def tool_call_def find_input_def)

lemma push_tool_call_sel [simp]:
  "sa_session_id (push_tool_call s c) = sa_session_id s"
  "sa_is_created (push_tool_call s c) = sa_is_created s"
  "sa_title (push_tool_call s c) = sa_title s"
  "sa_is_archived (push_tool_call s c) = sa_is_archived s"
  "sa_selected_model (push_tool_call s c) = sa_selected_model s"
  "sa_admitted_inputs (push_tool_call s c) = sa_admitted_inputs s"
  "sa_admitted_input_ids (push_tool_call s c) = sa_admitted_input_ids s"
  "sa_attempts (push_tool_call s c) = sa_attempts s"
  "sa_attempt_indexes (push_tool_call s c) = sa_attempt_indexes s"
  "sa_context_turn_ids (push_tool_call s c) = sa_context_turn_ids s"
  "sa_applied_event_ids (push_tool_call s c) = sa_applied_event_ids s"
  "sa_applied_command_ids (push_tool_call s c) = sa_applied_command_ids s"
  "sa_last_sequence (push_tool_call s c) = sa_last_sequence s"
  "sa_last_event_id (push_tool_call s c) = sa_last_event_id s"
  "attempt (push_tool_call s c) = attempt s"
  "find_input (push_tool_call s c) = find_input s"
  by (auto simp: push_tool_call_def attempt_def find_input_def)

lemma indexes_ok_set_attempt:
  "\<lbrakk>indexes_ok s; attempt s a = Some p; ap_attempt_id q = a\<rbrakk> \<Longrightarrow> indexes_ok (set_attempt s a q)"
  by (auto simp: indexes_ok_def set_attempt_def attempt_def get_index_Some
      intro!: index_ok_update dest: index_okD)

lemma attempt_set_attempt:
  "\<lbrakk>indexes_ok s; attempt s a = Some p\<rbrakk> \<Longrightarrow> attempt (set_attempt s a q) = (attempt s)(a \<mapsto> q)"
  by (auto simp: fun_eq_iff set_attempt_def attempt_def indexes_ok_def get_index_Some get_index_update)

lemma indexes_ok_set_tool_call:
  assumes "indexes_ok s" "tool_call s t = Some c" "tc_id d = t"
  shows "indexes_ok (set_tool_call s t d)"
  using assms index_okD [of tc_id "sa_tool_call_indexes s" "sa_tool_calls s" t]
    index_ok_update [of tc_id "sa_tool_call_indexes s" "sa_tool_calls s" _ d]
  by (auto simp: indexes_ok_def set_tool_call_def tool_call_def get_index_Some)

lemma tool_call_set_tool_call:
  "\<lbrakk>indexes_ok s; tool_call s t = Some c\<rbrakk> \<Longrightarrow> tool_call (set_tool_call s t d) = (tool_call s)(t \<mapsto> d)"
  using get_index_update [of tc_id "sa_tool_call_indexes s" "sa_tool_calls s" t]
  by (auto simp: fun_eq_iff set_tool_call_def tool_call_def indexes_ok_def get_index_Some)

lemma indexes_ok_push_attempt:
  "\<lbrakk>indexes_ok s; attempt s (ap_attempt_id p) = None\<rbrakk> \<Longrightarrow> indexes_ok (push_attempt s p)"
  by (simp add: attempt_None_iff) (auto simp: indexes_ok_def push_attempt_def intro: index_ok_snoc)

lemma attempt_push_attempt:
  "\<lbrakk>indexes_ok s; attempt s (ap_attempt_id p) = None\<rbrakk> \<Longrightarrow>
     attempt (push_attempt s p) = (attempt s)(ap_attempt_id p \<mapsto> p)"
  by (simp add: attempt_None_iff)
    (auto simp: fun_eq_iff push_attempt_def attempt_def indexes_ok_def get_index_snoc)

lemma indexes_ok_push_tool_call:
  assumes "indexes_ok s" "tool_call s (tc_id c) = None"
  shows "indexes_ok (push_tool_call s c)"
  using assms index_ok_snoc [of tc_id "sa_tool_call_indexes s" "sa_tool_calls s" c]
  by (simp add: tool_call_None_iff) (auto simp: indexes_ok_def push_tool_call_def)

lemma tool_call_push_tool_call:
  assumes "indexes_ok s" "tool_call s (tc_id c) = None"
  shows "tool_call (push_tool_call s c) = (tool_call s)(tc_id c \<mapsto> c)"
  using assms get_index_snoc [of tc_id "sa_tool_call_indexes s" "sa_tool_calls s" c]
  by (simp add: tool_call_None_iff)
    (auto simp: fun_eq_iff push_tool_call_def tool_call_def indexes_ok_def)

end
