(* ===== verification/Aggregate_Inv.thy ===== *)
theory Aggregate_Inv
  imports Aggregate_View
begin

text \<open>
  The invariant of a session aggregate and its preservation by every durable event.

  \<open>attempt_wf\<close> and \<open>tool_wf\<close> are local to one projection: the turn counter against the bound context
  turns, the fields that a status promises, and the permission evidence a tool-call status rests on.
  \<open>links_ok\<close>, \<open>promotion_ok\<close> and \<open>turns_ok\<close> relate projections to each other, \<open>uncreated_ok\<close> says that
  nothing precedes the creation of the session, and \<open>envelope_ok\<close> relates the sequence cursor to the
  set of applied events.
\<close>

section \<open>The invariant\<close>

definition turns_wf :: "context_turn_binding list \<Rightarrow> nat \<Rightarrow> bool \<Rightarrow> run_limits option \<Rightarrow> bool" where
  "turns_wf bs started ready limits \<longleftrightarrow>
     map ctb_run_turn bs = [1..<Suc (length bs)]
     \<and> (length bs = started \<or> length bs = Suc started \<and> ready)
     \<and> length bs \<le> u32_max
     \<and> (\<forall>l. limits = Some l \<longrightarrow> length bs \<le> max_turns l)"

definition attempt_wf :: "attempt_projection \<Rightarrow> bool" where
  "attempt_wf p \<longleftrightarrow>
     turns_wf (ap_context_turn_bindings p) (ap_turns_started p) (ap_provider_dispatch_ready p)
       (ap_run_limits p)
     \<and> (ap_status p = Attempt_Prepared \<longrightarrow>
          ap_context_turn_bindings p = [] \<and> ap_turns_started p = 0 \<and> ap_text p = []
          \<and> ap_usage p = None
          \<and> \<not> ap_provider_dispatch_ready p \<and> ap_started_at p = None)
     \<and> (ap_status p = Attempt_AwaitingTools \<longrightarrow>
          \<not> ap_provider_dispatch_ready p \<and> 0 < ap_turns_started p)
     \<and> (ap_completed_sequence p \<noteq> None \<longleftrightarrow> ap_status p = Attempt_Completed)
     \<and> (ap_failure p \<noteq> None \<longleftrightarrow> ap_status p = Attempt_Failed)
     \<and> (ap_started_at p = None \<longrightarrow> ap_status p \<in> {Attempt_Prepared, Attempt_Failed})"

definition policy_outcome :: "tool_call_projection \<Rightarrow> permission_outcome option" where
  "policy_outcome c = map_option snd (tc_policy_decision c)"

definition human_answer :: "tool_call_projection \<Rightarrow> permission_answer option" where
  "human_answer c = map_option snd (tc_human_answer c)"

definition tool_authorized :: "tool_call_projection \<Rightarrow> bool" where
  "tool_authorized c \<longleftrightarrow>
     policy_outcome c = Some Outcome_Allow \<and> human_answer c = None
     \<or> policy_outcome c = Some Outcome_Ask \<and> human_answer c = Some Answer_AllowOnce"

definition tool_refused :: "tool_call_projection \<Rightarrow> bool" where
  "tool_refused c \<longleftrightarrow>
     policy_outcome c = Some Outcome_Deny \<and> human_answer c = None
     \<or> policy_outcome c = Some Outcome_Ask \<and> human_answer c = Some Answer_Deny"

definition tool_undecided :: "tool_call_projection \<Rightarrow> bool" where
  "tool_undecided c \<longleftrightarrow> policy_outcome c = Some Outcome_Ask \<and> human_answer c = None"

definition tool_unjudged :: "tool_call_projection \<Rightarrow> bool" where
  "tool_unjudged c \<longleftrightarrow> policy_outcome c = None \<and> human_answer c = None"

definition tool_wf :: "tool_call_projection \<Rightarrow> bool" where
  "tool_wf c \<longleftrightarrow>
     (case tc_status c of
        Tool_Proposed \<Rightarrow> tool_unjudged c
      | Tool_PermissionPending \<Rightarrow> tool_undecided c
      | Tool_DeniedPending \<Rightarrow> tool_refused c
      | Tool_Denied \<Rightarrow> tool_refused c
      | Tool_Cancelled \<Rightarrow> \<not> tool_refused c
      | _ \<Rightarrow> tool_authorized c)
     \<and> (tc_output c \<noteq> None \<longleftrightarrow> tc_status c = Tool_Completed)
     \<and> (tc_failure c \<noteq> None \<longleftrightarrow> tc_status c = Tool_Failed)"

definition links_ok :: "session_aggregate \<Rightarrow> bool" where
  "links_ok s \<longleftrightarrow>
     (\<forall>t c. tool_call s t = Some c \<longrightarrow>
        (\<exists>p. attempt s (tc_attempt_id c) = Some p \<and> ap_status p \<noteq> Attempt_Prepared
           \<and> (attempt_is_settled (ap_status p) \<longrightarrow> tool_is_settled (tc_status c))))"

definition retry_link_ok :: "session_aggregate \<Rightarrow> attempt_projection \<Rightarrow> attempt_id \<Rightarrow> bool" where
  "retry_link_ok s p b \<longleftrightarrow>
     (\<exists>q. attempt s b = Some q \<and> can_retry q \<and> ap_input_id q = ap_input_id p \<and> ap_model q = ap_model p)"

definition attempt_promoted :: "session_aggregate \<Rightarrow> attempt_id \<Rightarrow> attempt_projection \<Rightarrow> bool" where
  "attempt_promoted s a p \<longleftrightarrow>
     (\<exists>x. find_input s (ap_input_id p) = Some x
        \<and> (ap_retry_of p = None \<longrightarrow> ai_promoted_by x = Some a)
        \<and> (\<forall>b. ap_retry_of p = Some b \<longrightarrow> ai_promoted_by x \<noteq> None \<and> retry_link_ok s p b))"

definition input_promoted :: "session_aggregate \<Rightarrow> input_id \<Rightarrow> attempt_id \<Rightarrow> bool" where
  "input_promoted s i a \<longleftrightarrow> (\<exists>p. attempt s a = Some p \<and> ap_input_id p = i \<and> ap_retry_of p = None)"

definition promotion_ok :: "session_aggregate \<Rightarrow> bool" where
  "promotion_ok s \<longleftrightarrow>
     (\<forall>a p. attempt s a = Some p \<longrightarrow> attempt_promoted s a p)
     \<and> (\<forall>i x a. find_input s i = Some x \<longrightarrow> ai_promoted_by x = Some a \<longrightarrow> input_promoted s i a)"

definition bound_turn :: "session_aggregate \<Rightarrow> attempt_id \<Rightarrow> nat \<Rightarrow> context_turn_id \<Rightarrow> bool" where
  "bound_turn s a k x \<longleftrightarrow>
     (\<exists>p. attempt s a = Some p \<and> k < length (ap_context_turn_bindings p)
        \<and> ctb_context_turn_id (ap_context_turn_bindings p ! k) = x)"

definition turns_ok :: "session_aggregate \<Rightarrow> bool" where
  "turns_ok s \<longleftrightarrow>
     sa_context_turn_ids s = {x. \<exists>a k. bound_turn s a k x}
     \<and> (\<forall>a k b l x. bound_turn s a k x \<longrightarrow> bound_turn s b l x \<longrightarrow> a = b \<and> k = l)"

definition uncreated_ok :: "session_aggregate \<Rightarrow> bool" where
  "uncreated_ok s \<longleftrightarrow>
     sa_is_created s \<or>
     (sa_title s = None \<and> \<not> sa_is_archived s \<and> sa_selected_model s = None
      \<and> sa_admitted_inputs s = [] \<and> sa_attempts s = [] \<and> sa_tool_calls s = []
      \<and> sa_context_turn_ids s = {})"

definition envelope_ok :: "session_aggregate \<Rightarrow> bool" where
  "envelope_ok s \<longleftrightarrow>
     finite (sa_applied_event_ids s)
     \<and> (case sa_last_sequence s of
          None \<Rightarrow> sa_applied_event_ids s = {} \<and> sa_applied_command_ids s = {}
                  \<and> sa_last_event_id s = None \<and> \<not> sa_is_created s
        | Some n \<Rightarrow> card (sa_applied_event_ids s) = n \<and> n \<le> i64_max \<and> sa_is_created s
                  \<and> (\<exists>e \<in> sa_applied_event_ids s. sa_last_event_id s = Some e))"

definition parts_ok :: "session_aggregate \<Rightarrow> bool" where
  "parts_ok s \<longleftrightarrow>
     indexes_ok s
     \<and> (\<forall>a p. attempt s a = Some p \<longrightarrow> attempt_wf p)
     \<and> (\<forall>t c. tool_call s t = Some c \<longrightarrow> tool_wf c)
     \<and> links_ok s \<and> promotion_ok s \<and> turns_ok s \<and> uncreated_ok s"

definition aggregate_inv :: "session_aggregate \<Rightarrow> bool" where
  "aggregate_inv s \<longleftrightarrow> parts_ok s \<and> envelope_ok s"

lemma parts_okD:
  assumes "parts_ok s"
  shows "indexes_ok s" "links_ok s" "promotion_ok s" "turns_ok s" "uncreated_ok s"
    "attempt s a = Some p \<Longrightarrow> attempt_wf p" "tool_call s t = Some c \<Longrightarrow> tool_wf c"
  using assms by (auto simp: parts_ok_def)

lemma lookups_empty [simp]:
  "attempt (aggregate_empty sid) = Map.empty"
  "tool_call (aggregate_empty sid) = Map.empty"
  "find_input (aggregate_empty sid) = Map.empty"
  by (auto simp: attempt_def tool_call_def find_input_def aggregate_empty_def get_index_def)

lemma aggregate_inv_empty: "aggregate_inv (aggregate_empty sid)"
proof -
  have "turns_ok (aggregate_empty sid)"
    by (simp add: turns_ok_def bound_turn_def) (simp add: aggregate_empty_def)
  moreover have "uncreated_ok (aggregate_empty sid)" "envelope_ok (aggregate_empty sid)"
    by (simp_all add: uncreated_ok_def envelope_ok_def aggregate_empty_def)
  ultimately show ?thesis
    by (simp add: aggregate_inv_def parts_ok_def indexes_ok_empty links_ok_def promotion_ok_def)
qed

section \<open>Consequences\<close>

lemma created_of_attempt: "\<lbrakk>uncreated_ok s; attempt s a = Some p\<rbrakk> \<Longrightarrow> sa_is_created s"
  by (auto simp: uncreated_ok_def attempt_def get_index_Some)

lemma created_of_tool_call: "\<lbrakk>uncreated_ok s; tool_call s t = Some c\<rbrakk> \<Longrightarrow> sa_is_created s"
  by (auto simp: uncreated_ok_def tool_call_def get_index_Some)

lemma last_binding:
  assumes "map ctb_run_turn bs = [1..<Suc (length bs)]" and "bs \<noteq> []"
  shows "ctb_run_turn (last bs) = length bs"
proof -
  have "ctb_run_turn (last bs) = last [1..<Suc (length bs)]"
    by (metis assms last_map)
  then show ?thesis using assms(2) by (cases bs) simp_all
qed

lemma attempt_wf_turns:
  "attempt_wf p \<Longrightarrow>
     turns_wf (ap_context_turn_bindings p) (ap_turns_started p) (ap_provider_dispatch_ready p)
       (ap_run_limits p)"
  by (simp add: attempt_wf_def)

lemma pending_context_turn_iff:
  assumes "attempt_wf p"
  shows "pending_context_turn p \<noteq> None \<longleftrightarrow>
           length (ap_context_turn_bindings p) = Suc (ap_turns_started p)"
proof (cases "ap_context_turn_bindings p = []")
  case False
  note wf = attempt_wf_turns [OF assms, unfolded turns_wf_def]
  from wf have "ctb_run_turn (last (ap_context_turn_bindings p)) = length (ap_context_turn_bindings p)"
    using last_binding [OF _ False] by blast
  moreover from wf have "length (ap_context_turn_bindings p) = ap_turns_started p
      \<or> length (ap_context_turn_bindings p) = Suc (ap_turns_started p)"
    and "length (ap_context_turn_bindings p) \<le> u32_max"
    by blast+
  ultimately show ?thesis
    using False by (auto simp: pending_context_turn_def checked_add_u32_def)
qed (simp add: pending_context_turn_def split: option.splits)

lemma turns_wf_none [simp]: "turns_wf [] 0 r l"
  by (simp add: turns_wf_def)

lemma turns_wf_resume: "turns_wf bs k False l \<Longrightarrow> turns_wf bs k True l"
  by (auto simp: turns_wf_def)

lemma turns_wf_started: "turns_wf bs k r l \<Longrightarrow> length bs = Suc k \<Longrightarrow> turns_wf bs (Suc k) False l"
  unfolding turns_wf_def by blast

lemma turns_wf_bind:
  assumes "turns_wf bs k True l" "length bs = k" "ctb_run_turn b = Suc k" "Suc k \<le> u32_max"
    and "\<And>m. l = Some m \<Longrightarrow> Suc k \<le> max_turns m"
  shows "turns_wf (bs @ [b]) k True l"
proof -
  have "map ctb_run_turn bs = [1..<Suc (length bs)]"
    using assms(1) unfolding turns_wf_def by blast
  then have "map ctb_run_turn (bs @ [b]) = [1..<Suc (length (bs @ [b]))]"
    using assms(2,3) by simp
  then show ?thesis
    unfolding turns_wf_def using assms(2,4,5) by simp
qed

lemma can_retry_settled: "can_retry p \<Longrightarrow> attempt_is_settled (ap_status p)"
  by (auto simp: can_retry_def attempt_is_settled_def split: attempt_status.splits)

section \<open>Preservation by the writes\<close>

text \<open>The relational parts only depend on the lookups.\<close>

lemma promotion_cong:
  "\<lbrakk>attempt t = attempt s; find_input t = find_input s\<rbrakk> \<Longrightarrow> promotion_ok t = promotion_ok s"
  unfolding promotion_ok_def attempt_promoted_def input_promoted_def retry_link_ok_def by simp

lemma turns_cong:
  "\<lbrakk>attempt t = attempt s; sa_context_turn_ids t = sa_context_turn_ids s\<rbrakk> \<Longrightarrow> turns_ok t = turns_ok s"
  unfolding turns_ok_def bound_turn_def by simp

lemma lookups_frame [simp]:
  "attempt (s\<lparr>sa_context_turn_ids := X\<rparr>) = attempt s"
  "tool_call (s\<lparr>sa_context_turn_ids := X\<rparr>) = tool_call s"
  "find_input (s\<lparr>sa_context_turn_ids := X\<rparr>) = find_input s"
  "attempt (s\<lparr>sa_is_created := b\<rparr>) = attempt s"
  "tool_call (s\<lparr>sa_is_created := b\<rparr>) = tool_call s"
  "find_input (s\<lparr>sa_is_created := b\<rparr>) = find_input s"
  "attempt (s\<lparr>sa_is_archived := b\<rparr>) = attempt s"
  "tool_call (s\<lparr>sa_is_archived := b\<rparr>) = tool_call s"
  "find_input (s\<lparr>sa_is_archived := b\<rparr>) = find_input s"
  "attempt (s\<lparr>sa_title := title\<rparr>) = attempt s"
  "tool_call (s\<lparr>sa_title := title\<rparr>) = tool_call s"
  "find_input (s\<lparr>sa_title := title\<rparr>) = find_input s"
  "attempt (s\<lparr>sa_selected_model := m\<rparr>) = attempt s"
  "tool_call (s\<lparr>sa_selected_model := m\<rparr>) = tool_call s"
  "find_input (s\<lparr>sa_selected_model := m\<rparr>) = find_input s"
  "attempt (s\<lparr>sa_admitted_inputs := xs\<rparr>) = attempt s"
  "tool_call (s\<lparr>sa_admitted_inputs := xs\<rparr>) = tool_call s"
  "attempt (s\<lparr>sa_admitted_input_ids := I\<rparr>) = attempt s"
  "tool_call (s\<lparr>sa_admitted_input_ids := I\<rparr>) = tool_call s"
  "find_input (s\<lparr>sa_admitted_input_ids := I\<rparr>) = find_input s"
  "attempt (record_envelope ev s) = attempt s"
  "tool_call (record_envelope ev s) = tool_call s"
  "find_input (record_envelope ev s) = find_input s"
  by (auto simp: attempt_def tool_call_def find_input_def record_envelope_def fun_eq_iff)

text \<open>A transition of one attempt keeps its identity, its place in the retry chain and its bindings.\<close>

definition same_identity :: "attempt_projection \<Rightarrow> attempt_projection \<Rightarrow> bool" where
  "same_identity p q \<longleftrightarrow>
     ap_attempt_id q = ap_attempt_id p \<and> ap_input_id q = ap_input_id p \<and> ap_model q = ap_model p
     \<and> ap_retry_of q = ap_retry_of p"

lemma links_set_attempt:
  assumes "indexes_ok s" "links_ok s" "attempt s a = Some p"
    and "ap_status p \<noteq> Attempt_Prepared \<Longrightarrow> ap_status q \<noteq> Attempt_Prepared"
    and "attempt_is_settled (ap_status q) \<Longrightarrow> \<not> has_live_tool_call s a"
  shows "links_ok (set_attempt s a q)"
  unfolding links_ok_def
proof (intro allI impI)
  fix t c
  assume "tool_call (set_attempt s a q) t = Some c"
  then have c: "tool_call s t = Some c" by simp
  then obtain r where "attempt s (tc_attempt_id c) = Some r" "ap_status r \<noteq> Attempt_Prepared"
    "attempt_is_settled (ap_status r) \<longrightarrow> tool_is_settled (tc_status c)"
    using assms(2) unfolding links_ok_def by blast
  then show "\<exists>p. attempt (set_attempt s a q) (tc_attempt_id c) = Some p
      \<and> ap_status p \<noteq> Attempt_Prepared
      \<and> (attempt_is_settled (ap_status p) \<longrightarrow> tool_is_settled (tc_status c))"
    using assms c by (auto simp: attempt_set_attempt has_live_tool_call_iff)
qed

lemma promotion_set_attempt:
  assumes "indexes_ok s" "promotion_ok s" "attempt s a = Some p"
    and "same_identity p q" and "\<not> attempt_is_settled (ap_status p)"
  shows "promotion_ok (set_attempt s a q)"
proof -
  have link: "retry_link_ok (set_attempt s a q) r b" if "retry_link_ok s r' b"
    "ap_input_id r' = ap_input_id r" "ap_model r' = ap_model r" for r r' b
    using that assms can_retry_settled
    by (auto simp: retry_link_ok_def attempt_set_attempt)
  have attempts: "attempt_promoted (set_attempt s a q) b r"
    if r: "attempt (set_attempt s a q) b = Some r" for b r
  proof -
    obtain r' where "attempt s b = Some r'" and r': "same_identity r' r"
      using assms r by (auto simp: attempt_set_attempt same_identity_def split: if_splits)
    then have "attempt_promoted s b r'" using assms(2) by (simp add: promotion_ok_def)
    then show ?thesis
      using link [of r' _ r] r' by (auto simp: attempt_promoted_def same_identity_def)
  qed
  have "input_promoted (set_attempt s a q) i b" if "input_promoted s i b" for i b
    using that assms by (auto simp: input_promoted_def attempt_set_attempt same_identity_def)
  then show ?thesis using attempts assms(2) by (simp add: promotion_ok_def)
qed

lemma turns_set_attempt:
  assumes "indexes_ok s" "turns_ok s" "attempt s a = Some p"
    and "ap_context_turn_bindings q = ap_context_turn_bindings p"
  shows "turns_ok (set_attempt s a q)"
proof -
  have "bound_turn (set_attempt s a q) b k x \<longleftrightarrow> bound_turn s b k x" for b k x
    using assms by (auto simp: bound_turn_def attempt_set_attempt)
  then show ?thesis using assms(2) by (simp add: turns_ok_def)
qed

lemma uncreated_set_attempt:
  "\<lbrakk>uncreated_ok s; attempt s a = Some p\<rbrakk> \<Longrightarrow> uncreated_ok (set_attempt s a q)"
  using created_of_attempt by (auto simp: uncreated_ok_def)

lemma parts_set_attempt:
  assumes "parts_ok s" "attempt s a = Some p" "same_identity p q" "attempt_wf q"
    and "\<not> attempt_is_settled (ap_status p)"
    and "ap_status p \<noteq> Attempt_Prepared \<Longrightarrow> ap_status q \<noteq> Attempt_Prepared"
    and "attempt_is_settled (ap_status q) \<Longrightarrow> \<not> has_live_tool_call s a"
    and "ap_context_turn_bindings q = ap_context_turn_bindings p"
  shows "parts_ok (set_attempt s a q)"
proof -
  note ok = parts_okD [OF assms(1)]
  have "ap_attempt_id q = a"
    using attempt_id_of [OF ok(1) assms(2)] assms(3) by (simp add: same_identity_def)
  then show ?thesis
    unfolding parts_ok_def
    using ok assms
    by (auto simp: attempt_set_attempt split: if_splits intro!: indexes_ok_set_attempt
        links_set_attempt promotion_set_attempt turns_set_attempt uncreated_set_attempt)
qed

text \<open>Binding a context turn to the next run turn.\<close>

definition new_binding ::
  "nat \<Rightarrow> context_turn_id \<Rightarrow> sha256_digest \<Rightarrow> session_sequence \<Rightarrow> context_turn_binding" where
  "new_binding k x h n =
     \<lparr>ctb_run_turn = k, ctb_context_turn_id = x, ctb_manifest_hash = h, ctb_bound_sequence = n\<rparr>"

lemma turns_bind:
  assumes "indexes_ok s" "turns_ok s" "attempt s a = Some p" "x \<notin> sa_context_turn_ids s"
    and "ap_context_turn_bindings q = ap_context_turn_bindings p @ [b]"
    and "ctb_context_turn_id b = x"
  shows "turns_ok (set_attempt s a q\<lparr>sa_context_turn_ids := insert x (sa_context_turn_ids s)\<rparr>)"
    (is "turns_ok ?t")
proof -
  have lookup: "attempt ?t = (attempt s)(a \<mapsto> q)"
    using attempt_set_attempt [OF assms(1,3), of q] by simp
  have bound: "bound_turn ?t c k y \<longleftrightarrow>
      bound_turn s c k y \<or> c = a \<and> k = length (ap_context_turn_bindings p) \<and> y = x" for c k y
    unfolding bound_turn_def lookup using assms(3,5,6) by (auto simp: nth_append less_Suc_eq)
  have "\<not> bound_turn s c k x" for c k
    using assms(2,4) by (auto simp: turns_ok_def)
  then show ?thesis
    using assms(2) unfolding turns_ok_def bound by auto
qed

lemma parts_bind:
  assumes "parts_ok s" "attempt s a = Some p" "same_identity p q" "attempt_wf q"
    and "ap_status p = Attempt_InFlight" "ap_status q = Attempt_InFlight"
    and "x \<notin> sa_context_turn_ids s"
    and "ap_context_turn_bindings q = ap_context_turn_bindings p @ [b]" "ctb_context_turn_id b = x"
  shows "parts_ok (set_attempt s a q\<lparr>sa_context_turn_ids := insert x (sa_context_turn_ids s)\<rparr>)"
    (is "parts_ok ?t")
proof -
  let ?u = "set_attempt s a q"
  note ok = parts_okD [OF assms(1)]
  have views: "attempt ?t = attempt ?u" "tool_call ?t = tool_call ?u" "find_input ?t = find_input ?u"
    by simp_all
  have id: "ap_attempt_id q = a"
    using attempt_id_of [OF ok(1) assms(2)] assms(3) by (simp add: same_identity_def)
  have live: "\<not> attempt_is_settled (ap_status p)" "\<not> attempt_is_settled (ap_status q)"
    using assms(5,6) by (simp_all add: attempt_is_settled_def)
  have "indexes_ok ?t"
    using indexes_ok_set_attempt [OF ok(1) assms(2) id] by (simp add: indexes_ok_def)
  moreover have "links_ok ?t"
    using links_set_attempt [OF ok(1,2) assms(2), of q] live assms(6) by (simp add: links_ok_def views)
  moreover have "promotion_ok ?t"
    using promotion_set_attempt [OF ok(1,3) assms(2,3) live(1)]
    by (simp add: promotion_cong [OF views(1,3)])
  moreover have "turns_ok ?t"
    using turns_bind [OF ok(1,4) assms(2,7,8,9)] .
  moreover have "uncreated_ok ?t"
    using created_of_attempt [OF ok(5) assms(2)] by (simp add: uncreated_ok_def)
  moreover have "\<forall>c r. attempt ?t c = Some r \<longrightarrow> attempt_wf r"
    using attempt_set_attempt [OF ok(1) assms(2), of q] ok(6) assms(4) by (auto simp: views)
  ultimately show ?thesis using ok(7) by (simp add: parts_ok_def views)
qed

text \<open>A tool call that was just proposed, or whose status changed.\<close>

lemma parts_set_tool_call:
  assumes "parts_ok s" "tool_call s t = Some c" "tool_wf d"
    and "tc_attempt_id d = tc_attempt_id c" "tc_call d = tc_call c"
    and "tool_is_settled (tc_status d) \<or> \<not> tool_is_settled (tc_status c)"
  shows "parts_ok (set_tool_call s t d)"
proof -
  note ok = parts_okD [OF assms(1)]
  have lookup: "tool_call (set_tool_call s t d) = (tool_call s)(t \<mapsto> d)"
    using tool_call_set_tool_call [OF ok(1) assms(2)] .
  have "indexes_ok (set_tool_call s t d)"
    using indexes_ok_set_tool_call [OF ok(1) assms(2)] tool_call_id_of [OF ok(1) assms(2)] assms(5)
    by simp
  moreover have "links_ok (set_tool_call s t d)"
    using ok(2) assms(2,4,6) unfolding links_ok_def lookup
    by (auto split: if_splits)
  moreover have "uncreated_ok (set_tool_call s t d)"
    using created_of_tool_call [OF ok(5) assms(2)] by (simp add: uncreated_ok_def)
  moreover have "promotion_ok (set_tool_call s t d)" "turns_ok (set_tool_call s t d)"
    using ok(3,4) promotion_cong [of "set_tool_call s t d" s] turns_cong [of "set_tool_call s t d" s]
    by simp_all
  ultimately show ?thesis using ok(6,7) assms(3) by (simp add: parts_ok_def lookup)
qed

lemma parts_push_tool_call:
  assumes "parts_ok s" "sa_is_created s" "tool_call s (tc_id c) = None" "tool_wf c"
    and "attempt s (tc_attempt_id c) = Some p" "ap_status p = Attempt_InFlight"
  shows "parts_ok (push_tool_call s c)"
proof -
  note ok = parts_okD [OF assms(1)]
  have lookup: "tool_call (push_tool_call s c) = (tool_call s)(tc_id c \<mapsto> c)"
    using tool_call_push_tool_call [OF ok(1) assms(3)] .
  have "links_ok (push_tool_call s c)"
    using ok(2) assms(5,6) unfolding links_ok_def lookup
    by (auto simp: attempt_is_settled_def split: if_splits)
  moreover have "uncreated_ok (push_tool_call s c)"
    using assms(2) by (simp add: uncreated_ok_def)
  moreover have "promotion_ok (push_tool_call s c)" "turns_ok (push_tool_call s c)"
    using ok(3,4) promotion_cong [of "push_tool_call s c" s] turns_cong [of "push_tool_call s c" s]
    by simp_all
  ultimately show ?thesis
    using ok(6,7) assms(4) indexes_ok_push_tool_call [OF ok(1) assms(3)]
    by (simp add: parts_ok_def lookup)
qed

text \<open>Session metadata.\<close>

lemma parts_meta:
  assumes "parts_ok s" "sa_is_created t"
    and "sa_admitted_inputs t = sa_admitted_inputs s" "sa_admitted_input_ids t = sa_admitted_input_ids s"
    and "sa_attempts t = sa_attempts s" "sa_attempt_indexes t = sa_attempt_indexes s"
    and "sa_tool_calls t = sa_tool_calls s" "sa_tool_call_indexes t = sa_tool_call_indexes s"
    and "sa_context_turn_ids t = sa_context_turn_ids s"
  shows "parts_ok t"
proof -
  have views: "attempt t = attempt s" "tool_call t = tool_call s" "find_input t = find_input s"
    using assms by (simp_all add: attempt_def [abs_def] tool_call_def [abs_def] find_input_def [abs_def])
  then show ?thesis
    using parts_okD [OF assms(1)] promotion_cong [OF views(1,3)] turns_cong [OF views(1) assms(9)]
      assms(2-)
    by (simp add: parts_ok_def links_ok_def uncreated_ok_def indexes_ok_def)
qed

text \<open>Admitting an input.\<close>

lemma parts_admit:
  assumes "parts_ok s" "sa_is_created s" "ai_input_id x \<notin> sa_admitted_input_ids s"
    and "ai_promoted_by x = None"
  shows "parts_ok (s\<lparr>sa_admitted_input_ids := insert (ai_input_id x) (sa_admitted_input_ids s),
                     sa_admitted_inputs := sa_admitted_inputs s @ [x]\<rparr>)"
    (is "parts_ok ?t")
proof -
  note ok = parts_okD [OF assms(1)]
  have "find_input s (ai_input_id x) = None"
    using assms(3) by (simp add: find_input_None_iff [OF ok(1)])
  moreover have find_snoc: "find P (ys @ [y]) =
      (case find P ys of None \<Rightarrow> if P y then Some y else None | Some z \<Rightarrow> Some z)"
    for P and ys :: "admitted_input list" and y
    by (induction ys) auto
  ultimately have find: "find_input ?t = (find_input s)(ai_input_id x \<mapsto> x)"
    by (auto simp: find_input_def find_snoc fun_eq_iff split: option.splits)
  have "indexes_ok ?t"
    using ok(1) assms(3) by (auto simp: indexes_ok_def)
  moreover have "attempt_promoted ?t a p" if "attempt_promoted s a p" for a p
    using that \<open>find_input s (ai_input_id x) = None\<close>
    unfolding attempt_promoted_def find by (auto simp: retry_link_ok_def)
  then have "promotion_ok ?t"
    using ok(3) assms(4) unfolding promotion_ok_def find by (auto simp: input_promoted_def)
  moreover have "turns_ok ?t"
    using ok(4) turns_cong [of ?t s] by simp
  ultimately show ?thesis
    using ok assms(2) by (simp add: parts_ok_def links_ok_def uncreated_ok_def)
qed

text \<open>Preparing an attempt: a first one promotes its input, a retry follows a settled one.\<close>

lemma attempt_wf_new: "attempt_wf (new_attempt a i model retry_of)"
  by (simp add: attempt_wf_def turns_wf_def new_attempt_def)

lemma new_attempt_sel [simp]:
  "ap_attempt_id (new_attempt a i model retry_of) = a"
  "ap_input_id (new_attempt a i model retry_of) = i"
  "ap_model (new_attempt a i model retry_of) = model"
  "ap_retry_of (new_attempt a i model retry_of) = retry_of"
  "ap_status (new_attempt a i model retry_of) = Attempt_Prepared"
  "ap_context_turn_bindings (new_attempt a i model retry_of) = []"
  by (simp_all add: new_attempt_def)

lemma links_push_attempt:
  assumes "indexes_ok s" "links_ok s" "attempt s (ap_attempt_id p) = None"
  shows "links_ok (push_attempt s p)"
  using assms by (fastforce simp: links_ok_def attempt_push_attempt)

lemma turns_push_attempt:
  assumes "indexes_ok s" "turns_ok s" "attempt s (ap_attempt_id p) = None"
    and "ap_context_turn_bindings p = []"
  shows "turns_ok (push_attempt s p)"
proof -
  have "bound_turn (push_attempt s p) b k x \<longleftrightarrow> bound_turn s b k x" for b k x
    using assms by (auto simp: bound_turn_def attempt_push_attempt)
  then show ?thesis using assms(2) by (simp add: turns_ok_def)
qed

lemma parts_retry:
  assumes "parts_ok s" "sa_is_created s" "attempt s a = None"
    and "find_input s i = Some x" "attempt s b = Some prior"
    and "can_retry prior" "ap_input_id prior = i" "ap_model prior = model"
  shows "parts_ok (push_attempt s (new_attempt a i model (Some b)))" (is "parts_ok ?t")
proof -
  note ok = parts_okD [OF assms(1)]
  let ?p = "new_attempt a i model (Some b)"
  have lookup: "attempt ?t = (attempt s)(a \<mapsto> ?p)"
    using attempt_push_attempt [OF ok(1), of ?p] assms(3) by simp
  have "attempt_promoted s b prior"
    using ok(3) assms(5) by (simp add: promotion_ok_def)
  then have promoted: "ai_promoted_by x \<noteq> None"
    using assms(4,7) by (cases "ap_retry_of prior") (auto simp: attempt_promoted_def)
  have link: "retry_link_ok ?t p c" if "retry_link_ok s p c" for p c
    using that assms(3) unfolding retry_link_ok_def lookup by auto
  have "retry_link_ok s ?p b"
    using assms(5-8) by (simp add: retry_link_ok_def)
  then have "attempt_promoted ?t a ?p"
    using link assms(4) promoted by (simp add: attempt_promoted_def)
  moreover have "attempt_promoted ?t c p" if "attempt_promoted s c p" for c p
    using that link by (auto simp: attempt_promoted_def)
  moreover have "input_promoted ?t j c" if "input_promoted s j c" for j c
    using that assms(3) unfolding input_promoted_def lookup by auto
  ultimately have "promotion_ok ?t"
    using ok(3) unfolding promotion_ok_def lookup by auto
  then show ?thesis
    using ok assms(2,3) lookup attempt_wf_new
    by (auto simp: parts_ok_def uncreated_ok_def intro!: indexes_ok_push_attempt links_push_attempt
        turns_push_attempt)
qed

lemma find_update_position:
  assumes "position (\<lambda>x. key x = i) xs = Some n" "key y = i"
  shows "find (\<lambda>x. key x = k) (xs[n := y]) = (if k = i then Some y else find (\<lambda>x. key x = k) xs)"
  using assms by (induction xs arbitrary: n) (auto split: if_splits nat.splits)

lemma indexes_ok_promote:
  assumes "indexes_ok s" "n < length (sa_admitted_inputs s)"
  shows "indexes_ok (s\<lparr>sa_admitted_inputs := (sa_admitted_inputs s)
           [n := (sa_admitted_inputs s ! n)\<lparr>ai_promoted_by := a\<rparr>]\<rparr>)" (is "indexes_ok ?u")
proof -
  have ids: "map ai_input_id (sa_admitted_inputs ?u) = map ai_input_id (sa_admitted_inputs s)"
    using assms(2) by (simp add: map_update) (simp add: list_update_same_conv)
  then have "ai_input_id ` set (sa_admitted_inputs ?u) = ai_input_id ` set (sa_admitted_inputs s)"
    by (metis list.set_map)
  with ids show ?thesis using assms(1) by (simp add: indexes_ok_def)
qed

lemma parts_promote:
  assumes "parts_ok s" "sa_is_created s" "attempt s a = None"
    and n: "position (\<lambda>x. ai_input_id x = i) (sa_admitted_inputs s) = Some n"
    and "ai_promoted_by (sa_admitted_inputs s ! n) = None"
  shows "parts_ok (push_attempt
           (s\<lparr>sa_admitted_inputs := (sa_admitted_inputs s)
               [n := (sa_admitted_inputs s ! n)\<lparr>ai_promoted_by := Some a\<rparr>]\<rparr>)
           (new_attempt a i model None))" (is "parts_ok (push_attempt ?u ?p)")
proof -
  note ok = parts_okD [OF assms(1)]
  let ?x = "sa_admitted_inputs s ! n" and ?t = "push_attempt ?u ?p"
  let ?y = "?x\<lparr>ai_promoted_by := Some a\<rparr>"
  have at_n: "n < length (sa_admitted_inputs s)" "ai_input_id ?x = i" "find_input s i = Some ?x"
    using position_Some [OF n] position_first [OF n] by (simp_all add: find_input_def)
  have find: "find_input ?u = (find_input s)(i \<mapsto> ?y)"
    using find_update_position [of ai_input_id i, OF n, of ?y] at_n(2)
    by (auto simp: find_input_def fun_eq_iff)
  have indexes: "indexes_ok ?u"
    by (rule indexes_ok_promote [OF ok(1) at_n(1)])
  have lookup: "attempt ?t = (attempt s)(a \<mapsto> ?p)"
    using attempt_push_attempt [OF indexes, of ?p] assms(3) by simp
  have link: "retry_link_ok ?t p c" if "retry_link_ok s p c" for p c
    using that assms(3) unfolding retry_link_ok_def lookup by auto
  have "attempt_promoted ?t a ?p"
    using find by (simp add: attempt_promoted_def)
  moreover have "attempt_promoted ?t c p" if "attempt_promoted s c p" for c p
    using that link at_n(3) assms(5) find
    by (cases "ap_retry_of p") (auto simp: attempt_promoted_def)
  moreover have "input_promoted ?t j c" if "input_promoted s j c" for j c
    using that assms(3) unfolding input_promoted_def lookup by auto
  moreover have "input_promoted ?t i a"
    unfolding input_promoted_def lookup by simp
  ultimately have "promotion_ok ?t"
    using ok(3) unfolding promotion_ok_def lookup push_attempt_sel find by auto
  moreover have "turns_ok ?t"
    using ok(4) turns_cong [of ?u s] assms(3) by (simp add: turns_push_attempt [OF indexes])
  moreover have "links_ok ?t"
    using ok(2) assms(3) by (intro links_push_attempt [OF indexes]) (simp_all add: links_ok_def)
  moreover have "indexes_ok ?t"
    using assms(3) by (intro indexes_ok_push_attempt [OF indexes]) simp
  ultimately show ?thesis
    using ok assms(2,3) lookup attempt_wf_new by (auto simp: parts_ok_def uncreated_ok_def)
qed

section \<open>Preservation by the events\<close>

lemma parts_apply_session:
  assumes "parts_ok s" "apply_session s ev p = Ok t"
  shows "parts_ok t"
  using assms
  by (cases p) (auto simp: result_simps require_created_for_replay_def elim!: parts_meta)

lemma parts_apply_prompt:
  assumes "parts_ok s" "apply_prompt s ev p = Ok t"
  shows "parts_ok t"
proof -
  note ok = parts_okD [OF assms(1)]
  have find: "position (\<lambda>x. ai_input_id x = i) (sa_admitted_inputs s) = Some n \<Longrightarrow>
      find_input s i = Some (sa_admitted_inputs s ! n)" for i n
    unfolding find_input_def by (rule position_first)
  show ?thesis
  proof (cases p)
    case (InputAdmitted i pr m)
    let ?x = "\<lparr>ai_input_id = i, ai_prompt = pr, ai_delivery_mode = m, ai_promoted_by = None\<rparr>"
    show ?thesis
      using assms InputAdmitted parts_admit [of s ?x]
      by (simp add: result_simps require_created_for_replay_def)
  next
    case (AttemptPrepared a i model retry_of)
    show ?thesis
    proof (cases retry_of)
      case None
      then show ?thesis
        using assms AttemptPrepared attempt_None_iff [OF ok(1)] parts_promote
        by (auto simp: result_simps require_created_for_replay_def)
    next
      case (Some b)
      then show ?thesis
        using assms AttemptPrepared attempt_None_iff [OF ok(1)] parts_retry find
        by (auto simp: result_simps require_created_for_replay_def)
    qed
  qed (use assms in auto)
qed

lemma parts_transition_attempt:
  assumes "parts_ok s" "transition_attempt s ev a allowed f = Ok t"
    and "\<not> list_ex attempt_is_settled allowed"
    and "\<And>p. attempt s a = Some p \<Longrightarrow> attempt_wf p \<Longrightarrow> ap_status p \<in> set allowed \<Longrightarrow>
           attempt_wf (f p) \<and> same_identity p (f p)
           \<and> ap_context_turn_bindings (f p) = ap_context_turn_bindings p
           \<and> (ap_status (f p) = Attempt_Prepared \<longrightarrow> ap_status p = Attempt_Prepared)
           \<and> (attempt_is_settled (ap_status (f p)) \<longrightarrow> \<not> has_live_tool_call s a)"
  shows "parts_ok t"
proof -
  note ok = parts_okD [OF assms(1)]
  obtain p where p: "attempt s a = Some p" "ap_status p \<in> set allowed" "t = set_attempt s a (f p)"
    using assms(2) by (auto simp: transition_attempt_Ok [OF ok(1)])
  have "\<not> attempt_is_settled (ap_status p)"
    using assms(3) p(2) by (auto simp: list_ex_iff)
  then show ?thesis
    using assms(4) [OF p(1) ok(6) [OF p(1)] p(2)]
      parts_set_attempt [OF assms(1) p(1), of "f p"] p(3) by blast
qed

lemmas attempt_step_simps = attempt_wf_def same_identity_def

lemma parts_apply_attempt:
  assumes "parts_ok s" "apply_attempt s ev p = Ok t"
  shows "parts_ok t"
  using assms
  by (cases p; simp add: result_simps require_replay_attempt_tool_calls_settled_def;
      elim conjE parts_transition_attempt [OF assms(1)]; auto simp: attempt_step_simps)

lemma wf_bind:
  assumes "attempt_wf p" "ap_provider_dispatch_ready p" "ap_status p = Attempt_InFlight"
    and "checked_add_u32 (ap_turns_started p) 1 = Some k" "pending_context_turn p = None"
    and "\<not> exceeds_turn_limit p (Some k)" "ctb_run_turn b = k"
  shows "attempt_wf (p\<lparr>ap_context_turn_bindings := ap_context_turn_bindings p @ [b]\<rparr>)"
proof -
  have k: "k = Suc (ap_turns_started p)" "k \<le> u32_max"
    using assms(4) unfolding checked_add_u32_Some by simp_all
  have n: "length (ap_context_turn_bindings p) = ap_turns_started p"
    using pending_context_turn_iff [OF assms(1)] attempt_wf_turns [OF assms(1)] assms(5)
    unfolding turns_wf_def by blast
  have limit: "k \<le> max_turns l" if "ap_run_limits p = Some l" for l
    using assms(6) that by (simp add: exceeds_turn_limit_def)
  have "turns_wf (ap_context_turn_bindings p @ [b]) (ap_turns_started p) True (ap_run_limits p)"
    by (rule turns_wf_bind [OF _ n])
      (use attempt_wf_turns [OF assms(1)] assms(2,7) k limit in \<open>simp_all del: int_max_values\<close>)
  then show ?thesis
    using assms(1,2,3) unfolding attempt_wf_def by simp
qed

lemma wf_start_turn:
  assumes "attempt_wf p" "ap_status p = Attempt_InFlight"
    and "checked_add_u32 (ap_turns_started p) 1 = Some k" "pending_context_turn p \<noteq> None"
  shows "attempt_wf (p\<lparr>ap_turns_started := k, ap_provider_dispatch_ready := False\<rparr>)"
proof -
  have "k = Suc (ap_turns_started p)"
    using assms(3) unfolding checked_add_u32_Some by simp
  moreover have "length (ap_context_turn_bindings p) = Suc (ap_turns_started p)"
    using pending_context_turn_iff [OF assms(1)] assms(4) by simp
  ultimately show ?thesis
    using assms(1,2) turns_wf_started [OF attempt_wf_turns [OF assms(1)]]
    unfolding attempt_wf_def by simp
qed

lemma apply_bind_Ok:
  assumes "indexes_ok s"
  shows "apply_run s ev (ContextTurnBound a k x h) = Ok t \<longleftrightarrow>
     (\<exists>p. sa_is_created s \<and> x \<notin> sa_context_turn_ids s \<and> attempt s a = Some p
        \<and> ap_status p = Attempt_InFlight \<and> ap_provider_dispatch_ready p
        \<and> checked_add_u32 (ap_turns_started p) 1 = Some k \<and> pending_context_turn p = None
        \<and> \<not> exceeds_turn_limit p (Some k)
        \<and> t = set_attempt s a (p\<lparr>ap_context_turn_bindings :=
                  ap_context_turn_bindings p @ [new_binding k x h (ev_sequence ev)]\<rparr>)
              \<lparr>sa_context_turn_ids := insert x (sa_context_turn_ids s)\<rparr>)"
  unfolding apply_run.simps Let_def new_binding_def
  by (simp add: result_simps transition_attempt_Ok [OF assms] require_created_for_replay_def)
    (auto cong: conj_cong)

lemma parts_apply_bind:
  assumes "parts_ok s" "apply_run s ev (ContextTurnBound a k x h) = Ok t"
  shows "parts_ok t"
proof -
  note ok = parts_okD [OF assms(1)]
  let ?b = "new_binding k x h (ev_sequence ev)"
  have b: "ctb_run_turn ?b = k" "ctb_context_turn_id ?b = x"
    by (simp_all add: new_binding_def)
  obtain p where p: "attempt s a = Some p" "ap_status p = Attempt_InFlight"
    "ap_provider_dispatch_ready p" "checked_add_u32 (ap_turns_started p) 1 = Some k"
    "pending_context_turn p = None" "\<not> exceeds_turn_limit p (Some k)" "x \<notin> sa_context_turn_ids s"
    and t: "t = set_attempt s a
              (p\<lparr>ap_context_turn_bindings := ap_context_turn_bindings p @ [?b]\<rparr>)
              \<lparr>sa_context_turn_ids := insert x (sa_context_turn_ids s)\<rparr>"
    using assms(2) unfolding apply_bind_Ok [OF ok(1)] by blast
  show ?thesis
    unfolding t
    using p(2,7) b wf_bind [OF ok(6) [OF p(1)] p(3,2,4,5,6) b(1)]
    by (intro parts_bind [OF assms(1) p(1)]) (simp_all add: same_identity_def)
qed

lemma parts_apply_run:
  assumes "parts_ok s" "apply_run s ev p = Ok t"
  shows "parts_ok t"
  using assms
proof (cases p)
  case (RunBudgetConfigured a limits)
  then show ?thesis
    using assms by (simp add: result_simps)
      (elim conjE parts_transition_attempt [OF assms(1)];
       auto simp: attempt_step_simps)
next
  case (ContextTurnBound a k x h)
  then show ?thesis using assms parts_apply_bind by blast
next
  case (RunTurnStarted a k)
  then show ?thesis
    using assms by (simp add: result_simps Let_def)
      (elim conjE parts_transition_attempt [OF assms(1)];
       auto simp: same_identity_def wf_start_turn split: option.splits)
next
  case (AttemptPausedForTools a)
  then show ?thesis
    using assms by (simp add: result_simps)
      (elim conjE parts_transition_attempt [OF assms(1)]; auto simp: attempt_step_simps intro: turns_wf_resume)
next
  case (AttemptResumedAfterTools a)
  then show ?thesis
    using assms by (simp add: result_simps)
      (elim conjE parts_transition_attempt [OF assms(1)]; auto simp: attempt_step_simps intro: turns_wf_resume)
qed simp_all

lemma parts_transition_tool_call:
  assumes "parts_ok s" "transition_tool_call s ev a allowed f = Ok t"
    and "\<not> list_ex tool_is_settled allowed"
    and "\<And>c. tool_wf c \<Longrightarrow> tc_status c \<in> set allowed \<Longrightarrow>
           tool_wf (f c) \<and> tc_attempt_id (f c) = tc_attempt_id c \<and> tc_call (f c) = tc_call c"
  shows "parts_ok t"
proof -
  note ok = parts_okD [OF assms(1)]
  obtain c where c: "tool_call s a = Some c" "tc_status c \<in> set allowed" "t = set_tool_call s a (f c)"
    using assms(2) by (auto simp: transition_tool_call_Ok [OF ok(1)])
  have "\<not> tool_is_settled (tc_status c)"
    using assms(3) c(2) by (auto simp: list_ex_iff)
  then show ?thesis
    using assms(4) [OF ok(7) [OF c(1)] c(2)] parts_set_tool_call [OF assms(1) c(1), of "f c"] c(3)
    by blast
qed

lemmas tool_step_simps =
  tool_wf_def policy_outcome_def human_answer_def tool_authorized_def
  tool_refused_def tool_undecided_def tool_unjudged_def

lemma tool_wf_new: "tool_wf (new_tool_call a call)"
  by (simp add: tool_step_simps new_tool_call_def)

lemma parts_apply_tool:
  assumes "parts_ok s" "apply_tool s ev p = Ok t"
  shows "parts_ok t"
  using assms
proof (cases p)
  case (ToolCallProposed a call)
  then show ?thesis
    using assms parts_push_tool_call [OF assms(1), of "new_tool_call a call"] tool_wf_new
      tool_call_None_iff [OF parts_okD(1) [OF assms(1)]]
    by (auto simp: result_simps require_created_for_replay_def new_tool_call_def split: option.splits)
next
  case (ToolPermissionRecorded c d outcome)
  then show ?thesis
    using assms by (cases outcome)
      (simp; elim conjE parts_transition_tool_call [OF assms(1)]; simp add: tool_step_simps)+
next
  case (ToolPermissionAnswered c d answer)
  then show ?thesis
    using assms by (cases answer)
      (simp; elim conjE parts_transition_tool_call [OF assms(1)]; auto simp: tool_step_simps)+
qed (simp add: result_simps Let_def;
     elim conjE parts_transition_tool_call [OF assms(1)]; auto simp: tool_step_simps)+

lemma parts_apply_payload:
  assumes "parts_ok s" "apply_payload s ev p = Ok t"
  shows "parts_ok t"
  using assms(2)
  by (cases p)
    (simp_all only: apply_payload.simps event_payload.case
      parts_apply_session [OF assms(1)] parts_apply_prompt [OF assms(1)]
      parts_apply_attempt [OF assms(1)] parts_apply_run [OF assms(1)] parts_apply_tool [OF assms(1)])

section \<open>The envelope\<close>

definition cursor :: "session_aggregate \<Rightarrow>
    session_id \<times> event_id set \<times> command_id set \<times> session_sequence option \<times> event_id option" where
  "cursor s = (sa_session_id s, sa_applied_event_ids s, sa_applied_command_ids s, sa_last_sequence s,
               sa_last_event_id s)"

lemma cursor_transition_attempt:
  "transition_attempt s ev a allowed f = Ok t \<Longrightarrow> cursor t = cursor s \<and> sa_is_created t = sa_is_created s"
  by (auto simp: transition_attempt_def result_simps cursor_def split: if_splits)

lemma cursor_transition_tool_call:
  "transition_tool_call s ev c allowed f = Ok t \<Longrightarrow>
     cursor t = cursor s \<and> sa_is_created t = sa_is_created s"
  by (auto simp: transition_tool_call_def result_simps cursor_def split: if_splits)

lemma apply_session_cursor:
  "apply_session s ev p = Ok t \<Longrightarrow> cursor t = cursor s \<and> (sa_is_created s \<longrightarrow> sa_is_created t)"
  by (cases p) (auto simp: cursor_def result_simps)

lemma apply_prompt_cursor:
  "apply_prompt s ev p = Ok t \<Longrightarrow> cursor t = cursor s \<and> sa_is_created t = sa_is_created s"
  by (cases p) (auto simp: cursor_def result_simps split: option.splits)

lemma apply_attempt_cursor:
  "apply_attempt s ev p = Ok t \<Longrightarrow> cursor t = cursor s \<and> sa_is_created t = sa_is_created s"
  by (cases p) (auto simp: result_simps dest: cursor_transition_attempt)

lemma apply_run_cursor:
  "apply_run s ev p = Ok t \<Longrightarrow> cursor t = cursor s \<and> sa_is_created t = sa_is_created s"
  by (cases p; simp add: result_simps Let_def; (elim exE conjE)?;
      (drule cursor_transition_attempt)?; hypsubst?; simp add: cursor_def)

lemma apply_tool_cursor:
  "apply_tool s ev p = Ok t \<Longrightarrow> cursor t = cursor s \<and> sa_is_created t = sa_is_created s"
  by (cases p; simp add: result_simps Let_def; (elim exE conjE)?;
      (drule cursor_transition_tool_call)?; hypsubst?; simp add: cursor_def)

lemma apply_payload_cursor:
  assumes "apply_payload s ev p = Ok t"
  shows "cursor t = cursor s"
  using assms
  by (cases p)
    (simp_all only: apply_payload.simps event_payload.case apply_session_cursor apply_prompt_cursor
      apply_attempt_cursor apply_run_cursor apply_tool_cursor)

lemma apply_payload_created:
  assumes "parts_ok s" "apply_payload s ev p = Ok t"
  shows "sa_is_created t"
proof -
  have transition: "sa_is_created s" if "transition_attempt s ev a allowed f = Ok u" for a allowed f u
    using that created_of_attempt [OF parts_okD(5) [OF assms(1)]]
    by (auto simp: transition_attempt_Ok [OF parts_okD(1) [OF assms(1)]])
  have tool: "sa_is_created s" if "transition_tool_call s ev a allowed f = Ok u" for a allowed f u
    using that created_of_tool_call [OF parts_okD(5) [OF assms(1)]]
    by (auto simp: transition_tool_call_Ok [OF parts_okD(1) [OF assms(1)]])
  have "p \<noteq> SessionCreated \<Longrightarrow> sa_is_created s"
    using assms(2)
    by (cases p; simp add: result_simps Let_def require_created_for_replay_def;
        elim exE conjE transition tool)
  moreover have "p = SessionCreated \<Longrightarrow> sa_is_created t"
    using assms(2) by (auto simp: result_simps)
  moreover have "sa_is_created s \<Longrightarrow> sa_is_created t"
    using assms(2)
    by (cases p)
      (simp_all only: apply_payload.simps event_payload.case apply_session_cursor apply_prompt_cursor
        apply_attempt_cursor apply_run_cursor apply_tool_cursor)
  ultimately show ?thesis by blast
qed

lemma apply_one_Ok:
  "apply_one s ev = Ok t \<longleftrightarrow>
     validate_envelope s ev = Ok () \<and>
     (\<exists>u. apply_payload s ev (ev_payload ev) = Ok u \<and> t = record_envelope ev u)"
  unfolding apply_one_def by (auto simp del: apply_payload.simps simp: result_simps)

lemma validate_envelope_Ok:
  "validate_envelope s ev = Ok () \<longleftrightarrow>
     ev_schema_version ev = event_schema_v1 \<and> ev_session_id ev = sa_session_id s
     \<and> ev_event_id ev \<notin> sa_applied_event_ids s
     \<and> (case ev_causation ev of
          Cause_Command c \<Rightarrow> c \<notin> sa_applied_command_ids s
        | Cause_Event e \<Rightarrow> e \<in> sa_applied_event_ids s)
     \<and> expected_sequence s = Ok (ev_sequence ev)"
  unfolding validate_envelope_def by (auto simp: result_simps split: causation.splits)

lemma expected_sequence_Ok:
  "expected_sequence s = Ok n \<longleftrightarrow>
     (case sa_last_sequence s of None \<Rightarrow> n = 1 | Some q \<Rightarrow> n = Suc q \<and> q < i64_max)"
  by (auto simp: expected_sequence_def checked_next_Some sequence_first_def simp del: int_max_values
      split: option.splits)

theorem apply_one_preserves:
  assumes "aggregate_inv s" "apply_one s ev = Ok t"
  shows "aggregate_inv t"
proof -
  obtain u where valid: "validate_envelope s ev = Ok ()"
    and u: "apply_payload s ev (ev_payload ev) = Ok u" and t: "t = record_envelope ev u"
    using assms(2) unfolding apply_one_Ok by blast
  have parts: "parts_ok s" and env: "envelope_ok s"
    using assms(1) by (simp_all add: aggregate_inv_def)
  have cur: "cursor u = cursor s"
    using apply_payload_cursor [OF u] .
  have created: "sa_is_created u"
    using apply_payload_created [OF parts u] .
  have "parts_ok u" using parts_apply_payload [OF parts u] .
  then have "parts_ok t"
    unfolding t by (rule parts_meta) (simp_all add: record_envelope_def created)
  moreover have "Suc 0 \<le> i64_max" by simp
  then have "envelope_ok t"
    using valid env cur created unfolding t validate_envelope_Ok expected_sequence_Ok
    by (auto simp: envelope_ok_def record_envelope_def cursor_def simp del: int_max_values
        split: option.splits)
  ultimately show ?thesis by (simp add: aggregate_inv_def)
qed

end
