(* ===== verification/Decide_Sound.thy ===== *)
theory Decide_Sound
  imports Aggregate_Inv
begin

text \<open>
  Deciding against replaying. \<open>decide\<close> and \<open>apply_one\<close> check the same rules twice, once on commands and
  once on events. On an aggregate that satisfies the invariant neither panics, and every batch that
  \<open>decide\<close> accepts is accepted by \<open>apply_one\<close> under any envelope the engine can give it.
\<close>

section \<open>No panics\<close>

lemma apply_payload_no_Panic:
  assumes "indexes_ok s"
  shows "apply_payload s ev p \<noteq> Panic"
proof -
  note no = transition_attempt_no_Panic [OF assms] transition_tool_call_no_Panic [OF assms]
  have "apply_session s ev p \<noteq> Panic"
    by (cases p) (auto simp: result_simps require_created_for_replay_def)
  moreover have "apply_prompt s ev p \<noteq> Panic"
    by (cases p) (auto simp: result_simps require_created_for_replay_def split: option.splits)
  moreover have "apply_attempt s ev p \<noteq> Panic"
    by (cases p) (auto simp: result_simps require_replay_attempt_tool_calls_settled_def no)
  moreover have "apply_run s ev p \<noteq> Panic"
    by (cases p) (simp_all add: result_simps require_created_for_replay_def Let_def no)
  moreover have "apply_tool s ev p \<noteq> Panic"
    by (cases p) (simp_all add: result_simps require_created_for_replay_def Let_def no)
  ultimately show ?thesis
    by (cases p) (simp_all only: apply_payload.simps event_payload.case not_False_eq_True)
qed

lemma apply_one_no_Panic: "aggregate_inv s \<Longrightarrow> apply_one s ev \<noteq> Panic"
proof -
  assume "aggregate_inv s"
  then have "indexes_ok s" by (simp add: aggregate_inv_def parts_ok_def)
  moreover have "validate_envelope s ev \<noteq> Panic"
    unfolding validate_envelope_def expected_sequence_def
    by (auto simp: result_simps split: causation.splits option.splits)
  ultimately show ?thesis
    unfolding apply_one_def by (simp del: apply_payload.simps add: and_then_Panic apply_payload_no_Panic)
qed

lemmas require_defs =
  require_created_def require_not_archived_def require_attempt_status_def
  require_tool_call_status_def require_attempt_tool_calls_settled_def

lemma decide_no_Panic: "decide s cmd \<noteq> Panic"
proof -
  have "(derive_from_prompt p :: (session_title, command_rejection) result) \<noteq> Panic" for p
  proof -
    have "\<exists>t. (derive_from_prompt p :: (session_title, command_rejection) result) = Ok t"
      by (rule derive_from_prompt_total)
    then show ?thesis by auto
  qed
  then have admit: "admit_prompt_events s i p m \<noteq> Panic" for i p m
    by (auto simp: admit_prompt_events_def result_simps)
  have "decide_session s p \<noteq> Panic" for p
    by (cases p) (auto simp: result_simps require_defs)
  moreover have "decide_prompt s p \<noteq> Panic" for p
    by (cases p) (auto simp: result_simps require_defs admit split: option.splits)
  moreover have "decide_attempt s p \<noteq> Panic" for p
    by (cases p) (auto simp: result_simps require_defs)
  moreover have "decide_run s p \<noteq> Panic" for p
    by (cases p) (auto simp: result_simps require_defs Let_def)
  moreover have "decide_tool s p \<noteq> Panic" for p
    by (cases p) (auto simp: result_simps require_defs)
  ultimately have "decide_payload s p \<noteq> Panic" for p
    by (cases p) (simp_all only: decide_payload.simps command_payload.case not_False_eq_True)
  then show ?thesis
    unfolding decide_def
    by (simp del: decide_payload.simps add: result_simps require_not_archived_def split: if_splits)
qed

section \<open>Accepted commands apply\<close>

lemma require_attempt_status_Ok:
  "require_attempt_status s a allowed = Ok u \<longleftrightarrow>
     (\<exists>p. attempt s a = Some p \<and> ap_status p \<in> set allowed)"
  by (auto simp: require_attempt_status_def result_simps)

lemma require_tool_call_status_Ok:
  "require_tool_call_status s t allowed = Ok u \<longleftrightarrow>
     (\<exists>c. tool_call s t = Some c \<and> tc_status c \<in> set allowed)"
  by (auto simp: require_tool_call_status_def result_simps)

lemmas decide_simps =
  result_simps require_created_def require_not_archived_def require_attempt_status_Ok
  require_tool_call_status_Ok require_attempt_tool_calls_settled_def

lemmas replay_simps =
  require_created_for_replay_def require_replay_attempt_tool_calls_settled_def

lemma session_command_applies:
  assumes "decide_session s c = Ok [p]"
  shows "\<exists>t. apply_payload s ev p = Ok t"
  using assms by (cases c) (auto simp: decide_simps replay_simps)

lemma attempt_command_applies:
  assumes "indexes_ok s" "decide_attempt s c = Ok [p]"
  shows "\<exists>t. apply_payload s ev p = Ok t"
  using assms(2)
  by (cases c; simp add: decide_simps; elim exE conjE; hypsubst?;
      force simp: replay_simps result_simps transition_attempt_Ok [OF assms(1)])

lemma tool_command_applies:
  assumes "parts_ok s" "decide_tool s c = Ok [p]"
  shows "\<exists>t. apply_payload s ev p = Ok t"
proof -
  note ok = parts_okD [OF assms(1)]
  show ?thesis
    using assms(2) created_of_attempt [OF ok(5)]
    by (cases c; simp add: decide_simps; elim exE conjE; hypsubst?;
        force simp: replay_simps result_simps transition_tool_call_Ok [OF ok(1)])
qed

lemma run_command_applies:
  assumes "parts_ok s" "decide_run s c = Ok [p]" "validate_envelope s ev = Ok ()"
  shows "\<exists>t. apply_payload s ev p = Ok t"
proof -
  note ok = parts_okD [OF assms(1)]
  have "checked_next b = Some (ev_sequence ev)" if "sa_last_sequence s = Some b" for b
    using assms(3) that unfolding validate_envelope_Ok expected_sequence_Ok
    by (simp add: checked_next_Some)
  then show ?thesis
    using assms(2) created_of_attempt [OF ok(5)]
    by (cases c; simp add: decide_simps Let_def; elim exE conjE; hypsubst?;
        force simp: replay_simps result_simps transition_attempt_Ok [OF ok(1)] split: option.splits)
qed

section \<open>Batches\<close>

text \<open>
  The envelopes the engine gives the payloads of one command: the first is caused by the command,
  each further one by its predecessor, and sequences are contiguous.
\<close>

fun chained :: "causation \<Rightarrow> session_sequence \<Rightarrow> event_envelope list \<Rightarrow> bool" where
  "chained c n [] = True"
| "chained c n (ev # evs) \<longleftrightarrow>
     ev_schema_version ev = event_schema_v1 \<and> ev_causation ev = c \<and> ev_sequence ev = n \<and> n \<le> i64_max
     \<and> chained (Cause_Event (ev_event_id ev)) (Suc n) evs"

fun batch_ready :: "session_aggregate \<Rightarrow> event_envelope list \<Rightarrow> bool" where
  "batch_ready s [] = True"
| "batch_ready s (ev # evs) \<longleftrightarrow>
     validate_envelope s ev = Ok ()
     \<and> chained (Cause_Event (ev_event_id ev)) (Suc (ev_sequence ev)) evs
     \<and> distinct (map ev_event_id (ev # evs))
     \<and> list_all (\<lambda>e. ev_event_id e \<notin> sa_applied_event_ids s \<and> ev_session_id e = sa_session_id s) evs"

lemma apply_one_cursor:
  assumes "apply_one s ev = Ok t"
  shows "sa_session_id t = sa_session_id s"
    "sa_applied_event_ids t = insert (ev_event_id ev) (sa_applied_event_ids s)"
    "sa_last_sequence t = Some (ev_sequence ev)"
    "sa_last_event_id t = Some (ev_event_id ev)"
    "sa_applied_command_ids t =
       (case ev_causation ev of
          Cause_Command c \<Rightarrow> insert c (sa_applied_command_ids s)
        | Cause_Event _ \<Rightarrow> sa_applied_command_ids s)"
proof -
  obtain u where u: "apply_payload s ev (ev_payload ev) = Ok u" "t = record_envelope ev u"
    using assms unfolding apply_one_Ok by blast
  show "sa_session_id t = sa_session_id s"
    "sa_applied_event_ids t = insert (ev_event_id ev) (sa_applied_event_ids s)"
    "sa_last_sequence t = Some (ev_sequence ev)"
    "sa_last_event_id t = Some (ev_event_id ev)"
    "sa_applied_command_ids t =
       (case ev_causation ev of
          Cause_Command c \<Rightarrow> insert c (sa_applied_command_ids s)
        | Cause_Event _ \<Rightarrow> sa_applied_command_ids s)"
    using apply_payload_cursor [OF u(1)] u(2)
    by (simp_all add: cursor_def record_envelope_def split: causation.splits)
qed

lemma batch_ready_step:
  assumes "batch_ready s (ev # evs)" "apply_one s ev = Ok t"
  shows "batch_ready t evs"
proof (cases evs)
  case (Cons e rest)
  have "validate_envelope t e = Ok ()"
    unfolding validate_envelope_Ok expected_sequence_Ok apply_one_cursor [OF assms(2)]
    using assms(1) Cons by (auto simp del: int_max_values)
  moreover have "list_all (\<lambda>x. ev_event_id x \<notin> sa_applied_event_ids t
      \<and> ev_session_id x = sa_session_id t) rest"
    unfolding apply_one_cursor [OF assms(2)] using assms(1) Cons
    by (auto simp: list_all_iff) (metis imageI)
  ultimately show ?thesis using assms(1) Cons by auto
qed simp

lemma batch_applies_step:
  assumes "batch_ready s (ev # evs)" "apply_payload s ev (ev_payload ev) = Ok u"
    and "\<And>t. \<lbrakk>t = record_envelope ev u; batch_ready t evs\<rbrakk> \<Longrightarrow> \<exists>r. apply_uncommitted_batch t evs = Ok r"
  shows "\<exists>r. apply_uncommitted_batch s (ev # evs) = Ok r"
proof -
  have one: "apply_one s ev = Ok (record_envelope ev u)"
    using assms(1,2) unfolding apply_one_Ok by (simp del: apply_payload.simps)
  show ?thesis
    using assms(3) [OF refl batch_ready_step [OF assms(1) one]] one
    by (simp add: apply_uncommitted_batch_def)
qed

lemma single_applies:
  assumes "batch_ready s evs" "map ev_payload evs = [p]"
    and "\<And>ev. validate_envelope s ev = Ok () \<Longrightarrow> \<exists>t. apply_payload s ev p = Ok t"
  shows "\<exists>r. apply_uncommitted_batch s evs = Ok r"
proof -
  obtain ev where ev: "evs = [ev]" "ev_payload ev = p"
    using assms(2) by auto
  then obtain u where "apply_payload s ev (ev_payload ev) = Ok u"
    using assms(1,3) by (auto simp del: apply_payload.simps)
  then show ?thesis
    using batch_applies_step [of s ev "[]" u] assms(1) ev(1)
    by (simp add: apply_uncommitted_batch_def)
qed

lemma prepare_command_applies:
  assumes "indexes_ok s" "decide_prompt s (PrepareAttempt sid a i retry_of) = Ok ps"
  shows "\<exists>p. ps = [p] \<and> (\<exists>t. apply_payload s ev p = Ok t)"
proof -
  have "\<exists>n. position (\<lambda>x. ai_input_id x = i) (sa_admitted_inputs s) = Some n
        \<and> sa_admitted_inputs s ! n = input" if "find_input s i = Some input" for input
    using that position_None [of "\<lambda>x. ai_input_id x = i" "sa_admitted_inputs s"]
      position_first [of "\<lambda>x. ai_input_id x = i" "sa_admitted_inputs s"]
    by (cases "position (\<lambda>x. ai_input_id x = i) (sa_admitted_inputs s)") (auto simp: find_input_def)
  then show ?thesis
    using assms(2)
    by (cases retry_of) (fastforce simp: decide_simps replay_simps)+
qed

lemma position_snoc_fresh:
  "find P xs = None \<Longrightarrow> P y \<Longrightarrow> position P (xs @ [y]) = Some (length xs)"
  by (induction xs) (auto split: if_splits)

text \<open>
  What the aggregate looks like after the first events of an admission: the input is there, not
  promoted, and nothing that the preparation of its attempt checks has changed.
\<close>

definition admitted_from :: "session_aggregate \<Rightarrow> input_id \<Rightarrow> session_aggregate \<Rightarrow> bool" where
  "admitted_from s i t \<longleftrightarrow>
     sa_is_created t \<and> sa_attempt_indexes t = sa_attempt_indexes s
     \<and> sa_selected_model t = sa_selected_model s
     \<and> (\<exists>n. position (\<lambda>x. ai_input_id x = i) (sa_admitted_inputs t) = Some n
          \<and> ai_promoted_by (sa_admitted_inputs t ! n) = None)"

lemma admit_applies:
  assumes "indexes_ok s" "sa_is_created s" "i \<notin> sa_admitted_input_ids s"
  obtains u where "apply_payload s ev (InputAdmitted i p m) = Ok u"
    "admitted_from s i (record_envelope ev u)"
proof -
  have "find (\<lambda>x. ai_input_id x = i) (sa_admitted_inputs s) = None"
    using find_input_None_iff [OF assms(1), of i] assms(3) by (simp add: find_input_def)
  then show thesis
    using that assms(2,3)
    by (simp add: replay_simps admitted_from_def record_envelope_def position_snoc_fresh)
qed

lemma rename_applies:
  assumes "admitted_from s i t"
  obtains u where "apply_payload t ev (SessionRenamed title) = Ok u"
    "admitted_from s i (record_envelope ev u)"
  using assms that by (simp add: admitted_from_def replay_simps record_envelope_def)

lemma prepare_applies:
  assumes "admitted_from s i t" "sa_attempt_indexes s a = None" "sa_selected_model s = Some model"
  shows "\<exists>u. apply_payload t ev (AttemptPrepared a i model None) = Ok u"
  using assms by (auto simp: admitted_from_def replay_simps)

lemma rest_applies:
  assumes "admitted_from s i t" "batch_ready t evs"
    and "map ev_payload evs \<in> {[], [AttemptPrepared a i model None]}
         \<or> (\<exists>title. map ev_payload evs \<in>
              {[SessionRenamed title], [SessionRenamed title, AttemptPrepared a i model None]})"
    and "AttemptPrepared a i model None \<in> ev_payload ` set evs \<Longrightarrow>
           sa_attempt_indexes s a = None \<and> sa_selected_model s = Some model"
  shows "\<exists>r. apply_uncommitted_batch t evs = Ok r"
proof -
  have prepared: "\<exists>r. apply_uncommitted_batch t' [e] = Ok r"
    if "admitted_from s i t'" "batch_ready t' [e]" "ev_payload e = AttemptPrepared a i model None"
      "e \<in> set evs" for t' e
  proof -
    have "AttemptPrepared a i model None \<in> ev_payload ` set evs"
      using that(3,4) by force
    then show ?thesis
      using single_applies [OF that(2), of "AttemptPrepared a i model None"] that(3)
        prepare_applies [OF that(1)] assms(4) by (simp del: apply_payload.simps)
  qed
  have renamed: "\<exists>r. apply_uncommitted_batch t (e # es) = Ok r"
    if e: "evs = e # es" "ev_payload e = SessionRenamed title"
      and es: "map ev_payload es \<in> {[], [AttemptPrepared a i model None]}" for e es title
  proof -
    obtain u where u: "apply_payload t e (ev_payload e) = Ok u"
      "admitted_from s i (record_envelope e u)"
      using rename_applies [OF assms(1), where title = title] e(2)
      by (auto simp del: apply_payload.simps)
    show ?thesis
    proof (rule batch_applies_step [OF assms(2) [unfolded e(1)] u(1)])
      fix t' assume "t' = record_envelope e u" "batch_ready t' es"
      then show "\<exists>r. apply_uncommitted_batch t' es = Ok r"
        using es u(2) prepared e(1)
        by (auto simp: apply_uncommitted_batch_def map_eq_Cons_conv)
    qed
  qed
  show ?thesis
    using assms(3) renamed prepared assms(1,2)
    by (auto simp: map_eq_Cons_conv) (auto simp: apply_uncommitted_batch_def)
qed

lemma admit_command_applies:
  assumes "indexes_ok s" "sa_is_created s" "i \<notin> sa_admitted_input_ids s"
    and "batch_ready s (ev # evs)" "ev_payload ev = InputAdmitted i p m"
    and "map ev_payload evs \<in> {[], [AttemptPrepared a i model None]}
         \<or> (\<exists>title. map ev_payload evs \<in>
              {[SessionRenamed title], [SessionRenamed title, AttemptPrepared a i model None]})"
    and "AttemptPrepared a i model None \<in> ev_payload ` set evs \<Longrightarrow>
           sa_attempt_indexes s a = None \<and> sa_selected_model s = Some model"
  shows "\<exists>r. apply_uncommitted_batch s (ev # evs) = Ok r"
proof -
  obtain u where u: "apply_payload s ev (ev_payload ev) = Ok u"
    "admitted_from s i (record_envelope ev u)"
    using admit_applies [OF assms(1,2,3), of ev p m] assms(5) by (auto simp del: apply_payload.simps)
  show ?thesis
    by (rule batch_applies_step [OF assms(4) u(1)])
      (use rest_applies [OF u(2) _ assms(6,7)] in blast)
qed

lemma admit_prompt_events_Ok:
  assumes "admit_prompt_events s i p m = Ok ps"
  shows "\<exists>qs. ps = InputAdmitted i p m # qs \<and> (qs = [] \<or> (\<exists>title. qs = [SessionRenamed title]))"
  using assms by (auto simp: admit_prompt_events_def result_simps split: if_splits)

lemma prompt_command_applies:
  assumes "indexes_ok s" "decide_prompt s c = Ok (map ev_payload evs)" "batch_ready s evs" "evs \<noteq> []"
  shows "\<exists>r. apply_uncommitted_batch s evs = Ok r"
proof -
  obtain ev rest where evs: "evs = ev # rest" using assms(4) by (cases evs) auto
  note ready = assms(3) [unfolded evs]
  show ?thesis
    using assms(2) unfolding evs
  proof (cases c)
    case (AdmitPrompt sid i p m)
    then have guards: "sa_is_created s" "i \<notin> sa_admitted_input_ids s"
      and admit: "admit_prompt_events s i p m = Ok (map ev_payload (ev # rest))"
      using assms(2) by (auto simp: decide_simps evs)
    note shape = admit_prompt_events_Ok [OF admit]
    show "\<exists>r. apply_uncommitted_batch s (ev # rest) = Ok r"
      by (rule admit_command_applies [OF assms(1) guards ready, where a = a and model = model for a model])
        (use shape in auto)
  next
    case (AdmitPromptAndPrepareAttempt sid i p m a)
    then obtain model ps where guards: "sa_is_created s" "i \<notin> sa_admitted_input_ids s"
      and model: "sa_attempt_indexes s a = None" "sa_selected_model s = Some model"
      and ps: "admit_prompt_events s i p m = Ok ps"
        "map ev_payload (ev # rest) = ps @ [AttemptPrepared a i model None]"
      using assms(2) by (auto simp: decide_simps evs)
    note shape = admit_prompt_events_Ok [OF ps(1)]
    show "\<exists>r. apply_uncommitted_batch s (ev # rest) = Ok r"
      by (rule admit_command_applies [OF assms(1) guards ready, where a = a and model = model])
        (use shape ps(2) model in auto)
  next
    case (PrepareAttempt sid a i retry_of)
    then obtain p where "map ev_payload evs = [p]" "\<And>ev. \<exists>t. apply_payload s ev p = Ok t"
      using assms(2) prepare_command_applies [OF assms(1), of sid a i retry_of "map ev_payload evs"]
      by (metis list.inject)
    then show "\<exists>r. apply_uncommitted_batch s (ev # rest) = Ok r"
      using single_applies [OF assms(3)] evs by simp
  qed simp_all
qed

lemma decide_nonempty: "decide_payload s c \<noteq> Ok []"
  by (cases c) (auto simp: decide_simps Let_def admit_prompt_events_def split: if_splits option.splits)

lemma decide_at_most_one:
  "decide_session s c = Ok ps \<Longrightarrow> length ps \<le> 1"
  "decide_attempt s c = Ok ps \<Longrightarrow> length ps \<le> 1"
  "decide_run s c = Ok ps \<Longrightarrow> length ps \<le> 1"
  "decide_tool s c = Ok ps \<Longrightarrow> length ps \<le> 1"
  by (cases c; auto simp: decide_simps Let_def)+

lemma decide_payload_cases:
  assumes "decide_payload s c = Ok ps"
  shows "decide_prompt s c = Ok ps \<and> ps \<noteq> [] \<or>
    (\<exists>p. ps = [p] \<and> (decide_session s c = Ok [p] \<or> decide_attempt s c = Ok [p]
        \<or> decide_run s c = Ok [p] \<or> decide_tool s c = Ok [p]))"
proof -
  have ne: "ps \<noteq> []" using assms decide_nonempty by metis
  have "decide_prompt s c = Ok ps \<or> decide_session s c = Ok ps \<or> decide_attempt s c = Ok ps
      \<or> decide_run s c = Ok ps \<or> decide_tool s c = Ok ps"
    using assms by (cases c) (simp_all only: decide_payload.simps command_payload.case simp_thms)
  moreover have "\<exists>p. ps = [p]" if "length ps \<le> 1"
    using that ne by (cases ps) auto
  ultimately show ?thesis using ne decide_at_most_one by metis
qed

lemma decide_Ok:
  "decide s cmd = Ok ps \<longleftrightarrow>
     command_session_id (cmd_payload cmd) = sa_session_id s
     \<and> (is_lifecycle_command (cmd_payload cmd) \<or> \<not> sa_is_archived s)
     \<and> decide_payload s (cmd_payload cmd) = Ok ps"
  unfolding decide_def
  by (auto simp del: decide_payload.simps simp: result_simps require_not_archived_def split: if_splits)

theorem decide_applies:
  assumes inv: "aggregate_inv s" and "decide s cmd = Ok (map ev_payload evs)" and "batch_ready s evs"
  shows "\<exists>t. apply_uncommitted_batch s evs = Ok t"
proof -
  have parts: "parts_ok s" using inv by (simp add: aggregate_inv_def)
  note indexes = parts_okD(1) [OF parts]
  have "decide_payload s (cmd_payload cmd) = Ok (map ev_payload evs)"
    using assms(2) by (simp add: decide_Ok del: decide_payload.simps)
  then consider "decide_prompt s (cmd_payload cmd) = Ok (map ev_payload evs)" "evs \<noteq> []"
    | p where "map ev_payload evs = [p]"
        "decide_session s (cmd_payload cmd) = Ok [p] \<or> decide_attempt s (cmd_payload cmd) = Ok [p]
         \<or> decide_run s (cmd_payload cmd) = Ok [p] \<or> decide_tool s (cmd_payload cmd) = Ok [p]"
    using decide_payload_cases by (metis list.map_disc_iff)
  then show ?thesis
  proof cases
    case 1
    then show ?thesis using prompt_command_applies [OF indexes _ assms(3)] by blast
  next
    case 2
    then show ?thesis
      using single_applies [OF assms(3) 2(1)] session_command_applies
        attempt_command_applies [OF indexes] tool_command_applies [OF parts]
        run_command_applies [OF parts] by metis
  qed
qed

end
