(* ===== verification/Engine.thy ===== *)
theory Engine
  imports Decide_Sound
begin

text \<open>
  The in-memory engine of \<open>autoharness-engine\<close> (\<open>engine.rs\<close>): a map of session aggregates, the
  append-order log of their events and the sets of identities seen so far. The source of event
  identities and times is a trait in Rust: here it is a state \<open>'m\<close> and a function that draws the next
  metadata from it, an argument of every operation that draws. \<open>prepare\<close> draws metadata even when it
  then fails, so it returns the source's state beside its result.
\<close>

section \<open>The model\<close>

record generated_event_metadata =
  gm_event_id :: event_id
  gm_occurred_at :: timestamp_millis

type_synonym 'm metadata_fn = "'m \<Rightarrow> generated_event_metadata \<times> 'm"

datatype engine_error =
    CommandRejected command_rejection
  | EventIdCollision event_id
  | EE_SequenceExhausted session_id
  | InvariantViolation replay_error

fun engine_error_class :: "engine_error \<Rightarrow> error_class" where
  "engine_error_class (CommandRejected source) = rejection_class source"
| "engine_error_class (EventIdCollision _) = Class_Internal"
| "engine_error_class (EE_SequenceExhausted _) = Class_Internal"
| "engine_error_class (InvariantViolation _) = Class_Internal"

record 'm in_memory_engine =
  ime_metadata_source :: 'm
  ime_sessions :: "session_id \<rightharpoonup> session_aggregate"
  ime_events :: "event_envelope list"
  ime_event_ids :: "event_id set"
  ime_command_ids :: "command_id set"

record prepared_command =
  pc_session_id :: session_id
  pc_command_id :: command_id
  pc_expected_last_sequence :: nat
  pc_candidate :: session_aggregate
  pc_events :: "event_envelope list"
  pc_event_ids :: "event_id set"

definition engine_new :: "'m \<Rightarrow> 'm in_memory_engine" where
  "engine_new m =
     \<lparr>ime_metadata_source = m, ime_sessions = Map.empty, ime_events = [], ime_event_ids = {},
      ime_command_ids = {}\<rparr>"

definition session_or_empty :: "'m in_memory_engine \<Rightarrow> session_id \<Rightarrow> session_aggregate" where
  "session_or_empty e sid =
     (case ime_sessions e sid of Some s \<Rightarrow> s | None \<Rightarrow> aggregate_empty sid)"

definition replay_step ::
  "'m in_memory_engine \<Rightarrow> event_envelope \<Rightarrow> ('m in_memory_engine, replay_error) result" where
  "replay_step e ev =
     and_then (ensure (ev_event_id ev \<notin> ime_event_ids e) (RE_DuplicateEventId (ev_event_id ev))) (\<lambda>_.
     and_then (apply_uncommitted_batch (session_or_empty e (ev_session_id ev)) [ev]) (\<lambda>aggregate.
     and_then
       (case ev_causation ev of
          Cause_Command c \<Rightarrow>
            and_then (ensure (c \<notin> ime_command_ids e)
                        (RE_DuplicateCommandCausation (ev_event_id ev) c)) (\<lambda>_.
            Ok (insert c (ime_command_ids e)))
        | Cause_Event _ \<Rightarrow> Ok (ime_command_ids e)) (\<lambda>command_ids.
     Ok (e\<lparr>ime_sessions := (ime_sessions e)(ev_session_id ev \<mapsto> aggregate),
           ime_command_ids := command_ids,
           ime_event_ids := insert (ev_event_id ev) (ime_event_ids e),
           ime_events := ime_events e @ [ev]\<rparr>))))"

definition replay ::
  "'m \<Rightarrow> event_envelope list \<Rightarrow> ('m in_memory_engine, replay_error) result" where
  "replay m events = try_fold replay_step (engine_new m) events"

text \<open>The loop of \<open>prepare\<close> over the payloads, with its mutable variables as arguments.\<close>

fun prepare_events ::
  "'m metadata_fn \<Rightarrow> 'm in_memory_engine \<Rightarrow> session_id \<Rightarrow> command_envelope \<Rightarrow> nat \<Rightarrow> event_payload list
     \<Rightarrow> session_sequence \<Rightarrow> event_id set \<Rightarrow> event_envelope list \<Rightarrow> 'm
     \<Rightarrow> (event_envelope list \<times> event_id set, engine_error) result \<times> 'm" where
  "prepare_events draw e sid cmd index [] next_sequence batch_event_ids events m =
     (Ok (events, batch_event_ids), m)"
| "prepare_events draw e sid cmd index (payload # payloads) next_sequence batch_event_ids events m =
     (case (if index > 0 then checked_next next_sequence else Some next_sequence) of
        None \<Rightarrow> (Err (EE_SequenceExhausted sid), m)
      | Some sequence \<Rightarrow>
          (case draw m of (generated, m') \<Rightarrow>
             if gm_event_id generated \<in> ime_event_ids e \<or> gm_event_id generated \<in> batch_event_ids
             then (Err (EventIdCollision (gm_event_id generated)), m')
             else
               let causation =
                     (if events = [] then Cause_Command (cmd_id cmd)
                      else Cause_Event (ev_event_id (last events)));
                   event = event_new_v1 (gm_event_id generated) sid sequence
                             (gm_occurred_at generated) causation (cmd_correlation_id cmd) payload
               in prepare_events draw e sid cmd (Suc index) payloads sequence
                    (insert (gm_event_id generated) batch_event_ids) (events @ [event]) m'))"

definition prepare ::
  "'m metadata_fn \<Rightarrow> 'm in_memory_engine \<Rightarrow> command_envelope
     \<Rightarrow> (prepared_command, engine_error) result \<times> 'm" where
  "prepare draw e cmd =
     (let sid = command_session_id (cmd_payload cmd);
          current = session_or_empty e sid;
          m = ime_metadata_source e
      in
      if cmd_id cmd \<in> ime_command_ids e
      then (Err (CommandRejected (CR_DuplicateCommand (cmd_id cmd))), m)
      else
        case map_err CommandRejected (decide current cmd) of
          Err x \<Rightarrow> (Err x, m)
        | Panic \<Rightarrow> (Panic, m)
        | Ok payloads \<Rightarrow>
            (case (case sa_last_sequence current of
                     Some q \<Rightarrow> checked_next q | None \<Rightarrow> Some sequence_first) of
               None \<Rightarrow> (Err (EE_SequenceExhausted sid), m)
             | Some next_sequence \<Rightarrow>
                 (case prepare_events draw e sid cmd 0 payloads next_sequence {} [] m of
                    (Err x, m') \<Rightarrow> (Err x, m')
                  | (Panic, m') \<Rightarrow> (Panic, m')
                  | (Ok (events, batch_event_ids), m') \<Rightarrow>
                      (and_then (map_err InvariantViolation
                                   (apply_uncommitted_batch current events)) (\<lambda>candidate.
                       Ok \<lparr>pc_session_id = sid, pc_command_id = cmd_id cmd,
                           pc_expected_last_sequence =
                             (case sa_last_sequence current of None \<Rightarrow> 0 | Some q \<Rightarrow> q),
                           pc_candidate = candidate, pc_events = events,
                           pc_event_ids = batch_event_ids\<rparr>), m'))))"

definition commit_prepared :: "'m in_memory_engine \<Rightarrow> prepared_command \<Rightarrow> 'm in_memory_engine" where
  "commit_prepared e p =
     e\<lparr>ime_sessions := (ime_sessions e)(pc_session_id p \<mapsto> pc_candidate p),
       ime_command_ids := insert (pc_command_id p) (ime_command_ids e),
       ime_event_ids := ime_event_ids e \<union> pc_event_ids p,
       ime_events := ime_events e @ pc_events p\<rparr>"

definition execute ::
  "'m metadata_fn \<Rightarrow> 'm in_memory_engine \<Rightarrow> command_envelope
     \<Rightarrow> (event_envelope list, engine_error) result \<times> 'm in_memory_engine" where
  "execute draw e cmd =
     (case prepare draw e cmd of
        (Ok p, m) \<Rightarrow> (Ok (pc_events p), commit_prepared (e\<lparr>ime_metadata_source := m\<rparr>) p)
      | (Err x, m) \<Rightarrow> (Err x, e\<lparr>ime_metadata_source := m\<rparr>)
      | (Panic, m) \<Rightarrow> (Panic, e\<lparr>ime_metadata_source := m\<rparr>))"

end
