(* ===== verification/Engine_Inv.thy ===== *)
theory Engine_Inv
  imports Engine "HOL-Library.Multiset"
begin

text \<open>
  The invariant of the in-memory engine: its sessions are exactly what replaying its own log gives,
  and its identity sets are exactly the identities of the log. It determines the engine from its log,
  which gives the replay theorems: an engine can be rebuilt from its log, and from every log with the
  same per-session order, such as the one a store returns session by session.
\<close>

section \<open>What a replayed session knows of its log\<close>

definition session_events :: "session_id \<Rightarrow> event_envelope list \<Rightarrow> event_envelope list" where
  "session_events sid evs = filter (\<lambda>ev. ev_session_id ev = sid) evs"

fun command_causes :: "event_envelope list \<Rightarrow> command_id list" where
  "command_causes [] = []"
| "command_causes (ev # evs) =
     (case ev_causation ev of
        Cause_Command c \<Rightarrow> c # command_causes evs | Cause_Event _ \<Rightarrow> command_causes evs)"

lemma session_events_append [simp]:
  "session_events sid (xs @ ys) = session_events sid xs @ session_events sid ys"
  by (simp add: session_events_def)

lemma command_causes_append [simp]: "command_causes (xs @ ys) = command_causes xs @ command_causes ys"
  by (induction xs) (auto split: causation.splits)

definition log_of :: "session_aggregate \<Rightarrow> event_envelope list \<Rightarrow> bool" where
  "log_of s evs \<longleftrightarrow>
     aggregate_inv s
     \<and> list_all (\<lambda>ev. ev_session_id ev = sa_session_id s \<and> ev_schema_version ev = event_schema_v1) evs
     \<and> sa_applied_event_ids s = set (map ev_event_id evs) \<and> distinct (map ev_event_id evs)
     \<and> sa_applied_command_ids s = set (command_causes evs) \<and> distinct (command_causes evs)
     \<and> map ev_sequence evs = [1..<Suc (length evs)]
     \<and> sa_last_sequence s = (if evs = [] then None else Some (length evs))"

lemma log_of_empty: "log_of (aggregate_empty sid) []"
  using aggregate_inv_empty [of sid] unfolding log_of_def by (simp add: aggregate_empty_def)

lemma log_of_snoc:
  assumes "log_of s evs" "apply_one s ev = Ok t"
  shows "log_of t (evs @ [ev])"
proof -
  have valid: "ev_schema_version ev = event_schema_v1" "ev_session_id ev = sa_session_id s"
    "ev_event_id ev \<notin> sa_applied_event_ids s" "expected_sequence s = Ok (ev_sequence ev)"
    "case ev_causation ev of Cause_Command c \<Rightarrow> c \<notin> sa_applied_command_ids s | Cause_Event e \<Rightarrow> True"
    using assms(2) unfolding apply_one_Ok validate_envelope_Ok by (auto split: causation.splits)
  have "ev_sequence ev = Suc (length evs)"
    using assms(1) valid(4) unfolding log_of_def expected_sequence_Ok by (auto split: if_splits)
  then have "map ev_sequence (evs @ [ev]) = [1..<Suc (length (evs @ [ev]))]"
    using assms(1) unfolding log_of_def by simp
  moreover have "aggregate_inv t"
    using apply_one_preserves [OF _ assms(2)] assms(1) unfolding log_of_def by blast
  ultimately show ?thesis
    using assms(1) valid \<open>ev_sequence ev = _\<close> unfolding log_of_def apply_one_cursor [OF assms(2)]
    by (auto split: causation.splits)
qed

lemma log_of_fold:
  assumes "log_of s evs" "try_fold apply_one s later = Ok t"
  shows "log_of t (evs @ later)"
  using assms
proof (induction later arbitrary: s evs)
  case (Cons ev later)
  then obtain u where "apply_one s ev = Ok u" "try_fold apply_one u later = Ok t"
    by (auto simp: result_simps)
  then show ?case using Cons.IH [of u "evs @ [ev]"] log_of_snoc [OF Cons.prems(1)] by simp
qed simp

lemma fold_session_id: "try_fold apply_one s evs = Ok t \<Longrightarrow> sa_session_id t = sa_session_id s"
  by (induction evs arbitrary: s) (auto simp: result_simps apply_one_cursor(1))

lemma rehydrate_log:
  assumes "rehydrate sid evs = Ok s"
  shows "log_of s evs" "sa_session_id s = sid"
  using log_of_fold [OF log_of_empty, of sid evs s] fold_session_id [of "aggregate_empty sid" evs s]
    assms unfolding rehydrate_def by (simp_all add: aggregate_empty_def)

section \<open>The invariant\<close>

definition engine_inv :: "'m in_memory_engine \<Rightarrow> bool" where
  "engine_inv e \<longleftrightarrow>
     (\<forall>sid. rehydrate sid (session_events sid (ime_events e)) = Ok (session_or_empty e sid)
          \<and> (ime_sessions e sid = None \<longleftrightarrow> session_events sid (ime_events e) = []))
     \<and> ime_event_ids e = set (map ev_event_id (ime_events e)) \<and> distinct (map ev_event_id (ime_events e))
     \<and> ime_command_ids e = set (command_causes (ime_events e)) \<and> distinct (command_causes (ime_events e))"

lemma engine_inv_new: "engine_inv (engine_new m)"
  by (simp add: engine_inv_def engine_new_def session_events_def session_or_empty_def rehydrate_def)

lemma engine_inv_session:
  assumes "engine_inv e"
  shows "log_of (session_or_empty e sid) (session_events sid (ime_events e))"
    "sa_session_id (session_or_empty e sid) = sid"
  using assms rehydrate_log [of sid] unfolding engine_inv_def by blast+

lemma engine_inv_determined:
  assumes "engine_inv e" "engine_inv e'" "ime_events e' = ime_events e"
    and "ime_metadata_source e' = ime_metadata_source e"
  shows "e' = e"
proof -
  have "ime_sessions e' sid = ime_sessions e sid" for sid
  proof -
    have "session_or_empty e' sid = session_or_empty e sid"
      using assms unfolding engine_inv_def by (metis result.inject(1))
    moreover have "ime_sessions e' sid = None \<longleftrightarrow> ime_sessions e sid = None"
      using assms unfolding engine_inv_def by metis
    ultimately show ?thesis
      by (auto simp: session_or_empty_def split: option.splits)
  qed
  then have "ime_sessions e' = ime_sessions e" by (rule ext)
  moreover have "ime_event_ids e' = ime_event_ids e" "ime_command_ids e' = ime_command_ids e"
    using assms unfolding engine_inv_def by metis+
  ultimately show ?thesis
    using assms(3,4) by (simp add: in_memory_engine.equality)
qed

text \<open>Appending a batch of one session to an engine.\<close>

lemma engine_inv_append:
  assumes inv: "engine_inv e"
    and apply_batch: "try_fold apply_one (session_or_empty e sid) evs = Ok t" and "evs \<noteq> []"
    and fresh: "set (map ev_event_id evs) \<inter> ime_event_ids e = {}"
      "set (command_causes evs) \<inter> ime_command_ids e = {}"
    and e': "ime_sessions e' = (ime_sessions e)(sid \<mapsto> t)" "ime_events e' = ime_events e @ evs"
      "ime_event_ids e' = ime_event_ids e \<union> set (map ev_event_id evs)"
      "ime_command_ids e' = ime_command_ids e \<union> set (command_causes evs)"
  shows "engine_inv e'"
proof -
  note log = engine_inv_session [OF inv, of sid]
  have t: "log_of t (session_events sid (ime_events e) @ evs)" "sa_session_id t = sid"
    using log_of_fold [OF log(1) apply_batch] fold_session_id [OF apply_batch] log(2) by simp_all
  then have ids: "\<forall>ev \<in> set evs. ev_session_id ev = sid"
    unfolding log_of_def list_all_iff by simp
  then have own: "session_events sid evs = evs" and other: "\<And>sid'. sid' \<noteq> sid \<Longrightarrow> session_events sid' evs = []"
    by (simp_all add: session_events_def filter_empty_conv)
  have "rehydrate other (session_events other (ime_events e')) = Ok (session_or_empty e' other)
      \<and> (ime_sessions e' other = None \<longleftrightarrow> session_events other (ime_events e') = [])" for other
  proof (cases "other = sid")
    case True
    have "rehydrate sid (session_events sid (ime_events e)) = Ok (session_or_empty e sid)"
      using inv by (simp add: engine_inv_def)
    then show ?thesis
      using apply_batch own True assms(3) e' unfolding rehydrate_def
      by (simp add: try_fold_append session_or_empty_def)
  next
    case False
    then show ?thesis
      using inv other e' unfolding engine_inv_def by (simp add: session_or_empty_def)
  qed
  moreover have "distinct (map ev_event_id evs)" "distinct (command_causes evs)"
    using t(1) unfolding log_of_def by simp_all
  ultimately show ?thesis
    using inv fresh e' unfolding engine_inv_def by auto
qed

section \<open>Executing commands\<close>

lemma prepare_events_no_Panic:
  "prepare_events draw e sid cmd index ps n batch evs m \<noteq> (Panic, m')"
  by (induction ps arbitrary: index n batch evs m) (auto simp: Let_def split: option.splits prod.splits)

lemma prepare_events_no_violation:
  "prepare_events draw e sid cmd index ps n batch evs m \<noteq> (Err (InvariantViolation x), m')"
  by (induction ps arbitrary: index n batch evs m) (auto simp: Let_def split: option.splits prod.splits)

definition first_cause :: "command_envelope \<Rightarrow> event_envelope list \<Rightarrow> causation" where
  "first_cause cmd evs =
     (if evs = [] then Cause_Command (cmd_id cmd) else Cause_Event (ev_event_id (last evs)))"

lemma prepare_events_Ok:
  assumes "prepare_events draw e sid cmd (length evs) ps n (set (map ev_event_id evs)) evs m =
             (Ok (all, ids), m')"
    and "distinct (map ev_event_id evs)" "set (map ev_event_id evs) \<inter> ime_event_ids e = {}"
    and "evs = [] \<Longrightarrow> n \<le> i64_max"
  shows "\<exists>new. all = evs @ new \<and> map ev_payload new = ps \<and> ids = set (map ev_event_id all)
           \<and> distinct (map ev_event_id all) \<and> ids \<inter> ime_event_ids e = {}
           \<and> list_all (\<lambda>ev. ev_session_id ev = sid) new
           \<and> chained (first_cause cmd evs) (if evs = [] then n else Suc n) new"
  using assms
proof (induction ps arbitrary: n evs m)
  case (Cons p ps)
  obtain g m1 where drawn: "draw m = (g, m1)" by fastforce
  obtain k where k: "(if length evs > 0 then checked_next n else Some n) = Some k"
    using Cons.prems(1) by (cases "if length evs > 0 then checked_next n else Some n") auto
  let ?ev = "event_new_v1 (gm_event_id g) sid k (gm_occurred_at g) (first_cause cmd evs)
               (cmd_correlation_id cmd) p"
  have fresh: "gm_event_id g \<notin> ime_event_ids e" "gm_event_id g \<notin> set (map ev_event_id evs)"
    using Cons.prems(1) k drawn by (auto split: if_splits)
  have kn: "k = (if evs = [] then n else Suc n)" "k \<le> i64_max"
    using k Cons.prems(4) by (auto simp: checked_next_Some simp del: int_max_values split: if_splits)
  have loop: "prepare_events draw e sid cmd (length (evs @ [?ev])) ps k
          (set (map ev_event_id (evs @ [?ev]))) (evs @ [?ev]) m1 = (Ok (all, ids), m')"
    using Cons.prems(1) k drawn fresh by (simp add: Let_def first_cause_def split: if_splits)
  have "distinct (map ev_event_id (evs @ [?ev]))" "set (map ev_event_id (evs @ [?ev])) \<inter> ime_event_ids e = {}"
    "evs @ [?ev] = [] \<Longrightarrow> k \<le> i64_max"
    using fresh Cons.prems(2,3) by simp_all
  note IH = Cons.IH [OF loop this]
  obtain new where new: "all = (evs @ [?ev]) @ new" "map ev_payload new = ps"
    "ids = set (map ev_event_id all)" "distinct (map ev_event_id all)" "ids \<inter> ime_event_ids e = {}"
    "list_all (\<lambda>ev. ev_session_id ev = sid) new"
    "chained (first_cause cmd (evs @ [?ev])) (if evs @ [?ev] = [] then k else Suc k) new"
    using IH by blast
  have "chained (first_cause cmd evs) (if evs = [] then n else Suc n) (?ev # new)"
    using new(7) kn by (simp add: first_cause_def del: int_max_values)
  then show ?case
    using new by (intro exI [of _ "?ev # new"]) simp
qed simp

lemma chained_event_causes: "chained (Cause_Event x) n evs \<Longrightarrow> command_causes evs = []"
  by (induction evs arbitrary: x n) auto

lemma chained_command_causes: "chained (Cause_Command c) n (ev # evs) \<Longrightarrow> command_causes (ev # evs) = [c]"
  by (auto dest: chained_event_causes)

lemma batch_ready_first:
  assumes inv: "engine_inv e" and "chained (Cause_Command c) n evs"
    and "expected_sequence (session_or_empty e sid) = Ok n" "c \<notin> ime_command_ids e"
    and "distinct (map ev_event_id evs)" "set (map ev_event_id evs) \<inter> ime_event_ids e = {}"
    and "list_all (\<lambda>ev. ev_session_id ev = sid) evs"
  shows "batch_ready (session_or_empty e sid) evs"
proof (cases evs)
  case (Cons ev rest)
  let ?s = "session_or_empty e sid"
  note log = engine_inv_session [OF inv, of sid]
  have ids: "sa_applied_event_ids ?s \<subseteq> ime_event_ids e"
    using log(1) inv unfolding log_of_def engine_inv_def session_events_def by auto
  have "set (command_causes (session_events sid evs)) \<subseteq> set (command_causes evs)" for evs
    by (induction evs) (auto simp: session_events_def split: causation.splits)
  then have "sa_applied_command_ids ?s \<subseteq> ime_command_ids e"
    using log(1) inv unfolding log_of_def engine_inv_def by simp
  then have "validate_envelope ?s ev = Ok ()"
    unfolding validate_envelope_Ok using assms Cons log(2) ids by auto
  moreover have "list_all (\<lambda>x. ev_event_id x \<notin> sa_applied_event_ids ?s
      \<and> ev_session_id x = sa_session_id ?s) rest"
    using assms(6,7) Cons log(2) ids by (auto simp: list_all_iff)
  ultimately show ?thesis
    using assms(2,5) Cons by simp
qed simp

text \<open>Everything the engine relies on when it commits a prepared command.\<close>

definition prepared_ok :: "'m in_memory_engine \<Rightarrow> command_envelope \<Rightarrow> prepared_command \<Rightarrow> bool" where
  "prepared_ok e cmd p \<longleftrightarrow>
     pc_session_id p = command_session_id (cmd_payload cmd) \<and> pc_command_id p = cmd_id cmd
     \<and> cmd_id cmd \<notin> ime_command_ids e
     \<and> decide (session_or_empty e (pc_session_id p)) cmd = Ok (map ev_payload (pc_events p))
     \<and> apply_uncommitted_batch (session_or_empty e (pc_session_id p)) (pc_events p) = Ok (pc_candidate p)
     \<and> pc_events p \<noteq> [] \<and> command_causes (pc_events p) = [cmd_id cmd]
     \<and> pc_event_ids p = set (map ev_event_id (pc_events p)) \<and> pc_event_ids p \<inter> ime_event_ids e = {}
     \<and> pc_expected_last_sequence p =
         length (session_events (pc_session_id p) (ime_events e))
     \<and> chained (Cause_Command (cmd_id cmd)) (Suc (pc_expected_last_sequence p)) (pc_events p)"

lemma next_sequence_iff:
  "(case sa_last_sequence s of Some q \<Rightarrow> checked_next q | None \<Rightarrow> Some sequence_first) = Some n
     \<longleftrightarrow> expected_sequence s = Ok n"
  by (simp add: expected_sequence_def split: option.splits)

lemma expected_sequence_bound:
  assumes "expected_sequence s = Ok n" shows "n \<le> i64_max"
proof -
  have "1 \<le> i64_max" by simp
  then show ?thesis
    using assms unfolding expected_sequence_Ok by (auto simp del: int_max_values split: option.splits)
qed

lemma prepare_cases:
  assumes inv: "engine_inv e" and "prepare draw e cmd = (r, m)"
  shows "r \<noteq> Panic \<and> (\<forall>x. r \<noteq> Err (InvariantViolation x)) \<and> (\<forall>p. r = Ok p \<longrightarrow> prepared_ok e cmd p)"
proof -
  let ?sid = "command_session_id (cmd_payload cmd)"
  let ?s = "session_or_empty e ?sid"
  note log = engine_inv_session [OF inv, of ?sid]
  show ?thesis
  proof (cases "\<exists>ps n evs ids. cmd_id cmd \<notin> ime_command_ids e \<and> decide ?s cmd = Ok ps
      \<and> expected_sequence ?s = Ok n
      \<and> prepare_events draw e ?sid cmd 0 ps n {} [] (ime_metadata_source e) = (Ok (evs, ids), m)")
    case True
    then obtain ps n evs ids where fresh: "cmd_id cmd \<notin> ime_command_ids e"
      and dec: "decide ?s cmd = Ok ps" and n: "expected_sequence ?s = Ok n"
      and loop: "prepare_events draw e ?sid cmd 0 ps n {} [] (ime_metadata_source e) = (Ok (evs, ids), m)"
      by blast
    have evs: "map ev_payload evs = ps" "ids = set (map ev_event_id evs)" "distinct (map ev_event_id evs)"
      "ids \<inter> ime_event_ids e = {}" "list_all (\<lambda>ev. ev_session_id ev = ?sid) evs"
      "chained (Cause_Command (cmd_id cmd)) n evs"
      using prepare_events_Ok [of draw e ?sid cmd "[]" ps n] loop expected_sequence_bound [OF n]
      by (simp_all add: first_cause_def)
    have ne: "evs \<noteq> []"
      using dec evs(1) decide_nonempty by (force simp: decide_Ok simp del: decide_payload.simps)
    have "batch_ready ?s evs"
      using batch_ready_first [OF inv evs(6) n fresh evs(3)] evs(2,4,5) by simp
    then obtain t where t: "apply_uncommitted_batch ?s evs = Ok t"
      using decide_applies [of ?s cmd evs] dec evs(1) log(1) unfolding log_of_def by blast
    have "command_causes evs = [cmd_id cmd]"
      using chained_command_causes evs(6) ne by (cases evs) blast+
    moreover have "(case sa_last_sequence ?s of None \<Rightarrow> 0 | Some q \<Rightarrow> q) =
        length (session_events ?sid (ime_events e))"
      using log(1) unfolding log_of_def by simp
    moreover have "n = Suc (length (session_events ?sid (ime_events e)))"
      using log(1) n unfolding log_of_def expected_sequence_Ok by (auto split: if_splits)
    ultimately show ?thesis
      using assms(2) fresh dec n loop t evs ne next_sequence_iff [of ?s n]
      unfolding prepare_def Let_def prepared_ok_def by auto
  next
    case False
    then show ?thesis
      using assms(2) prepare_events_no_Panic [of draw e ?sid cmd 0]
        prepare_events_no_violation [of draw e ?sid cmd 0] decide_no_Panic [of ?s cmd]
      unfolding prepare_def Let_def next_sequence_iff [symmetric]
      by (auto simp: result_simps split: if_splits result.splits option.splits prod.splits)
  qed
qed

lemma engine_inv_metadata [simp]: "engine_inv (e\<lparr>ime_metadata_source := m\<rparr>) = engine_inv e"
  unfolding engine_inv_def session_or_empty_def by simp

lemma engine_inv_commit:
  assumes "engine_inv e" "prepared_ok e cmd p"
  shows "engine_inv (commit_prepared (e\<lparr>ime_metadata_source := m\<rparr>) p)"
  using assms(2) unfolding prepared_ok_def apply_uncommitted_batch_def
  by (intro engine_inv_append [OF assms(1), of "pc_session_id p" "pc_events p" "pc_candidate p"])
    (auto simp: commit_prepared_def)

lemma execute_Ok:
  assumes "engine_inv e" "execute draw e cmd = (Ok evs, e')"
  obtains p m where "prepared_ok e cmd p" "evs = pc_events p"
    "e' = commit_prepared (e\<lparr>ime_metadata_source := m\<rparr>) p"
proof -
  obtain p m where "prepare draw e cmd = (Ok p, m)" "evs = pc_events p"
    "e' = commit_prepared (e\<lparr>ime_metadata_source := m\<rparr>) p"
    using assms(2) unfolding execute_def by (auto split: prod.splits result.splits)
  then show thesis using prepare_cases [OF assms(1)] that by blast
qed

lemma execute_preserves:
  assumes "engine_inv e" "execute draw e cmd = (r, e')"
  shows "engine_inv e'"
proof (cases r)
  case (Ok evs)
  then show ?thesis
    using execute_Ok [OF assms(1)] assms(2) engine_inv_commit [OF assms(1)] by metis
qed (use assms in \<open>auto simp: execute_def split: prod.splits result.splits\<close>)

section \<open>Replaying logs\<close>

definition history_ok :: "event_envelope list \<Rightarrow> bool" where
  "history_ok evs \<longleftrightarrow>
     distinct (map ev_event_id evs) \<and> distinct (command_causes evs)
     \<and> (\<forall>sid. is_ok (rehydrate sid (session_events sid evs)))"

lemma engine_inv_history: "engine_inv e \<Longrightarrow> history_ok (ime_events e)"
  unfolding engine_inv_def history_ok_def by (auto simp: is_ok_iff)

lemma replay_step_Ok:
  "replay_step e ev = Ok e' \<longleftrightarrow>
     (\<exists>t. ev_event_id ev \<notin> ime_event_ids e
        \<and> apply_one (session_or_empty e (ev_session_id ev)) ev = Ok t
        \<and> set (command_causes [ev]) \<inter> ime_command_ids e = {}
        \<and> e' = e\<lparr>ime_sessions := (ime_sessions e)(ev_session_id ev \<mapsto> t),
                ime_command_ids := ime_command_ids e \<union> set (command_causes [ev]),
                ime_event_ids := insert (ev_event_id ev) (ime_event_ids e),
                ime_events := ime_events e @ [ev]\<rparr>)"
  unfolding replay_step_def apply_uncommitted_batch_def
  by (auto simp: result_simps split: causation.splits)

lemma replay_step_preserves:
  assumes "engine_inv e" "replay_step e ev = Ok e'"
  shows "engine_inv e'" "ime_events e' = ime_events e @ [ev]"
    "ime_metadata_source e' = ime_metadata_source e"
proof -
  obtain t where t: "ev_event_id ev \<notin> ime_event_ids e"
    "apply_one (session_or_empty e (ev_session_id ev)) ev = Ok t"
    "set (command_causes [ev]) \<inter> ime_command_ids e = {}"
    and e': "e' = e\<lparr>ime_sessions := (ime_sessions e)(ev_session_id ev \<mapsto> t),
                ime_command_ids := ime_command_ids e \<union> set (command_causes [ev]),
                ime_event_ids := insert (ev_event_id ev) (ime_event_ids e),
                ime_events := ime_events e @ [ev]\<rparr>"
    using assms(2) unfolding replay_step_Ok by blast
  show "engine_inv e'"
    by (rule engine_inv_append [OF assms(1), of "ev_session_id ev" "[ev]" t])
      (use t in \<open>simp_all add: e'\<close>)
  show "ime_events e' = ime_events e @ [ev]" "ime_metadata_source e' = ime_metadata_source e"
    by (simp_all add: e')
qed

lemma replay_sound:
  assumes "replay m evs = Ok e"
  shows "engine_inv e \<and> ime_events e = evs \<and> ime_metadata_source e = m"
  using assms
proof (induction evs arbitrary: e rule: rev_induct)
  case Nil
  then show ?case using engine_inv_new by (auto simp: replay_def engine_new_def)
next
  case (snoc ev evs)
  then obtain u where "replay m evs = Ok u" "replay_step u ev = Ok e"
    by (auto simp: replay_def try_fold_append result_simps)
  then show ?case using snoc.IH replay_step_preserves by metis
qed

lemma replay_complete:
  assumes "history_ok evs"
  shows "\<exists>e. replay m evs = Ok e"
  using assms
proof (induction evs rule: rev_induct)
  case (snoc ev evs)
  have "history_ok evs"
    using snoc.prems unfolding history_ok_def
    by (auto simp: is_ok_iff rehydrate_def try_fold_append result_simps)
  then obtain e where e: "replay m evs = Ok e" using snoc.IH by blast
  have inv: "engine_inv e" "ime_events e = evs" using replay_sound [OF e] by simp_all
  let ?sid = "ev_session_id ev"
  have "is_ok (rehydrate ?sid (session_events ?sid (evs @ [ev])))"
    using snoc.prems unfolding history_ok_def by blast
  moreover have "rehydrate ?sid (session_events ?sid evs) = Ok (session_or_empty e ?sid)"
    using inv unfolding engine_inv_def by auto
  ultimately obtain t where "apply_one (session_or_empty e ?sid) ev = Ok t"
    by (auto simp: is_ok_iff rehydrate_def try_fold_append session_events_def result_simps)
  then have "\<exists>e'. replay_step e ev = Ok e'"
    using snoc.prems inv unfolding replay_step_Ok history_ok_def engine_inv_def
    by (auto split: causation.splits)
  then show ?case using e by (auto simp: replay_def try_fold_append)
qed (simp add: replay_def)

text \<open>A log with the same order inside every session is a permutation of the same events.\<close>

lemma mset_of_sessions:
  assumes "\<And>sid. session_events sid xs = session_events sid ys"
  shows "mset xs = mset ys"
proof (rule multiset_eqI)
  fix ev
  have count: "count (mset zs) ev = count (mset (session_events (ev_session_id ev) zs)) ev" for zs
    by (simp add: session_events_def)
  show "count (mset xs) ev = count (mset ys) ev"
    using assms [of "ev_session_id ev"] count [of xs] count [of ys] by simp
qed

lemma mset_command_causes: "mset xs = mset ys \<Longrightarrow> mset (command_causes xs) = mset (command_causes ys)"
proof -
  define cause where "cause ev = (case ev_causation ev of Cause_Command c \<Rightarrow> {#c#} | Cause_Event _ \<Rightarrow> {#})"
    for ev :: event_envelope
  have "mset (command_causes zs) = \<Sum>\<^sub># (image_mset cause (mset zs))" for zs
    by (induction zs) (auto simp: cause_def split: causation.splits)
  then show "mset xs = mset ys \<Longrightarrow> ?thesis" by simp
qed

lemma history_ok_interleaving:
  assumes "history_ok xs" "\<And>sid. session_events sid ys = session_events sid xs"
  shows "history_ok ys"
proof -
  have perm: "mset ys = mset xs" using assms(2) by (rule mset_of_sessions)
  then have "mset (map ev_event_id ys) = mset (map ev_event_id xs)" by simp
  then have "distinct (map ev_event_id ys)"
    using mset_eq_imp_distinct_iff assms(1) unfolding history_ok_def by blast
  moreover have "mset (command_causes ys) = mset (command_causes xs)"
    using perm by (rule mset_command_causes)
  then have "distinct (command_causes ys)"
    using mset_eq_imp_distinct_iff assms(1) unfolding history_ok_def by blast
  ultimately show ?thesis
    using assms by (simp add: history_ok_def)
qed

lemma replay_interleaving:
  assumes "engine_inv e" "\<And>sid. session_events sid ys = session_events sid (ime_events e)"
  shows "replay m ys = Ok (e\<lparr>ime_metadata_source := m, ime_events := ys\<rparr>)"
proof -
  have "history_ok ys"
    using history_ok_interleaving [OF engine_inv_history [OF assms(1)] assms(2)] .
  then obtain f where f: "replay m ys = Ok f"
    using replay_complete [of ys m] by auto
  have inv: "engine_inv f" "ime_events f = ys" "ime_metadata_source f = m"
    using replay_sound [OF f] by simp_all
  have perm: "mset ys = mset (ime_events e)" using assms(2) by (rule mset_of_sessions)
  have "engine_inv (e\<lparr>ime_metadata_source := m, ime_events := ys\<rparr>)"
  proof -
    have "set ys = set (ime_events e)" using perm by (rule mset_eq_setD)
    moreover have "set (command_causes ys) = set (command_causes (ime_events e))"
      using mset_command_causes [OF perm] by (rule mset_eq_setD)
    ultimately show ?thesis
      using assms inv(1,2) unfolding engine_inv_def by (simp add: session_or_empty_def)
  qed
  then show ?thesis
    using engine_inv_determined [OF _ inv(1)] inv(2,3) f by simp
qed

end
