(* ===== verification/Domain_Memory.thy ===== *)
theory Domain_Memory
  imports Domain_Types "HOL-Library.List_Lexorder"
begin

text \<open>
  The values of durable memory (\<open>autoharness-domain\<close>: \<open>memory.rs\<close>) that tools, ranking and context
  construction use. Identities that the code sorts by are ordered as their text is: the order of the
  UTF-8 bytes of a string is the lexicographic order of its code points.
\<close>

section \<open>Identifiers\<close>

datatype user_id = UserId ustring
datatype workspace_id = WorkspaceId ustring
datatype agent_id = AgentId ustring
datatype memory_id = MemoryId (memory_id_str: ustring)
datatype memory_revision_id = MemoryRevisionId (revision_str: ustring)

instantiation memory_id :: linorder
begin

definition less_eq_memory_id :: "memory_id \<Rightarrow> memory_id \<Rightarrow> bool" where
  "less_eq_memory_id a b \<longleftrightarrow> memory_id_str a \<le> memory_id_str b"

definition less_memory_id :: "memory_id \<Rightarrow> memory_id \<Rightarrow> bool" where
  "less_memory_id a b \<longleftrightarrow> memory_id_str a < memory_id_str b"

instance
  by standard (auto simp: less_eq_memory_id_def less_memory_id_def memory_id.expand)

end

instantiation memory_revision_id :: linorder
begin

definition less_eq_memory_revision_id :: "memory_revision_id \<Rightarrow> memory_revision_id \<Rightarrow> bool" where
  "less_eq_memory_revision_id a b \<longleftrightarrow> revision_str a \<le> revision_str b"

definition less_memory_revision_id :: "memory_revision_id \<Rightarrow> memory_revision_id \<Rightarrow> bool" where
  "less_memory_revision_id a b \<longleftrightarrow> revision_str a < revision_str b"

instance
  by standard (auto simp: less_eq_memory_revision_id_def less_memory_revision_id_def
      memory_revision_id.expand)

end

section \<open>Values\<close>

datatype memory_content = MemoryContent (content_str: ustring)
datatype memory_kind = Kind_Fact | Kind_Preference | Kind_Constraint | Kind_Lesson | Kind_Procedure
datatype sensitivity = Sens_Public | Sens_Internal | Sens_Sensitive | Sens_Secret

definition memory_content_max_bytes :: nat where "memory_content_max_bytes = 16384"

definition memory_content_new :: "ustring \<Rightarrow> (memory_content, value_error) result" where
  "memory_content_new value =
     and_then (ensure (\<not> trim_is_empty value) EmptyMemoryContent) (\<lambda>_.
     and_then (ensure (str_len value \<le> memory_content_max_bytes) MemoryContentTooLong) (\<lambda>_.
     Ok (MemoryContent value)))"

text \<open>Bytes of a string of ASCII characters are its characters.\<close>

fun digest_str :: "sha256_digest \<Rightarrow> ustring" where "digest_str (Sha256Digest s) = s"

definition sha256_digest_new :: "ustring \<Rightarrow> (sha256_digest, value_error) result" where
  "sha256_digest_new value =
     (if str_len value \<noteq> 64
         \<or> \<not> list_all (\<lambda>b. (48 \<le> b \<and> b \<le> 57) \<or> (97 \<le> b \<and> b \<le> 102)) value
      then Err InvalidSha256Digest else Ok (Sha256Digest value))"

datatype confidence = ConfidenceBasisPoints (confidence_get: nat)

definition confidence_max :: nat where "confidence_max = 10000"

definition confidence_new :: "nat \<Rightarrow> (confidence, value_error) result" where
  "confidence_new value =
     (if value > confidence_max then Err ConfidenceOutOfRange else Ok (ConfidenceBasisPoints value))"

datatype memory_scope =
    Scope_User user_id | Scope_In_Workspace workspace_id | Scope_In_Session session_id | Scope_Agent agent_id

datatype trust_class = UserApproved | VerifiedObservation | Imported | UntrustedProposal

datatype memory_revision_status =
    Rev_Proposed | Rev_Active | Rev_Superseded | Rev_Rejected | Rev_Retracted | Rev_Deleted

record validity_window =
  vw_valid_from :: timestamp_millis
  vw_valid_until :: timestamp_millis

definition validity_window_new :: "timestamp_millis \<Rightarrow> timestamp_millis \<Rightarrow> (validity_window, value_error) result" where
  "validity_window_new valid_from valid_until =
     (if valid_until \<le> valid_from then Err InvalidMemoryValidity
      else Ok \<lparr>vw_valid_from = valid_from, vw_valid_until = valid_until\<rparr>)"

datatype memory_validity =
    Indefinite | Valid_From timestamp_millis | Valid_Until timestamp_millis | Valid_Window validity_window

end
