(* ===== verification/Store_Port.thy ===== *)
theory Store_Port
  imports Engine_Inv Domain_Memory
begin

text \<open>
  The port between the engine and durable storage (\<open>autoharness-store\<close>): the append request and
  receipt, the store's errors and their classification, the session summary, and, as a locale, what
  the durable engine relies on of any store. The locale's abstraction is the log: the events of the
  store in the order they were committed.
\<close>

section \<open>Errors\<close>

datatype identity_kind =
    IK_Event | IK_Command | IK_Input | IK_Attempt | IK_Memory | IK_MemoryRevision
  | IK_MemoryOperation | IK_ContextEpoch | IK_ContextTurn | IK_ContextAdmission | IK_Constraint

datatype corruption_area =
    CA_Event | CA_EventSequence | CA_SessionProjection | CA_InputProjection | CA_AttemptProjection
  | CA_TranscriptProjection | CA_CatalogCache | CA_MigrationHistory | CA_MemoryLedger
  | CA_MemoryProjection | CA_ContextLedger | CA_MemorySearch

datatype store_error =
    SE_EmptyAppend | SE_MixedSessions | SE_SequenceOutOfRange | SE_NonContiguousBatch
  | SE_InvalidCausation | SE_InvalidSessionTransition | SE_InvalidMemoryTransition
  | SE_InvalidContextTransition | SE_LimitExceeded
  | SE_UnsupportedEventSchema nat | SE_UnsupportedMemorySchema nat
  | SE_VersionConflict session_id nat nat
  | SE_MemoryVersionConflict memory_id nat nat
  | SE_ContextGenerationConflict nat nat
  | SE_IdentityConflict identity_kind
  | SE_CorruptData corruption_area
  | SE_Busy | SE_NewerSchema nat nat | SE_Configuration | SE_Migration | SE_Backend

fun store_error_class :: "store_error \<Rightarrow> error_class" where
  "store_error_class (SE_VersionConflict _ _ _) = Class_Conflict"
| "store_error_class (SE_MemoryVersionConflict _ _ _) = Class_Conflict"
| "store_error_class (SE_ContextGenerationConflict _ _) = Class_Conflict"
| "store_error_class (SE_IdentityConflict _) = Class_Conflict"
| "store_error_class SE_Busy = Class_Unavailable"
| "store_error_class (SE_CorruptData _) = Class_Storage"
| "store_error_class (SE_NewerSchema _ _) = Class_Storage"
| "store_error_class SE_Configuration = Class_Storage"
| "store_error_class SE_Migration = Class_Storage"
| "store_error_class SE_Backend = Class_Storage"
| "store_error_class _ = Class_Validation"

fun store_error_retry_advice :: "store_error \<Rightarrow> retry_advice" where
  "store_error_retry_advice (SE_VersionConflict _ _ _) = Retry_Immediate"
| "store_error_retry_advice (SE_MemoryVersionConflict _ _ _) = Retry_Immediate"
| "store_error_retry_advice (SE_ContextGenerationConflict _ _) = Retry_Immediate"
| "store_error_retry_advice SE_Busy = Retry_Backoff"
| "store_error_retry_advice _ = Retry_Never"

section \<open>Requests, receipts and summaries\<close>

record append_request =
  rq_session_id :: session_id
  rq_expected_last_sequence :: nat
  rq_events :: "event_envelope list"

datatype append_disposition = Committed | AlreadyCommitted

record append_receipt =
  rc_disposition :: append_disposition
  rc_last_sequence :: nat

datatype session_status = Status_Active | Status_Archived

record session_summary =
  sum_session_id :: session_id
  sum_status :: session_status
  sum_title :: "session_title option"
  sum_selected_model :: "model_ref option"
  sum_message_count :: nat
  sum_last_sequence :: session_sequence
  sum_created_at :: timestamp_millis
  sum_updated_at :: timestamp_millis

definition default_event_page_size :: nat where "default_event_page_size = 512"

section \<open>What the engine relies on\<close>

text \<open>
  \<open>batch_fits log req\<close>: the batch continues the session's log at the expected version, with event and
  command identities that are new to the whole log.
\<close>

definition batch_fits :: "event_envelope list \<Rightarrow> append_request \<Rightarrow> bool" where
  "batch_fits log req \<longleftrightarrow>
     length (session_events (rq_session_id req) log) = rq_expected_last_sequence req
     \<and> list_all (\<lambda>ev. ev_session_id ev = rq_session_id req) (rq_events req)
     \<and> map ev_sequence (rq_events req) =
         [Suc (rq_expected_last_sequence req)..<Suc (rq_expected_last_sequence req + length (rq_events req))]
     \<and> distinct (map ev_event_id (log @ rq_events req))
     \<and> distinct (command_causes (log @ rq_events req))"

text \<open>\<open>log_wf log\<close>: identities are unique and every session is numbered 1, 2, ... in commit order.\<close>

definition log_wf :: "event_envelope list \<Rightarrow> bool" where
  "log_wf log \<longleftrightarrow>
     distinct (map ev_event_id log) \<and> distinct (command_causes log)
     \<and> (\<forall>sid. map ev_sequence (session_events sid log) = [1..<Suc (length (session_events sid log))])"

locale session_store =
  fixes append :: "'s \<Rightarrow> append_request \<Rightarrow> (append_receipt, store_error) result \<times> 's"
    and load_events :: "'s \<Rightarrow> session_id \<Rightarrow> nat \<Rightarrow> nat \<Rightarrow> (event_envelope list, store_error) result"
    and list_sessions :: "'s \<Rightarrow> (session_summary list, store_error) result"
    and store_inv :: "'s \<Rightarrow> bool"
    and store_log :: "'s \<Rightarrow> event_envelope list"
  assumes log_well_formed: "store_inv s \<Longrightarrow> log_wf (store_log s)"
    and append_keeps_inv: "\<lbrakk>store_inv s; append s req = (r, s')\<rbrakk> \<Longrightarrow> store_inv s'"
    and append_commits: "\<lbrakk>store_inv s; append s req = (Ok rc, s'); rc_disposition rc = Committed\<rbrakk> \<Longrightarrow>
          batch_fits (store_log s) req \<and> store_log s' = store_log s @ rq_events req
          \<and> rc_last_sequence rc = rq_expected_last_sequence req + length (rq_events req)"
    and append_reconciles: "\<lbrakk>store_inv s; append s req = (Ok rc, s'); rc_disposition rc = AlreadyCommitted\<rbrakk> \<Longrightarrow>
          store_log s' = store_log s \<and> set (rq_events req) \<subseteq> set (store_log s)
          \<and> list_all (\<lambda>ev. ev_session_id ev = rq_session_id req) (rq_events req)
          \<and> rc_last_sequence rc = length (session_events (rq_session_id req) (store_log s))"
    and append_fails: "\<lbrakk>store_inv s; append s req = (Err x, s')\<rbrakk> \<Longrightarrow>
          store_log s' = store_log s
          \<or> batch_fits (store_log s) req \<and> store_log s' = store_log s @ rq_events req"
    and append_no_panic: "append s req \<noteq> (Panic, s')"
    and load_pages: "\<lbrakk>store_inv s; after \<le> length (session_events sid (store_log s))\<rbrakk> \<Longrightarrow>
          load_events s sid after limit = Ok (take limit (drop after (session_events sid (store_log s))))"
    and list_complete: "store_inv s \<Longrightarrow>
          \<exists>xs. list_sessions s = Ok xs \<and> distinct (map sum_session_id xs)
             \<and> (\<forall>sid. sid \<in> sum_session_id ` set xs \<longleftrightarrow> session_events sid (store_log s) \<noteq> [])
             \<and> (\<forall>x \<in> set xs. sum_last_sequence x = length (session_events (sum_session_id x) (store_log s)))"

end
