(* ===== verification/Utf8.thy ===== *)
theory Utf8
  imports Domain_Text
begin

text \<open>
  UTF-8 of the standard library: \<open>as_bytes\<close> and \<open>into_bytes\<close> encode a string, \<open>from_utf8_lossy\<close>
  decodes bytes and puts U+FFFD for every maximal ill-formed part, as \<open>Utf8Chunks\<close> of the core library
  does. Decimal text is what \<open>to_string\<close> writes for an integer.
\<close>

section \<open>Encoding\<close>

type_synonym bytes = "nat list"

definition utf8_char :: "nat \<Rightarrow> bytes" where
  "utf8_char c =
     (if c < 0x80 then [c]
      else if c < 0x800 then [0xC0 + c div 64, 0x80 + c mod 64]
      else if c < 0x10000 then [0xE0 + c div 4096, 0x80 + (c div 64) mod 64, 0x80 + c mod 64]
      else [0xF0 + c div 262144, 0x80 + (c div 4096) mod 64, 0x80 + (c div 64) mod 64, 0x80 + c mod 64])"

definition as_bytes :: "ustring \<Rightarrow> bytes" where
  "as_bytes s = concat (map utf8_char s)"

lemma length_as_bytes: "length (as_bytes s) = str_len s"
  by (induction s) (simp_all add: as_bytes_def utf8_char_def len_utf8_def)

lemma length_utf8_char: "length (utf8_char c) = len_utf8 c"
  by (simp add: utf8_char_def len_utf8_def)

lemma as_bytes_simps [simp]: "as_bytes [] = []" "as_bytes (c # s) = utf8_char c @ as_bytes s"
  "as_bytes (s @ t) = as_bytes s @ as_bytes t"
  by (simp_all add: as_bytes_def)

section \<open>Decoding\<close>

definition continuation :: "nat \<Rightarrow> bool" where
  "continuation b \<longleftrightarrow> 0x80 \<le> b \<and> b \<le> 0xBF"

definition second_of_three :: "nat \<Rightarrow> nat \<Rightarrow> bool" where
  "second_of_three b n \<longleftrightarrow>
     (if b = 0xE0 then 0xA0 \<le> n \<and> n \<le> 0xBF else if b = 0xED then 0x80 \<le> n \<and> n \<le> 0x9F
      else continuation n)"

definition second_of_four :: "nat \<Rightarrow> nat \<Rightarrow> bool" where
  "second_of_four b n \<longleftrightarrow>
     (if b = 0xF0 then 0x90 \<le> n \<and> n \<le> 0xBF else if b = 0xF4 then 0x80 \<le> n \<and> n \<le> 0x8F
      else continuation n)"

text \<open>A byte past the end reads as 0, which continues nothing.\<close>

definition safe_get :: "bytes \<Rightarrow> nat \<Rightarrow> nat" where
  "safe_get bs i = (if i < length bs then bs ! i else 0)"

definition replacement_character :: nat where "replacement_character = 0xFFFD"

text \<open>The character a chunk starts with, or U+FFFD, and the number of bytes it takes.\<close>

definition decode_step :: "nat \<Rightarrow> bytes \<Rightarrow> nat \<times> nat" where
  "decode_step b r =
     (let n0 = safe_get r 0; n1 = safe_get r 1; n2 = safe_get r 2
      in if b < 0x80 then (b, 1)
         else if 0xC2 \<le> b \<and> b \<le> 0xDF then
           (if continuation n0 then ((b - 0xC0) * 64 + (n0 - 0x80), 2) else (replacement_character, 1))
         else if 0xE0 \<le> b \<and> b \<le> 0xEF then
           (if \<not> second_of_three b n0 then (replacement_character, 1)
            else if \<not> continuation n1 then (replacement_character, 2)
            else ((b - 0xE0) * 4096 + (n0 - 0x80) * 64 + (n1 - 0x80), 3))
         else if 0xF0 \<le> b \<and> b \<le> 0xF4 then
           (if \<not> second_of_four b n0 then (replacement_character, 1)
            else if \<not> continuation n1 then (replacement_character, 2)
            else if \<not> continuation n2 then (replacement_character, 3)
            else ((b - 0xF0) * 262144 + (n0 - 0x80) * 4096 + (n1 - 0x80) * 64 + (n2 - 0x80), 4))
         else (replacement_character, 1))"

fun from_utf8_lossy :: "bytes \<Rightarrow> ustring" where
  "from_utf8_lossy [] = []"
| "from_utf8_lossy (b # r) =
     fst (decode_step b r) # from_utf8_lossy (drop (snd (decode_step b r) - 1) r)"

text \<open>\<open>from_utf8\<close>: the text, when decoding replaces nothing.\<close>

definition from_utf8 :: "bytes \<Rightarrow> ustring option" where
  "from_utf8 bs = (if as_bytes (from_utf8_lossy bs) = bs then Some (from_utf8_lossy bs) else None)"

section \<open>Decoding what was encoded\<close>

text \<open>The Unicode scalar values: what a \<open>char\<close> can hold.\<close>

definition is_scalar :: "nat \<Rightarrow> bool" where
  "is_scalar c \<longleftrightarrow> c < 0xD800 \<or> (0xE000 \<le> c \<and> c < 0x110000)"

lemma safe_get_simps [simp]:
  "safe_get (b # r) 0 = b" "safe_get (b # r) (Suc i) = safe_get r i"
  "safe_get (b # c # r) 1 = c" "safe_get (b # c # d # r) 2 = d"
  by (simp_all add: safe_get_def numeral_2_eq_2)

lemma digits64: "(c div 64) mod 64 + c div 4096 * 64 = c div (64 :: nat)"
  using div_mult_mod_eq [of "c div 64" 64] by (simp add: div_mult2_eq [symmetric])

lemma digits4096: "(c div 4096) mod 64 + c div 262144 * 64 = c div (4096 :: nat)"
  using div_mult_mod_eq [of "c div 4096" 64] by (simp add: div_mult2_eq [symmetric])

lemma decode_step_two:
  assumes "0x80 \<le> c" "c < 0x800"
  shows "decode_step (0xC0 + c div 64) ((0x80 + c mod 64) # rest) = (c, 2)"
proof -
  have "2 \<le> c div 64" "c div 64 \<le> 31" "c mod 64 < 64" using assms by auto
  then show ?thesis
    by (simp add: decode_step_def continuation_def Let_def)
qed

lemma decode_step_three:
  assumes "0x800 \<le> c" "c < 0x10000" "is_scalar c"
  shows "decode_step (0xE0 + c div 4096)
           ((0x80 + (c div 64) mod 64) # (0x80 + c mod 64) # rest) = (c, 3)"
proof -
  define p q s where "p = c div 4096" and "q = (c div 64) mod 64" and "s = c mod 64"
  have c: "c = p * 4096 + q * 64 + s"
    using digits64 [of c] div_mult_mod_eq [of c 64] unfolding p_def q_def s_def by linarith
  have b: "p \<le> 15" "q < 64" "s < 64" using assms(2) by (auto simp: p_def q_def s_def)
  have e0: "32 \<le> q" if "p = 0" using assms(1) c that b by linarith
  have ed: "q < 32" if "p = 13" using assms(3) c that b unfolding is_scalar_def by linarith
  have "second_of_three (0xE0 + p) (0x80 + q)"
    using b e0 ed by (auto simp: second_of_three_def continuation_def)
  then have "decode_step (0xE0 + p) ((0x80 + q) # (0x80 + s) # rest) = (p * 4096 + q * 64 + s, 3)"
    using b by (simp add: decode_step_def continuation_def Let_def)
  then show ?thesis using c unfolding p_def q_def s_def by simp
qed

lemma decode_step_four:
  assumes "0x10000 \<le> c" "is_scalar c"
  shows "decode_step (0xF0 + c div 262144)
           ((0x80 + (c div 4096) mod 64) # (0x80 + (c div 64) mod 64) # (0x80 + c mod 64) # rest) = (c, 4)"
proof -
  define o' p q s where "o' = c div 262144" and "p = (c div 4096) mod 64"
    and "q = (c div 64) mod 64" and "s = c mod 64"
  have c: "c = o' * 262144 + p * 4096 + q * 64 + s"
    using digits64 [of c] digits4096 [of c] div_mult_mod_eq [of c 64]
    unfolding o'_def p_def q_def s_def by linarith
  have lim: "c < 0x110000" using assms by (auto simp: is_scalar_def)
  have b: "o' \<le> 4" "p < 64" "q < 64" "s < 64" using lim by (auto simp: o'_def p_def q_def s_def)
  have f0: "16 \<le> p" if "o' = 0" using assms(1) c that b by linarith
  have f4: "p < 16" if "o' = 4" using lim c that b by linarith
  have "second_of_four (0xF0 + o') (0x80 + p)"
    using b f0 f4 by (auto simp: second_of_four_def continuation_def)
  then have "decode_step (0xF0 + o') ((0x80 + p) # (0x80 + q) # (0x80 + s) # rest)
      = (o' * 262144 + p * 4096 + q * 64 + s, 4)"
    using b by (simp add: decode_step_def continuation_def Let_def)
  then show ?thesis using c unfolding o'_def p_def q_def s_def by simp
qed

lemma from_utf8_lossy_char:
  assumes "is_scalar c"
  shows "from_utf8_lossy (utf8_char c @ rest) = c # from_utf8_lossy rest"
proof -
  consider "c < 0x80" | "0x80 \<le> c" "c < 0x800" | "0x800 \<le> c" "c < 0x10000" | "0x10000 \<le> c"
    by linarith
  then show ?thesis
    using assms
    by cases (simp_all add: utf8_char_def decode_step_two decode_step_three decode_step_four,
        simp add: decode_step_def)
qed

lemma from_utf8_lossy_as_bytes:
  "list_all is_scalar s \<Longrightarrow> from_utf8_lossy (as_bytes s @ rest) = s @ from_utf8_lossy rest"
  by (induction s) (simp_all add: from_utf8_lossy_char)

lemma from_utf8_lossy_of_text: "list_all is_scalar s \<Longrightarrow> from_utf8_lossy (as_bytes s) = s"
  using from_utf8_lossy_as_bytes [of s "[]"] by simp

lemma as_bytes_inject:
  "list_all is_scalar s \<Longrightarrow> list_all is_scalar t \<Longrightarrow> as_bytes s = as_bytes t \<longleftrightarrow> s = t"
  by (metis from_utf8_lossy_of_text)

lemma from_utf8_text: "list_all is_scalar s \<Longrightarrow> from_utf8 (as_bytes s) = Some s"
  by (simp add: from_utf8_def from_utf8_lossy_of_text)

section \<open>Decimal text\<close>

fun decimal :: "nat \<Rightarrow> ustring" where
  "decimal n = (if n < 10 then [48 + n] else decimal (n div 10) @ [48 + n mod 10])"

declare decimal.simps [simp del]

text \<open>Reading decimal digits back; it exists only to show that \<open>decimal\<close> is injective.\<close>

definition undecimal :: "ustring \<Rightarrow> nat" where
  "undecimal s = foldl (\<lambda>acc d. acc * 10 + (d - 48)) 0 s"

lemma undecimal_decimal: "undecimal (decimal n) = n"
proof (induction n rule: decimal.induct)
  case (1 n)
  then show ?case
    by (cases "n < 10") (simp_all add: decimal.simps [of n] undecimal_def)
qed

lemma decimal_inject [simp]: "decimal m = decimal n \<longleftrightarrow> m = n"
  by (metis undecimal_decimal)

lemma decimal_nonempty [simp]: "decimal n \<noteq> []"
  by (simp add: decimal.simps [of n])

lemma decimal_digits: "d \<in> set (decimal n) \<Longrightarrow> 48 \<le> d \<and> d \<le> 57"
proof (induction n rule: decimal.induct)
  case (1 n)
  then show ?case by (cases "n < 10") (auto simp: decimal.simps [of n])
qed

end
