(* ===== verification/Sqlite_Schema.thy ===== *)
theory Sqlite_Schema
  imports Store_Port Utf8
begin

text \<open>
  The tables of the SQLite store (\<open>autoharness-store-sqlite/migrations\<close>) that the session store reads
  and writes. A table is the list of its rows, a nullable column is an option, a column that holds the
  text of a validated domain value holds the value, and a text column that a CHECK restricts to a few
  words is a datatype. \<open>schema_ok\<close> is the conjunction of the CHECK, UNIQUE and FOREIGN KEY constraints;
  \<open>run_statement\<close> is a statement under these constraints, which SQLite checks at the end of every
  statement and reports as one error code. The workspace column of a session belongs to the memory store
  and is left out.
\<close>

section \<open>Rows\<close>

record session_row =
  sr_session_id :: session_id
  sr_status :: session_status
  sr_title :: "session_title option"
  sr_selected_provider_id :: "provider_id option"
  sr_selected_model_id :: "model_id option"
  sr_last_sequence :: int
  sr_created_at :: int
  sr_updated_at :: int

record event_row =
  er_event_id :: event_id
  er_session_id :: session_id
  er_sequence :: int
  er_schema_version :: int
  er_occurred_at :: int
  er_caused_by_command_id :: "command_id option"
  er_caused_by_event_id :: "event_id option"
  er_correlation_id :: correlation_id
  er_event_kind :: string
  er_envelope_json :: bytes

datatype input_state = Input_Admitted | Input_Promoted

record input_row =
  ir_session_id :: session_id
  ir_input_id :: input_id
  ir_admitted_event_id :: event_id
  ir_admitted_sequence :: int
  ir_delivery_mode :: delivery_mode
  ir_state :: input_state
  ir_prompt_utf8 :: bytes
  ir_content_sha256 :: bytes
  ir_admitted_at :: int
  ir_promoted_at :: "int option"

datatype attempt_state =
    AS_Prepared | AS_InFlight | AS_Completed | AS_Failed | AS_Cancelled | AS_Unknown

record attempt_row =
  ar_attempt_id :: attempt_id
  ar_session_id :: session_id
  ar_input_id :: input_id
  ar_provider_id :: provider_id
  ar_model_id :: model_id
  ar_retry_of_attempt_id :: "attempt_id option"
  ar_state :: attempt_state
  ar_prepared_event_id :: event_id
  ar_prepared_sequence :: int
  ar_started_event_id :: "event_id option"
  ar_settled_event_id :: "event_id option"
  ar_cancellation_requested_event_id :: "event_id option"
  ar_usage_event_id :: "event_id option"
  ar_prepared_at :: int
  ar_started_at :: "int option"
  ar_settled_at :: "int option"
  ar_cancellation_requested_at :: "int option"
  ar_usage_json :: "bytes option"
  ar_failure_json :: "bytes option"

datatype transcript_source = Source_Input input_id | Source_Attempt attempt_id
datatype transcript_role = Role_User | Role_Assistant
datatype transcript_state = TS_Complete | TS_Streaming | TS_Failed | TS_Cancelled | TS_Unknown

record message_row =
  mr_session_id :: session_id
  mr_source :: transcript_source
  mr_role :: transcript_role
  mr_state :: transcript_state
  mr_first_sequence :: int
  mr_last_sequence :: int

record segment_row =
  gr_session_id :: session_id
  gr_source :: transcript_source
  gr_event_sequence :: int
  gr_source_event_id :: event_id
  gr_content_utf8 :: bytes
  gr_content_sha256 :: bytes

text \<open>Of the context ledger: the committed turns, which an append only reads, and their bindings.\<close>

record context_turn_row =
  xr_context_turn_id :: context_turn_id
  xr_session_id :: session_id
  xr_attempt_id :: attempt_id
  xr_run_turn :: int
  xr_manifest_json :: bytes
  xr_manifest_json_sha256 :: bytes

record binding_row =
  br_context_turn_id :: context_turn_id
  br_session_id :: session_id
  br_attempt_id :: attempt_id
  br_run_turn :: int
  br_bound_event_id :: event_id
  br_manifest_sha256 :: bytes
  br_bound_at :: int

record tables =
  t_sessions :: "session_row list"
  t_events :: "event_row list"
  t_inputs :: "input_row list"
  t_attempts :: "attempt_row list"
  t_messages :: "message_row list"
  t_segments :: "segment_row list"
  t_context_turns :: "context_turn_row list"
  t_bindings :: "binding_row list"

section \<open>Constraints\<close>

definition id_len_ok :: "ustring \<Rightarrow> bool" where
  "id_len_ok s \<longleftrightarrow> 1 \<le> str_len s \<and> str_len s \<le> 512"

fun source_id :: "transcript_source \<Rightarrow> ustring" where
  "source_id (Source_Input (InputId s)) = s"
| "source_id (Source_Attempt (AttemptId s)) = s"

text \<open>UNIQUE on a nullable column: NULLs are all different.\<close>

definition unique_opt :: "('r \<Rightarrow> 'k option) \<Rightarrow> 'r list \<Rightarrow> bool" where
  "unique_opt col rows \<longleftrightarrow> distinct (List.map_filter col rows)"

definition session_exists :: "tables \<Rightarrow> session_id \<Rightarrow> bool" where
  "session_exists t sid \<longleftrightarrow> list_ex (\<lambda>r. sr_session_id r = sid) (t_sessions t)"

definition event_exists :: "tables \<Rightarrow> session_id \<Rightarrow> event_id \<Rightarrow> bool" where
  "event_exists t sid e \<longleftrightarrow> list_ex (\<lambda>r. er_session_id r = sid \<and> er_event_id r = e) (t_events t)"

definition attempt_exists :: "tables \<Rightarrow> session_id \<Rightarrow> attempt_id \<Rightarrow> bool" where
  "attempt_exists t sid a \<longleftrightarrow> list_ex (\<lambda>r. ar_session_id r = sid \<and> ar_attempt_id r = a) (t_attempts t)"

definition opt_ok :: "('a \<Rightarrow> bool) \<Rightarrow> 'a option \<Rightarrow> bool" where
  "opt_ok P x = (case x of None \<Rightarrow> True | Some y \<Rightarrow> P y)"

definition sessions_ok :: "tables \<Rightarrow> bool" where
  "sessions_ok t \<longleftrightarrow>
     distinct (map sr_session_id (t_sessions t))
     \<and> list_all (\<lambda>r. (case sr_session_id r of SessionId s \<Rightarrow> id_len_ok s) \<and> 0 \<le> sr_last_sequence r
          \<and> (sr_selected_provider_id r = None \<longleftrightarrow> sr_selected_model_id r = None)) (t_sessions t)"

definition events_ok :: "tables \<Rightarrow> bool" where
  "events_ok t \<longleftrightarrow>
     distinct (map er_event_id (t_events t))
     \<and> distinct (map (\<lambda>r. (er_session_id r, er_sequence r)) (t_events t))
     \<and> unique_opt er_caused_by_command_id (t_events t)
     \<and> list_all (\<lambda>r. (case er_event_id r of EventId s \<Rightarrow> id_len_ok s)
          \<and> (case er_correlation_id r of CorrelationId s \<Rightarrow> id_len_ok s)
          \<and> 0 < er_sequence r \<and> 1 \<le> er_schema_version r \<and> er_schema_version r \<le> 65535
          \<and> er_envelope_json r \<noteq> []
          \<and> (er_caused_by_command_id r = None \<longleftrightarrow> er_caused_by_event_id r \<noteq> None)
          \<and> session_exists t (er_session_id r)
          \<and> opt_ok (event_exists t (er_session_id r)) (er_caused_by_event_id r)) (t_events t)"

definition inputs_ok :: "tables \<Rightarrow> bool" where
  "inputs_ok t \<longleftrightarrow>
     distinct (map (\<lambda>r. (ir_session_id r, ir_input_id r)) (t_inputs t))
     \<and> distinct (map ir_admitted_event_id (t_inputs t))
     \<and> list_all (\<lambda>r. (case ir_input_id r of InputId s \<Rightarrow> id_len_ok s) \<and> 0 < ir_admitted_sequence r
          \<and> length (ir_content_sha256 r) = 32
          \<and> (ir_state r = Input_Admitted \<longleftrightarrow> ir_promoted_at r = None)
          \<and> session_exists t (ir_session_id r)
          \<and> event_exists t (ir_session_id r) (ir_admitted_event_id r)) (t_inputs t)"

definition attempt_row_ok :: "tables \<Rightarrow> attempt_row \<Rightarrow> bool" where
  "attempt_row_ok t r \<longleftrightarrow>
     (case ar_attempt_id r of AttemptId s \<Rightarrow> id_len_ok s) \<and> 0 < ar_prepared_sequence r
     \<and> (case ar_state r of
          AS_Prepared \<Rightarrow> ar_started_at r = None \<and> ar_settled_at r = None
        | AS_InFlight \<Rightarrow> ar_started_at r \<noteq> None \<and> ar_settled_at r = None
        | AS_Failed \<Rightarrow> ar_settled_at r \<noteq> None
        | _ \<Rightarrow> ar_started_at r \<noteq> None \<and> ar_settled_at r \<noteq> None)
     \<and> (ar_state r = AS_Failed \<longleftrightarrow> ar_failure_json r \<noteq> None)
     \<and> (ar_cancellation_requested_event_id r = None \<longleftrightarrow> ar_cancellation_requested_at r = None)
     \<and> (ar_usage_event_id r = None \<longleftrightarrow> ar_usage_json r = None)
     \<and> session_exists t (ar_session_id r)
     \<and> list_ex (\<lambda>i. ir_session_id i = ar_session_id r \<and> ir_input_id i = ar_input_id r) (t_inputs t)
     \<and> opt_ok (attempt_exists t (ar_session_id r)) (ar_retry_of_attempt_id r)
     \<and> event_exists t (ar_session_id r) (ar_prepared_event_id r)
     \<and> list_all (opt_ok (event_exists t (ar_session_id r)))
         [ar_started_event_id r, ar_settled_event_id r, ar_cancellation_requested_event_id r,
          ar_usage_event_id r]"

definition attempts_ok :: "tables \<Rightarrow> bool" where
  "attempts_ok t \<longleftrightarrow>
     distinct (map ar_attempt_id (t_attempts t))
     \<and> distinct (map (\<lambda>r. (ar_session_id r, ar_attempt_id r)) (t_attempts t))
     \<and> distinct (map ar_prepared_event_id (t_attempts t))
     \<and> unique_opt ar_started_event_id (t_attempts t) \<and> unique_opt ar_settled_event_id (t_attempts t)
     \<and> unique_opt ar_cancellation_requested_event_id (t_attempts t)
     \<and> unique_opt ar_usage_event_id (t_attempts t)
     \<and> list_all (attempt_row_ok t) (t_attempts t)"

definition messages_ok :: "tables \<Rightarrow> bool" where
  "messages_ok t \<longleftrightarrow>
     distinct (map (\<lambda>r. (mr_session_id r, mr_source r)) (t_messages t))
     \<and> distinct (map (\<lambda>r. (mr_session_id r, mr_first_sequence r)) (t_messages t))
     \<and> list_all (\<lambda>r. id_len_ok (source_id (mr_source r)) \<and> 0 < mr_first_sequence r
          \<and> mr_first_sequence r \<le> mr_last_sequence r \<and> session_exists t (mr_session_id r)) (t_messages t)"

definition segments_ok :: "tables \<Rightarrow> bool" where
  "segments_ok t \<longleftrightarrow>
     distinct (map (\<lambda>r. (gr_session_id r, gr_source r, gr_event_sequence r)) (t_segments t))
     \<and> distinct (map gr_source_event_id (t_segments t))
     \<and> list_all (\<lambda>r. 0 < gr_event_sequence r \<and> length (gr_content_sha256 r) = 32
          \<and> list_ex (\<lambda>m. mr_session_id m = gr_session_id r \<and> mr_source m = gr_source r) (t_messages t)
          \<and> event_exists t (gr_session_id r) (gr_source_event_id r)) (t_segments t)"

definition bindings_ok :: "tables \<Rightarrow> bool" where
  "bindings_ok t \<longleftrightarrow>
     distinct (map br_context_turn_id (t_bindings t))
     \<and> distinct (map (\<lambda>r. (br_attempt_id r, br_run_turn r)) (t_bindings t))
     \<and> distinct (map (\<lambda>r. (br_session_id r, br_bound_event_id r)) (t_bindings t))
     \<and> list_all (\<lambda>r. 0 < br_run_turn r \<and> length (br_manifest_sha256 r) = 32
          \<and> list_ex (\<lambda>x. xr_context_turn_id x = br_context_turn_id r) (t_context_turns t)
          \<and> attempt_exists t (br_session_id r) (br_attempt_id r)
          \<and> event_exists t (br_session_id r) (br_bound_event_id r)) (t_bindings t)"

definition schema_ok :: "tables \<Rightarrow> bool" where
  "schema_ok t \<longleftrightarrow>
     sessions_ok t \<and> events_ok t \<and> inputs_ok t \<and> attempts_ok t \<and> messages_ok t \<and> segments_ok t
     \<and> bindings_ok t"

section \<open>Statements\<close>

definition constraint_violation :: store_error where
  "constraint_violation = SE_IdentityConflict IK_Constraint"

definition run_statement :: "tables \<Rightarrow> (tables, store_error) result" where
  "run_statement t = (if schema_ok t then Ok t else Err constraint_violation)"

text \<open>\<open>UPDATE ... SET f WHERE p\<close>: the rows afterwards and the number of rows changed.\<close>

definition update_where :: "('r \<Rightarrow> bool) \<Rightarrow> ('r \<Rightarrow> 'r) \<Rightarrow> 'r list \<Rightarrow> 'r list" where
  "update_where p f rows = map (\<lambda>r. if p r then f r else r) rows"

definition changed :: "('r \<Rightarrow> bool) \<Rightarrow> 'r list \<Rightarrow> nat" where
  "changed p rows = length (filter p rows)"

lemma run_statement_Ok [result_simps]: "run_statement t = Ok u \<longleftrightarrow> schema_ok t \<and> u = t"
  by (auto simp: run_statement_def)

lemma run_statement_no_Panic [simp]: "run_statement t \<noteq> Panic"
  by (simp add: run_statement_def)

definition empty_tables :: tables where
  "empty_tables =
     \<lparr>t_sessions = [], t_events = [], t_inputs = [], t_attempts = [], t_messages = [], t_segments = [],
      t_context_turns = [], t_bindings = []\<rparr>"

lemma schema_ok_empty: "schema_ok empty_tables"
  by (simp add: empty_tables_def schema_ok_def sessions_ok_def events_ok_def inputs_ok_def attempts_ok_def
      messages_ok_def segments_ok_def bindings_ok_def unique_opt_def List.map_filter_def)

end
