(* ===== verification/Sqlite_Projection.thy ===== *)
theory Sqlite_Projection
  imports Sqlite_Schema
begin

text \<open>
  The projections of the SQLite store: how one event changes the session, input, attempt and transcript
  tables (\<open>apply_projection\<close> of \<open>sqlite_store.rs\<close>) and the bindings of context turns
  (\<open>context_store.rs\<close>). The JSON codec of serde, SHA-256 and the check of a context manifest's own digest
  are outside: they are fields of a record that every operation takes. Decoding and encoding can fail.
\<close>

section \<open>What the store is given\<close>

text \<open>The fields of a context manifest that the store reads; the rest is the record's extension.\<close>

record context_turn_manifest =
  ctm_session_id :: session_id
  ctm_attempt_id :: attempt_id
  ctm_run_turn :: nat
  ctm_manifest_hash :: sha256_digest

record 'x codec =
  cd_event_to_vec :: "event_envelope \<Rightarrow> bytes option"
  cd_event_from_slice :: "bytes \<Rightarrow> event_envelope option"
  cd_usage_to_vec :: "usage_snapshot \<Rightarrow> bytes option"
  cd_usage_from_slice :: "bytes \<Rightarrow> usage_snapshot option"
  cd_failure_to_vec :: "attempt_failure \<Rightarrow> bytes option"
  cd_failure_from_slice :: "bytes \<Rightarrow> attempt_failure option"
  cd_manifest_from_slice :: "bytes \<Rightarrow> 'x context_turn_manifest_scheme option"
  cd_verify_manifest_hash :: "'x context_turn_manifest_scheme \<Rightarrow> bool option"
  cd_sha256 :: "bytes \<Rightarrow> bytes"

text \<open>What is assumed of them: decoding what was encoded gives the value back.\<close>

definition codec_ok :: "'x codec \<Rightarrow> bool" where
  "codec_ok cd \<longleftrightarrow>
     (\<forall>ev b. cd_event_to_vec cd ev = Some b \<longrightarrow> cd_event_from_slice cd b = Some ev)
     \<and> (\<forall>u b. cd_usage_to_vec cd u = Some b \<longrightarrow> cd_usage_from_slice cd b = Some u)
     \<and> (\<forall>f b. cd_failure_to_vec cd f = Some b \<longrightarrow> cd_failure_from_slice cd b = Some f)"

datatype projection_mode = PM_Append | PM_Rebuild

fun transition_error :: "projection_mode \<Rightarrow> store_error" where
  "transition_error PM_Append = SE_InvalidSessionTransition"
| "transition_error PM_Rebuild = SE_CorruptData CA_Event"

fun identity_projection_error :: "projection_mode \<Rightarrow> identity_kind \<Rightarrow> store_error" where
  "identity_projection_error PM_Append kind = SE_IdentityConflict kind"
| "identity_projection_error PM_Rebuild kind = SE_CorruptData CA_Event"

definition require_transition :: "nat \<Rightarrow> projection_mode \<Rightarrow> (unit, store_error) result" where
  "require_transition n mode = ensure (n = 1) (transition_error mode)"

definition to_sql_sequence :: "nat \<Rightarrow> (int, store_error) result" where
  "to_sql_sequence value = (if value \<le> i64_max then Ok (int value) else Err SE_SequenceOutOfRange)"

section \<open>Sessions\<close>

definition update_session ::
  "tables \<Rightarrow> session_id \<Rightarrow> (session_row \<Rightarrow> session_row) \<Rightarrow> (tables, store_error) result" where
  "update_session t sid f =
     (let mine = (\<lambda>r. sr_session_id r = sid) in
      and_then (run_statement (t\<lparr>t_sessions := update_where mine f (t_sessions t)\<rparr>)) (\<lambda>u.
      and_then (ensure (changed mine (t_sessions t) = 1) (SE_CorruptData CA_SessionProjection)) (\<lambda>_.
      Ok u)))"

fun project_session ::
  "projection_mode \<Rightarrow> tables \<Rightarrow> event_envelope \<Rightarrow> event_payload \<Rightarrow> (tables, store_error) result" where
  "project_session mode t ev SessionCreated =
     (if mode = PM_Rebuild
      then update_session t (ev_session_id ev)
             (\<lambda>r. r\<lparr>sr_status := Status_Active, sr_created_at := ev_occurred_at ev,
                   sr_updated_at := ev_occurred_at ev\<rparr>)
      else Ok t)"
| "project_session mode t ev (SessionRenamed title) =
     update_session t (ev_session_id ev) (\<lambda>r. r\<lparr>sr_title := Some title\<rparr>)"
| "project_session mode t ev SessionArchived =
     update_session t (ev_session_id ev) (\<lambda>r. r\<lparr>sr_status := Status_Archived\<rparr>)"
| "project_session mode t ev SessionUnarchived =
     update_session t (ev_session_id ev) (\<lambda>r. r\<lparr>sr_status := Status_Active\<rparr>)"
| "project_session mode t ev (ModelSelected model) =
     update_session t (ev_session_id ev)
       (\<lambda>r. r\<lparr>sr_selected_provider_id := Some (model_provider model),
             sr_selected_model_id := Some (model_name model)\<rparr>)"
| "project_session mode t ev _ = Ok t"

section \<open>Inputs and prepared attempts\<close>

definition insert_segment ::
  "'x codec \<Rightarrow> tables \<Rightarrow> event_envelope \<Rightarrow> transcript_source \<Rightarrow> int \<Rightarrow> bytes \<Rightarrow> (tables, store_error) result" where
  "insert_segment cd t ev source sequence content =
     run_statement (t\<lparr>t_segments := t_segments t @
       [\<lparr>gr_session_id = ev_session_id ev, gr_source = source, gr_event_sequence = sequence,
         gr_source_event_id = ev_event_id ev, gr_content_utf8 = content,
         gr_content_sha256 = cd_sha256 cd content\<rparr>]\<rparr>)"

definition insert_message ::
  "tables \<Rightarrow> session_id \<Rightarrow> transcript_source \<Rightarrow> transcript_role \<Rightarrow> transcript_state \<Rightarrow> int
     \<Rightarrow> (tables, store_error) result" where
  "insert_message t sid source role state sequence =
     run_statement (t\<lparr>t_messages := t_messages t @
       [\<lparr>mr_session_id = sid, mr_source = source, mr_role = role, mr_state = state,
         mr_first_sequence = sequence, mr_last_sequence = sequence\<rparr>]\<rparr>)"

definition project_input ::
  "'x codec \<Rightarrow> projection_mode \<Rightarrow> tables \<Rightarrow> event_envelope \<Rightarrow> input_id \<Rightarrow> prompt_text \<Rightarrow> delivery_mode
     \<Rightarrow> (tables, store_error) result" where
  "project_input cd mode t ev input prompt delivery =
     (let sid = ev_session_id ev;
          mine = (\<lambda>r. ir_session_id r = sid \<and> ir_input_id r = input);
          input_exists = list_ex mine (t_inputs t);
          content = as_bytes (prompt_str prompt);
          row = (\<lambda>sequence. \<lparr>ir_session_id = sid, ir_input_id = input, ir_admitted_event_id = ev_event_id ev,
                   ir_admitted_sequence = sequence, ir_delivery_mode = delivery, ir_state = Input_Admitted,
                   ir_prompt_utf8 = content, ir_content_sha256 = cd_sha256 cd content,
                   ir_admitted_at = ev_occurred_at ev, ir_promoted_at = None\<rparr>)
      in
      and_then (ensure (\<not> (input_exists \<and> mode = PM_Append)) (identity_projection_error mode IK_Input)) (\<lambda>_.
      and_then (to_sql_sequence (ev_sequence ev)) (\<lambda>sequence.
      and_then
        (if input_exists
         then and_then (run_statement (t\<lparr>t_inputs := update_where mine (\<lambda>_. row sequence) (t_inputs t)\<rparr>)) (\<lambda>u.
              and_then (require_transition (changed mine (t_inputs t)) mode) (\<lambda>_. Ok u))
         else run_statement (t\<lparr>t_inputs := t_inputs t @ [row sequence]\<rparr>)) (\<lambda>t.
      and_then (insert_message t sid (Source_Input input) Role_User TS_Complete sequence) (\<lambda>t.
      insert_segment cd t ev (Source_Input input) sequence content)))))"

definition retry_settled :: "tables \<Rightarrow> session_id \<Rightarrow> attempt_id \<Rightarrow> bool" where
  "retry_settled t sid a =
     (case find (\<lambda>r. ar_session_id r = sid \<and> ar_attempt_id r = a) (t_attempts t) of
        None \<Rightarrow> False
      | Some r \<Rightarrow> ar_state r \<in> {AS_Completed, AS_Failed, AS_Cancelled, AS_Unknown})"

definition project_prepared ::
  "projection_mode \<Rightarrow> tables \<Rightarrow> event_envelope \<Rightarrow> attempt_id \<Rightarrow> input_id \<Rightarrow> model_ref \<Rightarrow> attempt_id option
     \<Rightarrow> (tables, store_error) result" where
  "project_prepared mode t ev a input model retry_of =
     (let sid = ev_session_id ev;
          mine = (\<lambda>r. ar_attempt_id r = a);
          exists = list_ex mine (t_attempts t);
          the_input = (\<lambda>r. ir_session_id r = sid \<and> ir_input_id r = input);
          row = (\<lambda>sequence. \<lparr>ar_attempt_id = a, ar_session_id = sid, ar_input_id = input,
                   ar_provider_id = model_provider model, ar_model_id = model_name model,
                   ar_retry_of_attempt_id = retry_of, ar_state = AS_Prepared,
                   ar_prepared_event_id = ev_event_id ev, ar_prepared_sequence = sequence,
                   ar_started_event_id = None, ar_settled_event_id = None,
                   ar_cancellation_requested_event_id = None, ar_usage_event_id = None,
                   ar_prepared_at = ev_occurred_at ev, ar_started_at = None, ar_settled_at = None,
                   ar_cancellation_requested_at = None, ar_usage_json = None, ar_failure_json = None\<rparr>)
      in
      and_then (ensure (\<not> (exists \<and> mode = PM_Append)) (identity_projection_error mode IK_Attempt)) (\<lambda>_.
      and_then (ensure (opt_ok (retry_settled t sid) retry_of) (transition_error mode)) (\<lambda>_.
      and_then (run_statement (t\<lparr>t_inputs := update_where the_input
                  (\<lambda>r. r\<lparr>ir_state := Input_Promoted,
                        ir_promoted_at := (case ir_promoted_at r of
                                             None \<Rightarrow> Some (ev_occurred_at ev) | Some v \<Rightarrow> Some v)\<rparr>)
                  (t_inputs t)\<rparr>)) (\<lambda>u.
      and_then (require_transition (changed the_input (t_inputs t)) mode) (\<lambda>_.
      and_then (to_sql_sequence (ev_sequence ev)) (\<lambda>sequence.
      if exists
      then and_then (run_statement (u\<lparr>t_attempts := update_where mine (\<lambda>_. row sequence) (t_attempts u)\<rparr>)) (\<lambda>v.
           and_then (require_transition (changed mine (t_attempts u)) mode) (\<lambda>_. Ok v))
      else run_statement (u\<lparr>t_attempts := t_attempts u @ [row sequence]\<rparr>)))))))"

section \<open>Attempts\<close>

definition update_attempt ::
  "projection_mode \<Rightarrow> tables \<Rightarrow> session_id \<Rightarrow> attempt_id \<Rightarrow> (attempt_row \<Rightarrow> bool)
     \<Rightarrow> (attempt_row \<Rightarrow> attempt_row) \<Rightarrow> (tables, store_error) result" where
  "update_attempt mode t sid a guard f =
     (let mine = (\<lambda>r. ar_session_id r = sid \<and> ar_attempt_id r = a \<and> guard r) in
      and_then (run_statement (t\<lparr>t_attempts := update_where mine f (t_attempts t)\<rparr>)) (\<lambda>u.
      and_then (require_transition (changed mine (t_attempts t)) mode) (\<lambda>_. Ok u)))"

definition require_attempt_in_flight ::
  "tables \<Rightarrow> session_id \<Rightarrow> attempt_id \<Rightarrow> projection_mode \<Rightarrow> (unit, store_error) result" where
  "require_attempt_in_flight t sid a mode =
     (case find (\<lambda>r. ar_session_id r = sid \<and> ar_attempt_id r = a) (t_attempts t) of
        Some r \<Rightarrow> ensure (ar_state r = AS_InFlight) (transition_error mode)
      | None \<Rightarrow> Err (transition_error mode))"

fun transcript_of_attempt_state :: "attempt_state \<Rightarrow> transcript_state" where
  "transcript_of_attempt_state AS_Failed = TS_Failed"
| "transcript_of_attempt_state AS_Cancelled = TS_Cancelled"
| "transcript_of_attempt_state AS_Unknown = TS_Unknown"
| "transcript_of_attempt_state _ = TS_Complete"

definition settle_attempt ::
  "tables \<Rightarrow> event_envelope \<Rightarrow> attempt_id \<Rightarrow> attempt_state \<Rightarrow> bytes option \<Rightarrow> projection_mode
     \<Rightarrow> (tables, store_error) result" where
  "settle_attempt t ev a state failure_json mode =
     (let sid = ev_session_id ev; allow_prepared = (state = AS_Failed) in
      and_then (update_attempt mode t sid a
                  (\<lambda>r. ar_state r = AS_InFlight \<or> allow_prepared \<and> ar_state r = AS_Prepared)
                  (\<lambda>r. r\<lparr>ar_state := state, ar_settled_event_id := Some (ev_event_id ev),
                        ar_settled_at := Some (ev_occurred_at ev), ar_failure_json := failure_json\<rparr>)) (\<lambda>u.
      and_then (to_sql_sequence (ev_sequence ev)) (\<lambda>sequence.
      run_statement (u\<lparr>t_messages := update_where
        (\<lambda>m. mr_session_id m = sid \<and> mr_source m = Source_Attempt a)
        (\<lambda>m. m\<lparr>mr_state := transcript_of_attempt_state state, mr_last_sequence := sequence\<rparr>)
        (t_messages u)\<rparr>))))"

definition project_text ::
  "'x codec \<Rightarrow> projection_mode \<Rightarrow> tables \<Rightarrow> event_envelope \<Rightarrow> attempt_id \<Rightarrow> response_text
     \<Rightarrow> (tables, store_error) result" where
  "project_text cd mode t ev a text =
     (let sid = ev_session_id ev;
          mine = (\<lambda>m. mr_session_id m = sid \<and> mr_source m = Source_Attempt a);
          streaming = (\<lambda>m. mine m \<and> mr_state m = TS_Streaming);
          content = as_bytes (response_str text)
      in
      and_then (require_attempt_in_flight t sid a mode) (\<lambda>_.
      and_then (to_sql_sequence (ev_sequence ev)) (\<lambda>sequence.
      and_then
        (if list_ex mine (t_messages t)
         then and_then (run_statement (t\<lparr>t_messages := update_where streaming
                          (\<lambda>m. m\<lparr>mr_last_sequence := sequence\<rparr>) (t_messages t)\<rparr>)) (\<lambda>u.
              and_then (require_transition (changed streaming (t_messages t)) mode) (\<lambda>_. Ok u))
         else insert_message t sid (Source_Attempt a) Role_Assistant TS_Streaming sequence) (\<lambda>u.
      insert_segment cd u ev (Source_Attempt a) sequence content))))"

fun project_attempt ::
  "'x codec \<Rightarrow> projection_mode \<Rightarrow> tables \<Rightarrow> event_envelope \<Rightarrow> event_payload \<Rightarrow> (tables, store_error) result" where
  "project_attempt cd mode t ev (AttemptStarted a) =
     update_attempt mode t (ev_session_id ev) a (\<lambda>r. ar_state r = AS_Prepared)
       (\<lambda>r. r\<lparr>ar_state := AS_InFlight, ar_started_event_id := Some (ev_event_id ev),
             ar_started_at := Some (ev_occurred_at ev)\<rparr>)"
| "project_attempt cd mode t ev (AttemptTextAppended a text) = project_text cd mode t ev a text"
| "project_attempt cd mode t ev (AttemptUsageRecorded a usage) =
     and_then (ok_or (cd_usage_to_vec cd usage) SE_Backend) (\<lambda>json.
     update_attempt mode t (ev_session_id ev) a (\<lambda>r. ar_state r = AS_InFlight)
       (\<lambda>r. r\<lparr>ar_usage_json := Some json, ar_usage_event_id := Some (ev_event_id ev)\<rparr>))"
| "project_attempt cd mode t ev (AttemptCancellationRequested a) =
     update_attempt mode t (ev_session_id ev) a
       (\<lambda>r. ar_state r = AS_InFlight \<and> ar_cancellation_requested_at r = None)
       (\<lambda>r. r\<lparr>ar_cancellation_requested_at := Some (ev_occurred_at ev),
             ar_cancellation_requested_event_id := Some (ev_event_id ev)\<rparr>)"
| "project_attempt cd mode t ev (AttemptCompleted a) = settle_attempt t ev a AS_Completed None mode"
| "project_attempt cd mode t ev (AttemptFailed a failure) =
     and_then (ok_or (cd_failure_to_vec cd failure) SE_Backend) (\<lambda>json.
     settle_attempt t ev a AS_Failed (Some json) mode)"
| "project_attempt cd mode t ev (AttemptCancelled a) = settle_attempt t ev a AS_Cancelled None mode"
| "project_attempt cd mode t ev (AttemptMarkedUnknown a) = settle_attempt t ev a AS_Unknown None mode"
| "project_attempt cd mode t ev _ = Ok t"

section \<open>Context turns\<close>

record attempt_binding_state =
  abs_turns_started :: nat
  abs_dispatch_ready :: bool
  abs_pending_binding :: bool
  abs_max_turns :: "nat option"

definition corrupt_context :: store_error where
  "corrupt_context = SE_CorruptData CA_ContextLedger"

fun binding_state_step :: "attempt_id \<Rightarrow> attempt_binding_state \<Rightarrow> event_payload \<Rightarrow> attempt_binding_state" where
  "binding_state_step a st (RunBudgetConfigured found limits) =
     (if found = a then st\<lparr>abs_max_turns := Some (max_turns limits)\<rparr> else st)"
| "binding_state_step a st (AttemptStarted found) =
     (if found = a then st\<lparr>abs_dispatch_ready := True\<rparr> else st)"
| "binding_state_step a st (ContextTurnBound found _ _ _) =
     (if found = a then st\<lparr>abs_pending_binding := True\<rparr> else st)"
| "binding_state_step a st (RunTurnStarted found turn) =
     (if found = a
      then st\<lparr>abs_turns_started := turn, abs_dispatch_ready := False, abs_pending_binding := False\<rparr>
      else st)"
| "binding_state_step a st (AttemptPausedForTools found) =
     (if found = a then st\<lparr>abs_dispatch_ready := False\<rparr> else st)"
| "binding_state_step a st (AttemptResumedAfterTools found) =
     (if found = a then st\<lparr>abs_dispatch_ready := True\<rparr> else st)"
| "binding_state_step a st _ = st"

definition load_attempt_binding_state ::
  "'x codec \<Rightarrow> tables \<Rightarrow> session_id \<Rightarrow> attempt_id \<Rightarrow> nat \<Rightarrow> (attempt_binding_state, store_error) result" where
  "load_attempt_binding_state cd t sid a before_sequence =
     and_then (ensure (case find (\<lambda>r. ar_session_id r = sid \<and> ar_attempt_id r = a) (t_attempts t) of
                         Some r \<Rightarrow> ar_state r = AS_InFlight | None \<Rightarrow> False)
                 SE_InvalidContextTransition) (\<lambda>_.
     and_then (to_sql_sequence before_sequence) (\<lambda>before.
     try_fold (\<lambda>st r. and_then (ok_or (cd_event_from_slice cd (er_envelope_json r)) corrupt_context) (\<lambda>ev.
                      Ok (binding_state_step a st (ev_payload ev))))
       \<lparr>abs_turns_started = 0, abs_dispatch_ready = False, abs_pending_binding = False, abs_max_turns = None\<rparr>
       (sort_key er_sequence
          (filter (\<lambda>r. er_session_id r = sid \<and> er_sequence r < before) (t_events t)))))"

definition validate_binding_boundary ::
  "'x codec \<Rightarrow> tables \<Rightarrow> 'x context_turn_manifest_scheme \<Rightarrow> event_envelope \<Rightarrow> (unit, store_error) result" where
  "validate_binding_boundary cd t turn ev =
     and_then (load_attempt_binding_state cd t (ctm_session_id turn) (ctm_attempt_id turn) (ev_sequence ev)) (\<lambda>st.
     and_then (ok_or (checked_add_u32 (abs_turns_started st) 1) SE_InvalidContextTransition) (\<lambda>expected_turn.
     and_then (ensure (abs_dispatch_ready st \<and> \<not> abs_pending_binding st \<and> expected_turn = ctm_run_turn turn
                 \<and> opt_ok (\<lambda>limit. expected_turn \<le> limit) (abs_max_turns st))
                 SE_InvalidContextTransition) (\<lambda>_.
     case ev_causation ev of
       Cause_Command c \<Rightarrow>
         ensure (\<not> list_ex (\<lambda>r. er_caused_by_command_id r = Some c \<and> er_event_id r \<noteq> ev_event_id ev) (t_events t))
           (SE_IdentityConflict IK_Command)
     | Cause_Event cause \<Rightarrow>
         (case find (\<lambda>r. er_session_id r = ev_session_id ev \<and> er_event_id r = cause) (t_events t) of
            None \<Rightarrow> Err SE_InvalidCausation
          | Some r \<Rightarrow> ensure (0 \<le> er_sequence r \<and> er_sequence r < int (ev_sequence ev)) SE_InvalidCausation))))"

text \<open>
  \<open>decode_digest\<close>: a digest is 64 hexadecimal characters. Its text is ASCII by construction
  (\<open>Sha256Digest::new\<close>), so that a slice of two bytes is two characters. \<open>from\_str\_radix\<close> takes both
  cases and a leading plus sign.
\<close>

definition hex_value :: "nat \<Rightarrow> nat option" where
  "hex_value c =
     (if 48 \<le> c \<and> c \<le> 57 then Some (c - 48)
      else if 97 \<le> c \<and> c \<le> 102 then Some (c - 87)
      else if 65 \<le> c \<and> c \<le> 70 then Some (c - 55)
      else None)"

fun decode_pairs :: "ustring \<Rightarrow> (bytes, store_error) result" where
  "decode_pairs (a # b # rest) =
     and_then (ok_or (if a = 43 then hex_value b
                      else case (hex_value a, hex_value b) of
                             (Some x, Some y) \<Rightarrow> Some (16 * x + y) | _ \<Rightarrow> None) corrupt_context) (\<lambda>byte.
     and_then (decode_pairs rest) (\<lambda>bs. Ok (byte # bs)))"
| "decode_pairs _ = Ok []"

fun decode_digest :: "sha256_digest \<Rightarrow> (bytes, store_error) result" where
  "decode_digest (Sha256Digest value) =
     and_then (ensure (str_len value = 64) corrupt_context) (\<lambda>_. decode_pairs value)"

definition decode_manifest ::
  "'x codec \<Rightarrow> bytes \<Rightarrow> bytes \<Rightarrow> ('x context_turn_manifest_scheme, store_error) result" where
  "decode_manifest cd json hash =
     and_then (ensure (cd_sha256 cd json = hash) corrupt_context) (\<lambda>_.
     ok_or (cd_manifest_from_slice cd json) corrupt_context)"

definition apply_context_turn_binding ::
  "'x codec \<Rightarrow> tables \<Rightarrow> event_envelope \<Rightarrow> (tables, store_error) result" where
  "apply_context_turn_binding cd t ev =
     (case ev_payload ev of
        ContextTurnBound a run_turn turn_id manifest_hash \<Rightarrow>
          (let sid = ev_session_id ev in
           and_then (ok_or (find (\<lambda>r. xr_context_turn_id r = turn_id \<and> xr_session_id r = sid
                              \<and> xr_attempt_id r = a \<and> xr_run_turn r = int run_turn) (t_context_turns t))
                       SE_InvalidContextTransition) (\<lambda>row.
           and_then (decode_manifest cd (xr_manifest_json row) (xr_manifest_json_sha256 row)) (\<lambda>turn.
           and_then (ensure (ctm_manifest_hash turn = manifest_hash) SE_InvalidContextTransition) (\<lambda>_.
           and_then (ok_or (cd_verify_manifest_hash cd turn) corrupt_context) (\<lambda>verified.
           and_then (ensure verified SE_InvalidContextTransition) (\<lambda>_.
           and_then (validate_binding_boundary cd t turn ev) (\<lambda>_.
           and_then (decode_digest manifest_hash) (\<lambda>digest.
           map_err (\<lambda>e. if e = constraint_violation then SE_IdentityConflict IK_ContextTurn else e)
             (run_statement (t\<lparr>t_bindings := t_bindings t @
                [\<lparr>br_context_turn_id = turn_id, br_session_id = sid, br_attempt_id = a,
                  br_run_turn = int run_turn, br_bound_event_id = ev_event_id ev,
                  br_manifest_sha256 = digest, br_bound_at = ev_occurred_at ev\<rparr>]\<rparr>))))))))))
      | _ \<Rightarrow> Err SE_InvalidContextTransition)"

definition validate_run_turn_binding :: "tables \<Rightarrow> event_envelope \<Rightarrow> (unit, store_error) result" where
  "validate_run_turn_binding t ev =
     (case ev_payload ev of
        RunTurnStarted a turn \<Rightarrow>
          and_then (ensure (0 < ev_sequence ev) SE_InvalidSessionTransition) (\<lambda>_.
          and_then (to_sql_sequence (ev_sequence ev - 1)) (\<lambda>prior.
          ensure (list_ex (\<lambda>b. br_session_id b = ev_session_id ev \<and> br_attempt_id b = a
                     \<and> br_run_turn b = int turn
                     \<and> list_ex (\<lambda>r. er_session_id r = br_session_id b \<and> er_event_id r = br_bound_event_id b
                                   \<and> er_sequence r = prior) (t_events t)) (t_bindings t))
            SE_InvalidSessionTransition))
      | _ \<Rightarrow> Err SE_InvalidSessionTransition)"

section \<open>One event\<close>

fun apply_projection ::
  "'x codec \<Rightarrow> projection_mode \<Rightarrow> tables \<Rightarrow> event_envelope \<Rightarrow> (tables, store_error) result" where
  "apply_projection cd mode t ev =
     (case ev_payload ev of
        SessionCreated \<Rightarrow> project_session mode t ev (ev_payload ev)
      | SessionRenamed _ \<Rightarrow> project_session mode t ev (ev_payload ev)
      | SessionArchived \<Rightarrow> project_session mode t ev (ev_payload ev)
      | SessionUnarchived \<Rightarrow> project_session mode t ev (ev_payload ev)
      | ModelSelected _ \<Rightarrow> project_session mode t ev (ev_payload ev)
      | InputAdmitted input prompt delivery \<Rightarrow> project_input cd mode t ev input prompt delivery
      | AttemptPrepared a input model retry_of \<Rightarrow> project_prepared mode t ev a input model retry_of
      | ContextTurnBound _ _ _ _ \<Rightarrow> apply_context_turn_binding cd t ev
      | RunTurnStarted _ _ \<Rightarrow> and_then (validate_run_turn_binding t ev) (\<lambda>_. Ok t)
      | _ \<Rightarrow> project_attempt cd mode t ev (ev_payload ev))"

declare apply_projection.simps [simp del]

end
