(* ===== verification/Sqlite_Store.thy ===== *)
theory Sqlite_Store
  imports Sqlite_Projection "HOL-Library.Product_Lexorder" "HOL-Library.List_Lexorder"
begin

text \<open>
  The session store over SQLite (\<open>sqlite_store.rs\<close>): append with its optimistic version check,
  reconciliation of a batch that is already stored and one transaction per batch; reading pages of a
  session's events and the list of sessions, with the checks on what is read; and the rebuild of every
  projection from the events. A transaction works on a copy of the tables, which replaces them when it
  commits. The points where the tests make an append fail are part of the store's state, as in the code.
  Errors of the database itself (busy, input and output) are not modelled.
\<close>

section \<open>The store\<close>

datatype failure_point = FirstEventInserted | ProjectionApplied | CommitCompleted

record sqlite_store =
  ss_tables :: tables
  ss_failure_point :: "failure_point option"

definition max_sqlite_sequence :: nat where "max_sqlite_sequence = i64_max"

fun event_kind :: "event_payload \<Rightarrow> string" where
  "event_kind SessionCreated = ''session_created''"
| "event_kind (SessionRenamed _) = ''session_renamed''"
| "event_kind SessionArchived = ''session_archived''"
| "event_kind SessionUnarchived = ''session_unarchived''"
| "event_kind (ModelSelected _) = ''model_selected''"
| "event_kind (InputAdmitted _ _ _) = ''input_admitted''"
| "event_kind (AttemptPrepared _ _ _ _) = ''attempt_prepared''"
| "event_kind (AttemptStarted _) = ''attempt_started''"
| "event_kind (AttemptTextAppended _ _) = ''attempt_text_appended''"
| "event_kind (AttemptUsageRecorded _ _) = ''attempt_usage_recorded''"
| "event_kind (AttemptCancellationRequested _) = ''attempt_cancellation_requested''"
| "event_kind (AttemptCompleted _) = ''attempt_completed''"
| "event_kind (AttemptFailed _ _) = ''attempt_failed''"
| "event_kind (AttemptCancelled _) = ''attempt_cancelled''"
| "event_kind (AttemptMarkedUnknown _) = ''attempt_marked_unknown''"
| "event_kind (RunBudgetConfigured _ _) = ''run_budget_configured''"
| "event_kind (ContextTurnBound _ _ _ _) = ''context_turn_bound''"
| "event_kind (RunTurnStarted _ _) = ''run_turn_started''"
| "event_kind (ToolCallProposed _ _) = ''tool_call_proposed''"
| "event_kind (ToolPermissionRecorded _ _ _) = ''tool_permission_recorded''"
| "event_kind (ToolPermissionAnswered _ _ _) = ''tool_permission_answered''"
| "event_kind (ToolCallStarted _) = ''tool_call_started''"
| "event_kind (ToolCallCompleted _ _) = ''tool_call_completed''"
| "event_kind (ToolCallFailed _ _) = ''tool_call_failed''"
| "event_kind (ToolCallDenied _) = ''tool_call_denied''"
| "event_kind (ToolCallCancelled _) = ''tool_call_cancelled''"
| "event_kind (ToolCallMarkedUnknown _) = ''tool_call_marked_unknown''"
| "event_kind (AttemptPausedForTools _) = ''attempt_paused_for_tools''"
| "event_kind (AttemptResumedAfterTools _) = ''attempt_resumed_after_tools''"

section \<open>Stored event rows\<close>

text \<open>The row of an event with the sequence its LEFT JOIN finds for the causing event.\<close>

definition cause_sequence :: "tables \<Rightarrow> event_row \<Rightarrow> int option" where
  "cause_sequence t r =
     (case er_caused_by_event_id r of
        None \<Rightarrow> None
      | Some e \<Rightarrow> map_option er_sequence
                    (find (\<lambda>c. er_session_id c = er_session_id r \<and> er_event_id c = e) (t_events t)))"

definition causation_matches :: "tables \<Rightarrow> event_row \<Rightarrow> causation \<Rightarrow> bool" where
  "causation_matches t r cause =
     (case cause of
        Cause_Command c \<Rightarrow>
          er_caused_by_command_id r = Some c \<and> er_caused_by_event_id r = None \<and> cause_sequence t r = None
      | Cause_Event e \<Rightarrow>
          er_caused_by_command_id r = None \<and> er_caused_by_event_id r = Some e
          \<and> (case cause_sequence t r of None \<Rightarrow> False | Some q \<Rightarrow> q < er_sequence r))"

definition validate_event_row ::
  "'x codec \<Rightarrow> tables \<Rightarrow> event_row \<Rightarrow> (event_envelope, store_error) result" where
  "validate_event_row cd t r =
     and_then (ok_or (cd_event_from_slice cd (er_envelope_json r)) (SE_CorruptData CA_Event)) (\<lambda>ev.
     and_then (ensure (ev_schema_version ev = event_schema_v1)
                 (SE_UnsupportedEventSchema (ev_schema_version ev))) (\<lambda>_.
     and_then (ensure (0 \<le> er_sequence r) (SE_CorruptData CA_EventSequence)) (\<lambda>_.
     and_then (ensure (er_schema_version r = int (ev_schema_version ev)
                 \<and> er_event_id r = ev_event_id ev \<and> er_session_id r = ev_session_id ev
                 \<and> nat (er_sequence r) = ev_sequence ev \<and> er_occurred_at r = ev_occurred_at ev
                 \<and> er_correlation_id r = ev_correlation_id ev
                 \<and> er_event_kind r = event_kind (ev_payload ev)
                 \<and> causation_matches t r (ev_causation ev)) (SE_CorruptData CA_Event)) (\<lambda>_.
     Ok ev))))"

section \<open>Append\<close>

type_synonym encoded_event = "event_envelope \<times> bytes"

text \<open>
  The loop of \<open>validate_and_encode\<close> with its mutable variables: the event and command identities of the
  batch so far, the next sequence and the index. An identity enters \<open>preceding_event_ids\<close> at the end of
  the iteration that put it into \<open>event_ids\<close>.
\<close>

fun validate_loop ::
  "'x codec \<Rightarrow> append_request \<Rightarrow> nat \<Rightarrow> event_id set \<Rightarrow> command_id set \<Rightarrow> event_id set \<Rightarrow> nat
     \<Rightarrow> event_envelope list \<Rightarrow> (encoded_event list, store_error) result" where
  "validate_loop cd req index event_ids command_ids preceding expected [] = Ok []"
| "validate_loop cd req index event_ids command_ids preceding expected (ev # evs) =
     and_then (ensure (ev_session_id ev = rq_session_id req) SE_MixedSessions) (\<lambda>_.
     and_then (ensure (ev_schema_version ev = event_schema_v1)
                 (SE_UnsupportedEventSchema (ev_schema_version ev))) (\<lambda>_.
     and_then (ensure (ev_sequence ev = expected \<and> expected \<le> max_sqlite_sequence) SE_NonContiguousBatch) (\<lambda>_.
     and_then (ensure (ev_event_id ev \<notin> event_ids) (SE_IdentityConflict IK_Event)) (\<lambda>_.
     and_then
       (case ev_causation ev of
          Cause_Command c \<Rightarrow> and_then (ensure (c \<notin> command_ids) (SE_IdentityConflict IK_Command)) (\<lambda>_.
                               Ok (insert c command_ids))
        | Cause_Event e \<Rightarrow>
            and_then (ensure (e \<in> insert (ev_event_id ev) event_ids \<longrightarrow> e \<in> preceding) SE_InvalidCausation) (\<lambda>_.
            Ok command_ids)) (\<lambda>commands.
     and_then (ensure (\<not> (ev_payload ev = SessionCreated \<and> (rq_expected_last_sequence req > 0 \<or> index > 0)))
                 SE_InvalidSessionTransition) (\<lambda>_.
     and_then (ensure (\<not> (rq_expected_last_sequence req = 0 \<and> index = 0 \<and> ev_sequence ev \<noteq> sequence_first))
                 SE_InvalidSessionTransition) (\<lambda>_.
     and_then (ok_or (cd_event_to_vec cd ev) SE_Backend) (\<lambda>json.
     and_then (ok_or (checked_add_u64 expected 1) SE_SequenceOutOfRange) (\<lambda>next_expected.
     and_then (validate_loop cd req (Suc index) (insert (ev_event_id ev) event_ids) commands
                 (insert (ev_event_id ev) preceding) next_expected evs) (\<lambda>rest.
     Ok ((ev, json) # rest)))))))))))"

definition validate_and_encode ::
  "'x codec \<Rightarrow> append_request \<Rightarrow> (encoded_event list, store_error) result" where
  "validate_and_encode cd req =
     and_then (ensure (rq_events req \<noteq> []) SE_EmptyAppend) (\<lambda>_.
     and_then (ensure (rq_expected_last_sequence req \<le> max_sqlite_sequence) SE_SequenceOutOfRange) (\<lambda>_.
     and_then (ok_or (checked_add_u64 (rq_expected_last_sequence req) 1) SE_SequenceOutOfRange) (\<lambda>expected.
     and_then (validate_loop cd req 0 {} {} {} expected (rq_events req)) (\<lambda>encoded.
     and_then (ensure (\<not> (rq_expected_last_sequence req = 0 \<and> ev_payload (hd (rq_events req)) \<noteq> SessionCreated))
                 SE_InvalidSessionTransition) (\<lambda>_.
     Ok encoded)))))"

datatype existing_batch = EB_None | EB_Partial | EB_All

definition existing_event ::
  "'x codec \<Rightarrow> tables \<Rightarrow> encoded_event \<Rightarrow> (bool, store_error) result" where
  "existing_event cd t x =
     (case find (\<lambda>r. er_event_id r = ev_event_id (fst x)) (t_events t) of
        None \<Rightarrow> Ok False
      | Some r \<Rightarrow>
          and_then (ensure (er_envelope_json r = snd x) (SE_IdentityConflict IK_Event)) (\<lambda>_.
          and_then (validate_event_row cd t r) (\<lambda>ev.
          and_then (ensure (ev = fst x) (SE_CorruptData CA_Event)) (\<lambda>_. Ok True))))"

definition existing_batch_state ::
  "'x codec \<Rightarrow> tables \<Rightarrow> encoded_event list \<Rightarrow> (existing_batch, store_error) result" where
  "existing_batch_state cd t xs =
     and_then (try_fold (\<lambda>n x. and_then (existing_event cd t x) (\<lambda>b. Ok (if b then Suc n else n))) 0 xs) (\<lambda>found.
     Ok (if found = 0 then EB_None else if found = length xs then EB_All else EB_Partial))"

definition current_session_version :: "tables \<Rightarrow> session_id \<Rightarrow> (nat, store_error) result" where
  "current_session_version t sid =
     (let q = (case find (\<lambda>r. sr_session_id r = sid) (t_sessions t) of
                 None \<Rightarrow> 0 | Some r \<Rightarrow> sr_last_sequence r)
      in and_then (ensure (0 \<le> q) (SE_CorruptData CA_SessionProjection)) (\<lambda>_. Ok (nat q)))"

definition validate_durable_causation :: "tables \<Rightarrow> event_envelope \<Rightarrow> (unit, store_error) result" where
  "validate_durable_causation t ev =
     (case ev_causation ev of
        Cause_Command c \<Rightarrow>
          ensure (\<not> list_ex (\<lambda>r. er_caused_by_command_id r = Some c) (t_events t)) (SE_IdentityConflict IK_Command)
      | Cause_Event e \<Rightarrow>
          (case find (\<lambda>r. er_session_id r = ev_session_id ev \<and> er_event_id r = e) (t_events t) of
             None \<Rightarrow> Err SE_InvalidCausation
           | Some r \<Rightarrow> and_then (to_sql_sequence (ev_sequence ev)) (\<lambda>q.
                        ensure (er_sequence r < q) SE_InvalidCausation)))"

definition event_row_of :: "encoded_event \<Rightarrow> int \<Rightarrow> event_row" where
  "event_row_of x sequence =
     (let ev = fst x in
      \<lparr>er_event_id = ev_event_id ev, er_session_id = ev_session_id ev, er_sequence = sequence,
       er_schema_version = int (ev_schema_version ev), er_occurred_at = ev_occurred_at ev,
       er_caused_by_command_id = (case ev_causation ev of Cause_Command c \<Rightarrow> Some c | Cause_Event _ \<Rightarrow> None),
       er_caused_by_event_id = (case ev_causation ev of Cause_Command _ \<Rightarrow> None | Cause_Event e \<Rightarrow> Some e),
       er_correlation_id = ev_correlation_id ev, er_event_kind = event_kind (ev_payload ev),
       er_envelope_json = snd x\<rparr>)"

definition insert_event :: "tables \<Rightarrow> encoded_event \<Rightarrow> (tables, store_error) result" where
  "insert_event t x =
     and_then (to_sql_sequence (ev_sequence (fst x))) (\<lambda>sequence.
     run_statement (t\<lparr>t_events := t_events t @ [event_row_of x sequence]\<rparr>))"

definition insert_session :: "tables \<Rightarrow> session_id \<Rightarrow> timestamp_millis \<Rightarrow> (tables, store_error) result" where
  "insert_session t sid at =
     run_statement (t\<lparr>t_sessions := t_sessions t @
       [\<lparr>sr_session_id = sid, sr_status = Status_Active, sr_title = None, sr_selected_provider_id = None,
         sr_selected_model_id = None, sr_last_sequence = 0, sr_created_at = at, sr_updated_at = at\<rparr>]\<rparr>)"

definition advance_session :: "tables \<Rightarrow> event_envelope \<Rightarrow> (tables, store_error) result" where
  "advance_session t ev =
     and_then (to_sql_sequence (ev_sequence ev)) (\<lambda>sequence.
     run_statement (t\<lparr>t_sessions := update_where (\<lambda>r. sr_session_id r = ev_session_id ev)
       (\<lambda>r. r\<lparr>sr_last_sequence := sequence, sr_updated_at := ev_occurred_at ev\<rparr>) (t_sessions t)\<rparr>))"

fun append_events ::
  "'x codec \<Rightarrow> failure_point option \<Rightarrow> tables \<Rightarrow> nat \<Rightarrow> encoded_event list \<Rightarrow> (tables, store_error) result" where
  "append_events cd fail t index [] = Ok t"
| "append_events cd fail t index (x # xs) =
     and_then (validate_durable_causation t (fst x)) (\<lambda>_.
     and_then (insert_event t x) (\<lambda>t.
     and_then (ensure (\<not> (index = 0 \<and> fail = Some FirstEventInserted)) SE_Backend) (\<lambda>_.
     and_then (apply_projection cd PM_Append t (fst x)) (\<lambda>t.
     and_then (advance_session t (fst x)) (\<lambda>t.
     append_events cd fail t (Suc index) xs)))))"

text \<open>The transaction of a batch that is not stored yet: the tables it commits.\<close>

definition append_transaction ::
  "'x codec \<Rightarrow> failure_point option \<Rightarrow> tables \<Rightarrow> append_request \<Rightarrow> encoded_event list \<Rightarrow> (tables, store_error) result" where
  "append_transaction cd fail t req xs =
     and_then (current_session_version t (rq_session_id req)) (\<lambda>actual.
     and_then (ensure (actual = rq_expected_last_sequence req)
                 (SE_VersionConflict (rq_session_id req) (rq_expected_last_sequence req) actual)) (\<lambda>_.
     and_then
       (if actual = 0
        then and_then (ensure (xs \<noteq> []) SE_EmptyAppend) (\<lambda>_.
             and_then (ensure (ev_payload (fst (hd xs)) = SessionCreated) SE_InvalidSessionTransition) (\<lambda>_.
             insert_session t (rq_session_id req) (ev_occurred_at (fst (hd xs)))))
        else Ok t) (\<lambda>t.
     and_then (append_events cd fail t 0 xs) (\<lambda>t.
     and_then (ensure (fail \<noteq> Some ProjectionApplied) SE_Backend) (\<lambda>_.
     Ok t)))))"

definition reconcile_batch :: "tables \<Rightarrow> append_request \<Rightarrow> nat \<Rightarrow> (append_receipt, store_error) result" where
  "reconcile_batch t req final_sequence =
     and_then (current_session_version t (rq_session_id req)) (\<lambda>durable_sequence.
     and_then (ensure (final_sequence \<le> durable_sequence) (SE_CorruptData CA_SessionProjection)) (\<lambda>_.
     Ok \<lparr>rc_disposition = AlreadyCommitted, rc_last_sequence = durable_sequence\<rparr>))"

definition sqlite_append ::
  "'x codec \<Rightarrow> sqlite_store \<Rightarrow> append_request \<Rightarrow> (append_receipt, store_error) result \<times> sqlite_store" where
  "sqlite_append cd s req =
     (let t = ss_tables s; fail = ss_failure_point s in
      case and_then (validate_and_encode cd req) (\<lambda>xs.
           and_then (ensure (xs \<noteq> []) SE_EmptyAppend) (\<lambda>_.
           and_then (existing_batch_state cd t xs) (\<lambda>existing. Ok (xs, existing)))) of
        Err e \<Rightarrow> (Err e, s)
      | Panic \<Rightarrow> (Panic, s)
      | Ok (xs, existing) \<Rightarrow>
          (let final_sequence = ev_sequence (fst (last xs)) in
           case existing of
             EB_All \<Rightarrow> (reconcile_batch t req final_sequence, s)
           | EB_Partial \<Rightarrow> (Err (SE_IdentityConflict IK_Event), s)
           | EB_None \<Rightarrow>
               (case append_transaction cd fail t req xs of
                  Err e \<Rightarrow> (Err e, s)
                | Panic \<Rightarrow> (Panic, s)
                | Ok t' \<Rightarrow>
                    (if fail = Some CommitCompleted then Err SE_Backend
                     else Ok \<lparr>rc_disposition = Committed, rc_last_sequence = final_sequence\<rparr>,
                     s\<lparr>ss_tables := t'\<rparr>))))"

section \<open>Reading events and sessions\<close>

fun read_page ::
  "'x codec \<Rightarrow> tables \<Rightarrow> nat \<Rightarrow> event_row list \<Rightarrow> (event_envelope list, store_error) result" where
  "read_page cd t expected [] = Ok []"
| "read_page cd t expected (r # rs) =
     and_then (validate_event_row cd t r) (\<lambda>ev.
     and_then (ensure (ev_sequence ev = expected) (SE_CorruptData CA_EventSequence)) (\<lambda>_.
     and_then (ok_or (checked_add_u64 expected 1) SE_SequenceOutOfRange) (\<lambda>next_expected.
     and_then (read_page cd t next_expected rs) (\<lambda>evs.
     Ok (ev # evs)))))"

definition sqlite_load_events ::
  "'x codec \<Rightarrow> sqlite_store \<Rightarrow> session_id \<Rightarrow> nat \<Rightarrow> nat \<Rightarrow> (event_envelope list, store_error) result" where
  "sqlite_load_events cd s sid after limit =
     (let t = ss_tables s in
      if limit = 0 \<or> after = max_sqlite_sequence then Ok []
      else
        and_then (to_sql_sequence after) (\<lambda>after_sequence.
        and_then (ok_or (checked_add_u64 after 1) SE_SequenceOutOfRange) (\<lambda>expected.
        read_page cd t expected
          (take limit (sort_key er_sequence
             (filter (\<lambda>r. er_session_id r = sid \<and> er_sequence r > after_sequence) (t_events t)))))))"

definition validate_session_row :: "tables \<Rightarrow> session_row \<Rightarrow> (session_summary, store_error) result" where
  "validate_session_row t r =
     (let sid = sr_session_id r;
          corrupt = SE_CorruptData CA_SessionProjection;
          sequences = map er_sequence (filter (\<lambda>e. er_session_id e = sid) (t_events t));
          messages = length (filter (\<lambda>m. mr_session_id m = sid) (t_messages t))
      in
      and_then
        (case (sr_selected_provider_id r, sr_selected_model_id r) of
           (None, None) \<Rightarrow> Ok None
         | (Some p, Some m) \<Rightarrow> Ok (Some \<lparr>model_provider = p, model_name = m\<rparr>)
         | _ \<Rightarrow> Err corrupt) (\<lambda>selected.
      and_then (ensure (0 \<le> sr_last_sequence r) corrupt) (\<lambda>_.
      and_then (map_err (\<lambda>_. corrupt) (sequence_new (nat (sr_last_sequence r)))) (\<lambda>last_sequence.
      and_then (ensure (sequences \<noteq> [] \<and> Min (set sequences) = 1
                  \<and> Max (set sequences) = sr_last_sequence r
                  \<and> int (length sequences) = sr_last_sequence r) corrupt) (\<lambda>_.
      Ok \<lparr>sum_session_id = sid, sum_status = sr_status r, sum_title = sr_title r,
          sum_selected_model = selected, sum_message_count = messages,
          sum_last_sequence = last_sequence, sum_created_at = sr_created_at r,
          sum_updated_at = sr_updated_at r\<rparr>)))))"

fun session_str :: "session_id \<Rightarrow> ustring" where "session_str (SessionId s) = s"

definition sqlite_list_sessions :: "sqlite_store \<Rightarrow> (session_summary list, store_error) result" where
  "sqlite_list_sessions s =
     (let t = ss_tables s in
      try_map (validate_session_row t)
        (sort_key (\<lambda>r. (- sr_updated_at r, session_str (sr_session_id r))) (t_sessions t)))"

section \<open>Rebuilding the projections\<close>

text \<open>One session's stream in \<open>validate_complete_streams\<close>, with the loop's variables as arguments.\<close>

fun validate_stream ::
  "nat \<Rightarrow> bool \<Rightarrow> input_id set \<Rightarrow> event_id set \<Rightarrow> command_id set \<Rightarrow> event_envelope list
     \<Rightarrow> (unit, store_error) result" where
  "validate_stream expected created inputs events commands [] = ensure created (SE_CorruptData CA_Event)"
| "validate_stream expected created inputs events commands (ev # evs) =
     and_then (ensure (ev_sequence ev = expected) (SE_CorruptData CA_EventSequence)) (\<lambda>_.
     and_then
       (case ev_causation ev of
          Cause_Command c \<Rightarrow> and_then (ensure (c \<notin> commands) (SE_CorruptData CA_Event)) (\<lambda>_. Ok (insert c commands))
        | Cause_Event e \<Rightarrow> and_then (ensure (e \<in> events) (SE_CorruptData CA_Event)) (\<lambda>_. Ok commands)) (\<lambda>commands'.
     and_then
       (case ev_payload ev of
          SessionCreated \<Rightarrow> and_then (ensure (\<not> created) (SE_CorruptData CA_Event)) (\<lambda>_. Ok inputs)
        | InputAdmitted i _ _ \<Rightarrow>
            and_then (ensure (created \<and> i \<notin> inputs) (SE_CorruptData CA_Event)) (\<lambda>_. Ok (insert i inputs))
        | _ \<Rightarrow> and_then (ensure created (SE_CorruptData CA_Event)) (\<lambda>_. Ok inputs)) (\<lambda>inputs'.
     and_then (ok_or (checked_add_u64 expected 1) SE_SequenceOutOfRange) (\<lambda>next_expected.
     validate_stream next_expected (created \<or> ev_payload ev = SessionCreated) inputs'
       (insert (ev_event_id ev) events) commands' evs))))"

text \<open>The rows in the order of the SELECT: by session, then by sequence.\<close>

definition load_all_stored_event_rows :: "tables \<Rightarrow> event_row list" where
  "load_all_stored_event_rows t =
     sort_key (\<lambda>r. (session_str (er_session_id r), er_sequence r)) (t_events t)"

text \<open>The statements of the batch that resets the projections, in order; each one is checked on its own.\<close>

definition reset_statements :: "(tables \<Rightarrow> tables) list" where
  "reset_statements =
     [\<lambda>t. t\<lparr>t_bindings := []\<rparr>,
      \<lambda>t. t\<lparr>t_segments := []\<rparr>,
      \<lambda>t. t\<lparr>t_messages := []\<rparr>,
      \<lambda>t. t\<lparr>t_attempts := map (\<lambda>r. r\<lparr>ar_state := AS_Prepared, ar_started_event_id := None,
           ar_settled_event_id := None, ar_cancellation_requested_event_id := None,
           ar_usage_event_id := None, ar_started_at := None, ar_settled_at := None,
           ar_cancellation_requested_at := None, ar_usage_json := None, ar_failure_json := None\<rparr>)
           (t_attempts t)\<rparr>,
      \<lambda>t. t\<lparr>t_inputs := map (\<lambda>r. r\<lparr>ir_state := Input_Admitted, ir_promoted_at := None\<rparr>) (t_inputs t)\<rparr>,
      \<lambda>t. t\<lparr>t_sessions := map (\<lambda>r. r\<lparr>sr_status := Status_Active, sr_title := None,
           sr_selected_provider_id := None, sr_selected_model_id := None, sr_last_sequence := 0,
           sr_created_at := 0, sr_updated_at := 0\<rparr>) (t_sessions t)\<rparr>]"

definition reset_projections :: "tables \<Rightarrow> (tables, store_error) result" where
  "reset_projections t = try_fold (\<lambda>t statement. run_statement (statement t)) t reset_statements"

definition rebuild_event :: "'x codec \<Rightarrow> tables \<Rightarrow> event_envelope \<Rightarrow> (tables, store_error) result" where
  "rebuild_event cd t ev =
     and_then (apply_projection cd PM_Rebuild t ev) (\<lambda>u. advance_session u ev)"

definition rebuild_tables :: "'x codec \<Rightarrow> tables \<Rightarrow> (tables, store_error) result" where
  "rebuild_tables cd t =
     and_then (try_map (validate_event_row cd t) (load_all_stored_event_rows t)) (\<lambda>events.
     (let streams = map (\<lambda>sid. filter (\<lambda>ev. ev_session_id ev = sid) events)
                      (remdups_adj (map ev_session_id events)) in
     and_then (try_fold (\<lambda>_ stream. validate_stream 1 False {} {} {} stream) () streams) (\<lambda>_.
     and_then (reset_projections t) (\<lambda>t0.
     and_then (try_fold (rebuild_event cd) t0 (concat streams)) (\<lambda>u.
     and_then (ensure (\<not> list_ex (\<lambda>r. sr_last_sequence r = 0) (t_sessions u))
                 (SE_CorruptData CA_SessionProjection)) (\<lambda>_.
     Ok u))))))"

definition rebuild_projections :: "'x codec \<Rightarrow> sqlite_store \<Rightarrow> (unit, store_error) result \<times> sqlite_store" where
  "rebuild_projections cd s =
     (case rebuild_tables cd (ss_tables s) of
        Ok t \<Rightarrow> (Ok (), s\<lparr>ss_tables := t\<rparr>)
      | Err e \<Rightarrow> (Err e, s)
      | Panic \<Rightarrow> (Panic, s))"

end
