(* ===== verification/Durable.thy ===== *)
theory Durable
  imports Store_Port "HOL-Library.Sublist"
begin

text \<open>
  The durable engine of \<open>autoharness-engine\<close> (\<open>durable.rs\<close>): recovery by paging every session out of
  the store and replaying it, and execution that appends to the store before it publishes. The store's
  operations are arguments of the definitions; the lemmas are proved once, for any store that keeps the
  laws of the port.
\<close>

section \<open>The model\<close>

datatype durable_error =
    DE_Engine engine_error | DE_Store store_error | DE_Replay replay_error | DE_StoreInvariant

text \<open>\<open>ReplayError::class\<close>: every replay error is a storage error.\<close>

definition replay_error_class :: "replay_error \<Rightarrow> error_class" where
  "replay_error_class _ = Class_Storage"

fun durable_error_class :: "durable_error \<Rightarrow> error_class" where
  "durable_error_class (DE_Engine source) = engine_error_class source"
| "durable_error_class (DE_Store source) = store_error_class source"
| "durable_error_class (DE_Replay source) = replay_error_class source"
| "durable_error_class DE_StoreInvariant = Class_Storage"

record ('s, 'm) durable_engine =
  de_store :: 's
  de_inner :: "'m in_memory_engine"

definition durable_new :: "'s \<Rightarrow> 'm \<Rightarrow> ('s, 'm) durable_engine" where
  "durable_new store m = \<lparr>de_store = store, de_inner = engine_new m\<rparr>"

text \<open>
  The paging loop of \<open>recover\<close> for one session. Nothing bounds it for an arbitrary store, so a loop
  that never ends is \<open>None\<close>.
\<close>

partial_function (option) load_session ::
  "(session_id \<Rightarrow> nat \<Rightarrow> nat \<Rightarrow> (event_envelope list, store_error) result) \<Rightarrow> session_id \<Rightarrow> nat \<Rightarrow> nat
     \<Rightarrow> event_envelope list \<Rightarrow> (event_envelope list, durable_error) result option" where
  "load_session load sid expected_last after events =
     (if after < expected_last
      then (case load sid after default_event_page_size of
              Err x \<Rightarrow> Some (Err (DE_Store x))
            | Panic \<Rightarrow> Some Panic
            | Ok page \<Rightarrow>
                if page = [] then Some (Err DE_StoreInvariant)
                else load_session load sid expected_last (ev_sequence (last page)) (events @ page))
      else if after \<noteq> expected_last then Some (Err DE_StoreInvariant) else Some (Ok events))"

fun load_all ::
  "(session_id \<Rightarrow> nat \<Rightarrow> nat \<Rightarrow> (event_envelope list, store_error) result) \<Rightarrow> session_summary list
     \<Rightarrow> event_envelope list \<Rightarrow> (event_envelope list, durable_error) result option" where
  "load_all load [] events = Some (Ok events)"
| "load_all load (x # xs) events =
     (case load_session load (sum_session_id x) (sum_last_sequence x) 0 events of
        None \<Rightarrow> None
      | Some (Ok events') \<Rightarrow> load_all load xs events'
      | Some (Err e) \<Rightarrow> Some (Err e)
      | Some Panic \<Rightarrow> Some Panic)"

definition recover ::
  "('s \<Rightarrow> (session_summary list, store_error) result)
     \<Rightarrow> ('s \<Rightarrow> session_id \<Rightarrow> nat \<Rightarrow> nat \<Rightarrow> (event_envelope list, store_error) result)
     \<Rightarrow> 's \<Rightarrow> 'm \<Rightarrow> (('s, 'm) durable_engine, durable_error) result option" where
  "recover list_sessions load_events store m =
     (case list_sessions store of
        Err x \<Rightarrow> Some (Err (DE_Store x))
      | Panic \<Rightarrow> Some Panic
      | Ok summaries \<Rightarrow>
          (case load_all (load_events store) summaries [] of
             None \<Rightarrow> None
           | Some (Err e) \<Rightarrow> Some (Err e)
           | Some Panic \<Rightarrow> Some Panic
           | Some (Ok events) \<Rightarrow>
               Some (and_then (map_err DE_Replay (replay m events)) (\<lambda>inner.
                     Ok \<lparr>de_store = store, de_inner = inner\<rparr>))))"

definition durable_execute ::
  "('s \<Rightarrow> append_request \<Rightarrow> (append_receipt, store_error) result \<times> 's) \<Rightarrow> 'm metadata_fn
     \<Rightarrow> ('s, 'm) durable_engine \<Rightarrow> command_envelope
     \<Rightarrow> (event_envelope list, durable_error) result \<times> ('s, 'm) durable_engine" where
  "durable_execute append_fn draw de cmd =
     (case prepare draw (de_inner de) cmd of (r, m) \<Rightarrow>
        (let de1 = de\<lparr>de_inner := (de_inner de)\<lparr>ime_metadata_source := m\<rparr>\<rparr> in
         case r of
           Err x \<Rightarrow> (Err (DE_Engine x), de1)
         | Panic \<Rightarrow> (Panic, de1)
         | Ok p \<Rightarrow>
             (case checked_add_u64 (pc_expected_last_sequence p) (length (pc_events p)) of
                None \<Rightarrow> (Err DE_StoreInvariant, de1)
              | Some expected_receipt \<Rightarrow>
                  (case append_fn (de_store de)
                          \<lparr>rq_session_id = pc_session_id p,
                           rq_expected_last_sequence = pc_expected_last_sequence p,
                           rq_events = pc_events p\<rparr> of
                     (Err x, store') \<Rightarrow> (Err (DE_Store x), de1\<lparr>de_store := store'\<rparr>)
                   | (Panic, store') \<Rightarrow> (Panic, de1\<lparr>de_store := store'\<rparr>)
                   | (Ok receipt, store') \<Rightarrow>
                       if rc_last_sequence receipt \<noteq> expected_receipt
                       then (Err DE_StoreInvariant, de1\<lparr>de_store := store'\<rparr>)
                       else (Ok (pc_events p),
                             \<lparr>de_store = store', de_inner = commit_prepared (de_inner de1) p\<rparr>)))))"

section \<open>Logs\<close>

lemma nth_by_sequence:
  assumes "map ev_sequence xs = [1..<Suc (length xs)]" "ev \<in> set xs"
  shows "0 < ev_sequence ev \<and> ev_sequence ev \<le> length xs \<and> xs ! (ev_sequence ev - 1) = ev"
proof -
  obtain i where i: "i < length xs" "xs ! i = ev"
    using assms(2) by (auto simp: in_set_conv_nth)
  have "ev_sequence ev = map ev_sequence xs ! i" using i by simp
  also have "\<dots> = Suc i" unfolding assms(1) using i(1) by (simp del: upt_Suc)
  finally show ?thesis using i by simp
qed

lemma last_of_page:
  assumes "map ev_sequence xs = [1..<Suc (length xs)]" "after < length xs" "0 < limit"
  shows "ev_sequence (last (take limit (drop after xs))) = min (after + limit) (length xs)"
proof -
  let ?page = "take limit (drop after xs)"
  have ne: "?page \<noteq> []" using assms(2,3) by simp
  have "ev_sequence (last ?page) = last (map ev_sequence ?page)"
    using ne by (simp add: last_map)
  also have "map ev_sequence ?page = take limit (drop after [1..<Suc (length xs)])"
    using assms(1) by (simp flip: take_map drop_map)
  also have "\<dots> = [Suc after..<min (Suc after + limit) (Suc (length xs))]"
    by (simp del: upt_Suc add: min_def)
  finally show ?thesis using assms(2,3) by (auto simp: min_def)
qed

lemma session_events_concat:
  assumes "distinct sids"
    and "\<And>sid. sid \<in> set sids \<Longrightarrow> list_all (\<lambda>ev. ev_session_id ev = sid) (f sid)"
  shows "session_events sid (concat (map f sids)) = (if sid \<in> set sids then f sid else [])"
  using assms
proof (induction sids)
  case (Cons a sids)
  have "list_all (\<lambda>ev. ev_session_id ev = a) (f a)" using Cons.prems(2) by simp
  then have "session_events sid (f a) = (if sid = a then f a else [])"
    by (auto simp: session_events_def list_all_iff filter_empty_conv)
  then show ?case using Cons by auto
qed (simp add: session_events_def)

lemma session_events_self: "list_all (\<lambda>ev. ev_session_id ev = sid) (session_events sid xs)"
  by (auto simp: session_events_def list_all_iff)

lemma session_events_own:
  assumes "list_all (\<lambda>ev. ev_session_id ev = sid) evs"
  shows "session_events sid' evs = (if sid' = sid then evs else [])"
  using assms by (auto simp: session_events_def list_all_iff filter_empty_conv)

text \<open>A batch with consecutive numbers that the log already holds is the segment at those numbers.\<close>

lemma chained_sequences: "chained c n evs \<Longrightarrow> map ev_sequence evs = [n..<n + length evs]"
  by (induction evs arbitrary: c n) (auto simp: upt_conv_Cons simp del: upt_Suc int_max_values)

lemma drop_by_sequence:
  assumes log: "map ev_sequence xs = [1..<Suc (length xs)]" and "set evs \<subseteq> set xs"
    and evs: "map ev_sequence evs = [Suc k..<Suc k + length evs]" and "length xs = k + length evs"
  shows "drop k xs = evs"
proof (rule nth_equalityI)
  show "length (drop k xs) = length evs" using assms(4) by simp
  show "drop k xs ! i = evs ! i" if i: "i < length (drop k xs)" for i
  proof -
    have "evs ! i \<in> set xs" using assms(2,4) i by auto
    then have "xs ! (ev_sequence (evs ! i) - 1) = evs ! i" using nth_by_sequence [OF log] by blast
    moreover have "ev_sequence (evs ! i) = map ev_sequence evs ! i" using assms(4) i by simp
    then have "ev_sequence (evs ! i) = Suc k + i" unfolding evs using assms(4) i by (simp del: upt_Suc)
    ultimately show ?thesis using assms(4) by simp
  qed
qed

lemma history_ok_append:
  assumes "history_ok log" "list_all (\<lambda>ev. ev_session_id ev = sid) evs"
    and "distinct (map ev_event_id (log @ evs))" "distinct (command_causes (log @ evs))"
    and "rehydrate sid (session_events sid log) = Ok s" "apply_uncommitted_batch s evs = Ok t"
  shows "history_ok (log @ evs)"
proof -
  have "is_ok (rehydrate other (session_events other (log @ evs)))" for other
  proof (cases "other = sid")
    case True
    then show ?thesis
      using assms(5,6) unfolding session_events_append session_events_own [OF assms(2)]
      by (simp add: rehydrate_def try_fold_append apply_uncommitted_batch_def)
  next
    case False
    then show ?thesis
      using assms(1) unfolding session_events_append session_events_own [OF assms(2)]
      by (simp add: history_ok_def)
  qed
  then show ?thesis using assms(3,4) unfolding history_ok_def by blast
qed

section \<open>The engine over any store\<close>

text \<open>
  The invariant of the durable engine over a store with the given invariant and log: the log replays,
  and what the engine has published of a session is a prefix of what the store holds of it.
\<close>

definition durable_ok ::
  "('s \<Rightarrow> bool) \<Rightarrow> ('s \<Rightarrow> event_envelope list) \<Rightarrow> ('s, 'm) durable_engine \<Rightarrow> bool" where
  "durable_ok st_inv st_log de \<longleftrightarrow>
     st_inv (de_store de) \<and> engine_inv (de_inner de) \<and> history_ok (st_log (de_store de))
     \<and> (\<forall>sid. prefix (session_events sid (ime_events (de_inner de))) (session_events sid (st_log (de_store de))))"

definition in_sync :: "('s \<Rightarrow> event_envelope list) \<Rightarrow> ('s, 'm) durable_engine \<Rightarrow> bool" where
  "in_sync st_log de \<longleftrightarrow>
     (\<forall>sid. session_events sid (st_log (de_store de)) = session_events sid (ime_events (de_inner de)))"

lemma durable_ok_metadata [simp]:
  "durable_ok st_inv st_log (de\<lparr>de_inner := (de_inner de)\<lparr>ime_metadata_source := m\<rparr>\<rparr>) = durable_ok st_inv st_log de"
  by (simp add: durable_ok_def)

context session_store
begin

abbreviation ok :: "('s, 'm) durable_engine \<Rightarrow> bool" where "ok \<equiv> durable_ok store_inv store_log"

text \<open>A batch prepared by an engine in sync with the store keeps the store's log replayable.\<close>

lemma fitting_batch:
  assumes "ok de" "prepared_ok (de_inner de) cmd p"
    and fits: "batch_fits (store_log (de_store de)) \<lparr>rq_session_id = pc_session_id p,
            rq_expected_last_sequence = pc_expected_last_sequence p, rq_events = pc_events p\<rparr>"
  shows "history_ok (store_log (de_store de) @ pc_events p)"
    and "session_events (pc_session_id p) (ime_events (de_inner de)) =
           session_events (pc_session_id p) (store_log (de_store de))"
proof -
  let ?sid = "pc_session_id p" and ?log = "store_log (de_store de)"
  show sync: "session_events ?sid (ime_events (de_inner de)) = session_events ?sid ?log"
    using assms unfolding durable_ok_def prepared_ok_def batch_fits_def prefix_def
    by (metis append.right_neutral append_eq_append_conv append_request.select_convs(1,2))
  show "history_ok (?log @ pc_events p)"
  proof (rule history_ok_append)
    show "history_ok ?log" using assms(1) by (simp add: durable_ok_def)
    show "list_all (\<lambda>ev. ev_session_id ev = ?sid) (pc_events p)"
      "distinct (map ev_event_id (?log @ pc_events p))" "distinct (command_causes (?log @ pc_events p))"
      using fits unfolding batch_fits_def by simp_all
    show "rehydrate ?sid (session_events ?sid ?log) = Ok (session_or_empty (de_inner de) ?sid)"
      using assms(1) unfolding durable_ok_def engine_inv_def sync [symmetric] by blast
    show "apply_uncommitted_batch (session_or_empty (de_inner de) ?sid) (pc_events p) = Ok (pc_candidate p)"
      using assms(2) unfolding prepared_ok_def by blast
  qed
qed

text \<open>The two ways a command is acknowledged, and what is left behind when it is not.\<close>

lemma committed_batch:
  assumes "ok de" "prepared_ok (de_inner de) cmd p" "store_inv s'"
    and fits: "batch_fits (store_log (de_store de)) \<lparr>rq_session_id = pc_session_id p,
            rq_expected_last_sequence = pc_expected_last_sequence p, rq_events = pc_events p\<rparr>"
    and log: "store_log s' = store_log (de_store de) @ pc_events p"
  shows "ok \<lparr>de_store = s', de_inner = commit_prepared ((de_inner de)\<lparr>ime_metadata_source := m\<rparr>) p\<rparr>"
    and "ok \<lparr>de_store = s', de_inner = (de_inner de)\<lparr>ime_metadata_source := m\<rparr>\<rparr>"
proof -
  note history = fitting_batch [OF assms(1,2) fits]
  have own: "list_all (\<lambda>ev. ev_session_id ev = pc_session_id p) (pc_events p)"
    using fits unfolding batch_fits_def by simp
  show "ok \<lparr>de_store = s', de_inner = commit_prepared ((de_inner de)\<lparr>ime_metadata_source := m\<rparr>) p\<rparr>"
    using assms(1,3) history engine_inv_commit [OF _ assms(2)] log
    unfolding durable_ok_def by (simp add: commit_prepared_def session_events_own [OF own])
  show "ok \<lparr>de_store = s', de_inner = (de_inner de)\<lparr>ime_metadata_source := m\<rparr>\<rparr>"
    using assms(1,3) history(1) log unfolding durable_ok_def by simp
qed

lemma reconciled_batch:
  assumes "ok de" "prepared_ok (de_inner de) cmd p" "store_inv s'"
    and log: "store_log s' = store_log (de_store de)" "set (pc_events p) \<subseteq> set (store_log (de_store de))"
    and own: "list_all (\<lambda>ev. ev_session_id ev = pc_session_id p) (pc_events p)"
    and len: "length (session_events (pc_session_id p) (store_log (de_store de))) =
           pc_expected_last_sequence p + length (pc_events p)"
  shows "ok \<lparr>de_store = s', de_inner = commit_prepared ((de_inner de)\<lparr>ime_metadata_source := m\<rparr>) p\<rparr>"
proof -
  let ?sid = "pc_session_id p" and ?log = "store_log (de_store de)"
  let ?xs = "session_events ?sid ?log" and ?k = "pc_expected_last_sequence p"
  have "map ev_sequence ?xs = [1..<Suc (length ?xs)]"
    using log_well_formed assms(1) unfolding durable_ok_def log_wf_def by blast
  moreover have "set (pc_events p) \<subseteq> set ?xs"
    using log(2) own by (auto simp: session_events_def list_all_iff)
  moreover have "map ev_sequence (pc_events p) = [Suc ?k..<Suc ?k + length (pc_events p)]"
    using assms(2) chained_sequences unfolding prepared_ok_def by blast
  ultimately have "drop ?k ?xs = pc_events p" using drop_by_sequence len by blast
  moreover have "take ?k ?xs = session_events ?sid (ime_events (de_inner de))"
    using assms(1,2) unfolding durable_ok_def prepared_ok_def prefix_def by (metis append_eq_conv_conj)
  ultimately have split: "?xs = session_events ?sid (ime_events (de_inner de)) @ pc_events p"
    using append_take_drop_id [of ?k ?xs] by simp
  show ?thesis
    using assms(1,3) split log(1) engine_inv_commit [OF _ assms(2)]
    unfolding durable_ok_def by (simp add: commit_prepared_def session_events_own [OF own])
qed

lemma execute_cases:
  assumes ok: "ok de" and "durable_execute append draw de cmd = (r, de')"
  shows "ok de' \<and> r \<noteq> Panic \<and> (\<forall>x. r \<noteq> Err (DE_Engine (InvariantViolation x)))
       \<and> (\<forall>evs. r = Ok evs \<longrightarrow> set evs \<subseteq> set (store_log (de_store de'))
            \<and> ime_events (de_inner de') = ime_events (de_inner de) @ evs)
       \<and> ((\<forall>evs. r \<noteq> Ok evs) \<longrightarrow>
            (\<exists>m. de_inner de' = (de_inner de)\<lparr>ime_metadata_source := m\<rparr>))"
proof -
  obtain q m where q: "prepare draw (de_inner de) cmd = (q, m)" by fastforce
  have inv: "engine_inv (de_inner de)" "store_inv (de_store de)"
    using ok by (simp_all add: durable_ok_def)
  note prepared = prepare_cases [OF inv(1) q]
  show ?thesis
  proof (cases "\<exists>p. q = Ok p \<and> pc_expected_last_sequence p + length (pc_events p) \<le> u64_max")
    case False
    then show ?thesis
      using assms(2) q prepared ok unfolding durable_execute_def
      by (auto simp: Let_def checked_add_u64_def split: result.splits simp del: int_max_values)
  next
    case True
    then obtain p where p: "q = Ok p" "prepared_ok (de_inner de) cmd p"
      "checked_add_u64 (pc_expected_last_sequence p) (length (pc_events p)) =
         Some (pc_expected_last_sequence p + length (pc_events p))"
      using prepared by (auto simp: checked_add_u64_Some simp del: int_max_values)
    define req where "req = \<lparr>rq_session_id = pc_session_id p,
       rq_expected_last_sequence = pc_expected_last_sequence p, rq_events = pc_events p\<rparr>"
    obtain ar s' where ar: "append (de_store de) req = (ar, s')" by fastforce
    have s': "store_inv s'" using append_keeps_inv [OF inv(2) ar] .
    note unfolded = assms(2) [unfolded durable_execute_def q p(1) prod.case result.case Let_def p(3)
        option.case req_def [symmetric] ar]
    show ?thesis
    proof (cases ar)
      case Panic
      then show ?thesis using append_no_panic ar by blast
    next
      case (Err x)
      have "store_log s' = store_log (de_store de)
          \<or> batch_fits (store_log (de_store de)) req \<and> store_log s' = store_log (de_store de) @ rq_events req"
        using append_fails [OF inv(2)] ar Err by blast
      then have "ok \<lparr>de_store = s', de_inner = (de_inner de)\<lparr>ime_metadata_source := m\<rparr>\<rparr>"
        using committed_batch(2) [OF ok p(2) s', folded req_def] ok s'
        unfolding req_def by (auto simp: durable_ok_def)
      then show ?thesis using unfolded Err by (auto simp: durable_ok_def)
    next
      case (Ok rc)
      show ?thesis
      proof (cases "rc_disposition rc")
        case Committed
        note law = append_commits [OF inv(2) ar [unfolded Ok] Committed]
        have "ok \<lparr>de_store = s', de_inner = commit_prepared ((de_inner de)\<lparr>ime_metadata_source := m\<rparr>) p\<rparr>"
          using committed_batch(1) [OF ok p(2) s', folded req_def] law by (simp add: req_def)
        then show ?thesis
          using unfolded Ok law by (auto simp: req_def commit_prepared_def)
      next
        case AlreadyCommitted
        note law = append_reconciles [OF inv(2) ar [unfolded Ok] AlreadyCommitted]
        show ?thesis
        proof (cases "rc_last_sequence rc = pc_expected_last_sequence p + length (pc_events p)")
          case True
          have "ok \<lparr>de_store = s', de_inner = commit_prepared ((de_inner de)\<lparr>ime_metadata_source := m\<rparr>) p\<rparr>"
            using reconciled_batch [OF ok p(2) s'] law True by (simp add: req_def)
          then show ?thesis
            using unfolded Ok law True by (auto simp: req_def commit_prepared_def)
        next
          case False
          then show ?thesis
            using unfolded Ok law ok s' by (auto simp: durable_ok_def)
        qed
      qed
    qed
  qed
qed

text \<open>The paging loop reads one session in full, in at most one call per event.\<close>

lemma load_session_rest:
  assumes "store_inv s" and "after \<le> length (session_events sid (store_log s))"
  shows "load_session (load_events s) sid (length (session_events sid (store_log s))) after acc =
     Some (Ok (acc @ drop after (session_events sid (store_log s))))"
  using assms(2)
proof (induction "length (session_events sid (store_log s)) - after" arbitrary: after acc
    rule: less_induct)
  case less
  let ?xs = "session_events sid (store_log s)"
  let ?page = "take default_event_page_size (drop after ?xs)"
  have seqs: "map ev_sequence ?xs = [1..<Suc (length ?xs)]"
    using log_well_formed [OF assms(1)] unfolding log_wf_def by blast
  show ?case
  proof (cases "after < length ?xs")
    case True
    let ?next = "ev_sequence (last ?page)"
    have page: "load_events s sid after default_event_page_size = Ok ?page" "?page \<noteq> []"
      using load_pages [OF assms(1)] True by (simp_all add: default_event_page_size_def)
    have next_value: "?next = min (after + default_event_page_size) (length ?xs)"
      using last_of_page [OF seqs True] by (simp add: default_event_page_size_def)
    have "load_session (load_events s) sid (length ?xs) after acc =
        load_session (load_events s) sid (length ?xs) ?next (acc @ ?page)"
      using True page by (subst load_session.simps) simp
    also have "\<dots> = Some (Ok ((acc @ ?page) @ drop ?next ?xs))"
      using True next_value by (intro less.hyps) (auto simp: default_event_page_size_def)
    also have "drop ?next ?xs = drop default_event_page_size (drop after ?xs)"
      unfolding next_value by (simp add: min_def add.commute)
    finally show ?thesis by (simp del: drop_drop)
  next
    case False
    then show ?thesis using less.prems by (subst load_session.simps) simp
  qed
qed

lemma load_all_sessions:
  assumes "store_inv s"
    and "\<forall>x \<in> set xs. sum_last_sequence x = length (session_events (sum_session_id x) (store_log s))"
  shows "load_all (load_events s) xs acc =
     Some (Ok (acc @ concat (map (\<lambda>sid. session_events sid (store_log s)) (map sum_session_id xs))))"
  using assms(2)
  by (induction xs arbitrary: acc) (simp_all add: load_session_rest [OF assms(1)])

lemma recover_complete:
  assumes "store_inv s" "history_ok (store_log s)"
  shows "\<exists>inner. recover list_sessions load_events s m = Some (Ok \<lparr>de_store = s, de_inner = inner\<rparr>)
           \<and> engine_inv inner \<and> ime_metadata_source inner = m
           \<and> (\<forall>sid. session_events sid (ime_events inner) = session_events sid (store_log s))"
proof -
  obtain xs where xs: "list_sessions s = Ok xs" "distinct (map sum_session_id xs)"
    "\<And>sid. sid \<in> set (map sum_session_id xs) \<longleftrightarrow> session_events sid (store_log s) \<noteq> []"
    "\<forall>x \<in> set xs. sum_last_sequence x = length (session_events (sum_session_id x) (store_log s))"
    using list_complete [OF assms(1)] by auto
  let ?evs = "concat (map (\<lambda>sid. session_events sid (store_log s)) (map sum_session_id xs))"
  have sessions: "session_events sid ?evs = session_events sid (store_log s)" for sid
    using session_events_concat [OF xs(2), of "\<lambda>sid. session_events sid (store_log s)"] xs(3)
    by (simp add: session_events_self)
  obtain inner where inner: "replay m ?evs = Ok inner"
    using replay_complete [OF history_ok_interleaving [OF assms(2) sessions], of m] by (elim exE)
  have "recover list_sessions load_events s m = Some (Ok \<lparr>de_store = s, de_inner = inner\<rparr>)"
    using inner load_all_sessions [OF assms(1) xs(4), of "[]"] xs(1) by (simp add: recover_def)
  then show ?thesis using replay_sound [OF inner] sessions by auto
qed

end

end
