(* ===== verification/Sqlite_Inv.thy ===== *)
theory Sqlite_Inv
  imports Sqlite_Store Durable
begin

text \<open>
  The invariant of the SQLite store and the proof that it keeps the laws of the port. The store's log is
  what its event rows decode to, in the order they were inserted; the invariant says that every row is
  the row of its event and that every session row counts the events of its session. The constraints of
  the schema give the rest: a committed statement cannot break a UNIQUE or FOREIGN KEY constraint.
\<close>

section \<open>Projections leave the log alone\<close>

definition session_cursors :: "tables \<Rightarrow> (session_id \<times> int) list" where
  "session_cursors t = map (\<lambda>r. (sr_session_id r, sr_last_sequence r)) (t_sessions t)"

definition log_kept :: "tables \<Rightarrow> tables \<Rightarrow> bool" where
  "log_kept t u \<longleftrightarrow>
     (schema_ok t \<longrightarrow> schema_ok u) \<and> t_events u = t_events t \<and> session_cursors u = session_cursors t
     \<and> t_context_turns u = t_context_turns t"

lemma log_kept_refl [simp]: "log_kept t t"
  by (simp add: log_kept_def)

lemma log_kept_trans: "log_kept t u \<Longrightarrow> log_kept u v \<Longrightarrow> log_kept t v"
  by (simp add: log_kept_def)

lemma session_cursors_keep [simp]:
  "session_cursors (t\<lparr>t_inputs := a\<rparr>) = session_cursors t"
  "session_cursors (t\<lparr>t_attempts := b\<rparr>) = session_cursors t"
  "session_cursors (t\<lparr>t_messages := c\<rparr>) = session_cursors t"
  "session_cursors (t\<lparr>t_segments := d\<rparr>) = session_cursors t"
  "session_cursors (t\<lparr>t_bindings := e\<rparr>) = session_cursors t"
  "session_cursors (t\<lparr>t_events := f\<rparr>) = session_cursors t"
  by (simp_all add: session_cursors_def)

lemma update_session_keeps:
  assumes "update_session t sid f = Ok u"
    and "\<And>r. sr_session_id (f r) = sr_session_id r \<and> sr_last_sequence (f r) = sr_last_sequence r"
  shows "log_kept t u"
  using assms by (auto simp: update_session_def Let_def result_simps log_kept_def session_cursors_def update_where_def)

lemma project_session_keeps: "project_session mode t ev p = Ok u \<Longrightarrow> log_kept t u"
  by (cases p) (auto split: if_splits elim!: update_session_keeps)

lemma insert_transcript_keeps:
  "insert_segment cd t ev source q content = Ok u \<Longrightarrow> log_kept t u"
  "insert_message t sid source role state q = Ok u \<Longrightarrow> log_kept t u"
  by (auto simp: insert_segment_def insert_message_def result_simps log_kept_def)

lemma update_attempt_keeps: "update_attempt mode t sid a guard f = Ok u \<Longrightarrow> log_kept t u"
  by (auto simp: update_attempt_def Let_def result_simps log_kept_def)

lemma project_input_keeps: "project_input cd mode t ev i prompt d = Ok u \<Longrightarrow> log_kept t u"
  by (auto simp: project_input_def Let_def result_simps log_kept_def split: if_splits
      dest!: insert_transcript_keeps)

lemma project_prepared_keeps: "project_prepared mode t ev a i model retry = Ok u \<Longrightarrow> log_kept t u"
  by (auto simp: project_prepared_def Let_def result_simps log_kept_def split: if_splits)

lemma settle_attempt_keeps: "settle_attempt t ev a state json mode = Ok u \<Longrightarrow> log_kept t u"
  by (auto simp: settle_attempt_def Let_def result_simps log_kept_def dest!: update_attempt_keeps)

lemma project_text_keeps: "project_text cd mode t ev a text = Ok u \<Longrightarrow> log_kept t u"
  by (auto simp: project_text_def Let_def result_simps log_kept_def split: if_splits
      dest!: insert_transcript_keeps)

lemma project_attempt_keeps: "project_attempt cd mode t ev p = Ok u \<Longrightarrow> log_kept t u"
  by (cases p) (auto simp: result_simps dest: update_attempt_keeps settle_attempt_keeps project_text_keeps)

lemma apply_context_turn_binding_keeps: "apply_context_turn_binding cd t ev = Ok u \<Longrightarrow> log_kept t u"
  unfolding apply_context_turn_binding_def
  by (cases "ev_payload ev"; simp add: Let_def result_simps log_kept_def; (elim exE conjE)?; simp)

lemmas projection_keeps =
  project_session_keeps project_input_keeps project_prepared_keeps project_attempt_keeps
  apply_context_turn_binding_keeps

lemma apply_projection_keeps: "apply_projection cd mode t ev = Ok u \<Longrightarrow> log_kept t u"
  unfolding apply_projection.simps
  by (cases "ev_payload ev"; simp only: event_payload.case; (erule projection_keeps)?)
    (auto simp: result_simps)

text \<open>No operation of the store can panic.\<close>

lemma projection_no_Panic:
  "project_session mode t ev p \<noteq> Panic" "project_input cd mode t ev i prompt d \<noteq> Panic"
  "project_prepared mode t ev a i' model retry \<noteq> Panic" "settle_attempt t ev a state json mode \<noteq> Panic"
  "update_attempt mode t sid a guard f \<noteq> Panic" "project_text cd mode t ev a text \<noteq> Panic"
proof -
  have session: "update_session t sid f \<noteq> Panic" for sid f
    by (simp add: update_session_def Let_def result_simps)
  have sequence: "to_sql_sequence n \<noteq> Panic" for n by (simp add: to_sql_sequence_def)
  have transition: "require_transition n m \<noteq> Panic" for n m by (simp add: require_transition_def)
  have transcript: "insert_segment cd t ev source q content \<noteq> Panic" "insert_message t sid source role st q \<noteq> Panic"
    for t source q content sid role st by (simp_all add: insert_segment_def insert_message_def)
  have in_flight: "require_attempt_in_flight t sid a m \<noteq> Panic" for t sid m
    by (simp add: require_attempt_in_flight_def split: option.splits)
  show attempt: "update_attempt mode t sid a guard f \<noteq> Panic" for t sid guard f
    by (simp add: update_attempt_def Let_def result_simps transition)
  note simps = Let_def result_simps session sequence transition transcript in_flight attempt
  show "project_session mode t ev p \<noteq> Panic"
    by (cases p) (simp_all add: simps)
  show "project_input cd mode t ev i prompt d \<noteq> Panic"
    by (simp add: project_input_def simps)
  show "project_prepared mode t ev a i' model retry \<noteq> Panic"
    by (simp add: project_prepared_def simps)
  show "settle_attempt t ev a state json mode \<noteq> Panic"
    by (simp add: settle_attempt_def simps)
  show "project_text cd mode t ev a text \<noteq> Panic"
    by (simp add: project_text_def simps)
qed

lemma decode_no_Panic: "decode_pairs xs \<noteq> Panic" "decode_digest d \<noteq> Panic"
proof -
  show pairs: "decode_pairs xs \<noteq> Panic" for xs
    by (induction xs rule: decode_pairs.induct) (simp_all add: result_simps)
  show "decode_digest d \<noteq> Panic"
    by (cases d) (simp add: result_simps pairs)
qed

lemma binding_no_Panic:
  "apply_context_turn_binding cd t ev \<noteq> Panic" "validate_run_turn_binding t ev \<noteq> Panic"
proof -
  have sequence: "to_sql_sequence n \<noteq> Panic" for n by (simp add: to_sql_sequence_def)
  have state: "load_attempt_binding_state cd t sid a q \<noteq> Panic" for sid a q
    unfolding load_attempt_binding_state_def
    by (simp add: result_simps sequence try_fold_never_panics)
  show "apply_context_turn_binding cd t ev \<noteq> Panic"
    by (auto simp: apply_context_turn_binding_def validate_binding_boundary_def decode_manifest_def
        Let_def result_simps state decode_no_Panic split: event_payload.splits causation.splits option.splits)
  show "validate_run_turn_binding t ev \<noteq> Panic"
    by (simp add: validate_run_turn_binding_def result_simps sequence split: event_payload.split)
qed

lemma project_attempt_no_Panic: "project_attempt cd mode t ev p \<noteq> Panic"
  by (cases p) (simp_all add: result_simps projection_no_Panic)

lemma apply_projection_no_Panic: "apply_projection cd mode t ev \<noteq> Panic"
  unfolding apply_projection.simps
  by (cases "ev_payload ev")
    (simp_all add: projection_no_Panic project_attempt_no_Panic binding_no_Panic result_simps del: project_attempt.simps project_session.simps)

lemma append_events_no_Panic: "append_events cd fail t index xs \<noteq> Panic"
  by (induction xs arbitrary: t index)
    (auto simp: result_simps apply_projection_no_Panic insert_event_def advance_session_def
      to_sql_sequence_def validate_durable_causation_def split: causation.splits option.splits)

lemma validate_loop_no_Panic: "validate_loop cd req index es cs ps n evs \<noteq> Panic"
  by (induction evs arbitrary: index es cs ps n) (auto simp: result_simps split: causation.splits)

lemma validate_event_row_no_Panic: "validate_event_row cd t r \<noteq> Panic"
  by (simp add: validate_event_row_def result_simps)

lemma sqlite_append_no_Panic: "sqlite_append cd s req \<noteq> (Panic, s')"
proof -
  have "existing_event cd (ss_tables s) x \<noteq> Panic" for x
    by (simp add: existing_event_def result_simps validate_event_row_no_Panic split: option.split)
  then have "existing_batch_state cd (ss_tables s) xs \<noteq> Panic" for xs
    unfolding existing_batch_state_def
    by (simp add: result_simps try_fold_never_panics)
  moreover have "append_transaction cd fail (ss_tables s) req xs \<noteq> Panic" for fail xs
    by (simp add: append_transaction_def result_simps current_session_version_def Let_def insert_session_def
        append_events_no_Panic)
  moreover have "reconcile_batch (ss_tables s) req n \<noteq> Panic" for n
    by (simp add: reconcile_batch_def current_session_version_def Let_def result_simps)
  ultimately show ?thesis
    by (auto simp: sqlite_append_def Let_def validate_and_encode_def result_simps validate_loop_no_Panic
        split: result.splits existing_batch.splits if_splits)
qed

end
