(* ===== verification/Sqlite_Laws.thy ===== *)
theory Sqlite_Laws
  imports Sqlite_Inv
begin

text \<open>
  The SQLite store keeps the laws of the port: the invariant relates the event rows to the log and the
  session rows to the number of events, append keeps it and is a compare-and-swap on the version of the
  session, and the readers return the log. The interpretation of the port's locale at the end makes the
  lemmas on the durable engine available for this store.
\<close>

section \<open>The log of the tables\<close>

definition stored_log :: "'x codec \<Rightarrow> tables \<Rightarrow> event_envelope list" where
  "stored_log cd t = List.map_filter (\<lambda>r. cd_event_from_slice cd (er_envelope_json r)) (t_events t)"

definition row_for :: "'x codec \<Rightarrow> event_envelope \<Rightarrow> event_row" where
  "row_for cd ev = event_row_of (ev, the (cd_event_to_vec cd ev)) (int (ev_sequence ev))"

definition storable :: "'x codec \<Rightarrow> event_envelope \<Rightarrow> bool" where
  "storable cd ev \<longleftrightarrow>
     (\<exists>json. cd_event_to_vec cd ev = Some json) \<and> ev_schema_version ev = event_schema_v1
     \<and> ev_sequence ev \<le> max_sqlite_sequence"

definition causes_ok :: "event_envelope list \<Rightarrow> bool" where
  "causes_ok log \<longleftrightarrow>
     (\<forall>ev \<in> set log. \<forall>e. ev_causation ev = Cause_Event e \<longrightarrow>
        (\<exists>c \<in> set log. ev_session_id c = ev_session_id ev \<and> ev_event_id c = e
           \<and> ev_sequence c < ev_sequence ev))"

definition numbered :: "event_envelope list \<Rightarrow> bool" where
  "numbered log \<longleftrightarrow>
     (\<forall>sid. map ev_sequence (session_events sid log) = [1..<Suc (length (session_events sid log))])"

definition events_inv :: "'x codec \<Rightarrow> tables \<Rightarrow> event_envelope list \<Rightarrow> bool" where
  "events_inv cd t log \<longleftrightarrow>
     t_events t = map (row_for cd) log \<and> list_all (storable cd) log \<and> causes_ok log \<and> numbered log"

definition counts_ok :: "tables \<Rightarrow> event_envelope list \<Rightarrow> bool" where
  "counts_ok t log \<longleftrightarrow>
     (\<forall>(sid, n) \<in> set (session_cursors t). n = int (length (session_events sid log)))"

definition tables_inv :: "'x codec \<Rightarrow> tables \<Rightarrow> bool" where
  "tables_inv cd t \<longleftrightarrow>
     codec_ok cd \<and> schema_ok t \<and> events_inv cd t (stored_log cd t) \<and> counts_ok t (stored_log cd t)
     \<and> (\<forall>r \<in> set (t_sessions t). session_events (sr_session_id r) (stored_log cd t) \<noteq> [])"

lemma row_for_sel [simp]:
  "er_event_id (row_for cd ev) = ev_event_id ev" "er_session_id (row_for cd ev) = ev_session_id ev"
  "er_sequence (row_for cd ev) = int (ev_sequence ev)"
  "er_schema_version (row_for cd ev) = int (ev_schema_version ev)"
  "er_occurred_at (row_for cd ev) = ev_occurred_at ev"
  "er_caused_by_command_id (row_for cd ev) =
     (case ev_causation ev of Cause_Command c \<Rightarrow> Some c | Cause_Event _ \<Rightarrow> None)"
  "er_caused_by_event_id (row_for cd ev) =
     (case ev_causation ev of Cause_Command _ \<Rightarrow> None | Cause_Event e \<Rightarrow> Some e)"
  "er_correlation_id (row_for cd ev) = ev_correlation_id ev"
  "er_event_kind (row_for cd ev) = event_kind (ev_payload ev)"
  "er_envelope_json (row_for cd ev) = the (cd_event_to_vec cd ev)"
  by (simp_all add: row_for_def event_row_of_def Let_def)

lemma decode_row:
  "codec_ok cd \<Longrightarrow> storable cd ev \<Longrightarrow> cd_event_from_slice cd (the (cd_event_to_vec cd ev)) = Some ev"
  by (auto simp: codec_ok_def storable_def)

lemma stored_log_eq:
  assumes "codec_ok cd" "t_events t = map (row_for cd) log" "list_all (storable cd) log"
  shows "stored_log cd t = log"
proof -
  have "List.map_filter (\<lambda>r. cd_event_from_slice cd (er_envelope_json r)) (map (row_for cd) log) = log"
    using assms(3) by (induction log) (simp_all add: decode_row [OF assms(1)] map_filter_simps)
  then show ?thesis using assms(2) by (simp add: stored_log_def)
qed

section \<open>What the schema says of the log\<close>

lemma events_unique:
  assumes "events_inv cd t log" "schema_ok t"
  shows "distinct (map ev_event_id log)" "distinct (command_causes log)"
proof -
  have rows: "t_events t = map (row_for cd) log" using assms(1) by (simp add: events_inv_def)
  have "distinct (map er_event_id (t_events t))" "unique_opt er_caused_by_command_id (t_events t)"
    using assms(2) by (simp_all add: schema_ok_def events_ok_def)
  moreover have "map er_event_id (map (row_for cd) log) = map ev_event_id log" by simp
  moreover have "List.map_filter er_caused_by_command_id (map (row_for cd) log) = command_causes log"
    by (induction log) (simp_all add: map_filter_simps split: causation.splits)
  ultimately show "distinct (map ev_event_id log)" "distinct (command_causes log)"
    unfolding rows unique_opt_def by metis+
qed

lemma log_wf_of_inv:
  assumes "events_inv cd t log" "schema_ok t" shows "log_wf log"
  using events_unique [OF assms] assms(1) by (simp add: log_wf_def events_inv_def numbered_def)

lemma sessions_distinct: "schema_ok t \<Longrightarrow> distinct (map sr_session_id (t_sessions t))"
  by (simp add: schema_ok_def sessions_ok_def)

lemma session_row_exists:
  assumes "events_inv cd t log" "schema_ok t" "session_events sid log \<noteq> []"
  shows "\<exists>r \<in> set (t_sessions t). sr_session_id r = sid"
proof -
  obtain ev where ev: "ev \<in> set log" "ev_session_id ev = sid"
    using assms(3) by (auto simp: session_events_def filter_empty_conv)
  then have "row_for cd ev \<in> set (t_events t)" using assms(1) by (simp add: events_inv_def)
  then have "session_exists t sid"
    using assms(2) ev(2) unfolding schema_ok_def events_ok_def list_all_iff by force
  then show ?thesis by (simp add: session_exists_def list_ex_iff)
qed

lemma find_by_key:
  assumes "distinct (map key rows)" "r \<in> set rows"
  shows "find (\<lambda>x. key x = key r) rows = Some r"
  using assms by (induction rows) (auto intro: rev_image_eqI)

lemma current_version:
  assumes inv: "events_inv cd t log" "schema_ok t" "counts_ok t log"
  shows "current_session_version t sid = Ok (length (session_events sid log))"
proof (cases "\<exists>r \<in> set (t_sessions t). sr_session_id r = sid")
  case True
  then obtain r where r: "r \<in> set (t_sessions t)" "sr_session_id r = sid" by blast
  then have "find (\<lambda>x. sr_session_id x = sid) (t_sessions t) = Some r"
    using find_by_key [OF sessions_distinct [OF inv(2)]] by blast
  moreover have "sr_last_sequence r = int (length (session_events sid log))"
    using inv(3) r by (force simp: counts_ok_def session_cursors_def)
  ultimately show ?thesis by (simp add: current_session_version_def)
next
  case False
  then have "find (\<lambda>x. sr_session_id x = sid) (t_sessions t) = None" by (simp add: find_None_iff)
  moreover have "session_events sid log = []" using session_row_exists [OF inv(1,2)] False by blast
  ultimately show ?thesis by (simp add: current_session_version_def)
qed

section \<open>Reading rows back\<close>

lemma find_event_row:
  assumes "events_inv cd t log" "schema_ok t" "ev \<in> set log"
  shows "find (\<lambda>r. er_event_id r = ev_event_id ev) (t_events t) = Some (row_for cd ev)"
    and "find (\<lambda>r. er_session_id r = ev_session_id ev \<and> er_event_id r = ev_event_id ev) (t_events t) =
           Some (row_for cd ev)"
proof -
  have mem: "row_for cd ev \<in> set (t_events t)" and keys: "distinct (map er_event_id (t_events t))"
    using assms by (simp_all add: events_inv_def schema_ok_def events_ok_def)
  show "find (\<lambda>r. er_event_id r = ev_event_id ev) (t_events t) = Some (row_for cd ev)"
    using find_by_key [OF keys mem] by simp
  have keys': "distinct (map (\<lambda>r. (er_session_id r, er_event_id r)) (t_events t))"
    using keys by (auto simp: distinct_map inj_on_def)
  show "find (\<lambda>r. er_session_id r = ev_session_id ev \<and> er_event_id r = ev_event_id ev) (t_events t) =
      Some (row_for cd ev)"
    using find_by_key [OF keys' mem] by simp
qed

lemma validate_stored_row:
  assumes "codec_ok cd" "events_inv cd t log" "schema_ok t" "ev \<in> set log"
  shows "validate_event_row cd t (row_for cd ev) = Ok ev"
proof -
  have st: "storable cd ev" using assms(2,4) by (auto simp: events_inv_def list_all_iff)
  have "causation_matches t (row_for cd ev) (ev_causation ev)"
  proof (cases "ev_causation ev")
    case (Cause_Command c)
    then show ?thesis by (simp add: causation_matches_def cause_sequence_def)
  next
    case (Cause_Event e)
    then obtain c where c: "c \<in> set log" "ev_session_id c = ev_session_id ev" "ev_event_id c = e"
      "ev_sequence c < ev_sequence ev"
      using assms(2,4) unfolding events_inv_def causes_ok_def by blast
    then show ?thesis
      using Cause_Event find_event_row(2) [OF assms(2,3) c(1)]
      by (simp add: causation_matches_def cause_sequence_def)
  qed
  then show ?thesis
    using st decode_row [OF assms(1) st] by (simp add: validate_event_row_def storable_def)
qed

section \<open>Pages\<close>

lemma numbered_session:
  assumes "numbered log"
  shows "map ev_sequence (session_events sid log) = [1..<Suc (length (session_events sid log))]"
  using assms by (simp add: numbered_def)

lemma filter_rows:
  "filter (\<lambda>r. P (er_session_id r) (er_sequence r)) (map (row_for cd) log) =
     map (row_for cd) (filter (\<lambda>ev. P (ev_session_id ev) (int (ev_sequence ev))) log)"
  by (induction log) simp_all

lemma filter_after:
  assumes "map ev_sequence xs = [Suc k..<Suc (k + length xs)]"
  shows "filter (\<lambda>ev. after < ev_sequence ev) xs = drop (after - k) xs"
  using assms
proof (induction xs arbitrary: k)
  case (Cons x xs)
  have hd: "ev_sequence x = Suc k" and tl: "map ev_sequence xs = [Suc (Suc k)..<Suc (Suc k + length xs)]"
    using Cons.prems by (simp_all add: upt_conv_Cons del: upt_Suc)
  note IH = Cons.IH [OF tl]
  show ?case
  proof (cases "after \<le> k")
    case True
    then have "filter (\<lambda>ev. after < ev_sequence ev) xs = xs" using IH by simp
    then show ?thesis using True hd by simp
  next
    case False
    then have "after - k = Suc (after - Suc k)" by simp
    then show ?thesis using False hd IH by simp
  qed
qed simp

lemma rows_after:
  assumes inv: "events_inv cd t log"
  shows "sort_key er_sequence (filter (\<lambda>r. er_session_id r = sid \<and> er_sequence r > int after) (t_events t)) =
     map (row_for cd) (drop after (session_events sid log))"
proof -
  let ?xs = "session_events sid log"
  have seqs: "map ev_sequence ?xs = [1..<Suc (length ?xs)]"
    using inv numbered_session by (simp add: events_inv_def)
  have rows: "filter (\<lambda>r. er_session_id r = sid \<and> er_sequence r > int after) (t_events t) =
      map (row_for cd) (drop after ?xs)"
    using inv filter_rows [of "\<lambda>s q. s = sid \<and> q > int after" cd log] filter_after [of ?xs 0 after] seqs
    by (simp add: events_inv_def session_events_def)
  have "sorted (map ev_sequence (drop after ?xs))"
    using seqs by (simp add: drop_map [symmetric] sorted_wrt_drop del: upt_Suc)
  then have "sorted (map er_sequence (map (row_for cd) (drop after ?xs)))"
    by (simp add: comp_def sorted_map)
  then show ?thesis unfolding rows by (rule sort_key_id_if_sorted)
qed

lemma read_page_rows:
  assumes "codec_ok cd" "events_inv cd t log" "schema_ok t" "set xs \<subseteq> set log"
    and "map ev_sequence xs = [n..<n + length xs]"
  shows "read_page cd t n (map (row_for cd) xs) = Ok xs"
  using assms(4,5)
proof (induction xs arbitrary: n)
  case (Cons x xs)
  have hd: "ev_sequence x = n" and tl: "map ev_sequence xs = [Suc n..<Suc n + length xs]"
    using Cons.prems(2) by (simp_all add: upt_conv_Cons del: upt_Suc)
  have "storable cd x" using assms(2) Cons.prems(1) by (auto simp: events_inv_def list_all_iff)
  then have "n \<le> i64_max" using hd by (simp add: storable_def max_sqlite_sequence_def)
  then have "checked_add_u64 n 1 = Some (Suc n)" by (simp add: checked_add_u64_def)
  moreover have "validate_event_row cd t (row_for cd x) = Ok x"
    using validate_stored_row [OF assms(1-3)] Cons.prems(1) by simp
  ultimately show ?case
    using Cons.IH [OF _ tl] Cons.prems(1) hd by simp
qed simp

lemma load_events_pages:
  assumes inv: "tables_inv cd (ss_tables s)"
    and after: "after \<le> length (session_events sid (stored_log cd (ss_tables s)))"
  shows "sqlite_load_events cd s sid after limit =
     Ok (take limit (drop after (session_events sid (stored_log cd (ss_tables s)))))"
proof -
  let ?t = "ss_tables s" and ?xs = "session_events sid (stored_log cd (ss_tables s))"
  have parts: "codec_ok cd" "events_inv cd ?t (stored_log cd ?t)" "schema_ok ?t"
    using inv by (simp_all add: tables_inv_def)
  have seqs: "map ev_sequence ?xs = [1..<Suc (length ?xs)]"
    using parts(2) numbered_session by (simp add: events_inv_def)
  have bound: "length ?xs \<le> i64_max"
  proof (cases "?xs = []")
    case False
    then have "last ?xs \<in> set (stored_log cd ?t)" "ev_sequence (last ?xs) = length ?xs"
      using last_in_set [OF False] last_of_page [OF seqs, of 0 "length ?xs"]
      by (auto simp: session_events_def)
    then show ?thesis
      using parts(2) by (auto simp: events_inv_def list_all_iff storable_def max_sqlite_sequence_def)
  qed simp
  let ?page = "take limit (drop after ?xs)"
  have "map ev_sequence ?page = [Suc after..<Suc after + length ?page]"
  proof -
    have "map ev_sequence ?page = take limit (drop after [1..<Suc (length ?xs)])"
      using seqs by (simp add: take_map [symmetric] drop_map [symmetric] del: upt_Suc)
    then show ?thesis using after by (simp del: upt_Suc add: min_def)
  qed
  moreover have "set ?page \<subseteq> set (stored_log cd ?t)"
    by (auto simp: session_events_def dest!: in_set_takeD in_set_dropD)
  ultimately have "read_page cd ?t (Suc after) (map (row_for cd) ?page) = Ok ?page"
    using read_page_rows [OF parts] by blast
  moreover have "to_sql_sequence after = Ok (int after)" "checked_add_u64 after 1 = Some (Suc after)"
    using after bound by (simp_all add: to_sql_sequence_def checked_add_u64_def)
  ultimately show ?thesis
    using rows_after [OF parts(2)] after bound
    by (auto simp: sqlite_load_events_def Let_def take_map max_sqlite_sequence_def)
qed

section \<open>The list of sessions\<close>

lemma session_row_valid:
  assumes inv: "tables_inv cd t" and r: "r \<in> set (t_sessions t)"
  shows "\<exists>x. validate_session_row t r = Ok x \<and> sum_session_id x = sr_session_id r
           \<and> sum_last_sequence x = length (session_events (sr_session_id r) (stored_log cd t))"
proof -
  let ?xs = "session_events (sr_session_id r) (stored_log cd t)"
  have parts: "codec_ok cd" "events_inv cd t (stored_log cd t)" "schema_ok t" "counts_ok t (stored_log cd t)"
    and ne: "?xs \<noteq> []"
    using inv r by (simp_all add: tables_inv_def)
  have seqs: "map ev_sequence ?xs = [1..<Suc (length ?xs)]"
    using parts(2) numbered_session by (simp add: events_inv_def)
  have cursor: "sr_last_sequence r = int (length ?xs)"
    using parts(4) r by (force simp: counts_ok_def session_cursors_def)
  have "map er_sequence (filter (\<lambda>e. er_session_id e = sr_session_id r) (t_events t)) =
      map int (map ev_sequence ?xs)"
    using parts(2) filter_rows [of "\<lambda>s q. s = sr_session_id r" cd "stored_log cd t"]
    by (simp add: events_inv_def session_events_def)
  then have rows: "map er_sequence (filter (\<lambda>e. er_session_id e = sr_session_id r) (t_events t)) =
      map int [1..<Suc (length ?xs)]"
    unfolding seqs .
  have "last ?xs \<in> set (stored_log cd t)" "ev_sequence (last ?xs) = length ?xs"
    using ne last_in_set [OF ne] last_of_page [OF seqs, of 0 "length ?xs"] by (auto simp: session_events_def)
  then have bound: "length ?xs \<le> i64_max"
    using parts(2) by (auto simp: events_inv_def list_all_iff storable_def max_sqlite_sequence_def)
  have range: "set (map int [1..<Suc (length ?xs)]) = {1..int (length ?xs)}"
    by (auto simp: image_int_atLeastLessThan simp del: upt_Suc)
  have "1 \<le> length ?xs" using ne by (cases ?xs) simp_all
  then have "Min {1..int (length ?xs)} = 1" "Max {1..int (length ?xs)} = int (length ?xs)"
    by (auto intro!: Min_eqI Max_eqI)
  moreover have "sequence_new (length ?xs) = Ok (length ?xs)"
    using bound ne by (simp add: sequence_new_def)
  moreover have "sr_selected_provider_id r = None \<longleftrightarrow> sr_selected_model_id r = None"
    using parts(3) r by (simp add: schema_ok_def sessions_ok_def list_all_iff)
  ultimately show ?thesis
    using cursor ne range unfolding validate_session_row_def Let_def rows
    by (auto simp del: upt_Suc split: option.splits)
qed

lemma list_sessions_complete:
  assumes inv: "tables_inv cd (ss_tables s)"
  shows "\<exists>xs. sqlite_list_sessions s = Ok xs \<and> distinct (map sum_session_id xs)
       \<and> (\<forall>sid. sid \<in> sum_session_id ` set xs \<longleftrightarrow> session_events sid (stored_log cd (ss_tables s)) \<noteq> [])
       \<and> (\<forall>x \<in> set xs. sum_last_sequence x = length (session_events (sum_session_id x) (stored_log cd (ss_tables s))))"
proof -
  let ?t = "ss_tables s"
  let ?rows = "sort_key (\<lambda>r. (- sr_updated_at r, session_str (sr_session_id r))) (t_sessions ?t)"
  define P where "P r x \<longleftrightarrow> sum_session_id x = sr_session_id r
      \<and> sum_last_sequence x = length (session_events (sr_session_id r) (stored_log cd ?t))"
    for r :: session_row and x :: session_summary
  obtain xs where xs: "try_map (validate_session_row ?t) ?rows = Ok xs" "list_all2 P ?rows xs"
    using try_map_Ok [of ?rows "validate_session_row ?t" P] session_row_valid [OF inv] unfolding P_def by auto
  have ids: "map sum_session_id xs = map sr_session_id ?rows"
    using xs(2) by (auto simp: P_def list_all2_conv_all_nth intro: nth_equalityI)
  have parts: "events_inv cd ?t (stored_log cd ?t)" "schema_ok ?t"
    "\<forall>r \<in> set (t_sessions ?t). session_events (sr_session_id r) (stored_log cd ?t) \<noteq> []"
    using inv by (simp_all add: tables_inv_def)
  have "distinct (map sr_session_id (t_sessions ?t))" using sessions_distinct [OF parts(2)] .
  then have "distinct (map sr_session_id ?rows)" by (simp add: distinct_map)
  moreover have "sid \<in> sum_session_id ` set xs \<longleftrightarrow> session_events sid (stored_log cd ?t) \<noteq> []" for sid
    using session_row_exists [OF parts(1,2), of sid] parts(3) arg_cong [OF ids, of set] by auto
  moreover have "\<forall>x \<in> set xs. sum_last_sequence x = length (session_events (sum_session_id x) (stored_log cd ?t))"
    using xs(2) by (auto simp: P_def list_all2_conv_all_nth in_set_conv_nth)
  ultimately show ?thesis
    using xs(1) ids by (auto simp: sqlite_list_sessions_def Let_def)
qed

section \<open>Append\<close>

text \<open>What validation has established of an encoded batch.\<close>

definition batch_encoded :: "'x codec \<Rightarrow> session_id \<Rightarrow> nat \<Rightarrow> encoded_event list \<Rightarrow> bool" where
  "batch_encoded cd sid n xs \<longleftrightarrow>
     list_all (\<lambda>(ev, json). ev_session_id ev = sid \<and> storable cd ev \<and> cd_event_to_vec cd ev = Some json) xs
     \<and> map (ev_sequence \<circ> fst) xs = [n..<n + length xs]"

lemma batch_encoded_Cons:
  "batch_encoded cd sid n (x # xs) \<longleftrightarrow>
     ev_session_id (fst x) = sid \<and> storable cd (fst x) \<and> cd_event_to_vec cd (fst x) = Some (snd x)
     \<and> ev_sequence (fst x) = n \<and> batch_encoded cd sid (Suc n) xs"
  by (auto simp: batch_encoded_def upt_conv_Cons simp del: upt_Suc split: prod.splits)

lemma batch_encoded_own:
  "batch_encoded cd sid n xs \<Longrightarrow> list_all (\<lambda>ev. ev_session_id ev = sid) (map fst xs)"
  by (induction xs arbitrary: n) (auto simp: batch_encoded_Cons)

lemma validate_loop_Ok:
  assumes "validate_loop cd req index es cs ps n evs = Ok xs"
  shows "map fst xs = evs \<and> batch_encoded cd (rq_session_id req) n xs"
  using assms
proof (induction evs arbitrary: index es cs ps n xs)
  case Nil
  then show ?case by (simp add: batch_encoded_def)
next
  case (Cons ev evs)
  then obtain json commands rest where
    "ev_session_id ev = rq_session_id req" "storable cd ev" "ev_sequence ev = n"
    "cd_event_to_vec cd ev = Some json" "xs = (ev, json) # rest"
    "validate_loop cd req (Suc index) (insert (ev_event_id ev) es) commands
       (insert (ev_event_id ev) ps) (Suc n) evs = Ok rest"
    by (auto simp: result_simps storable_def checked_add_u64_Some simp del: int_max_values)
  then show ?case using Cons.IH by (auto simp: batch_encoded_Cons)
qed

lemma validate_and_encode_Ok:
  assumes "validate_and_encode cd req = Ok xs"
  shows "map fst xs = rq_events req \<and> xs \<noteq> []
       \<and> batch_encoded cd (rq_session_id req) (Suc (rq_expected_last_sequence req)) xs"
proof -
  have ne: "rq_events req \<noteq> []"
    and loop: "validate_loop cd req 0 {} {} {} (Suc (rq_expected_last_sequence req)) (rq_events req) = Ok xs"
    using assms by (auto simp: validate_and_encode_def result_simps checked_add_u64_Some simp del: int_max_values)
  show ?thesis using validate_loop_Ok [OF loop] ne by auto
qed

text \<open>Inserting the row of the next event of a session extends the log by that event.\<close>

lemma insert_event_Ok:
  assumes inv: "events_inv cd t log" "schema_ok t"
    and x: "storable cd ev" "cd_event_to_vec cd ev = Some json"
    and n: "ev_sequence ev = Suc (length (session_events (ev_session_id ev) log))"
    and cause: "validate_durable_causation t ev = Ok ()"
    and ins: "insert_event t (ev, json) = Ok u"
  shows "events_inv cd u (log @ [ev]) \<and> schema_ok u \<and> session_cursors u = session_cursors t
       \<and> t_sessions u = t_sessions t"
proof -
  have u: "schema_ok u" "u = t\<lparr>t_events := t_events t @ [row_for cd ev]\<rparr>"
    using ins x unfolding insert_event_def
    by (auto simp: result_simps to_sql_sequence_def row_for_def storable_def split: if_splits)
  have rows: "t_events u = map (row_for cd) (log @ [ev])"
    using inv(1) u(2) by (simp add: events_inv_def)
  have "\<exists>c \<in> set log. ev_session_id c = ev_session_id ev \<and> ev_event_id c = e \<and> ev_sequence c < ev_sequence ev"
    if caused: "ev_causation ev = Cause_Event e" for e
  proof -
    obtain r where r: "find (\<lambda>r. er_session_id r = ev_session_id ev \<and> er_event_id r = e) (t_events t) = Some r"
      "er_sequence r < int (ev_sequence ev)"
      using cause caused unfolding validate_durable_causation_def
      by (auto simp: result_simps to_sql_sequence_def split: option.splits if_splits)
    then have "r \<in> set (t_events t) \<and> er_session_id r = ev_session_id ev \<and> er_event_id r = e"
      by (metis (mono_tags, lifting) find_Some_iff nth_mem)
    then show ?thesis using inv(1) r(2) by (auto simp: events_inv_def)
  qed
  then have "causes_ok (log @ [ev])"
    using inv(1) unfolding events_inv_def causes_ok_def by (fastforce simp only: set_append list.set Un_iff)
  moreover have "numbered (log @ [ev])"
    using inv(1) n unfolding events_inv_def numbered_def by (auto simp: session_events_def)
  ultimately show ?thesis
    using rows u inv(1) x(1) by (simp add: events_inv_def)
qed

lemma advance_session_Ok:
  assumes adv: "advance_session t ev = Ok u" and counts: "counts_ok t log"
    and n: "ev_sequence ev = Suc (length (session_events (ev_session_id ev) log))"
  shows "counts_ok u (log @ [ev]) \<and> schema_ok u \<and> t_events u = t_events t
       \<and> map sr_session_id (t_sessions u) = map sr_session_id (t_sessions t)"
proof -
  have u: "schema_ok u" "u = t\<lparr>t_sessions := update_where (\<lambda>r. sr_session_id r = ev_session_id ev)
       (\<lambda>r. r\<lparr>sr_last_sequence := int (ev_sequence ev), sr_updated_at := ev_occurred_at ev\<rparr>) (t_sessions t)\<rparr>"
    using adv unfolding advance_session_def
    by (auto simp: result_simps to_sql_sequence_def split: if_splits)
  have "counts_ok u (log @ [ev])"
    using counts n unfolding counts_ok_def u(2) session_cursors_def
    by (auto simp: update_where_def session_events_def)
  then show ?thesis using u by (auto simp: update_where_def comp_def)
qed

lemma append_events_Ok:
  assumes "append_events cd fail t index xs = Ok u"
    and "events_inv cd t log" "schema_ok t" "counts_ok t log"
    and "batch_encoded cd sid (Suc (length (session_events sid log))) xs"
  shows "events_inv cd u (log @ map fst xs) \<and> schema_ok u \<and> counts_ok u (log @ map fst xs)
       \<and> map sr_session_id (t_sessions u) = map sr_session_id (t_sessions t)"
  using assms
proof (induction xs arbitrary: t index log)
  case (Cons x xs)
  obtain ev json where x: "x = (ev, json)" by fastforce
  have enc: "ev_session_id ev = sid" "storable cd ev" "cd_event_to_vec cd ev = Some json"
    "ev_sequence ev = Suc (length (session_events sid log))"
    "batch_encoded cd sid (Suc (Suc (length (session_events sid log)))) xs"
    using Cons.prems(5) by (simp_all add: batch_encoded_Cons x)
  obtain t1 t2 t3 where steps: "validate_durable_causation t ev = Ok ()" "insert_event t (ev, json) = Ok t1"
    "apply_projection cd PM_Append t1 ev = Ok t2" "advance_session t2 ev = Ok t3"
    "append_events cd fail t3 (Suc index) xs = Ok u"
    using Cons.prems(1) by (auto simp: x result_simps)
  have t1: "events_inv cd t1 (log @ [ev])" "schema_ok t1" "session_cursors t1 = session_cursors t"
    "t_sessions t1 = t_sessions t"
    using insert_event_Ok [OF Cons.prems(2,3) enc(2,3) _ steps(1,2)] enc(1,4) by simp_all
  have t2: "schema_ok t2" "t_events t2 = t_events t1" "session_cursors t2 = session_cursors t1"
    using apply_projection_keeps [OF steps(3)] t1(2) by (simp_all add: log_kept_def)
  have "counts_ok t2 log" using Cons.prems(4) t1(3) t2(3) by (simp add: counts_ok_def)
  then have t3: "counts_ok t3 (log @ [ev])" "schema_ok t3" "t_events t3 = t_events t2"
    "map sr_session_id (t_sessions t3) = map sr_session_id (t_sessions t2)"
    using advance_session_Ok [OF steps(4)] enc(1,4) by simp_all
  have "map fst (session_cursors t2) = map fst (session_cursors t1)" using t2(3) by simp
  then have ids: "map sr_session_id (t_sessions t2) = map sr_session_id (t_sessions t1)"
    by (simp add: session_cursors_def comp_def)
  have "events_inv cd t3 (log @ [ev])" using t1(1) t2(2) t3(3) by (simp add: events_inv_def)
  moreover have "batch_encoded cd sid (Suc (length (session_events sid (log @ [ev])))) xs"
    using enc(1,5) by (simp add: session_events_def)
  ultimately show ?case
    using Cons.IH [OF steps(5) _ t3(2,1)] t3(4) ids t1(4) by (simp add: x)
qed simp

section \<open>The invariant of the store\<close>

definition sqlite_inv :: "'x codec \<Rightarrow> sqlite_store \<Rightarrow> bool" where
  "sqlite_inv cd s \<longleftrightarrow> tables_inv cd (ss_tables s)"

definition sqlite_log :: "'x codec \<Rightarrow> sqlite_store \<Rightarrow> event_envelope list" where
  "sqlite_log cd s = stored_log cd (ss_tables s)"

lemma append_transaction_Ok:
  assumes inv: "tables_inv cd t" and tx: "append_transaction cd fail t req xs = Ok u"
    and enc: "batch_encoded cd (rq_session_id req) (Suc (rq_expected_last_sequence req)) xs" "xs \<noteq> []"
  shows "tables_inv cd u \<and> stored_log cd u = stored_log cd t @ map fst xs
       \<and> length (session_events (rq_session_id req) (stored_log cd t)) = rq_expected_last_sequence req"
proof -
  let ?sid = "rq_session_id req" and ?log = "stored_log cd t"
  have parts: "codec_ok cd" "events_inv cd t ?log" "schema_ok t" "counts_ok t ?log"
    "\<forall>r \<in> set (t_sessions t). session_events (sr_session_id r) ?log \<noteq> []"
    using inv by (simp_all add: tables_inv_def)
  note version = current_version [OF parts(2-4), of ?sid]
  obtain t0 where len: "length (session_events ?sid ?log) = rq_expected_last_sequence req"
    and t0: "insert_session t ?sid (ev_occurred_at (fst (hd xs))) = Ok t0 \<and> session_events ?sid ?log = []
       \<or> t0 = t"
    and loop: "append_events cd fail t0 0 xs = Ok u"
    using tx unfolding append_transaction_def version
    by (cases "session_events ?sid ?log = []") (auto simp: result_simps)
  have start: "events_inv cd t0 ?log" "schema_ok t0" "counts_ok t0 ?log"
    "set (map sr_session_id (t_sessions t0)) \<subseteq> insert ?sid (set (map sr_session_id (t_sessions t)))"
    using t0 parts unfolding insert_session_def
    by (auto simp: result_simps events_inv_def counts_ok_def session_cursors_def split: if_splits)
  have u: "events_inv cd u (?log @ map fst xs)" "schema_ok u" "counts_ok u (?log @ map fst xs)"
    "map sr_session_id (t_sessions u) = map sr_session_id (t_sessions t0)"
    using append_events_Ok [OF loop start(1-3), of ?sid] enc(1) len by simp_all
  have log: "stored_log cd u = ?log @ map fst xs"
    using stored_log_eq [OF parts(1), of u "?log @ map fst xs"] u(1) by (simp add: events_inv_def)
  have own: "session_events ?sid (map fst xs) \<noteq> []"
    using enc by (cases xs) (auto simp: batch_encoded_Cons session_events_def)
  have "session_events (sr_session_id r) (?log @ map fst xs) \<noteq> []" if "r \<in> set (t_sessions u)" for r
  proof -
    have "sr_session_id r \<in> insert ?sid (set (map sr_session_id (t_sessions t)))"
      using that start(4) u(4) by (metis (no_types, lifting) image_eqI list.set_map subsetD)
    then show ?thesis using own parts(5) by auto
  qed
  then show ?thesis using u log parts(1) len by (simp add: tables_inv_def)
qed

lemma existing_batch_All:
  assumes "codec_ok cd" "events_inv cd t log" "schema_ok t"
    and "existing_batch_state cd t xs = Ok EB_All"
  shows "set (map fst xs) \<subseteq> set log"
proof -
  let ?f = "\<lambda>n x. and_then (existing_event cd t x) (\<lambda>b. Ok (if b then Suc n else n))"
  have bound: "try_fold ?f k xs = Ok n \<Longrightarrow> n \<le> k + length xs" for k n xs
    by (induction xs arbitrary: k) (fastforce simp: result_simps split: if_splits)+
  have all: "try_fold ?f k xs = Ok (k + length xs) \<Longrightarrow> x \<in> set xs \<Longrightarrow> existing_event cd t x = Ok True" for k x
  proof (induction xs arbitrary: k)
    case (Cons y xs)
    then obtain b where b: "existing_event cd t y = Ok b"
      "try_fold ?f (if b then Suc k else k) xs = Ok (k + length (y # xs))"
      by (auto simp: result_simps)
    then have "b" using bound [of "if b then Suc k else k" xs] by (cases b) fastforce+
    then show ?case using Cons.IH [of "Suc k"] Cons.prems(2) b by auto
  qed simp
  have fold: "try_fold ?f 0 xs = Ok (length xs)"
    using assms(4) by (auto simp: existing_batch_state_def result_simps split: if_splits)
  have "fst x \<in> set log" if x: "x \<in> set xs" for x
  proof -
    have "existing_event cd t x = Ok True" using all [of 0] fold x by simp
    then obtain r where "find (\<lambda>r. er_event_id r = ev_event_id (fst x)) (t_events t) = Some r"
      "validate_event_row cd t r = Ok (fst x)"
      unfolding existing_event_def by (auto simp: result_simps split: option.splits)
    moreover then have "r \<in> set (t_events t)" by (metis find_Some_iff nth_mem)
    then obtain ev where "r = row_for cd ev" "ev \<in> set log" using assms(2) by (auto simp: events_inv_def)
    ultimately show ?thesis using validate_stored_row [OF assms(1-3)] by force
  qed
  then show ?thesis by auto
qed

text \<open>The ways an append can end.\<close>

lemma sqlite_append_cases:
  assumes inv: "sqlite_inv cd s" and app: "sqlite_append cd s req = (r, s')"
  shows "s' = s \<and> (\<forall>rc. r = Ok rc \<longrightarrow> rc_disposition rc = AlreadyCommitted
            \<and> set (rq_events req) \<subseteq> set (sqlite_log cd s)
            \<and> list_all (\<lambda>ev. ev_session_id ev = rq_session_id req) (rq_events req)
            \<and> rc_last_sequence rc = length (session_events (rq_session_id req) (sqlite_log cd s)))
       \<or> (r = Err SE_Backend \<or> (\<exists>rc. r = Ok rc \<and> rc_disposition rc = Committed
            \<and> rc_last_sequence rc = rq_expected_last_sequence req + length (rq_events req)))
         \<and> sqlite_inv cd s' \<and> sqlite_log cd s' = sqlite_log cd s @ rq_events req
         \<and> batch_fits (sqlite_log cd s) req"
proof -
  let ?t = "ss_tables s" and ?fail = "ss_failure_point s"
  have tinv: "tables_inv cd ?t" using inv by (simp add: sqlite_inv_def)
  then have parts: "codec_ok cd" "events_inv cd ?t (stored_log cd ?t)" "schema_ok ?t"
      "counts_ok ?t (stored_log cd ?t)"
    by (simp_all add: tables_inv_def)
  show ?thesis
  proof (cases "\<exists>xs. validate_and_encode cd req = Ok xs \<and> existing_batch_state cd ?t xs = Ok EB_None")
    case False
    then show ?thesis
    proof (cases "\<exists>xs. validate_and_encode cd req = Ok xs \<and> existing_batch_state cd ?t xs = Ok EB_All")
      case True
      then obtain xs where xs: "validate_and_encode cd req = Ok xs" "existing_batch_state cd ?t xs = Ok EB_All"
        by blast
      note enc = validate_and_encode_Ok [OF xs(1)]
      have "set (rq_events req) \<subseteq> set (sqlite_log cd s)"
        using existing_batch_All [OF parts(1-3) xs(2)] enc by (simp add: sqlite_log_def)
      moreover have "list_all (\<lambda>ev. ev_session_id ev = rq_session_id req) (rq_events req)"
        using enc batch_encoded_own by metis
      ultimately show ?thesis
        using app xs enc
        by (auto simp: sqlite_append_def Let_def reconcile_batch_def current_version [OF parts(2-4)]
            sqlite_log_def result_simps)
    next
      case no_all: False
      have "s' = s \<and> (\<forall>rc. r \<noteq> Ok rc)"
        using app False no_all
        by (auto simp: sqlite_append_def Let_def result_simps split: result.splits existing_batch.splits)
      then show ?thesis by simp
    qed
  next
    case True
    then obtain xs where xs: "validate_and_encode cd req = Ok xs" "existing_batch_state cd ?t xs = Ok EB_None"
      by blast
    note enc = validate_and_encode_Ok [OF xs(1)]
    show ?thesis
    proof (cases "append_transaction cd ?fail ?t req xs")
      case (Ok u)
      note tx = append_transaction_Ok [OF tinv Ok]
      have u: "tables_inv cd u" "stored_log cd u = stored_log cd ?t @ rq_events req"
        "length (session_events (rq_session_id req) (stored_log cd ?t)) = rq_expected_last_sequence req"
        using tx enc by simp_all
      then have uparts: "events_inv cd u (stored_log cd ?t @ rq_events req)" "schema_ok u"
        by (simp_all add: tables_inv_def)
      have seqs: "map ev_sequence (rq_events req) =
          [Suc (rq_expected_last_sequence req)..<Suc (rq_expected_last_sequence req) + length (rq_events req)]"
      proof -
        have evs: "rq_events req = map fst xs" using enc by simp
        show ?thesis unfolding evs map_map length_map using enc unfolding batch_encoded_def by blast
      qed
      have "list_all (\<lambda>ev. ev_session_id ev = rq_session_id req) (rq_events req)"
        using enc batch_encoded_own by metis
      then have fits: "batch_fits (sqlite_log cd s) req"
        using u(3) seqs events_unique [OF uparts] by (simp add: batch_fits_def sqlite_log_def del: upt_Suc)
      have "ev_sequence (fst (last xs)) = rq_expected_last_sequence req + length (rq_events req)"
      proof -
        have "ev_sequence (fst (last xs)) = last (map ev_sequence (rq_events req))"
          using enc by (metis last_map map_is_Nil_conv)
        then show ?thesis unfolding seqs using enc by (cases "rq_events req") auto
      qed
      then show ?thesis
        using app xs enc Ok u fits
        by (auto simp: sqlite_append_def Let_def sqlite_inv_def sqlite_log_def split: if_splits)
    qed (use app xs enc in \<open>auto simp: sqlite_append_def Let_def\<close>)
  qed
qed

interpretation sqlite: session_store "sqlite_append cd" "sqlite_load_events cd" sqlite_list_sessions
    "sqlite_inv cd" "sqlite_log cd" for cd :: "'x codec"
proof unfold_locales
  fix s s' :: sqlite_store and req r rc x sid after limit
  show "sqlite_inv cd s \<Longrightarrow> log_wf (sqlite_log cd s)"
    using log_wf_of_inv by (auto simp: sqlite_inv_def sqlite_log_def tables_inv_def)
  show "sqlite_inv cd s'" if "sqlite_inv cd s" "sqlite_append cd s req = (r, s')"
    using sqlite_append_cases [OF that] that(1) by auto
  show "batch_fits (sqlite_log cd s) req \<and> sqlite_log cd s' = sqlite_log cd s @ rq_events req
      \<and> rc_last_sequence rc = rq_expected_last_sequence req + length (rq_events req)"
    if "sqlite_inv cd s" "sqlite_append cd s req = (Ok rc, s')" "rc_disposition rc = Committed"
    using sqlite_append_cases [OF that(1,2)] that(3) by auto
  show "sqlite_log cd s' = sqlite_log cd s \<and> set (rq_events req) \<subseteq> set (sqlite_log cd s)
      \<and> list_all (\<lambda>ev. ev_session_id ev = rq_session_id req) (rq_events req)
      \<and> rc_last_sequence rc = length (session_events (rq_session_id req) (sqlite_log cd s))"
    if "sqlite_inv cd s" "sqlite_append cd s req = (Ok rc, s')" "rc_disposition rc = AlreadyCommitted"
    using sqlite_append_cases [OF that(1,2)] that(3) by auto
  show "sqlite_log cd s' = sqlite_log cd s
      \<or> batch_fits (sqlite_log cd s) req \<and> sqlite_log cd s' = sqlite_log cd s @ rq_events req"
    if "sqlite_inv cd s" "sqlite_append cd s req = (Err x, s')"
    using sqlite_append_cases [OF that] by auto
  show "sqlite_append cd s req \<noteq> (Panic, s')" by (rule sqlite_append_no_Panic)
  show "sqlite_load_events cd s sid after limit =
      Ok (take limit (drop after (session_events sid (sqlite_log cd s))))"
    if "sqlite_inv cd s" "after \<le> length (session_events sid (sqlite_log cd s))"
    using load_events_pages that by (simp add: sqlite_inv_def sqlite_log_def)
  show "\<exists>xs. sqlite_list_sessions s = Ok xs \<and> distinct (map sum_session_id xs)
       \<and> (\<forall>sid. sid \<in> sum_session_id ` set xs \<longleftrightarrow> session_events sid (sqlite_log cd s) \<noteq> [])
       \<and> (\<forall>x \<in> set xs. sum_last_sequence x = length (session_events (sum_session_id x) (sqlite_log cd s)))"
    if "sqlite_inv cd s"
    using list_sessions_complete that by (simp add: sqlite_inv_def sqlite_log_def)
qed

lemma sqlite_inv_empty: "codec_ok cd \<Longrightarrow> sqlite_inv cd \<lparr>ss_tables = empty_tables, ss_failure_point = f\<rparr>"
  by (simp add: sqlite_inv_def tables_inv_def schema_ok_empty)
    (simp add: empty_tables_def events_inv_def counts_ok_def session_cursors_def stored_log_def causes_ok_def
      numbered_def session_events_def map_filter_simps)

end
