(* ===== verification/Session_History.thy ===== *)
theory Session_History
  imports Engine_Inv
begin

text \<open>
  What a valid session log says about the past and the future of its attempts and tool calls:
  settled projections never change again, permission evidence in a projection is an event of the log,
  and a tool call starts at most once.
\<close>

section \<open>Settled projections are final\<close>

lemma transition_attempt_settled:
  assumes "indexes_ok s" "transition_attempt s ev a allowed f = Ok t" "\<not> list_ex attempt_is_settled allowed"
    and "attempt s b = Some q" "attempt_is_settled (ap_status q)"
  shows "attempt t b = Some q"
proof -
  obtain p where p: "attempt s a = Some p" "ap_status p \<in> set allowed" "t = set_attempt s a (f p)"
    using assms(2) by (auto simp: transition_attempt_Ok [OF assms(1)])
  have "b \<noteq> a" using p(1,2) assms(3,4,5) by (auto simp: list_ex_iff)
  then show ?thesis using assms(4) p(3) by (simp add: attempt_set_attempt [OF assms(1) p(1)])
qed

lemma transition_tool_call_settled:
  assumes "indexes_ok s" "transition_tool_call s ev a allowed f = Ok t" "\<not> list_ex tool_is_settled allowed"
    and "tool_call s b = Some d" "tool_is_settled (tc_status d)"
  shows "tool_call t b = Some d"
proof -
  obtain c where c: "tool_call s a = Some c" "tc_status c \<in> set allowed" "t = set_tool_call s a (f c)"
    using assms(2) by (auto simp: transition_tool_call_Ok [OF assms(1)])
  have "b \<noteq> a" using c(1,2) assms(3,4,5) by (auto simp: list_ex_iff)
  then show ?thesis using assms(4) c(3) by (simp add: tool_call_set_tool_call [OF assms(1) c(1)])
qed

lemma transition_attempt_tools:
  "transition_attempt s ev a allowed f = Ok t \<Longrightarrow> tool_call t = tool_call s"
  by (auto simp: transition_attempt_def tool_call_def result_simps fun_eq_iff split: if_splits)

lemma transition_tool_call_attempts:
  "transition_tool_call s ev a allowed f = Ok t \<Longrightarrow> attempt t = attempt s"
  by (auto simp: transition_tool_call_def attempt_def result_simps fun_eq_iff split: if_splits)

lemma apply_prompt_attempts:
  assumes "indexes_ok s" "apply_prompt s ev p = Ok t" "attempt s b = Some q"
  shows "attempt t b = Some q" "tool_call t = tool_call s"
proof -
  have push: "attempt (push_attempt u (new_attempt a i model r)) b = Some q"
    if "sa_attempt_indexes s a = None" "indexes_ok u" "attempt u = attempt s" for u a i model r
  proof -
    have "attempt s a = None" using that(1) by (simp add: attempt_None_iff [OF assms(1)])
    then show ?thesis
      using attempt_push_attempt [OF that(2), of "new_attempt a i model r"] assms(3) that(3) by auto
  qed
  show "attempt t b = Some q"
    using assms(2,3) push indexes_ok_promote [OF assms(1)] assms(1)
    by (cases p) (auto simp: result_simps dest: position_Some split: option.splits)
  show "tool_call t = tool_call s"
    using assms(2) by (cases p) (auto simp: result_simps split: option.splits)
qed

lemma apply_tool_attempts: "apply_tool s ev p = Ok t \<Longrightarrow> attempt t = attempt s"
  by (cases p; simp add: result_simps Let_def; (elim exE conjE)?;
      (drule transition_tool_call_attempts)?; hypsubst?; simp)

lemma apply_session_views:
  "apply_session s ev p = Ok t \<Longrightarrow> attempt t = attempt s \<and> tool_call t = tool_call s"
  by (cases p) (auto simp: result_simps)

lemma apply_attempt_tools: "apply_attempt s ev p = Ok t \<Longrightarrow> tool_call t = tool_call s"
  by (cases p) (auto simp: result_simps dest: transition_attempt_tools)

lemma apply_run_tools: "apply_run s ev p = Ok t \<Longrightarrow> tool_call t = tool_call s"
  by (cases p; simp add: result_simps Let_def; (elim exE conjE)?;
      (drule transition_attempt_tools)?; hypsubst?; simp)

lemma apply_prompt_tools: "apply_prompt s ev p = Ok t \<Longrightarrow> tool_call t = tool_call s"
  by (cases p) (auto simp: result_simps split: option.splits)

lemma apply_attempt_settled:
  assumes "indexes_ok s" "apply_attempt s ev p = Ok t" "attempt s b = Some q" "attempt_is_settled (ap_status q)"
  shows "attempt t b = Some q"
  using assms(2,3)
  by (cases p) (auto simp: result_simps elim!: transition_attempt_settled [OF assms(1) _ _ assms(3,4)])

lemma apply_run_settled:
  assumes "indexes_ok s" "apply_run s ev p = Ok t" "attempt s b = Some q" "attempt_is_settled (ap_status q)"
  shows "attempt t b = Some q"
proof (cases p)
  case (ContextTurnBound a k x h)
  then obtain r where r: "attempt s a = Some r" "ap_status r = Attempt_InFlight"
    and t: "t = set_attempt s a (r\<lparr>ap_context_turn_bindings :=
               ap_context_turn_bindings r @ [new_binding k x h (ev_sequence ev)]\<rparr>)
              \<lparr>sa_context_turn_ids := insert x (sa_context_turn_ids s)\<rparr>"
    using assms(2) unfolding ContextTurnBound apply_bind_Ok [OF assms(1)] by blast
  have "b \<noteq> a" using r assms(3,4) by auto
  then show ?thesis using assms(3) by (simp add: t attempt_set_attempt [OF assms(1) r(1)])
qed (use assms(2,3) in \<open>auto simp: result_simps Let_def
       elim!: transition_attempt_settled [OF assms(1) _ _ assms(3,4)]\<close>)

lemma apply_tool_settled:
  assumes "indexes_ok s" "apply_tool s ev p = Ok t" "tool_call s b = Some d" "tool_is_settled (tc_status d)"
  shows "tool_call t b = Some d"
proof (cases p)
  case (ToolCallProposed a call)
  then have fresh: "tool_call s (spec_tool_call_id call) = None"
    and t: "t = push_tool_call s (new_tool_call a call)"
    using assms(2) by (auto simp: result_simps tool_call_None_iff [OF assms(1)])
  then show ?thesis
    using tool_call_push_tool_call [OF assms(1), of "new_tool_call a call"] assms(3)
    by (auto simp: new_tool_call_def)
qed (use assms(2,3) in \<open>auto simp: result_simps Let_def
       elim!: transition_tool_call_settled [OF assms(1) _ _ assms(3,4)]\<close>)

lemma apply_payload_settled:
  assumes "indexes_ok s" "apply_payload s ev p = Ok t"
  shows "\<lbrakk>attempt s a = Some q; attempt_is_settled (ap_status q)\<rbrakk> \<Longrightarrow> attempt t a = Some q"
    and "\<lbrakk>tool_call s b = Some d; tool_is_settled (tc_status d)\<rbrakk> \<Longrightarrow> tool_call t b = Some d"
proof -
  assume q: "attempt s a = Some q" "attempt_is_settled (ap_status q)"
  show "attempt t a = Some q"
    using assms(2) q apply_session_views [of s ev p t] apply_prompt_attempts(1) [OF assms(1) _ q(1), of ev p t]
      apply_attempt_settled [OF assms(1) _ q, of ev p t] apply_run_settled [OF assms(1) _ q, of ev p t]
      apply_tool_attempts [of s ev p t]
    by (cases p) (simp_all only: apply_payload.simps event_payload.case)
next
  assume d: "tool_call s b = Some d" "tool_is_settled (tc_status d)"
  show "tool_call t b = Some d"
    using assms(2) d apply_session_views [of s ev p t] apply_prompt_tools [of s ev p t]
      apply_attempt_tools [of s ev p t] apply_run_tools [of s ev p t]
      apply_tool_settled [OF assms(1) _ d, of ev p t]
    by (cases p) (simp_all only: apply_payload.simps event_payload.case)
qed

lemma apply_one_settled:
  assumes "aggregate_inv s" "apply_one s ev = Ok t"
  shows "\<lbrakk>attempt s a = Some q; attempt_is_settled (ap_status q)\<rbrakk> \<Longrightarrow> attempt t a = Some q"
    and "\<lbrakk>tool_call s b = Some d; tool_is_settled (tc_status d)\<rbrakk> \<Longrightarrow> tool_call t b = Some d"
proof -
  have "indexes_ok s" using assms(1) by (simp add: aggregate_inv_def parts_ok_def)
  moreover obtain u where "apply_payload s ev (ev_payload ev) = Ok u" "t = record_envelope ev u"
    using assms(2) unfolding apply_one_Ok by blast
  ultimately show "\<lbrakk>attempt s a = Some q; attempt_is_settled (ap_status q)\<rbrakk> \<Longrightarrow> attempt t a = Some q"
    and "\<lbrakk>tool_call s b = Some d; tool_is_settled (tc_status d)\<rbrakk> \<Longrightarrow> tool_call t b = Some d"
    using apply_payload_settled by auto
qed

lemma fold_settled:
  assumes "aggregate_inv s" "try_fold apply_one s evs = Ok t"
  shows "\<lbrakk>attempt s a = Some q; attempt_is_settled (ap_status q)\<rbrakk> \<Longrightarrow> attempt t a = Some q"
    and "\<lbrakk>tool_call s b = Some d; tool_is_settled (tc_status d)\<rbrakk> \<Longrightarrow> tool_call t b = Some d"
  using assms
proof (induction evs arbitrary: s)
  case (Cons ev evs)
  {
    case 1
    then obtain u where u: "apply_one s ev = Ok u" "try_fold apply_one u evs = Ok t"
      by (auto simp: result_simps)
    show ?case
      using Cons.IH(1) [OF _ _ apply_one_preserves [OF 1(3) u(1)] u(2)]
        apply_one_settled(1) [OF 1(3) u(1) 1(1,2)] 1(2) by blast
  next
    case 2
    then obtain u where u: "apply_one s ev = Ok u" "try_fold apply_one u evs = Ok t"
      by (auto simp: result_simps)
    show ?case
      using Cons.IH(2) [OF _ _ apply_one_preserves [OF 2(3) u(1)] u(2)]
        apply_one_settled(2) [OF 2(3) u(1) 2(1,2)] 2(2) by blast
  }
qed simp_all

section \<open>Evidence\<close>

text \<open>Where a permission decision in a projection comes from.\<close>

lemma transition_tool_call_lookup:
  assumes "indexes_ok s" "transition_tool_call s ev a allowed f = Ok t" "tool_call t b = Some d"
  shows "\<exists>c. tool_call s b = Some c \<and> (d = c \<or> b = a \<and> d = f c \<and> tc_status c \<in> set allowed)"
  using assms(2,3)
  by (auto simp: transition_tool_call_Ok [OF assms(1)] tool_call_set_tool_call [OF assms(1)] split: if_splits)

lemma apply_tool_evidence:
  assumes "indexes_ok s" "apply_tool s ev p = Ok u" "tool_call u t = Some d"
  shows "tc_policy_decision d = Some (k, x) \<Longrightarrow>
           p = ToolPermissionRecorded t k x
           \<or> (\<exists>c. tool_call s t = Some c \<and> tc_policy_decision c = Some (k, x))"
    and "tc_human_answer d = Some (k, y) \<Longrightarrow>
           p = ToolPermissionAnswered t k y
           \<or> (\<exists>c. tool_call s t = Some c \<and> tc_human_answer c = Some (k, y))"
proof -
  note look = transition_tool_call_lookup [OF assms(1) _ assms(3)]
  have "(tc_policy_decision d = Some (k, x) \<longrightarrow>
           p = ToolPermissionRecorded t k x
           \<or> (\<exists>c. tool_call s t = Some c \<and> tc_policy_decision c = Some (k, x)))
      \<and> (tc_human_answer d = Some (k, y) \<longrightarrow>
           p = ToolPermissionAnswered t k y
           \<or> (\<exists>c. tool_call s t = Some c \<and> tc_human_answer c = Some (k, y)))"
  proof (cases p)
    case (ToolCallProposed a call)
    then have "tool_call s (spec_tool_call_id call) = None" "u = push_tool_call s (new_tool_call a call)"
      using assms(2) by (auto simp: result_simps tool_call_None_iff [OF assms(1)])
    then show ?thesis
      using tool_call_push_tool_call [OF assms(1), of "new_tool_call a call"] assms(3)
      by (auto simp: new_tool_call_def split: if_splits)
  qed (use assms(2,3) in \<open>auto simp: result_simps Let_def dest!: look\<close>)
  then show "tc_policy_decision d = Some (k, x) \<Longrightarrow>
           p = ToolPermissionRecorded t k x
           \<or> (\<exists>c. tool_call s t = Some c \<and> tc_policy_decision c = Some (k, x))"
    and "tc_human_answer d = Some (k, y) \<Longrightarrow>
           p = ToolPermissionAnswered t k y
           \<or> (\<exists>c. tool_call s t = Some c \<and> tc_human_answer c = Some (k, y))"
    by blast+
qed

lemma apply_payload_tools:
  assumes "apply_payload s ev p = Ok u"
  shows "apply_tool s ev p = Ok u \<or> tool_call u = tool_call s"
  using assms apply_session_views [of s ev p u] apply_prompt_tools [of s ev p u]
    apply_attempt_tools [of s ev p u] apply_run_tools [of s ev p u]
  by (cases p) (simp_all only: apply_payload.simps event_payload.case simp_thms)

lemma rehydrate_snoc:
  "rehydrate sid (evs @ [ev]) = Ok t \<longleftrightarrow> (\<exists>s. rehydrate sid evs = Ok s \<and> apply_one s ev = Ok t)"
  by (auto simp: rehydrate_def try_fold_append result_simps)

lemma rehydrate_indexes: "rehydrate sid evs = Ok s \<Longrightarrow> indexes_ok s"
  using rehydrate_log(1) [of sid evs s] by (simp add: log_of_def aggregate_inv_def parts_ok_def)

lemma rehydrate_tool_step:
  assumes "rehydrate sid (evs @ [ev]) = Ok s" "tool_call s t = Some d"
  obtains r u where "rehydrate sid evs = Ok r" "indexes_ok r" "tool_call u t = Some d"
    "apply_tool r ev (ev_payload ev) = Ok u \<or> tool_call u = tool_call r"
proof -
  obtain r u where r: "rehydrate sid evs = Ok r" "apply_payload r ev (ev_payload ev) = Ok u"
    "s = record_envelope ev u"
    using assms(1) unfolding rehydrate_snoc apply_one_Ok by blast
  then show thesis
    using that [of r u] apply_payload_tools [OF r(2)] rehydrate_indexes [OF r(1)] assms(2) by simp
qed

lemma log_evidence:
  assumes "rehydrate sid evs = Ok s" "tool_call s t = Some d"
  shows "tc_policy_decision d = Some (k, x) \<Longrightarrow> ToolPermissionRecorded t k x \<in> ev_payload ` set evs"
    and "tc_human_answer d = Some (k, y) \<Longrightarrow> ToolPermissionAnswered t k y \<in> ev_payload ` set evs"
  using assms
proof (induction evs arbitrary: s d rule: rev_induct)
  case (snoc ev evs)
  {
    case 1
    obtain r u where r: "rehydrate sid evs = Ok r" "indexes_ok r" "tool_call u t = Some d"
      "apply_tool r ev (ev_payload ev) = Ok u \<or> tool_call u = tool_call r"
      by (rule rehydrate_tool_step [OF 1(2,3)])
    then have "ev_payload ev = ToolPermissionRecorded t k x
        \<or> (\<exists>c. tool_call r t = Some c \<and> tc_policy_decision c = Some (k, x))"
      using apply_tool_evidence(1) [OF r(2) _ r(3)] 1(1) by auto
    then show ?case using snoc.IH(1) [OF _ r(1)] by force
  next
    case 2
    obtain r u where r: "rehydrate sid evs = Ok r" "indexes_ok r" "tool_call u t = Some d"
      "apply_tool r ev (ev_payload ev) = Ok u \<or> tool_call u = tool_call r"
      by (rule rehydrate_tool_step [OF 2(2,3)])
    then have "ev_payload ev = ToolPermissionAnswered t k y
        \<or> (\<exists>c. tool_call r t = Some c \<and> tc_human_answer c = Some (k, y))"
      using apply_tool_evidence(2) [OF r(2) _ r(3)] 2(1) by auto
    then show ?case using snoc.IH(2) [OF _ r(1)] by force
  }
qed (auto simp: rehydrate_def)

section \<open>A tool call starts at most once\<close>

definition has_started :: "tool_call_status \<Rightarrow> bool" where
  "has_started st \<longleftrightarrow> st \<in> {Tool_Running, Tool_Completed, Tool_Failed, Tool_Cancelled, Tool_Unknown}"

lemma apply_tool_started:
  assumes "indexes_ok s" "apply_tool s ev p = Ok u" "tool_call s t = Some c" "has_started (tc_status c)"
  shows "p \<noteq> ToolCallStarted t \<and> (\<exists>d. tool_call u t = Some d \<and> has_started (tc_status d))"
proof (cases p)
  case (ToolCallProposed a call)
  then have "tool_call s (spec_tool_call_id call) = None" "u = push_tool_call s (new_tool_call a call)"
    using assms(2) by (auto simp: result_simps tool_call_None_iff [OF assms(1)])
  then show ?thesis
    using tool_call_push_tool_call [OF assms(1), of "new_tool_call a call"] assms(3,4) ToolCallProposed
    by (auto simp: new_tool_call_def)
qed (use assms in \<open>auto simp: result_simps Let_def transition_tool_call_Ok [OF assms(1)]
       tool_call_set_tool_call [OF assms(1)] has_started_def\<close>)

lemma fold_started:
  assumes "aggregate_inv s" "try_fold apply_one s evs = Ok t"
    and "tool_call s k = Some c" "has_started (tc_status c)"
  shows "ToolCallStarted k \<notin> ev_payload ` set evs"
  using assms
proof (induction evs arbitrary: s c)
  case (Cons ev evs)
  then obtain r u where r: "apply_one s ev = Ok r" "try_fold apply_one r evs = Ok t"
    "apply_payload s ev (ev_payload ev) = Ok u" "r = record_envelope ev u"
    by (auto simp: result_simps apply_one_Ok)
  have "indexes_ok s" using Cons.prems(1) by (simp add: aggregate_inv_def parts_ok_def)
  note started = apply_tool_started [OF this _ Cons.prems(3,4)]
  have "apply_tool s ev (ev_payload ev) = Ok u" if "ev_payload ev = ToolCallStarted k"
    using r(3) that by simp
  then have "ev_payload ev \<noteq> ToolCallStarted k"
    using started by blast
  moreover have "\<exists>d. tool_call u k = Some d \<and> has_started (tc_status d)"
    using apply_payload_tools [OF r(3)] started Cons.prems(3,4) by metis
  ultimately have "ev_payload ev \<noteq> ToolCallStarted k"
    and "\<exists>d. tool_call r k = Some d \<and> has_started (tc_status d)"
    using r(4) by simp_all
  then show ?case
    using Cons.IH [OF apply_one_preserves [OF Cons.prems(1) r(1)] r(2)] by auto
qed simp

end
