(* ===== verification/Engine_Reachable.thy ===== *)
theory Engine_Reachable
  imports Session_History
begin

text \<open>
  The engines a program can get to: a fresh engine, the engine after executing a command (accepted or
  not), and the engine rebuilt after a restart from a log with the same events in the same order per
  session. Rules that only \<open>decide\<close> enforces, and replay does not check again, hold of these engines:
  an archived session has no unsettled work, and a session with a prompt has a title.
\<close>

inductive engine_reachable :: "'m metadata_fn \<Rightarrow> 'm in_memory_engine \<Rightarrow> bool" for draw where
  start: "engine_reachable draw (engine_new m)"
| step: "\<lbrakk>engine_reachable draw e; execute draw e cmd = (r, e')\<rbrakk> \<Longrightarrow> engine_reachable draw e'"
| restart: "\<lbrakk>engine_reachable draw e; \<And>sid. session_events sid ys = session_events sid (ime_events e);
             replay m ys = Ok e'\<rbrakk> \<Longrightarrow> engine_reachable draw e'"

lemma reachable_inv: "engine_reachable draw e \<Longrightarrow> engine_inv e"
proof (induction rule: engine_reachable.induct)
  case (step e cmd r e')
  then show ?case using execute_preserves by blast
next
  case (restart e ys m e')
  then show ?case using replay_sound [OF restart.hyps(3)] by simp
qed (rule engine_inv_new)

section \<open>Rules that only commands enforce\<close>

definition policy_ok :: "session_aggregate \<Rightarrow> bool" where
  "policy_ok s \<longleftrightarrow>
     (sa_is_archived s \<longrightarrow> list_all (\<lambda>p. attempt_is_settled (ap_status p)) (sa_attempts s))
     \<and> (sa_admitted_inputs s \<noteq> [] \<longrightarrow> sa_title s \<noteq> None)"

lemma policy_ok_empty: "policy_ok (aggregate_empty sid)"
  by (simp add: policy_ok_def aggregate_empty_def)

text \<open>The metadata an event can change.\<close>

lemma transition_meta:
  "transition_attempt s ev a allowed f = Ok t \<Longrightarrow>
     sa_is_archived t = sa_is_archived s \<and> sa_title t = sa_title s \<and> sa_admitted_inputs t = sa_admitted_inputs s"
  "transition_tool_call s ev c allowed' g = Ok t \<Longrightarrow>
     sa_is_archived t = sa_is_archived s \<and> sa_title t = sa_title s \<and> sa_admitted_inputs t = sa_admitted_inputs s"
  by (auto simp: transition_attempt_def transition_tool_call_def result_simps split: if_splits)

definition meta_step :: "session_aggregate \<Rightarrow> event_payload \<Rightarrow> session_aggregate \<Rightarrow> bool" where
  "meta_step s p t \<longleftrightarrow>
     (p \<noteq> SessionArchived \<longrightarrow> sa_is_archived t \<longrightarrow> sa_is_archived s)
     \<and> (sa_title t = None \<longrightarrow> sa_title s = None \<and> (\<forall>title. p \<noteq> SessionRenamed title))
     \<and> (sa_admitted_inputs t \<noteq> [] \<longrightarrow> sa_admitted_inputs s \<noteq> [] \<or> (\<exists>i x m. p = InputAdmitted i x m))"

lemma meta_session: "apply_session s ev p = Ok t \<Longrightarrow> meta_step s p t"
  by (cases p) (auto simp: result_simps meta_step_def)

lemma meta_prompt:
  "\<forall>title. p \<noteq> SessionRenamed title \<Longrightarrow> apply_prompt s ev p = Ok t \<Longrightarrow> meta_step s p t"
  by (cases p) (auto simp: result_simps meta_step_def split: option.splits)

lemma meta_rest:
  "\<forall>title. p \<noteq> SessionRenamed title \<Longrightarrow> apply_attempt s ev p = Ok t \<Longrightarrow> meta_step s p t"
  "\<forall>title. p \<noteq> SessionRenamed title \<Longrightarrow> apply_run s ev p = Ok t \<Longrightarrow> meta_step s p t"
  "\<forall>title. p \<noteq> SessionRenamed title \<Longrightarrow> apply_tool s ev p = Ok t \<Longrightarrow> meta_step s p t"
  unfolding meta_step_def
  by (cases p; simp add: result_simps Let_def; (elim exE conjE)?; (drule transition_meta)?; hypsubst?; simp)+

lemma apply_payload_meta: "apply_payload s ev p = Ok t \<Longrightarrow> meta_step s p t"
  using meta_session [of s ev p t] meta_prompt [of p s ev t] meta_rest [of p s ev t]
  by (cases p) (simp_all only: apply_payload.simps event_payload.case event_payload.distinct simp_thms)

lemma apply_one_meta: "apply_one s ev = Ok t \<Longrightarrow> meta_step s (ev_payload ev) t"
proof -
  assume "apply_one s ev = Ok t"
  then obtain u where "apply_payload s ev (ev_payload ev) = Ok u" "t = record_envelope ev u"
    unfolding apply_one_Ok by blast
  then show ?thesis
    using apply_payload_meta [of s ev "ev_payload ev" u]
    by (simp add: meta_step_def record_envelope_def)
qed

lemma apply_one_metaD:
  assumes "apply_one s ev = Ok t"
  shows "ev_payload ev \<noteq> SessionArchived \<Longrightarrow> sa_is_archived t \<Longrightarrow> sa_is_archived s"
    and "sa_title s \<noteq> None \<or> ev_payload ev = SessionRenamed title \<Longrightarrow> sa_title t \<noteq> None"
    and "sa_admitted_inputs s = [] \<Longrightarrow> \<forall>i x m. ev_payload ev \<noteq> InputAdmitted i x m \<Longrightarrow>
           sa_admitted_inputs t = []"
  by (use apply_one_meta [OF assms, unfolded meta_step_def] in metis)+

lemma fold_titled: "\<lbrakk>try_fold apply_one s evs = Ok t; sa_title s \<noteq> None\<rbrakk> \<Longrightarrow> sa_title t \<noteq> None"
  by (erule try_fold_invariant) (use apply_one_metaD(2) in blast)+

lemma fold_meta:
  assumes fold: "try_fold apply_one s evs = Ok t"
  shows "SessionArchived \<notin> ev_payload ` set evs \<Longrightarrow> sa_is_archived t \<Longrightarrow> sa_is_archived s"
    and "sa_title t = None \<Longrightarrow> sa_title s = None"
    and "sa_title t = None \<Longrightarrow> SessionRenamed title \<notin> ev_payload ` set evs"
    and "sa_admitted_inputs t \<noteq> [] \<Longrightarrow>
           sa_admitted_inputs s \<noteq> [] \<or> (\<exists>i x m. InputAdmitted i x m \<in> ev_payload ` set evs)"
proof -
  show "sa_is_archived s" if "SessionArchived \<notin> ev_payload ` set evs" "sa_is_archived t"
  proof (rule ccontr)
    assume "\<not> sa_is_archived s"
    then have "\<not> sa_is_archived t"
      using fold apply_one_metaD(1) that(1)
      by (intro try_fold_invariant [OF fold, where P = "\<lambda>s. \<not> sa_is_archived s"]) (auto, metis imageI)
    then show False using that(2) by simp
  qed
  show "sa_title t = None \<Longrightarrow> sa_title s = None"
    using fold_titled [OF fold] by blast
  show "SessionRenamed title \<notin> ev_payload ` set evs" if none: "sa_title t = None"
  proof
    assume "SessionRenamed title \<in> ev_payload ` set evs"
    then obtain ev xs ys where ev: "ev_payload ev = SessionRenamed title" "evs = xs @ ev # ys"
      by (auto dest!: split_list)
    then obtain u v where "apply_one u ev = Ok v" "try_fold apply_one v ys = Ok t"
      using fold by (auto simp: try_fold_append result_simps)
    then show False
      using apply_one_metaD(2) [of u ev v title] fold_titled [of v ys t] ev(1) none by blast
  qed
  show "sa_admitted_inputs s \<noteq> [] \<or> (\<exists>i x m. InputAdmitted i x m \<in> ev_payload ` set evs)"
    if "sa_admitted_inputs t \<noteq> []"
  proof (rule ccontr)
    assume no: "\<not> ?thesis"
    have "sa_admitted_inputs t = []"
      by (rule try_fold_invariant [OF fold, where P = "\<lambda>s. sa_admitted_inputs s = []"])
        (use no apply_one_metaD(3) in \<open>auto, metis imageI\<close>)
    then show False using that by simp
  qed
qed

text \<open>What the accepted commands can say about archiving, admission and titles.\<close>

lemma decide_archives:
  "\<lbrakk>decide_payload s c = Ok ps; SessionArchived \<in> set ps\<rbrakk> \<Longrightarrow>
     ps = [SessionArchived] \<and> list_all (\<lambda>p. attempt_is_settled (ap_status p)) (sa_attempts s)"
  by (cases c)
    (auto simp: decide_simps Let_def admit_prompt_events_def list_all_iff list_ex_iff
      split: if_splits option.splits)

lemma decide_admits:
  "\<lbrakk>decide_payload s c = Ok ps; InputAdmitted i x m \<in> set ps; sa_admitted_inputs s = []; sa_title s = None\<rbrakk>
     \<Longrightarrow> \<exists>title. SessionRenamed title \<in> set ps"
  by (cases c)
    (auto simp: decide_simps Let_def admit_prompt_events_def split: if_splits option.splits)

lemma decide_when_archived:
  assumes "uncreated_ok s" "decide s cmd = Ok ps" "sa_is_archived s"
  shows "ps = [SessionUnarchived] \<or> (\<exists>title. ps = [SessionRenamed title])"
  using assms
  by (cases "cmd_payload cmd") (auto simp: decide_Ok decide_simps uncreated_ok_def)

lemma session_event_attempts:
  assumes "try_fold apply_one s evs = Ok t"
    and "map ev_payload evs \<in> {[SessionArchived], [SessionUnarchived]}
         \<or> (\<exists>title. map ev_payload evs = [SessionRenamed title])"
  shows "sa_attempts t = sa_attempts s"
proof -
  obtain ev where ev: "evs = [ev]" "ev_payload ev \<in> {SessionArchived, SessionUnarchived}
      \<or> (\<exists>title. ev_payload ev = SessionRenamed title)"
    using assms(2) by auto
  then have "apply_one s ev = Ok t"
    using assms(1) by (simp add: result_simps)
  then obtain u where "apply_payload s ev (ev_payload ev) = Ok u" "t = record_envelope ev u"
    unfolding apply_one_Ok by blast
  then show ?thesis
    using ev(2) by (auto simp: result_simps record_envelope_def)
qed

lemma policy_preserved:
  assumes "policy_ok s" "aggregate_inv s" "decide s cmd = Ok (map ev_payload evs)"
    and "try_fold apply_one s evs = Ok t"
  shows "policy_ok t"
proof -
  note meta = fold_meta [OF assms(4)]
  have uncreated: "uncreated_ok s" using assms(2) by (simp add: aggregate_inv_def parts_ok_def)
  have dec: "decide_payload s (cmd_payload cmd) = Ok (map ev_payload evs)"
    using assms(3) by (simp add: decide_Ok del: decide_payload.simps)
  have "sa_title t \<noteq> None" if inputs: "sa_admitted_inputs t \<noteq> []"
  proof
    assume "sa_title t = None"
    then have none: "sa_title s = None" "\<And>title. SessionRenamed title \<notin> set (map ev_payload evs)"
      using meta(2,3) by auto
    then have "sa_admitted_inputs s = []"
      using assms(1) by (auto simp: policy_ok_def)
    then show False
      using meta(4) [OF inputs] decide_admits [OF dec] none by auto
  qed
  moreover have "list_all (\<lambda>p. attempt_is_settled (ap_status p)) (sa_attempts t)" if "sa_is_archived t"
  proof (cases "SessionArchived \<in> set (map ev_payload evs)")
    case True
    then have "map ev_payload evs = [SessionArchived]"
      and quiet: "list_all (\<lambda>p. attempt_is_settled (ap_status p)) (sa_attempts s)"
      using decide_archives [OF dec] by blast+
    then show ?thesis
      using session_event_attempts [OF assms(4)] by simp
  next
    case False
    then have archived: "sa_is_archived s" using meta(1) that by simp
    then have "list_all (\<lambda>p. attempt_is_settled (ap_status p)) (sa_attempts s)"
      using assms(1) by (simp add: policy_ok_def)
    moreover have "map ev_payload evs = [SessionUnarchived] \<or> (\<exists>title. map ev_payload evs = [SessionRenamed title])"
      using decide_when_archived [OF uncreated assms(3) archived] .
    ultimately show ?thesis
      using session_event_attempts [OF assms(4)] by auto
  qed
  ultimately show ?thesis by (simp add: policy_ok_def)
qed

lemma reachable_policy:
  assumes "engine_reachable draw e"
  shows "policy_ok (session_or_empty e sid)"
  using assms
proof (induction rule: engine_reachable.induct)
  case (start m)
  then show ?case by (simp add: engine_new_def session_or_empty_def policy_ok_empty)
next
  case (step e cmd r e')
  have inv: "engine_inv e" using step.hyps(1) by (rule reachable_inv)
  show ?case
  proof (cases r)
    case (Ok evs)
    then obtain p m where p: "prepared_ok e cmd p" "e' = commit_prepared (e\<lparr>ime_metadata_source := m\<rparr>) p"
      using execute_Ok [OF inv] step.hyps(2) by metis
    show ?thesis
    proof (cases "sid = pc_session_id p")
      case True
      have "aggregate_inv (session_or_empty e sid)"
        using engine_inv_session(1) [OF inv] by (simp add: log_of_def)
      then have "policy_ok (pc_candidate p)"
        using p(1) True step.IH policy_preserved [of "session_or_empty e sid" cmd "pc_events p"]
        unfolding prepared_ok_def apply_uncommitted_batch_def by blast
      then show ?thesis
        using True by (simp add: p(2) commit_prepared_def session_or_empty_def)
    next
      case False
      then show ?thesis
        using step.IH by (simp add: p(2) commit_prepared_def session_or_empty_def)
    qed
  qed (use step in \<open>auto simp: execute_def session_or_empty_def split: prod.splits result.splits\<close>)
next
  case (restart e ys m e')
  have "e' = e\<lparr>ime_metadata_source := m, ime_events := ys\<rparr>"
    using replay_interleaving [OF reachable_inv [OF restart.hyps(1)], of ys m] restart.hyps(2,3) by simp
  then show ?case using restart.IH by (simp add: session_or_empty_def)
qed

end
