(* ===== verification/Session_Properties.thy ===== *)
theory Session_Properties
  imports Engine_Reachable
begin

text \<open>
  The correctness properties of session aggregates and of the in-memory engine, with the concrete
  log and engine on which they are exercised.
\<close>

section \<open>A concrete session\<close>

definition example_session :: session_id where "example_session = SessionId [115, 49]"

definition example_model :: model_ref where
  "example_model = \<lparr>model_provider = ProviderId [112], model_name = ModelId [109]\<rparr>"

definition example_limits :: run_limits where
  "example_limits = \<lparr>max_turns = 2, max_time_ms = 1000, max_tokens = 1000, max_output_bytes = 1000,
     max_concurrency = 1\<rparr>"

definition example_call :: tool_call_spec where
  "example_call =
     \<lparr>spec_tool_call_id = ToolCallId [116], spec_provider_call_id = ProviderCallId [99],
      spec_tool_name = ToolName [114], spec_schema_version = 1, spec_arguments = ToolArguments [],
      spec_capability = \<lparr>cap_kind = FilesystemRead, cap_resource = ResourceRef [97]\<rparr>\<rparr>"

definition example_output :: tool_output where
  "example_output = \<lparr>output_content = [111], output_artifact = None, output_original_bytes = 1,
     output_truncated = False\<rparr>"

definition example_event :: "nat \<Rightarrow> event_payload \<Rightarrow> event_envelope" where
  "example_event n p =
     event_new_v1 (EventId [n]) example_session n (int n) (Cause_Command (CommandId [n]))
       (CorrelationId [99]) p"

definition example_prefix :: "event_envelope list" where
  "example_prefix =
     [example_event 1 SessionCreated,
      example_event 2 (ModelSelected example_model),
      example_event 3 (InputAdmitted (InputId [105]) (PromptText [104, 105]) NextTurn),
      example_event 4 (AttemptPrepared (AttemptId [97]) (InputId [105]) example_model None),
      example_event 5 (RunBudgetConfigured (AttemptId [97]) example_limits),
      example_event 6 (AttemptStarted (AttemptId [97])),
      example_event 7 (ContextTurnBound (AttemptId [97]) 1 (ContextTurnId [120]) (Sha256Digest [48])),
      example_event 8 (RunTurnStarted (AttemptId [97]) 1),
      example_event 9 (ToolCallProposed (AttemptId [97]) example_call),
      example_event 10 (ToolPermissionRecorded (ToolCallId [116]) (PermissionDecisionId [100]) Outcome_Ask),
      example_event 11 (ToolPermissionAnswered (ToolCallId [116]) (PermissionDecisionId [101]) Answer_AllowOnce)]"

definition example_start :: event_envelope where
  "example_start = example_event 12 (ToolCallStarted (ToolCallId [116]))"

definition example_suffix :: "event_envelope list" where
  "example_suffix =
     [example_event 13 (ToolCallCompleted (ToolCallId [116]) example_output),
      example_event 14 (AttemptCompleted (AttemptId [97]))]"

lemmas replay_eval =
  rehydrate_def apply_one_def validate_envelope_def expected_sequence_def checked_next_def
  checked_add_u64_def sequence_first_def record_envelope_def aggregate_empty_def
  require_created_for_replay_def require_replay_attempt_tool_calls_settled_def
  transition_attempt_def transition_tool_call_def attempt_def tool_call_def get_index_def
  push_attempt_def new_attempt_def push_tool_call_def new_tool_call_def has_live_tool_call_def
  pending_context_turn_def checked_add_u32_def exceeds_turn_limit_def event_new_v1_def event_schema_v1_def

lemmas example_defs =
  example_session_def example_model_def example_limits_def example_call_def example_output_def
  example_event_def example_prefix_def example_start_def example_suffix_def

section \<open>Properties of replayed sessions\<close>

text \<open>
  C1: A tool call only ever starts after its permission was given in the same log: before every
  ToolCallStarted event the log has a policy decision Allow for that call, or a policy decision Ask
  together with a human answer AllowOnce.
\<close>

theorem tool_start_has_permission:
  assumes "rehydrate sid (before @ ev # after) = Ok s" and "ev_payload ev = ToolCallStarted t"
  shows "(\<exists>d. ToolPermissionRecorded t d Outcome_Allow \<in> ev_payload ` set before)
       \<or> (\<exists>d d'. ToolPermissionRecorded t d Outcome_Ask \<in> ev_payload ` set before
             \<and> ToolPermissionAnswered t d' Answer_AllowOnce \<in> ev_payload ` set before)"
proof -
  obtain r u where r: "rehydrate sid before = Ok r" "apply_payload r ev (ToolCallStarted t) = Ok u"
    using assms by (auto simp: rehydrate_def try_fold_append result_simps apply_one_Ok)
  then obtain c where c: "tool_call r t = Some c" "tc_status c = Tool_Authorized"
    using transition_tool_call_Ok [OF rehydrate_indexes [OF r(1)]] by (auto simp: result_simps Let_def)
  have "tool_wf c"
    using rehydrate_log(1) [OF r(1)] c(1) by (simp add: log_of_def aggregate_inv_def parts_ok_def)
  then have "tool_authorized c" using c(2) by (simp add: tool_wf_def)
  then show ?thesis
    using log_evidence [OF r(1) c(1)] unfolding tool_authorized_def policy_outcome_def human_answer_def
    by (auto simp del: image_iff)
qed

theorem tool_start_has_permission_witness:
  "(\<exists>d. ToolPermissionRecorded (ToolCallId [116]) d Outcome_Allow \<in> ev_payload ` set example_prefix)
   \<or> (\<exists>d d'. ToolPermissionRecorded (ToolCallId [116]) d Outcome_Ask \<in> ev_payload ` set example_prefix
         \<and> ToolPermissionAnswered (ToolCallId [116]) d' Answer_AllowOnce \<in> ev_payload ` set example_prefix)"
proof -
  have "is_ok (rehydrate example_session (example_prefix @ example_start # example_suffix))"
    by (simp add: replay_eval example_defs)
  moreover have "ev_payload example_start = ToolCallStarted (ToolCallId [116])"
    by (simp add: example_defs)
  ultimately show ?thesis
    using tool_start_has_permission [of example_session example_prefix example_start example_suffix]
    by (auto simp only: is_ok_iff)
qed

text \<open>
  A tool call starts at most once: no ToolCallStarted event for the same call appears before or
  after a ToolCallStarted event of a log that replays.
\<close>

theorem tool_starts_once:
  assumes "rehydrate sid (before @ ev # after) = Ok s" and "ev_payload ev = ToolCallStarted t"
  shows "ToolCallStarted t \<notin> ev_payload ` (set before \<union> set after)"
proof -
  have later: "ToolCallStarted t \<notin> ev_payload ` set zs"
    if log: "rehydrate sid (xs @ e # zs) = Ok s" and e: "ev_payload e = ToolCallStarted t" for xs e zs
  proof -
    obtain r v where r: "rehydrate sid xs = Ok r" "apply_one r e = Ok v" "try_fold apply_one v zs = Ok s"
      using log by (auto simp: rehydrate_def try_fold_append result_simps)
    have "aggregate_inv r" using rehydrate_log(1) [OF r(1)] by (simp add: log_of_def)
    then have inv: "aggregate_inv v" using apply_one_preserves r(2) by blast
    obtain u where "apply_payload r e (ToolCallStarted t) = Ok u" "v = record_envelope e u"
      using r(2) e unfolding apply_one_Ok by auto
    then obtain c where "tool_call v t = Some c" "tc_status c = Tool_Running"
      using rehydrate_indexes [OF r(1)]
      by (auto simp: result_simps Let_def transition_tool_call_Ok tool_call_set_tool_call)
    then show ?thesis using fold_started [OF inv r(3)] by (simp add: has_started_def)
  qed
  have "ToolCallStarted t \<notin> ev_payload ` set before"
  proof
    assume "ToolCallStarted t \<in> ev_payload ` set before"
    then obtain e xs ys where "ev_payload e = ToolCallStarted t" "before = xs @ e # ys"
      by (auto dest!: split_list)
    then show False
      using later [of xs e "ys @ ev # after"] assms by auto
  qed
  then show ?thesis using later [OF assms] by auto
qed

text \<open>
  C28: Settled work is final: an attempt or a tool call that a log has settled is the same projection,
  field for field, in every extension of that log that replays.
\<close>

theorem settled_is_final:
  assumes "rehydrate sid log = Ok s" and "rehydrate sid (log @ later) = Ok t"
  shows "(\<forall>a p. attempt s a = Some p \<longrightarrow> attempt_is_settled (ap_status p) \<longrightarrow> attempt t a = Some p)
       \<and> (\<forall>c k. tool_call s k = Some c \<longrightarrow> tool_is_settled (tc_status c) \<longrightarrow> tool_call t k = Some c)"
proof -
  have "aggregate_inv s" using rehydrate_log(1) [OF assms(1)] by (simp add: log_of_def)
  moreover have "try_fold apply_one s later = Ok t"
    using assms by (simp add: rehydrate_def try_fold_append)
  ultimately show ?thesis using fold_settled by blast
qed

theorem settled_is_final_witness:
  "\<exists>s t c. rehydrate example_session (example_prefix @ [example_start, hd example_suffix]) = Ok s
     \<and> rehydrate example_session ((example_prefix @ [example_start, hd example_suffix]) @ tl example_suffix) = Ok t
     \<and> tc_status c = Tool_Completed \<and> tool_call t (ToolCallId [116]) = Some c"
proof -
  have "is_ok (rehydrate example_session
      ((example_prefix @ [example_start, hd example_suffix]) @ tl example_suffix))"
    by (simp add: replay_eval example_defs)
  then obtain t where t: "rehydrate example_session
      ((example_prefix @ [example_start, hd example_suffix]) @ tl example_suffix) = Ok t"
    unfolding is_ok_iff by blast
  have "\<exists>s c. rehydrate example_session (example_prefix @ [example_start, hd example_suffix]) = Ok s
      \<and> tool_call s (ToolCallId [116]) = Some c \<and> tc_status c = Tool_Completed"
    by (simp add: replay_eval example_defs)
  then obtain s c where s: "rehydrate example_session (example_prefix @ [example_start, hd example_suffix]) = Ok s"
    and c: "tool_call s (ToolCallId [116]) = Some c" "tc_status c = Tool_Completed"
    by blast
  have "tool_is_settled (tc_status c)" using c(2) by simp
  then have "tool_call t (ToolCallId [116]) = Some c"
    using settled_is_final [OF s t] c(1) by blast
  then show ?thesis using s t c(2) by blast
qed

text \<open>
  C29: In a replayed session a settled attempt owns no live tool call, and every tool call belongs to
  an attempt of the session that has been started.
\<close>

theorem settled_attempt_is_quiet:
  assumes "rehydrate sid log = Ok s" and "tool_call s k = Some c"
  shows "\<exists>p. attempt s (tc_attempt_id c) = Some p \<and> ap_status p \<noteq> Attempt_Prepared
           \<and> (attempt_is_settled (ap_status p) \<longrightarrow> tool_is_settled (tc_status c))"
  using rehydrate_log(1) [OF assms(1)] assms(2)
  unfolding log_of_def aggregate_inv_def parts_ok_def links_ok_def by blast

theorem settled_attempt_is_quiet_witness:
  "\<exists>s c p. rehydrate example_session (example_prefix @ example_start # example_suffix) = Ok s
     \<and> tool_call s (ToolCallId [116]) = Some c \<and> attempt s (tc_attempt_id c) = Some p
     \<and> (attempt_is_settled (ap_status p) \<longrightarrow> tool_is_settled (tc_status c))"
proof -
  have "\<exists>s c. rehydrate example_session (example_prefix @ example_start # example_suffix) = Ok s
      \<and> tool_call s (ToolCallId [116]) = Some c"
    by (simp add: replay_eval example_defs)
  then show ?thesis using settled_attempt_is_quiet by blast
qed

text \<open>
  C30: Turn discipline of a replayed session: the context turns bound to an attempt are its run turns
  1, 2, ..., each bound before it starts and at most one ahead of the turns started; a configured
  budget's \<open>max_turns\<close> is never exceeded, and no context turn is bound twice in the session.
\<close>

theorem turn_discipline:
  assumes "rehydrate sid log = Ok s" and "attempt s a = Some p"
  shows "map ctb_run_turn (ap_context_turn_bindings p) = [1..<Suc (length (ap_context_turn_bindings p))]
       \<and> ap_turns_started p \<le> length (ap_context_turn_bindings p)
       \<and> length (ap_context_turn_bindings p) \<le> Suc (ap_turns_started p)
       \<and> (\<forall>l. ap_run_limits p = Some l \<longrightarrow> length (ap_context_turn_bindings p) \<le> max_turns l)
       \<and> (\<forall>b q i j. attempt s b = Some q \<longrightarrow> i < length (ap_context_turn_bindings p)
            \<longrightarrow> j < length (ap_context_turn_bindings q)
            \<longrightarrow> ctb_context_turn_id (ap_context_turn_bindings p ! i)
                = ctb_context_turn_id (ap_context_turn_bindings q ! j)
            \<longrightarrow> b = a \<and> j = i)"
proof -
  have parts: "parts_ok s"
    using rehydrate_log(1) [OF assms(1)] by (simp add: log_of_def aggregate_inv_def)
  have wf: "turns_wf (ap_context_turn_bindings p) (ap_turns_started p) (ap_provider_dispatch_ready p)
      (ap_run_limits p)"
    using attempt_wf_turns [OF parts_okD(6) [OF parts assms(2)]] .
  have unique: "b = a \<and> j = i" if "attempt s b = Some q" "i < length (ap_context_turn_bindings p)"
    "j < length (ap_context_turn_bindings q)"
    "ctb_context_turn_id (ap_context_turn_bindings p ! i) = ctb_context_turn_id (ap_context_turn_bindings q ! j)"
    for b q i j
  proof -
    let ?x = "ctb_context_turn_id (ap_context_turn_bindings p ! i)"
    have "bound_turn s a i ?x" "bound_turn s b j ?x"
      using that assms(2) by (simp_all add: bound_turn_def)
    then show ?thesis using parts_okD(4) [OF parts] unfolding turns_ok_def by blast
  qed
  show ?thesis
    using wf unique unfolding turns_wf_def by (intro conjI allI impI) auto
qed

theorem turn_discipline_witness:
  "\<exists>s p. rehydrate example_session (example_prefix @ example_start # example_suffix) = Ok s
     \<and> attempt s (AttemptId [97]) = Some p \<and> ap_run_limits p = Some example_limits
     \<and> length (ap_context_turn_bindings p) \<le> max_turns example_limits"
proof -
  have "\<exists>s p. rehydrate example_session (example_prefix @ example_start # example_suffix) = Ok s
      \<and> attempt s (AttemptId [97]) = Some p \<and> ap_run_limits p = Some example_limits"
    by (simp add: replay_eval example_defs)
  then show ?thesis using turn_discipline by blast
qed

text \<open>
  C31: Promotion and retries of a replayed session: every attempt answers an admitted input; two
  attempts for the same input that are not retries are the same attempt; a retry follows an attempt
  that may be retried, with the same input and the same model.
\<close>

theorem promotion_is_unique:
  assumes "rehydrate sid log = Ok s" and "attempt s a = Some p"
  shows "find_input s (ap_input_id p) \<noteq> None
       \<and> (\<forall>b q. attempt s b = Some q \<longrightarrow> ap_input_id q = ap_input_id p \<longrightarrow> ap_retry_of p = None
            \<longrightarrow> ap_retry_of q = None \<longrightarrow> b = a)
       \<and> (\<forall>b. ap_retry_of p = Some b \<longrightarrow>
            (\<exists>q. attempt s b = Some q \<and> can_retry q \<and> ap_input_id q = ap_input_id p \<and> ap_model q = ap_model p))"
proof -
  have "promotion_ok s"
    using rehydrate_log(1) [OF assms(1)] by (simp add: log_of_def aggregate_inv_def parts_ok_def)
  then have promoted: "attempt_promoted s b q" if "attempt s b = Some q" for b q
    using that by (simp add: promotion_ok_def)
  show ?thesis
    using promoted [OF assms(2)] promoted unfolding attempt_promoted_def retry_link_ok_def by fastforce
qed

theorem promotion_is_unique_witness:
  "\<exists>s p. rehydrate example_session (example_prefix @ example_start # example_suffix) = Ok s
     \<and> attempt s (AttemptId [97]) = Some p \<and> find_input s (ap_input_id p) \<noteq> None"
proof -
  have "\<exists>s p. rehydrate example_session (example_prefix @ example_start # example_suffix) = Ok s
      \<and> attempt s (AttemptId [97]) = Some p"
    by (simp add: replay_eval example_defs)
  then show ?thesis using promotion_is_unique by blast
qed

end
