(* ===== verification/Engine_Properties.thy ===== *)
theory Engine_Properties
  imports Session_Properties
begin

text \<open>
  The correctness properties of the in-memory engine: what executing a command can and cannot do,
  when it succeeds, and that the engine is a function of its log.
\<close>

section \<open>A concrete engine\<close>

text \<open>A metadata source that counts.\<close>

definition counter :: "nat metadata_fn" where
  "counter n = (\<lparr>gm_event_id = EventId [n], gm_occurred_at = int n\<rparr>, Suc n)"

definition example_command :: "nat \<Rightarrow> command_payload \<Rightarrow> command_envelope" where
  "example_command n p = \<lparr>cmd_id = CommandId [n], cmd_correlation_id = CorrelationId [99], cmd_payload = p\<rparr>"

definition create_command :: command_envelope where
  "create_command = example_command 1 (CreateSession example_session)"

definition example_engine :: "nat in_memory_engine" where
  "example_engine = snd (execute counter (engine_new 1) create_command)"

lemma example_engine_reachable: "engine_reachable counter example_engine"
  unfolding example_engine_def
  by (rule engine_reachable.step [OF engine_reachable.start, of _ 1 create_command
        "fst (execute counter (engine_new 1) create_command)"]) simp

lemmas execute_eval =
  execute_def prepare_def engine_new_def session_or_empty_def decide_def commit_prepared_def
  apply_uncommitted_batch_def counter_def create_command_def example_command_def Let_def

lemma example_engine_log: "ime_events example_engine = [example_event 1 SessionCreated]"
  by (simp add: example_engine_def execute_eval replay_eval example_defs)

section \<open>Executing a command\<close>

text \<open>
  C2: On a reachable engine a command never makes the engine panic and never fails with
  \<open>InvariantViolation\<close>: every batch that \<open>decide\<close> accepts is accepted by replay validation. The engine
  it leaves satisfies the engine invariant: its sessions are what replaying its log gives.
\<close>

theorem execute_never_violates:
  assumes "engine_reachable draw e" and "execute draw e cmd = (r, e')"
  shows "r \<noteq> Panic \<and> (\<forall>x. r \<noteq> Err (InvariantViolation x)) \<and> engine_inv e'"
proof -
  have inv: "engine_inv e" using assms(1) by (rule reachable_inv)
  obtain q m where q: "prepare draw e cmd = (q, m)" by fastforce
  have "r \<noteq> Panic \<and> (\<forall>x. r \<noteq> Err (InvariantViolation x))"
    using prepare_cases [OF inv q] assms(2) q unfolding execute_def by (cases q) auto
  then show ?thesis using execute_preserves [OF inv assms(2)] by blast
qed

theorem execute_never_violates_witness:
  "fst (execute counter example_engine create_command) \<noteq> Panic
   \<and> engine_inv (snd (execute counter example_engine create_command))"
  using execute_never_violates [OF example_engine_reachable surjective_pairing, of create_command]
  by simp

fun drawn_ids :: "'m metadata_fn \<Rightarrow> nat \<Rightarrow> 'm \<Rightarrow> event_id list" where
  "drawn_ids draw 0 m = []"
| "drawn_ids draw (Suc k) m = gm_event_id (fst (draw m)) # drawn_ids draw k (snd (draw m))"

lemma prepare_events_succeeds:
  assumes "distinct (drawn_ids draw (length ps) m)"
    and "set (drawn_ids draw (length ps) m) \<inter> (ime_event_ids e \<union> batch) = {}"
    and "n + length ps \<le> (if index = 0 then Suc i64_max else i64_max)"
  shows "\<exists>all ids m'. prepare_events draw e sid cmd index ps n batch evs m = (Ok (all, ids), m')"
  using assms
proof (induction ps arbitrary: index n batch evs m)
  case (Cons p ps)
  obtain g m1 where g: "draw m = (g, m1)" by fastforce
  obtain k where k: "(if index > 0 then checked_next n else Some n) = Some k" "k + length ps \<le> i64_max"
    using Cons.prems(3) by (auto simp: checked_next_Some simp del: int_max_values split: if_splits)
  show ?case
    using Cons.IH [of m1 "insert (gm_event_id g) batch" k "Suc index"] Cons.prems(1,2) g k
    by (auto simp: Let_def)
qed simp

text \<open>
  C27: A command succeeds whenever it should: if its identity is new, \<open>decide\<close> accepts it, the session's
  sequence numbers do not run out and the metadata source draws fresh, distinct event identities, then
  \<open>execute\<close> returns the decided events.
\<close>

theorem execute_succeeds:
  assumes "engine_reachable draw e" and "cmd_id cmd \<notin> ime_command_ids e"
    and "decide (session_or_empty e (command_session_id (cmd_payload cmd))) cmd = Ok payloads"
    and "length (session_events (command_session_id (cmd_payload cmd)) (ime_events e)) + length payloads
           \<le> i64_max"
    and "distinct (drawn_ids draw (length payloads) (ime_metadata_source e))"
    and "set (drawn_ids draw (length payloads) (ime_metadata_source e)) \<inter> ime_event_ids e = {}"
  shows "\<exists>evs e'. execute draw e cmd = (Ok evs, e') \<and> map ev_payload evs = payloads"
proof -
  let ?sid = "command_session_id (cmd_payload cmd)"
  let ?s = "session_or_empty e ?sid"
  have inv: "engine_inv e" using assms(1) by (rule reachable_inv)
  have "payloads \<noteq> []" using assms(3) decide_nonempty by (auto simp: decide_Ok simp del: decide_payload.simps)
  then have "length (session_events ?sid (ime_events e)) < i64_max"
    using assms(4) by (cases payloads) simp_all
  then have "expected_sequence ?s = Ok (Suc (length (session_events ?sid (ime_events e))))"
    using engine_inv_session(1) [OF inv, of ?sid] unfolding log_of_def expected_sequence_Ok by simp
  note sequence = this [folded next_sequence_iff]
  obtain all ids m' where loop: "prepare_events draw e ?sid cmd 0 payloads
      (Suc (length (session_events ?sid (ime_events e)))) {} [] (ime_metadata_source e) = (Ok (all, ids), m')"
    using prepare_events_succeeds [of draw payloads "ime_metadata_source e" e "{}"] assms(4-6) by fastforce
  have "\<exists>x m. prepare draw e cmd = (x, m) \<and> (\<forall>y. x = Err y \<longrightarrow> (\<exists>z. y = InvariantViolation z))"
    unfolding prepare_def Let_def using assms(2,3) sequence loop by (auto simp: result_simps)
  then obtain p m where p: "prepare draw e cmd = (Ok p, m)"
    using prepare_cases [OF inv] by (metis result.exhaust)
  then have "execute draw e cmd = (Ok (pc_events p), commit_prepared (e\<lparr>ime_metadata_source := m\<rparr>) p)"
    by (simp add: execute_def)
  moreover have "map ev_payload (pc_events p) = payloads"
    using prepare_cases [OF inv p] assms(3) by (auto simp: prepared_ok_def)
  ultimately show ?thesis by blast
qed

theorem execute_succeeds_witness:
  "\<exists>evs e'. execute counter (engine_new 1) create_command = (Ok evs, e') \<and> map ev_payload evs = [SessionCreated]"
  by (rule execute_succeeds [OF engine_reachable.start])
    (simp_all add: execute_eval session_events_def require_created_def example_defs aggregate_empty_def)

section \<open>Replaying logs\<close>

text \<open>
  C3: Restarting loses nothing: replaying a log that has the events of a reachable engine in the same
  order per session, in whatever interleaving of sessions, succeeds and gives an engine with the same
  sessions and the same identity sets.
\<close>

theorem replay_reproduces_engine:
  assumes "engine_reachable draw e"
    and "\<And>sid. session_events sid log = session_events sid (ime_events e)"
  shows "replay m log = Ok (e\<lparr>ime_metadata_source := m, ime_events := log\<rparr>)"
  using replay_interleaving [OF reachable_inv [OF assms(1)] assms(2)] .

theorem replay_reproduces_engine_witness:
  "replay 7 [example_event 1 SessionCreated]
     = Ok (example_engine\<lparr>ime_metadata_source := 7, ime_events := [example_event 1 SessionCreated]\<rparr>)"
  by (rule replay_reproduces_engine [OF example_engine_reachable]) (simp add: example_engine_log)

text \<open>
  C32: Replay fails closed: replaying any list of events, however corrupt, never panics, and a log that
  replays has, in every session, the sequences 1, 2, ... without a gap, event identities that are
  distinct in the whole log, at most one event per command identity, and schema version 1 throughout.
\<close>

theorem replay_fails_closed:
  "replay m log \<noteq> Panic
   \<and> (is_ok (replay m log) \<longrightarrow>
        distinct (map ev_event_id log) \<and> distinct (command_causes log)
        \<and> list_all (\<lambda>ev. ev_schema_version ev = event_schema_v1) log
        \<and> (\<forall>sid. map ev_sequence (session_events sid log) = [1..<Suc (length (session_events sid log))]))"
proof -
  have step: "replay_step e ev \<noteq> Panic" if "engine_inv e" for e :: "'a in_memory_engine" and ev
  proof -
    have "aggregate_inv (session_or_empty e (ev_session_id ev))"
      using engine_inv_session(1) [OF that] by (simp add: log_of_def)
    then show ?thesis
      unfolding replay_step_def apply_uncommitted_batch_def
      by (auto simp: result_simps apply_one_no_Panic split: causation.splits)
  qed
  have "replay m log \<noteq> Panic"
    unfolding replay_def
  proof (rule try_fold_no_panic [where P = engine_inv])
    show "engine_inv (engine_new m)" by (rule engine_inv_new)
  qed (simp_all add: step replay_step_preserves(1))
  moreover have "distinct (map ev_event_id log) \<and> distinct (command_causes log)
      \<and> list_all (\<lambda>ev. ev_schema_version ev = event_schema_v1) log
      \<and> (\<forall>sid. map ev_sequence (session_events sid log) = [1..<Suc (length (session_events sid log))])"
    if ok: "is_ok (replay m log)"
  proof -
    obtain e where "replay m log = Ok e" using ok unfolding is_ok_iff by blast
    then have e: "engine_inv e" "ime_events e = log"
      using replay_sound [of m log e] by simp_all
    have logs: "log_of (session_or_empty e sid) (session_events sid log)" for sid
      using engine_inv_session(1) [OF e(1)] e(2) by simp
    have "ev_schema_version ev = event_schema_v1" if "ev \<in> set log" for ev
    proof -
      have "ev \<in> set (session_events (ev_session_id ev) log)"
        using that by (simp add: session_events_def)
      then show ?thesis using logs [of "ev_session_id ev"] unfolding log_of_def list_all_iff by blast
    qed
    moreover have "map ev_sequence (session_events sid log) = [1..<Suc (length (session_events sid log))]" for sid
      using logs [of sid] unfolding log_of_def by blast
    ultimately show ?thesis using e by (simp add: engine_inv_def list_all_iff)
  qed
  ultimately show ?thesis by blast
qed

theorem replay_fails_closed_witness:
  "distinct (map ev_event_id (example_prefix @ example_start # example_suffix))"
proof -
  have "is_ok (replay 0 (example_prefix @ example_start # example_suffix))"
    by (simp add: replay_def replay_step_def engine_new_def session_or_empty_def apply_uncommitted_batch_def
        replay_eval example_defs)
  then show ?thesis
    using replay_fails_closed [of 0 "example_prefix @ example_start # example_suffix"] by blast
qed

section \<open>Archiving and titles\<close>

text \<open>
  C33: Archiving is quiescent: in a reachable engine an archived session has only settled attempts and
  settled tool calls, and it rejects every command that is not a lifecycle command. A session that has
  admitted a prompt has a title.
\<close>

theorem archived_session_is_quiescent:
  assumes "engine_reachable draw e" and "ime_sessions e sid = Some s"
  shows "(sa_is_archived s \<longrightarrow>
            (\<forall>a p. attempt s a = Some p \<longrightarrow> attempt_is_settled (ap_status p))
            \<and> (\<forall>t c. tool_call s t = Some c \<longrightarrow> tool_is_settled (tc_status c))
            \<and> (\<forall>cmd. command_session_id (cmd_payload cmd) = sid \<longrightarrow> \<not> is_lifecycle_command (cmd_payload cmd)
                 \<longrightarrow> decide s cmd = Err (CR_SessionArchived sid)))
       \<and> (sa_admitted_inputs s \<noteq> [] \<longrightarrow> sa_title s \<noteq> None)"
proof -
  have s: "session_or_empty e sid = s" using assms(2) by (simp add: session_or_empty_def)
  have policy: "policy_ok s" using reachable_policy [OF assms(1), of sid] s by simp
  note log = engine_inv_session [OF reachable_inv [OF assms(1)], of sid, unfolded s]
  have parts: "parts_ok s" using log(1) by (simp add: log_of_def aggregate_inv_def)
  have attempts: "attempt_is_settled (ap_status p)" if "sa_is_archived s" "attempt s a = Some p" for a p
    using policy that get_index_mem unfolding policy_ok_def attempt_def list_all_iff by fastforce
  moreover have "tool_is_settled (tc_status c)" if "sa_is_archived s" "tool_call s t = Some c" for t c
    using parts_okD(2) [OF parts] attempts that unfolding links_ok_def by blast
  moreover have "decide s cmd = Err (CR_SessionArchived sid)"
    if "sa_is_archived s" "command_session_id (cmd_payload cmd) = sid" "\<not> is_lifecycle_command (cmd_payload cmd)"
    for cmd
    using that log(2) by (simp add: decide_def require_not_archived_def del: decide_payload.simps)
  ultimately show ?thesis using policy unfolding policy_ok_def by blast
qed

definition archived_engine :: "nat in_memory_engine" where
  "archived_engine = snd (execute counter example_engine (example_command 2 (ArchiveSession example_session)))"

theorem archived_session_is_quiescent_witness:
  "\<exists>s. ime_sessions archived_engine example_session = Some s \<and> sa_is_archived s
     \<and> decide s (example_command 3 (SelectModel example_session example_model))
         = Err (CR_SessionArchived example_session)"
proof -
  have reach: "engine_reachable counter archived_engine"
    unfolding archived_engine_def
    by (rule engine_reachable.step [OF example_engine_reachable surjective_pairing])
  have "\<exists>s. ime_sessions archived_engine example_session = Some s \<and> sa_is_archived s"
    unfolding archived_engine_def example_engine_def
    by (simp add: execute_eval replay_eval example_defs require_created_def)
  moreover have "command_session_id (cmd_payload (example_command 3 (SelectModel example_session example_model)))
      = example_session"
    "\<not> is_lifecycle_command (cmd_payload (example_command 3 (SelectModel example_session example_model)))"
    by (simp_all add: example_command_def)
  ultimately show ?thesis
    using archived_session_is_quiescent [OF reach] by blast
qed

end
