(* ===== verification/Store_Properties.thy ===== *)
theory Store_Properties
  imports Sqlite_Laws Engine_Properties
begin

text \<open>
  The correctness properties of the SQLite store and of the durable engine over it: append as a
  compare-and-swap, reconciliation after a lost acknowledgement, reading back, and recovery after a
  crash at any point.
\<close>

section \<open>Programs over the durable engine\<close>

text \<open>
  A step of the program is a command, a restart that recovers the engine from the store, or a change of
  the point at which the store fails: an append may fail before, during or after its transaction.
\<close>

inductive durable_step ::
  "'x codec \<Rightarrow> 'm metadata_fn \<Rightarrow> (sqlite_store, 'm) durable_engine \<Rightarrow> (sqlite_store, 'm) durable_engine \<Rightarrow> bool"
  for cd draw where
  command: "durable_execute (sqlite_append cd) draw de cmd = (r, de') \<Longrightarrow> durable_step cd draw de de'"
| restart: "recover sqlite_list_sessions (sqlite_load_events cd) (de_store de) m = Some (Ok de') \<Longrightarrow>
    durable_step cd draw de de'"
| fault: "durable_step cd draw de (de\<lparr>de_store := (de_store de)\<lparr>ss_failure_point := f\<rparr>\<rparr>)"

inductive durable_reachable ::
  "'x codec \<Rightarrow> 'm metadata_fn \<Rightarrow> (sqlite_store, 'm) durable_engine \<Rightarrow> bool" for cd draw where
  start: "codec_ok cd \<Longrightarrow>
    durable_reachable cd draw (durable_new \<lparr>ss_tables = empty_tables, ss_failure_point = f\<rparr> m)"
| step: "\<lbrakk>durable_reachable cd draw de; durable_step cd draw de de'\<rbrakk> \<Longrightarrow> durable_reachable cd draw de'"

lemma durable_ok_fault:
  "durable_ok (sqlite_inv cd) (sqlite_log cd) (de\<lparr>de_store := (de_store de)\<lparr>ss_failure_point := f\<rparr>\<rparr>) =
   durable_ok (sqlite_inv cd) (sqlite_log cd) de"
  by (simp add: durable_ok_def sqlite_inv_def sqlite_log_def)

lemma recover_ok:
  assumes "durable_ok (sqlite_inv cd) (sqlite_log cd) de"
    and "recover sqlite_list_sessions (sqlite_load_events cd) (de_store de) m = Some (Ok de')"
  shows "durable_ok (sqlite_inv cd) (sqlite_log cd) de' \<and> de_store de' = de_store de
       \<and> (\<forall>sid. session_events sid (ime_events (de_inner de')) = session_events sid (sqlite_log cd (de_store de)))"
  using sqlite.recover_complete [of cd "de_store de" m] assms by (auto simp: durable_ok_def)

lemma durable_step_ok:
  assumes "durable_step cd draw de de'" "durable_ok (sqlite_inv cd) (sqlite_log cd) de"
  shows "durable_ok (sqlite_inv cd) (sqlite_log cd) de'
       \<and> prefix (sqlite_log cd (de_store de)) (sqlite_log cd (de_store de'))"
  using assms
proof cases
  case (command cmd r)
  have "prefix (sqlite_log cd (de_store de)) (sqlite_log cd (de_store de'))"
  proof (cases "de_store de' = de_store de")
    case False
    then obtain req q where app: "sqlite_append cd (de_store de) req = (q, de_store de')"
      using command(1) unfolding durable_execute_def
      by (auto simp: Let_def split: prod.splits result.splits option.splits if_splits)
    moreover have "sqlite_inv cd (de_store de)" using assms(2) by (simp add: durable_ok_def)
    ultimately show ?thesis using sqlite_append_cases by fastforce
  qed simp
  then show ?thesis using sqlite.execute_cases [OF assms(2) command(1)] by blast
next
  case (restart m)
  then show ?thesis using recover_ok [OF assms(2) restart(1)] by simp
next
  case (fault f)
  then show ?thesis
    using durable_ok_fault [of cd f de] assms(2) unfolding sqlite_log_def by simp
qed

lemma durable_reachable_ok:
  "durable_reachable cd draw de \<Longrightarrow> durable_ok (sqlite_inv cd) (sqlite_log cd) de"
proof (induction rule: durable_reachable.induct)
  case (start f m)
  then show ?case
    using sqlite_inv_empty [OF start, of f] engine_inv_new [of m]
    by (simp add: durable_ok_def durable_new_def sqlite_log_def stored_log_def empty_tables_def
        map_filter_simps history_ok_def session_events_def engine_new_def rehydrate_def)
next
  case (step de de')
  then show ?case using durable_step_ok by blast
qed

lemma durable_steps_log:
  assumes "(durable_step cd draw)\<^sup>*\<^sup>* de de'" "durable_ok (sqlite_inv cd) (sqlite_log cd) de"
  shows "durable_ok (sqlite_inv cd) (sqlite_log cd) de'
       \<and> prefix (sqlite_log cd (de_store de)) (sqlite_log cd (de_store de'))"
  using assms
proof (induction rule: rtranclp_induct)
  case (step de' de'')
  then show ?case using durable_step_ok prefix_order.trans by blast
qed simp

section \<open>A concrete store\<close>

definition example_codec :: "unit codec" where
  "example_codec =
     \<lparr>cd_event_to_vec = (\<lambda>ev. if ev = example_event 1 SessionCreated then Some [1] else None),
      cd_event_from_slice = (\<lambda>b. if b = [1] then Some (example_event 1 SessionCreated) else None),
      cd_usage_to_vec = (\<lambda>_. None), cd_usage_from_slice = (\<lambda>_. None),
      cd_failure_to_vec = (\<lambda>_. None), cd_failure_from_slice = (\<lambda>_. None),
      cd_manifest_from_slice = (\<lambda>_. None), cd_verify_manifest_hash = (\<lambda>_. None),
      cd_sha256 = (\<lambda>_. replicate 32 0)\<rparr>"

lemma example_codec_ok: "codec_ok example_codec"
  by (auto simp: codec_ok_def example_codec_def split: if_splits)

definition empty_store :: sqlite_store where
  "empty_store = \<lparr>ss_tables = empty_tables, ss_failure_point = None\<rparr>"

definition example_request :: append_request where
  "example_request = \<lparr>rq_session_id = example_session, rq_expected_last_sequence = 0,
     rq_events = [example_event 1 SessionCreated]\<rparr>"

definition example_store :: sqlite_store where
  "example_store = snd (sqlite_append example_codec empty_store example_request)"

lemmas append_eval =
  sqlite_append_def validate_and_encode_def existing_batch_state_def existing_event_def append_transaction_def
  current_session_version_def insert_session_def validate_durable_causation_def insert_event_def
  advance_session_def event_row_of_def run_statement_def to_sql_sequence_def update_where_def
  max_sqlite_sequence_def apply_projection.simps Let_def

lemmas schema_eval =
  schema_ok_def sessions_ok_def events_ok_def inputs_ok_def attempts_ok_def messages_ok_def segments_ok_def
  bindings_ok_def id_len_ok_def unique_opt_def session_exists_def event_exists_def attempt_exists_def
  opt_ok_def len_utf8_def map_filter_simps

lemma example_append:
  "sqlite_append example_codec empty_store example_request =
     (Ok \<lparr>rc_disposition = Committed, rc_last_sequence = 1\<rparr>, example_store)"
proof -
  have "fst (sqlite_append example_codec empty_store example_request) =
      Ok \<lparr>rc_disposition = Committed, rc_last_sequence = 1\<rparr>"
    by (simp add: append_eval schema_eval example_codec_def empty_store_def empty_tables_def
        example_request_def example_defs event_new_v1_def event_schema_v1_def sequence_first_def
        checked_add_u64_def)
  then show ?thesis unfolding example_store_def by (metis prod.collapse)
qed

lemma empty_store_inv: "sqlite_inv example_codec empty_store"
  unfolding empty_store_def by (rule sqlite_inv_empty [OF example_codec_ok])

section \<open>The store\<close>

lemma append_error_unchanged:
  assumes "sqlite_append cd s req = (Err x, s')"
  shows "s' = s \<or> x = SE_Backend \<and> ss_failure_point s = Some CommitCompleted"
  using assms unfolding sqlite_append_def
  by (auto simp: Let_def split: result.splits existing_batch.splits if_splits)

lemma existing_batch_back:
  assumes "codec_ok cd" "events_inv cd t log" "schema_ok t"
    and "batch_encoded cd sid n xs" "xs \<noteq> []" "set (map fst xs) \<subseteq> set log"
  shows "existing_batch_state cd t xs = Ok EB_All"
proof -
  let ?f = "\<lambda>n x. and_then (existing_event cd t x) (\<lambda>b. Ok (if b then Suc n else n))"
  have "existing_event cd t x = Ok True" if x: "x \<in> set xs" for x
  proof -
    have ev: "fst x \<in> set log" using assms(6) x by auto
    have "cd_event_to_vec cd (fst x) = Some (snd x)"
      using assms(4) x by (auto simp: batch_encoded_def list_all_iff split: prod.splits)
    then show ?thesis
      using find_event_row(1) [OF assms(2,3) ev] validate_stored_row [OF assms(1-3) ev]
      by (simp add: existing_event_def)
  qed
  then have "try_fold ?f k xs = Ok (k + length xs)" for k
    by (induction xs arbitrary: k) simp_all
  then show ?thesis using assms(5) by (simp add: existing_batch_state_def)
qed

text \<open>A committed batch can be appended again: it is recognised and nothing changes.\<close>

lemma append_again:
  assumes "sqlite_inv cd s" and "sqlite_append cd s req = (r, s')"
    and "sqlite_log cd s' \<noteq> sqlite_log cd s"
  shows "sqlite_append cd s' req =
     (Ok \<lparr>rc_disposition = AlreadyCommitted,
          rc_last_sequence = rq_expected_last_sequence req + length (rq_events req)\<rparr>, s')"
proof -
  let ?u = "ss_tables s'"
  have log: "sqlite_log cd s' = sqlite_log cd s @ rq_events req" and fits: "batch_fits (sqlite_log cd s) req"
    and inv: "sqlite_inv cd s'"
    using sqlite_append_cases [OF assms(1,2)] assms(3) by auto
  obtain xs where xs: "validate_and_encode cd req = Ok xs"
    using assms(2,3) by (cases "validate_and_encode cd req") (auto simp: sqlite_append_def Let_def)
  note enc = validate_and_encode_Ok [OF xs]
  have parts: "codec_ok cd" "events_inv cd ?u (stored_log cd ?u)" "schema_ok ?u" "counts_ok ?u (stored_log cd ?u)"
    using inv by (simp_all add: sqlite_inv_def tables_inv_def)
  have "set (map fst xs) \<subseteq> set (stored_log cd ?u)" using enc log by (simp add: sqlite_log_def)
  then have all: "existing_batch_state cd ?u xs = Ok EB_All"
    using existing_batch_back [OF parts(1-3)] enc by blast
  have own: "list_all (\<lambda>ev. ev_session_id ev = rq_session_id req) (rq_events req)"
    and seqs: "map ev_sequence (rq_events req) = [Suc (rq_expected_last_sequence req)..<
      Suc (rq_expected_last_sequence req + length (rq_events req))]"
    and len: "length (session_events (rq_session_id req) (sqlite_log cd s)) = rq_expected_last_sequence req"
    using fits unfolding batch_fits_def by blast+
  have version: "current_session_version ?u (rq_session_id req) =
      Ok (rq_expected_last_sequence req + length (rq_events req))"
    using current_version [OF parts(2-4)] log len session_events_own [OF own]
    by (simp add: sqlite_log_def)
  have "ev_sequence (fst (last xs)) \<in> set (map ev_sequence (rq_events req))"
  proof -
    have "rq_events req = map fst xs" "last xs \<in> set xs" using enc by simp_all
    then show ?thesis by simp
  qed
  then have "ev_sequence (fst (last xs)) \<le> rq_expected_last_sequence req + length (rq_events req)"
    unfolding seqs by auto
  then show ?thesis
    using xs enc all version by (simp add: sqlite_append_def reconcile_batch_def)
qed

lemma example_append_again:
  "sqlite_append example_codec example_store example_request =
     (Ok \<lparr>rc_disposition = AlreadyCommitted, rc_last_sequence = 1\<rparr>, example_store)"
proof -
  have "sqlite_log example_codec example_store = sqlite_log example_codec empty_store @ rq_events example_request"
    using sqlite_append_cases [OF empty_store_inv example_append] by simp
  then show ?thesis
    using append_again [OF empty_store_inv example_append] by (simp add: example_request_def)
qed

text \<open>
  C5: Append is an atomic compare-and-swap on the version of one session. When it commits, the version
  was the expected one and the log is extended by exactly the batch, numbered without a gap, with event
  and command identities that are new to the whole store. When it reports that the batch was already
  committed, every event of the batch is in the log of its session, the receipt carries the current
  version of the session and the store is unchanged. When it fails, nothing has changed, unless the
  failure came after the commit. It never panics and keeps the invariant of the store.
\<close>

theorem append_is_compare_and_swap:
  assumes "sqlite_inv cd s" and "sqlite_append cd s req = (r, s')"
  shows "r \<noteq> Panic \<and> sqlite_inv cd s'
       \<and> (\<forall>rc. r = Ok rc \<longrightarrow> rc_disposition rc = Committed \<longrightarrow>
            length (session_events (rq_session_id req) (sqlite_log cd s)) = rq_expected_last_sequence req
            \<and> sqlite_log cd s' = sqlite_log cd s @ rq_events req
            \<and> map ev_sequence (rq_events req) =
                [Suc (rq_expected_last_sequence req)..<Suc (rc_last_sequence rc)]
            \<and> distinct (map ev_event_id (sqlite_log cd s'))
            \<and> distinct (command_causes (sqlite_log cd s')))
       \<and> (\<forall>rc. r = Ok rc \<longrightarrow> rc_disposition rc = AlreadyCommitted \<longrightarrow>
            s' = s
            \<and> set (rq_events req) \<subseteq> set (session_events (rq_session_id req) (sqlite_log cd s))
            \<and> rc_last_sequence rc = length (session_events (rq_session_id req) (sqlite_log cd s)))
       \<and> (\<forall>x. r = Err x \<longrightarrow>
            s' = s \<or> x = SE_Backend \<and> ss_failure_point s = Some CommitCompleted
                     \<and> sqlite_log cd s' = sqlite_log cd s @ rq_events req)"
proof -
  have "r \<noteq> Panic" using sqlite_append_no_Panic assms(2) by blast
  moreover have "sqlite_inv cd s'" using sqlite.append_keeps_inv [OF assms] .
  moreover have "length (session_events (rq_session_id req) (sqlite_log cd s)) = rq_expected_last_sequence req
      \<and> sqlite_log cd s' = sqlite_log cd s @ rq_events req
      \<and> map ev_sequence (rq_events req) = [Suc (rq_expected_last_sequence req)..<Suc (rc_last_sequence rc)]
      \<and> distinct (map ev_event_id (sqlite_log cd s')) \<and> distinct (command_causes (sqlite_log cd s'))"
    if "r = Ok rc" "rc_disposition rc = Committed" for rc
    using sqlite.append_commits [OF assms(1) assms(2) [unfolded that(1)] that(2)]
    unfolding batch_fits_def by simp
  moreover have "s' = s \<and> set (rq_events req) \<subseteq> set (session_events (rq_session_id req) (sqlite_log cd s))
      \<and> rc_last_sequence rc = length (session_events (rq_session_id req) (sqlite_log cd s))"
    if "r = Ok rc" "rc_disposition rc = AlreadyCommitted" for rc
    using sqlite_append_cases [OF assms] that by (auto simp: session_events_def list_all_iff)
  moreover have "s' = s \<or> x = SE_Backend \<and> ss_failure_point s = Some CommitCompleted
      \<and> sqlite_log cd s' = sqlite_log cd s @ rq_events req" if "r = Err x" for x
    using append_error_unchanged [of cd s req x s'] sqlite_append_cases [OF assms] assms(2) that by auto
  ultimately show ?thesis by blast
qed

theorem append_is_compare_and_swap_witness:
  "sqlite_inv example_codec example_store
   \<and> sqlite_log example_codec example_store =
       sqlite_log example_codec empty_store @ [example_event 1 SessionCreated]
   \<and> fst (sqlite_append example_codec example_store example_request) =
       Ok \<lparr>rc_disposition = AlreadyCommitted, rc_last_sequence = 1\<rparr>
   \<and> example_event 1 SessionCreated \<in> set (session_events example_session (sqlite_log example_codec example_store))"
proof -
  have first: "sqlite_inv example_codec example_store"
    "sqlite_log example_codec example_store =
       sqlite_log example_codec empty_store @ [example_event 1 SessionCreated]"
    using append_is_compare_and_swap [OF empty_store_inv example_append] by (simp_all add: example_request_def)
  have "set (rq_events example_request) \<subseteq>
      set (session_events (rq_session_id example_request) (sqlite_log example_codec example_store))"
    using append_is_compare_and_swap [OF first(1) example_append_again] by simp
  then have "example_event 1 SessionCreated
      \<in> set (session_events example_session (sqlite_log example_codec example_store))"
    by (simp add: example_request_def)
  with first example_append_again show ?thesis by simp
qed

lemma session_row_updated: "validate_session_row t r = Ok x \<Longrightarrow> sum_updated_at x = sr_updated_at r"
  by (auto simp: validate_session_row_def Let_def result_simps split: option.splits)

text \<open>
  C8: Reading is faithful: pages of a session are consecutive slices of its part of the log, and the
  list of sessions has every session with an event exactly once, most recently updated first.
\<close>

theorem reads_return_the_log:
  assumes "sqlite_inv cd s"
  shows "(\<forall>sid after limit. after \<le> length (session_events sid (sqlite_log cd s)) \<longrightarrow>
            sqlite_load_events cd s sid after limit =
              Ok (take limit (drop after (session_events sid (sqlite_log cd s)))))
       \<and> (\<exists>xs. sqlite_list_sessions s = Ok xs \<and> distinct (map sum_session_id xs)
            \<and> (\<forall>sid. sid \<in> set (map sum_session_id xs) \<longleftrightarrow> session_events sid (sqlite_log cd s) \<noteq> [])
            \<and> (\<forall>x \<in> set xs. sum_last_sequence x = length (session_events (sum_session_id x) (sqlite_log cd s)))
            \<and> sorted (map (\<lambda>x. - sum_updated_at x) xs))"
proof -
  obtain xs where xs: "sqlite_list_sessions s = Ok xs" "distinct (map sum_session_id xs)"
    "\<forall>sid. sid \<in> sum_session_id ` set xs \<longleftrightarrow> session_events sid (sqlite_log cd s) \<noteq> []"
    "\<forall>x \<in> set xs. sum_last_sequence x = length (session_events (sum_session_id x) (sqlite_log cd s))"
    using sqlite.list_complete [OF assms] by blast
  let ?key = "\<lambda>r. (- sr_updated_at r, session_str (sr_session_id r))"
  let ?rows = "sort_key ?key (t_sessions (ss_tables s))"
  have "list_all2 (\<lambda>r x. validate_session_row (ss_tables s) r = Ok x) ?rows xs"
    using xs(1) try_map_each unfolding sqlite_list_sessions_def Let_def by blast
  then have "map sum_updated_at xs = map sr_updated_at ?rows"
    by (induction rule: list_all2_induct) (simp_all add: session_row_updated)
  from arg_cong [OF this, of "map uminus"]
  have "map (\<lambda>x. - sum_updated_at x) xs = map (\<lambda>r. - sr_updated_at r) ?rows"
    by (simp add: comp_def)
  moreover have "sorted (map ?key ?rows)" by simp
  then have "sorted (map (\<lambda>r. - sr_updated_at r) ?rows)"
    by (auto simp: sorted_map less_eq_prod_def elim!: sorted_wrt_mono_rel [rotated])
  ultimately show ?thesis
    using xs sqlite.load_pages [OF assms] by auto
qed

theorem reads_return_the_log_witness:
  "sqlite_load_events example_codec example_store example_session 0 10 = Ok [example_event 1 SessionCreated]"
proof -
  have inv: "sqlite_inv example_codec example_store"
    using sqlite.append_keeps_inv [OF empty_store_inv example_append] .
  have "sqlite_log example_codec empty_store = []"
    by (simp add: sqlite_log_def stored_log_def empty_store_def empty_tables_def map_filter_simps)
  then have "sqlite_log example_codec example_store = [example_event 1 SessionCreated]"
    using sqlite.append_commits [OF empty_store_inv example_append] by (simp add: example_request_def)
  then show ?thesis
    using reads_return_the_log [OF inv] by (simp add: session_events_def example_defs)
qed

section \<open>The durable engine\<close>

text \<open>
  C7: Executing a command commits before it publishes. On every engine the program can reach, a command
  never panics and never ends in an invariant violation; when it succeeds, its events are in the store
  and are what the engine published; when it fails, nothing is published, whether or not the store has
  committed the batch.
\<close>

theorem durable_execute_commits_first:
  assumes "durable_reachable cd draw de" and "durable_execute (sqlite_append cd) draw de cmd = (r, de')"
  shows "r \<noteq> Panic \<and> (\<forall>x. r \<noteq> Err (DE_Engine (InvariantViolation x)))
       \<and> durable_ok (sqlite_inv cd) (sqlite_log cd) de'
       \<and> (\<forall>evs. r = Ok evs \<longrightarrow> set evs \<subseteq> set (sqlite_log cd (de_store de'))
            \<and> ime_events (de_inner de') = ime_events (de_inner de) @ evs)
       \<and> ((\<forall>evs. r \<noteq> Ok evs) \<longrightarrow>
            (\<exists>m. de_inner de' = (de_inner de)\<lparr>ime_metadata_source := m\<rparr>))"
  using sqlite.execute_cases [OF durable_reachable_ok [OF assms(1)] assms(2)] by blast

definition example_durable :: "(sqlite_store, nat) durable_engine" where
  "example_durable = durable_new empty_store 1"

lemma example_durable_reachable: "durable_reachable example_codec counter example_durable"
  unfolding example_durable_def empty_store_def by (rule durable_reachable.start [OF example_codec_ok])

definition example_durable_after :: "(sqlite_store, nat) durable_engine" where
  "example_durable_after =
     snd (durable_execute (sqlite_append example_codec) counter example_durable create_command)"

lemma example_durable_execute:
  "durable_execute (sqlite_append example_codec) counter example_durable create_command =
     (Ok [example_event 1 SessionCreated], example_durable_after)"
proof -
  have prepared: "\<exists>p. prepare counter (engine_new 1) create_command = (Ok p, 2)
      \<and> pc_session_id p = example_session \<and> pc_expected_last_sequence p = 0
      \<and> pc_events p = [example_event 1 SessionCreated]"
    by (simp add: execute_eval replay_eval example_defs)
  then obtain p where p: "prepare counter (engine_new 1) create_command = (Ok p, 2)"
    "pc_session_id p = example_session" "pc_expected_last_sequence p = 0"
    "pc_events p = [example_event 1 SessionCreated]" by blast
  have "fst (durable_execute (sqlite_append example_codec) counter example_durable create_command) =
      Ok [example_event 1 SessionCreated]"
    using p example_append
    by (simp add: durable_execute_def example_durable_def durable_new_def Let_def checked_add_u64_def
        example_request_def)
  then show ?thesis unfolding example_durable_after_def by (metis prod.collapse)
qed

theorem durable_execute_commits_first_witness:
  "set [example_event 1 SessionCreated] \<subseteq> set (sqlite_log example_codec (de_store example_durable_after))
   \<and> ime_events (de_inner example_durable_after) =
       ime_events (de_inner example_durable) @ [example_event 1 SessionCreated]"
  using durable_execute_commits_first [OF example_durable_reachable example_durable_execute] by blast

text \<open>
  C6: Recovery always ends and always succeeds: whatever the program has done, including failures of
  appends at any point, recovering from the store gives an engine with the same store whose sessions are
  the replay of the stored events; everything the engine had published is there; and when the engine was
  in step with the store, the sessions are exactly the ones it had.
\<close>

theorem recovery_is_complete:
  fixes m :: 'm and draw :: "'m metadata_fn"
  assumes "durable_reachable cd draw de"
  shows "\<exists>de'. recover sqlite_list_sessions (sqlite_load_events cd) (de_store de) m = Some (Ok de')
       \<and> de_store de' = de_store de
       \<and> (\<forall>sid. rehydrate sid (session_events sid (sqlite_log cd (de_store de))) =
                  Ok (session_or_empty (de_inner de') sid)
            \<and> prefix (session_events sid (ime_events (de_inner de))) (session_events sid (ime_events (de_inner de'))))
       \<and> (in_sync (sqlite_log cd) de \<longrightarrow> ime_sessions (de_inner de') = ime_sessions (de_inner de))"
proof -
  have ok: "durable_ok (sqlite_inv cd) (sqlite_log cd) de" using durable_reachable_ok [OF assms] .
  then obtain inner where inner:
    "recover sqlite_list_sessions (sqlite_load_events cd) (de_store de) m = Some (Ok \<lparr>de_store = de_store de, de_inner = inner\<rparr>)"
    "engine_inv inner" "ime_metadata_source inner = m"
    "\<And>sid. session_events sid (ime_events inner) = session_events sid (sqlite_log cd (de_store de))"
    using sqlite.recover_complete [of cd "de_store de" m] by (auto simp: durable_ok_def)
  have "rehydrate sid (session_events sid (sqlite_log cd (de_store de))) = Ok (session_or_empty inner sid)" for sid
    using inner(2,4) unfolding engine_inv_def by metis
  moreover have "prefix (session_events sid (ime_events (de_inner de))) (session_events sid (ime_events inner))" for sid
    using ok inner(4) by (simp add: durable_ok_def)
  moreover have "ime_sessions inner = ime_sessions (de_inner de)" if "in_sync (sqlite_log cd) de"
  proof -
    have same: "session_events sid (ime_events inner) = session_events sid (ime_events (de_inner de))" for sid
      using that inner(4) by (simp add: in_sync_def)
    have "engine_inv (de_inner de)" using ok by (simp add: durable_ok_def)
    from replay_interleaving [OF this same, of m] replay_interleaving [OF inner(2) refl, of m]
    have "inner\<lparr>ime_metadata_source := m, ime_events := ime_events inner\<rparr> =
        (de_inner de)\<lparr>ime_metadata_source := m, ime_events := ime_events inner\<rparr>" by simp
    from arg_cong [OF this, of ime_sessions] show ?thesis by simp
  qed
  ultimately show ?thesis using inner(1) by auto
qed

theorem recovery_is_complete_witness:
  "\<exists>de'. recover sqlite_list_sessions (sqlite_load_events example_codec) (de_store example_durable) (7 :: nat) = Some (Ok de')
     \<and> de_store de' = de_store example_durable"
  using recovery_is_complete [OF example_durable_reachable, of 7] by blast

text \<open>
  C4: An acknowledged event is never lost: once a command has returned its events, they are recovered
  after every later sequence of commands, store failures and restarts.
\<close>

theorem acknowledged_events_survive:
  assumes "durable_reachable cd draw de"
    and "durable_execute (sqlite_append cd) draw de cmd = (Ok evs, de1)"
    and "(durable_step cd draw)\<^sup>*\<^sup>* de1 de2"
  shows "\<exists>de3. recover sqlite_list_sessions (sqlite_load_events cd) (de_store de2) m = Some (Ok de3)
       \<and> set evs \<subseteq> set (ime_events (de_inner de3))"
proof -
  have "durable_reachable cd draw de1"
    using durable_reachable.step [OF assms(1) durable_step.command [OF assms(2)]] .
  then have ok: "durable_ok (sqlite_inv cd) (sqlite_log cd) de1" by (rule durable_reachable_ok)
  have stored: "set evs \<subseteq> set (sqlite_log cd (de_store de1))"
    using sqlite.execute_cases [OF durable_reachable_ok [OF assms(1)] assms(2)] by blast
  have later: "durable_ok (sqlite_inv cd) (sqlite_log cd) de2"
    "prefix (sqlite_log cd (de_store de1)) (sqlite_log cd (de_store de2))"
    using durable_steps_log [OF assms(3) ok] by simp_all
  obtain inner where inner:
    "recover sqlite_list_sessions (sqlite_load_events cd) (de_store de2) m = Some (Ok \<lparr>de_store = de_store de2, de_inner = inner\<rparr>)"
    "\<And>sid. session_events sid (ime_events inner) = session_events sid (sqlite_log cd (de_store de2))"
    using sqlite.recover_complete [of cd "de_store de2" m] later(1) by (auto simp: durable_ok_def)
  have "set (ime_events inner) = set (sqlite_log cd (de_store de2))"
    using mset_of_sessions [OF inner(2)] by (rule mset_eq_setD)
  then have "set evs \<subseteq> set (ime_events inner)" using stored set_mono_prefix [OF later(2)] by blast
  then show ?thesis using inner(1) by auto
qed

theorem acknowledged_events_survive_witness:
  "\<exists>de3. recover sqlite_list_sessions (sqlite_load_events example_codec) (de_store example_durable_after) (7 :: nat) = Some (Ok de3)
     \<and> set [example_event 1 SessionCreated] \<subseteq> set (ime_events (de_inner de3))"
  using acknowledged_events_survive [OF example_durable_reachable example_durable_execute rtranclp.rtrancl_refl] .

end
