(* ===== verification/Tool_Plan.thy ===== *)
theory Tool_Plan
  imports Domain_Memory Utf8
begin

text \<open>
  Planning of tool calls (\<open>autoharness-tool\<close>: \<open>error.rs\<close>, \<open>schema.rs\<close>). A model-authored call is
  parsed strictly, its operation is derived and the capability that authorises exactly this operation
  is frozen into the call's specification; a call that does not parse becomes a plan without authority.
  A path is the list of its normal components: \<open>Path::components\<close> is that of Unix. URLs and HTTP
  methods belong to the crates \<open>url\<close> and \<open>http\<close>; they come in through the record \<open>http_lib\<close>, whose
  functions the planner calls and of whose results it reads the fields of \<open>url\<close>.
\<close>

section \<open>Errors\<close>

datatype tool_error_kind =
    Tool_InvalidCall | Tool_MemoryProposalSinkRequired | Tool_PermissionDenied | Tool_Filesystem
  | Tool_Process | Tool_Http | Tool_Timeout | Tool_Cancelled | Tool_OutputLimit | Tool_TurnLimit
  | Tool_Artifact | Tool_Internal

record tool_error =
  terr_kind :: tool_error_kind
  terr_retry :: retry_advice

definition tool_error_new :: "tool_error_kind \<Rightarrow> retry_advice \<Rightarrow> tool_error" where
  "tool_error_new kind retry = \<lparr>terr_kind = kind, terr_retry = retry\<rparr>"

fun tool_error_message :: "tool_error_kind \<Rightarrow> string" where
  "tool_error_message Tool_InvalidCall = ''The model requested an invalid or unknown tool call''"
| "tool_error_message Tool_MemoryProposalSinkRequired =
     ''The memory proposal requires the application review sink''"
| "tool_error_message Tool_PermissionDenied = ''The exact tool capability was not authorized''"
| "tool_error_message Tool_Filesystem = ''The workspace filesystem operation failed''"
| "tool_error_message Tool_Process = ''The process operation failed''"
| "tool_error_message Tool_Http = ''The HTTP operation failed''"
| "tool_error_message Tool_Timeout = ''The tool operation exceeded its deadline''"
| "tool_error_message Tool_Cancelled = ''The tool operation was cancelled''"
| "tool_error_message Tool_OutputLimit = ''The tool output exceeded the run limit''"
| "tool_error_message Tool_TurnLimit = ''The provider turn limit was reached''"
| "tool_error_message Tool_Artifact = ''The full tool output could not be retained''"
| "tool_error_message Tool_Internal = ''The tool runtime encountered an internal error''"

fun tool_error_class :: "tool_error_kind \<Rightarrow> error_class" where
  "tool_error_class Tool_InvalidCall = Class_Validation"
| "tool_error_class Tool_OutputLimit = Class_Validation"
| "tool_error_class Tool_TurnLimit = Class_Validation"
| "tool_error_class Tool_MemoryProposalSinkRequired = Class_Internal"
| "tool_error_class Tool_PermissionDenied = Class_PermissionDenied"
| "tool_error_class Tool_Timeout = Class_Timeout"
| "tool_error_class Tool_Cancelled = Class_Cancelled"
| "tool_error_class Tool_Filesystem = Class_Storage"
| "tool_error_class Tool_Artifact = Class_Storage"
| "tool_error_class Tool_Process = Class_Unavailable"
| "tool_error_class Tool_Http = Class_Unavailable"
| "tool_error_class Tool_Internal = Class_Internal"

fun tool_error_code :: "tool_error_kind \<Rightarrow> string" where
  "tool_error_code Tool_InvalidCall = ''invalid_tool_call''"
| "tool_error_code Tool_MemoryProposalSinkRequired = ''memory_proposal_sink_required''"
| "tool_error_code Tool_PermissionDenied = ''tool_permission_denied''"
| "tool_error_code Tool_Filesystem = ''tool_filesystem_failed''"
| "tool_error_code Tool_Process = ''tool_process_failed''"
| "tool_error_code Tool_Http = ''tool_http_failed''"
| "tool_error_code Tool_Timeout = ''tool_timeout''"
| "tool_error_code Tool_Cancelled = ''tool_cancelled''"
| "tool_error_code Tool_OutputLimit = ''tool_output_limit''"
| "tool_error_code Tool_TurnLimit = ''tool_turn_limit''"
| "tool_error_code Tool_Artifact = ''tool_artifact_failed''"
| "tool_error_code Tool_Internal = ''tool_internal''"

text \<open>\<open>durable_failure\<close> expects that the static code and message are valid values.\<close>

definition durable_failure :: "tool_error \<Rightarrow> (attempt_failure, 'e) result" where
  "durable_failure e =
     (case (validate_identifier (ascii (tool_error_code (terr_kind e))),
            public_message_new (ascii (tool_error_message (terr_kind e)))) of
        (Ok _, Ok message) \<Rightarrow>
          Ok \<lparr>fail_class = tool_error_class (terr_kind e),
              fail_code = ErrorCode (ascii (tool_error_code (terr_kind e))),
              fail_message = message, fail_retry_advice = terr_retry e\<rparr>
      | _ \<Rightarrow> Panic)"

definition invalid_call :: tool_error where
  "invalid_call = tool_error_new Tool_InvalidCall Retry_Never"

section \<open>Names\<close>

fun memory_kind_name :: "memory_kind \<Rightarrow> string" where
  "memory_kind_name Kind_Fact = ''fact''"
| "memory_kind_name Kind_Preference = ''preference''"
| "memory_kind_name Kind_Constraint = ''constraint''"
| "memory_kind_name Kind_Lesson = ''lesson''"
| "memory_kind_name Kind_Procedure = ''procedure''"

fun sensitivity_name :: "sensitivity \<Rightarrow> string" where
  "sensitivity_name Sens_Public = ''public''"
| "sensitivity_name Sens_Internal = ''internal''"
| "sensitivity_name Sens_Sensitive = ''sensitive''"
| "sensitivity_name Sens_Secret = ''secret''"

section \<open>Calls and plans\<close>

record incoming_tool_call =
  inc_tool_call_id :: tool_call_id
  inc_provider_call_id :: provider_call_id
  inc_tool_name :: tool_name
  inc_arguments :: tool_arguments

datatype memory_proposal_scope = Scope_Session | Scope_Workspace

fun as_resource_name :: "memory_proposal_scope \<Rightarrow> string" where
  "as_resource_name Scope_Session = ''session''"
| "as_resource_name Scope_Workspace = ''workspace''"

record memory_proposal =
  prop_content :: memory_content
  prop_memory_kind :: memory_kind
  prop_scope :: memory_proposal_scope
  prop_sensitivity :: sensitivity
  prop_source_provider_call_id :: "provider_call_id option"

datatype http_method = GET | POST | PUT | PATCH | DELETE | HEAD | Other_Method ustring

text \<open>A parsed URL, by what the planner asks of it.\<close>

record url =
  url_scheme :: ustring
  url_username :: ustring
  url_password :: "ustring option"
  url_host_str :: "ustring option"
  url_origin :: ustring
  url_string :: ustring

record http_lib =
  method_from_bytes :: "bytes \<Rightarrow> http_method option"
  method_to_string :: "http_method \<Rightarrow> ustring"
  url_parse :: "ustring \<Rightarrow> url option"

type_synonym path = "ustring list"

datatype operation =
    RejectInvalid
  | SubmitMemoryProposal memory_proposal
  | ReadFile path
  | WriteFile path bytes
  | RunProcess ustring "ustring list" path
  | HttpRequest http_method url "bytes option"

record planned_tool_call =
  planned_spec :: tool_call_spec
  planned_operation :: operation

record permission_detail =
  detail_label :: string
  detail_value :: ustring

definition planned_memory_proposal :: "planned_tool_call \<Rightarrow> memory_proposal option" where
  "planned_memory_proposal p =
     (case planned_operation p of SubmitMemoryProposal proposal \<Rightarrow> Some proposal | _ \<Rightarrow> None)"

definition rejects_execution :: "planned_tool_call \<Rightarrow> bool" where
  "rejects_execution p \<longleftrightarrow> planned_operation p = RejectInvalid"

definition tool_schema_v1 :: nat where "tool_schema_v1 = 1"

definition max_process_arguments :: nat where "max_process_arguments = 256"
definition max_process_argument_bytes :: nat where "max_process_argument_bytes = 64 * 1024"
definition max_request_body_bytes :: nat where "max_request_body_bytes = 256 * 1024"

section \<open>Strict arguments\<close>

text \<open>
  The fields of an object under \<open>deny_unknown_fields\<close>: a field that is not declared is an error. A
  missing \<open>Option\<close> field and a null one are \<open>None\<close>; a missing \<open>Vec\<close> with \<open>serde(default)\<close> is empty; a
  unit variant is its name, or an object with its name as the only key and null as the value.
\<close>

type_synonym fields = "(ustring \<times> json) list"

definition deny_unknown_fields :: "string list \<Rightarrow> fields \<Rightarrow> (unit, tool_error) result" where
  "deny_unknown_fields names fs =
     ensure (list_all (\<lambda>(k, _). k \<in> set (map ascii names)) fs) invalid_call"

fun string_value :: "json \<Rightarrow> (ustring, tool_error) result" where
  "string_value (JString s) = Ok s"
| "string_value _ = Err invalid_call"

definition required_field :: "fields \<Rightarrow> string \<Rightarrow> (json \<Rightarrow> ('a, tool_error) result) \<Rightarrow> ('a, tool_error) result" where
  "required_field fs name read =
     (case map_of fs (ascii name) of None \<Rightarrow> Err invalid_call | Some v \<Rightarrow> read v)"

definition optional_field ::
  "fields \<Rightarrow> string \<Rightarrow> (json \<Rightarrow> ('a, tool_error) result) \<Rightarrow> ('a option, tool_error) result" where
  "optional_field fs name read =
     (case map_of fs (ascii name) of None \<Rightarrow> Ok None
      | Some JNull \<Rightarrow> Ok None
      | Some v \<Rightarrow> and_then (read v) (\<lambda>x. Ok (Some x)))"

fun string_list :: "json list \<Rightarrow> (ustring list, tool_error) result" where
  "string_list [] = Ok []"
| "string_list (v # vs) =
     and_then (string_value v) (\<lambda>s. and_then (string_list vs) (\<lambda>ss. Ok (s # ss)))"

definition string_list_field :: "fields \<Rightarrow> string \<Rightarrow> (ustring list, tool_error) result" where
  "string_list_field fs name =
     (case map_of fs (ascii name) of None \<Rightarrow> Ok []
      | Some (JArray vs) \<Rightarrow> string_list vs
      | Some _ \<Rightarrow> Err invalid_call)"

fun variant_name :: "json \<Rightarrow> ustring option" where
  "variant_name (JString s) = Some s"
| "variant_name (JObject [(s, JNull)]) = Some s"
| "variant_name _ = None"

definition unit_variant :: "('a \<times> string) list \<Rightarrow> json \<Rightarrow> ('a, tool_error) result" where
  "unit_variant variants v =
     (case variant_name v of None \<Rightarrow> Err invalid_call
      | Some s \<Rightarrow> (case find (\<lambda>(_, n). ascii n = s) variants of
                     None \<Rightarrow> Err invalid_call | Some (x, _) \<Rightarrow> Ok x))"

definition provider_call_id_value :: "json \<Rightarrow> (provider_call_id, tool_error) result" where
  "provider_call_id_value v =
     and_then (string_value v) (\<lambda>s.
     and_then (map_err (\<lambda>_. invalid_call) (validate_identifier s)) (\<lambda>_. Ok (ProviderCallId s)))"

definition memory_content_value :: "json \<Rightarrow> (memory_content, tool_error) result" where
  "memory_content_value v =
     and_then (string_value v) (\<lambda>s. map_err (\<lambda>_. invalid_call) (memory_content_new s))"

record file_write_arguments =
  fwa_path :: ustring
  fwa_content :: ustring

record process_arguments =
  pa_program :: ustring
  pa_arguments :: "ustring list"
  pa_cwd :: "ustring option"

record http_arguments =
  ha_method :: ustring
  ha_url :: ustring
  ha_body :: "ustring option"

record memory_proposal_arguments =
  ma_content :: memory_content
  ma_kind :: memory_kind
  ma_scope :: memory_proposal_scope
  ma_sensitivity :: sensitivity
  ma_source :: "provider_call_id option"

definition parse_file_read :: "fields \<Rightarrow> (ustring, tool_error) result" where
  "parse_file_read fs =
     and_then (deny_unknown_fields [''path''] fs) (\<lambda>_. required_field fs ''path'' string_value)"

definition parse_file_write :: "fields \<Rightarrow> (file_write_arguments, tool_error) result" where
  "parse_file_write fs =
     and_then (deny_unknown_fields [''path'', ''content''] fs) (\<lambda>_.
     and_then (required_field fs ''path'' string_value) (\<lambda>p.
     and_then (required_field fs ''content'' string_value) (\<lambda>c.
     Ok \<lparr>fwa_path = p, fwa_content = c\<rparr>)))"

definition parse_process :: "fields \<Rightarrow> (process_arguments, tool_error) result" where
  "parse_process fs =
     and_then (deny_unknown_fields [''program'', ''arguments'', ''cwd''] fs) (\<lambda>_.
     and_then (required_field fs ''program'' string_value) (\<lambda>p.
     and_then (string_list_field fs ''arguments'') (\<lambda>as.
     and_then (optional_field fs ''cwd'' string_value) (\<lambda>cwd.
     Ok \<lparr>pa_program = p, pa_arguments = as, pa_cwd = cwd\<rparr>))))"

definition parse_http :: "fields \<Rightarrow> (http_arguments, tool_error) result" where
  "parse_http fs =
     and_then (deny_unknown_fields [''method'', ''url'', ''body''] fs) (\<lambda>_.
     and_then (required_field fs ''method'' string_value) (\<lambda>m.
     and_then (required_field fs ''url'' string_value) (\<lambda>u.
     and_then (optional_field fs ''body'' string_value) (\<lambda>b.
     Ok \<lparr>ha_method = m, ha_url = u, ha_body = b\<rparr>))))"

definition memory_kinds :: "(memory_kind \<times> string) list" where
  "memory_kinds = map (\<lambda>k. (k, memory_kind_name k))
     [Kind_Fact, Kind_Preference, Kind_Constraint, Kind_Lesson, Kind_Procedure]"

definition proposal_scopes :: "(memory_proposal_scope \<times> string) list" where
  "proposal_scopes = [(Scope_Session, ''session''), (Scope_Workspace, ''workspace'')]"

definition proposal_sensitivities :: "(sensitivity \<times> string) list" where
  "proposal_sensitivities = [(Sens_Public, ''public''), (Sens_Internal, ''internal'')]"

definition parse_memory_proposal :: "fields \<Rightarrow> (memory_proposal_arguments, tool_error) result" where
  "parse_memory_proposal fs =
     and_then (deny_unknown_fields
       [''content'', ''kind'', ''scope'', ''sensitivity'', ''source_provider_call_id''] fs) (\<lambda>_.
     and_then (required_field fs ''content'' memory_content_value) (\<lambda>c.
     and_then (required_field fs ''kind'' (unit_variant memory_kinds)) (\<lambda>k.
     and_then (required_field fs ''scope'' (unit_variant proposal_scopes)) (\<lambda>s.
     and_then (required_field fs ''sensitivity'' (unit_variant proposal_sensitivities)) (\<lambda>v.
     and_then (optional_field fs ''source_provider_call_id'' provider_call_id_value) (\<lambda>p.
     Ok \<lparr>ma_content = c, ma_kind = k, ma_scope = s, ma_sensitivity = v, ma_source = p\<rparr>))))))"

section \<open>Workspace paths\<close>

datatype component = RootDir | CurDir | ParentDir | Normal ustring

fun split_slash :: "ustring \<Rightarrow> ustring \<Rightarrow> ustring list" where
  "split_slash acc [] = [rev acc]"
| "split_slash acc (c # s) = (if c = 0x2F then rev acc # split_slash [] s else split_slash (c # acc) s)"

text \<open>
  \<open>Path::components\<close>: a leading slash is the root directory, repeated slashes and every dot but a
  leading one are dropped.
\<close>

definition normal_component :: "ustring \<Rightarrow> component list" where
  "normal_component s =
     (if s = [] \<or> s = [0x2E] then [] else if s = [0x2E, 0x2E] then [ParentDir] else [Normal s])"

definition path_components :: "ustring \<Rightarrow> component list" where
  "path_components s =
     (case split_slash [] s of [] \<Rightarrow> []
      | p # ps \<Rightarrow>
          (if p = [] then (if s = [] then [] else [RootDir]) else if p = [0x2E] then [CurDir]
           else normal_component p) @ concat (map normal_component ps))"

fun normalize_components :: "path \<Rightarrow> component list \<Rightarrow> (path, tool_error) result" where
  "normalize_components normalized [] = Ok normalized"
| "normalize_components normalized (CurDir # cs) = normalize_components normalized cs"
| "normalize_components normalized (Normal part # cs) = normalize_components (normalized @ [part]) cs"
| "normalize_components normalized (RootDir # cs) = Err invalid_call"
| "normalize_components normalized (ParentDir # cs) = Err invalid_call"

definition workspace_path :: "ustring \<Rightarrow> (path, tool_error) result" where
  "workspace_path value =
     (if value = [] \<or> list_ex is_control value then Err invalid_call
      else normalize_components [] (path_components value))"

fun join_slash :: "path \<Rightarrow> ustring" where
  "join_slash [] = []"
| "join_slash [p] = p"
| "join_slash (p # ps) = p @ [0x2F] @ join_slash ps"

definition display_relative :: "path \<Rightarrow> ustring" where
  "display_relative p = (if p = [] then ascii ''.'' else join_slash p)"

definition workspace_resource :: "path \<Rightarrow> (resource_ref, tool_error) result" where
  "workspace_resource p =
     map_err (\<lambda>_. invalid_call) (resource_ref_new (ascii ''workspace:'' @ display_relative p))"

section \<open>Programs\<close>

definition to_ascii_lowercase :: "ustring \<Rightarrow> ustring" where
  "to_ascii_lowercase s = map (\<lambda>c. if 65 \<le> c \<and> c \<le> 90 then c + 32 else c) s"

definition ends_with :: "ustring \<Rightarrow> ustring \<Rightarrow> bool" where
  "ends_with s t \<longleftrightarrow> length t \<le> length s \<and> drop (length s - length t) s = t"

definition shells :: "string list" where
  "shells = [''sh'', ''bash'', ''dash'', ''zsh'', ''ksh'', ''fish'', ''cmd'', ''cmd.exe'',
     ''powershell'', ''powershell.exe'', ''pwsh'', ''pwsh.exe'']"

definition is_shell :: "ustring \<Rightarrow> bool" where
  "is_shell program \<longleftrightarrow> to_ascii_lowercase program \<in> set (map ascii shells)"

definition is_batch :: "ustring \<Rightarrow> bool" where
  "is_batch program \<longleftrightarrow> ends_with (to_ascii_lowercase program) (ascii ''.bat'')
     \<or> ends_with (to_ascii_lowercase program) (ascii ''.cmd'')"

definition validate_program :: "ustring \<Rightarrow> (unit, tool_error) result" where
  "validate_program program =
     (if program = [] \<or> str_len program > 255 \<or> list_ex is_whitespace program
         \<or> list_ex (\<lambda>c. c = 0x2F \<or> c = 0x5C) program \<or> is_shell program \<or> is_batch program
         \<or> \<not> list_all (\<lambda>c. is_ascii_alphanumeric c \<or> c \<in> set (ascii ''-_.'')) program
      then Err invalid_call else Ok ())"

section \<open>Planning\<close>

definition capability :: "capability_kind \<Rightarrow> resource_ref \<Rightarrow> capability_request" where
  "capability kind resource = \<lparr>cap_kind = kind, cap_resource = resource\<rparr>"

definition plan_fs_read :: "fields \<Rightarrow> (operation \<times> capability_request, tool_error) result" where
  "plan_fs_read fs =
     and_then (parse_file_read fs) (\<lambda>raw.
     and_then (workspace_path raw) (\<lambda>path.
     and_then (workspace_resource path) (\<lambda>resource.
     Ok (ReadFile path, capability FilesystemRead resource))))"

definition plan_fs_write :: "fields \<Rightarrow> (operation \<times> capability_request, tool_error) result" where
  "plan_fs_write fs =
     and_then (parse_file_write fs) (\<lambda>arguments.
     and_then (workspace_path (fwa_path arguments)) (\<lambda>path.
     and_then (workspace_resource path) (\<lambda>resource.
     Ok (WriteFile path (as_bytes (fwa_content arguments)), capability FilesystemWrite resource))))"

definition plan_process_run :: "fields \<Rightarrow> (operation \<times> capability_request, tool_error) result" where
  "plan_process_run fs =
     and_then (parse_process fs) (\<lambda>arguments.
     and_then (validate_program (pa_program arguments)) (\<lambda>_.
     if length (pa_arguments arguments) > max_process_arguments
        \<or> sum_list (map str_len (pa_arguments arguments)) > max_process_argument_bytes
     then Err invalid_call
     else
       and_then (workspace_path (case pa_cwd arguments of Some cwd \<Rightarrow> cwd | None \<Rightarrow> ascii ''.'')) (\<lambda>cwd.
       and_then (map_err (\<lambda>_. invalid_call)
         (resource_ref_new (ascii ''program:'' @ pa_program arguments @ ascii ''@workspace:''
            @ display_relative cwd))) (\<lambda>resource.
       Ok (RunProcess (pa_program arguments) (pa_arguments arguments) cwd,
           capability ProcessExecute resource)))))"

definition plan_http_request :: "http_lib \<Rightarrow> fields \<Rightarrow> (operation \<times> capability_request, tool_error) result" where
  "plan_http_request lib fs =
     and_then (parse_http fs) (\<lambda>arguments.
     and_then (ok_or (method_from_bytes lib (as_bytes (ha_method arguments))) invalid_call) (\<lambda>method.
     if method \<notin> {GET, POST, PUT, PATCH, DELETE, HEAD} then Err invalid_call
     else
       and_then (ok_or (url_parse lib (ha_url arguments)) invalid_call) (\<lambda>url.
       if url_scheme url \<notin> {ascii ''http'', ascii ''https''} \<or> url_username url \<noteq> []
          \<or> url_password url \<noteq> None \<or> url_host_str url = None
       then Err invalid_call
       else
         (let body = map_option as_bytes (ha_body arguments)
          in if (case body of Some b \<Rightarrow> length b > max_request_body_bytes | None \<Rightarrow> False)
             then Err invalid_call
             else and_then (map_err (\<lambda>_. invalid_call) (resource_ref_new (url_origin url))) (\<lambda>resource.
               Ok (HttpRequest method url body, capability Cap_HttpRequest resource))))))"

definition plan_memory_propose :: "fields \<Rightarrow> (operation \<times> capability_request, tool_error) result" where
  "plan_memory_propose fs =
     and_then (parse_memory_proposal fs) (\<lambda>arguments.
     and_then (map_err (\<lambda>_. invalid_call)
       (resource_ref_new (ascii ''memory-proposal:'' @ ascii (as_resource_name (ma_scope arguments)))))
       (\<lambda>resource.
     Ok (SubmitMemoryProposal
           \<lparr>prop_content = ma_content arguments, prop_memory_kind = ma_kind arguments,
            prop_scope = ma_scope arguments, prop_sensitivity = ma_sensitivity arguments,
            prop_source_provider_call_id = ma_source arguments\<rparr>,
         capability Cap_MemoryProposal resource)))"

definition plan_supported ::
  "http_lib \<Rightarrow> ustring \<Rightarrow> fields \<Rightarrow> (operation \<times> capability_request, tool_error) result" where
  "plan_supported lib name fs =
     (if name = ascii ''fs_read'' then plan_fs_read fs
      else if name = ascii ''fs_write'' then plan_fs_write fs
      else if name = ascii ''process_run'' then plan_process_run fs
      else if name = ascii ''http_request'' then plan_http_request lib fs
      else if name = ascii ''memory_propose'' then plan_memory_propose fs
      else Err invalid_call)"

fun tool_name_str :: "tool_name \<Rightarrow> ustring" where "tool_name_str (ToolName s) = s"
fun arguments_object :: "tool_arguments \<Rightarrow> fields" where "arguments_object (ToolArguments fs) = fs"

text \<open>The plan without authority that stands for a call the registry does not accept.\<close>

definition rejected :: "operation \<times> capability_request" where
  "rejected = (RejectInvalid, capability InvalidToolCall (ResourceRef (ascii ''tool-call:invalid'')))"

definition plan :: "http_lib \<Rightarrow> incoming_tool_call \<Rightarrow> (planned_tool_call, tool_error) result" where
  "plan lib incoming =
     and_then
       (case plan_supported lib (tool_name_str (inc_tool_name incoming))
               (arguments_object (inc_arguments incoming)) of
          Ok planned \<Rightarrow> Ok planned
        | Err _ \<Rightarrow> (case resource_ref_new (ascii ''tool-call:invalid'') of
                     Ok resource \<Rightarrow> Ok (RejectInvalid, capability InvalidToolCall resource)
                   | _ \<Rightarrow> Panic)
        | Panic \<Rightarrow> Panic) (\<lambda>(operation, cap).
     Ok \<lparr>planned_spec =
           \<lparr>spec_tool_call_id = inc_tool_call_id incoming,
            spec_provider_call_id = inc_provider_call_id incoming,
            spec_tool_name = inc_tool_name incoming, spec_schema_version = tool_schema_v1,
            spec_arguments = inc_arguments incoming, spec_capability = cap\<rparr>,
         planned_operation = operation\<rparr>)"

definition replan :: "http_lib \<Rightarrow> tool_call_spec \<Rightarrow> (planned_tool_call, tool_error) result" where
  "replan lib spec =
     (if spec_schema_version spec \<noteq> tool_schema_v1 then Err invalid_call
      else
        and_then (plan lib
          \<lparr>inc_tool_call_id = spec_tool_call_id spec, inc_provider_call_id = spec_provider_call_id spec,
           inc_tool_name = spec_tool_name spec, inc_arguments = spec_arguments spec\<rparr>) (\<lambda>planned.
        if planned_spec planned \<noteq> spec then Err invalid_call else Ok planned))"

section \<open>Registry\<close>

text \<open>The definitions sent to providers, with their JSON schemas.\<close>

record tool_definition =
  def_name :: tool_name
  def_description :: string
  def_schema_version :: nat
  def_parameters :: json

definition jstr :: "string \<Rightarrow> json" where "jstr s = JString (ascii s)"
definition jobj :: "(string \<times> json) list \<Rightarrow> json" where
  "jobj kvs = JObject (map (\<lambda>(k, v). (ascii k, v)) kvs)"

definition string_type :: json where "string_type = jobj [(''type'', jstr ''string'')]"

definition enum_type :: "string list \<Rightarrow> json" where
  "enum_type xs = jobj [(''type'', jstr ''string''), (''enum'', JArray (map jstr xs))]"

definition object_schema :: "(string \<times> json) list \<Rightarrow> string list \<Rightarrow> json" where
  "object_schema properties required =
     jobj [(''type'', jstr ''object''), (''properties'', jobj properties),
           (''required'', JArray (map jstr required)), (''additionalProperties'', JBool False)]"

text \<open>\<open>definition\<close> expects that the static name is a valid identifier.\<close>

definition tool_definition_of :: "string \<Rightarrow> string \<Rightarrow> json \<Rightarrow> (tool_definition, 'e) result" where
  "tool_definition_of name description parameters =
     (case validate_identifier (ascii name) of
        Ok _ \<Rightarrow> Ok \<lparr>def_name = ToolName (ascii name), def_description = description,
                    def_schema_version = tool_schema_v1, def_parameters = parameters\<rparr>
      | _ \<Rightarrow> Panic)"

fun collect :: "('a, 'e) result list \<Rightarrow> ('a list, 'e) result" where
  "collect [] = Ok []"
| "collect (x # xs) = and_then x (\<lambda>y. and_then (collect xs) (\<lambda>ys. Ok (y # ys)))"

definition definitions :: "(tool_definition list, 'e) result" where
  "definitions = collect
     [tool_definition_of ''fs_read'' ''Read one UTF-8 or binary file relative to the workspace root.''
        (object_schema [(''path'', string_type)] [''path'']),
      tool_definition_of ''fs_write'' ''Create or replace one UTF-8 file relative to the workspace root.''
        (object_schema [(''path'', string_type), (''content'', string_type)] [''path'', ''content'']),
      tool_definition_of ''process_run'' ''Run one executable directly without a command shell.''
        (object_schema
          [(''program'', string_type),
           (''arguments'', jobj [(''type'', jstr ''array''), (''items'', string_type)]),
           (''cwd'', string_type)] [''program'']),
      tool_definition_of ''http_request''
        ''Issue one bounded HTTP or HTTPS request without following redirects.''
        (object_schema
          [(''method'', enum_type [''GET'', ''POST'', ''PUT'', ''PATCH'', ''DELETE'', ''HEAD'']),
           (''url'', string_type), (''body'', string_type)] [''method'', ''url'']),
      tool_definition_of ''memory_propose''
        (''Submit one bounded untrusted memory candidate for independent review. This tool cannot ''
         @ ''activate, approve, or directly make memory eligible for context.'')
        (object_schema
          [(''content'', jobj
             [(''type'', jstr ''string''), (''minLength'', JNumber (decimal 1)),
              (''maxLength'', JNumber (decimal memory_content_max_bytes)),
              (''description'', jstr ''Exact candidate content to retain for review.'')]),
           (''kind'', enum_type [''fact'', ''preference'', ''constraint'', ''lesson'', ''procedure'']),
           (''scope'', jobj
             [(''type'', jstr ''string''), (''enum'', JArray (map jstr [''session'', ''workspace''])),
              (''description'',
               jstr (''Relative scope resolved by the application; scope identifiers are never ''
                     @ ''accepted.''))]),
           (''sensitivity'', enum_type [''public'', ''internal'']),
           (''source_provider_call_id'', jobj
             [(''type'', jstr ''string''), (''minLength'', JNumber (decimal 1)),
              (''maxLength'', JNumber (decimal 512)),
              (''pattern'', jstr ''^[A-Za-z0-9_.:/@+%~-]+$''),
              (''description'',
               jstr ''Optional exact provider call identifier for evidence verification.'')])]
          [''content'', ''kind'', ''scope'', ''sensitivity''])]"

section \<open>Permission details\<close>

definition detail :: "string \<Rightarrow> ustring \<Rightarrow> permission_detail" where
  "detail label v = \<lparr>detail_label = label, detail_value = v\<rparr>"

fun argument_details :: "nat \<Rightarrow> ustring list \<Rightarrow> permission_detail list" where
  "argument_details index [] = []"
| "argument_details index (v # vs) =
     detail ''Argument'' (decimal (index + 1) @ ascii '': '' @ v) # argument_details (index + 1) vs"

fun operation_details :: "http_lib \<Rightarrow> operation \<Rightarrow> permission_detail list" where
  "operation_details lib RejectInvalid = []"
| "operation_details lib (SubmitMemoryProposal proposal) =
     [detail ''Scope'' (ascii (as_resource_name (prop_scope proposal))),
      detail ''Kind'' (ascii (memory_kind_name (prop_memory_kind proposal))),
      detail ''Sensitivity'' (ascii (sensitivity_name (prop_sensitivity proposal))),
      detail ''Evidence reference''
        (ascii (if prop_source_provider_call_id proposal \<noteq> None then ''supplied'' else ''none''))]"
| "operation_details lib (ReadFile path) = [detail ''Path'' (display_relative path)]"
| "operation_details lib (WriteFile path content) =
     [detail ''Path'' (display_relative path), detail ''Content bytes'' (decimal (length content))]"
| "operation_details lib (RunProcess program arguments cwd) =
     [detail ''Program'' program, detail ''Working directory'' (display_relative cwd)]
     @ (if arguments = [] then [detail ''Arguments'' (ascii ''(none)'')]
        else argument_details 0 arguments)"
| "operation_details lib (HttpRequest method url body) =
     [detail ''Method'' (method_to_string lib method), detail ''URL'' (url_string url),
      detail ''Body bytes'' (decimal (case body of Some b \<Rightarrow> length b | None \<Rightarrow> 0))]"

definition permission_details :: "http_lib \<Rightarrow> tool_call_spec \<Rightarrow> (permission_detail list, tool_error) result" where
  "permission_details lib spec =
     and_then (replan lib spec) (\<lambda>planned. Ok (operation_details lib (planned_operation planned)))"

end
