(* ===== verification/Tool_Plan_Laws.thy ===== *)
theory Tool_Plan_Laws
  imports Tool_Plan
begin

text \<open>
  Facts on planning: what a normalised workspace path is, that paths, programs and their display text
  determine each other, the shape of every plan the registry accepts, and that planning is total.
\<close>

named_theorems plan_defs \<open>the planners of the registered tools\<close>

declare plan_fs_read_def [plan_defs] plan_fs_write_def [plan_defs] plan_process_run_def [plan_defs]
  plan_http_request_def [plan_defs] plan_memory_propose_def [plan_defs]

section \<open>Text\<close>

lemma ascii_simps [simp]: "ascii [] = []" "ascii (c # s) = of_char c # ascii s" "ascii (s @ t) = ascii s @ ascii t"
  by (simp_all add: ascii_def)

declare ascii_inject [simp]

section \<open>Workspace paths\<close>

text \<open>A component that names an entry of the directory it is looked up in and nothing else.\<close>

definition safe_component :: "ustring \<Rightarrow> bool" where
  "safe_component s \<longleftrightarrow> s \<noteq> [] \<and> s \<noteq> [0x2E] \<and> s \<noteq> [0x2E, 0x2E] \<and> 0x2F \<notin> set s \<and> \<not> list_ex is_control s"

lemma split_slash_pieces:
  "p \<in> set (split_slash acc s) \<Longrightarrow> 0x2F \<notin> set acc \<Longrightarrow> 0x2F \<notin> set p \<and> set p \<subseteq> set acc \<union> set s"
  by (induction acc s rule: split_slash.induct) (auto split: if_splits)

lemma split_slash_nonempty [simp]: "split_slash acc s \<noteq> []"
  by (induction acc s rule: split_slash.induct) simp_all

lemma path_components_Normal:
  assumes "Normal p \<in> set (path_components s)"
  shows "p \<in> set (split_slash [] s) \<and> p \<noteq> [] \<and> p \<noteq> [0x2E] \<and> p \<noteq> [0x2E, 0x2E]"
proof -
  obtain q qs where sp: "split_slash [] s = q # qs"
    by (cases "split_slash [] s") simp_all
  have n: "p = r \<and> p \<noteq> [] \<and> p \<noteq> [0x2E] \<and> p \<noteq> [0x2E, 0x2E]" if "Normal p \<in> set (normal_component r)" for r
    using that by (simp add: normal_component_def split: if_splits)
  from assms have "Normal p \<in> set (normal_component q) \<or> (\<exists>r\<in>set qs. Normal p \<in> set (normal_component r))"
    by (simp add: path_components_def sp split: if_splits)
  then show ?thesis using n sp by (metis list.set_intros)
qed

lemma normalize_components_parts:
  "normalize_components acc cs = Ok path \<Longrightarrow> p \<in> set path \<Longrightarrow> p \<in> set acc \<or> Normal p \<in> set cs"
  by (induction acc cs arbitrary: path rule: normalize_components.induct) auto

lemma workspace_path_safe:
  assumes "workspace_path value = Ok path"
  shows "list_all safe_component path"
  unfolding list_all_iff
proof
  fix p
  assume "p \<in> set path"
  with assms have "Normal p \<in> set (path_components value)" and ctl: "\<not> list_ex is_control value"
    using normalize_components_parts [of "[]" "path_components value" path p]
    by (auto simp: workspace_path_def split: if_splits)
  then have p: "p \<in> set (split_slash [] value)" "p \<noteq> []" "p \<noteq> [0x2E]" "p \<noteq> [0x2E, 0x2E]"
    using path_components_Normal by blast+
  then show "safe_component p"
    using split_slash_pieces [OF p(1)] ctl by (auto simp: safe_component_def list_ex_iff)
qed

lemma split_slash_piece:
  "0x2F \<notin> set p \<Longrightarrow> split_slash acc (p @ 0x2F # s) = (rev acc @ p) # split_slash [] s"
  by (induction p arbitrary: acc) simp_all

lemma split_slash_last: "0x2F \<notin> set p \<Longrightarrow> split_slash acc p = [rev acc @ p]"
  by (induction p arbitrary: acc) simp_all

lemma split_join_slash:
  "path \<noteq> [] \<Longrightarrow> \<forall>p\<in>set path. 0x2F \<notin> set p \<Longrightarrow> split_slash [] (join_slash path) = path"
  by (induction path rule: join_slash.induct) (simp_all add: split_slash_piece split_slash_last)

lemma display_relative_inject:
  assumes "list_all safe_component p" "list_all safe_component q"
    and "display_relative p = display_relative q"
  shows "p = q"
proof -
  have noslash: "\<forall>c\<in>set r. 0x2F \<notin> set c" if "list_all safe_component r" for r
    using that by (auto simp: list_all_iff safe_component_def)
  have nodot: "join_slash r \<noteq> ascii ''.''" if "list_all safe_component r" "r \<noteq> []" for r
  proof
    assume dot: "join_slash r = ascii ''.''"
    have "r = split_slash [] (ascii ''.'')"
      using split_join_slash [OF that(2) noslash [OF that(1)]] dot by simp
    then have "r = [[0x2E]]" by simp
    with that show False by (simp add: safe_component_def)
  qed
  show ?thesis
  proof (cases "p = [] \<or> q = []")
    case True
    then show ?thesis
      using assms nodot [of p] nodot [of q] unfolding display_relative_def by (cases "p = []"; cases "q = []") simp_all
  next
    case False
    then have "join_slash p = join_slash q" using assms by (simp add: display_relative_def)
    then show ?thesis using split_join_slash noslash assms(1,2) False by metis
  qed
qed

text \<open>Normalising is idempotent: the display text of a path is read back as the path.\<close>

lemma normal_component_safe: "safe_component p \<Longrightarrow> normal_component p = [Normal p]"
  by (simp add: normal_component_def safe_component_def)

lemma concat_normal_safe:
  "list_all safe_component ps \<Longrightarrow> concat (map normal_component ps) = map Normal ps"
  by (induction ps) (simp_all add: normal_component_safe)

lemma normalize_Normals: "normalize_components acc (map Normal ps) = Ok (acc @ ps)"
  by (induction ps arbitrary: acc) simp_all

lemma join_slash_chars: "c \<in> set (join_slash ps) \<Longrightarrow> c = 0x2F \<or> (\<exists>p\<in>set ps. c \<in> set p)"
  by (induction ps rule: join_slash.induct) auto

lemma workspace_path_display:
  assumes "list_all safe_component path"
  shows "workspace_path (display_relative path) = Ok path"
proof (cases path)
  case Nil
  then show ?thesis
    by (simp add: workspace_path_def display_relative_def path_components_def is_control_def)
next
  case (Cons p ps)
  have sp: "split_slash [] (join_slash path) = path"
    using assms by (intro split_join_slash) (auto simp: Cons list_all_iff safe_component_def)
  have "join_slash path \<noteq> []"
    using sp assms by (auto simp: Cons safe_component_def)
  moreover have "\<not> list_ex is_control (join_slash path)"
    using assms by (auto simp: list_ex_iff list_all_iff safe_component_def is_control_def
        dest!: join_slash_chars)
  moreover have "path_components (join_slash path) = map Normal path"
    using assms sp
    by (auto simp: path_components_def Cons concat_normal_safe normal_component_safe safe_component_def)
  ultimately show ?thesis
    using Cons by (simp add: workspace_path_def display_relative_def normalize_Normals)
qed

section \<open>Programs\<close>

definition program_character :: "nat \<Rightarrow> bool" where
  "program_character c \<longleftrightarrow> is_ascii_alphanumeric c \<or> c \<in> set (ascii ''-_.'')"

lemma validate_program_Ok:
  "validate_program program = Ok u \<longleftrightarrow>
     program \<noteq> [] \<and> str_len program \<le> 255 \<and> list_all program_character program
     \<and> \<not> is_shell program \<and> \<not> is_batch program"
proof -
  have "\<not> is_whitespace c \<and> c \<noteq> 0x2F \<and> c \<noteq> 0x5C" if "program_character c" for c
    using that by (auto simp: program_character_def is_ascii_alphanumeric_def is_whitespace_def)
  then have "\<not> list_ex is_whitespace program \<and> \<not> list_ex (\<lambda>c. c = 0x2F \<or> c = 0x5C) program"
    if "list_all program_character program"
    using that by (auto simp: list_all_iff list_ex_iff)
  moreover have "list_all (\<lambda>c. is_ascii_alphanumeric c \<or> c \<in> set (ascii ''-_.'')) program
      \<longleftrightarrow> list_all program_character program"
    by (simp add: program_character_def list_all_iff)
  ultimately show ?thesis
    by (auto simp del: ascii_simps simp: validate_program_def not_less)
qed

lemma validate_program_no_Panic [simp]: "validate_program p \<noteq> Panic"
  by (simp add: validate_program_def)

section \<open>Plans\<close>

lemma resource_ref_new_Ok:
  "resource_ref_new v = Ok r \<longleftrightarrow>
     r = ResourceRef v \<and> \<not> trim_is_empty v \<and> str_len v \<le> max_resource_bytes \<and> \<not> list_ex is_control v"
  by (auto simp: resource_ref_new_def)

lemma resource_ref_new_no_Panic [simp]: "resource_ref_new v \<noteq> Panic"
  by (simp add: resource_ref_new_def)

text \<open>
  What the registry promises of an accepted operation and its capability: the authority names the
  target of the operation, and the target satisfies the confinement checks.
\<close>

fun exact_plan :: "operation \<Rightarrow> capability_request \<Rightarrow> bool" where
  "exact_plan RejectInvalid c \<longleftrightarrow> c = snd rejected"
| "exact_plan (SubmitMemoryProposal p) c \<longleftrightarrow>
     c = capability Cap_MemoryProposal
           (ResourceRef (ascii ''memory-proposal:'' @ ascii (as_resource_name (prop_scope p))))
     \<and> prop_sensitivity p \<in> {Sens_Public, Sens_Internal}"
| "exact_plan (ReadFile path) c \<longleftrightarrow>
     c = capability FilesystemRead (ResourceRef (ascii ''workspace:'' @ display_relative path))
     \<and> list_all safe_component path"
| "exact_plan (WriteFile path content) c \<longleftrightarrow>
     c = capability FilesystemWrite (ResourceRef (ascii ''workspace:'' @ display_relative path))
     \<and> list_all safe_component path"
| "exact_plan (RunProcess program arguments cwd) c \<longleftrightarrow>
     c = capability ProcessExecute
           (ResourceRef (ascii ''program:'' @ program @ ascii ''@workspace:'' @ display_relative cwd))
     \<and> list_all safe_component cwd \<and> validate_program program = Ok ()
     \<and> length arguments \<le> max_process_arguments
     \<and> sum_list (map str_len arguments) \<le> max_process_argument_bytes"
| "exact_plan (HttpRequest method url body) c \<longleftrightarrow>
     c = capability Cap_HttpRequest (ResourceRef (url_origin url))
     \<and> method \<in> {GET, POST, PUT, PATCH, DELETE, HEAD}
     \<and> url_scheme url \<in> {ascii ''http'', ascii ''https''}
     \<and> url_username url = [] \<and> url_password url = None \<and> url_host_str url \<noteq> None
     \<and> (\<forall>b. body = Some b \<longrightarrow> length b \<le> max_request_body_bytes)"

lemma plan_fs_read_exact: "plan_fs_read fs = Ok (op, c) \<Longrightarrow> exact_plan op c"
  by (auto simp: plan_fs_read_def workspace_resource_def result_simps resource_ref_new_Ok
      dest: workspace_path_safe)

lemma plan_fs_write_exact: "plan_fs_write fs = Ok (op, c) \<Longrightarrow> exact_plan op c"
  by (auto simp: plan_fs_write_def workspace_resource_def result_simps resource_ref_new_Ok
      dest: workspace_path_safe)

lemma plan_process_run_exact: "plan_process_run fs = Ok (op, c) \<Longrightarrow> exact_plan op c"
  by (auto simp del: ascii_simps
      simp: plan_process_run_def result_simps resource_ref_new_Ok split: if_splits
      dest: workspace_path_safe)

lemma plan_http_request_exact: "plan_http_request lib fs = Ok (op, c) \<Longrightarrow> exact_plan op c"
  by (auto simp del: ascii_simps
      simp: plan_http_request_def result_simps resource_ref_new_Ok Let_def split: if_splits option.splits)

lemma unit_variant_mem: "unit_variant vs v = Ok x \<Longrightarrow> x \<in> fst ` set vs"
  by (auto simp: unit_variant_def find_Some_iff split: option.splits)
    (metis fst_conv image_eqI nth_mem)

lemma admitted_sensitivity:
  "unit_variant proposal_sensitivities v = Ok x \<Longrightarrow> x = Sens_Public \<or> x = Sens_Internal"
  using unit_variant_mem [of proposal_sensitivities v x] by (auto simp: proposal_sensitivities_def)

lemma required_field_Ok:
  "required_field fs name read = Ok x \<longleftrightarrow> (\<exists>v. map_of fs (ascii name) = Some v \<and> read v = Ok x)"
  by (auto simp: required_field_def split: option.splits)

lemma plan_memory_propose_exact: "plan_memory_propose fs = Ok (op, c) \<Longrightarrow> exact_plan op c"
  by (auto simp del: ascii_simps
      simp: plan_memory_propose_def parse_memory_proposal_def result_simps resource_ref_new_Ok
        required_field_Ok dest!: admitted_sensitivity)

lemma plan_supported_exact: "plan_supported lib name fs = Ok (op, c) \<Longrightarrow> exact_plan op c"
  unfolding plan_supported_def
  by (auto simp del: ascii_simps exact_plan.simps split: if_splits
      intro: plan_fs_read_exact plan_fs_write_exact plan_process_run_exact plan_http_request_exact
        plan_memory_propose_exact)

section \<open>Planning is total\<close>

lemma string_value_no_Panic [simp]: "string_value v \<noteq> Panic"
  by (cases v) simp_all

lemma string_list_no_Panic [simp]: "string_list vs \<noteq> Panic"
  by (induction vs) (auto simp: result_simps)

lemma string_list_field_no_Panic [simp]: "string_list_field fs n \<noteq> Panic"
  by (simp add: string_list_field_def split: option.split json.split)

lemma required_field_no_Panic: "(\<And>v. read v \<noteq> Panic) \<Longrightarrow> required_field fs n read \<noteq> Panic"
  by (simp add: required_field_def split: option.split)

lemma optional_field_no_Panic: "(\<And>v. read v \<noteq> Panic) \<Longrightarrow> optional_field fs n read \<noteq> Panic"
  by (simp add: optional_field_def and_then_Panic split: option.split json.split)

lemma unit_variant_no_Panic: "unit_variant vs v \<noteq> Panic"
  by (auto simp: unit_variant_def split: option.split)

lemma validate_identifier_no_Panic [simp]: "validate_identifier s \<noteq> Panic"
  by (simp add: validate_identifier_def result_simps)

lemma value_readers_no_Panic:
  "provider_call_id_value v \<noteq> Panic" "memory_content_value v \<noteq> Panic"
  by (simp_all add: provider_call_id_value_def memory_content_value_def memory_content_new_def result_simps)

lemma normalize_components_no_Panic [simp]: "normalize_components acc cs \<noteq> Panic"
  by (induction acc cs rule: normalize_components.induct) simp_all

lemma workspace_path_no_Panic [simp]: "workspace_path v \<noteq> Panic"
  by (simp add: workspace_path_def)

lemmas parse_no_Panic = required_field_no_Panic optional_field_no_Panic unit_variant_no_Panic
  value_readers_no_Panic deny_unknown_fields_def

lemma parsers_no_Panic [simp]:
  "parse_file_read fs \<noteq> Panic" "parse_file_write fs \<noteq> Panic" "parse_process fs \<noteq> Panic"
  "parse_http fs \<noteq> Panic" "parse_memory_proposal fs \<noteq> Panic"
  by (simp_all add: parse_file_read_def parse_file_write_def parse_process_def parse_http_def
      parse_memory_proposal_def and_then_Panic parse_no_Panic)

lemma plan_supported_no_Panic [simp]: "plan_supported lib name fs \<noteq> Panic"
  by (simp add: plan_supported_def plan_defs workspace_resource_def and_then_Panic map_err_Panic Let_def)

lemma invalid_resource_valid: "resource_ref_new (ascii ''tool-call:invalid'') = Ok (ResourceRef (ascii ''tool-call:invalid''))"
  by (simp add: resource_ref_new_def trim_is_empty_def is_whitespace_def is_control_def
      max_resource_bytes_def len_utf8_def)

definition planned_as :: "http_lib \<Rightarrow> tool_name \<Rightarrow> tool_arguments \<Rightarrow> operation \<times> capability_request" where
  "planned_as lib name arguments =
     (case plan_supported lib (tool_name_str name) (arguments_object arguments) of
        Ok planned \<Rightarrow> planned | _ \<Rightarrow> rejected)"

lemma plan_eq:
  "plan lib incoming =
     Ok \<lparr>planned_spec =
           \<lparr>spec_tool_call_id = inc_tool_call_id incoming,
            spec_provider_call_id = inc_provider_call_id incoming,
            spec_tool_name = inc_tool_name incoming, spec_schema_version = tool_schema_v1,
            spec_arguments = inc_arguments incoming,
            spec_capability = snd (planned_as lib (inc_tool_name incoming) (inc_arguments incoming))\<rparr>,
         planned_operation = fst (planned_as lib (inc_tool_name incoming) (inc_arguments incoming))\<rparr>"
  unfolding plan_def planned_as_def invalid_resource_valid rejected_def
  by (cases "plan_supported lib (tool_name_str (inc_tool_name incoming))
               (arguments_object (inc_arguments incoming))") auto

lemma planned_as_exact: "exact_plan (fst (planned_as lib name arguments)) (snd (planned_as lib name arguments))"
  unfolding planned_as_def
  by (cases "plan_supported lib (tool_name_str name) (arguments_object arguments)")
    (auto simp: rejected_def dest: plan_supported_exact)

text \<open>A plan is exact when its authority names its operation.\<close>

lemma plan_exact:
  assumes "plan lib incoming = Ok p"
  shows "exact_plan (planned_operation p) (spec_capability (planned_spec p))"
  using assms planned_as_exact [of lib "inc_tool_name incoming" "inc_arguments incoming"]
  unfolding plan_eq by auto

lemma replan_eq:
  "replan lib spec =
     (if spec_schema_version spec = tool_schema_v1
         \<and> spec_capability spec = snd (planned_as lib (spec_tool_name spec) (spec_arguments spec))
      then Ok \<lparr>planned_spec = spec,
               planned_operation = fst (planned_as lib (spec_tool_name spec) (spec_arguments spec))\<rparr>
      else Err invalid_call)"
  unfolding replan_def plan_eq by (cases spec) auto

lemma replan_plan: "plan lib incoming = Ok p \<Longrightarrow> replan lib (planned_spec p) = Ok p"
  unfolding plan_eq by (cases p) (auto simp: replan_eq)

lemma replan_Ok:
  "replan lib spec = Ok p \<Longrightarrow> planned_spec p = spec
     \<and> plan lib \<lparr>inc_tool_call_id = spec_tool_call_id spec, inc_provider_call_id = spec_provider_call_id spec,
          inc_tool_name = spec_tool_name spec, inc_arguments = spec_arguments spec\<rparr> = Ok p"
  unfolding replan_eq plan_eq by (cases spec) (auto split: if_splits)

section \<open>The authority determines the target\<close>

text \<open>What an operation acts on, without the bytes it sends there.\<close>

datatype target =
    No_Target | Proposal_Target memory_proposal_scope | Read_Target path | Write_Target path
  | Process_Target ustring path | Origin_Target ustring

fun operation_target :: "operation \<Rightarrow> target" where
  "operation_target RejectInvalid = No_Target"
| "operation_target (SubmitMemoryProposal p) = Proposal_Target (prop_scope p)"
| "operation_target (ReadFile path) = Read_Target path"
| "operation_target (WriteFile path content) = Write_Target path"
| "operation_target (RunProcess program arguments cwd) = Process_Target program cwd"
| "operation_target (HttpRequest method url body) = Origin_Target (url_origin url)"

lemma program_no_at: "validate_program p = Ok u \<Longrightarrow> 0x40 \<notin> set p"
  by (auto simp: validate_program_Ok list_all_iff program_character_def is_ascii_alphanumeric_def)

lemma append_separator_inject:
  fixes p q s t :: "'a list"
  shows "x \<notin> set p \<Longrightarrow> x \<notin> set q \<Longrightarrow> p @ x # s = q @ x # t \<longleftrightarrow> p = q \<and> s = t"
proof (induction p arbitrary: q)
  case Nil
  then show ?case by (cases q) auto
next
  case (Cons a p)
  then show ?case by (cases q) auto
qed

lemma process_resource_inject:
  assumes "validate_program p = Ok u" "validate_program q = Ok v"
  shows "ascii ''program:'' @ p @ ascii ''@workspace:'' @ s = ascii ''program:'' @ q @ ascii ''@workspace:'' @ t
    \<longleftrightarrow> p = q \<and> s = t"
  using append_separator_inject [where x = "0x40 :: nat" and p = p and q = q and s = "ascii ''workspace:'' @ s" and t = "ascii ''workspace:'' @ t"]
    program_no_at [OF assms(1)] program_no_at [OF assms(2)] by simp

lemma scope_name_inject: "as_resource_name s = as_resource_name t \<Longrightarrow> s = t"
  by (cases s; cases t) simp_all

lemma process_target_inject:
  assumes "exact_plan (RunProcess p as d) c" "exact_plan (RunProcess q bs e) c"
  shows "p = q \<and> d = e"
proof -
  have "ascii ''program:'' @ p @ ascii ''@workspace:'' @ display_relative d
      = ascii ''program:'' @ q @ ascii ''@workspace:'' @ display_relative e"
    using assms by (auto simp del: ascii_simps append_assoc simp: capability_def)
  then have "p = q" "display_relative d = display_relative e"
    using process_resource_inject [of p "()" q "()"] assms by (simp_all del: ascii_simps)
  then show ?thesis using assms by (auto dest: display_relative_inject)
qed

lemma exact_plan_target:
  assumes "exact_plan a c" "exact_plan b c"
  shows "operation_target a = operation_target b"
proof (cases "\<exists>p as d q bs e. a = RunProcess p as d \<and> b = RunProcess q bs e")
  case True
  then show ?thesis using assms process_target_inject by fastforce
next
  case False
  then show ?thesis
    using assms
    by (cases a; cases b)
      (auto simp: capability_def rejected_def dest: display_relative_inject scope_name_inject)
qed

end
