(* ===== verification/Tool_Policy.thy ===== *)
theory Tool_Policy
  imports Tool_Plan_Laws
begin

text \<open>
  Permission policy and run budget of \<open>autoharness-tool\<close> (\<open>permission.rs\<close>, \<open>budget.rs\<close>). The clock is
  an argument: \<open>elapsed\<close> is the time since the budget was started, in nanoseconds, which every admission
  reads once.
\<close>

section \<open>Permission policy\<close>

record permission_rule =
  rule_tool_name :: "tool_name option"
  rule_capability :: capability_kind
  rule_resource_prefix :: resource_ref
  rule_outcome :: permission_outcome

type_synonym permission_policy = "permission_rule list"

definition starts_with :: "ustring \<Rightarrow> ustring \<Rightarrow> bool" where
  "starts_with s p \<longleftrightarrow> take (length p) s = p"

definition rule_matches :: "tool_call_spec \<Rightarrow> permission_rule \<Rightarrow> bool" where
  "rule_matches call rule \<longleftrightarrow>
     rule_capability rule = cap_kind (spec_capability call)
     \<and> (case rule_tool_name rule of None \<Rightarrow> True | Some name \<Rightarrow> name = spec_tool_name call)
     \<and> starts_with (resource_str (cap_resource (spec_capability call)))
         (resource_str (rule_resource_prefix rule))"

definition evaluate :: "permission_policy \<Rightarrow> tool_call_spec \<Rightarrow> permission_outcome" where
  "evaluate rules call =
     (if cap_kind (spec_capability call) = InvalidToolCall then Outcome_Deny
      else case find (rule_matches call) rules of
             None \<Rightarrow> Outcome_Deny | Some rule \<Rightarrow> rule_outcome rule)"

text \<open>The static names and prefixes of \<open>local_default\<close> are expected to be valid.\<close>

definition static_rule ::
  "string \<Rightarrow> capability_kind \<Rightarrow> string \<Rightarrow> permission_outcome \<Rightarrow> (permission_rule, 'e) result" where
  "static_rule name kind prefix outcome =
     (case (validate_identifier (ascii name), resource_ref_new (ascii prefix)) of
        (Ok _, Ok resource) \<Rightarrow>
          Ok \<lparr>rule_tool_name = Some (ToolName (ascii name)), rule_capability = kind,
              rule_resource_prefix = resource, rule_outcome = outcome\<rparr>
      | _ \<Rightarrow> Panic)"

definition local_default :: "(permission_policy, 'e) result" where
  "local_default = collect
     [static_rule ''memory_propose'' Cap_MemoryProposal ''memory-proposal:'' Outcome_Allow,
      static_rule ''fs_read'' FilesystemRead ''workspace:'' Outcome_Ask,
      static_rule ''fs_write'' FilesystemWrite ''workspace:'' Outcome_Ask,
      static_rule ''process_run'' ProcessExecute ''program:'' Outcome_Ask,
      static_rule ''http_request'' Cap_HttpRequest ''http'' Outcome_Ask]"

datatype permission_evidence = PolicyAllow | HumanAllowOnce

datatype authorized_tool_call = AuthorizedToolCall planned_tool_call

definition authorize ::
  "planned_tool_call \<Rightarrow> permission_outcome \<Rightarrow> permission_answer option
     \<Rightarrow> (authorized_tool_call \<times> permission_evidence, tool_error) result" where
  "authorize planned policy_outcome answer =
     (if rejects_execution planned then Err (tool_error_new Tool_InvalidCall Retry_Never)
      else case (policy_outcome, answer) of
        (Outcome_Allow, None) \<Rightarrow> Ok (AuthorizedToolCall planned, PolicyAllow)
      | (Outcome_Ask, Some Answer_AllowOnce) \<Rightarrow> Ok (AuthorizedToolCall planned, HumanAllowOnce)
      | _ \<Rightarrow> Err (tool_error_new Tool_PermissionDenied Retry_Never))"

text \<open>\<open>ToolRuntime::authorize_replayed\<close>: authority is rebuilt from the durable call only.\<close>

definition authorize_replayed ::
  "http_lib \<Rightarrow> tool_call_spec \<Rightarrow> permission_outcome \<Rightarrow> permission_answer option
     \<Rightarrow> (authorized_tool_call \<times> permission_evidence, tool_error) result" where
  "authorize_replayed lib spec policy_outcome answer =
     and_then (replan lib spec) (\<lambda>planned. authorize planned policy_outcome answer)"

section \<open>Run budget\<close>

record run_budget =
  budget_limits :: run_limits
  elapsed_before_start :: nat
  budget_turns :: nat
  budget_tokens :: nat
  budget_output_bytes :: nat
  budget_active_tools :: nat

definition limit_error :: "tool_error_kind \<Rightarrow> tool_error" where
  "limit_error kind = tool_error_new kind Retry_Never"

definition saturating_add_u32 :: "nat \<Rightarrow> nat \<Rightarrow> nat" where
  "saturating_add_u32 a b = min (a + b) u32_max"

definition budget_new :: "run_limits \<Rightarrow> run_budget" where
  "budget_new limits =
     \<lparr>budget_limits = limits, elapsed_before_start = 0, budget_turns = 0, budget_tokens = 0,
      budget_output_bytes = 0, budget_active_tools = 0\<rparr>"

definition budget_restore ::
  "run_limits \<Rightarrow> nat \<Rightarrow> nat \<Rightarrow> nat \<Rightarrow> nat \<Rightarrow> nat \<Rightarrow> (run_budget, tool_error) result" where
  "budget_restore limits elapsed turns tokens output_bytes active_tools =
     (if turns > max_turns limits then Err (limit_error Tool_TurnLimit)
      else if tokens > max_tokens limits \<or> output_bytes > max_output_bytes limits
              \<or> active_tools > max_concurrency limits
           then Err (limit_error Tool_OutputLimit)
      else Ok \<lparr>budget_limits = limits, elapsed_before_start = elapsed, budget_turns = turns,
               budget_tokens = tokens, budget_output_bytes = output_bytes,
               budget_active_tools = active_tools\<rparr>)"

text \<open>\<open>Duration\<close> in nanoseconds: at most \<open>u64::MAX\<close> seconds and 999999999 nanoseconds.\<close>

definition duration_max :: nat where "duration_max = u64_max * 1000000000 + 999999999"

definition from_millis :: "nat \<Rightarrow> nat" where "from_millis ms = ms * 1000000"

definition check_time :: "nat \<Rightarrow> run_budget \<Rightarrow> (unit, tool_error) result" where
  "check_time elapsed b =
     (if min (elapsed_before_start b + elapsed) duration_max > from_millis (max_time_ms (budget_limits b))
      then Err (limit_error Tool_Timeout) else Ok ())"

text \<open>
  A method of \<open>&mut self\<close> returns its result with the state after it; the \<open>?\<close> operator leaves the state
  as it is at that point.
\<close>

type_synonym 'a budget_step = "('a, tool_error) result \<times> run_budget"

definition start_turn :: "nat \<Rightarrow> run_budget \<Rightarrow> nat budget_step" where
  "start_turn elapsed b =
     (case check_time elapsed b of
        Ok _ \<Rightarrow>
          (let n = saturating_add_u32 (budget_turns b) 1
           in if n > max_turns (budget_limits b) then (Err (limit_error Tool_TurnLimit), b)
              else (Ok n, b\<lparr>budget_turns := n\<rparr>))
      | Err e \<Rightarrow> (Err e, b) | Panic \<Rightarrow> (Panic, b))"

definition record_tokens :: "nat \<Rightarrow> nat \<Rightarrow> run_budget \<Rightarrow> unit budget_step" where
  "record_tokens elapsed cumulative b =
     (case check_time elapsed b of
        Ok _ \<Rightarrow>
          (if cumulative > max_tokens (budget_limits b) \<or> cumulative < budget_tokens b
           then (Err (limit_error Tool_OutputLimit), b) else (Ok (), b\<lparr>budget_tokens := cumulative\<rparr>))
      | Err e \<Rightarrow> (Err e, b) | Panic \<Rightarrow> (Panic, b))"

definition add_output :: "nat \<Rightarrow> nat \<Rightarrow> run_budget \<Rightarrow> unit budget_step" where
  "add_output elapsed bytes b =
     (case check_time elapsed b of
        Ok _ \<Rightarrow>
          (case checked_add_u64 (budget_output_bytes b) bytes of
             None \<Rightarrow> (Err (limit_error Tool_OutputLimit), b)
           | Some n \<Rightarrow>
               if n > max_output_bytes (budget_limits b) then (Err (limit_error Tool_OutputLimit), b)
               else (Ok (), b\<lparr>budget_output_bytes := n\<rparr>))
      | Err e \<Rightarrow> (Err e, b) | Panic \<Rightarrow> (Panic, b))"

definition start_tool :: "nat \<Rightarrow> run_budget \<Rightarrow> unit budget_step" where
  "start_tool elapsed b =
     (case check_time elapsed b of
        Ok _ \<Rightarrow>
          (let n = saturating_add_u32 (budget_active_tools b) 1
           in if n > max_concurrency (budget_limits b) then (Err (limit_error Tool_OutputLimit), b)
              else (Ok (), b\<lparr>budget_active_tools := n\<rparr>))
      | Err e \<Rightarrow> (Err e, b) | Panic \<Rightarrow> (Panic, b))"

definition finish_tool :: "run_budget \<Rightarrow> run_budget" where
  "finish_tool b = b\<lparr>budget_active_tools := budget_active_tools b - 1\<rparr>"

section \<open>Policy\<close>

lemma local_default_eq:
  "local_default = Ok
     [\<lparr>rule_tool_name = Some (ToolName (ascii ''memory_propose'')), rule_capability = Cap_MemoryProposal,
       rule_resource_prefix = ResourceRef (ascii ''memory-proposal:''), rule_outcome = Outcome_Allow\<rparr>,
      \<lparr>rule_tool_name = Some (ToolName (ascii ''fs_read'')), rule_capability = FilesystemRead,
       rule_resource_prefix = ResourceRef (ascii ''workspace:''), rule_outcome = Outcome_Ask\<rparr>,
      \<lparr>rule_tool_name = Some (ToolName (ascii ''fs_write'')), rule_capability = FilesystemWrite,
       rule_resource_prefix = ResourceRef (ascii ''workspace:''), rule_outcome = Outcome_Ask\<rparr>,
      \<lparr>rule_tool_name = Some (ToolName (ascii ''process_run'')), rule_capability = ProcessExecute,
       rule_resource_prefix = ResourceRef (ascii ''program:''), rule_outcome = Outcome_Ask\<rparr>,
      \<lparr>rule_tool_name = Some (ToolName (ascii ''http_request'')), rule_capability = Cap_HttpRequest,
       rule_resource_prefix = ResourceRef (ascii ''http''), rule_outcome = Outcome_Ask\<rparr>]"
proof -
  have "\<forall>n\<in>{''memory_propose'', ''fs_read'', ''fs_write'', ''process_run'', ''http_request''}.
      validate_identifier (ascii n) = Ok ()"
    by (simp add: validate_identifier_def is_control_def is_whitespace_def len_utf8_def
        is_safe_identifier_character_def is_ascii_alphanumeric_def max_identifier_bytes_def)
  moreover have "\<forall>r\<in>{''memory-proposal:'', ''workspace:'', ''program:'', ''http''}.
      resource_ref_new (ascii r) = Ok (ResourceRef (ascii r))"
    by (simp add: resource_ref_new_def trim_is_empty_def is_whitespace_def is_control_def
        max_resource_bytes_def len_utf8_def)
  ultimately show ?thesis
    by (simp del: ascii_simps add: local_default_def static_rule_def)
qed

lemma find_rule_Some: "find P xs = Some x \<Longrightarrow> x \<in> set xs \<and> P x"
  by (induction xs) (auto split: if_splits)

lemma local_default_allows:
  assumes "local_default = (Ok policy :: (_, tool_error) result)"
    and "evaluate policy call = Outcome_Allow"
  shows "cap_kind (spec_capability call) = Cap_MemoryProposal"
    and "spec_tool_name call = ToolName (ascii ''memory_propose'')"
  using assms(2)
  by (auto simp del: ascii_simps simp: evaluate_def assms(1) [unfolded local_default_eq, symmetric, simplified]
      rule_matches_def split: if_splits option.splits dest!: find_rule_Some)

lemma authorize_Ok:
  "authorize p out ans = Ok (a, e) \<longleftrightarrow>
     a = AuthorizedToolCall p \<and> \<not> rejects_execution p
     \<and> (out = Outcome_Allow \<and> ans = None \<and> e = PolicyAllow
        \<or> out = Outcome_Ask \<and> ans = Some Answer_AllowOnce \<and> e = HumanAllowOnce)"
  unfolding authorize_def
  by (cases out; cases ans; cases "the ans") (auto split: permission_answer.splits)

section \<open>Budget\<close>

text \<open>Every counter is within the limit it is charged against.\<close>

definition within_limits :: "run_budget \<Rightarrow> bool" where
  "within_limits b \<longleftrightarrow>
     budget_turns b \<le> max_turns (budget_limits b) \<and> budget_tokens b \<le> max_tokens (budget_limits b)
     \<and> budget_output_bytes b \<le> max_output_bytes (budget_limits b)
     \<and> budget_active_tools b \<le> max_concurrency (budget_limits b)"

named_theorems budget_defs \<open>the admissions of the run budget\<close>

declare start_turn_def [budget_defs] record_tokens_def [budget_defs] add_output_def [budget_defs]
  start_tool_def [budget_defs] check_time_def [budget_defs]

text \<open>One call on a budget.\<close>

datatype budget_call =
    Start_Turn nat | Record_Tokens nat nat | Add_Output nat nat | Start_Tool nat | Finish_Tool

fun run_budget_call :: "run_budget \<Rightarrow> budget_call \<Rightarrow> bool \<times> run_budget" where
  "run_budget_call b (Start_Turn t) = (let (r, b') = start_turn t b in (is_ok r, b'))"
| "run_budget_call b (Record_Tokens t n) = (let (r, b') = record_tokens t n b in (is_ok r, b'))"
| "run_budget_call b (Add_Output t n) = (let (r, b') = add_output t n b in (is_ok r, b'))"
| "run_budget_call b (Start_Tool t) = (let (r, b') = start_tool t b in (is_ok r, b'))"
| "run_budget_call b Finish_Tool = (True, finish_tool b)"

definition run_budget_calls :: "run_budget \<Rightarrow> budget_call list \<Rightarrow> run_budget" where
  "run_budget_calls b calls = foldl (\<lambda>b c. snd (run_budget_call b c)) b calls"

lemma budget_call_limits: "budget_limits (snd (run_budget_call b c)) = budget_limits b"
  by (cases c) (auto simp: budget_defs finish_tool_def Let_def split: option.splits)

lemma budget_call_within: "within_limits b \<Longrightarrow> within_limits (snd (run_budget_call b c))"
  by (cases c) (auto simp: within_limits_def budget_defs finish_tool_def Let_def split: option.splits)

lemma budget_call_refused: "\<not> fst (run_budget_call b c) \<Longrightarrow> snd (run_budget_call b c) = b"
  by (cases c) (auto simp: budget_defs Let_def split: option.splits if_splits)

lemma budget_call_monotone:
  "budget_turns b \<le> max_turns (budget_limits b) \<Longrightarrow> max_turns (budget_limits b) \<le> u32_max
     \<Longrightarrow> budget_turns b \<le> budget_turns (snd (run_budget_call b c))
     \<and> budget_tokens b \<le> budget_tokens (snd (run_budget_call b c))
     \<and> budget_output_bytes b \<le> budget_output_bytes (snd (run_budget_call b c))"
  by (cases c)
    (auto simp: budget_defs finish_tool_def Let_def saturating_add_u32_def checked_add_u64_Some
      simp del: int_max_values split: option.splits)

lemma run_budget_calls_limits: "budget_limits (run_budget_calls b calls) = budget_limits b"
  unfolding run_budget_calls_def by (induction calls arbitrary: b) (simp_all add: budget_call_limits)

lemma run_budget_calls_within: "within_limits b \<Longrightarrow> within_limits (run_budget_calls b calls)"
  unfolding run_budget_calls_def by (induction calls arbitrary: b) (simp_all add: budget_call_within)

end
