(* ===== verification/Tool_Capability.thy ===== *)
theory Tool_Capability
  imports Tool_Policy "HOL-Library.Sublist"
begin

text \<open>
  The local capabilities of \<open>autoharness-tool\<close> (\<open>capability.rs\<close>): files confined to the workspace,
  shell-free processes and bounded HTTP. A filesystem maps absolute paths, as component lists, to
  directories, regular files and symbolic links. \<open>canonicalize\<close> resolves a path the way the standard
  library does on Unix, following at most a fixed number of links. A stream is the list of what its reads
  return. Between a check and the use it guards the filesystem does not change.
\<close>

section \<open>A filesystem with symbolic links\<close>

datatype node = Directory | Regular bytes | Symlink bool path

text \<open>The flag of a link tells whether its target is absolute.\<close>

type_synonym filesystem = "path \<rightharpoonup> node"

fun resolve :: "filesystem \<Rightarrow> nat \<Rightarrow> path \<Rightarrow> path \<Rightarrow> path option" where
  "resolve fs links cur [] = Some cur"
| "resolve fs links cur (c # cs) =
     (if fs cur \<noteq> Some Directory then None
      else if c = ascii ''.'' then resolve fs links cur cs
      else if c = ascii ''..'' then resolve fs links (butlast cur) cs
      else case fs (cur @ [c]) of
             None \<Rightarrow> None
           | Some (Symlink absolute target) \<Rightarrow>
               (if links = 0 then None
                else resolve fs (links - 1) (if absolute then [] else cur) (target @ cs))
           | Some _ \<Rightarrow> resolve fs links (cur @ [c]) cs)"

definition max_links :: nat where "max_links = 40"

definition canonicalize :: "filesystem \<Rightarrow> path \<Rightarrow> path option" where
  "canonicalize fs p = resolve fs max_links [] p"

definition is_dir :: "filesystem \<Rightarrow> path \<Rightarrow> bool" where
  "is_dir fs p \<longleftrightarrow> fs p = Some Directory"

definition is_file :: "filesystem \<Rightarrow> path \<Rightarrow> bool" where
  "is_file fs p \<longleftrightarrow> (case fs p of Some (Regular _) \<Rightarrow> True | _ \<Rightarrow> False)"

text \<open>\<open>Path::parent\<close> of an absolute path.\<close>

definition path_parent :: "path \<Rightarrow> path option" where
  "path_parent p = (if p = [] then None else Some (butlast p))"

text \<open>\<open>symlink_metadata\<close>: the node a path names when its last component is not followed.\<close>

definition symlink_metadata :: "filesystem \<Rightarrow> path \<Rightarrow> node option" where
  "symlink_metadata fs p =
     (if p = [] \<or> last p \<in> {ascii ''.'', ascii ''..''} then
        (case canonicalize fs p of None \<Rightarrow> None | Some q \<Rightarrow> fs q)
      else case canonicalize fs (butlast p) of None \<Rightarrow> None
        | Some q \<Rightarrow> if is_dir fs q then fs (q @ [last p]) else None)"

section \<open>Errors\<close>

definition filesystem_error :: tool_error where
  "filesystem_error = tool_error_new Tool_Filesystem Retry_Never"
definition process_error :: tool_error where
  "process_error = tool_error_new Tool_Process Retry_Never"
definition http_error :: tool_error where
  "http_error = tool_error_new Tool_Http Retry_Backoff"
definition cancelled :: tool_error where
  "cancelled = tool_error_new Tool_Cancelled Retry_Never"
definition internal :: tool_error where
  "internal = tool_error_new Tool_Internal Retry_Never"

section \<open>Bounded reads\<close>

text \<open>
  What a read of a stream meets first: cancellation, an error of the stream, or bytes. A read of no
  bytes, and the end of the list, is the end of the stream.
\<close>

datatype read_event = Read_Cancelled | Read_Failed | Read_Bytes bytes

fun read_hard_bounded ::
  "tool_error_kind \<Rightarrow> nat \<Rightarrow> bytes \<Rightarrow> read_event list \<Rightarrow> (bytes, tool_error) result" where
  "read_hard_bounded kind limit out [] = Ok out"
| "read_hard_bounded kind limit out (Read_Cancelled # es) = Err cancelled"
| "read_hard_bounded kind limit out (Read_Failed # es) = Err (tool_error_new kind Retry_Never)"
| "read_hard_bounded kind limit out (Read_Bytes bs # es) =
     (if bs = [] then Ok out
      else if length out + length bs > limit then Err (tool_error_new Tool_OutputLimit Retry_Never)
      else read_hard_bounded kind limit (out @ bs) es)"

fun read_prefix :: "nat \<Rightarrow> bytes \<times> bool \<Rightarrow> read_event list \<Rightarrow> (bytes \<times> bool, tool_error) result" where
  "read_prefix limit (out, truncated) [] = Ok (out, truncated)"
| "read_prefix limit (out, truncated) (Read_Bytes bs # es) =
     (if bs = [] then Ok (out, truncated)
      else
        (let remaining = limit - length out; retained = min remaining (length bs)
         in read_prefix limit (out @ take retained bs, truncated \<or> retained < length bs) es))"
| "read_prefix limit (out, truncated) (e # es) = Err process_error"

text \<open>The loop over a response body: an empty chunk is a chunk, and only the end of the stream ends it.\<close>

fun read_body :: "nat \<Rightarrow> bytes \<Rightarrow> read_event list \<Rightarrow> (bytes, tool_error) result" where
  "read_body limit body [] = Ok body"
| "read_body limit body (Read_Cancelled # es) = Err cancelled"
| "read_body limit body (Read_Failed # es) = Err http_error"
| "read_body limit body (Read_Bytes chunk # es) =
     (if length body + length chunk > limit then Err (tool_error_new Tool_OutputLimit Retry_Never)
      else read_body limit (body @ chunk) es)"

section \<open>Files\<close>

record local_filesystem =
  lf_root :: path
  lf_max_read_bytes :: nat

definition local_filesystem_new :: "filesystem \<Rightarrow> path \<Rightarrow> nat \<Rightarrow> (local_filesystem, tool_error) result" where
  "local_filesystem_new fs root max_read_bytes =
     (if max_read_bytes = 0 then Err internal
      else case canonicalize fs root of
             None \<Rightarrow> Err filesystem_error
           | Some r \<Rightarrow> if \<not> is_dir fs r then Err filesystem_error
                       else Ok \<lparr>lf_root = r, lf_max_read_bytes = max_read_bytes\<rparr>)"

definition read_path :: "local_filesystem \<Rightarrow> filesystem \<Rightarrow> path \<Rightarrow> (path, tool_error) result" where
  "read_path lf fs path =
     and_then (ok_or (canonicalize fs (lf_root lf @ path)) filesystem_error) (\<lambda>resolved.
     if \<not> prefix (lf_root lf) resolved \<or> \<not> is_file fs resolved then Err filesystem_error
     else Ok resolved)"

definition write_path :: "local_filesystem \<Rightarrow> filesystem \<Rightarrow> path \<Rightarrow> (path, tool_error) result" where
  "write_path lf fs path =
     (let candidate = lf_root lf @ path
      in and_then (ok_or (path_parent candidate) filesystem_error) (\<lambda>parent.
         and_then (ok_or (canonicalize fs parent) filesystem_error) (\<lambda>parent.
         if \<not> prefix (lf_root lf) parent then Err filesystem_error
         else case symlink_metadata fs candidate of
                Some (Symlink _ _) \<Rightarrow> Err filesystem_error
              | _ \<Rightarrow> Ok candidate)))"

definition directory_path :: "local_filesystem \<Rightarrow> filesystem \<Rightarrow> path \<Rightarrow> (path, tool_error) result" where
  "directory_path lf fs path =
     and_then (ok_or (canonicalize fs (lf_root lf @ path)) filesystem_error) (\<lambda>resolved.
     if \<not> prefix (lf_root lf) resolved \<or> \<not> is_dir fs resolved then Err filesystem_error
     else Ok resolved)"

text \<open>
  Reading a file: the environment decides how the bytes arrive and where a read fails or is cancelled,
  as a function of the bytes of the file.
\<close>

definition file_read ::
  "local_filesystem \<Rightarrow> (bytes \<Rightarrow> read_event list) \<Rightarrow> filesystem \<Rightarrow> path \<Rightarrow> (bytes, tool_error) result" where
  "file_read lf env fs path =
     and_then (read_path lf fs path) (\<lambda>p.
     case fs p of
       Some (Regular content) \<Rightarrow>
         read_hard_bounded Tool_Filesystem (lf_max_read_bytes lf) [] (env content)
     | _ \<Rightarrow> Err filesystem_error)"

text \<open>
  Opening a path for writing creates or truncates the file it names. \<open>open_write\<close> is the place of that
  file; a link as the last component would be followed.
\<close>

fun open_write :: "nat \<Rightarrow> filesystem \<Rightarrow> path \<Rightarrow> path option" where
  "open_write links fs p =
     (if p = [] \<or> last p \<in> {ascii ''.'', ascii ''..''} then None
      else case canonicalize fs (butlast p) of
             None \<Rightarrow> None
           | Some q \<Rightarrow>
               if \<not> is_dir fs q then None
               else case fs (q @ [last p]) of
                      Some Directory \<Rightarrow> None
                    | Some (Symlink absolute target) \<Rightarrow>
                        (if links = 0 then None
                         else open_write (links - 1) fs (if absolute then target else q @ target))
                    | _ \<Rightarrow> Some (q @ [last p]))"

declare open_write.simps [simp del]

text \<open>
  How a write goes: cancelled before it was polled, cancelled later while the blocking write went on
  and left what it had done, failed after leaving something, or done. \<open>None\<close> stands for a file that was
  not touched.
\<close>

datatype write_run =
    Write_Not_Started | Write_Abandoned "bytes option" | Write_Failed "bytes option" | Write_Done

fun left_behind :: "filesystem \<Rightarrow> path option \<Rightarrow> bytes option \<Rightarrow> filesystem" where
  "left_behind fs (Some p) (Some bs) = fs(p \<mapsto> Regular bs)"
| "left_behind fs _ _ = fs"

definition file_write ::
  "local_filesystem \<Rightarrow> write_run \<Rightarrow> path \<Rightarrow> bytes \<Rightarrow> filesystem
     \<Rightarrow> (bytes, tool_error) result \<times> filesystem" where
  "file_write lf run path content fs =
     (case write_path lf fs path of
        Ok p \<Rightarrow>
          (let place = open_write max_links fs p
           in case run of
                Write_Not_Started \<Rightarrow> (Err cancelled, fs)
              | Write_Abandoned part \<Rightarrow> (Err cancelled, left_behind fs place part)
              | Write_Failed part \<Rightarrow> (Err filesystem_error, left_behind fs place part)
              | Write_Done \<Rightarrow>
                  if place = None then (Err filesystem_error, fs)
                  else (Ok (as_bytes (ascii ''wrote '' @ decimal (length content) @ ascii '' bytes'')),
                        left_behind fs place (Some content)))
      | Err e \<Rightarrow> (Err e, fs) | Panic \<Rightarrow> (Panic, fs))"

section \<open>Processes\<close>

record process_result =
  pr_exit_code :: "int option"
  pr_stdout :: bytes
  pr_stderr :: bytes
  pr_truncated :: bool

text \<open>
  A spawned child, by what the parent sees of it: both pipes, and how waiting for it ends. \<open>None\<close> for
  a pipe that is not there.
\<close>

datatype wait_result = Wait_Cancelled | Wait_Failed | Exited "int option"

record child =
  child_stdout :: "read_event list option"
  child_stderr :: "read_event list option"
  child_wait :: wait_result

text \<open>The operating system starts the program in a directory, or refuses.\<close>

type_synonym spawner = "ustring \<Rightarrow> ustring list \<Rightarrow> path \<Rightarrow> child option"

definition process_run ::
  "local_filesystem \<Rightarrow> nat \<Rightarrow> spawner \<Rightarrow> filesystem \<Rightarrow> ustring \<Rightarrow> ustring list \<Rightarrow> path
     \<Rightarrow> (process_result, tool_error) result" where
  "process_run lf max_stream_bytes spawn fs program arguments cwd =
     and_then (directory_path lf fs cwd) (\<lambda>dir.
     and_then (ok_or (spawn program arguments dir) process_error) (\<lambda>ch.
     and_then (ok_or (child_stdout ch) internal) (\<lambda>out.
     and_then (ok_or (child_stderr ch) internal) (\<lambda>err.
     case child_wait ch of
       Wait_Cancelled \<Rightarrow> Err cancelled
     | Wait_Failed \<Rightarrow> Err process_error
     | Exited code \<Rightarrow>
         and_then (read_prefix max_stream_bytes ([], False) out) (\<lambda>(stdout, stdout_truncated).
         and_then (read_prefix max_stream_bytes ([], False) err) (\<lambda>(stderr, stderr_truncated).
         Ok \<lparr>pr_exit_code = code, pr_stdout = stdout, pr_stderr = stderr,
             pr_truncated = (stdout_truncated \<or> stderr_truncated)\<rparr>))))))"

section \<open>HTTP\<close>

record http_result =
  hr_status :: nat
  hr_body :: bytes

datatype send_result = Send_Cancelled | Send_Failed | Response nat "read_event list"

text \<open>The network answers a request.\<close>

type_synonym sender = "http_method \<Rightarrow> url \<Rightarrow> bytes option \<Rightarrow> send_result"

definition http_request ::
  "nat \<Rightarrow> sender \<Rightarrow> http_method \<Rightarrow> url \<Rightarrow> bytes option \<Rightarrow> (http_result, tool_error) result" where
  "http_request max_response_bytes send method url body =
     (case send method url body of
        Send_Cancelled \<Rightarrow> Err cancelled
      | Send_Failed \<Rightarrow> Err http_error
      | Response status chunks \<Rightarrow>
          and_then (read_body max_response_bytes [] chunks) (\<lambda>b. Ok \<lparr>hr_status = status, hr_body = b\<rparr>))"

section \<open>Bounded reads are bounded\<close>

text \<open>A stream that delivers all of some bytes, in pieces of at least one byte.\<close>

definition delivers :: "read_event list \<Rightarrow> bytes \<Rightarrow> bool" where
  "delivers es bs \<longleftrightarrow> (\<exists>chunks. es = map Read_Bytes chunks \<and> [] \<notin> set chunks \<and> concat chunks = bs)"

lemma read_hard_bounded_Ok:
  "read_hard_bounded kind limit out es = Ok r \<Longrightarrow> length out \<le> limit
     \<Longrightarrow> length r \<le> limit \<and> prefix out r"
  by (induction kind limit out es rule: read_hard_bounded.induct)
    (auto split: if_splits dest: append_prefixD)

lemma read_hard_bounded_chunks:
  assumes "[] \<notin> set chunks" "length out \<le> limit"
  shows "read_hard_bounded kind limit out (map Read_Bytes chunks) =
    (if length out + length (concat chunks) \<le> limit then Ok (out @ concat chunks)
     else Err (tool_error_new Tool_OutputLimit Retry_Never))"
  using assms by (induction chunks arbitrary: out) auto

lemma read_hard_bounded_delivers:
  "delivers es bs \<Longrightarrow> read_hard_bounded kind limit [] es =
     (if length bs \<le> limit then Ok bs else Err (tool_error_new Tool_OutputLimit Retry_Never))"
  by (auto simp: delivers_def read_hard_bounded_chunks)

lemma read_prefix_chunks:
  assumes "[] \<notin> set chunks" "length out \<le> limit" "truncated \<longrightarrow> length out = limit"
  shows "read_prefix limit (out, truncated) (map Read_Bytes chunks) =
    Ok (take limit (out @ concat chunks),
        truncated \<or> limit < length out + length (concat chunks))"
  using assms
proof (induction chunks arbitrary: out truncated)
  case Nil
  then show ?case by simp
next
  case (Cons c cs)
  define k where "k = min (limit - length out) (length c)"
  have "read_prefix limit (out @ take k c, truncated \<or> k < length c) (map Read_Bytes cs) =
      Ok (take limit ((out @ take k c) @ concat cs),
          (truncated \<or> k < length c) \<or> limit < length (out @ take k c) + length (concat cs))"
    using Cons.prems by (intro Cons.IH) (auto simp: k_def)
  moreover have "take limit ((out @ take k c) @ concat cs) = take limit (out @ c @ concat cs)"
    using Cons.prems by (cases "k < length c") (auto simp: k_def)
  moreover have "(k < length c \<or> limit < length (out @ take k c) + length (concat cs))
      \<longleftrightarrow> limit < length out + length (c @ concat cs)"
    using Cons.prems by (auto simp: k_def)
  ultimately show ?case using Cons.prems by (auto simp: k_def Let_def)
qed

lemma read_prefix_delivers:
  "delivers es bs \<Longrightarrow> read_prefix limit ([], False) es = Ok (take limit bs, limit < length bs)"
  by (auto simp: delivers_def read_prefix_chunks)

lemma read_prefix_bounded:
  "read_prefix limit st es = Ok (r, t) \<Longrightarrow> length (fst st) \<le> limit \<Longrightarrow> length r \<le> limit"
  by (induction limit st es rule: read_prefix.induct) (auto simp: Let_def split: if_splits)

lemma read_body_bounded: "read_body limit body es = Ok r \<Longrightarrow> length body \<le> limit \<Longrightarrow> length r \<le> limit"
  by (induction limit body es rule: read_body.induct) (auto split: if_splits)

section \<open>Files stay inside the workspace\<close>

lemma read_path_inside:
  "read_path lf fs path = Ok p \<Longrightarrow> prefix (lf_root lf) p \<and> is_file fs p
     \<and> canonicalize fs (lf_root lf @ path) = Some p"
  by (auto simp: read_path_def result_simps split: if_splits)

lemma open_write_place:
  assumes "write_path lf fs path = Ok p" "open_write links fs p = Some place"
  shows "\<exists>q. canonicalize fs (butlast (lf_root lf @ path)) = Some q \<and> prefix (lf_root lf) q
      \<and> is_dir fs q \<and> place = q @ [last (lf_root lf @ path)]
      \<and> last (lf_root lf @ path) \<notin> {ascii ''.'', ascii ''..''}
      \<and> lf_root lf @ path \<noteq> [] \<and> p = lf_root lf @ path
      \<and> (case fs place of None \<Rightarrow> True | Some (Regular _) \<Rightarrow> True | _ \<Rightarrow> False)"
proof -
  from assms(1) obtain q where p: "p = lf_root lf @ path" "p \<noteq> []"
    and q: "canonicalize fs (butlast p) = Some q" "prefix (lf_root lf) q"
    and m: "\<forall>a t. symlink_metadata fs p \<noteq> Some (Symlink a t)"
    by (auto simp del: butlast_append simp: write_path_def Let_def result_simps path_parent_def
        split: if_splits option.splits node.splits)
  from assms(2) p(2) q(1) have d: "is_dir fs q" "last p \<notin> {ascii ''.'', ascii ''..''}"
    by (auto simp: open_write.simps [of links fs p] split: if_splits)
  then have "symlink_metadata fs p = fs (q @ [last p])"
    using p(2) q(1) by (simp add: symlink_metadata_def)
  with m assms(2) p(2) q(1) d have "place = q @ [last p]"
    and "case fs place of None \<Rightarrow> True | Some (Regular _) \<Rightarrow> True | _ \<Rightarrow> False"
    by (auto simp: open_write.simps [of links fs p] split: option.splits node.splits)
  then show ?thesis using p q d by blast
qed

lemma left_behind_frame: "left_behind fs place part p \<noteq> fs p \<Longrightarrow> place = Some p"
  by (cases "(fs, place, part)" rule: left_behind.cases) (auto split: if_splits)

lemma file_write_frame:
  assumes "snd (file_write lf run path content fs) p \<noteq> fs p"
  shows "strict_prefix (lf_root lf) p \<and> (\<exists>bs. snd (file_write lf run path content fs) p = Some (Regular bs))"
proof -
  from assms obtain c part where wp: "write_path lf fs path = Ok c"
    and st: "snd (file_write lf run path content fs) = left_behind fs (open_write max_links fs c) part"
    by (cases "write_path lf fs path"; cases run)
      (auto simp: file_write_def Let_def split: if_splits)
  from assms st have place: "open_write max_links fs c = Some p" by (auto dest: left_behind_frame)
  from open_write_place [OF wp place] have "strict_prefix (lf_root lf) p"
    by (auto simp: strict_prefix_def prefix_def)
  moreover obtain bs where "part = Some bs"
    using assms unfolding st place by (cases part) auto
  ultimately show ?thesis unfolding st place by simp
qed

section \<open>What was written is what is read\<close>

lemma resolve_update:
  assumes "is_dir fs q" and "case fs x of None \<Rightarrow> True | Some (Regular _) \<Rightarrow> True | _ \<Rightarrow> False"
  shows "resolve fs links cur rest = Some q \<Longrightarrow> resolve (fs(x \<mapsto> Regular bs)) links cur rest = Some q"
  using assms
proof (induction fs links cur rest rule: resolve.induct)
  case (2 fs links cur c cs)
  have regular: "resolve fs links (cur @ [c]) cs \<noteq> Some q" if "fs (cur @ [c]) = Some (Regular b)" for b
    using that "2.prems" by (cases cs) (auto simp: is_dir_def)
  have cur: "fs cur = Some Directory" using "2.prems" by (simp split: if_splits)
  define fs' where "fs' = fs(x \<mapsto> Regular bs)"
  note IH = "2.IH" [folded fs'_def]
  have same: "fs' y = fs y" if "fs y = Some Directory \<or> (\<exists>a t. fs y = Some (Symlink a t))" for y
    using that "2.prems"(3) by (auto simp: fs'_def)
  have cur': "fs' cur = Some Directory" using same cur by simp
  consider (dot) "c = ascii ''.''" | (dots) "c \<noteq> ascii ''.''" "c = ascii ''..''"
    | (name) "c \<noteq> ascii ''.''" "c \<noteq> ascii ''..''" by blast
  then show ?case unfolding fs'_def [symmetric]
  proof cases
    case dot
    then show "resolve fs' links cur (c # cs) = Some q"
      using IH(1) "2.prems" cur cur' by simp
  next
    case dots
    then show "resolve fs' links cur (c # cs) = Some q"
      using IH(2) "2.prems" cur cur' by simp
  next
    case name
    show "resolve fs' links cur (c # cs) = Some q"
    proof (cases "fs (cur @ [c])")
      case None
      then show ?thesis using "2.prems" cur name by simp
    next
      case (Some n)
      show ?thesis
      proof (cases n)
        case Directory
        then show ?thesis
          using IH(3-) "2.prems" cur cur' name Some same [of "cur @ [c]"] by simp
      next
        case (Regular b)
        then show ?thesis using regular "2.prems" cur name Some by simp
      next
        case (Symlink a t)
        then show ?thesis
          using IH(3-) "2.prems" cur cur' name Some same [of "cur @ [c]"]
          by (simp split: if_splits)
      qed
    qed
  qed
qed simp

lemma resolve_snoc:
  "resolve fs links cur rest = Some q \<Longrightarrow> is_dir fs q \<Longrightarrow> c \<notin> {ascii ''.'', ascii ''..''}
     \<Longrightarrow> fs (q @ [c]) = Some (Regular b) \<Longrightarrow> resolve fs links cur (rest @ [c]) = Some (q @ [c])"
proof (induction fs links cur rest rule: resolve.induct)
  case (2 fs links cur d cs)
  then show ?case by (auto split: if_splits option.splits node.splits)
qed (simp add: is_dir_def)

lemma file_write_done:
  assumes "file_write lf Write_Done path content fs = (Ok r, fs')"
  shows "\<exists>place. fs' = fs(place \<mapsto> Regular content)
    \<and> canonicalize fs' (lf_root lf @ path) = Some place \<and> prefix (lf_root lf) place"
proof -
  from assms obtain p place where wp: "write_path lf fs path = Ok p"
    and op: "open_write max_links fs p = Some place" and fs': "fs' = fs(place \<mapsto> Regular content)"
    by (cases "write_path lf fs path") (auto simp: file_write_def Let_def split: if_splits)
  obtain q where q: "canonicalize fs (butlast (lf_root lf @ path)) = Some q" "prefix (lf_root lf) q"
      "is_dir fs q" "place = q @ [last (lf_root lf @ path)]"
      "last (lf_root lf @ path) \<notin> {ascii ''.'', ascii ''..''}" "lf_root lf @ path \<noteq> []"
      "case fs place of None \<Rightarrow> True | Some (Regular _) \<Rightarrow> True | _ \<Rightarrow> False"
    using open_write_place [OF wp op] by blast
  have "place \<noteq> q" using q(4) by simp
  then have d: "is_dir fs' q" using q(3) by (simp add: fs' is_dir_def)
  have "canonicalize fs' (butlast (lf_root lf @ path)) = Some q"
    using q(1) resolve_update [OF q(3,7)] unfolding canonicalize_def fs' by blast
  then have "canonicalize fs' (butlast (lf_root lf @ path) @ [last (lf_root lf @ path)]) = Some place"
    using resolve_snoc [OF _ d q(5)] fs' unfolding canonicalize_def q(4) by simp
  then have "canonicalize fs' (lf_root lf @ path) = Some place"
    by (simp only: append_butlast_last_id [OF q(6)])
  moreover have "prefix (lf_root lf) place" unfolding q(4) by (rule prefix_prefix [OF q(2)])
  ultimately show ?thesis using fs' by blast
qed

lemma file_write_read:
  assumes "file_write lf Write_Done path content fs = (Ok r, fs')" and "delivers (env content) content"
  shows "file_read lf env fs' path =
    (if length content \<le> lf_max_read_bytes lf then Ok content
     else Err (tool_error_new Tool_OutputLimit Retry_Never))"
proof -
  obtain place where fs': "fs' = fs(place \<mapsto> Regular content)"
    and place: "canonicalize fs' (lf_root lf @ path) = Some place" "prefix (lf_root lf) place"
    using file_write_done [OF assms(1)] by blast
  have node: "fs' place = Some (Regular content)" by (simp add: fs')
  then have "read_path lf fs' path = Ok place"
    using place by (simp add: read_path_def is_file_def)
  then show ?thesis
    unfolding file_read_def using node by (simp add: read_hard_bounded_delivers [OF assms(2)])
qed

lemma file_write_no_Panic: "fst (file_write lf run path content fs) \<noteq> Panic"
proof -
  have "write_path lf fs path \<noteq> Panic"
    by (auto simp: write_path_def Let_def and_then_Panic split: option.split node.split)
  then show ?thesis
    by (cases "write_path lf fs path"; cases run) (auto simp: file_write_def Let_def)
qed

lemma read_hard_bounded_no_Panic [simp]: "read_hard_bounded k n out es \<noteq> Panic"
  by (induction k n out es rule: read_hard_bounded.induct) simp_all

lemma file_read_no_Panic: "file_read lf env fs path \<noteq> Panic"
  by (auto simp: file_read_def read_path_def and_then_Panic split: option.split node.split)

section \<open>The filesystem port\<close>

text \<open>
  What \<open>FilesystemCapability\<close> promises its client: a write changes places of the workspace only, and a
  read returns what the last completed write to the same path left there, or refuses it as too long.
\<close>

locale filesystem_capability =
  fixes read_fn :: "'r \<Rightarrow> 's \<Rightarrow> path \<Rightarrow> (bytes, tool_error) result"
    and write_fn :: "'w \<Rightarrow> path \<Rightarrow> bytes \<Rightarrow> 's \<Rightarrow> (bytes, tool_error) result \<times> 's"
    and look :: "'s \<Rightarrow> 'p \<Rightarrow> 'v"
    and inside :: "'p \<Rightarrow> bool"
    and completed :: 'w
    and faithful :: "'r \<Rightarrow> bytes \<Rightarrow> bool"
  assumes write_confined: "\<not> inside p \<Longrightarrow> look (snd (write_fn w path bs s)) p = look s p"
    and write_read: "write_fn completed path bs s = (Ok r, s') \<Longrightarrow> faithful env bs
      \<Longrightarrow> read_fn env s' path \<in> {Ok bs, Err (tool_error_new Tool_OutputLimit Retry_Never)}"
    and read_no_Panic: "read_fn env s path \<noteq> Panic"
    and write_no_Panic: "fst (write_fn w path bs s) \<noteq> Panic"
begin

lemma writes_confined:
  assumes "\<not> inside p"
  shows "look (foldl (\<lambda>s (w, path, bs). snd (write_fn w path bs s)) s ws) p = look s p"
  using assms by (induction ws arbitrary: s) (auto simp: write_confined)

end

interpretation local_fs: filesystem_capability "file_read lf" "file_write lf" "\<lambda>fs p. fs p"
  "strict_prefix (lf_root lf)" Write_Done "\<lambda>env bs. delivers (env bs) bs" for lf
proof unfold_locales
  fix p w path bs and s :: filesystem
  assume "\<not> strict_prefix (lf_root lf) p"
  then show "snd (file_write lf w path bs s) p = s p" using file_write_frame by blast
next
  fix path bs and s s' :: filesystem and r env
  assume "file_write lf Write_Done path bs s = (Ok r, s')" "delivers (env bs) bs"
  then show "file_read lf env s' path \<in> {Ok bs, Err (tool_error_new Tool_OutputLimit Retry_Never)}"
    using file_write_read by (metis insert_iff)
qed (simp_all add: file_read_no_Panic file_write_no_Panic)

end
