(* ===== verification/Tool_Runtime.thy ===== *)
theory Tool_Runtime
  imports Tool_Capability
begin

text \<open>
  Execution of authorised tool calls (\<open>autoharness-tool\<close>: \<open>runtime.rs\<close>, \<open>artifact.rs\<close>). The ports are
  functions on the state of the machine; which branch of a \<open>select!\<close> wins is an argument. The digest of
  the \<open>sha2\<close> crate is a parameter. Output that fits the inline bound is returned as text; longer output
  is retained as an artifact and returned as a prefix.
\<close>

declare ascii_simps [simp del] int_max_values [simp del]

section \<open>Artifacts\<close>

text \<open>The artifact directory, by file name.\<close>

type_synonym artifact_directory = "ustring \<rightharpoonup> bytes"

definition artifact_error :: tool_error where
  "artifact_error = tool_error_new Tool_Artifact Retry_Never"

definition hex :: "bytes \<Rightarrow> ustring" where
  "hex bs = concat (map (\<lambda>b. [hex_digit (b div 16), hex_digit (b mod 16)]) bs)"

text \<open>
  What the file operations of one \<open>put\<close> answer. A failed write removes its temporary file and touches
  no artifact.
\<close>

datatype put_write = Put_Written | Put_Already_Exists | Put_Failed

record put_env =
  exists_ok :: bool
  verify_read_ok :: bool
  put_write_result :: put_write

definition verify_artifact ::
  "(bytes \<Rightarrow> bytes) \<Rightarrow> bool \<Rightarrow> artifact_directory \<Rightarrow> ustring \<Rightarrow> bytes \<Rightarrow> (unit, tool_error) result" where
  "verify_artifact sha read_ok dir name digest =
     (if \<not> read_ok then Err artifact_error
      else case dir name of
             None \<Rightarrow> Err artifact_error
           | Some existing \<Rightarrow> if sha existing \<noteq> digest then Err artifact_error else Ok ())"

definition store_artifact ::
  "(bytes \<Rightarrow> bytes) \<Rightarrow> put_env \<Rightarrow> bytes \<Rightarrow> artifact_directory
     \<Rightarrow> (unit, tool_error) result \<times> artifact_directory" where
  "store_artifact sha env bs dir =
     (let digest = sha bs; name = hex digest
      in if \<not> exists_ok env then (Err artifact_error, dir)
         else if dir name \<noteq> None then (verify_artifact sha (verify_read_ok env) dir name digest, dir)
         else case put_write_result env of
                Put_Written \<Rightarrow> (Ok (), dir(name \<mapsto> bs))
              | Put_Already_Exists \<Rightarrow> (verify_artifact sha (verify_read_ok env) dir name digest, dir)
              | Put_Failed \<Rightarrow> (Err artifact_error, dir))"

definition artifact_put ::
  "(bytes \<Rightarrow> bytes) \<Rightarrow> put_env \<Rightarrow> bytes \<Rightarrow> ustring \<Rightarrow> artifact_directory
     \<Rightarrow> (artifact_ref, tool_error) result \<times> artifact_directory" where
  "artifact_put sha env bs media_type dir =
     (if bs = [] then (Err artifact_error, dir)
      else
        (let id = ascii ''sha256:'' @ hex (sha bs)
         in case map_err (\<lambda>_. artifact_error) (validate_identifier id) of
              Ok _ \<Rightarrow>
                (case store_artifact sha env bs dir of
                   (Ok _, dir') \<Rightarrow>
                     (map_err (\<lambda>_. artifact_error)
                        (artifact_ref_new (ArtifactId id) (min (length bs) u64_max) media_type), dir')
                 | (Err e, dir') \<Rightarrow> (Err e, dir')
                 | (Panic, dir') \<Rightarrow> (Panic, dir'))
            | Err e \<Rightarrow> (Err e, dir) | Panic \<Rightarrow> (Panic, dir)))"

section \<open>Capturing output\<close>

text \<open>\<open>str::is_char_boundary\<close> and the loop that steps back to one.\<close>

definition is_char_boundary :: "ustring \<Rightarrow> nat \<Rightarrow> bool" where
  "is_char_boundary s b \<longleftrightarrow> b \<in> set (map (\<lambda>k. str_len (take k s)) [0..<Suc (length s)])"

fun step_back :: "ustring \<Rightarrow> nat \<Rightarrow> nat" where
  "step_back content boundary =
     (if 0 < boundary \<and> \<not> is_char_boundary content boundary then step_back content (boundary - 1)
      else boundary)"

declare step_back.simps [simp del]

type_synonym 'a put_port =
  "bytes \<Rightarrow> ustring \<Rightarrow> 'a \<Rightarrow> (artifact_ref, tool_error) result \<times> 'a"

definition capture ::
  "nat \<Rightarrow> 'a put_port \<Rightarrow> bytes \<Rightarrow> 'a \<Rightarrow> (tool_output, tool_error) result \<times> 'a" where
  "capture inline_output_bytes put bs st =
     (let original_bytes = min (length bs) u64_max; content = from_utf8_lossy bs
      in if length bs \<le> inline_output_bytes
         then (map_err (\<lambda>_. internal) (tool_output_new content None original_bytes False), st)
         else
           (case put bs (ascii ''application/octet-stream'') st of
              (Ok artifact, st') \<Rightarrow>
                (let boundary = step_back content (min inline_output_bytes (str_len content))
                 in (and_then (str_truncate boundary content) (\<lambda>text.
                       map_err (\<lambda>_. internal) (tool_output_new text (Some artifact) original_bytes True)),
                     st'))
            | (Err e, st') \<Rightarrow> (Err e, st')
            | (Panic, st') \<Rightarrow> (Panic, st')))"

section \<open>The runtime\<close>

record 's ports =
  port_read :: "'s \<Rightarrow> path \<Rightarrow> (bytes, tool_error) result"
  port_write :: "path \<Rightarrow> bytes \<Rightarrow> 's \<Rightarrow> (bytes, tool_error) result \<times> 's"
  port_run :: "ustring \<Rightarrow> ustring list \<Rightarrow> path \<Rightarrow> 's \<Rightarrow> (process_result, tool_error) result \<times> 's"
  port_http :: "http_method \<Rightarrow> url \<Rightarrow> bytes option \<Rightarrow> (http_result, tool_error) result"

record tool_runtime =
  rt_policy :: permission_policy
  rt_max_concurrency :: nat
  rt_timeout :: nat
  rt_inline_output_bytes :: nat

definition tool_runtime_new ::
  "permission_policy \<Rightarrow> nat \<Rightarrow> nat \<Rightarrow> nat \<Rightarrow> (tool_runtime, tool_error) result" where
  "tool_runtime_new policy concurrency timeout inline_output_bytes =
     (if concurrency = 0 \<or> timeout = 0 \<or> inline_output_bytes = 0
         \<or> inline_output_bytes > max_inline_tool_output_bytes
      then Err internal
      else Ok \<lparr>rt_policy = policy, rt_max_concurrency = concurrency, rt_timeout = timeout,
               rt_inline_output_bytes = inline_output_bytes\<rparr>)"

definition runtime_evaluate :: "tool_runtime \<Rightarrow> planned_tool_call \<Rightarrow> permission_outcome" where
  "runtime_evaluate rt planned = evaluate (rt_policy rt) (planned_spec planned)"

text \<open>\<open>to_string\<close> of an \<open>i32\<close>.\<close>

definition decimal_int :: "int \<Rightarrow> ustring" where
  "decimal_int i = (if i < 0 then ascii ''-'' else []) @ decimal (nat \<bar>i\<bar>)"

definition process_text :: "process_result \<Rightarrow> bytes" where
  "process_text r =
     as_bytes (ascii ''exit_code=''
        @ (case pr_exit_code r of None \<Rightarrow> ascii ''unknown'' | Some code \<Rightarrow> decimal_int code)
        @ [0x0A] @ ascii ''stdout:'' @ [0x0A])
     @ pr_stdout r @ as_bytes ([0x0A] @ ascii ''stderr:'' @ [0x0A]) @ pr_stderr r
     @ (if pr_truncated r
        then as_bytes ([0x0A] @ ascii ''[process output truncated at capability bound]'') else [])"

definition http_text :: "http_result \<Rightarrow> bytes" where
  "http_text r = as_bytes (ascii ''status='' @ decimal (hr_status r) @ [0x0A]) @ hr_body r"

fun execute_operation :: "'s ports \<Rightarrow> operation \<Rightarrow> 's \<Rightarrow> (bytes, tool_error) result \<times> 's" where
  "execute_operation ports RejectInvalid st = (Err (tool_error_new Tool_InvalidCall Retry_Never), st)"
| "execute_operation ports (SubmitMemoryProposal p) st =
     (Err (tool_error_new Tool_MemoryProposalSinkRequired Retry_Never), st)"
| "execute_operation ports (ReadFile path) st = (port_read ports st path, st)"
| "execute_operation ports (WriteFile path content) st = port_write ports path content st"
| "execute_operation ports (RunProcess program arguments cwd) st =
     (let (r, st') = port_run ports program arguments cwd st
      in (and_then r (\<lambda>result. Ok (process_text result)), st'))"
| "execute_operation ports (HttpRequest method url body) st =
     (and_then (port_http ports method url body) (\<lambda>result. Ok (http_text result)), st)"

text \<open>
  The two races of \<open>execute\<close>: for a permit of the semaphore, and of the operation with its deadline and
  with cancellation, which may win before the operation was polled at all.
\<close>

datatype admission = Cancelled_Waiting | Semaphore_Closed | Admitted
datatype race = Cancelled_Before | Cancelled_During | Timed_Out | Finished

definition execute_call ::
  "tool_runtime \<Rightarrow> 's ports \<Rightarrow> 'a put_port \<Rightarrow> admission \<Rightarrow> race \<Rightarrow> authorized_tool_call \<Rightarrow> 's \<times> 'a
     \<Rightarrow> (tool_output, tool_error) result \<times> 's \<times> 'a" where
  "execute_call rt ports put adm race call st =
     (case adm of
        Cancelled_Waiting \<Rightarrow> (Err cancelled, st)
      | Semaphore_Closed \<Rightarrow> (Err internal, st)
      | Admitted \<Rightarrow>
          (case call of AuthorizedToolCall planned \<Rightarrow>
             let (r, s') = execute_operation ports (planned_operation planned) (fst st)
             in case race of
                  Cancelled_Before \<Rightarrow> (Err cancelled, st)
                | Cancelled_During \<Rightarrow> (Err cancelled, s', snd st)
                | Timed_Out \<Rightarrow> (Err (tool_error_new Tool_Timeout Retry_Never), s', snd st)
                | Finished \<Rightarrow>
                    (case r of
                       Ok bs \<Rightarrow> (let (out, a') = capture (rt_inline_output_bytes rt) put bs (snd st)
                                 in (out, s', a'))
                     | Err e \<Rightarrow> (Err e, s', snd st)
                     | Panic \<Rightarrow> (Panic, s', snd st))))"

text \<open>The local ports: a process may do anything to the filesystem, which \<open>effect\<close> stands for.\<close>

definition local_ports ::
  "local_filesystem \<Rightarrow> (bytes \<Rightarrow> read_event list) \<Rightarrow> write_run \<Rightarrow> nat \<Rightarrow> spawner
     \<Rightarrow> (ustring \<Rightarrow> ustring list \<Rightarrow> path \<Rightarrow> filesystem \<Rightarrow> filesystem) \<Rightarrow> nat \<Rightarrow> sender
     \<Rightarrow> filesystem ports" where
  "local_ports lf env run max_stream_bytes spawn effect max_response_bytes send =
     \<lparr>port_read = file_read lf env,
      port_write = file_write lf run,
      port_run = (\<lambda>program arguments cwd fs.
        (process_run lf max_stream_bytes spawn fs program arguments cwd,
         effect program arguments cwd fs)),
      port_http = http_request max_response_bytes send\<rparr>"

section \<open>Character boundaries\<close>

lemma is_char_boundary_iff: "is_char_boundary s b \<longleftrightarrow> (\<exists>t u. s = t @ u \<and> b = str_len t)"
proof
  assume "is_char_boundary s b"
  then obtain k where "k \<le> length s" "b = str_len (take k s)"
    by (auto simp del: upt_Suc simp: is_char_boundary_def less_Suc_eq_le)
  then show "\<exists>t u. s = t @ u \<and> b = str_len t" by (intro exI [of _ "take k s"] exI [of _ "drop k s"]) simp
next
  assume "\<exists>t u. s = t @ u \<and> b = str_len t"
  then obtain t u where "s = t @ u" "b = str_len t" by blast
  then show "is_char_boundary s b"
    by (auto simp del: upt_Suc simp: is_char_boundary_def image_iff intro!: bexI [of _ "length t"])
qed

lemma step_back_le: "step_back s b \<le> b"
  by (induction s b rule: step_back.induct) (subst step_back.simps, auto)

lemma step_back_boundary: "is_char_boundary s (step_back s b)"
proof (induction s b rule: step_back.induct)
  case (1 s b)
  have "is_char_boundary s 0" by (auto simp: is_char_boundary_iff)
  with 1 show ?case by (subst step_back.simps) auto
qed

lemma truncate_step_back:
  "\<exists>t u. s = t @ u \<and> str_truncate (step_back s b) s = Ok t \<and> str_len t \<le> b"
proof -
  obtain t u where "s = t @ u" "step_back s b = str_len t"
    using step_back_boundary is_char_boundary_iff by blast
  then show ?thesis using step_back_le [of s b] by (auto simp: str_truncate_prefix)
qed

section \<open>The artifact port\<close>

text \<open>
  What \<open>ArtifactStore\<close> promises: a reference it returns has the length of the bytes and names a stored
  file whose content has their digest, and no stored content is ever replaced.
\<close>

locale artifact_store =
  fixes put :: "'a put_port"
    and stored :: "'a \<Rightarrow> artifact_id \<Rightarrow> bytes option"
    and digest :: "bytes \<Rightarrow> bytes"
  assumes put_stored: "put bs media st = (Ok ref, st') \<Longrightarrow>
      artifact_byte_len ref = min (length bs) u64_max
      \<and> (\<exists>existing. stored st' (artifact_ref_id ref) = Some existing \<and> digest existing = digest bs)"
    and put_keeps: "stored st aid = Some bs \<Longrightarrow> stored (snd (put bs' media st)) aid = Some bs"
    and put_no_Panic: "fst (put bs media st) \<noteq> Panic"
begin

lemma capture_truncated:
  assumes "capture inline put bs st = (Ok out, st')" and "output_truncated out"
  shows "\<exists>ref existing. output_artifact out = Some ref \<and> artifact_byte_len ref = output_original_bytes out
    \<and> stored st' (artifact_ref_id ref) = Some existing \<and> digest existing = digest bs"
proof (cases "length bs \<le> inline")
  case True
  then show ?thesis
    using assms by (auto simp: capture_def Let_def result_simps tool_output_new_def split: if_splits)
next
  case False
  obtain r st'' where put: "put bs (ascii ''application/octet-stream'') st = (r, st'')"
    by (cases "put bs (ascii ''application/octet-stream'') st")
  from assms False obtain ref where "r = Ok ref" "st'' = st'" "output_artifact out = Some ref"
    "output_original_bytes out = min (length bs) u64_max"
    by (cases r) (auto simp: capture_def Let_def put result_simps tool_output_new_def split: if_splits)
  with put_stored [of bs "ascii ''application/octet-stream''" st ref st'] put show ?thesis by auto
qed

lemma capture_keeps: "stored st aid = Some b \<Longrightarrow> stored (snd (capture inline put bs st)) aid = Some b"
  using put_keeps [of st aid b bs "ascii ''application/octet-stream''"]
  by (cases "put bs (ascii ''application/octet-stream'') st"; cases "fst (put bs (ascii ''application/octet-stream'') st)")
    (auto simp: capture_def Let_def)

end

lemma store_artifact_Ok:
  "store_artifact sha env bs dir = (Ok u, dir') \<Longrightarrow>
     \<exists>existing. dir' (hex (sha bs)) = Some existing \<and> sha existing = sha bs"
  by (auto simp: store_artifact_def verify_artifact_def Let_def split: if_splits put_write.splits option.splits)

lemma store_artifact_keeps:
  "dir name = Some b \<Longrightarrow> snd (store_artifact sha env bs dir) name = Some b"
  by (auto simp: store_artifact_def Let_def split: put_write.splits)

lemma store_artifact_no_Panic: "fst (store_artifact sha env bs dir) \<noteq> Panic"
  by (auto simp: store_artifact_def verify_artifact_def Let_def split: put_write.splits option.splits)

fun artifact_file :: "artifact_directory \<Rightarrow> artifact_id \<Rightarrow> bytes option" where
  "artifact_file dir (ArtifactId s) =
     (if take 7 s = ascii ''sha256:'' then dir (drop 7 s) else None)"

lemma artifact_file_name [simp]: "artifact_file dir (ArtifactId (ascii ''sha256:'' @ name)) = dir name"
  by (simp add: ascii_def)

lemma artifact_ref_new_Ok:
  "artifact_ref_new aid n media = Ok ref \<Longrightarrow> artifact_ref_id ref = aid \<and> artifact_byte_len ref = n"
  by (auto simp: artifact_ref_new_def split: if_splits)

interpretation file_artifacts: artifact_store "artifact_put sha env" artifact_file sha for sha env
proof unfold_locales
  fix bs media and st st' :: artifact_directory and ref
  assume put: "artifact_put sha env bs media st = (Ok ref, st')"
  obtain r d where st: "store_artifact sha env bs st = (r, d)"
    by (cases "store_artifact sha env bs st")
  from put st obtain u where "r = Ok u" "d = st'"
    and "artifact_ref_new (ArtifactId (ascii ''sha256:'' @ hex (sha bs))) (min (length bs) u64_max) media = Ok ref"
    by (cases r; cases "validate_identifier (ascii ''sha256:'' @ hex (sha bs))")
      (auto simp: artifact_put_def Let_def result_simps split: if_splits)
  with st show "artifact_byte_len ref = min (length bs) u64_max
      \<and> (\<exists>existing. artifact_file st' (artifact_ref_id ref) = Some existing \<and> sha existing = sha bs)"
    using store_artifact_Ok [of sha env bs st] artifact_ref_new_Ok
    by (metis artifact_file_name)
next
  fix st :: artifact_directory and aid bs bs' media
  assume *: "artifact_file st aid = Some bs"
  obtain s where aid: "aid = ArtifactId s" by (cases aid)
  have "snd (artifact_put sha env bs' media st) = st
      \<or> snd (artifact_put sha env bs' media st) = snd (store_artifact sha env bs' st)"
    by (cases "store_artifact sha env bs' st"; cases "fst (store_artifact sha env bs' st)";
        cases "validate_identifier (ascii ''sha256:'' @ hex (sha bs'))")
      (auto simp: artifact_put_def Let_def)
  with * show "artifact_file (snd (artifact_put sha env bs' media st)) aid = Some bs"
    using store_artifact_keeps [of st "drop 7 s" bs sha env bs'] by (auto simp: aid split: if_splits)
next
  fix bs media and st :: artifact_directory
  have "artifact_ref_new a n m \<noteq> Panic" for a n m by (simp add: artifact_ref_new_def)
  then show "fst (artifact_put sha env bs media st) \<noteq> Panic"
    using store_artifact_no_Panic [of sha env bs st]
    by (cases "store_artifact sha env bs st"; cases "fst (store_artifact sha env bs st)";
        cases "validate_identifier (ascii ''sha256:'' @ hex (sha bs))")
      (auto simp: artifact_put_def Let_def map_err_Panic)
qed

section \<open>What capturing returns\<close>

lemma tool_output_new_eq:
  "map_err (\<lambda>_. internal) (tool_output_new content artifact original truncated) =
     (if str_len content > max_inline_tool_output_bytes \<or> original < str_len content
         \<or> truncated \<noteq> (artifact \<noteq> None)
      then Err internal
      else Ok \<lparr>output_content = content, output_artifact = artifact,
               output_original_bytes = original, output_truncated = truncated\<rparr>)"
  by (auto simp: tool_output_new_def)

text \<open>Output within the bound is returned whole, unless its text is longer than its bytes.\<close>

lemma capture_inline:
  assumes "length bs \<le> inline" "inline \<le> max_inline_tool_output_bytes"
  shows "capture inline put bs st =
    (if length bs < str_len (from_utf8_lossy bs) then Err internal
     else Ok \<lparr>output_content = from_utf8_lossy bs, output_artifact = None,
              output_original_bytes = length bs, output_truncated = False\<rparr>, st)"
proof -
  have "min (length bs) u64_max = length bs"
    using assms by (simp add: max_inline_tool_output_bytes_def int_max_values)
  then show ?thesis
    using assms by (auto simp: capture_def Let_def tool_output_new_eq)
qed

lemma capture_prefix:
  assumes "inline < length bs" "inline \<le> max_inline_tool_output_bytes"
    and "put bs (ascii ''application/octet-stream'') st = (Ok ref, st')"
  shows "\<exists>t u. from_utf8_lossy bs = t @ u \<and> str_len t \<le> inline \<and>
    capture inline put bs st =
      (Ok \<lparr>output_content = t, output_artifact = Some ref,
           output_original_bytes = min (length bs) u64_max, output_truncated = True\<rparr>, st')"
proof -
  obtain t u where t: "from_utf8_lossy bs = t @ u"
      "str_truncate (step_back (from_utf8_lossy bs) (min inline (str_len (from_utf8_lossy bs))))
         (from_utf8_lossy bs) = (Ok t :: (_, tool_error) result)"
      "str_len t \<le> min inline (str_len (from_utf8_lossy bs))"
    using truncate_step_back [of "from_utf8_lossy bs" "min inline (str_len (from_utf8_lossy bs))"] by blast
  then have "str_len t \<le> inline" by simp
  moreover have "\<not> min (length bs) u64_max < str_len t"
    using assms(1,2) \<open>str_len t \<le> inline\<close> by (simp add: max_inline_tool_output_bytes_def int_max_values)
  ultimately show ?thesis
    using t assms by (intro exI [of _ t] exI [of _ u]) (simp add: capture_def Let_def tool_output_new_eq)
qed

lemma lossy_of_text_length: "list_all is_scalar s \<Longrightarrow> \<not> length (as_bytes s) < str_len (from_utf8_lossy (as_bytes s))"
  by (simp add: from_utf8_lossy_of_text length_as_bytes)

section \<open>Execution stays inside the workspace\<close>

context filesystem_capability
begin

lemma execute_operation_confined:
  assumes "port_write ports = write_fn w" "\<And>program arguments cwd. op \<noteq> RunProcess program arguments cwd"
    and "\<not> inside p"
  shows "look (snd (execute_operation ports op s)) p = look s p"
  using assms by (cases op) (auto simp: write_confined)

lemma execute_confined:
  assumes "port_write ports = write_fn w"
    and "\<And>program arguments cwd. planned_operation call \<noteq> RunProcess program arguments cwd"
    and "\<not> inside p"
  shows "look (fst (snd (execute_call rt ports put adm race (AuthorizedToolCall call) (s, a)))) p = look s p"
proof -
  obtain r s' where op: "execute_operation ports (planned_operation call) s = (r, s')"
    by (cases "execute_operation ports (planned_operation call) s")
  then have "look s' p = look s p"
    using execute_operation_confined [OF assms, of s] by simp
  then show ?thesis
    by (cases adm; cases race; cases r) (auto simp: execute_call_def op split: prod.split)
qed

end

end
