(* ===== verification/Tool_Properties.thy ===== *)
theory Tool_Properties
  imports Tool_Runtime
begin

text \<open>
  The properties of tool planning, permission, budgets and execution. The examples are a workspace
  \<open>/w\<close> with one file, a link that leaves the workspace, and an HTTP library that knows one URL.
\<close>

section \<open>Examples\<close>

definition example_url :: url where
  "example_url =
     \<lparr>url_scheme = ascii ''https'', url_username = [], url_password = None,
      url_host_str = Some (ascii ''h''), url_origin = ascii ''https://h'', url_string = ascii ''https://h/''\<rparr>"

definition example_lib :: http_lib where
  "example_lib =
     \<lparr>method_from_bytes = (\<lambda>bs. if bs = as_bytes (ascii ''GET'') then Some GET else None),
      method_to_string = (\<lambda>m. case m of Other_Method s \<Rightarrow> s | _ \<Rightarrow> ascii ''GET''),
      url_parse = (\<lambda>s. if s = ascii ''https://h/'' then Some example_url else None)\<rparr>"

definition tool_example_call :: "string \<Rightarrow> fields \<Rightarrow> incoming_tool_call" where
  "tool_example_call name fs =
     \<lparr>inc_tool_call_id = ToolCallId (ascii ''t''), inc_provider_call_id = ProviderCallId (ascii ''p''),
      inc_tool_name = ToolName (ascii name), inc_arguments = ToolArguments fs\<rparr>"

definition read_call :: incoming_tool_call where
  "read_call = tool_example_call ''fs_read'' [(ascii ''path'', JString (ascii ''./a''))]"

definition planned :: "incoming_tool_call \<Rightarrow> operation \<Rightarrow> capability_request \<Rightarrow> planned_tool_call" where
  "planned incoming op cap =
     \<lparr>planned_spec =
        \<lparr>spec_tool_call_id = inc_tool_call_id incoming,
         spec_provider_call_id = inc_provider_call_id incoming,
         spec_tool_name = inc_tool_name incoming, spec_schema_version = tool_schema_v1,
         spec_arguments = inc_arguments incoming, spec_capability = cap\<rparr>,
      planned_operation = op\<rparr>"

definition example_files :: filesystem where
  "example_files = [[] \<mapsto> Directory, [ascii ''w''] \<mapsto> Directory,
     [ascii ''w'', ascii ''a''] \<mapsto> Regular [104, 105],
     [ascii ''w'', ascii ''out''] \<mapsto> Symlink True [], [ascii ''etc''] \<mapsto> Directory]"

definition example_lf :: local_filesystem where
  "example_lf = \<lparr>lf_root = [ascii ''w''], lf_max_read_bytes = 4\<rparr>"

definition example_ports :: "filesystem ports" where
  "example_ports = local_ports example_lf (\<lambda>bs. [Read_Bytes bs]) Write_Done 4
     (\<lambda>p as d. None) (\<lambda>p as d fs. fs) 4 (\<lambda>m u b. Send_Failed)"

definition example_put :: "artifact_directory put_port" where
  "example_put = artifact_put (\<lambda>bs. [length bs mod 256])
     \<lparr>exists_ok = True, verify_read_ok = True, put_write_result = Put_Written\<rparr>"

lemmas text_eval = ascii_def trim_is_empty_def is_whitespace_def is_control_def len_utf8_def
  max_resource_bytes_def resource_ref_new_def

lemmas plan_eval = plan_def plan_supported_def plan_defs parse_file_read_def parse_file_write_def
  parse_process_def deny_unknown_fields_def required_field_def optional_field_def string_list_field_def
  workspace_path_def path_components_def normal_component_def workspace_resource_def display_relative_def
  capability_def validate_program_def is_shell_def is_batch_def shells_def to_ascii_lowercase_def
  ends_with_def is_ascii_alphanumeric_def max_process_arguments_def max_process_argument_bytes_def

lemma read_call_plan:
  "plan example_lib read_call = Ok (planned read_call (ReadFile [ascii ''a''])
     (capability FilesystemRead (ResourceRef (ascii ''workspace:a''))))"
  by (simp add: plan_eval text_eval read_call_def tool_example_call_def planned_def)

section \<open>Planning\<close>

text \<open>
  C11: Planning never fails, and whatever the model wrote, the frozen capability names exactly the target
  of the planned operation: file paths and working directories consist of entry names only (no root, no
  parent, no separator, no control character), programs are neither shells nor batch files nor paths,
  process arguments and request bodies are bounded, URLs carry no credentials, and a call that is not
  accepted gets the capability without authority.
\<close>

theorem planned_authority_is_exact:
  "\<exists>p. plan lib incoming = Ok p
     \<and> exact_plan (planned_operation p) (spec_capability (planned_spec p))
     \<and> spec_arguments (planned_spec p) = inc_arguments incoming
     \<and> spec_tool_name (planned_spec p) = inc_tool_name incoming"
  using plan_exact [of lib incoming] unfolding plan_eq by auto

text \<open>
  A frozen call is replanned to exactly the plan it came from, and replanning accepts nothing else:
  it returns a plan if and only if planning the call's name and arguments again gives a plan whose
  specification is the frozen one, so a changed capability or schema version is refused.
\<close>

theorem replanning_rejects_drift:
  "replan lib spec = Ok p \<longleftrightarrow>
     planned_spec p = spec
     \<and> plan lib \<lparr>inc_tool_call_id = spec_tool_call_id spec,
          inc_provider_call_id = spec_provider_call_id spec, inc_tool_name = spec_tool_name spec,
          inc_arguments = spec_arguments spec\<rparr> = Ok p"
proof
  assume "replan lib spec = Ok p"
  then show "planned_spec p = spec
     \<and> plan lib \<lparr>inc_tool_call_id = spec_tool_call_id spec,
          inc_provider_call_id = spec_provider_call_id spec, inc_tool_name = spec_tool_name spec,
          inc_arguments = spec_arguments spec\<rparr> = Ok p"
    by (rule replan_Ok)
next
  assume "planned_spec p = spec
     \<and> plan lib \<lparr>inc_tool_call_id = spec_tool_call_id spec,
          inc_provider_call_id = spec_provider_call_id spec, inc_tool_name = spec_tool_name spec,
          inc_arguments = spec_arguments spec\<rparr> = Ok p"
  then show "replan lib spec = Ok p" using replan_plan by blast
qed

text \<open>A capability authorises one target, and the details shown for a process determine the call.\<close>

lemma capability_fixes_target:
  assumes "plan lib incoming = Ok p" "plan lib' incoming' = Ok q"
    and "spec_capability (planned_spec p) = spec_capability (planned_spec q)"
  shows "operation_target (planned_operation p) = operation_target (planned_operation q)"
  using plan_exact [OF assms(1), unfolded assms(3)] plan_exact [OF assms(2)]
  by (rule exact_plan_target)

section \<open>Permission\<close>

lemma argument_details_inject: "argument_details n as = argument_details n bs \<Longrightarrow> as = bs"
proof (induction as arbitrary: n bs)
  case Nil
  then show ?case by (cases bs) auto
next
  case (Cons a as)
  then show ?case by (cases bs) (auto simp: detail_def)
qed

lemma process_details_inject:
  assumes "operation_details lib (RunProcess p as d) = operation_details lib (RunProcess q bs e)"
    and "list_all safe_component d" "list_all safe_component e"
  shows "RunProcess p as d = RunProcess q bs e"
proof -
  have nolabel: "[detail ''Arguments'' v] \<noteq> argument_details 0 (x # xs)" for v x xs
    by (simp add: detail_def)
  from assms(1) have "p = q" "display_relative d = display_relative e" by (auto simp: detail_def)
  moreover have "as = bs"
    using assms(1) nolabel argument_details_inject [of 0 as bs]
    by (cases as; cases bs) (auto simp: detail_def)
  ultimately show ?thesis using assms(2,3) display_relative_inject by blast
qed

lemma process_details_fix_the_call:
  assumes "permission_details lib s = Ok details" "permission_details lib s' = Ok details"
    and "replan lib s = Ok \<lparr>planned_spec = s, planned_operation = RunProcess program arguments cwd\<rparr>"
    and "replan lib s' = Ok \<lparr>planned_spec = s', planned_operation = RunProcess program' arguments' cwd'\<rparr>"
  shows "program = program' \<and> arguments = arguments' \<and> cwd = cwd'"
proof -
  have "list_all safe_component cwd" "list_all safe_component cwd'"
    using replan_Ok [OF assms(3)] replan_Ok [OF assms(4)] by (auto dest: plan_exact)
  moreover have "operation_details lib (RunProcess program arguments cwd) =
      operation_details lib (RunProcess program' arguments' cwd')"
    using assms by (simp del: operation_details.simps add: permission_details_def)
  ultimately have "RunProcess program arguments cwd = RunProcess program' arguments' cwd'"
    by (intro process_details_inject)
  then show ?thesis by simp
qed

text \<open>
  C9: Under the default local policy nothing runs without a human: when a planned call is authorised
  against the outcome the policy gives it and its execution returns output, a human answered "allow
  once" to exactly this call, whatever the ports do. This includes reads of workspace files, which
  \<open>docs/adr/0007\<close> describes as allowed without a question and \<open>local_default\<close> asks for.
\<close>

theorem local_execution_needs_a_human:
  fixes ports :: "'s ports" and put :: "'a put_port"
  assumes "(local_default :: (_, tool_error) result) = Ok (rt_policy rt)"
    and "plan lib incoming = Ok p"
    and "authorize p (runtime_evaluate rt p) answer = Ok (call, evidence)"
    and "execute_call rt ports put adm race call st = (Ok out, st')"
  shows "answer = Some Answer_AllowOnce \<and> evidence = HumanAllowOnce \<and> call = AuthorizedToolCall p"
proof -
  have call: "call = AuthorizedToolCall p" using assms(3) by (simp add: authorize_Ok)
  have "runtime_evaluate rt p \<noteq> Outcome_Allow"
  proof
    assume "runtime_evaluate rt p = Outcome_Allow"
    then have kind: "cap_kind (spec_capability (planned_spec p)) = Cap_MemoryProposal"
      using local_default_allows(1) [OF assms(1)] by (simp add: runtime_evaluate_def)
    obtain m where "planned_operation p = SubmitMemoryProposal m"
      using plan_exact [OF assms(2)] kind
      by (cases "planned_operation p") (auto simp: capability_def rejected_def)
    then show False using assms(4)
      by (cases adm; cases race) (auto simp: execute_call_def call)
  qed
  then show ?thesis using assms(3) by (auto simp: authorize_Ok)
qed

definition example_runtime :: tool_runtime where
  "example_runtime =
     \<lparr>rt_policy = (case local_default :: (_, tool_error) result of Ok policy \<Rightarrow> policy | _ \<Rightarrow> []),
      rt_max_concurrency = 1, rt_timeout = 1, rt_inline_output_bytes = 4\<rparr>"

lemmas file_eval = execute_call_def example_ports_def local_ports_def file_read_def read_path_def
  canonicalize_def max_links_def example_lf_def example_files_def is_file_def prefix_def
  capture_inline max_inline_tool_output_bytes_def

lemma read_call_executes:
  "execute_call example_runtime example_ports example_put Admitted Finished
     (AuthorizedToolCall (planned read_call (ReadFile [ascii ''a''])
        (capability FilesystemRead (ResourceRef (ascii ''workspace:a''))))) (example_files, Map.empty)
   = (Ok \<lparr>output_content = ascii ''hi'', output_artifact = None, output_original_bytes = 2,
          output_truncated = False\<rparr>, example_files, Map.empty)"
  by (simp add: file_eval planned_def ascii_def example_runtime_def decode_step_def len_utf8_def)

lemma read_call_authorized:
  "\<exists>answer. authorize p (runtime_evaluate example_runtime p) answer = Ok (AuthorizedToolCall p, HumanAllowOnce)"
  if "p = planned read_call (ReadFile [ascii ''a'']) (capability FilesystemRead (ResourceRef (ascii ''workspace:a'')))"
  using that
  by (intro exI [of _ "Some Answer_AllowOnce"])
    (simp add: example_runtime_def local_default_eq runtime_evaluate_def evaluate_def rule_matches_def planned_def
      capability_def read_call_def tool_example_call_def starts_with_def authorize_def rejects_execution_def ascii_def)

theorem local_execution_needs_a_human_witness:
  "\<exists>p answer call evidence out st'.
     plan example_lib read_call = Ok p
     \<and> authorize p (runtime_evaluate example_runtime p) answer = Ok (call, evidence)
     \<and> execute_call example_runtime example_ports example_put Admitted Finished call (example_files, Map.empty)
         = (Ok out, st')
     \<and> output_content out = ascii ''hi''
     \<and> answer = Some Answer_AllowOnce \<and> evidence = HumanAllowOnce \<and> call = AuthorizedToolCall p"
proof -
  let ?p = "planned read_call (ReadFile [ascii ''a'']) (capability FilesystemRead (ResourceRef (ascii ''workspace:a'')))"
  obtain answer where auth: "authorize ?p (runtime_evaluate example_runtime ?p) answer =
      Ok (AuthorizedToolCall ?p, HumanAllowOnce)"
    using read_call_authorized by blast
  have policy: "(local_default :: (_, tool_error) result) = Ok (rt_policy example_runtime)"
    by (simp add: example_runtime_def local_default_eq)
  show ?thesis
    using local_execution_needs_a_human [OF policy read_call_plan auth read_call_executes]
      read_call_plan auth read_call_executes by fastforce
qed

section \<open>Budgets\<close>

text \<open>
  What a sequence of calls amounts to, independently of how it is counted: the calls that were accepted,
  in order, and the turns, output bytes, cumulative tokens and running tools they stand for.
\<close>

fun accepted_calls :: "run_budget \<Rightarrow> budget_call list \<Rightarrow> budget_call list" where
  "accepted_calls b [] = []"
| "accepted_calls b (c # cs) =
     (let (ok, b') = run_budget_call b c in (if ok then [c] else []) @ accepted_calls b' cs)"

fun turn_charge :: "budget_call \<Rightarrow> nat" where
  "turn_charge (Start_Turn _) = 1"
| "turn_charge _ = 0"

fun output_charge :: "budget_call \<Rightarrow> nat" where
  "output_charge (Add_Output _ n) = n"
| "output_charge _ = 0"

fun token_total :: "nat \<Rightarrow> budget_call \<Rightarrow> nat" where
  "token_total n (Record_Tokens _ cumulative) = cumulative"
| "token_total n _ = n"

fun running_tools :: "nat \<Rightarrow> budget_call \<Rightarrow> nat" where
  "running_tools n (Start_Tool _) = n + 1"
| "running_tools n Finish_Tool = n - 1"
| "running_tools n _ = n"

text \<open>When a call is made on the clock of the budget; releasing a tool does not look at it.\<close>

fun call_time :: "budget_call \<Rightarrow> nat option" where
  "call_time (Start_Turn t) = Some t"
| "call_time (Record_Tokens t _) = Some t"
| "call_time (Add_Output t _) = Some t"
| "call_time (Start_Tool t) = Some t"
| "call_time Finish_Tool = None"

definition in_time :: "run_budget \<Rightarrow> budget_call \<Rightarrow> bool" where
  "in_time b c \<longleftrightarrow>
     (case call_time c of
        None \<Rightarrow> True
      | Some t \<Rightarrow> elapsed_before_start b + t \<le> from_millis (max_time_ms (budget_limits b)))"

text \<open>The call leaves every counter within its limit.\<close>

fun fits :: "run_budget \<Rightarrow> budget_call \<Rightarrow> bool" where
  "fits b (Start_Turn _) \<longleftrightarrow> budget_turns b < max_turns (budget_limits b)"
| "fits b (Record_Tokens _ n) \<longleftrightarrow> budget_tokens b \<le> n \<and> n \<le> max_tokens (budget_limits b)"
| "fits b (Add_Output _ n) \<longleftrightarrow> budget_output_bytes b + n \<le> max_output_bytes (budget_limits b)"
| "fits b (Start_Tool _) \<longleftrightarrow> budget_active_tools b < max_concurrency (budget_limits b)"
| "fits b Finish_Tool \<longleftrightarrow> True"

text \<open>
  The limits of a run as their integer types hold them. The two \<open>u32\<close> counters saturate, so a limit of
  exactly \<open>u32::MAX\<close> would bound nothing.
\<close>

definition limits_sized :: "run_limits \<Rightarrow> bool" where
  "limits_sized limits \<longleftrightarrow> max_turns limits < u32_max \<and> max_concurrency limits < u32_max
     \<and> max_time_ms limits \<le> u64_max \<and> max_output_bytes limits \<le> u64_max"

lemma deadline_not_saturated:
  "limits_sized (budget_limits b) \<Longrightarrow>
     min (elapsed_before_start b + t) duration_max \<le> from_millis (max_time_ms (budget_limits b)) \<longleftrightarrow>
     elapsed_before_start b + t \<le> from_millis (max_time_ms (budget_limits b))"
  by (auto simp: limits_sized_def duration_max_def from_millis_def min_def simp del: int_max_values)

lemma budget_call_accepted:
  assumes "limits_sized (budget_limits b)" "within_limits b"
  shows "fst (run_budget_call b c) \<longleftrightarrow> in_time b c \<and> fits b c"
  using assms deadline_not_saturated [OF assms(1)]
  by (cases c)
    (auto simp: budget_defs in_time_def Let_def saturating_add_u32_def checked_add_u64_def within_limits_def
      limits_sized_def not_less min_def simp del: int_max_values)

lemma budget_call_effect:
  assumes "limits_sized (budget_limits b)" "within_limits b" "run_budget_call b c = (ok, b')"
  shows "b' = (if ok then b\<lparr>budget_turns := budget_turns b + turn_charge c,
                            budget_tokens := token_total (budget_tokens b) c,
                            budget_output_bytes := budget_output_bytes b + output_charge c,
                            budget_active_tools := running_tools (budget_active_tools b) c\<rparr> else b)"
  using assms
  by (cases c)
    (auto simp: budget_defs finish_tool_def Let_def saturating_add_u32_def checked_add_u64_Some
      within_limits_def limits_sized_def simp del: int_max_values split: option.splits if_splits)

lemma budget_calls_account:
  assumes "limits_sized (budget_limits b)" "within_limits b"
  shows "budget_turns (run_budget_calls b calls) = budget_turns b + sum_list (map turn_charge (accepted_calls b calls))
    \<and> budget_tokens (run_budget_calls b calls) = foldl token_total (budget_tokens b) (accepted_calls b calls)
    \<and> budget_output_bytes (run_budget_calls b calls) =
        budget_output_bytes b + sum_list (map output_charge (accepted_calls b calls))
    \<and> budget_active_tools (run_budget_calls b calls) =
        foldl running_tools (budget_active_tools b) (accepted_calls b calls)
    \<and> list_all (in_time b) (accepted_calls b calls)"
  using assms
proof (induction calls arbitrary: b)
  case Nil
  then show ?case by (simp add: run_budget_calls_def)
next
  case (Cons c cs)
  obtain ok b1 where step: "run_budget_call b c = (ok, b1)" by (cases "run_budget_call b c")
  have b1: "budget_limits b1 = budget_limits b" "within_limits b1"
    using budget_call_limits [of b c] budget_call_within [OF Cons.prems(2), of c] step by simp_all
  have same_time: "in_time b1 = in_time b"
  proof -
    have "elapsed_before_start b1 = elapsed_before_start b"
      using budget_call_effect [OF Cons.prems step] by simp
    then show ?thesis using b1 by (simp add: in_time_def fun_eq_iff split: option.split)
  qed
  have run: "run_budget_calls b (c # cs) = run_budget_calls b1 cs"
    by (simp add: run_budget_calls_def step)
  have "ok \<Longrightarrow> in_time b c" using budget_call_accepted [OF Cons.prems, of c] step by simp
  then show ?case
    using Cons.IH [of b1] b1 Cons.prems budget_call_effect [OF Cons.prems step]
    unfolding run same_time by (cases ok) (simp_all add: step)
qed

text \<open>
  C16: A run budget stays within its limits. From a fresh or restored budget, after any sequence of
  calls, every counter is at or below the limit it is charged against, the limits are the original ones,
  and a call that is refused changes nothing. Unless a \<open>u32\<close> limit is the largest number of its type,
  the counters are exact: turns and output bytes are the initial ones plus what the accepted calls add,
  the tokens are the last accepted total, the active tools are those started and not yet released, every
  accepted call but a release came before the deadline, and a call is accepted exactly when it comes
  before the deadline and its charge fits.
\<close>

theorem budget_stays_within_limits:
  assumes "b = budget_new limits \<or> budget_restore limits t turns tokens output active = Ok b"
    and "b' = run_budget_calls b calls" and "accepted = accepted_calls b calls"
  shows "within_limits b' \<and> budget_limits b' = limits
    \<and> (\<not> fst (run_budget_call b' c) \<longrightarrow> snd (run_budget_call b' c) = b')
    \<and> (limits_sized limits \<longrightarrow>
         budget_turns b' = budget_turns b + sum_list (map turn_charge accepted)
         \<and> budget_output_bytes b' = budget_output_bytes b + sum_list (map output_charge accepted)
         \<and> budget_tokens b' = foldl token_total (budget_tokens b) accepted
         \<and> budget_active_tools b' = foldl running_tools (budget_active_tools b) accepted
         \<and> list_all (in_time b) accepted
         \<and> (fst (run_budget_call b' c) \<longleftrightarrow> in_time b' c \<and> fits b' c))"
proof -
  have b: "within_limits b" "budget_limits b = limits"
    using assms(1) by (auto simp: budget_new_def budget_restore_def within_limits_def split: if_splits)
  then have b': "within_limits b'" "budget_limits b' = limits"
    using run_budget_calls_within run_budget_calls_limits assms(2) by simp_all
  then show ?thesis
    using budget_call_refused budget_calls_account [of b calls] budget_call_accepted [of b' c] b assms(2,3)
    by simp
qed

definition tool_example_limits :: run_limits where
  "tool_example_limits = \<lparr>max_turns = 1, max_time_ms = 10, max_tokens = 5, max_output_bytes = 5, max_concurrency = 1\<rparr>"

definition tool_example_calls :: "budget_call list" where
  "tool_example_calls = [Start_Turn 0, Start_Turn 0, Start_Tool 1, Start_Tool 1, Add_Output 2 3, Add_Output 2 9,
     Record_Tokens 3 4, Finish_Tool, Start_Tool 10000001]"

lemma tool_example_accepted:
  "accepted_calls (budget_new tool_example_limits) tool_example_calls =
     [Start_Turn 0, Start_Tool 1, Add_Output 2 3, Record_Tokens 3 4, Finish_Tool]"
  by (simp add: tool_example_calls_def budget_defs finish_tool_def budget_new_def tool_example_limits_def
      duration_max_def from_millis_def saturating_add_u32_def checked_add_u64_def int_max_values Let_def)

theorem budget_stays_within_limits_witness:
  "run_budget_calls (budget_new tool_example_limits) tool_example_calls =
     \<lparr>budget_limits = tool_example_limits, elapsed_before_start = 0, budget_turns = 1, budget_tokens = 4,
      budget_output_bytes = 3, budget_active_tools = 0\<rparr>
   \<and> \<not> fst (run_budget_call (run_budget_calls (budget_new tool_example_limits) tool_example_calls) (Start_Turn 5))"
proof -
  let ?b = "run_budget_calls (budget_new tool_example_limits) tool_example_calls"
  have zero: "budget_turns (budget_new l) = 0" "budget_tokens (budget_new l) = 0"
    "budget_output_bytes (budget_new l) = 0" "budget_active_tools (budget_new l) = 0" for l
    by (simp_all add: budget_new_def)
  have "max_turns tool_example_limits = 1" by (simp add: tool_example_limits_def)
  moreover have "limits_sized tool_example_limits" by (simp add: limits_sized_def tool_example_limits_def int_max_values)
  ultimately have "budget_limits ?b = tool_example_limits \<and> budget_turns ?b = 1 \<and> budget_tokens ?b = 4
      \<and> budget_output_bytes ?b = 3 \<and> budget_active_tools ?b = 0
      \<and> \<not> fst (run_budget_call ?b (Start_Turn 5))"
    using budget_stays_within_limits [OF disjI1 [OF refl] refl refl, of tool_example_limits tool_example_calls
        "Start_Turn 5"]
    by (simp add: tool_example_accepted zero)
  moreover have "elapsed_before_start ?b = 0"
    by (simp add: run_budget_calls_def tool_example_calls_def budget_defs finish_tool_def budget_new_def
        tool_example_limits_def duration_max_def from_millis_def saturating_add_u32_def checked_add_u64_def int_max_values Let_def)
  ultimately show ?thesis by (cases ?b) simp
qed

section \<open>Execution\<close>

lemma file_read_inside:
  assumes "file_read lf env fs path = Ok bs"
  shows "\<exists>place content. prefix (lf_root lf) place \<and> fs place = Some (Regular content)
      \<and> read_hard_bounded Tool_Filesystem (lf_max_read_bytes lf) [] (env content) = Ok bs
      \<and> length bs \<le> lf_max_read_bytes lf"
proof -
  from assms obtain place where p: "read_path lf fs path = Ok place"
    by (auto simp: file_read_def result_simps)
  then obtain content where "fs place = Some (Regular content)"
    by (auto simp: is_file_def dest!: read_path_inside split: option.splits node.splits)
  moreover from this have "read_hard_bounded Tool_Filesystem (lf_max_read_bytes lf) [] (env content) = Ok bs"
    using assms p by (simp add: file_read_def)
  ultimately show ?thesis
    using read_path_inside [OF p]
      read_hard_bounded_Ok [of Tool_Filesystem "lf_max_read_bytes lf" "[]" "env content" bs] by auto
qed

text \<open>
  C10: File tools cannot leave the workspace, symbolic links included: executing any call but a process
  through the local capabilities, however it is raced, cancelled or fails, changes no place of the
  filesystem outside the workspace root, and a read returns at most the allowed number of bytes of a
  regular file inside the root.
\<close>

theorem file_tools_stay_in_workspace:
  assumes "\<And>program arguments cwd. planned_operation p \<noteq> RunProcess program arguments cwd"
    and "\<not> strict_prefix (lf_root lf) q"
  shows "fst (snd (execute_call rt (local_ports lf env run m spawn effect k send) put adm race
           (AuthorizedToolCall p) (fs, a))) q = fs q
    \<and> (file_read lf env fs path = Ok bs \<longrightarrow>
        (\<exists>place content. prefix (lf_root lf) place \<and> fs place = Some (Regular content)
          \<and> read_hard_bounded Tool_Filesystem (lf_max_read_bytes lf) [] (env content) = Ok bs
          \<and> length bs \<le> lf_max_read_bytes lf))"
proof
  show "fst (snd (execute_call rt (local_ports lf env run m spawn effect k send) put adm race
      (AuthorizedToolCall p) (fs, a))) q = fs q"
    by (rule local_fs.execute_confined [OF _ assms]) (simp add: local_ports_def)
qed (use file_read_inside in blast)

theorem file_tools_stay_in_workspace_witness:
  "fst (snd (execute_call example_runtime example_ports example_put Admitted Finished
     (AuthorizedToolCall (planned read_call (WriteFile [ascii ''out'', ascii ''etc''] [1])
        (snd rejected))) (example_files, Map.empty))) [ascii ''etc''] = example_files [ascii ''etc'']
   \<and> (\<exists>place content. prefix [ascii ''w''] place \<and> example_files place = Some (Regular content)
        \<and> read_hard_bounded Tool_Filesystem 4 [] [Read_Bytes content] = Ok [104, 105])"
proof -
  let ?p = "planned read_call (WriteFile [ascii ''out'', ascii ''etc''] [1]) (snd rejected)"
  have files: "file_read example_lf (\<lambda>bs. [Read_Bytes bs]) example_files [ascii ''a''] = Ok [104, 105]"
    by (simp add: file_eval ascii_def)
  have root: "lf_root example_lf = [ascii ''w'']" "lf_max_read_bytes example_lf = 4"
    by (simp_all add: example_lf_def)
  have op: "planned_operation ?p \<noteq> RunProcess program arguments cwd" for program arguments cwd
    by (simp add: planned_def)
  have out: "\<not> strict_prefix (lf_root example_lf) [ascii ''etc'']"
    by (simp add: root strict_prefix_def)
  have t: "fst (snd (execute_call example_runtime example_ports example_put Admitted Finished
      (AuthorizedToolCall ?p) (example_files, Map.empty))) [ascii ''etc''] = example_files [ascii ''etc'']
    \<and> (file_read example_lf (\<lambda>bs. [Read_Bytes bs]) example_files [ascii ''a''] = Ok [104, 105] \<longrightarrow>
        (\<exists>place content. prefix (lf_root example_lf) place \<and> example_files place = Some (Regular content)
          \<and> read_hard_bounded Tool_Filesystem (lf_max_read_bytes example_lf) []
              ((\<lambda>bs. [Read_Bytes bs]) content) = Ok [104, 105]
          \<and> length [104, 105 :: nat] \<le> lf_max_read_bytes example_lf))"
    unfolding example_ports_def by (rule file_tools_stay_in_workspace [OF op out])
  then show ?thesis using files unfolding root by blast
qed

text \<open>
  What was written is what is read: after a completed write through the local filesystem capability
  a read of the same path returns exactly the written bytes when they fit the read bound, and the output
  limit error when they do not, in whatever pieces the file is delivered.
\<close>

theorem written_files_read_back:
  assumes "file_write lf Write_Done path content fs = (Ok r, fs')" and "delivers (env content) content"
  shows "file_read lf env fs' path =
    (if length content \<le> lf_max_read_bytes lf then Ok content
     else Err (tool_error_new Tool_OutputLimit Retry_Never))"
  using assms by (rule file_write_read)

text \<open>The outcomes of capturing text that exceeds the inline bound.\<close>

definition retained_prefix ::
  "(bytes \<Rightarrow> bytes) \<Rightarrow> nat \<Rightarrow> ustring \<Rightarrow> tool_output \<Rightarrow> artifact_directory \<Rightarrow> bool" where
  "retained_prefix sha inline s out dir \<longleftrightarrow>
     (\<exists>rest. s = output_content out @ rest) \<and> str_len (output_content out) \<le> inline
     \<and> output_truncated out \<and> output_original_bytes out = min (str_len s) u64_max
     \<and> (case output_artifact out of None \<Rightarrow> False
        | Some ref \<Rightarrow> artifact_byte_len ref = min (str_len s) u64_max
            \<and> (case artifact_file dir (artifact_ref_id ref) of None \<Rightarrow> False
               | Some existing \<Rightarrow> sha existing = sha (as_bytes s)))"

lemma capture_long_text:
  assumes "list_all is_scalar s" "inline < str_len s" "inline \<le> max_inline_tool_output_bytes"
    and "capture inline (artifact_put sha env) (as_bytes s) dir = (r, dir')"
  shows "(\<exists>e. r = Err e) \<or> (\<exists>out. r = Ok out \<and> retained_prefix sha inline s out dir')"
proof -
  note content = from_utf8_lossy_of_text [OF assms(1)] length_as_bytes [of s]
  obtain x d where put: "artifact_put sha env (as_bytes s) (ascii ''application/octet-stream'') dir = (x, d)"
    by (cases "artifact_put sha env (as_bytes s) (ascii ''application/octet-stream'') dir")
  show ?thesis
  proof (cases x)
    case (Ok ref)
    with put assms obtain t u where "s = t @ u" "str_len t \<le> inline" "d = dir'"
      "r = Ok \<lparr>output_content = t, output_artifact = Some ref,
             output_original_bytes = min (str_len s) u64_max, output_truncated = True\<rparr>"
      using capture_prefix [of inline "as_bytes s" "artifact_put sha env" dir ref d]
      by (auto simp: content)
    moreover obtain existing where "artifact_file d (artifact_ref_id ref) = Some existing"
      "sha existing = sha (as_bytes s)" "artifact_byte_len ref = min (str_len s) u64_max"
      using file_artifacts.put_stored [OF put [unfolded Ok]] content(2) by auto
    ultimately show ?thesis by (auto simp: retained_prefix_def)
  next
    case (Err e)
    then show ?thesis using assms by (auto simp: capture_def Let_def put content)
  next
    case Panic
    then show ?thesis
      using file_artifacts.put_no_Panic [of sha env "as_bytes s" "ascii ''application/octet-stream''" dir]
      by (simp add: put)
  qed
qed

text \<open>
  Text output is never altered: output that is UTF-8 text is returned whole when it fits the inline
  bound; otherwise it is returned as a prefix within the bound, cut between characters, together with an
  artifact that holds the full output by digest and length, or the error of the artifact store.
\<close>

theorem captured_text_is_exact:
  assumes "tool_runtime_new policy c t inline = Ok rt" and "list_all is_scalar s"
    and "capture (rt_inline_output_bytes rt) (artifact_put sha env) (as_bytes s) dir = (r, dir')"
  shows "if str_len s \<le> inline
    then r = Ok \<lparr>output_content = s, output_artifact = None, output_original_bytes = str_len s,
                 output_truncated = False\<rparr>
    else (\<exists>e. r = Err e) \<or> (\<exists>out. r = Ok out \<and> retained_prefix sha inline s out dir')"
proof -
  have inline: "rt_inline_output_bytes rt = inline" "inline \<le> max_inline_tool_output_bytes"
    using assms(1) by (auto simp: tool_runtime_new_def split: if_splits)
  show ?thesis
  proof (cases "str_len s \<le> inline")
    case True
    then show ?thesis
      using assms(3) capture_inline [of "as_bytes s" inline "artifact_put sha env" dir] inline
      by (simp add: from_utf8_lossy_of_text [OF assms(2)] length_as_bytes)
  next
    case False
    then show ?thesis using capture_long_text [OF assms(2) _ inline(2)] assms(3) inline(1) by simp
  qed
qed

text \<open>
  C35: Short output that is not UTF-8 is refused: a tool whose output is the single byte 255, for example
  a binary file, fails with the internal error for every inline bound, although the same capture accepts
  longer binary output.
\<close>

theorem short_binary_output_is_refused:
  assumes "tool_runtime_new policy c t inline = Ok rt"
  shows "capture (rt_inline_output_bytes rt) put [0xFF] st = (Err internal, st)"
proof -
  have "rt_inline_output_bytes rt = inline" "1 \<le> inline" "inline \<le> max_inline_tool_output_bytes"
    using assms by (auto simp: tool_runtime_new_def split: if_splits)
  then show ?thesis
    using capture_inline [of "[0xFF]" inline put st]
    by (simp add: decode_step_def replacement_character_def len_utf8_def)
qed

theorem short_binary_output_is_refused_witness:
  "capture 4 example_put [0xFF] Map.empty = (Err internal, Map.empty)"
  using short_binary_output_is_refused [of "[]" 1 1 4
      "\<lparr>rt_policy = [], rt_max_concurrency = 1, rt_timeout = 1, rt_inline_output_bytes = 4\<rparr>" example_put]
  by (simp add: tool_runtime_new_def max_inline_tool_output_bytes_def)

end
