(* ===== verification/Sse.thy ===== *)
theory Sse
  imports Domain_Types Utf8
begin

text \<open>
  Errors of the provider port and the framing of server-sent events (\<open>autoharness-provider\<close>:
  \<open>error.rs\<close>, \<open>sse.rs\<close>). The decoder consumes bytes in fragments of any size and returns complete
  frames; a method of \<open>&mut self\<close> returns its result with the decoder after it.
\<close>

section \<open>Provider errors\<close>

datatype provider_error_kind =
    MissingCredential | Prov_Authentication | Prov_PermissionDenied | InvalidRequest | ModelNotFound
  | Prov_Unsupported | Prov_RateLimited | QuotaExceeded | Prov_Timeout | Prov_Unavailable | Prov_Conflict
  | ContentBlocked | Prov_Cancelled | Prov_Transport | Prov_Protocol | LimitExceeded | Prov_Internal

fun class_for_kind :: "provider_error_kind \<Rightarrow> error_class" where
  "class_for_kind MissingCredential = Class_Authentication"
| "class_for_kind Prov_Authentication = Class_Authentication"
| "class_for_kind Prov_PermissionDenied = Class_PermissionDenied"
| "class_for_kind InvalidRequest = Class_Validation"
| "class_for_kind ModelNotFound = Class_NotFound"
| "class_for_kind Prov_Unsupported = Class_Protocol"
| "class_for_kind Prov_Protocol = Class_Protocol"
| "class_for_kind LimitExceeded = Class_Protocol"
| "class_for_kind Prov_RateLimited = Class_RateLimited"
| "class_for_kind QuotaExceeded = Class_RateLimited"
| "class_for_kind Prov_Timeout = Class_Timeout"
| "class_for_kind Prov_Unavailable = Class_Unavailable"
| "class_for_kind Prov_Transport = Class_Unavailable"
| "class_for_kind Prov_Conflict = Class_Conflict"
| "class_for_kind ContentBlocked = Class_PermissionDenied"
| "class_for_kind Prov_Cancelled = Class_Cancelled"
| "class_for_kind Prov_Internal = Class_Internal"

record provider_error =
  perr_kind :: provider_error_kind
  perr_class :: error_class
  perr_retry_advice :: retry_advice
  perr_http_status :: "nat option"

definition provider_error_new :: "provider_error_kind \<Rightarrow> retry_advice \<Rightarrow> provider_error" where
  "provider_error_new kind retry =
     \<lparr>perr_kind = kind, perr_class = class_for_kind kind, perr_retry_advice = retry,
      perr_http_status = None\<rparr>"

definition with_http_status :: "nat \<Rightarrow> provider_error \<Rightarrow> provider_error" where
  "with_http_status status e = e\<lparr>perr_http_status := Some status\<rparr>"

definition allows_transport_fallback :: "provider_error \<Rightarrow> bool" where
  "allows_transport_fallback e \<longleftrightarrow> perr_kind e \<in> {ModelNotFound, Prov_Unsupported}"

definition sse_protocol_error :: provider_error where
  "sse_protocol_error = provider_error_new Prov_Protocol Retry_Never"
definition sse_limit_error :: provider_error where
  "sse_limit_error = provider_error_new LimitExceeded Retry_Never"

section \<open>Text of a frame\<close>

fun split_by :: "(nat \<Rightarrow> bool) \<Rightarrow> ustring \<Rightarrow> ustring \<Rightarrow> ustring list" where
  "split_by P acc [] = [rev acc]"
| "split_by P acc (c # s) = (if P c then rev acc # split_by P [] s else split_by P (c # acc) s)"

definition is_eol :: "nat \<Rightarrow> bool" where "is_eol c \<longleftrightarrow> c = 0x0D \<or> c = 0x0A"

definition strip_prefix_char :: "nat \<Rightarrow> ustring \<Rightarrow> ustring" where
  "strip_prefix_char c s = (case s of d # s' \<Rightarrow> if d = c then s' else s | [] \<Rightarrow> s)"

text \<open>\<open>split_once(':')\<close>, with the optional space after the colon dropped.\<close>

definition split_field :: "ustring \<Rightarrow> ustring \<times> ustring" where
  "split_field line =
     (let field = takeWhile (\<lambda>c. c \<noteq> 0x3A) line; rest = dropWhile (\<lambda>c. c \<noteq> 0x3A) line
      in if rest = [] then (line, []) else (field, strip_prefix_char 0x20 (tl rest)))"

definition scan_line ::
  "ustring option \<times> ustring list \<Rightarrow> ustring \<Rightarrow> ustring option \<times> ustring list" where
  "scan_line acc raw_line =
     (if raw_line = [] \<or> hd raw_line = 0x3A then acc
      else
        (let (field, v) = split_field raw_line
         in if field = ascii ''event'' then (Some v, snd acc)
            else if field = ascii ''data'' then (fst acc, snd acc @ [v])
            else acc))"

fun join_lf :: "ustring list \<Rightarrow> ustring" where
  "join_lf [] = []"
| "join_lf [l] = l"
| "join_lf (l # ls) = l @ [0x0A] @ join_lf ls"

section \<open>The decoder\<close>

record sse_frame =
  frame_event :: "ustring option"
  frame_data :: ustring

record sse_decoder =
  sd_buffer :: bytes
  sd_max_frame_bytes :: nat
  sd_first_frame :: bool
  sd_line_has_content :: bool
  sd_pending_carriage_return :: bool

definition sse_decoder_new :: "nat \<Rightarrow> sse_decoder" where
  "sse_decoder_new max_frame_bytes =
     \<lparr>sd_buffer = [], sd_max_frame_bytes = max_frame_bytes, sd_first_frame = True,
      sd_line_has_content = False, sd_pending_carriage_return = False\<rparr>"

definition frame_of_text :: "ustring \<Rightarrow> sse_frame option" where
  "frame_of_text text =
     (let (event, data_lines) = foldl scan_line (None, []) (split_by is_eol [] text)
      in if data_lines = [] then None
         else Some \<lparr>frame_event = event, frame_data = join_lf data_lines\<rparr>)"

definition decode_frame ::
  "sse_decoder \<Rightarrow> bytes \<Rightarrow> (sse_frame option, provider_error) result \<times> sse_decoder" where
  "decode_frame d bs =
     (case from_utf8 bs of
        None \<Rightarrow> (Err sse_protocol_error, d)
      | Some text \<Rightarrow>
          (Ok (frame_of_text (if sd_first_frame d then strip_prefix_char 0xFEFF text else text)),
           d\<lparr>sd_first_frame := False\<rparr>))"

text \<open>One turn of the loop of \<open>push\<close>: at most one frame, or the error that ends the call.\<close>

definition push_byte ::
  "sse_decoder \<Rightarrow> nat \<Rightarrow> (sse_frame option, provider_error) result \<times> sse_decoder" where
  "push_byte d b =
     (if b = 0x0A \<and> sd_pending_carriage_return d then
        (let d = d\<lparr>sd_pending_carriage_return := False\<rparr>
         in if sd_buffer d = [] then (Ok None, d)
            else if length (sd_buffer d) = sd_max_frame_bytes d then (Err sse_limit_error, d)
            else (Ok None, d\<lparr>sd_buffer := sd_buffer d @ [b]\<rparr>))
      else
        (let d = d\<lparr>sd_pending_carriage_return := False\<rparr>
         in if length (sd_buffer d) = sd_max_frame_bytes d then (Err sse_limit_error, d)
            else
              (let d = d\<lparr>sd_buffer := sd_buffer d @ [b]\<rparr>
               in if is_eol b then
                    (let blank_line = (\<not> sd_line_has_content d);
                         d = d\<lparr>sd_line_has_content := False, sd_pending_carriage_return := (b = 0x0D)\<rparr>
                     in if blank_line then decode_frame (d\<lparr>sd_buffer := []\<rparr>) (sd_buffer d)
                        else (Ok None, d))
                  else (Ok None, d\<lparr>sd_line_has_content := True\<rparr>))))"

fun push_loop ::
  "sse_frame list \<Rightarrow> sse_decoder \<Rightarrow> bytes \<Rightarrow> (sse_frame list, provider_error) result \<times> sse_decoder" where
  "push_loop frames d [] = (Ok frames, d)"
| "push_loop frames d (b # bs) =
     (case push_byte d b of
        (Ok None, d') \<Rightarrow> push_loop frames d' bs
      | (Ok (Some frame), d') \<Rightarrow> push_loop (frames @ [frame]) d' bs
      | (Err e, d') \<Rightarrow> (Err e, d')
      | (Panic, d') \<Rightarrow> (Panic, d'))"

definition push :: "sse_decoder \<Rightarrow> bytes \<Rightarrow> (sse_frame list, provider_error) result \<times> sse_decoder" where
  "push d bs = push_loop [] d bs"

definition is_ascii_whitespace :: "nat \<Rightarrow> bool" where
  "is_ascii_whitespace b \<longleftrightarrow> b \<in> {0x20, 0x09, 0x0A, 0x0C, 0x0D}"

definition finish :: "sse_decoder \<Rightarrow> (unit, provider_error) result \<times> sse_decoder" where
  "finish d =
     (if list_all is_ascii_whitespace (sd_buffer d) then (Ok (), d\<lparr>sd_buffer := []\<rparr>)
      else (Err sse_protocol_error, d))"

section \<open>Fragments\<close>

text \<open>A client that pushes fragments until one fails.\<close>

fun push_chunks ::
  "sse_decoder \<Rightarrow> bytes list \<Rightarrow> (sse_frame list, provider_error) result \<times> sse_decoder" where
  "push_chunks d [] = (Ok [], d)"
| "push_chunks d (c # cs) =
     (case push d c of
        (Ok fs, d') \<Rightarrow>
          (case push_chunks d' cs of
             (Ok fs', d'') \<Rightarrow> (Ok (fs @ fs'), d'') | (Err e, d'') \<Rightarrow> (Err e, d'') | (Panic, d'') \<Rightarrow> (Panic, d''))
      | (Err e, d') \<Rightarrow> (Err e, d') | (Panic, d') \<Rightarrow> (Panic, d'))"

lemma push_loop_acc:
  "push_loop frames d bs =
     (case push d bs of (Ok fs, d') \<Rightarrow> (Ok (frames @ fs), d') | (Err e, d') \<Rightarrow> (Err e, d') | (Panic, d') \<Rightarrow> (Panic, d'))"
proof (induction bs arbitrary: frames d)
  case Nil
  then show ?case by (simp add: push_def)
next
  case (Cons b bs)
  obtain r d' where step: "push_byte d b = (r, d')" by (cases "push_byte d b")
  show ?case
  proof (cases r)
    case (Ok f)
    then show ?thesis
    proof (cases f)
      case None
      then show ?thesis using Ok step Cons.IH [of frames d'] by (simp add: push_def)
    next
      case (Some frame)
      then show ?thesis
        using Ok step Cons.IH [of "frames @ [frame]" d'] Cons.IH [of "[frame]" d']
        by (cases "push d' bs"; cases "fst (push d' bs)") (auto simp: push_def)
    qed
  qed (simp_all add: push_def step)
qed

lemma push_append:
  "push d (bs @ cs) =
     (case push d bs of
        (Ok fs, d') \<Rightarrow>
          (case push d' cs of (Ok fs', d'') \<Rightarrow> (Ok (fs @ fs'), d'')
           | (Err e, d'') \<Rightarrow> (Err e, d'') | (Panic, d'') \<Rightarrow> (Panic, d''))
      | (Err e, d') \<Rightarrow> (Err e, d') | (Panic, d') \<Rightarrow> (Panic, d'))"
proof -
  have "push_loop frames d (bs @ cs) =
     (case push_loop frames d bs of (Ok fs, d') \<Rightarrow> push_loop fs d' cs
      | (Err e, d') \<Rightarrow> (Err e, d') | (Panic, d') \<Rightarrow> (Panic, d'))" for frames
    by (induction frames d bs rule: push_loop.induct) (auto split: prod.split result.split option.split)
  note split = this [of "[]", folded push_def]
  obtain r d' where first: "push d bs = (r, d')" by (cases "push d bs")
  show ?thesis
  proof (cases r)
    case (Ok fs)
    then show ?thesis using split first push_loop_acc [of fs d' cs] by simp
  qed (simp_all add: split first)
qed

lemma push_nil [simp]: "push d [] = (Ok [], d)"
  by (simp add: push_def)

lemma push_chunks_concat: "push_chunks d chunks = push d (concat chunks)"
proof (induction chunks arbitrary: d)
  case (Cons c cs)
  then show ?case
    by (cases "push d c"; cases "fst (push d c)") (simp_all add: push_append)
qed simp

text \<open>The buffer never outgrows the bound.\<close>

lemma push_byte_bounded:
  "length (sd_buffer d) \<le> sd_max_frame_bytes d \<Longrightarrow>
     length (sd_buffer (snd (push_byte d b))) \<le> sd_max_frame_bytes d
     \<and> sd_max_frame_bytes (snd (push_byte d b)) = sd_max_frame_bytes d"
  by (auto simp: push_byte_def decode_frame_def Let_def split: option.splits)

lemma push_bounded:
  "length (sd_buffer d) \<le> sd_max_frame_bytes d \<Longrightarrow>
     length (sd_buffer (snd (push_loop fs d bs))) \<le> sd_max_frame_bytes d
     \<and> sd_max_frame_bytes (snd (push_loop fs d bs)) = sd_max_frame_bytes d"
proof (induction bs arbitrary: fs d)
  case (Cons b bs)
  obtain r d' where step: "push_byte d b = (r, d')" by (cases "push_byte d b")
  with push_byte_bounded [OF Cons.prems, of b] Cons.IH [of d']
  show ?case by (cases r) (auto split: option.split)
qed simp

section \<open>Printing frames\<close>

text \<open>
  A server that writes frames with one of the three line ends: the event line, a data line for every
  line of the data, and an empty line.
\<close>

definition frame_lines :: "sse_frame \<Rightarrow> ustring list" where
  "frame_lines f =
     (case frame_event f of None \<Rightarrow> [] | Some e \<Rightarrow> [ascii ''event: '' @ e])
     @ map (\<lambda>l. ascii ''data: '' @ l) (split_by (\<lambda>c. c = 0x0A) [] (frame_data f))"

definition print_frame :: "ustring \<Rightarrow> sse_frame \<Rightarrow> ustring" where
  "print_frame eol f = concat (map (\<lambda>l. l @ eol) (frame_lines f)) @ eol"

definition line_ends :: "ustring list" where "line_ends = [[0x0A], [0x0D], [0x0D, 0x0A]]"

text \<open>A frame that can be written: no line end in the event, no carriage return in the data.\<close>

definition printable_frame :: "sse_frame \<Rightarrow> bool" where
  "printable_frame f \<longleftrightarrow>
     (case frame_event f of None \<Rightarrow> True | Some e \<Rightarrow> list_all (\<lambda>c. is_scalar c \<and> \<not> is_eol c) e)
     \<and> list_all (\<lambda>c. is_scalar c \<and> c \<noteq> 0x0D) (frame_data f)"

lemma split_by_pieces:
  "l \<in> set (split_by P acc s) \<Longrightarrow> \<forall>c\<in>set acc. \<not> P c \<Longrightarrow> (\<forall>c\<in>set l. \<not> P c) \<and> set l \<subseteq> set acc \<union> set s"
  by (induction P acc s rule: split_by.induct) (auto split: if_splits)

lemma split_by_nonempty [simp]: "split_by P acc s \<noteq> []"
  by (induction P acc s rule: split_by.induct) simp_all

lemma join_split_lf: "join_lf (split_by (\<lambda>c. c = 0x0A) acc s) = rev acc @ s"
proof (induction "\<lambda>c :: nat. c = 0x0A" acc s rule: split_by.induct)
  case (2 acc c s)
  show ?case
  proof (cases "c = 0x0A")
    case True
    then show ?thesis
      using 2 by (cases "split_by (\<lambda>c. c = 0x0A) [] s") simp_all
  next
    case False
    then show ?thesis using 2 by simp
  qed
qed simp

text \<open>A line that a frame can contain.\<close>

definition frame_line :: "ustring \<Rightarrow> bool" where
  "frame_line l \<longleftrightarrow> l \<noteq> [] \<and> list_all is_scalar l \<and> \<not> list_ex is_eol l \<and> hd l \<noteq> 0x3A \<and> hd l \<noteq> 0xFEFF"

lemma frame_lines_ok:
  assumes "printable_frame f" "l \<in> set (frame_lines f)"
  shows "frame_line l"
proof -
  have lab: "frame_line (ascii ''event: '' @ v)" "frame_line (ascii ''data: '' @ v)"
    if "list_all is_scalar v" "\<not> list_ex is_eol v" for v
    using that by (simp_all add: frame_line_def ascii_def is_scalar_def is_eol_def)
  have piece: "list_all is_scalar v \<and> \<not> list_ex is_eol v"
    if "v \<in> set (split_by (\<lambda>c. c = 0x0A) [] (frame_data f))" for v
    using split_by_pieces [OF that] assms(1)
    by (auto simp: printable_frame_def list_all_iff list_ex_iff is_eol_def)
  have event: "list_all is_scalar e \<and> \<not> list_ex is_eol e" if "frame_event f = Some e" for e
    using assms(1) that by (auto simp: printable_frame_def list_all_iff list_ex_iff)
  from assms(2) show ?thesis
    unfolding frame_lines_def
    by (cases "frame_event f") (auto simp del: append.simps intro!: lab dest: piece event)
qed

lemma split_field_label:
  "split_field (ascii ''event: '' @ v) = (ascii ''event'', v)"
  "split_field (ascii ''data: '' @ v) = (ascii ''data'', v)"
  by (simp_all add: split_field_def ascii_def strip_prefix_char_def Let_def)

lemma scan_label:
  "scan_line acc (ascii ''event: '' @ v) = (Some v, snd acc)"
  "scan_line acc (ascii ''data: '' @ v) = (fst acc, snd acc @ [v])"
proof -
  have "ascii ''event: '' @ v \<noteq> [] \<and> hd (ascii ''event: '' @ v) \<noteq> 0x3A"
    "ascii ''data: '' @ v \<noteq> [] \<and> hd (ascii ''data: '' @ v) \<noteq> 0x3A"
    "ascii ''data'' \<noteq> ascii ''event''"
    by (simp_all add: ascii_def)
  then show "scan_line acc (ascii ''event: '' @ v) = (Some v, snd acc)"
    "scan_line acc (ascii ''data: '' @ v) = (fst acc, snd acc @ [v])"
    unfolding scan_line_def split_field_label by auto
qed

lemma scan_data_lines:
  "foldl scan_line (e, ds) (map (\<lambda>l. ascii ''data: '' @ l) ls) = (e, ds @ ls)"
  by (induction ls arbitrary: ds) (simp_all add: scan_label)

lemma scan_frame_lines:
  "foldl scan_line (None, []) (frame_lines f) = (frame_event f, split_by (\<lambda>c. c = 0x0A) [] (frame_data f))"
  unfolding frame_lines_def by (cases "frame_event f") (simp_all add: scan_label scan_data_lines)

lemma scan_skips_empty: "foldl scan_line acc ls = foldl scan_line acc (filter (\<lambda>l. l \<noteq> []) ls)"
  by (induction ls arbitrary: acc) (simp_all add: scan_line_def)

lemma split_eol_line:
  "\<not> list_ex is_eol l \<Longrightarrow> is_eol c \<Longrightarrow> split_by is_eol acc (l @ c # s) = (rev acc @ l) # split_by is_eol [] s"
  by (induction l arbitrary: acc) simp_all

lemma eol_cases: "eol \<in> set line_ends \<Longrightarrow> eol = [0x0A] \<or> eol = [0x0D] \<or> eol = [0x0D, 0x0A]"
  by (simp add: line_ends_def)

lemma split_printed_lines:
  assumes "eol \<in> set line_ends" "\<forall>l\<in>set ls. frame_line l" "is_eol c"
  shows "filter (\<lambda>l. l \<noteq> []) (split_by is_eol [] (concat (map (\<lambda>l. l @ eol) ls) @ [c])) = ls"
  using assms(2)
proof (induction ls)
  case Nil
  then show ?case using assms(3) by simp
next
  case (Cons l ls)
  have l: "\<not> list_ex is_eol l" "l \<noteq> []" using Cons.prems by (auto simp: frame_line_def)
  have "is_eol 0x0A" "is_eol 0x0D" by (simp_all add: is_eol_def)
  then show ?case
    using eol_cases [OF assms(1)] Cons l
    by (elim disjE) (simp_all add: split_eol_line)
qed

lemma frame_of_printed:
  assumes "eol \<in> set line_ends" "printable_frame f" "is_eol c"
  shows "frame_of_text (concat (map (\<lambda>l. l @ eol) (frame_lines f)) @ [c]) = Some f"
proof -
  have "foldl scan_line (None, []) (split_by is_eol [] (concat (map (\<lambda>l. l @ eol) (frame_lines f)) @ [c]))
      = (frame_event f, split_by (\<lambda>c. c = 0x0A) [] (frame_data f))"
    using frame_lines_ok [OF assms(2)] assms(1,3)
    by (subst scan_skips_empty, subst split_printed_lines) (simp_all add: scan_frame_lines)
  then show ?thesis by (simp add: frame_of_text_def join_split_lf)
qed

section \<open>Decoding printed frames\<close>

lemma as_bytes_no_eol: "\<not> list_ex is_eol s \<Longrightarrow> list_all (\<lambda>b. \<not> is_eol b) (as_bytes s)"
proof (induction s)
  case (Cons c s)
  have "list_all (\<lambda>b. \<not> is_eol b) (utf8_char c)" if "\<not> is_eol c"
    using that by (auto simp: utf8_char_def is_eol_def)
  with Cons show ?case by simp
qed simp

lemma as_bytes_nonempty: "s \<noteq> [] \<Longrightarrow> as_bytes s \<noteq> []"
  by (cases s) (auto simp: utf8_char_def)

lemma push_Cons:
  "push d (b # bs) =
     (case push_byte d b of
        (Ok f, d') \<Rightarrow>
          (case push d' bs of
             (Ok fs, d'') \<Rightarrow> (Ok (case f of None \<Rightarrow> fs | Some frame \<Rightarrow> frame # fs), d'')
           | (Err e, d'') \<Rightarrow> (Err e, d'') | (Panic, d'') \<Rightarrow> (Panic, d''))
      | (Err e, d') \<Rightarrow> (Err e, d') | (Panic, d') \<Rightarrow> (Panic, d'))"
proof -
  obtain r d' where step: "push_byte d b = (r, d')" by (cases "push_byte d b")
  have one: "push d [b] = (case r of Ok f \<Rightarrow> (Ok (case f of None \<Rightarrow> [] | Some frame \<Rightarrow> [frame]), d')
      | Err e \<Rightarrow> (Err e, d') | Panic \<Rightarrow> (Panic, d'))"
    unfolding push_def using step by (simp split: result.split option.split)
  obtain r' d'' where rest: "push d' bs = (r', d'')" by (cases "push d' bs")
  show ?thesis
    using push_append [of d "[b]" bs] unfolding one step
    by (cases r; cases r') (auto simp: rest split: option.split)
qed

lemma push_content:
  assumes "list_all (\<lambda>b. \<not> is_eol b) bs" "bs \<noteq> []"
    and "length (sd_buffer d) + length bs \<le> sd_max_frame_bytes d"
  shows "push d bs = (Ok [], d\<lparr>sd_buffer := sd_buffer d @ bs, sd_line_has_content := True,
    sd_pending_carriage_return := False\<rparr>)"
  using assms
proof (induction bs arbitrary: d)
  case (Cons b bs)
  have step: "push_byte d b = (Ok None, d\<lparr>sd_buffer := sd_buffer d @ [b], sd_line_has_content := True,
      sd_pending_carriage_return := False\<rparr>)"
    using Cons.prems by (auto simp: push_byte_def is_eol_def Let_def)
  show ?case
  proof (cases "bs = []")
    case True
    then show ?thesis by (simp add: push_Cons step)
  next
    case False
    then show ?thesis using Cons.prems by (simp add: push_Cons step Cons.IH)
  qed
qed simp

lemma push_line_end:
  assumes "eol \<in> set line_ends" "sd_line_has_content d" "\<not> sd_pending_carriage_return d"
    and "length (sd_buffer d) + length eol \<le> sd_max_frame_bytes d" "sd_buffer d \<noteq> []"
  shows "push d eol = (Ok [], d\<lparr>sd_buffer := sd_buffer d @ eol, sd_line_has_content := False,
    sd_pending_carriage_return := (eol = [0x0D])\<rparr>)"
  using eol_cases [OF assms(1)] assms(2-)
  by (elim disjE) (auto simp: push_Cons push_byte_def is_eol_def Let_def)

lemma length_eol: "eol \<in> set line_ends \<Longrightarrow> as_bytes eol = eol \<and> list_all is_scalar eol"
  by (auto simp: line_ends_def utf8_char_def is_scalar_def)

lemma push_lines:
  assumes "eol \<in> set line_ends" "\<forall>l\<in>set ls. frame_line l" "\<not> sd_line_has_content d"
    and "length (sd_buffer d) + length (as_bytes (concat (map (\<lambda>l. l @ eol) ls))) \<le> sd_max_frame_bytes d"
  shows "push d (as_bytes (concat (map (\<lambda>l. l @ eol) ls))) =
    (Ok [], d\<lparr>sd_buffer := sd_buffer d @ as_bytes (concat (map (\<lambda>l. l @ eol) ls)),
      sd_line_has_content := False,
      sd_pending_carriage_return := (if ls = [] then sd_pending_carriage_return d else eol = [0x0D])\<rparr>)"
  using assms(2-)
proof (induction ls arbitrary: d)
  case Nil
  then show ?case by (cases d) simp
next
  case (Cons l ls)
  have l: "l \<noteq> []" "\<not> list_ex is_eol l" using Cons.prems by (auto simp: frame_line_def)
  define d1 where "d1 = d\<lparr>sd_buffer := sd_buffer d @ as_bytes l, sd_line_has_content := True,
    sd_pending_carriage_return := False\<rparr>"
  define d2 where "d2 = d1\<lparr>sd_buffer := sd_buffer d1 @ eol, sd_line_has_content := False,
    sd_pending_carriage_return := (eol = [0x0D])\<rparr>"
  note eolb = length_eol [OF assms(1), THEN conjunct1]
  have "push d (as_bytes l) = (Ok [], d1)"
    unfolding d1_def using Cons.prems
    by (intro push_content as_bytes_no_eol as_bytes_nonempty l) simp
  moreover have "push d1 eol = (Ok [], d2)"
    unfolding d2_def using Cons.prems as_bytes_nonempty [OF l(1)]
    by (intro push_line_end assms(1)) (simp_all add: d1_def eolb)
  moreover have "push d2 (as_bytes (concat (map (\<lambda>l. l @ eol) ls))) =
    (Ok [], d2\<lparr>sd_buffer := sd_buffer d2 @ as_bytes (concat (map (\<lambda>l. l @ eol) ls)),
      sd_line_has_content := False,
      sd_pending_carriage_return := (if ls = [] then sd_pending_carriage_return d2 else eol = [0x0D])\<rparr>)"
    using Cons.prems by (intro Cons.IH) (simp_all add: d2_def d1_def eolb)
  ultimately show ?case
    by (simp add: push_append eolb) (simp add: d1_def d2_def)
qed

lemma push_blank_line:
  assumes "eol \<in> set line_ends" "\<not> sd_line_has_content d" "sd_pending_carriage_return d = (eol = [0x0D])"
    and "length (sd_buffer d) < sd_max_frame_bytes d" "sd_buffer d \<noteq> []"
    and "decode_frame (d\<lparr>sd_buffer := [], sd_pending_carriage_return := (hd eol = 0x0D)\<rparr>) (sd_buffer d @ [hd eol])
      = (Ok (Some f), d')"
  shows "push d eol = (Ok [f], d'\<lparr>sd_pending_carriage_return := (eol = [0x0D])\<rparr>)"
proof -
  have keep: "sd_pending_carriage_return d' = (hd eol = 0x0D) \<and> sd_buffer d' = [] \<and> \<not> sd_line_has_content d'"
    using assms(2,6) by (auto simp: decode_frame_def split: option.splits)
  have lhc: "d\<lparr>sd_line_has_content := False\<rparr> = d" using assms(2) by (cases d) simp
  show ?thesis
    using eol_cases [OF assms(1)]
  proof (elim disjE)
    assume e: "eol = [0x0A]"
    then show ?thesis
      using assms keep lhc
      by (cases d; cases d') (auto simp: push_Cons push_byte_def is_eol_def Let_def)
  next
    assume e: "eol = [0x0D]"
    then show ?thesis
      using assms keep lhc
      by (cases d; cases d') (auto simp: push_Cons push_byte_def is_eol_def Let_def)
  next
    assume e: "eol = [0x0D, 0x0A]"
    then show ?thesis
      using assms keep lhc
      by (cases d; cases d') (auto simp: push_Cons push_byte_def is_eol_def Let_def)
  qed
qed

definition printed_body :: "ustring \<Rightarrow> sse_frame \<Rightarrow> ustring" where
  "printed_body eol f = concat (map (\<lambda>l. l @ eol) (frame_lines f))"

lemma frame_lines_nonempty: "frame_lines f \<noteq> []"
  by (simp add: frame_lines_def)

lemma printed_body_ok:
  assumes "eol \<in> set line_ends" "printable_frame f"
  shows "list_all is_scalar (printed_body eol f)" "printed_body eol f \<noteq> []" "hd (printed_body eol f) \<noteq> 0xFEFF"
proof -
  have lines: "\<forall>l\<in>set (frame_lines f). frame_line l" using frame_lines_ok [OF assms(2)] by blast
  then show "list_all is_scalar (printed_body eol f)"
    using length_eol [OF assms(1)] by (auto simp: printed_body_def frame_line_def list_all_iff)
  obtain l ls where "frame_lines f = l # ls" using frame_lines_nonempty [of f] by (cases "frame_lines f") auto
  with lines show "printed_body eol f \<noteq> []" "hd (printed_body eol f) \<noteq> 0xFEFF"
    by (auto simp: printed_body_def frame_line_def)
qed

lemma decode_printed_body:
  assumes "eol \<in> set line_ends" "printable_frame f" "is_eol c"
  shows "decode_frame d (as_bytes (printed_body eol f) @ [c]) = (Ok (Some f), d\<lparr>sd_first_frame := False\<rparr>)"
proof -
  have c: "as_bytes [c] = [c]" "is_scalar c" using assms(3) by (auto simp: is_eol_def utf8_char_def is_scalar_def)
  have "from_utf8 (as_bytes (printed_body eol f) @ [c]) = Some (printed_body eol f @ [c])"
    using from_utf8_text [of "printed_body eol f @ [c]"] printed_body_ok(1) [OF assms(1,2)] c by simp
  moreover have "strip_prefix_char 0xFEFF (printed_body eol f @ [c]) = printed_body eol f @ [c]"
    using printed_body_ok(2,3) [OF assms(1,2)]
    by (cases "printed_body eol f") (auto simp: strip_prefix_char_def)
  moreover have "frame_of_text (printed_body eol f @ [c]) = Some f"
    using frame_of_printed [OF assms] by (simp add: printed_body_def)
  ultimately show ?thesis by (simp add: decode_frame_def)
qed

text \<open>The decoder between two frames.\<close>

definition ready :: "ustring \<Rightarrow> sse_decoder \<Rightarrow> bool" where
  "ready eol d \<longleftrightarrow> sd_buffer d = [] \<and> \<not> sd_line_has_content d
     \<and> (sd_pending_carriage_return d \<longrightarrow> eol = [0x0D])"

lemma push_printed_frame:
  assumes "eol \<in> set line_ends" "printable_frame f" "ready eol d"
    and "length (as_bytes (print_frame eol f)) \<le> sd_max_frame_bytes d"
  shows "\<exists>d'. push d (as_bytes (print_frame eol f)) = (Ok [f], d') \<and> ready eol d'
    \<and> sd_max_frame_bytes d' = sd_max_frame_bytes d"
proof -
  let ?body = "as_bytes (printed_body eol f)"
  define d1 where "d1 = d\<lparr>sd_buffer := ?body, sd_line_has_content := False,
    sd_pending_carriage_return := (eol = [0x0D])\<rparr>"
  have bytes: "as_bytes (print_frame eol f) = ?body @ eol"
    using length_eol [OF assms(1)] by (simp add: print_frame_def printed_body_def)
  have size: "length ?body < sd_max_frame_bytes d"
    using assms(4) eol_cases [OF assms(1)] unfolding bytes by auto
  have "push d ?body = (Ok [], d1)"
    using push_lines [OF assms(1), of "frame_lines f" d] frame_lines_ok [OF assms(2)] assms(3) size
      frame_lines_nonempty [of f]
    by (simp add: d1_def printed_body_def ready_def)
  moreover have "push d1 eol = (Ok [f], d1\<lparr>sd_buffer := [], sd_pending_carriage_return := (eol = [0x0D]),
      sd_first_frame := False\<rparr>)"
  proof -
    have "is_eol (hd eol)" using eol_cases [OF assms(1)] by (auto simp: is_eol_def)
    then have "decode_frame (d1\<lparr>sd_buffer := [], sd_pending_carriage_return := (hd eol = 0x0D)\<rparr>)
        (sd_buffer d1 @ [hd eol]) = (Ok (Some f),
        d1\<lparr>sd_buffer := [], sd_pending_carriage_return := (hd eol = 0x0D), sd_first_frame := False\<rparr>)"
      using decode_printed_body [OF assms(1,2)] by (simp add: d1_def)
    from push_blank_line [OF assms(1) _ _ _ _ this] show ?thesis
      using size as_bytes_nonempty printed_body_ok(2) [OF assms(1,2)] by (simp add: d1_def)
  qed
  ultimately show ?thesis unfolding bytes by (simp add: push_append ready_def d1_def)
qed

lemma push_printed_frames:
  assumes "eol \<in> set line_ends" "ready eol d"
    and "\<forall>f\<in>set fs. printable_frame f \<and> length (as_bytes (print_frame eol f)) \<le> sd_max_frame_bytes d"
  shows "\<exists>d'. push d (as_bytes (concat (map (print_frame eol) fs))) = (Ok fs, d') \<and> ready eol d'"
  using assms(2,3)
proof (induction fs arbitrary: d)
  case (Cons f fs)
  then obtain d1 where "push d (as_bytes (print_frame eol f)) = (Ok [f], d1)" "ready eol d1"
    "sd_max_frame_bytes d1 = sd_max_frame_bytes d"
    using push_printed_frame [OF assms(1), of f d] by auto
  moreover from this obtain d2 where
    "push d1 (as_bytes (concat (map (print_frame eol) fs))) = (Ok fs, d2)" "ready eol d2"
    using Cons.IH [of d1] Cons.prems by auto
  ultimately show ?case by (simp add: push_append)
qed simp

section \<open>Properties\<close>

text \<open>
  Framing does not depend on how the network cuts the stream, and the decoder never holds more bytes
  than the frame bound.
\<close>

lemma sse_fragmentation_is_irrelevant:
  "push_chunks (sse_decoder_new limit) chunks = push (sse_decoder_new limit) (concat chunks)
     \<and> length (sd_buffer (snd (push_chunks (sse_decoder_new limit) chunks))) \<le> limit"
  using push_bounded [of "sse_decoder_new limit" "[]" "concat chunks"]
  by (simp add: push_chunks_concat push_def sse_decoder_new_def)

definition example_frame :: sse_frame where
  "example_frame = \<lparr>frame_event = Some (ascii ''delta''), frame_data = ascii ''a'' @ [0x0A] @ ascii ''b''\<rparr>"

text \<open>
  C26: Every frame a server writes is read back exactly, with line feeds, carriage returns or both as
  line ends, however the stream is fragmented: decoding the printed frames returns the frames in order,
  when the event names and data contain what the format can carry and each frame fits the bound, and the
  end of the stream is then accepted as complete.
\<close>

theorem sse_frames_round_trip:
  assumes "eol \<in> set line_ends" "concat chunks = as_bytes (concat (map (print_frame eol) fs))"
    and "list_all (\<lambda>f. printable_frame f \<and> length (as_bytes (print_frame eol f)) \<le> limit) fs"
  shows "\<exists>d. push_chunks (sse_decoder_new limit) chunks = (Ok fs, d) \<and> finish d = (Ok (), d)"
proof -
  obtain d where "push_chunks (sse_decoder_new limit) chunks = (Ok fs, d)" "ready eol d"
    using push_printed_frames [OF assms(1), of "sse_decoder_new limit" fs] assms(3)
    by (auto simp: push_chunks_concat assms(2) ready_def sse_decoder_new_def list_all_iff)
  then show ?thesis by (simp add: finish_def ready_def)
qed

theorem sse_frames_round_trip_witness:
  "\<exists>d. push_chunks (sse_decoder_new 64)
     (map (\<lambda>b. [b]) (as_bytes (concat (map (print_frame [0x0D, 0x0A]) [example_frame, example_frame]))))
       = (Ok [example_frame, example_frame], d) \<and> finish d = (Ok (), d)"
proof -
  have "concat (map (\<lambda>b. [b]) bs) = bs" for bs :: bytes by (induction bs) simp_all
  then show ?thesis
    by (intro sse_frames_round_trip [where eol = "[0x0D, 0x0A]"])
      (simp_all add: line_ends_def example_frame_def printable_frame_def print_frame_def frame_lines_def
        ascii_def is_scalar_def is_eol_def utf8_char_def)
qed

end
