(* ===== verification/Context_Values.thy ===== *)
theory Context_Values
  imports Domain_Memory
begin

text \<open>
  The values of provider context (\<open>autoharness-domain\<close>: \<open>context.rs\<close>): budgets, eligibility, epochs,
  source observations, admissions and the manifest of one provider turn, with the checks of their
  constructors. A newtype over a checked integer is the integer.
\<close>

section \<open>Identifiers\<close>

datatype context_epoch_id = ContextEpochId (epoch_str: ustring)
datatype context_admission_id = ContextAdmissionId (admission_str: ustring)
datatype context_source_key = ContextSourceKey (source_key_str: ustring)

instantiation context_source_key :: linorder
begin

definition less_eq_context_source_key :: "context_source_key \<Rightarrow> context_source_key \<Rightarrow> bool" where
  "less_eq_context_source_key a b \<longleftrightarrow> source_key_str a \<le> source_key_str b"

definition less_context_source_key :: "context_source_key \<Rightarrow> context_source_key \<Rightarrow> bool" where
  "less_context_source_key a b \<longleftrightarrow> source_key_str a < source_key_str b"

instance
  by standard (auto simp: less_eq_context_source_key_def less_context_source_key_def
      context_source_key.expand)

end

section \<open>Integers\<close>

definition context_token_budget_new :: "nat \<Rightarrow> (nat, value_error) result" where
  "context_token_budget_new value =
     (if value = 0 \<or> value > i64_max then Err InvalidContextTokenBudget else Ok value)"

definition estimated_tokens_new :: "nat \<Rightarrow> (nat, value_error) result" where
  "estimated_tokens_new value = (if value > i64_max then Err EstimatedTokensTooLarge else Ok value)"

definition memory_generation_new :: "nat \<Rightarrow> (nat, value_error) result" where
  "memory_generation_new value = (if value > i64_max then Err MemoryGenerationTooLarge else Ok value)"

definition memory_generation_next :: "nat \<Rightarrow> nat option" where
  "memory_generation_next g =
     (case checked_add_u64 g 1 of Some v \<Rightarrow> if v \<le> i64_max then Some v else None | None \<Rightarrow> None)"

section \<open>Eligibility and budget\<close>

record context_eligibility =
  elig_user_id :: user_id
  elig_workspace_id :: workspace_id
  elig_session_id :: session_id
  elig_agent_id :: "agent_id option"
  elig_sensitivity_ceiling :: sensitivity

fun permits_scope :: "context_eligibility \<Rightarrow> memory_scope \<Rightarrow> bool" where
  "permits_scope e (Scope_User i) \<longleftrightarrow> i = elig_user_id e"
| "permits_scope e (Scope_In_Workspace i) \<longleftrightarrow> i = elig_workspace_id e"
| "permits_scope e (Scope_In_Session i) \<longleftrightarrow> i = elig_session_id e"
| "permits_scope e (Scope_Agent i) \<longleftrightarrow> elig_agent_id e = Some i"

fun sensitivity_rank :: "sensitivity \<Rightarrow> nat" where
  "sensitivity_rank Sens_Public = 0"
| "sensitivity_rank Sens_Internal = 1"
| "sensitivity_rank Sens_Sensitive = 2"
| "sensitivity_rank Sens_Secret = 3"

definition permits_sensitivity :: "context_eligibility \<Rightarrow> sensitivity \<Rightarrow> bool" where
  "permits_sensitivity e s \<longleftrightarrow> sensitivity_rank s \<le> sensitivity_rank (elig_sensitivity_ceiling e)"

record budget_allocation =
  ba_token_budget :: nat
  ba_reserved_tokens :: nat
  ba_durable_memory_limit :: nat

definition budget_allocation_new :: "nat \<Rightarrow> nat \<Rightarrow> nat \<Rightarrow> (budget_allocation, value_error) result" where
  "budget_allocation_new token_budget reserved_tokens durable_memory_limit =
     (if reserved_tokens > token_budget \<or> durable_memory_limit > token_budget - reserved_tokens
      then Err InvalidContextManifest
      else Ok \<lparr>ba_token_budget = token_budget, ba_reserved_tokens = reserved_tokens,
               ba_durable_memory_limit = durable_memory_limit\<rparr>)"

definition rendered_limit :: "budget_allocation \<Rightarrow> nat" where
  "rendered_limit b = ba_token_budget b - ba_reserved_tokens b"

section \<open>Epochs\<close>

datatype context_epoch_reason =
    Epoch_NewAttempt | Epoch_ExplicitRetry | Epoch_Compaction | Epoch_SourceIncompatibility
  | Epoch_PolicyChange | Epoch_Recovery

record context_epoch_versions =
  builder_version :: nat
  registry_version :: nat
  ranker_version :: nat
  renderer_version :: nat
  sizer_version :: nat

definition context_epoch_versions_new ::
  "nat \<Rightarrow> nat \<Rightarrow> nat \<Rightarrow> nat \<Rightarrow> nat \<Rightarrow> (context_epoch_versions, value_error) result" where
  "context_epoch_versions_new builder registry ranker renderer sizer =
     (if builder = 0 \<or> registry = 0 \<or> ranker = 0 \<or> renderer = 0 \<or> sizer = 0 then Err ZeroVersion
      else Ok \<lparr>builder_version = builder, registry_version = registry, ranker_version = ranker,
               renderer_version = renderer, sizer_version = sizer\<rparr>)"

record context_epoch_hashes =
  config_hash :: sha256_digest
  catalog_hash :: sha256_digest
  model_capability_hash :: sha256_digest
  tool_registry_hash :: sha256_digest

record context_epoch_manifest =
  em_epoch_id :: context_epoch_id
  em_session_id :: session_id
  em_memory_generation :: nat
  em_reason :: context_epoch_reason
  em_predecessor_epoch_id :: "context_epoch_id option"
  em_baseline_hash :: sha256_digest
  em_versions :: context_epoch_versions
  em_hashes :: context_epoch_hashes
  em_token_budget :: nat
  em_started_at :: timestamp_millis

definition context_epoch_manifest_new ::
  "context_epoch_id \<Rightarrow> session_id \<Rightarrow> nat \<Rightarrow> context_epoch_reason \<Rightarrow> context_epoch_id option
     \<Rightarrow> sha256_digest \<Rightarrow> context_epoch_versions \<Rightarrow> context_epoch_hashes \<Rightarrow> nat \<Rightarrow> timestamp_millis
     \<Rightarrow> (context_epoch_manifest, value_error) result" where
  "context_epoch_manifest_new epoch_id session generation reason predecessor baseline versions hashes
       budget started_at =
     (if predecessor = Some epoch_id then Err InvalidContextEpoch
      else Ok \<lparr>em_epoch_id = epoch_id, em_session_id = session, em_memory_generation = generation,
               em_reason = reason, em_predecessor_epoch_id = predecessor, em_baseline_hash = baseline,
               em_versions = versions, em_hashes = hashes, em_token_budget = budget,
               em_started_at = started_at\<rparr>)"

section \<open>Source observations\<close>

datatype observation_state = Obs_Available | Obs_RetainedStale | Obs_ObservedAbsent | Obs_Unavailable

datatype source_visibility = PreludeEligible | AuditOnly

record source_snapshot =
  snap_source_key :: context_source_key
  snap_observation_state :: observation_state
  snap_visibility :: source_visibility
  snap_source_revision :: "sha256_digest option"
  snap_value_hash :: "sha256_digest option"
  snap_observed_at :: timestamp_millis

definition snapshot_new_with_visibility ::
  "context_source_key \<Rightarrow> observation_state \<Rightarrow> source_visibility \<Rightarrow> sha256_digest option
     \<Rightarrow> sha256_digest option \<Rightarrow> timestamp_millis \<Rightarrow> (source_snapshot, value_error) result" where
  "snapshot_new_with_visibility key state visibility revision value_hash observed_at =
     (let has_value = (revision \<noteq> None \<and> value_hash \<noteq> None);
          has_no_value = (revision = None \<and> value_hash = None);
          state_is_valid = (case state of Obs_Available \<Rightarrow> has_value | Obs_RetainedStale \<Rightarrow> has_value
             | Obs_ObservedAbsent \<Rightarrow> has_no_value | Obs_Unavailable \<Rightarrow> has_no_value);
          visibility_is_valid = (visibility = PreludeEligible \<or> state = Obs_Available)
      in if \<not> state_is_valid \<or> \<not> visibility_is_valid then Err InvalidContextObservation
         else Ok \<lparr>snap_source_key = key, snap_observation_state = state, snap_visibility = visibility,
                  snap_source_revision = revision, snap_value_hash = value_hash,
                  snap_observed_at = observed_at\<rparr>)"

definition snapshot_new ::
  "context_source_key \<Rightarrow> observation_state \<Rightarrow> sha256_digest option \<Rightarrow> sha256_digest option
     \<Rightarrow> timestamp_millis \<Rightarrow> (source_snapshot, value_error) result" where
  "snapshot_new key state revision value_hash observed_at =
     snapshot_new_with_visibility key state PreludeEligible revision value_hash observed_at"

definition snapshot_audit_only ::
  "context_source_key \<Rightarrow> sha256_digest \<Rightarrow> sha256_digest \<Rightarrow> timestamp_millis
     \<Rightarrow> (source_snapshot, value_error) result" where
  "snapshot_audit_only key revision value_hash observed_at =
     snapshot_new_with_visibility key Obs_Available AuditOnly (Some revision) (Some value_hash) observed_at"

section \<open>Admissions\<close>

datatype context_section =
    SafetyPolicy | CurrentInstruction | AuthorizedInstruction | ToolContract | ConversationHistory
  | DurableMemory

datatype admission_factor =
    Factor_Pin | Factor_Authority | Factor_ExactMatch | Factor_ScopeSpecificity | Factor_LexicalOverlap
  | Factor_Freshness | Factor_Confidence | Factor_PriorUtility | Factor_Diversity | Factor_BudgetFit

record admission_reason =
  reason_ordinal :: nat
  reason_factor :: admission_factor
  reason_contribution :: int

definition admission_reason_new :: "nat \<Rightarrow> admission_factor \<Rightarrow> int \<Rightarrow> (admission_reason, value_error) result" where
  "admission_reason_new ordinal factor contribution =
     (if ordinal = 0 then Err ZeroContextOrdinal
      else Ok \<lparr>reason_ordinal = ordinal, reason_factor = factor, reason_contribution = contribution\<rparr>)"

definition max_context_sources :: nat where "max_context_sources = 256"
definition max_context_admissions :: nat where "max_context_admissions = 256"
definition max_context_admission_reasons :: nat where "max_context_admission_reasons = 16"

record context_admission =
  adm_admission_id :: context_admission_id
  adm_context_turn_id :: context_turn_id
  adm_section :: context_section
  adm_source_key :: context_source_key
  adm_source_revision :: sha256_digest
  adm_memory_revision_id :: "memory_revision_id option"
  adm_renderer_version :: nat
  adm_rendered_hash :: sha256_digest
  adm_rank :: nat
  adm_rank_score :: int
  adm_token_count :: nat
  adm_admitted_at :: timestamp_millis
  adm_reasons :: "admission_reason list"

text \<open>The constructor checks the record it builds.\<close>

definition context_admission_new :: "context_admission \<Rightarrow> (context_admission, value_error) result" where
  "context_admission_new a =
     (if adm_renderer_version a = 0 then Err ZeroVersion
      else if adm_rank a = 0 then Err ZeroContextOrdinal
      else if length (adm_reasons a) > max_context_admission_reasons
              \<or> map reason_ordinal (adm_reasons a) \<noteq> [1..<length (adm_reasons a) + 1]
           then Err InvalidContextManifest
      else Ok a)"

section \<open>The manifest of a turn\<close>

record turn_manifest =
  tm_context_turn_id :: context_turn_id
  tm_epoch_id :: context_epoch_id
  tm_session_id :: session_id
  tm_attempt_id :: attempt_id
  tm_run_turn :: nat
  tm_expected_session_sequence :: session_sequence
  tm_memory_generation :: nat
  tm_model :: model_ref
  tm_request_hash :: sha256_digest
  tm_rendered_hash :: sha256_digest
  tm_manifest_hash :: sha256_digest
  tm_eligibility :: context_eligibility
  tm_budget :: budget_allocation
  tm_rendered_token_count :: nat
  tm_committed_at :: timestamp_millis
  tm_sources :: "source_snapshot list"
  tm_admissions :: "context_admission list"

text \<open>\<open>try_fold\<close> of \<open>checked_add\<close>.\<close>

fun checked_sum :: "nat \<Rightarrow> nat list \<Rightarrow> nat option" where
  "checked_sum acc [] = Some acc"
| "checked_sum acc (x # xs) = (case checked_add_u64 acc x of None \<Rightarrow> None | Some s \<Rightarrow> checked_sum s xs)"

definition exceeds :: "nat option \<Rightarrow> nat \<Rightarrow> bool" where
  "exceeds t limit \<longleftrightarrow> (case t of None \<Rightarrow> True | Some n \<Rightarrow> n > limit)"

definition turn_manifest_new :: "turn_manifest \<Rightarrow> (turn_manifest, value_error) result" where
  "turn_manifest_new m =
     (if tm_run_turn m = 0 then Err ZeroContextRunTurn
      else if length (tm_sources m) > max_context_sources
              \<or> length (tm_admissions m) > max_context_admissions
           then Err CollectionTooLarge
      else if elig_session_id (tm_eligibility m) \<noteq> tm_session_id m
              \<or> tm_rendered_token_count m > rendered_limit (tm_budget m)
              \<or> exceeds (checked_sum 0 (map adm_token_count (tm_admissions m))) (tm_rendered_token_count m)
              \<or> exceeds (checked_sum 0 (map adm_token_count
                   (filter (\<lambda>a. adm_section a = DurableMemory) (tm_admissions m))))
                   (ba_durable_memory_limit (tm_budget m))
              \<or> \<not> sorted_wrt (<) (map snap_source_key (tm_sources m))
              \<or> list_ex (\<lambda>(i, a). adm_context_turn_id a \<noteq> tm_context_turn_id m \<or> adm_rank a \<noteq> i + 1)
                   (enumerate 0 (tm_admissions m))
           then Err InvalidContextManifest
      else Ok m)"

section \<open>Facts\<close>

lemma checked_sum_Some: "acc + sum_list xs \<le> u64_max \<Longrightarrow> checked_sum acc xs = Some (acc + sum_list xs)"
  by (induction xs arbitrary: acc) (simp_all add: checked_add_u64_def add.assoc del: int_max_values)

text \<open>A strictly sorted list is what the window check of the source accepts.\<close>

lemma sorted_wrt_windows:
  "sorted_wrt (<) xs \<longleftrightarrow> (\<forall>i. Suc i < length xs \<longrightarrow> xs ! i < (xs ! Suc i :: 'a :: linorder))"
  by (simp add: sorted_wrt_iff_nth_Suc_transp)

end
