(* ===== verification/Canonical.thy ===== *)
theory Canonical
  imports Context_Values Utf8
begin

text \<open>
  Canonical encoding for stable hashes (\<open>autoharness-memory\<close>: \<open>canonical.rs\<close>, \<open>sizer.rs\<close>, \<open>error.rs\<close>).
  A field is its name and its value, each after its length as eight bytes in network order. SHA-256 is a
  parameter; \<open>sha_ok\<close> is what is known of its output, 32 bytes.
\<close>

section \<open>Errors\<close>

datatype memory_error =
    DuplicateSource context_source_key
  | DuplicateRetainedSource context_source_key
  | DuplicateMemoryRevision memory_revision_id
  | DuplicateCompactionFact
  | InvalidCompactionFact
  | InvalidCompactionEventStream
  | RequiredSourceUnavailable context_source_key
  | InvalidSourceSection context_source_key
  | InvalidSourceValue
  | ME_BudgetExceeded
  | ME_NumericOverflow
  | InvalidDomainValue

section \<open>The encoder\<close>

text \<open>\<open>to_be_bytes\<close> of a \<open>u64\<close>, and of an \<open>i64\<close> in two's complement.\<close>

fun be_bytes :: "nat \<Rightarrow> nat \<Rightarrow> bytes" where
  "be_bytes 0 n = []"
| "be_bytes (Suc k) n = be_bytes k (n div 256) @ [n mod 256]"

definition u64_be_bytes :: "nat \<Rightarrow> bytes" where "u64_be_bytes n = be_bytes 8 n"

definition i64_be_bytes :: "int \<Rightarrow> bytes" where "i64_be_bytes i = u64_be_bytes (nat (i mod 2 ^ 64))"

definition append_length :: "bytes \<Rightarrow> nat \<Rightarrow> (bytes, memory_error) result" where
  "append_length out len = (if len > u64_max then Err ME_NumericOverflow else Ok (out @ u64_be_bytes len))"

definition encode_field :: "bytes \<Rightarrow> ustring \<Rightarrow> bytes \<Rightarrow> (bytes, memory_error) result" where
  "encode_field out name v =
     and_then (append_length out (str_len name)) (\<lambda>out.
     and_then (append_length (out @ as_bytes name) (length v)) (\<lambda>out. Ok (out @ v)))"

definition encode_integer :: "bytes \<Rightarrow> ustring \<Rightarrow> nat \<Rightarrow> (bytes, memory_error) result" where
  "encode_integer out name v = encode_field out name (u64_be_bytes v)"

text \<open>\<open>{byte:02x}\<close>\<close>

definition hex_byte :: "nat \<Rightarrow> ustring" where
  "hex_byte b = [hex_digit (b div 16), hex_digit (b mod 16)]"

definition encoder_finish :: "(bytes \<Rightarrow> bytes) \<Rightarrow> bytes \<Rightarrow> (sha256_digest, memory_error) result" where
  "encoder_finish sha out =
     map_err (\<lambda>_. InvalidDomainValue) (sha256_digest_new (concat (map hex_byte (sha out))))"

text \<open>A sequence of \<open>field\<close> calls on a new encoder.\<close>

definition encode_fields :: "(ustring \<times> bytes) list \<Rightarrow> (bytes, memory_error) result" where
  "encode_fields fs = try_fold (\<lambda>out (name, v). encode_field out name v) [] fs"

definition hash_fields :: "(bytes \<Rightarrow> bytes) \<Rightarrow> (ustring \<times> bytes) list \<Rightarrow> (sha256_digest, memory_error) result" where
  "hash_fields sha fs = and_then (encode_fields fs) (encoder_finish sha)"

section \<open>The sizer\<close>

definition utf8_estimate :: "ustring \<Rightarrow> (nat, memory_error) result" where
  "utf8_estimate rendered =
     (if str_len rendered > u64_max then Err ME_NumericOverflow
      else map_err (\<lambda>_. InvalidDomainValue) (estimated_tokens_new (str_len rendered)))"

section \<open>The encoding is injective\<close>

lemma length_be_bytes [simp]: "length (be_bytes k n) = k"
  by (induction k arbitrary: n) simp_all

lemma be_bytes_inject: "m < 256 ^ k \<Longrightarrow> n < 256 ^ k \<Longrightarrow> be_bytes k m = be_bytes k n \<longleftrightarrow> m = n"
proof (induction k arbitrary: m n)
  case (Suc k)
  have "m div 256 < 256 ^ k" "n div 256 < 256 ^ k"
    using Suc.prems by (simp_all add: less_mult_imp_div_less mult.commute)
  with Suc.IH show ?case
    by (auto simp del: div_mult_mod_eq) (metis div_mult_mod_eq)
qed simp

lemma u64_be_bytes_inject: "m \<le> u64_max \<Longrightarrow> n \<le> u64_max \<Longrightarrow> u64_be_bytes m = u64_be_bytes n \<longleftrightarrow> m = n"
  unfolding u64_be_bytes_def by (rule be_bytes_inject) simp_all

lemma length_u64_be_bytes [simp]: "length (u64_be_bytes n) = 8"
  by (simp add: u64_be_bytes_def)

definition field_bytes :: "ustring \<times> bytes \<Rightarrow> bytes" where
  "field_bytes f = u64_be_bytes (str_len (fst f)) @ as_bytes (fst f) @ u64_be_bytes (length (snd f)) @ snd f"

definition fields_fit :: "(ustring \<times> bytes) list \<Rightarrow> bool" where
  "fields_fit fs \<longleftrightarrow> list_all (\<lambda>(name, v). str_len name \<le> u64_max \<and> length v \<le> u64_max) fs"

lemma encode_fields_Ok: "encode_fields fs = Ok out \<longleftrightarrow> fields_fit fs \<and> out = concat (map field_bytes fs)"
proof -
  have "try_fold (\<lambda>out (name, v). encode_field out name v) acc fs = Ok out
      \<longleftrightarrow> fields_fit fs \<and> out = acc @ concat (map field_bytes fs)" for acc
  proof (induction fs arbitrary: acc)
    case (Cons f fs)
    then show ?case
      by (cases f) (auto simp: encode_field_def append_length_def fields_fit_def field_bytes_def
          simp del: int_max_values split: if_splits)
  qed (auto simp: fields_fit_def)
  then show ?thesis by (simp add: encode_fields_def)
qed

lemma field_bytes_inject:
  assumes "fields_fit [f]" "fields_fit [g]" "list_all is_scalar (fst f)" "list_all is_scalar (fst g)"
    and "field_bytes f @ s = field_bytes g @ t"
  shows "f = g \<and> s = t"
proof -
  have len: "str_len (fst f) \<le> u64_max" "str_len (fst g) \<le> u64_max"
    "length (snd f) \<le> u64_max" "length (snd g) \<le> u64_max"
    using assms(1,2) by (auto simp: fields_fit_def simp del: int_max_values)
  from assms(5) have n: "u64_be_bytes (str_len (fst f)) = u64_be_bytes (str_len (fst g))"
    "as_bytes (fst f) @ u64_be_bytes (length (snd f)) @ snd f @ s
     = as_bytes (fst g) @ u64_be_bytes (length (snd g)) @ snd g @ t"
    by (simp_all add: field_bytes_def)
  have "length (as_bytes (fst f)) = length (as_bytes (fst g))"
    using n(1) u64_be_bytes_inject [OF len(1,2)] by (simp add: length_as_bytes)
  with n(2) have name: "as_bytes (fst f) = as_bytes (fst g)"
    and v: "u64_be_bytes (length (snd f)) @ snd f @ s = u64_be_bytes (length (snd g)) @ snd g @ t"
    by simp_all
  from v have "u64_be_bytes (length (snd f)) = u64_be_bytes (length (snd g))" "snd f @ s = snd g @ t"
    by simp_all
  then have "length (snd f) = length (snd g)" using u64_be_bytes_inject [OF len(3,4)] by simp
  then have "snd f = snd g" "s = t" using \<open>snd f @ s = snd g @ t\<close> by simp_all
  then show ?thesis using name as_bytes_inject [OF assms(3,4)] by (simp add: prod_eq_iff)
qed

lemma encode_fields_inject:
  assumes "encode_fields fs = Ok out" "encode_fields gs = Ok out"
    and "list_all (\<lambda>(name, _). list_all is_scalar name) fs" "list_all (\<lambda>(name, _). list_all is_scalar name) gs"
  shows "fs = gs"
proof -
  have nonempty: "field_bytes f \<noteq> []" for f
    by (simp add: field_bytes_def u64_be_bytes_def flip: length_0_conv)
  have "fs = gs"
    if "fields_fit fs" "fields_fit gs" "concat (map field_bytes fs) = concat (map field_bytes gs)"
      "list_all (\<lambda>(name, _). list_all is_scalar name) fs" "list_all (\<lambda>(name, _). list_all is_scalar name) gs"
    using that
  proof (induction fs arbitrary: gs)
    case Nil
    then show ?case using nonempty by (cases gs) auto
  next
    case (Cons f fs)
    then obtain g gs' where gs: "gs = g # gs'" using nonempty by (cases gs) auto
    have "f = g \<and> concat (map field_bytes fs) = concat (map field_bytes gs')"
      using Cons.prems unfolding gs
      by (intro field_bytes_inject) (auto simp: fields_fit_def simp del: int_max_values)
    then show ?case using Cons.IH [of gs'] Cons.prems unfolding gs by (auto simp: fields_fit_def)
  qed
  then show ?thesis using assms by (auto simp: encode_fields_Ok)
qed

section \<open>Digests\<close>

definition sha_ok :: "(bytes \<Rightarrow> bytes) \<Rightarrow> bool" where
  "sha_ok sha \<longleftrightarrow> (\<forall>bs. length (sha bs) = 32 \<and> (\<forall>b \<in> set (sha bs). b < 256))"

lemma hex_byte_chars: "b < 256 \<Longrightarrow> list_all (\<lambda>c. (48 \<le> c \<and> c \<le> 57) \<or> (97 \<le> c \<and> c \<le> 102)) (hex_byte b)"
  by (auto simp: hex_byte_def hex_digit_def)

lemma hex_bytes_valid:
  "\<forall>b \<in> set bs. b < 256 \<Longrightarrow>
     list_all (\<lambda>c. (48 \<le> c \<and> c \<le> 57) \<or> (97 \<le> c \<and> c \<le> 102)) (concat (map hex_byte bs))
     \<and> str_len (concat (map hex_byte bs)) = 2 * length bs"
proof (induction bs)
  case (Cons b bs)
  have "len_utf8 (hex_digit (b div 16)) = 1" "len_utf8 (hex_digit (b mod 16)) = 1"
    using Cons.prems by (auto simp: hex_digit_def len_utf8_def)
  then show ?case using Cons hex_byte_chars [of b] by (simp add: hex_byte_def)
qed simp

lemma encoder_finish_Ok:
  "sha_ok sha \<Longrightarrow> encoder_finish sha out = Ok (Sha256Digest (concat (map hex_byte (sha out))))"
  using hex_bytes_valid [of "sha out"]
  by (auto simp: encoder_finish_def sha256_digest_new_def sha_ok_def)

lemma encoder_finish_no_Panic [simp]: "encoder_finish sha out \<noteq> Panic"
  by (simp add: encoder_finish_def sha256_digest_new_def)

lemma hash_fields_Ok:
  assumes "sha_ok sha" "fields_fit fs"
  shows "\<exists>d. hash_fields sha fs = Ok d"
proof -
  have "encode_fields fs = Ok (concat (map field_bytes fs))"
    using assms(2) by (simp only: encode_fields_Ok simp_thms)
  then have "hash_fields sha fs = encoder_finish sha (concat (map field_bytes fs))"
    by (simp only: hash_fields_def and_then.simps)
  then show ?thesis unfolding encoder_finish_Ok [OF assms(1)] by blast
qed

section \<open>Sizes\<close>

lemma utf8_estimate_Ok: "utf8_estimate s = Ok n \<longleftrightarrow> n = str_len s \<and> n \<le> i64_max"
  by (auto simp: utf8_estimate_def estimated_tokens_new_def map_err_Ok split: if_splits)

lemma utf8_estimate_no_Panic [simp]: "utf8_estimate s \<noteq> Panic"
  by (simp add: utf8_estimate_def estimated_tokens_new_def)

text \<open>
  What the builder relies on in a sizer: a part is sized when the whole is, and parts never weigh more
  than the whole.
\<close>

locale context_sizer =
  fixes estimate :: "ustring \<Rightarrow> (nat, memory_error) result"
  assumes superadditive: "estimate (s @ t) = Ok n \<Longrightarrow>
      \<exists>a b. estimate s = Ok a \<and> estimate t = Ok b \<and> a + b \<le> n"
    and estimate_range: "estimate s = Ok n \<Longrightarrow> n \<le> i64_max"
begin

lemma estimate_concat:
  "estimate (concat ss) = Ok n \<Longrightarrow> \<exists>ns. list_all2 (\<lambda>s k. estimate s = Ok k) ss ns \<and> sum_list ns \<le> n"
proof (induction ss arbitrary: n)
  case Nil
  then show ?case by (intro exI [of _ "[]"]) simp
next
  case (Cons s ss)
  then obtain a b where ab: "estimate s = Ok a" "estimate (concat ss) = Ok b" "a + b \<le> n"
    using superadditive [of s "concat ss" n] by auto
  then obtain ns where "list_all2 (\<lambda>s k. estimate s = Ok k) ss ns" "sum_list ns \<le> b"
    using Cons.IH by blast
  with ab show ?case by (intro exI [of _ "a # ns"]) simp
qed

end

interpretation utf8_sizer: context_sizer utf8_estimate
  by unfold_locales (auto simp: utf8_estimate_Ok)

section \<open>Properties\<close>

text \<open>
  Canonical encodings cannot collide: two sequences of named fields that are encoded to the same
  bytes are the same sequence, so a digest of the encoding is a digest of the fields.
\<close>

theorem canonical_encoding_is_injective:
  assumes "encode_fields fs = Ok out" "encode_fields gs = Ok out"
    and "list_all (\<lambda>(name, _). list_all is_scalar name) (fs @ gs)"
  shows "fs = gs"
  using encode_fields_inject [OF assms(1,2)] assms(3) by simp

end
