(* ===== verification/Context_Rank.thy ===== *)
theory Context_Rank
  imports Canonical "HOL-Library.Product_Lexorder" "HOL-Library.Multiset"
begin

text \<open>
  Deterministic ranking of memory candidates (\<open>autoharness-memory\<close>: \<open>rank.rs\<close>): a candidate is eligible
  or it is not, eligible candidates get an integer score with its explanation, and ties are broken by
  identity. The locale \<open>memory_ranker\<close> is the trait, with what the context builder relies on.
\<close>

section \<open>Candidates\<close>

datatype rank_reason =
    Reason_SourceAuthority | Reason_ExactMatch | Reason_LexicalOverlap | Reason_ScopeSpecificity
  | Reason_Freshness | Reason_Confidence

record rank_factor =
  rf_key :: string
  rf_contribution :: int
  rf_reason :: rank_reason

record memory_candidate =
  mc_memory_id :: memory_id
  mc_revision_id :: memory_revision_id
  mc_status :: memory_revision_status
  mc_scope :: memory_scope
  mc_kind :: memory_kind
  mc_trust :: trust_class
  mc_confidence :: confidence
  mc_sensitivity :: sensitivity
  mc_validity :: memory_validity
  mc_content :: memory_content
  mc_content_hash :: sha256_digest
  mc_created_at :: timestamp_millis
  mc_exact_match :: bool
  mc_lexical_basis_points :: nat
  mc_conflicted :: bool

record retrieval_scope =
  rs_user_id :: user_id
  rs_workspace_id :: workspace_id
  rs_session_id :: session_id
  rs_agent_id :: "agent_id option"
  rs_as_of :: timestamp_millis
  rs_sensitivity_ceiling :: sensitivity

record ranked_memory =
  rm_candidate :: memory_candidate
  rm_score :: int
  rm_factors :: "rank_factor list"

section \<open>Eligibility\<close>

fun scope_matches :: "retrieval_scope \<Rightarrow> memory_scope \<Rightarrow> bool" where
  "scope_matches r (Scope_User i) \<longleftrightarrow> i = rs_user_id r"
| "scope_matches r (Scope_In_Workspace i) \<longleftrightarrow> i = rs_workspace_id r"
| "scope_matches r (Scope_In_Session i) \<longleftrightarrow> i = rs_session_id r"
| "scope_matches r (Scope_Agent i) \<longleftrightarrow> rs_agent_id r = Some i"

fun validity_contains :: "memory_validity \<Rightarrow> timestamp_millis \<Rightarrow> bool" where
  "validity_contains Indefinite as_of \<longleftrightarrow> True"
| "validity_contains (Valid_From f) as_of \<longleftrightarrow> as_of \<ge> f"
| "validity_contains (Valid_Until u) as_of \<longleftrightarrow> as_of < u"
| "validity_contains (Valid_Window w) as_of \<longleftrightarrow> as_of \<ge> vw_valid_from w \<and> as_of < vw_valid_until w"

fun sensitivity_score :: "sensitivity \<Rightarrow> nat" where
  "sensitivity_score Sens_Public = 0"
| "sensitivity_score Sens_Internal = 1"
| "sensitivity_score Sens_Sensitive = 2"
| "sensitivity_score Sens_Secret = 3"

definition eligible :: "retrieval_scope \<Rightarrow> memory_candidate \<Rightarrow> bool" where
  "eligible scope c \<longleftrightarrow>
     mc_status c = Rev_Active \<and> mc_trust c \<noteq> UntrustedProposal \<and> \<not> mc_conflicted c
     \<and> mc_created_at c \<le> rs_as_of scope
     \<and> sensitivity_score (mc_sensitivity c) \<le> sensitivity_score (rs_sensitivity_ceiling scope)
     \<and> scope_matches scope (mc_scope c) \<and> validity_contains (mc_validity c) (rs_as_of scope)"

section \<open>Scores\<close>

fun authority_score :: "trust_class \<Rightarrow> int" where
  "authority_score UserApproved = 4000"
| "authority_score VerifiedObservation = 3000"
| "authority_score Imported = 2000"
| "authority_score UntrustedProposal = 0"

fun scope_score :: "memory_scope \<Rightarrow> int" where
  "scope_score (Scope_In_Session _) = 800"
| "scope_score (Scope_In_Workspace _) = 600"
| "scope_score (Scope_User _) = 400"
| "scope_score (Scope_Agent _) = 200"

definition saturating_sub_i64 :: "int \<Rightarrow> int \<Rightarrow> int" where
  "saturating_sub_i64 a b = max (- int i64_max - 1) (min (int i64_max) (a - b))"

definition day_ms :: int where "day_ms = 86400000"

definition freshness_score :: "timestamp_millis \<Rightarrow> timestamp_millis \<Rightarrow> int" where
  "freshness_score as_of created_at =
     (let age = saturating_sub_i64 as_of created_at
      in if age \<le> day_ms then 300 else if age \<le> day_ms * 7 then 200
         else if age \<le> day_ms * 30 then 100 else 0)"

definition factor :: "string \<Rightarrow> int \<Rightarrow> rank_reason \<Rightarrow> rank_factor" where
  "factor key contribution reason = \<lparr>rf_key = key, rf_contribution = contribution, rf_reason = reason\<rparr>"

definition rank_factors :: "retrieval_scope \<Rightarrow> memory_candidate \<Rightarrow> rank_factor list" where
  "rank_factors scope c =
     [factor ''authority'' (authority_score (mc_trust c)) Reason_SourceAuthority,
      factor ''exact_match'' (if mc_exact_match c then 2000 else 0) Reason_ExactMatch,
      factor ''lexical_overlap'' (int (min (mc_lexical_basis_points c) 10000) div 5) Reason_LexicalOverlap,
      factor ''scope_specificity'' (scope_score (mc_scope c)) Reason_ScopeSpecificity,
      factor ''freshness'' (freshness_score (rs_as_of scope) (mc_created_at c)) Reason_Freshness,
      factor ''confidence'' (int (confidence_get (mc_confidence c)) div 20) Reason_Confidence]"

definition rank_one :: "retrieval_scope \<Rightarrow> memory_candidate \<Rightarrow> ranked_memory" where
  "rank_one scope c =
     (let factors = rank_factors scope c
      in \<lparr>rm_candidate = c, rm_score = sum_list (map rf_contribution factors), rm_factors = factors\<rparr>)"

definition rank_key :: "ranked_memory \<Rightarrow> int \<times> memory_revision_id \<times> memory_id" where
  "rank_key m = (- rm_score m, mc_revision_id (rm_candidate m), mc_memory_id (rm_candidate m))"

definition deterministic_rank :: "retrieval_scope \<Rightarrow> memory_candidate list \<Rightarrow> ranked_memory list" where
  "deterministic_rank scope candidates =
     sort_key rank_key (map (rank_one scope) (filter (eligible scope) candidates))"

section \<open>The ranking port\<close>

locale memory_ranker =
  fixes rank :: "retrieval_scope \<Rightarrow> memory_candidate list \<Rightarrow> ranked_memory list"
  assumes rank_sound: "m \<in> set (rank scope cs) \<Longrightarrow> rm_candidate m \<in> set cs \<and> eligible scope (rm_candidate m)"
    and rank_factors_bound: "m \<in> set (rank scope cs) \<Longrightarrow> length (rm_factors m) < max_context_admission_reasons"
    and rank_permutation: "distinct (map mc_revision_id cs) \<Longrightarrow> mset cs = mset cs'
      \<Longrightarrow> rank scope cs = rank scope cs'"

lemma rank_one_candidate [simp]: "rm_candidate (rank_one scope c) = c"
  by (simp add: rank_one_def Let_def)

lemma rank_key_inj:
  assumes "distinct (map mc_revision_id cs)"
  shows "inj_on rank_key (set (map (rank_one scope) (filter (eligible scope) cs)))"
proof (rule inj_onI)
  fix x y
  assume "x \<in> set (map (rank_one scope) (filter (eligible scope) cs))"
    and "y \<in> set (map (rank_one scope) (filter (eligible scope) cs))" and key: "rank_key x = rank_key y"
  then obtain c d where "x = rank_one scope c" "y = rank_one scope d" "c \<in> set cs" "d \<in> set cs" by auto
  moreover from this key have "mc_revision_id c = mc_revision_id d" by (simp add: rank_key_def)
  ultimately show "x = y" using assms by (metis distinct_map inj_onD)
qed

lemma deterministic_rank_permutation:
  assumes "distinct (map mc_revision_id cs)" "mset cs = mset cs'"
  shows "deterministic_rank scope cs = deterministic_rank scope cs'"
  unfolding deterministic_rank_def
proof (rule sort_key_inj_key_eq)
  show "mset (map (rank_one scope) (filter (eligible scope) cs)) =
      mset (sort_key rank_key (map (rank_one scope) (filter (eligible scope) cs')))"
    using assms(2) by simp
qed (use rank_key_inj [OF assms(1)] in simp_all)

interpretation deterministic_ranker: memory_ranker deterministic_rank
proof unfold_locales
  fix m scope cs
  assume m: "m \<in> set (deterministic_rank scope cs)"
  then show "rm_candidate m \<in> set cs \<and> eligible scope (rm_candidate m)"
    by (auto simp: deterministic_rank_def)
  from m show "length (rm_factors m) < max_context_admission_reasons"
    by (auto simp: deterministic_rank_def rank_one_def rank_factors_def Let_def max_context_admission_reasons_def)
qed (rule deterministic_rank_permutation)

end
