(* ===== verification/Context_Builder.thy ===== *)
theory Context_Builder
  imports Context_Source
begin

text \<open>
  Construction of the context of one provider turn (\<open>autoharness-memory\<close>: \<open>builder.rs\<close>): observed
  sources and ranked memories are rendered, admitted as whole records while the budgets allow, and sealed
  into the manifest of the turn. The ranker and the sizer are arguments, as the type parameters of the
  builder are.
\<close>

section \<open>Requests and results\<close>

definition context_builder_version :: nat where "context_builder_version = 1"
definition max_rendered_context_bytes :: nat where "max_rendered_context_bytes = 256 * 1024"

record context_build_request =
  cbr_context_turn_id :: context_turn_id
  cbr_epoch_id :: context_epoch_id
  cbr_session_id :: session_id
  cbr_attempt_id :: attempt_id
  cbr_run_turn :: nat
  cbr_expected_session_sequence :: session_sequence
  cbr_memory_generation :: nat
  cbr_model :: model_ref
  cbr_token_budget :: nat
  cbr_reserved_tokens :: nat
  cbr_durable_memory_limit :: nat
  cbr_committed_at :: timestamp_millis
  cbr_retrieval_scope :: retrieval_scope
  cbr_observed_sources :: "observed_source list"
  cbr_audit_snapshots :: "source_snapshot list"
  cbr_memory_candidates :: "memory_candidate list"

record ranked_rendered_memory =
  rr_ranked :: ranked_memory
  rr_rendered :: rendered_memory

record built_context =
  bc_request :: context_build_request
  bc_prelude :: "ustring option"
  bc_rendered_hash :: sha256_digest
  bc_rendered_token_count :: nat
  bc_snapshots :: "source_snapshot list"
  bc_admissions :: "context_admission list"
  bc_selected_sources :: "rendered_source list"
  bc_selected_memories :: "rendered_memory list"

section \<open>Checks\<close>

definition validate_request :: "context_build_request \<Rightarrow> (unit, memory_error) result" where
  "validate_request r =
     (if cbr_run_turn r = 0 \<or> cbr_reserved_tokens r > cbr_token_budget r
      then Err ME_BudgetExceeded else Ok ())"

text \<open>\<open>windows(2).find\<close> with equal members.\<close>

fun adjacent_duplicate :: "'a list \<Rightarrow> 'a option" where
  "adjacent_duplicate (x # y # xs) = (if x = y then Some x else adjacent_duplicate (y # xs))"
| "adjacent_duplicate _ = None"

definition reject_duplicate :: "context_source_key list \<Rightarrow> (unit, memory_error) result" where
  "reject_duplicate keys =
     (case adjacent_duplicate keys of Some k \<Rightarrow> Err (DuplicateSource k) | None \<Rightarrow> Ok ())"

fun validate_unique_revisions ::
  "memory_revision_id set \<Rightarrow> ranked_memory list \<Rightarrow> (unit, memory_error) result" where
  "validate_unique_revisions seen [] = Ok ()"
| "validate_unique_revisions seen (m # ms) =
     (let revision = mc_revision_id (rm_candidate m)
      in if revision \<in> seen then Err (DuplicateMemoryRevision revision)
         else validate_unique_revisions (insert revision seen) ms)"

fun section_priority :: "context_section \<Rightarrow> nat" where
  "section_priority AuthorizedInstruction = 0"
| "section_priority ToolContract = 1"
| "section_priority ConversationHistory = 2"
| "section_priority SafetyPolicy = 3"
| "section_priority CurrentInstruction = 3"
| "section_priority DurableMemory = 4"

definition source_priority ::
  "source_policy \<Rightarrow> context_section \<Rightarrow> context_source_key \<Rightarrow> nat \<times> nat \<times> context_source_key" where
  "source_priority policy section key =
     (if policy = Required then 0 else 1, section_priority section, key)"

section \<open>Budgets\<close>

definition fits_total ::
  "sizer \<Rightarrow> context_build_request \<Rightarrow> rendered_source list \<Rightarrow> rendered_memory list \<Rightarrow> (bool, memory_error) result" where
  "fits_total estimate r sources memories =
     (case render_context_prelude sources memories of
        None \<Rightarrow> Ok (cbr_reserved_tokens r \<le> cbr_token_budget r)
      | Some prelude \<Rightarrow>
          if str_len prelude > max_rendered_context_bytes then Ok False
          else
            and_then (estimate prelude) (\<lambda>rendered.
            and_then (ok_or (checked_add_u64 (cbr_reserved_tokens r) rendered) ME_NumericOverflow) (\<lambda>sum.
            Ok (sum \<le> cbr_token_budget r))))"

definition fits_memory_limit ::
  "sizer \<Rightarrow> context_build_request \<Rightarrow> rendered_memory list \<Rightarrow> (bool, memory_error) result" where
  "fits_memory_limit estimate r memories =
     and_then (estimate (concat (map (\<lambda>m. rmem_rendered m @ [0x0A]) memories))) (\<lambda>n.
     Ok (n \<le> cbr_durable_memory_limit r))"

section \<open>Selection\<close>

fun render_sources ::
  "context_lib \<Rightarrow> sizer \<Rightarrow> observed_source list \<Rightarrow> ((source_policy \<times> rendered_source) list, memory_error) result" where
  "render_sources lib estimate [] = Ok []"
| "render_sources lib estimate (s # ss) =
     and_then (render_source lib estimate s) (\<lambda>r.
     and_then (render_sources lib estimate ss) (\<lambda>rs.
     Ok (case r of None \<Rightarrow> rs | Some x \<Rightarrow> (obs_policy s, x) # rs)))"

fun select_sources ::
  "sizer \<Rightarrow> context_build_request \<Rightarrow> rendered_source list \<Rightarrow> (source_policy \<times> rendered_source) list
     \<Rightarrow> (rendered_source list, memory_error) result" where
  "select_sources estimate r selected [] = Ok selected"
| "select_sources estimate r selected ((policy, source) # rest) =
     and_then (fits_total estimate r (selected @ [source]) []) (\<lambda>fits.
     if fits then select_sources estimate r (selected @ [source]) rest
     else if policy = Required then Err ME_BudgetExceeded
     else select_sources estimate r selected rest)"

fun select_memories ::
  "sizer \<Rightarrow> context_build_request \<Rightarrow> rendered_source list \<Rightarrow> ranked_rendered_memory list
     \<Rightarrow> ranked_rendered_memory list \<Rightarrow> (ranked_rendered_memory list, memory_error) result" where
  "select_memories estimate r sources selected [] = Ok selected"
| "select_memories estimate r sources selected (m # rest) =
     (let trial = selected @ [m]
      in and_then (fits_memory_limit estimate r (map rr_rendered trial)) (\<lambda>within_limit.
         and_then (if within_limit then fits_total estimate r sources (map rr_rendered trial) else Ok False)
           (\<lambda>fits. select_memories estimate r sources (if fits then trial else selected) rest)))"

section \<open>Admissions\<close>

fun admission_factor_of :: "rank_reason \<Rightarrow> admission_factor" where
  "admission_factor_of Reason_SourceAuthority = Factor_Authority"
| "admission_factor_of Reason_ExactMatch = Factor_ExactMatch"
| "admission_factor_of Reason_LexicalOverlap = Factor_LexicalOverlap"
| "admission_factor_of Reason_ScopeSpecificity = Factor_ScopeSpecificity"
| "admission_factor_of Reason_Freshness = Factor_Freshness"
| "admission_factor_of Reason_Confidence = Factor_Confidence"

definition admission_reason_of :: "nat \<Rightarrow> admission_factor \<Rightarrow> int \<Rightarrow> (admission_reason, memory_error) result" where
  "admission_reason_of ordinal kind contribution =
     (if ordinal > u16_max then Err ME_NumericOverflow
      else map_err (\<lambda>_. InvalidDomainValue) (admission_reason_new ordinal kind contribution))"

fun turn_id_str :: "context_turn_id \<Rightarrow> ustring" where "turn_id_str (ContextTurnId s) = s"

definition admission_id_of :: "context_lib \<Rightarrow> context_turn_id \<Rightarrow> nat \<Rightarrow> (context_admission_id, memory_error) result" where
  "admission_id_of lib turn rank =
     and_then (hash_fields (lib_sha256 lib)
       [(ascii ''context_turn_id'', as_bytes (turn_id_str turn)),
        (ascii ''admission_rank'', u64_be_bytes rank)]) (\<lambda>digest.
     and_then (map_err (\<lambda>_. InvalidDomainValue) (validate_identifier (ascii ''ca:'' @ digest_str digest))) (\<lambda>_.
     Ok (ContextAdmissionId (ascii ''ca:'' @ digest_str digest))))"

definition memory_source_key :: "context_lib \<Rightarrow> memory_revision_id \<Rightarrow> (context_source_key, memory_error) result" where
  "memory_source_key lib revision =
     and_then (hash_fields (lib_sha256 lib)
       [(ascii ''memory_revision_id'', as_bytes (revision_str revision))]) (\<lambda>digest.
     and_then (map_err (\<lambda>_. InvalidDomainValue) (validate_identifier (ascii ''memory:'' @ digest_str digest))) (\<lambda>_.
     Ok (ContextSourceKey (ascii ''memory:'' @ digest_str digest))))"

definition checked_rank :: "nat \<Rightarrow> (nat, memory_error) result" where
  "checked_rank rank = (if rank > u32_max then Err ME_NumericOverflow else Ok rank)"

definition source_reasons :: "source_policy \<Rightarrow> (admission_reason list, memory_error) result" where
  "source_reasons policy =
     and_then (if policy = Required
               then and_then (admission_reason_of 1 Factor_Pin 0) (\<lambda>p. Ok [p]) else Ok []) (\<lambda>reasons.
     and_then (admission_reason_of (length reasons + 1) Factor_BudgetFit 0) (\<lambda>b. Ok (reasons @ [b])))"

definition source_admission ::
  "context_lib \<Rightarrow> context_build_request \<Rightarrow> observed_source list \<Rightarrow> nat \<Rightarrow> rendered_source
     \<Rightarrow> (context_admission, memory_error) result" where
  "source_admission lib r observed rank source =
     and_then (ok_or (find (\<lambda>x. snap_source_key (obs_snapshot x) = rsrc_source_key source) observed)
       InvalidDomainValue) (\<lambda>x.
     and_then (source_reasons (obs_policy x)) (\<lambda>reasons.
     and_then (admission_id_of lib (cbr_context_turn_id r) rank) (\<lambda>aid.
     and_then (checked_rank rank) (\<lambda>checked.
     map_err (\<lambda>_. InvalidDomainValue) (context_admission_new
       \<lparr>adm_admission_id = aid, adm_context_turn_id = cbr_context_turn_id r,
        adm_section = rsrc_section source, adm_source_key = rsrc_source_key source,
        adm_source_revision = rsrc_source_revision source, adm_memory_revision_id = None,
        adm_renderer_version = context_renderer_version, adm_rendered_hash = rsrc_rendered_hash source,
        adm_rank = checked, adm_rank_score = 0, adm_token_count = rsrc_estimated_tokens source,
        adm_admitted_at = cbr_committed_at r, adm_reasons = reasons\<rparr>)))))"

definition memory_reasons :: "rank_factor list \<Rightarrow> (admission_reason list, memory_error) result" where
  "memory_reasons factors =
     and_then (try_map (\<lambda>(i, f). admission_reason_of (i + 1) (admission_factor_of (rf_reason f)) (rf_contribution f))
       (enumerate 0 factors)) (\<lambda>reasons.
     and_then (admission_reason_of (length reasons + 1) Factor_BudgetFit 0) (\<lambda>b. Ok (reasons @ [b])))"

definition memory_admission ::
  "context_lib \<Rightarrow> context_build_request \<Rightarrow> nat \<Rightarrow> ranked_rendered_memory
     \<Rightarrow> (context_admission, memory_error) result" where
  "memory_admission lib r rank m =
     and_then (memory_reasons (rm_factors (rr_ranked m))) (\<lambda>reasons.
     and_then (admission_id_of lib (cbr_context_turn_id r) rank) (\<lambda>aid.
     and_then (memory_source_key lib (rmem_revision_id (rr_rendered m))) (\<lambda>key.
     and_then (checked_rank rank) (\<lambda>checked.
     map_err (\<lambda>_. InvalidDomainValue) (context_admission_new
       \<lparr>adm_admission_id = aid, adm_context_turn_id = cbr_context_turn_id r,
        adm_section = DurableMemory, adm_source_key = key,
        adm_source_revision = mc_content_hash (rm_candidate (rr_ranked m)),
        adm_memory_revision_id = Some (rmem_revision_id (rr_rendered m)),
        adm_renderer_version = context_renderer_version,
        adm_rendered_hash = rmem_rendered_hash (rr_rendered m),
        adm_rank = checked, adm_rank_score = rm_score (rr_ranked m),
        adm_token_count = rmem_estimated_tokens (rr_rendered m),
        adm_admitted_at = cbr_committed_at r, adm_reasons = reasons\<rparr>)))))"

definition build_admissions ::
  "context_lib \<Rightarrow> context_build_request \<Rightarrow> observed_source list \<Rightarrow> rendered_source list
     \<Rightarrow> ranked_rendered_memory list \<Rightarrow> (context_admission list, memory_error) result" where
  "build_admissions lib r observed sources memories =
     and_then (try_fold (\<lambda>admissions s.
         and_then (source_admission lib r observed (length admissions + 1) s) (\<lambda>a. Ok (admissions @ [a])))
       [] sources) (\<lambda>admissions.
     try_fold (\<lambda>admissions m.
         and_then (memory_admission lib r (length admissions + 1) m) (\<lambda>a. Ok (admissions @ [a])))
       admissions memories)"

section \<open>Building\<close>

definition rendered_context_hash :: "context_lib \<Rightarrow> ustring \<Rightarrow> (sha256_digest, memory_error) result" where
  "rendered_context_hash lib rendered =
     hash_fields (lib_sha256 lib) [(ascii ''context_renderer_v1'', as_bytes rendered)]"

definition render_memories ::
  "context_lib \<Rightarrow> sizer \<Rightarrow> ranked_memory list \<Rightarrow> (ranked_rendered_memory list, memory_error) result" where
  "render_memories lib estimate ranked =
     try_map (\<lambda>m. and_then (render_memory lib estimate m) (\<lambda>x. Ok \<lparr>rr_ranked = m, rr_rendered = x\<rparr>)) ranked"

text \<open>From the rendering of the sources to the draft, once the observations are in order.\<close>

definition build_rendered ::
  "context_lib \<Rightarrow> sizer \<Rightarrow> context_build_request \<Rightarrow> source_snapshot list \<Rightarrow> ranked_memory list
     \<Rightarrow> (built_context, memory_error) result" where
  "build_rendered lib estimate r snapshots ranked =
     (let observed = cbr_observed_sources r
      in and_then (render_sources lib estimate observed) (\<lambda>rendered_sources.
         let ordered = sort_key (\<lambda>(p, s). source_priority p (rsrc_section s) (rsrc_source_key s)) rendered_sources
         in and_then (validate_unique_revisions {} ranked) (\<lambda>_.
            and_then (render_memories lib estimate ranked) (\<lambda>rendered_memories.
            and_then (select_sources estimate r [] ordered) (\<lambda>selected_sources.
            and_then (select_memories estimate r selected_sources [] rendered_memories) (\<lambda>selected_memories.
            let prelude = render_context_prelude selected_sources (map rr_rendered selected_memories)
            in and_then (case prelude of Some v \<Rightarrow> estimate v
                 | None \<Rightarrow> map_err (\<lambda>_. InvalidDomainValue) (estimated_tokens_new 0)) (\<lambda>count.
               and_then (rendered_context_hash lib (case prelude of Some v \<Rightarrow> v | None \<Rightarrow> [])) (\<lambda>hash.
               and_then (build_admissions lib r observed selected_sources selected_memories) (\<lambda>admissions.
               Ok \<lparr>bc_request = r, bc_prelude = prelude, bc_rendered_hash = hash,
                   bc_rendered_token_count = count, bc_snapshots = snapshots,
                   bc_admissions = admissions, bc_selected_sources = selected_sources,
                   bc_selected_memories = map rr_rendered selected_memories\<rparr>)))))))))"

definition sorted_sources :: "observed_source list \<Rightarrow> observed_source list" where
  "sorted_sources = sort_key (\<lambda>x. snap_source_key (obs_snapshot x))"

definition build ::
  "context_lib \<Rightarrow> (retrieval_scope \<Rightarrow> memory_candidate list \<Rightarrow> ranked_memory list) \<Rightarrow> sizer
     \<Rightarrow> context_build_request \<Rightarrow> (built_context, memory_error) result" where
  "build lib rank estimate r0 =
     and_then (validate_request r0) (\<lambda>_.
     let r = r0\<lparr>cbr_observed_sources := sorted_sources (cbr_observed_sources r0)\<rparr>;
         observed = cbr_observed_sources r
     in and_then (reject_duplicate (map (\<lambda>x. snap_source_key (obs_snapshot x)) observed)) (\<lambda>_.
        if list_ex (\<lambda>s. snap_visibility s \<noteq> AuditOnly) (cbr_audit_snapshots r) then Err InvalidDomainValue
        else
          let snapshots = sort_key snap_source_key (map obs_snapshot observed @ cbr_audit_snapshots r)
          in and_then (reject_duplicate (map snap_source_key snapshots)) (\<lambda>_.
             build_rendered lib estimate r snapshots
               (rank (cbr_retrieval_scope r) (cbr_memory_candidates r)))))"

section \<open>Sealing\<close>

fun session_id_str :: "session_id \<Rightarrow> ustring" where "session_id_str (SessionId s) = s"
fun attempt_id_str :: "attempt_id \<Rightarrow> ustring" where "attempt_id_str (AttemptId s) = s"
fun provider_id_str :: "provider_id \<Rightarrow> ustring" where "provider_id_str (ProviderId s) = s"
fun model_id_str :: "model_id \<Rightarrow> ustring" where "model_id_str (ModelId s) = s"

text \<open>The fields of \<open>hash_manifest_material\<close>; the hash of the manifest itself is not among them.\<close>

definition manifest_fields :: "context_lib \<Rightarrow> turn_manifest \<Rightarrow> (ustring \<times> bytes) list" where
  "manifest_fields lib m =
     [(ascii ''manifest_schema'', u64_be_bytes context_builder_version),
      (ascii ''context_turn_id'', as_bytes (turn_id_str (tm_context_turn_id m))),
      (ascii ''epoch_id'', as_bytes (epoch_str (tm_epoch_id m))),
      (ascii ''session_id'', as_bytes (session_id_str (tm_session_id m))),
      (ascii ''attempt_id'', as_bytes (attempt_id_str (tm_attempt_id m))),
      (ascii ''run_turn'', u64_be_bytes (tm_run_turn m)),
      (ascii ''expected_session_sequence'', u64_be_bytes (tm_expected_session_sequence m)),
      (ascii ''memory_generation'', u64_be_bytes (tm_memory_generation m)),
      (ascii ''provider_id'', as_bytes (provider_id_str (model_provider (tm_model m)))),
      (ascii ''model_id'', as_bytes (model_id_str (model_name (tm_model m)))),
      (ascii ''request_hash'', as_bytes (digest_str (tm_request_hash m))),
      (ascii ''rendered_hash'', as_bytes (digest_str (tm_rendered_hash m))),
      (ascii ''eligibility'', lib_eligibility_json lib (tm_eligibility m)),
      (ascii ''token_budget'', u64_be_bytes (ba_token_budget (tm_budget m))),
      (ascii ''reserved_tokens'', u64_be_bytes (ba_reserved_tokens (tm_budget m))),
      (ascii ''durable_memory_limit'', u64_be_bytes (ba_durable_memory_limit (tm_budget m))),
      (ascii ''rendered_token_count'', u64_be_bytes (tm_rendered_token_count m)),
      (ascii ''committed_at'', i64_be_bytes (tm_committed_at m)),
      (ascii ''sources'', lib_sources_json lib (tm_sources m)),
      (ascii ''admissions'', lib_admissions_json lib (tm_admissions m))]"

definition context_manifest_hash :: "context_lib \<Rightarrow> turn_manifest \<Rightarrow> (sha256_digest, memory_error) result" where
  "context_manifest_hash lib m = hash_fields (lib_sha256 lib) (manifest_fields lib m)"

definition verify_context_manifest_hash :: "context_lib \<Rightarrow> turn_manifest \<Rightarrow> (bool, memory_error) result" where
  "verify_context_manifest_hash lib m =
     and_then (context_manifest_hash lib m) (\<lambda>d. Ok (d = tm_manifest_hash m))"

definition verify_rendered_context_hash ::
  "context_lib \<Rightarrow> ustring \<Rightarrow> sha256_digest \<Rightarrow> (bool, memory_error) result" where
  "verify_rendered_context_hash lib rendered expected =
     and_then (rendered_context_hash lib rendered) (\<lambda>d. Ok (d = expected))"

definition eligibility_of :: "retrieval_scope \<Rightarrow> context_eligibility" where
  "eligibility_of s =
     \<lparr>elig_user_id = rs_user_id s, elig_workspace_id = rs_workspace_id s,
      elig_session_id = rs_session_id s, elig_agent_id = rs_agent_id s,
      elig_sensitivity_ceiling = rs_sensitivity_ceiling s\<rparr>"

definition manifest_of ::
  "built_context \<Rightarrow> budget_allocation \<Rightarrow> sha256_digest \<Rightarrow> sha256_digest \<Rightarrow> turn_manifest" where
  "manifest_of b budget request_hash manifest_hash =
     (let r = bc_request b
      in \<lparr>tm_context_turn_id = cbr_context_turn_id r, tm_epoch_id = cbr_epoch_id r,
          tm_session_id = cbr_session_id r, tm_attempt_id = cbr_attempt_id r,
          tm_run_turn = cbr_run_turn r, tm_expected_session_sequence = cbr_expected_session_sequence r,
          tm_memory_generation = cbr_memory_generation r, tm_model = cbr_model r,
          tm_request_hash = request_hash, tm_rendered_hash = bc_rendered_hash b,
          tm_manifest_hash = manifest_hash, tm_eligibility = eligibility_of (cbr_retrieval_scope r),
          tm_budget = budget, tm_rendered_token_count = bc_rendered_token_count b,
          tm_committed_at = cbr_committed_at r, tm_sources = bc_snapshots b,
          tm_admissions = bc_admissions b\<rparr>)"

text \<open>The material is hashed before the manifest's own hash is known; any digest can stand in for it.\<close>

definition seal :: "context_lib \<Rightarrow> built_context \<Rightarrow> sha256_digest \<Rightarrow> (turn_manifest, memory_error) result" where
  "seal lib b request_hash =
     (let r = bc_request b
      in and_then (map_err (\<lambda>_. InvalidDomainValue)
           (budget_allocation_new (cbr_token_budget r) (cbr_reserved_tokens r) (cbr_durable_memory_limit r)))
           (\<lambda>budget.
         and_then (context_manifest_hash lib (manifest_of b budget request_hash request_hash)) (\<lambda>manifest_hash.
         map_err (\<lambda>_. InvalidDomainValue)
           (turn_manifest_new (manifest_of b budget request_hash manifest_hash)))))"

end
