(* ===== verification/Context_Laws.thy ===== *)
theory Context_Laws
  imports Context_Builder "HOL-Library.Sublist"
begin

text \<open>
  What the context builder guarantees, proved once for every ranker and every sizer that meet the
  contracts \<open>memory_ranker\<close> and \<open>context_sizer\<close>: which records are selected, what they weigh, and
  when the draft can be sealed.
\<close>

section \<open>Steps of a successful build\<close>

lemma reject_duplicate_Ok: "reject_duplicate ks = Ok u \<longleftrightarrow> adjacent_duplicate ks = None"
  by (simp add: reject_duplicate_def split: option.splits)

definition ordered_request :: "context_build_request \<Rightarrow> context_build_request" where
  "ordered_request r = r\<lparr>cbr_observed_sources := sorted_sources (cbr_observed_sources r)\<rparr>"

definition request_snapshots :: "context_build_request \<Rightarrow> source_snapshot list" where
  "request_snapshots r = sort_key snap_source_key
     (map obs_snapshot (sorted_sources (cbr_observed_sources r)) @ cbr_audit_snapshots r)"

definition ordered_sources :: "(source_policy \<times> rendered_source) list \<Rightarrow> (source_policy \<times> rendered_source) list" where
  "ordered_sources = sort_key (\<lambda>(p, s). source_priority p (rsrc_section s) (rsrc_source_key s))"

lemma build_unfold:
  "build lib rank estimate r =
     and_then (validate_request r) (\<lambda>_.
     and_then (reject_duplicate (map (\<lambda>x. snap_source_key (obs_snapshot x)) (sorted_sources (cbr_observed_sources r)))) (\<lambda>_.
     if list_ex (\<lambda>s. snap_visibility s \<noteq> AuditOnly) (cbr_audit_snapshots r) then Err InvalidDomainValue
     else and_then (reject_duplicate (map snap_source_key (request_snapshots r))) (\<lambda>_.
       build_rendered lib estimate (ordered_request r) (request_snapshots r)
         (rank (cbr_retrieval_scope r) (cbr_memory_candidates r)))))"
  by (simp add: build_def Let_def ordered_request_def request_snapshots_def)

lemma build_OkD:
  assumes "build lib rank estimate r = Ok b"
  shows "cbr_run_turn r \<noteq> 0" "cbr_reserved_tokens r \<le> cbr_token_budget r"
    and "adjacent_duplicate (map snap_source_key (request_snapshots r)) = None"
    and "build_rendered lib estimate (ordered_request r) (request_snapshots r)
      (rank (cbr_retrieval_scope r) (cbr_memory_candidates r)) = Ok b"
  using assms by (auto simp: build_unfold and_then_Ok reject_duplicate_Ok validate_request_def split: if_splits)

lemma build_rendered_OkE:
  assumes "build_rendered lib estimate r snapshots ranked = Ok b"
  obtains rendered memories sources selected hash count admissions where
    "render_sources lib estimate (cbr_observed_sources r) = Ok rendered"
    "validate_unique_revisions {} ranked = Ok ()"
    "render_memories lib estimate ranked = Ok memories"
    "select_sources estimate r [] (ordered_sources rendered) = Ok sources"
    "select_memories estimate r sources [] memories = Ok selected"
    "(case render_context_prelude sources (map rr_rendered selected) of Some v \<Rightarrow> estimate v
      | None \<Rightarrow> map_err (\<lambda>_. InvalidDomainValue) (estimated_tokens_new 0)) = Ok count"
    "build_admissions lib r (cbr_observed_sources r) sources selected = Ok admissions"
    "b = \<lparr>bc_request = r, bc_prelude = render_context_prelude sources (map rr_rendered selected),
          bc_rendered_hash = hash, bc_rendered_token_count = count, bc_snapshots = snapshots,
          bc_admissions = admissions, bc_selected_sources = sources,
          bc_selected_memories = map rr_rendered selected\<rparr>"
  using assms unfolding build_rendered_def Let_def and_then_Ok ordered_sources_def [symmetric]
  by auto

section \<open>Ordered keys\<close>

lemma adjacent_duplicate_sorted:
  "sorted (xs :: 'a :: linorder list) \<Longrightarrow> adjacent_duplicate xs = None \<longleftrightarrow> sorted_wrt (<) xs"
  by (induction xs rule: adjacent_duplicate.induct) force+

lemma strict_sorted_distinct: "sorted_wrt (<) (xs :: 'a :: linorder list) \<longleftrightarrow> sorted xs \<and> distinct xs"
  by (rule strict_sorted_iff)

lemma sort_key_mset:
  assumes "mset xs = mset ys" "distinct (map f xs)"
  shows "sort_key f xs = sort_key f (ys :: 'a list)"
proof (rule sort_key_inj_key_eq)
  show "mset xs = mset (sort_key f ys)" using assms(1) by simp
  show "inj_on f (set xs)" using assms(2) by (simp add: distinct_map)
qed simp

lemma sorted_keys_mset:
  assumes "mset xs = mset ys"
  shows "map f (sort_key f xs) = map f (sort_key f (ys :: 'a list))"
proof -
  have "sort (map f ys) = map f (sort_key f xs)" by (rule properties_for_sort) (simp_all add: assms)
  moreover have "sort (map f ys) = map f (sort_key f ys)" by (rule properties_for_sort) simp_all
  ultimately show ?thesis by simp
qed

lemma sort_key_no_duplicate:
  assumes "adjacent_duplicate (map f (sort_key f xs)) = None" "mset xs = mset ys"
  shows "sort_key f xs = sort_key f (ys :: 'a list)"
proof -
  have "distinct (map f (sort_key f xs))"
    using adjacent_duplicate_sorted [of "map f (sort_key f xs)"] assms(1) by (simp add: strict_sorted_distinct)
  moreover have "mset (map f (sort_key f xs)) = mset (map f xs)" by simp
  ultimately have "distinct (map f xs)" using mset_eq_imp_distinct_iff by blast
  then show ?thesis using sort_key_mset [OF assms(2)] by blast
qed

lemma request_snapshots_sorted: "sorted (map snap_source_key (request_snapshots r))"
  by (simp add: request_snapshots_def)

section \<open>Selection\<close>

lemma select_sources_step:
  "select_sources estimate r acc ((policy, s) # ps) = Ok out \<longleftrightarrow>
     fits_total estimate r (acc @ [s]) [] = Ok True \<and> select_sources estimate r (acc @ [s]) ps = Ok out
     \<or> fits_total estimate r (acc @ [s]) [] = Ok False \<and> policy \<noteq> Required
       \<and> select_sources estimate r acc ps = Ok out"
  by (cases "fits_total estimate r (acc @ [s]) []") auto

lemma select_sources_subseq:
  "select_sources estimate r acc ps = Ok out \<Longrightarrow> \<exists>ss. out = acc @ ss \<and> subseq ss (map snd ps)"
proof (induction ps arbitrary: acc)
  case (Cons p ps)
  obtain policy s where p: "p = (policy, s)" by (cases p)
  from Cons.prems consider (fits) "select_sources estimate r (acc @ [s]) ps = Ok out"
    | (skipped) "policy \<noteq> Required" "select_sources estimate r acc ps = Ok out"
    unfolding p select_sources_step by blast
  then show ?case
  proof cases
    case fits
    from Cons.IH [OF this] obtain ss where "out = acc @ [s] @ ss" "subseq ss (map snd ps)" by auto
    then show ?thesis by (intro exI [of _ "s # ss"]) (simp add: p)
  next
    case skipped
    then show ?thesis using Cons.IH [of acc] by (auto simp: p)
  qed
qed simp

lemma select_sources_required:
  "select_sources estimate r acc ps = Ok out \<Longrightarrow> (Required, s) \<in> set ps \<Longrightarrow> s \<in> set out"
proof (induction ps arbitrary: acc)
  case (Cons p ps)
  obtain policy s' where p: "p = (policy, s')" by (cases p)
  from Cons.prems(1) consider (fits) "select_sources estimate r (acc @ [s']) ps = Ok out"
    | (skipped) "policy \<noteq> Required" "select_sources estimate r acc ps = Ok out"
    unfolding p select_sources_step by blast
  then show ?case
  proof cases
    case fits
    then show ?thesis using select_sources_subseq [OF fits] Cons.IH [OF fits] Cons.prems(2) by (auto simp: p)
  next
    case skipped
    then show ?thesis using Cons.IH [OF skipped(2)] Cons.prems(2) by (auto simp: p)
  qed
qed simp

lemma select_memories_subseq:
  "select_memories estimate r sources acc ms = Ok out \<Longrightarrow> \<exists>xs. out = acc @ xs \<and> subseq xs ms"
proof (induction ms arbitrary: acc)
  case (Cons m ms)
  from Cons.prems obtain fits where
    "select_memories estimate r sources (if fits then acc @ [m] else acc) ms = Ok out"
    by (auto simp: Let_def and_then_Ok)
  from Cons.IH [OF this] obtain xs where "out = (if fits then acc @ [m] else acc) @ xs" "subseq xs ms" by blast
  then show ?case
    by (intro exI [of _ "if fits then m # xs else xs"]) auto
qed simp

lemma subseq_set: "subseq xs ys \<Longrightarrow> set xs \<subseteq> set ys"
  by (auto dest: list_emb_set)

lemma subseq_distinct: "subseq xs ys \<Longrightarrow> distinct ys \<Longrightarrow> distinct xs"
  by (induction rule: list_emb.induct) (auto dest: subseq_set)

lemma validate_unique_revisions_Ok:
  "validate_unique_revisions seen ms = Ok u \<longleftrightarrow>
     distinct (map (\<lambda>m. mc_revision_id (rm_candidate m)) ms)
     \<and> seen \<inter> (\<lambda>m. mc_revision_id (rm_candidate m)) ` set ms = {}"
  by (induction ms arbitrary: seen) (auto simp: Let_def)

lemma render_memory_Ok:
  assumes "render_memory lib estimate m = Ok x"
  shows "rmem_memory_id x = mc_memory_id (rm_candidate m)" "rmem_revision_id x = mc_revision_id (rm_candidate m)"
    "rmem_rendered x = memory_record lib (rm_candidate m)"
    "estimate (rmem_rendered x @ [0x0A]) = Ok (rmem_estimated_tokens x)"
  using assms by (auto simp: render_memory_def Let_def and_then_Ok)

lemma render_memories_Ok:
  assumes "render_memories lib estimate ranked = Ok ms"
  shows "map rr_ranked ms = ranked" "m \<in> set ms \<Longrightarrow> render_memory lib estimate (rr_ranked m) = Ok (rr_rendered m)"
proof -
  have each: "list_all2 (\<lambda>x y. rr_ranked y = x \<and> render_memory lib estimate x = Ok (rr_rendered y)) ranked ms"
    using try_map_each [OF assms [unfolded render_memories_def]]
    by (rule list_all2_mono) (auto simp: and_then_Ok)
  then show "map rr_ranked ms = ranked" by (induction rule: list_all2_induct) auto
  show "m \<in> set ms \<Longrightarrow> render_memory lib estimate (rr_ranked m) = Ok (rr_rendered m)"
    using each by (induction rule: list_all2_induct) auto
qed

text \<open>The memories of a draft, in ranking order, with the candidates they render.\<close>

lemma selected_memories_of_build:
  assumes "build lib rank estimate r = Ok b"
  obtains ms :: "ranked_rendered_memory list" where "bc_selected_memories b = map rr_rendered ms"
    "subseq (map rr_ranked ms) (rank (cbr_retrieval_scope r) (cbr_memory_candidates r))"
    "\<forall>m \<in> set ms. render_memory lib estimate (rr_ranked m) = Ok (rr_rendered m)"
    "distinct (map (\<lambda>m. mc_revision_id (rm_candidate (rr_ranked m))) ms)"
proof -
  from build_rendered_OkE [OF build_OkD(4) [OF assms]] obtain rendered memories sources ms where
    unique: "validate_unique_revisions {} (rank (cbr_retrieval_scope r) (cbr_memory_candidates r)) = Ok ()"
    and memories: "render_memories lib estimate (rank (cbr_retrieval_scope r) (cbr_memory_candidates r)) = Ok memories"
    and ms: "select_memories estimate (ordered_request r) sources [] memories = Ok ms"
    and b: "bc_selected_memories b = map rr_rendered ms"
    by (metis (no_types, lifting) built_context.select_convs(8))
  from select_memories_subseq [OF ms] have sub: "subseq ms memories" by simp
  note sub_ranked = subseq_map [OF sub, of rr_ranked, unfolded render_memories_Ok(1) [OF memories]]
  have "subseq (map (\<lambda>m. mc_revision_id (rm_candidate m)) (map rr_ranked ms))
      (map (\<lambda>m. mc_revision_id (rm_candidate m)) (rank (cbr_retrieval_scope r) (cbr_memory_candidates r)))"
    using subseq_map [OF sub_ranked] .
  with unique have "distinct (map (\<lambda>m. mc_revision_id (rm_candidate (rr_ranked m))) ms)"
    using subseq_distinct by (fastforce simp: validate_unique_revisions_Ok comp_def)
  then show ?thesis
    using b sub_ranked render_memories_Ok(2) [OF memories] subseq_set [OF sub] by (intro that [of ms]) auto
qed

context memory_ranker
begin

lemma build_selects_eligible:
  assumes "build lib rank estimate r = Ok b" "m \<in> set (bc_selected_memories b)"
  shows "\<exists>c \<in> set (cbr_memory_candidates r). eligible (cbr_retrieval_scope r) c
    \<and> rmem_revision_id m = mc_revision_id c \<and> rmem_rendered m = memory_record lib c"
proof -
  from selected_memories_of_build [OF assms(1)] obtain ms :: "ranked_rendered_memory list" where
    ms: "bc_selected_memories b = map rr_rendered ms"
    "subseq (map rr_ranked ms) (rank (cbr_retrieval_scope r) (cbr_memory_candidates r))"
    "\<forall>m \<in> set ms. render_memory lib estimate (rr_ranked m) = Ok (rr_rendered m)" by metis
  from assms(2) ms(1) obtain x where x: "x \<in> set ms" "m = rr_rendered x" by auto
  with ms(2) have "rr_ranked x \<in> set (rank (cbr_retrieval_scope r) (cbr_memory_candidates r))"
    using subseq_set by fastforce
  from rank_sound [OF this] render_memory_Ok [of lib estimate "rr_ranked x" m] ms(3) x
  show ?thesis by auto
qed

end

section \<open>Required sources\<close>

lemma render_source_Some:
  assumes "render_source lib estimate x = Ok (Some s)"
  shows "rsrc_source_key s = snap_source_key (obs_snapshot x)" "obs_section x = Some (rsrc_section s)"
    "estimate (rsrc_rendered s @ [0x0A]) = Ok (rsrc_estimated_tokens s)"
    "\<exists>revision v. snap_source_revision (obs_snapshot x) = Some revision \<and> obs_value x = Some v
      \<and> rsrc_rendered s = source_record lib (rsrc_source_key s) revision (rsrc_section s) (source_value_str v)"
  using assms by (auto simp: render_source_def and_then_Ok Let_def split: option.splits)

lemma render_source_None: "render_source lib estimate x = Ok None \<longleftrightarrow> obs_value x = None"
  by (auto simp: render_source_def and_then_Ok Let_def split: option.splits)

lemma render_sources_Ok:
  "render_sources lib estimate xs = Ok ps \<Longrightarrow>
     (policy, s) \<in> set ps \<longleftrightarrow> (\<exists>x \<in> set xs. obs_policy x = policy \<and> render_source lib estimate x = Ok (Some s))"
proof (induction xs arbitrary: ps)
  case (Cons x xs)
  from Cons.prems obtain o_s qs where
    "render_source lib estimate x = Ok o_s" "render_sources lib estimate xs = Ok qs"
    "ps = (case o_s of None \<Rightarrow> qs | Some y \<Rightarrow> (obs_policy x, y) # qs)"
    by (auto simp: and_then_Ok)
  then show ?case using Cons.IH [of qs] by (cases o_s) auto
qed simp

lemma render_sources_each:
  "render_sources lib estimate xs = Ok ps \<Longrightarrow> x \<in> set xs \<Longrightarrow> \<exists>y. render_source lib estimate x = Ok y"
  by (induction xs arbitrary: ps) (auto simp: and_then_Ok)

lemma set_sorted_sources [simp]: "set (sorted_sources xs) = set xs"
  by (simp add: sorted_sources_def)

text \<open>The sources of a draft are rendered from the observations, and every required one is among them.\<close>

lemma selected_sources_of_build:
  assumes "build lib rank estimate r = Ok b"
  shows "s \<in> set (bc_selected_sources b) \<Longrightarrow>
      \<exists>x \<in> set (cbr_observed_sources r). render_source lib estimate x = Ok (Some s)"
    and "x \<in> set (cbr_observed_sources r) \<Longrightarrow> obs_policy x = Required \<Longrightarrow> obs_value x \<noteq> None \<Longrightarrow>
      \<exists>s \<in> set (bc_selected_sources b). render_source lib estimate x = Ok (Some s)"
proof -
  from build_rendered_OkE [OF build_OkD(4) [OF assms]] obtain rendered sources where
    rendered: "render_sources lib estimate (cbr_observed_sources (ordered_request r)) = Ok rendered"
    and sources: "select_sources estimate (ordered_request r) [] (ordered_sources rendered) = Ok sources"
    and b: "bc_selected_sources b = sources"
    by (metis (no_types, lifting) built_context.select_convs(7))
  have observed: "set (cbr_observed_sources (ordered_request r)) = set (cbr_observed_sources r)"
    by (simp add: ordered_request_def)
  note member = render_sources_Ok [OF rendered, unfolded observed]
  {
    assume "s \<in> set (bc_selected_sources b)"
    with select_sources_subseq [OF sources] b have "s \<in> snd ` set rendered"
      using subseq_set by (fastforce simp: ordered_sources_def)
    then show "\<exists>x \<in> set (cbr_observed_sources r). render_source lib estimate x = Ok (Some s)"
      using member by fastforce
  }
  assume x: "x \<in> set (cbr_observed_sources r)" "obs_policy x = Required" "obs_value x \<noteq> None"
  then obtain s where s: "render_source lib estimate x = Ok (Some s)"
    using render_sources_each [OF rendered, of x] render_source_None [of lib estimate x] observed
    by (metis option.exhaust)
  with x member have "(Required, s) \<in> set (ordered_sources rendered)" by (force simp: ordered_sources_def)
  with select_sources_required [OF sources] b s
  show "\<exists>s \<in> set (bc_selected_sources b). render_source lib estimate x = Ok (Some s)" by blast
qed

lemma observe_one_Ok:
  assumes "observe_one lib source observed_at retained = Ok x"
  shows "snap_source_key (obs_snapshot x) = src_key source" "obs_policy x = src_policy source"
    "src_policy source = Required \<Longrightarrow> obs_value x \<noteq> None"
    "obs_section x \<notin> {Some SafetyPolicy, Some CurrentInstruction, Some DurableMemory}"
  using assms
  by (auto simp: observe_one_def observed_value_def observed_without_value_def snapshot_new_def Let_def
      snapshot_new_with_visibility_def validate_source_section_def and_then_Ok map_err_Ok
      split: source_read.splits option.splits if_splits)

lemma observe_all_Ok:
  assumes "observe_all lib sources observed_at retained = Ok xs"
  shows "\<exists>by_key. list_all2 (\<lambda>s x. observe_one lib s observed_at (by_key (src_key s)) = Ok x) sources xs"
  using assms try_map_each by (auto simp: observe_all_def and_then_Ok)

lemma observe_all_member:
  assumes "observe_all lib sources observed_at retained = Ok xs" "x \<in> set xs"
  shows "\<exists>s \<in> set sources. \<exists>ret. observe_one lib s observed_at ret = Ok x"
  using observe_all_Ok [OF assms(1)] assms(2) by (auto simp: list_all2_conv_all_nth in_set_conv_nth) (metis nth_mem)

section \<open>Admissions\<close>

lemma try_fold_collect:
  "try_fold (\<lambda>acc x. and_then (f (length acc + 1) x) (\<lambda>a. Ok (acc @ [a]))) acc xs = Ok out \<Longrightarrow>
     \<exists>ys. out = acc @ ys \<and> length ys = length xs \<and> (\<forall>i < length xs. f (length acc + i + 1) (xs ! i) = Ok (ys ! i))"
proof (induction xs arbitrary: acc)
  case (Cons x xs)
  then obtain y where y: "f (length acc + 1) x = Ok y"
    "try_fold (\<lambda>acc x. and_then (f (length acc + 1) x) (\<lambda>a. Ok (acc @ [a]))) (acc @ [y]) xs = Ok out"
    by (auto simp: and_then_Ok)
  from Cons.IH [OF y(2)] obtain ys where ys: "out = acc @ y # ys" "length ys = length xs"
    "\<forall>i < length xs. f (length acc + Suc i + 1) (xs ! i) = Ok (ys ! i)" by auto
  with y(1) show ?case by (intro exI [of _ "y # ys"]) (auto simp: less_Suc_eq_0_disj)
qed simp

lemma context_admission_new_Ok: "context_admission_new a = Ok b \<Longrightarrow> b = a"
  by (auto simp: context_admission_new_def split: if_splits)

lemma checked_rank_Ok: "checked_rank n = Ok k \<Longrightarrow> k = n"
  by (auto simp: checked_rank_def split: if_splits)

lemma source_admission_Ok:
  assumes "source_admission lib r observed rank s = Ok a"
  shows "adm_rank a = rank \<and> adm_context_turn_id a = cbr_context_turn_id r
    \<and> adm_section a = rsrc_section s \<and> adm_token_count a = rsrc_estimated_tokens s"
  using assms
  by (auto simp: source_admission_def and_then_Ok map_err_Ok dest!: context_admission_new_Ok checked_rank_Ok)

lemma memory_admission_Ok:
  assumes "memory_admission lib r rank m = Ok a"
  shows "adm_rank a = rank \<and> adm_context_turn_id a = cbr_context_turn_id r
    \<and> adm_section a = DurableMemory \<and> adm_token_count a = rmem_estimated_tokens (rr_rendered m)"
  using assms
  by (auto simp: memory_admission_def and_then_Ok map_err_Ok dest!: context_admission_new_Ok checked_rank_Ok)

lemma build_admissions_Ok:
  assumes "build_admissions lib r observed sources memories = Ok admissions"
  obtains xs ys where "admissions = xs @ ys"
    "map adm_token_count xs = map rsrc_estimated_tokens sources" "map adm_section xs = map rsrc_section sources"
    "map adm_token_count ys = map (\<lambda>m. rmem_estimated_tokens (rr_rendered m)) memories"
    "\<forall>a \<in> set ys. adm_section a = DurableMemory"
    "\<forall>i < length admissions. adm_rank (admissions ! i) = i + 1
      \<and> adm_context_turn_id (admissions ! i) = cbr_context_turn_id r"
proof -
  from assms obtain xs where
    xs: "try_fold (\<lambda>acc s. and_then (source_admission lib r observed (length acc + 1) s) (\<lambda>a. Ok (acc @ [a])))
      [] sources = Ok xs"
    and all: "try_fold (\<lambda>acc m. and_then (memory_admission lib r (length acc + 1) m) (\<lambda>a. Ok (acc @ [a])))
      xs memories = Ok admissions"
    by (auto simp: build_admissions_def and_then_Ok)
  from try_fold_collect [OF xs] have lx: "length xs = length sources"
    and sx: "\<And>i. i < length sources \<Longrightarrow> source_admission lib r observed (i + 1) (sources ! i) = Ok (xs ! i)"
    by auto
  from try_fold_collect [OF all] obtain ys where a: "admissions = xs @ ys" "length ys = length memories"
    and my: "\<And>i. i < length memories \<Longrightarrow> memory_admission lib r (length xs + i + 1) (memories ! i) = Ok (ys ! i)"
    by auto
  note sx' = source_admission_Ok [OF sx] and my' = memory_admission_Ok [OF my]
  show thesis
  proof (rule that [OF a(1)])
    show "map adm_token_count xs = map rsrc_estimated_tokens sources" "map adm_section xs = map rsrc_section sources"
      using lx sx' by (auto intro!: nth_equalityI)
    show "map adm_token_count ys = map (\<lambda>m. rmem_estimated_tokens (rr_rendered m)) memories"
      "\<forall>a \<in> set ys. adm_section a = DurableMemory"
      using a(2) my' by (auto intro!: nth_equalityI simp: in_set_conv_nth)
    have "adm_rank (admissions ! i) = i + 1 \<and> adm_context_turn_id (admissions ! i) = cbr_context_turn_id r"
      if "i < length admissions" for i
    proof (cases "i < length xs")
      case True
      then show ?thesis using sx' [of i] lx by (simp add: a(1) nth_append)
    next
      case False
      then show ?thesis using my' [of "i - length xs"] that a by (simp add: nth_append)
    qed
    then show "\<forall>i < length admissions. adm_rank (admissions ! i) = i + 1
      \<and> adm_context_turn_id (admissions ! i) = cbr_context_turn_id r" by blast
  qed
qed

section \<open>Weights\<close>

lemma select_sources_fits:
  "select_sources estimate r acc ps = Ok out \<Longrightarrow> acc = [] \<or> fits_total estimate r acc [] = Ok True \<Longrightarrow>
     out = [] \<or> fits_total estimate r out [] = Ok True"
proof (induction ps arbitrary: acc)
  case (Cons p ps)
  obtain policy s where p: "p = (policy, s)" by (cases p)
  from Cons.prems(1) show ?case unfolding p select_sources_step using Cons.IH Cons.prems(2) by blast
qed simp

lemma select_memories_fits:
  "select_memories estimate r sources acc ms = Ok out \<Longrightarrow>
     acc = [] \<or> fits_memory_limit estimate r (map rr_rendered acc) = Ok True
       \<and> fits_total estimate r sources (map rr_rendered acc) = Ok True \<Longrightarrow>
     out = [] \<or> fits_memory_limit estimate r (map rr_rendered out) = Ok True
       \<and> fits_total estimate r sources (map rr_rendered out) = Ok True"
proof (induction ms arbitrary: acc)
  case (Cons m ms)
  from Cons.prems(1) obtain within fits where
    "fits_memory_limit estimate r (map rr_rendered (acc @ [m])) = Ok within"
    "(if within then fits_total estimate r sources (map rr_rendered (acc @ [m])) else Ok False) = Ok fits"
    "select_memories estimate r sources (if fits then acc @ [m] else acc) ms = Ok out"
    by (auto simp: Let_def and_then_Ok)
  then show ?case
    using Cons.IH [of "if fits then acc @ [m] else acc"] Cons.prems(2) by (cases fits; cases within) auto
qed simp

lemma fits_total_True:
  assumes "fits_total estimate r sources memories = Ok True" "render_context_prelude sources memories = Some p"
    "estimate p = Ok n"
  shows "cbr_reserved_tokens r + n \<le> cbr_token_budget r"
  using assms by (auto simp: fits_total_def and_then_Ok checked_add_u64_Some split: if_splits)

lemma fits_memory_limit_True:
  "fits_memory_limit estimate r memories = Ok True \<longleftrightarrow>
     (\<exists>n \<le> cbr_durable_memory_limit r. estimate (concat (map (\<lambda>m. rmem_rendered m @ [0x0A]) memories)) = Ok n)"
  by (auto simp: fits_memory_limit_def and_then_Ok)

text \<open>Records of a draft weigh what their renderings were estimated at.\<close>

definition weighed_source :: "sizer \<Rightarrow> rendered_source \<Rightarrow> bool" where
  "weighed_source estimate s \<longleftrightarrow> estimate (rsrc_rendered s @ [0x0A]) = Ok (rsrc_estimated_tokens s)"

definition weighed_memory :: "sizer \<Rightarrow> rendered_memory \<Rightarrow> bool" where
  "weighed_memory estimate m \<longleftrightarrow> estimate (rmem_rendered m @ [0x0A]) = Ok (rmem_estimated_tokens m)"

lemma weighed_list:
  "list_all2 (\<lambda>s k. estimate s = Ok k) (map f xs) ns \<Longrightarrow> \<forall>x \<in> set xs. estimate (f x) = Ok (g x) \<Longrightarrow> ns = map g xs"
  by (auto simp: list_all2_conv_all_nth intro!: nth_equalityI)

text \<open>The parts of a draft: sources, memories, their weight and their admissions.\<close>

definition draft_parts ::
  "sizer \<Rightarrow> context_build_request \<Rightarrow> built_context \<Rightarrow> rendered_source list \<Rightarrow> ranked_rendered_memory list \<Rightarrow> nat
     \<Rightarrow> context_admission list \<Rightarrow> context_admission list \<Rightarrow> bool" where
  "draft_parts estimate r b sources ms tokens xs ys \<longleftrightarrow>
     bc_request b = ordered_request r \<and> bc_snapshots b = request_snapshots r
     \<and> bc_selected_sources b = sources \<and> bc_rendered_token_count b = tokens \<and> bc_admissions b = xs @ ys
     \<and> (\<forall>s \<in> set sources. weighed_source estimate s) \<and> (\<forall>m \<in> set (map rr_rendered ms). weighed_memory estimate m)
     \<and> map adm_token_count xs = map rsrc_estimated_tokens sources \<and> map adm_section xs = map rsrc_section sources
     \<and> map adm_token_count ys = map rmem_estimated_tokens (map rr_rendered ms)
     \<and> (\<forall>a \<in> set ys. adm_section a = DurableMemory)
     \<and> (\<forall>i < length (xs @ ys). adm_rank ((xs @ ys) ! i) = i + 1
          \<and> adm_context_turn_id ((xs @ ys) ! i) = cbr_context_turn_id r)
     \<and> (sources = [] \<and> ms = [] \<and> tokens = 0 \<or> (\<exists>p. render_context_prelude sources (map rr_rendered ms) = Some p
          \<and> estimate p = Ok tokens \<and> fits_total estimate (ordered_request r) sources (map rr_rendered ms) = Ok True))
     \<and> (ms = [] \<or> fits_memory_limit estimate (ordered_request r) (map rr_rendered ms) = Ok True)"

context context_sizer
begin

lemma memories_weight:
  assumes "estimate (concat (map (\<lambda>m. rmem_rendered m @ [0x0A]) ms)) = Ok n" "\<forall>m \<in> set ms. weighed_memory estimate m"
  shows "sum_list (map rmem_estimated_tokens ms) \<le> n"
proof -
  from estimate_concat [OF assms(1)] obtain ns where
    "list_all2 (\<lambda>s k. estimate s = Ok k) (map (\<lambda>m. rmem_rendered m @ [0x0A]) ms) ns" "sum_list ns \<le> n" by blast
  with weighed_list [OF this(1), of rmem_estimated_tokens] assms(2) show ?thesis by (simp add: weighed_memory_def)
qed

lemma sources_weight:
  assumes "estimate (concat (map (\<lambda>s. rsrc_rendered s @ [0x0A]) ss)) = Ok n" "\<forall>s \<in> set ss. weighed_source estimate s"
  shows "sum_list (map rsrc_estimated_tokens ss) \<le> n"
proof -
  from estimate_concat [OF assms(1)] obtain ns where
    "list_all2 (\<lambda>s k. estimate s = Ok k) (map (\<lambda>s. rsrc_rendered s @ [0x0A]) ss) ns" "sum_list ns \<le> n" by blast
  with weighed_list [OF this(1), of rsrc_estimated_tokens] assms(2) show ?thesis by (simp add: weighed_source_def)
qed

lemma prelude_weight:
  assumes "render_context_prelude ss ms = Some p" "estimate p = Ok n"
    "\<forall>s \<in> set ss. weighed_source estimate s" "\<forall>m \<in> set ms. weighed_memory estimate m"
  shows "sum_list (map rsrc_estimated_tokens ss) + sum_list (map rmem_estimated_tokens ms) \<le> n"
proof -
  from assms(1) have p: "p = context_prelude_v1 @ concat (map (\<lambda>s. rsrc_rendered s @ [0x0A]) ss)
      @ concat (map (\<lambda>m. rmem_rendered m @ [0x0A]) ms)"
    by (auto simp: render_context_prelude_def split: if_splits)
  obtain a b where "estimate (concat (map (\<lambda>s. rsrc_rendered s @ [0x0A]) ss)
      @ concat (map (\<lambda>m. rmem_rendered m @ [0x0A]) ms)) = Ok b" "b \<le> n"
    using superadditive [OF assms(2) [unfolded p]] by auto
  moreover obtain c d where "estimate (concat (map (\<lambda>s. rsrc_rendered s @ [0x0A]) ss)) = Ok c"
    "estimate (concat (map (\<lambda>m. rmem_rendered m @ [0x0A]) ms)) = Ok d" "c + d \<le> b"
    using superadditive [OF calculation(1)] by auto
  ultimately show ?thesis using sources_weight [OF _ assms(3), of c] memories_weight [OF _ assms(4), of d] by simp
qed

lemma build_draft:
  assumes "build lib rank estimate r = Ok b"
  shows "\<exists>sources ms count xs ys. draft_parts estimate r b sources ms count xs ys"
proof -
  from build_rendered_OkE [OF build_OkD(4) [OF assms]] obtain rendered memories sources ms hash count admissions where
    rendered: "render_memories lib estimate (rank (cbr_retrieval_scope r) (cbr_memory_candidates r)) = Ok memories"
    and sources: "select_sources estimate (ordered_request r) [] (ordered_sources rendered) = Ok sources"
    and ms: "select_memories estimate (ordered_request r) sources [] memories = Ok ms"
    and count: "(case render_context_prelude sources (map rr_rendered ms) of Some v \<Rightarrow> estimate v
      | None \<Rightarrow> map_err (\<lambda>_. InvalidDomainValue) (estimated_tokens_new 0)) = Ok count"
    and admissions: "build_admissions lib (ordered_request r) (cbr_observed_sources (ordered_request r)) sources ms = Ok admissions"
    and b: "b = \<lparr>bc_request = ordered_request r, bc_prelude = render_context_prelude sources (map rr_rendered ms),
          bc_rendered_hash = hash, bc_rendered_token_count = count, bc_snapshots = request_snapshots r,
          bc_admissions = admissions, bc_selected_sources = sources,
          bc_selected_memories = map rr_rendered ms\<rparr>" .
  have ws: "\<forall>s \<in> set sources. weighed_source estimate s"
    using selected_sources_of_build(1) [OF assms] render_source_Some(3) unfolding b weighed_source_def by fastforce
  have "\<forall>m \<in> set ms. render_memory lib estimate (rr_ranked m) = Ok (rr_rendered m)"
    using select_memories_subseq [OF ms] render_memories_Ok(2) [OF rendered] subseq_set by fastforce
  then have wm: "\<forall>m \<in> set (map rr_rendered ms). weighed_memory estimate m"
    using render_memory_Ok(4) unfolding weighed_memory_def by fastforce
  have fits: "sources = [] \<and> ms = [] \<or> fits_total estimate (ordered_request r) sources (map rr_rendered ms) = Ok True"
    using select_sources_fits [OF sources] select_memories_fits [OF ms] by auto
  obtain xs ys where a: "admissions = xs @ ys"
    "map adm_token_count xs = map rsrc_estimated_tokens sources" "map adm_section xs = map rsrc_section sources"
    "map adm_token_count ys = map (\<lambda>m. rmem_estimated_tokens (rr_rendered m)) ms"
    "\<forall>a \<in> set ys. adm_section a = DurableMemory"
    "\<forall>i < length admissions. adm_rank (admissions ! i) = i + 1
      \<and> adm_context_turn_id (admissions ! i) = cbr_context_turn_id (ordered_request r)"
    by (rule build_admissions_Ok [OF admissions])
  have "draft_parts estimate r b sources ms count xs ys"
    unfolding draft_parts_def
  proof (intro conjI)
    show "sources = [] \<and> ms = [] \<and> count = 0 \<or> (\<exists>p. render_context_prelude sources (map rr_rendered ms) = Some p
      \<and> estimate p = Ok count \<and> fits_total estimate (ordered_request r) sources (map rr_rendered ms) = Ok True)"
      using count fits by (auto simp: render_context_prelude_def estimated_tokens_new_def map_err_Ok split: if_splits)
    show "ms = [] \<or> fits_memory_limit estimate (ordered_request r) (map rr_rendered ms) = Ok True"
      using select_memories_fits [OF ms] by auto
  qed (use ws wm a in \<open>auto simp: b comp_def ordered_request_def\<close>)
  then show ?thesis by blast
qed

text \<open>What a draft weighs, against the budgets of its request.\<close>

lemma build_weight:
  assumes "build lib rank estimate r = Ok b"
  shows "bc_rendered_token_count b \<le> cbr_token_budget r - cbr_reserved_tokens r"
    and "sum_list (map adm_token_count (bc_admissions b)) \<le> bc_rendered_token_count b"
    and "bc_rendered_token_count b \<le> i64_max"
proof -
  from build_draft [OF assms] obtain sources and ms :: "ranked_rendered_memory list" and count xs ys where
    parts: "draft_parts estimate r b sources ms count xs ys" by blast
  then have b: "bc_rendered_token_count b = count" "bc_admissions b = xs @ ys"
    and w: "\<forall>s \<in> set sources. weighed_source estimate s" "\<forall>m \<in> set (map rr_rendered ms). weighed_memory estimate m"
    and a: "map adm_token_count xs = map rsrc_estimated_tokens sources"
      "map adm_token_count ys = map rmem_estimated_tokens (map rr_rendered ms)"
    and fits: "sources = [] \<and> ms = [] \<and> count = 0 \<or> (\<exists>p. render_context_prelude sources (map rr_rendered ms) = Some p
      \<and> estimate p = Ok count \<and> fits_total estimate (ordered_request r) sources (map rr_rendered ms) = Ok True)"
    unfolding draft_parts_def by blast+
  from fits have "cbr_reserved_tokens r + count \<le> cbr_token_budget r"
    using fits_total_True [of estimate "ordered_request r" sources "map rr_rendered ms"] build_OkD(2) [OF assms]
    by (auto simp: ordered_request_def)
  then show "bc_rendered_token_count b \<le> cbr_token_budget r - cbr_reserved_tokens r" by (simp add: b)
  from fits have "sum_list (map rsrc_estimated_tokens sources) + sum_list (map rmem_estimated_tokens (map rr_rendered ms)) \<le> count"
    using prelude_weight [OF _ _ w] by auto
  then show "sum_list (map adm_token_count (bc_admissions b)) \<le> bc_rendered_token_count b"
    using a by (simp add: b)
  from fits show "bc_rendered_token_count b \<le> i64_max"
    using estimate_range by (auto simp: b simp del: int_max_values)
qed

lemma build_durable_weight:
  assumes "build lib rank estimate r = Ok b" "\<forall>s \<in> set (bc_selected_sources b). rsrc_section s \<noteq> DurableMemory"
  shows "sum_list (map adm_token_count (filter (\<lambda>a. adm_section a = DurableMemory) (bc_admissions b)))
    \<le> cbr_durable_memory_limit r"
proof -
  from build_draft [OF assms(1)] obtain sources and ms :: "ranked_rendered_memory list" and count xs ys where
    parts: "draft_parts estimate r b sources ms count xs ys" by blast
  then have b: "bc_selected_sources b = sources" "bc_admissions b = xs @ ys"
    and w: "\<forall>m \<in> set (map rr_rendered ms). weighed_memory estimate m"
    and a: "map adm_section xs = map rsrc_section sources"
      "map adm_token_count ys = map rmem_estimated_tokens (map rr_rendered ms)" "\<forall>a \<in> set ys. adm_section a = DurableMemory"
    and fits: "ms = [] \<or> fits_memory_limit estimate (ordered_request r) (map rr_rendered ms) = Ok True"
    unfolding draft_parts_def by blast+
  have "\<forall>k \<in> set (map adm_section xs). k \<noteq> DurableMemory" unfolding a(1) using assms(2) by (simp add: b)
  then have "filter (\<lambda>a. adm_section a = DurableMemory) (bc_admissions b) = ys" using a(3) by (simp add: b)
  moreover have "sum_list (map rmem_estimated_tokens (map rr_rendered ms)) \<le> cbr_durable_memory_limit r"
    using fits memories_weight [OF _ w] unfolding fits_memory_limit_True
    by (auto simp: ordered_request_def intro: order_trans)
  ultimately show ?thesis using a(2) by simp
qed

text \<open>A draft that respects the sizes of a manifest can always be sealed.\<close>

lemma seal_draft:
  assumes "build lib rank estimate r = Ok b" "\<forall>s \<in> set (bc_selected_sources b). rsrc_section s \<noteq> DurableMemory"
    and "rs_session_id (cbr_retrieval_scope r) = cbr_session_id r"
    and "cbr_durable_memory_limit r \<le> cbr_token_budget r - cbr_reserved_tokens r"
    and "length (bc_snapshots b) \<le> max_context_sources" "length (bc_admissions b) \<le> max_context_admissions"
    and "tm_manifest_hash m = h"
      "m = manifest_of b \<lparr>ba_token_budget = cbr_token_budget r, ba_reserved_tokens = cbr_reserved_tokens r,
        ba_durable_memory_limit = cbr_durable_memory_limit r\<rparr> request_hash h"
  shows "turn_manifest_new m = Ok m"
proof -
  from build_draft [OF assms(1)] have b: "bc_request b = ordered_request r" "bc_snapshots b = request_snapshots r"
    "\<forall>i < length (bc_admissions b). adm_rank (bc_admissions b ! i) = i + 1
      \<and> adm_context_turn_id (bc_admissions b ! i) = cbr_context_turn_id r"
    unfolding draft_parts_def by auto
  note weight = build_weight [OF assms(1)] build_durable_weight [OF assms(1,2)]
  have sum_le: "sum_list (map adm_token_count (filter P as)) \<le> sum_list (map adm_token_count as)" for P as
    by (induction as) auto
  have "checked_sum 0 (map adm_token_count (bc_admissions b)) = Some (sum_list (map adm_token_count (bc_admissions b)))"
    using checked_sum_Some [of 0 "map adm_token_count (bc_admissions b)"] weight(2,3) by simp
  moreover have "checked_sum 0 (map adm_token_count (filter (\<lambda>a. adm_section a = DurableMemory) (bc_admissions b)))
      = Some (sum_list (map adm_token_count (filter (\<lambda>a. adm_section a = DurableMemory) (bc_admissions b))))"
    using checked_sum_Some [of 0] weight(2,3) sum_le [of "\<lambda>a. adm_section a = DurableMemory" "bc_admissions b"] by simp
  moreover have "sorted_wrt (<) (map snap_source_key (bc_snapshots b))"
    using adjacent_duplicate_sorted [OF request_snapshots_sorted] build_OkD(3) [OF assms(1)] by (simp add: b)
  moreover have "\<not> list_ex (\<lambda>(i, a). adm_context_turn_id a \<noteq> cbr_context_turn_id r \<or> adm_rank a \<noteq> i + 1)
      (enumerate 0 (bc_admissions b))"
    using b(3) by (auto simp: list_ex_iff in_set_enumerate_eq)
  ultimately show ?thesis
    using assms(3-6) weight build_OkD(1) [OF assms(1)]
    by (simp add: turn_manifest_new_def assms(8) manifest_of_def Let_def b ordered_request_def eligibility_of_def
        rendered_limit_def exceeds_def)
qed

end

end
