(* ===== verification/Context_Properties.thy ===== *)
theory Context_Properties
  imports Context_Laws
begin

text \<open>
  Properties of context construction: what may enter the context of a turn, what must, that rendered
  content cannot forge the boundaries of records, that drafts fit their budgets and can be sealed, and
  that the result does not depend on the order in which observations and candidates arrive.
\<close>

section \<open>Boundary tags\<close>

text \<open>The tags a reader finds in rendered text: from each opening angle bracket to the next closing one.\<close>

fun tags_in :: "ustring \<Rightarrow> ustring list" where
  "tags_in [] = []"
| "tags_in (c # cs) =
     (if c = 0x3C \<and> 0x3E \<in> set cs then (c # takeWhile (\<lambda>d. d \<noteq> 0x3E) cs @ [0x3E]) # tags_in cs
      else tags_in cs)"

lemma tags_in_plain: "0x3C \<notin> set s \<Longrightarrow> tags_in (s @ t) = tags_in t"
  by (induction s) auto

lemma tags_in_tag:
  assumes "0x3C \<notin> set body" "0x3E \<notin> set body"
  shows "tags_in (0x3C # body @ 0x3E # t) = (0x3C # body @ [0x3E]) # tags_in t"
proof -
  have "tags_in (body @ [0x3E] @ t) = tags_in t"
    using tags_in_plain [of "body @ [0x3E]" t] assms(1) by simp
  moreover have "takeWhile (\<lambda>d. d \<noteq> 0x3E) (body @ 0x3E # t) = body"
    using assms(2) by (subst takeWhile_append2) auto
  ultimately show ?thesis by simp
qed

lemma boundary_safe_no_open: "0x3C \<notin> set (boundary_safe_json_string lib v)"
  by (auto simp: boundary_safe_json_string_def replace_char_def ascii_def split: if_splits)

lemma decimal_no_open: "0x3C \<notin> set (decimal n)"
  using decimal_digits [of "0x3C" n] by auto

lemma plain_parts:
  "0x3C \<notin> set (json_key ''memory_id'')" "0x3C \<notin> set (json_key ''revision_id'')" "0x3C \<notin> set (json_key ''bytes'')"
  "0x3C \<notin> set (json_key ''content'')" "0x3C \<notin> set (json_key ''source_key'')" "0x3C \<notin> set (json_key ''source_revision'')"
  "0x3C \<notin> set (json_key ''section'')" "0x3C \<notin> set (ascii (section_name sec))" "0x3C \<notin> set context_prelude_v1"
  by (simp_all add: json_key_def ascii_def context_prelude_v1_def) (cases sec; simp)+

definition memory_tags :: "ustring list" where
  "memory_tags = [ascii ''<autoharness-memory-data-v1>'', ascii ''</autoharness-memory-data-v1>'']"

definition record_tags :: "context_section \<Rightarrow> ustring list" where
  "record_tags section = [ascii (fst (source_tags section)), ascii (snd (source_tags section))]"

lemmas plain_text = plain_parts boundary_safe_no_open decimal_no_open

lemma tags_in_memory_record: "tags_in (memory_record lib c @ t) = memory_tags @ tags_in t"
proof -
  define body where "body = [0x0A] @ ascii ''{''
     @ json_key ''memory_id'' @ boundary_safe_json_string lib (memory_id_str (mc_memory_id c)) @ ascii '',''
     @ json_key ''revision_id'' @ boundary_safe_json_string lib (revision_str (mc_revision_id c)) @ ascii '',''
     @ json_key ''bytes'' @ decimal (str_len (content_str (mc_content c))) @ ascii '',''
     @ json_key ''content'' @ boundary_safe_json_string lib (content_str (mc_content c)) @ ascii ''}'' @ [0x0A]"
  have body: "0x3C \<notin> set body" using plain_text by (simp add: body_def ascii_def)
  have "memory_record lib c @ t
      = 0x3C # ascii ''autoharness-memory-data-v1'' @ 0x3E # body @ 0x3C # ascii ''/autoharness-memory-data-v1'' @ 0x3E # t"
    by (simp add: memory_record_def body_def ascii_def)
  then show ?thesis
    using tags_in_tag [of "ascii ''autoharness-memory-data-v1''"] tags_in_tag [of "ascii ''/autoharness-memory-data-v1''"]
      tags_in_plain [OF body] by (simp add: memory_tags_def ascii_def)
qed

lemma source_tags_shape:
  "\<exists>name. source_tags sec = (''<'' @ name @ ''>'', ''</'' @ name @ ''>'') \<and> 0x3C \<notin> set (ascii name) \<and> 0x3E \<notin> set (ascii name)"
proof (cases "sec = AuthorizedInstruction")
  case True
  then show ?thesis
    by (intro exI [of _ "''autoharness-authorized-instruction-v1''"]) (simp add: source_tags_def ascii_def)
next
  case False
  then show ?thesis
    by (intro exI [of _ "''autoharness-context-data-v1''"]) (simp add: source_tags_def ascii_def)
qed

lemma tags_in_source_record:
  "tags_in (source_record lib key revision sec v @ t) = record_tags sec @ tags_in t"
proof -
  obtain name where name: "source_tags sec = (''<'' @ name @ ''>'', ''</'' @ name @ ''>'')"
    "0x3C \<notin> set (ascii name)" "0x3E \<notin> set (ascii name)" using source_tags_shape by blast
  define body where "body = [0x0A] @ ascii ''{''
     @ json_key ''source_key'' @ boundary_safe_json_string lib (source_key_str key) @ ascii '',''
     @ json_key ''source_revision'' @ boundary_safe_json_string lib (digest_str revision) @ ascii '',''
     @ json_key ''section'' @ [0x22] @ ascii (section_name sec) @ [0x22] @ ascii '',''
     @ json_key ''bytes'' @ decimal (str_len v) @ ascii '',''
     @ json_key ''content'' @ boundary_safe_json_string lib v @ ascii ''}'' @ [0x0A]"
  have body: "0x3C \<notin> set body" using plain_text by (simp add: body_def ascii_def)
  have "source_record lib key revision sec v @ t
      = 0x3C # ascii name @ 0x3E # body @ 0x3C # (0x2F # ascii name) @ 0x3E # t"
    by (simp add: source_record_def body_def name(1) ascii_def)
  then show ?thesis
    using tags_in_tag [OF name(2,3)] tags_in_tag [of "0x2F # ascii name"] name(2,3) tags_in_plain [OF body]
    by (simp add: record_tags_def name(1) ascii_def)
qed

lemma tags_in_records:
  "\<forall>x \<in> set xs. \<forall>t. tags_in (f x @ t) = g x @ tags_in t \<Longrightarrow>
     tags_in (concat (map (\<lambda>x. f x @ [0x0A]) xs) @ t) = concat (map g xs) @ tags_in t"
  by (induction xs) simp_all

section \<open>Order of arrival\<close>

text \<open>A build looks at candidates and audit snapshots only through the ranking and the ordered snapshots.\<close>

definition same_limits :: "context_build_request \<Rightarrow> context_build_request \<Rightarrow> bool" where
  "same_limits r r' \<longleftrightarrow>
     cbr_context_turn_id r' = cbr_context_turn_id r \<and> cbr_token_budget r' = cbr_token_budget r
     \<and> cbr_reserved_tokens r' = cbr_reserved_tokens r \<and> cbr_durable_memory_limit r' = cbr_durable_memory_limit r
     \<and> cbr_committed_at r' = cbr_committed_at r \<and> cbr_observed_sources r' = cbr_observed_sources r"

lemma same_limits_steps:
  assumes "same_limits r r'"
  shows "fits_total estimate r' ss ms = fits_total estimate r ss ms"
    "fits_memory_limit estimate r' ms = fits_memory_limit estimate r ms"
    "source_admission lib r' observed k s = source_admission lib r observed k s"
    "memory_admission lib r' k m = memory_admission lib r k m"
  using assms
  by (simp_all add: same_limits_def fits_total_def fits_memory_limit_def source_admission_def memory_admission_def
      cong: option.case_cong if_cong)

lemma same_limits_select_sources:
  "same_limits r r' \<Longrightarrow> select_sources estimate r' acc ps = select_sources estimate r acc ps"
proof (induction ps arbitrary: acc)
  case (Cons p ps)
  then show ?case by (cases p) (simp add: same_limits_steps cong: if_cong)
qed simp

lemma same_limits_select_memories:
  "same_limits r r' \<Longrightarrow> select_memories estimate r' sources acc ms = select_memories estimate r sources acc ms"
  by (induction ms arbitrary: acc) (simp_all add: same_limits_steps Let_def cong: if_cong)

lemma same_limits_admissions:
  "same_limits r r' \<Longrightarrow> build_admissions lib r' observed ss mm = build_admissions lib r observed ss mm"
  by (simp add: build_admissions_def same_limits_steps)

lemma build_rendered_same_limits:
  assumes "same_limits r r'"
  shows "build_rendered lib estimate r' snapshots ranked =
    and_then (build_rendered lib estimate r snapshots ranked) (\<lambda>b. Ok (b\<lparr>bc_request := r'\<rparr>))"
  by (simp add: build_rendered_def Let_def and_then_assoc assms [unfolded same_limits_def]
      same_limits_select_sources [OF assms] same_limits_select_memories [OF assms] same_limits_admissions [OF assms])

context memory_ranker
begin

lemma build_permutation:
  assumes "mset (cbr_observed_sources r) = mset observed" "mset (cbr_audit_snapshots r) = mset audit"
    "mset (cbr_memory_candidates r) = mset candidates" "distinct (map mc_revision_id (cbr_memory_candidates r))"
    "r' = r\<lparr>cbr_observed_sources := observed, cbr_audit_snapshots := audit, cbr_memory_candidates := candidates\<rparr>"
  shows "build lib rank estimate r' =
    and_then (build lib rank estimate r) (\<lambda>b. Ok (b\<lparr>bc_request := ordered_request r'\<rparr>))"
proof -
  let ?key = "\<lambda>x. snap_source_key (obs_snapshot x)"
  let ?sources = "cbr_observed_sources r"
  have keys: "map ?key (sorted_sources observed) = map ?key (sorted_sources ?sources)"
    unfolding sorted_sources_def by (rule sorted_keys_mset [OF assms(1) [symmetric]])
  have snapshots: "mset (map obs_snapshot (sorted_sources ?sources) @ cbr_audit_snapshots r)
      = mset (map obs_snapshot (sorted_sources observed) @ audit)"
    using assms(1,2) by (simp add: sorted_sources_def)
  have snapshot_keys: "map snap_source_key (request_snapshots r') = map snap_source_key (request_snapshots r)"
    unfolding request_snapshots_def assms(5) using sorted_keys_mset [OF snapshots [symmetric]] by simp
  have audit: "list_ex P audit \<longleftrightarrow> list_ex P (cbr_audit_snapshots r)" for P
    using mset_eq_setD [OF assms(2)] by (simp add: list_ex_iff)
  have same: "build_rendered lib estimate (ordered_request r') (request_snapshots r')
        (rank (cbr_retrieval_scope r) candidates)
      = and_then (build_rendered lib estimate (ordered_request r) (request_snapshots r)
          (rank (cbr_retrieval_scope r) (cbr_memory_candidates r))) (\<lambda>b. Ok (b\<lparr>bc_request := ordered_request r'\<rparr>))"
    if "adjacent_duplicate (map ?key (sorted_sources ?sources)) = None"
      "adjacent_duplicate (map snap_source_key (request_snapshots r)) = None"
  proof -
    have "sorted_sources ?sources = sorted_sources observed"
      using that(1) assms(1) unfolding sorted_sources_def by (rule sort_key_no_duplicate)
    then have "same_limits (ordered_request r) (ordered_request r')"
      by (simp add: same_limits_def ordered_request_def assms(5))
    moreover have "request_snapshots r' = request_snapshots r"
      using sort_key_no_duplicate [OF that(2) [unfolded request_snapshots_def] snapshots]
      by (simp add: request_snapshots_def assms(5))
    ultimately show ?thesis
      using build_rendered_same_limits rank_permutation [OF assms(4,3)] by simp
  qed
  have fields: "validate_request r' = validate_request r" "cbr_audit_snapshots r' = audit"
    "cbr_observed_sources r' = observed" "cbr_memory_candidates r' = candidates"
    "cbr_retrieval_scope r' = cbr_retrieval_scope r"
    by (simp_all add: assms(5) validate_request_def)
  show ?thesis
    unfolding build_unfold fields keys snapshot_keys audit and_then_assoc
    using same by (auto simp: reject_duplicate_def and_then_assoc validate_request_def split: option.splits)
qed

end

section \<open>A concrete turn\<close>

definition example_lib :: context_lib where
  "example_lib =
     \<lparr>lib_sha256 = (\<lambda>_. replicate 32 0), lib_json_string = (\<lambda>s. [0x22] @ s @ [0x22]),
      lib_eligibility_json = (\<lambda>_. []), lib_sources_json = (\<lambda>_. []), lib_admissions_json = (\<lambda>_. [])\<rparr>"

definition example_digest :: sha256_digest where "example_digest = Sha256Digest (replicate 64 97)"

definition example_candidate :: "string \<Rightarrow> sensitivity \<Rightarrow> memory_candidate" where
  "example_candidate name level =
     \<lparr>mc_memory_id = MemoryId (ascii ''m''), mc_revision_id = MemoryRevisionId (ascii name),
      mc_status = Rev_Active, mc_scope = Scope_User (UserId (ascii ''u'')), mc_kind = Kind_Preference,
      mc_trust = UserApproved, mc_confidence = ConfidenceBasisPoints 900, mc_sensitivity = level,
      mc_validity = Indefinite, mc_content = MemoryContent (ascii ''<x>''), mc_content_hash = example_digest,
      mc_created_at = 0, mc_exact_match = True, mc_lexical_basis_points = 0, mc_conflicted = False\<rparr>"

definition example_registry :: source_registry where
  "example_registry =
     [\<lparr>src_key = ContextSourceKey (ascii ''s''), src_policy = Required,
       src_observe = Read_Available AuthorizedInstruction example_digest (ContextSourceValue (ascii ''go''))\<rparr>]"

definition zero_digest :: sha256_digest where "zero_digest = Sha256Digest (replicate 64 48)"

definition example_observed :: "observed_source" where
  "example_observed =
     \<lparr>obs_snapshot = \<lparr>snap_source_key = ContextSourceKey (ascii ''s''), snap_observation_state = Obs_Available,
       snap_visibility = PreludeEligible, snap_source_revision = Some example_digest,
       snap_value_hash = Some zero_digest, snap_observed_at = 0\<rparr>,
      obs_policy = Required, obs_section = Some AuthorizedInstruction,
      obs_value = Some (ContextSourceValue (ascii ''go''))\<rparr>"

definition example_request :: context_build_request where
  "example_request =
     \<lparr>cbr_context_turn_id = ContextTurnId (ascii ''t''), cbr_epoch_id = ContextEpochId (ascii ''e''),
      cbr_session_id = SessionId (ascii ''s''), cbr_attempt_id = AttemptId (ascii ''a''), cbr_run_turn = 1,
      cbr_expected_session_sequence = 1, cbr_memory_generation = 1,
      cbr_model = \<lparr>model_provider = ProviderId (ascii ''p''), model_name = ModelId (ascii ''m'')\<rparr>,
      cbr_token_budget = 4000, cbr_reserved_tokens = 1000, cbr_durable_memory_limit = 1000, cbr_committed_at = 0,
      cbr_retrieval_scope = \<lparr>rs_user_id = UserId (ascii ''u''), rs_workspace_id = WorkspaceId (ascii ''w''),
        rs_session_id = SessionId (ascii ''s''), rs_agent_id = None, rs_as_of = 5, rs_sensitivity_ceiling = Sens_Internal\<rparr>,
      cbr_observed_sources = [example_observed], cbr_audit_snapshots = [],
      cbr_memory_candidates = [example_candidate ''r1'' Sens_Public, example_candidate ''r2'' Sens_Secret]\<rparr>"

lemma example_hash: "fields_fit fs \<Longrightarrow> hash_fields (lib_sha256 example_lib) fs = Ok zero_digest"
proof -
  have sha: "sha_ok (\<lambda>_. replicate 32 0)" by (simp add: sha_ok_def)
  have "concat (map hex_byte (replicate n 0)) = replicate (2 * n) 48" for n
    by (induction n) (simp_all add: hex_byte_def hex_digit_def)
  then have "encoder_finish (\<lambda>_. replicate 32 0) out = Ok zero_digest" for out
    unfolding encoder_finish_Ok [OF sha] by (simp add: zero_digest_def)
  then show "fields_fit fs \<Longrightarrow> ?thesis"
    by (simp add: hash_fields_def example_lib_def) (metis and_then.simps(1) encode_fields_Ok)
qed

lemma example_observe: "observe_all example_lib example_registry 0 [] = Ok [example_observed]"
proof -
  have "fields_fit [(ascii ''context_source_key'', as_bytes (ascii ''s'')),
      (ascii ''context_section'', as_bytes (ascii ''authorized_instruction'')),
      (ascii ''context_value'', as_bytes (ascii ''go''))]"
    by (simp add: fields_fit_def length_as_bytes length_utf8_char ascii_def len_utf8_def)
  from example_hash [OF this] show ?thesis
    by (simp add: observe_all_def example_registry_def observe_one_def observed_value_def
        validate_source_section_def hash_source_value_def snapshot_new_def snapshot_new_with_visibility_def
        example_observed_def)
qed

abbreviation example_memory :: memory_candidate where
  "example_memory \<equiv> example_candidate ''r1'' Sens_Public"

lemma replace_char_replicate [simp]: "c \<noteq> d \<Longrightarrow> replace_char c r (replicate n d) = replicate n d"
  by (induction n) (simp_all add: replace_char_def)

lemma replace_char_append [simp]: "replace_char c r (s @ t) = replace_char c r s @ replace_char c r t"
  by (simp add: replace_char_def)

lemma replace_char_Cons [simp]:
  "replace_char c r (d # s) = (if d = c then ascii r else [d]) @ replace_char c r s" "replace_char c r [] = []"
  by (simp_all add: replace_char_def)

lemma str_len_replicate [simp]: "str_len (replicate n c) = n * len_utf8 c"
  by (induction n) simp_all

lemma example_lengths:
  "str_len (memory_record example_lib example_memory) = 131"
  "str_len (source_record example_lib (ContextSourceKey (ascii ''s'')) example_digest AuthorizedInstruction (ascii ''go'')) = 244"
  "str_len context_prelude_v1 = 254"
  by (simp_all add: memory_record_def source_record_def example_candidate_def example_digest_def example_lib_def
      boundary_safe_json_string_def json_key_def ascii_def len_utf8_def decimal.simps source_tags_def
      context_prelude_v1_def)

definition example_source :: rendered_source where
  "example_source =
     \<lparr>rsrc_source_key = ContextSourceKey (ascii ''s''), rsrc_source_revision = example_digest,
      rsrc_section = AuthorizedInstruction,
      rsrc_rendered = source_record example_lib (ContextSourceKey (ascii ''s'')) example_digest
        AuthorizedInstruction (ascii ''go''),
      rsrc_rendered_hash = zero_digest, rsrc_estimated_tokens = 245\<rparr>"

definition example_rendered :: rendered_memory where
  "example_rendered =
     \<lparr>rmem_memory_id = MemoryId (ascii ''m''), rmem_revision_id = MemoryRevisionId (ascii ''r1''),
      rmem_rendered = memory_record example_lib example_memory, rmem_rendered_hash = zero_digest,
      rmem_estimated_tokens = 132\<rparr>"

lemma example_fit:
  "str_len n \<le> 1000 \<Longrightarrow> str_len s \<le> 1000 \<Longrightarrow> fields_fit fs \<Longrightarrow> fields_fit ((n, as_bytes s) # fs)"
  "str_len n \<le> 1000 \<Longrightarrow> length bs \<le> 1000 \<Longrightarrow> fields_fit fs \<Longrightarrow> fields_fit ((n, bs) # fs)" "fields_fit []"
  by (simp_all add: fields_fit_def length_as_bytes)

lemma str_len_ascii: "list_all (\<lambda>c. of_char c < (128 :: nat)) s \<Longrightarrow> str_len (ascii s) = length s"
  by (induction s) (simp_all add: ascii_def len_utf8_def)

lemma example_digest_lengths [simp]: "str_len (digest_str example_digest) = 64" "str_len (digest_str zero_digest) = 64"
  by (simp_all add: example_digest_def zero_digest_def len_utf8_def)

lemma example_render_source: "render_source example_lib utf8_estimate example_observed = Ok (Some example_source)"
proof -
  have "hash_fields (lib_sha256 example_lib)
      [(ascii ''renderer'', as_bytes (ascii source_renderer_v1)), (ascii ''source_key'', as_bytes (ascii ''s'')),
       (ascii ''source_revision'', as_bytes (digest_str example_digest)),
       (ascii ''section'', as_bytes (ascii ''authorized_instruction'')),
       (ascii ''rendered'', as_bytes (source_record example_lib (ContextSourceKey (ascii ''s'')) example_digest
          AuthorizedInstruction (ascii ''go'')))] = Ok zero_digest"
    by (intro example_hash example_fit)
      (simp_all add: example_lengths str_len_ascii source_renderer_v1_def)
  then show ?thesis
    by (simp add: render_source_def Let_def example_observed_def example_source_def utf8_estimate_def estimated_tokens_new_def
        example_lengths len_utf8_def)
qed

lemma example_render_memory:
  "render_memory example_lib utf8_estimate (rank_one scope example_memory) = Ok example_rendered"
proof -
  have "hash_fields (lib_sha256 example_lib)
      [(ascii ''renderer'', as_bytes (ascii memory_renderer_v1)), (ascii ''memory_id'', as_bytes (ascii ''m'')),
       (ascii ''revision_id'', as_bytes (ascii ''r1'')),
       (ascii ''rendered'', as_bytes (memory_record example_lib example_memory))] = Ok zero_digest"
    by (intro example_hash example_fit) (simp_all add: example_lengths str_len_ascii memory_renderer_v1_def)
  moreover have "mc_memory_id example_memory = MemoryId (ascii ''m'')"
    "mc_revision_id example_memory = MemoryRevisionId (ascii ''r1'')"
    by (simp_all add: example_candidate_def)
  ultimately show ?thesis
    by (simp add: render_memory_def Let_def example_rendered_def utf8_estimate_def estimated_tokens_new_def
        example_lengths len_utf8_def)
qed

lemma example_ranked:
  "deterministic_rank (cbr_retrieval_scope example_request) (cbr_memory_candidates example_request)
     = [rank_one (cbr_retrieval_scope example_request) example_memory]"
  by (simp add: deterministic_rank_def example_request_def eligible_def example_candidate_def)

lemma example_prelude:
  "render_context_prelude [example_source] [] \<noteq> None"
  "str_len (the (render_context_prelude [example_source] [])) = 499"
  "str_len (the (render_context_prelude [example_source] [example_rendered])) = 631"
  by (simp_all add: render_context_prelude_def example_source_def example_rendered_def example_lengths len_utf8_def)

lemma example_limits [simp]:
  "cbr_token_budget example_request = 4000" "cbr_reserved_tokens example_request = 1000"
  "cbr_durable_memory_limit example_request = 1000"
  by (simp_all add: example_request_def)

lemma utf8_estimate_small: "str_len s \<le> 1000 \<Longrightarrow> utf8_estimate s = Ok (str_len s)"
  by (simp add: utf8_estimate_def estimated_tokens_new_def)

lemma example_fits:
  "fits_total utf8_estimate example_request [example_source] [] = Ok True"
  "fits_total utf8_estimate example_request [example_source] [example_rendered] = Ok True"
  "fits_memory_limit utf8_estimate example_request [example_rendered] = Ok True"
  by (simp_all add: fits_total_def fits_memory_limit_def render_context_prelude_def example_source_def
      example_rendered_def example_lengths len_utf8_def utf8_estimate_small max_rendered_context_bytes_def
      checked_add_u64_def)

lemma example_ordered: "ordered_request example_request = example_request"
  by (simp add: ordered_request_def sorted_sources_def example_request_def)

lemma example_ids:
  "admission_id_of example_lib (ContextTurnId (ascii ''t'')) n = Ok (ContextAdmissionId (ascii ''ca:'' @ digest_str zero_digest))"
  "memory_source_key example_lib (MemoryRevisionId (ascii ''r1'')) = Ok (ContextSourceKey (ascii ''memory:'' @ digest_str zero_digest))"
proof -
  have "hash_fields (lib_sha256 example_lib) [(ascii ''context_turn_id'', as_bytes (ascii ''t'')),
      (ascii ''admission_rank'', u64_be_bytes n)] = Ok zero_digest"
    by (intro example_hash example_fit) (simp_all add: str_len_ascii)
  moreover have "hash_fields (lib_sha256 example_lib) [(ascii ''memory_revision_id'', as_bytes (ascii ''r1''))] = Ok zero_digest"
    by (intro example_hash example_fit) (simp_all add: str_len_ascii)
  moreover have "validate_identifier (ascii ''ca:'' @ digest_str zero_digest) = Ok ()"
    "validate_identifier (ascii ''memory:'' @ digest_str zero_digest) = Ok ()"
    by (simp_all add: validate_identifier_def zero_digest_def ascii_def is_control_def is_whitespace_def
        is_safe_identifier_character_def is_ascii_alphanumeric_def len_utf8_def max_identifier_bytes_def
        list_ex_iff list_all_iff)
  ultimately show
    "admission_id_of example_lib (ContextTurnId (ascii ''t'')) n = Ok (ContextAdmissionId (ascii ''ca:'' @ digest_str zero_digest))"
    "memory_source_key example_lib (MemoryRevisionId (ascii ''r1'')) = Ok (ContextSourceKey (ascii ''memory:'' @ digest_str zero_digest))"
    by (simp_all add: admission_id_of_def memory_source_key_def)
qed

lemma example_admissions:
  "\<exists>a b. build_admissions example_lib example_request [example_observed] [example_source]
     [\<lparr>rr_ranked = rank_one scope example_memory, rr_rendered = example_rendered\<rparr>] = Ok [a, b]"
  by (simp add: build_admissions_def source_admission_def memory_admission_def example_observed_def
      example_source_def source_reasons_def admission_reason_of_def u16_max_def admission_reason_new_def
      checked_rank_def context_admission_new_def context_renderer_version_def max_context_admission_reasons_def
      memory_reasons_def rank_one_def rank_factors_def Let_def example_ids example_request_def example_rendered_def)

abbreviation example_draft :: "context_admission \<Rightarrow> context_admission \<Rightarrow> built_context" where
  "example_draft a b \<equiv>
     \<lparr>bc_request = example_request, bc_prelude = render_context_prelude [example_source] [example_rendered],
       bc_rendered_hash = zero_digest, bc_rendered_token_count = 631,
       bc_snapshots = [obs_snapshot example_observed], bc_admissions = [a, b],
       bc_selected_sources = [example_source], bc_selected_memories = [example_rendered]\<rparr>"

lemma example_builds:
  obtains a b where
    "build example_lib deterministic_rank utf8_estimate example_request = Ok (example_draft a b)"
proof -
  let ?scope = "cbr_retrieval_scope example_request"
  let ?m = "\<lparr>rr_ranked = rank_one ?scope example_memory, rr_rendered = example_rendered\<rparr>"
  obtain a b where ab: "build_admissions example_lib example_request [example_observed] [example_source] [?m] = Ok [a, b]"
    using example_admissions by blast
  obtain p where p: "render_context_prelude [example_source] [example_rendered] = Some p" "str_len p = 631"
    using example_prelude by (auto simp: render_context_prelude_def)
  have hash: "rendered_context_hash example_lib p = Ok zero_digest"
    unfolding rendered_context_hash_def
    by (intro example_hash example_fit) (simp_all add: p str_len_ascii)
  have sources: "cbr_observed_sources example_request = [example_observed]" "cbr_audit_snapshots example_request = []"
    by (simp_all add: example_request_def)
  have "build_rendered example_lib utf8_estimate example_request [obs_snapshot example_observed]
      [rank_one ?scope example_memory] = Ok
      \<lparr>bc_request = example_request, bc_prelude = Some p, bc_rendered_hash = zero_digest,
       bc_rendered_token_count = 631, bc_snapshots = [obs_snapshot example_observed], bc_admissions = [a, b],
       bc_selected_sources = [example_source], bc_selected_memories = [example_rendered]\<rparr>"
    by (simp add: build_rendered_def sources example_render_source render_memories_def example_render_memory
        example_fits p hash ab utf8_estimate_small Let_def)
  then show ?thesis
    using that [of a b]
    by (simp add: build_unfold example_ordered example_ranked request_snapshots_def sorted_sources_def sources
        reject_duplicate_def validate_request_def p(1)) (simp add: example_request_def)
qed

lemma example_manifest_fits:
  assumes "bc_request b = example_request" "bc_rendered_hash b = zero_digest"
  shows "fields_fit (manifest_fields example_lib (manifest_of b budget example_digest h))"
  unfolding manifest_fields_def manifest_of_def Let_def assms
  by (intro example_fit)
    (simp_all add: example_request_def example_lib_def str_len_ascii i64_be_bytes_def assms)

section \<open>Properties\<close>

text \<open>
  C17: Only eligible memories enter a context: each selected record is the rendering of a candidate that is
  active, trusted, unconflicted, in scope, in its validity window and below the sensitivity ceiling; no
  revision is selected twice, and records keep the order of the ranking.
\<close>

theorem only_eligible_memories_are_used:
  assumes "build lib deterministic_rank estimate r = Ok b"
  shows "(\<forall>m \<in> set (bc_selected_memories b). \<exists>c \<in> set (cbr_memory_candidates r).
      eligible (cbr_retrieval_scope r) c \<and> rmem_revision_id m = mc_revision_id c \<and> rmem_rendered m = memory_record lib c)
    \<and> distinct (map rmem_revision_id (bc_selected_memories b))
    \<and> subseq (map rmem_revision_id (bc_selected_memories b))
        (map (\<lambda>x. mc_revision_id (rm_candidate x))
          (deterministic_rank (cbr_retrieval_scope r) (cbr_memory_candidates r)))"
proof -
  from selected_memories_of_build [OF assms] obtain ms :: "ranked_rendered_memory list" where
    ms: "bc_selected_memories b = map rr_rendered ms"
    "subseq (map rr_ranked ms) (deterministic_rank (cbr_retrieval_scope r) (cbr_memory_candidates r))"
    "\<forall>m \<in> set ms. render_memory lib estimate (rr_ranked m) = Ok (rr_rendered m)"
    "distinct (map (\<lambda>m. mc_revision_id (rm_candidate (rr_ranked m))) ms)" by metis
  have ids: "map rmem_revision_id (bc_selected_memories b) = map (\<lambda>m. mc_revision_id (rm_candidate (rr_ranked m))) ms"
    using ms(1,3) render_memory_Ok(2) by fastforce
  show ?thesis
    using deterministic_ranker.build_selects_eligible [OF assms] ms(4)
      subseq_map [OF ms(2), of "\<lambda>x. mc_revision_id (rm_candidate x)"]
    unfolding ids by (simp add: comp_def)
qed

theorem only_eligible_memories_are_used_witness:
  "\<exists>b. build example_lib deterministic_rank utf8_estimate example_request = Ok b
     \<and> bc_selected_memories b \<noteq> [] \<and> distinct (map rmem_revision_id (bc_selected_memories b))"
proof -
  obtain x y where "build example_lib deterministic_rank utf8_estimate example_request = Ok (example_draft x y)"
    by (rule example_builds)
  from this only_eligible_memories_are_used [OF this] show ?thesis by auto
qed

text \<open>
  C18: A context that was built fits its budget and can be sealed: within the numbers of sources and
  admissions a manifest may have, for a retrieval scope of the same session and a memory limit within the
  budget, sealing succeeds, the manifest carries the hash of its own fields, the rendered text weighs no
  more than the budget leaves, and the admissions weigh no more than the rendered text.
\<close>

theorem built_context_can_be_sealed:
  assumes "observe_all lib registry observed_at retained = Ok (cbr_observed_sources r)"
    and "build lib rank utf8_estimate r = Ok b"
    and "rs_session_id (cbr_retrieval_scope r) = cbr_session_id r"
    and "cbr_durable_memory_limit r \<le> cbr_token_budget r - cbr_reserved_tokens r"
    and "length (bc_snapshots b) \<le> max_context_sources" "length (bc_admissions b) \<le> max_context_admissions"
    and "sha_ok (lib_sha256 lib)"
    and "fields_fit (manifest_fields lib (manifest_of b \<lparr>ba_token_budget = cbr_token_budget r,
      ba_reserved_tokens = cbr_reserved_tokens r, ba_durable_memory_limit = cbr_durable_memory_limit r\<rparr>
      request_hash request_hash))"
  shows "\<exists>m. seal lib b request_hash = Ok m \<and> verify_context_manifest_hash lib m = Ok True
    \<and> tm_rendered_token_count m \<le> cbr_token_budget r - cbr_reserved_tokens r
    \<and> sum_list (map adm_token_count (tm_admissions m)) \<le> tm_rendered_token_count m"
proof -
  let ?budget = "\<lparr>ba_token_budget = cbr_token_budget r, ba_reserved_tokens = cbr_reserved_tokens r,
    ba_durable_memory_limit = cbr_durable_memory_limit r\<rparr>"
  have sections: "\<forall>s \<in> set (bc_selected_sources b). rsrc_section s \<noteq> DurableMemory"
    using selected_sources_of_build(1) [OF assms(2)] render_source_Some(2) observe_all_member [OF assms(1)]
      observe_one_Ok(4) by (metis insertCI)
  have request: "bc_request b = ordered_request r"
    using utf8_sizer.build_draft [OF assms(2)] by (auto simp: draft_parts_def)
  have budget: "budget_allocation_new (cbr_token_budget r) (cbr_reserved_tokens r) (cbr_durable_memory_limit r) = Ok ?budget"
    using assms(4) build_OkD(2) [OF assms(2)] by (simp add: budget_allocation_new_def)
  obtain h where h: "context_manifest_hash lib (manifest_of b ?budget request_hash request_hash) = Ok h"
    using hash_fields_Ok [OF assms(7,8)] by (auto simp: context_manifest_hash_def)
  let ?m = "manifest_of b ?budget request_hash h"
  have m: "turn_manifest_new ?m = Ok ?m"
    by (rule utf8_sizer.seal_draft [OF assms(2) sections assms(3-6)]) (simp_all add: manifest_of_def Let_def)
  have "manifest_fields lib ?m = manifest_fields lib (manifest_of b ?budget request_hash request_hash)"
    by (simp add: manifest_fields_def manifest_of_def Let_def)
  then have "verify_context_manifest_hash lib ?m = Ok True"
    using h by (simp add: verify_context_manifest_hash_def context_manifest_hash_def manifest_of_def Let_def)
  moreover have "seal lib b request_hash = Ok ?m"
    using budget h m by (simp add: seal_def request ordered_request_def)
  ultimately show ?thesis
    using utf8_sizer.build_weight [OF assms(2)] by (auto simp: manifest_of_def Let_def)
qed

theorem built_context_can_be_sealed_witness:
  "\<exists>b m. build example_lib deterministic_rank utf8_estimate example_request = Ok b \<and> seal example_lib b example_digest = Ok m
     \<and> verify_context_manifest_hash example_lib m = Ok True"
proof -
  obtain x y where b: "build example_lib deterministic_rank utf8_estimate example_request = Ok (example_draft x y)"
    by (rule example_builds)
  have observed: "observe_all example_lib example_registry 0 [] = Ok (cbr_observed_sources example_request)"
    using example_observe by (simp add: example_request_def)
  have "sha_ok (lib_sha256 example_lib)" by (simp add: sha_ok_def example_lib_def)
  moreover have "rs_session_id (cbr_retrieval_scope example_request) = cbr_session_id example_request"
    by (simp add: example_request_def)
  ultimately show ?thesis
    using built_context_can_be_sealed [OF observed b _ _ _ _ _ example_manifest_fits] b
    by (auto simp: max_context_sources_def max_context_admissions_def)
qed

text \<open>
  Required sources are never dropped: a context built from the observations of a registry contains,
  for every required source of the registry, a record of the value observed for its key.
\<close>

theorem required_sources_are_present:
  assumes "observe_all lib registry observed_at retained = Ok (cbr_observed_sources r)"
    and "build lib rank estimate r = Ok b" "source \<in> set registry" "src_policy source = Required"
  shows "\<exists>x \<in> set (cbr_observed_sources r). \<exists>s \<in> set (bc_selected_sources b). \<exists>revision v.
    obs_value x = Some v \<and> snap_source_revision (obs_snapshot x) = Some revision
    \<and> rsrc_source_key s = src_key source
    \<and> rsrc_rendered s = source_record lib (src_key source) revision (rsrc_section s) (source_value_str v)"
proof -
  from observe_all_Ok [OF assms(1)] assms(3) obtain x ret where
    x: "x \<in> set (cbr_observed_sources r)" "observe_one lib source observed_at ret = Ok x"
    by (auto simp: list_all2_conv_all_nth in_set_conv_nth) metis
  note observed = observe_one_Ok [OF x(2)]
  obtain s where "s \<in> set (bc_selected_sources b)" "render_source lib estimate x = Ok (Some s)"
    using selected_sources_of_build(2) [OF assms(2) x(1)] observed(2,3) assms(4) by auto
  with render_source_Some [OF this(2)] observed(1) x(1) show ?thesis by metis
qed

text \<open>
  C19: Rendered content cannot forge record boundaries: whatever the contents of sources and memories, and
  whatever text JSON quoting produces, the tags found in the rendered context are exactly the opening
  and closing tags of the admitted records, in order.
\<close>

theorem content_cannot_forge_boundaries:
  assumes "build lib deterministic_rank estimate r = Ok b" "bc_prelude b = Some p"
  shows "tags_in p = concat (map (\<lambda>s. record_tags (rsrc_section s)) (bc_selected_sources b))
    @ concat (map (\<lambda>_. memory_tags) (bc_selected_memories b))"
proof -
  have prelude: "bc_prelude b = render_context_prelude (bc_selected_sources b) (bc_selected_memories b)"
    by (rule build_rendered_OkE [OF build_OkD(4) [OF assms(1)]]) simp
  have sources: "\<forall>s \<in> set (bc_selected_sources b). \<forall>t. tags_in (rsrc_rendered s @ t) = record_tags (rsrc_section s) @ tags_in t"
    using selected_sources_of_build(1) [OF assms(1)] render_source_Some(4) tags_in_source_record by metis
  have memories: "\<forall>m \<in> set (bc_selected_memories b). \<forall>t. tags_in (rmem_rendered m @ t) = memory_tags @ tags_in t"
    using deterministic_ranker.build_selects_eligible [OF assms(1)] tags_in_memory_record by metis
  from assms(2) prelude have "p = context_prelude_v1 @ concat (map (\<lambda>s. rsrc_rendered s @ [0x0A]) (bc_selected_sources b))
      @ concat (map (\<lambda>m. rmem_rendered m @ [0x0A]) (bc_selected_memories b)) @ []"
    by (auto simp: render_context_prelude_def split: if_splits)
  then show ?thesis
    using tags_in_plain [OF plain_parts(9)] tags_in_records [OF sources] tags_in_records [OF memories, of "[]"] by simp
qed

theorem content_cannot_forge_boundaries_witness:
  "\<exists>b p. build example_lib deterministic_rank utf8_estimate example_request = Ok b \<and> bc_prelude b = Some p
     \<and> tags_in p = record_tags AuthorizedInstruction @ memory_tags"
proof -
  obtain x y where b: "build example_lib deterministic_rank utf8_estimate example_request = Ok (example_draft x y)"
    by (rule example_builds)
  obtain p where p: "render_context_prelude [example_source] [example_rendered] = Some p"
    by (auto simp: render_context_prelude_def)
  from b content_cannot_forge_boundaries [OF b, of p] p show ?thesis by (auto simp: example_source_def)
qed

text \<open>
  C20: Building does not depend on arrival order: permuting the observed sources, the audit snapshots and
  the memory candidates (of distinct revisions) gives the same prelude, hashes, selection and admissions,
  or the same error; only the stored request differs.
\<close>

theorem build_ignores_arrival_order:
  assumes "mset (cbr_observed_sources r) = mset observed" "mset (cbr_audit_snapshots r) = mset audit"
    and "mset (cbr_memory_candidates r) = mset candidates" "distinct (map mc_revision_id (cbr_memory_candidates r))"
    and "r' = r\<lparr>cbr_observed_sources := observed, cbr_audit_snapshots := audit, cbr_memory_candidates := candidates\<rparr>"
  shows "build lib deterministic_rank estimate r' =
    and_then (build lib deterministic_rank estimate r) (\<lambda>b. Ok (b\<lparr>bc_request := ordered_request r'\<rparr>))"
  using assms by (rule deterministic_ranker.build_permutation)

theorem build_ignores_arrival_order_witness:
  "is_ok (build example_lib deterministic_rank utf8_estimate (example_request\<lparr>cbr_memory_candidates :=
     [example_candidate ''r2'' Sens_Secret, example_candidate ''r1'' Sens_Public]\<rparr>))"
proof -
  obtain x y where b: "build example_lib deterministic_rank utf8_estimate example_request = Ok (example_draft x y)"
    by (rule example_builds)
  have "distinct (map mc_revision_id (cbr_memory_candidates example_request))"
    by (simp add: example_request_def example_candidate_def ascii_def)
  from build_ignores_arrival_order [OF refl refl _ this, of
      "[example_candidate ''r2'' Sens_Secret, example_candidate ''r1'' Sens_Public]" _ example_lib utf8_estimate] b
  show ?thesis by (simp add: example_request_def)
qed

end
