(* ===== verification/Memory_Values.thy ===== *)
theory Memory_Values
  imports Context_Values
begin

text \<open>
  The values, commands and operations of the memory ledger (\<open>autoharness-domain\<close>: \<open>memory.rs\<close>). A memory
  item is a stream of operations about its immutable revisions; a revision's content and excerpts travel
  beside the operations, which keep only their digests.
\<close>

section \<open>Identifiers and numbers\<close>

datatype memory_subject_key = MemorySubjectKey (subject_str: ustring)
datatype memory_operation_id = MemoryOperationId (operation_str: ustring)
datatype memory_evidence_id = MemoryEvidenceId (evidence_str: ustring)

definition memory_schema_v1 :: nat where "memory_schema_v1 = 1"
definition max_memory_evidence :: nat where "max_memory_evidence = 64"
definition max_memory_relations :: nat where "max_memory_relations = 64"
definition max_memory_validation_issues :: nat where "max_memory_validation_issues = 32"
definition max_memory_validation_candidates :: nat where "max_memory_validation_candidates = 256"

definition memory_sequence_new :: "nat \<Rightarrow> (nat, value_error) result" where
  "memory_sequence_new value =
     (if value = 0 then Err ZeroMemorySequence
      else if value > i64_max then Err MemorySequenceTooLarge else Ok value)"

definition memory_revision_number_new :: "nat \<Rightarrow> (nat, value_error) result" where
  "memory_revision_number_new value =
     (if value = 0 then Err ZeroMemoryRevision
      else if value > i64_max then Err MemoryRevisionTooLarge else Ok value)"

section \<open>Evidence and relations\<close>

datatype memory_origin = ExplicitUser | VerifiedTool | ImportedDocument | ModelProposal | Origin_Compaction

datatype memory_evidence_excerpt = MemoryEvidenceExcerpt (excerpt_str: ustring)

definition excerpt_max_bytes :: nat where "excerpt_max_bytes = 4096"

definition memory_evidence_excerpt_new :: "ustring \<Rightarrow> (memory_evidence_excerpt, value_error) result" where
  "memory_evidence_excerpt_new value =
     (if trim_is_empty value then Err EmptyMemoryEvidenceExcerpt
      else if str_len value > excerpt_max_bytes then Err MemoryEvidenceExcerptTooLong
      else Ok (MemoryEvidenceExcerpt value))"

datatype memory_evidence_source =
    Evidence_UserInput session_id input_id
  | Evidence_ToolObservation session_id tool_call_id sha256_digest
  | Evidence_ImportedDocument context_source_key sha256_digest
  | Evidence_SessionEvent session_id event_id
  | Evidence_MemoryRevision memory_id memory_revision_id

datatype memory_evidence_relation = Evidence_Supports | Evidence_Contradicts | Evidence_DerivedFrom

record memory_evidence =
  evd_evidence_id :: memory_evidence_id
  evd_source :: memory_evidence_source
  evd_relation :: memory_evidence_relation
  evd_excerpt :: "memory_evidence_excerpt option"
  evd_excerpt_hash :: "sha256_digest option"

definition memory_evidence_new ::
  "memory_evidence_id \<Rightarrow> memory_evidence_source \<Rightarrow> memory_evidence_relation
     \<Rightarrow> memory_evidence_excerpt option \<Rightarrow> sha256_digest option \<Rightarrow> (memory_evidence, value_error) result" where
  "memory_evidence_new eid source relation excerpt excerpt_hash =
     (if (excerpt \<noteq> None) \<noteq> (excerpt_hash \<noteq> None) then Err InvalidMemoryEvidence
      else Ok \<lparr>evd_evidence_id = eid, evd_source = source, evd_relation = relation,
               evd_excerpt = excerpt, evd_excerpt_hash = excerpt_hash\<rparr>)"

record memory_evidence_metadata =
  evm_evidence_id :: memory_evidence_id
  evm_source :: memory_evidence_source
  evm_relation :: memory_evidence_relation
  evm_excerpt_hash :: "sha256_digest option"

definition from_evidence :: "memory_evidence \<Rightarrow> memory_evidence_metadata" where
  "from_evidence e =
     \<lparr>evm_evidence_id = evd_evidence_id e, evm_source = evd_source e, evm_relation = evd_relation e,
      evm_excerpt_hash = evd_excerpt_hash e\<rparr>"

datatype memory_relation_kind = DuplicateOf | Contradicts | Refines | Supersedes | Related

record memory_relation =
  rel_memory_id :: memory_id
  rel_kind :: memory_relation_kind

section \<open>Validation results\<close>

datatype memory_validation_status = Validation_Accepted | Validation_NeedsReview | Validation_Rejected

datatype memory_validation_issue =
    Issue_SecretDetected | Issue_UnsupportedScope | Issue_MalformedContent | Issue_PolicyConflict
  | Issue_Duplicate | Issue_Contradiction | Issue_InjectionPattern | Issue_UngroundedEvidence

record memory_validation_result =
  vr_validator_version :: nat
  vr_content_hash :: sha256_digest
  vr_status :: memory_validation_status
  vr_issues :: "memory_validation_issue list"
  vr_duplicate_candidates :: "memory_id list"
  vr_contradiction_candidates :: "memory_id list"

text \<open>\<open>sort\<close> and \<open>dedup\<close>.\<close>

definition sort_dedup :: "'a :: linorder list \<Rightarrow> 'a list" where
  "sort_dedup xs = remdups_adj (sort xs)"

definition validation_result_new ::
  "nat \<Rightarrow> sha256_digest \<Rightarrow> memory_validation_status \<Rightarrow> memory_validation_issue list \<Rightarrow> memory_id list
     \<Rightarrow> memory_id list \<Rightarrow> (memory_validation_result, value_error) result" where
  "validation_result_new version content_hash status issues duplicates contradictions =
     (if version = 0 then Err ZeroVersion
      else if length issues > max_memory_validation_issues then Err CollectionTooLarge
      else if duplicates \<noteq> [] \<and> Issue_Duplicate \<notin> set issues
              \<or> contradictions \<noteq> [] \<and> Issue_Contradiction \<notin> set issues then Err InvalidMemoryValidation
      else if length (sort_dedup duplicates) + length (sort_dedup contradictions)
              > max_memory_validation_candidates then Err CollectionTooLarge
      else Ok \<lparr>vr_validator_version = version, vr_content_hash = content_hash, vr_status = status,
               vr_issues = issues, vr_duplicate_candidates = sort_dedup duplicates,
               vr_contradiction_candidates = sort_dedup contradictions\<rparr>)"

section \<open>Revisions\<close>

record memory_revision_draft =
  dr_revision_id :: memory_revision_id
  dr_revision :: nat
  dr_subject_key :: "memory_subject_key option"
  dr_content :: memory_content
  dr_content_hash :: sha256_digest
  dr_origin :: memory_origin
  dr_trust_class :: trust_class
  dr_confidence :: confidence
  dr_sensitivity :: sensitivity
  dr_validity :: memory_validity
  dr_evidence :: "memory_evidence list"
  dr_relations :: "memory_relation list"

text \<open>The constructor checks the record it builds.\<close>

definition memory_revision_draft_new :: "memory_revision_draft \<Rightarrow> (memory_revision_draft, value_error) result" where
  "memory_revision_draft_new d =
     (if length (dr_evidence d) > max_memory_evidence \<or> length (dr_relations d) > max_memory_relations
      then Err CollectionTooLarge else Ok d)"

record memory_revision =
  mv_status :: memory_revision_status
  mv_revision_id :: memory_revision_id
  mv_revision :: nat
  mv_subject_key :: "memory_subject_key option"
  mv_content_hash :: sha256_digest
  mv_origin :: memory_origin
  mv_trust_class :: trust_class
  mv_confidence :: confidence
  mv_sensitivity :: sensitivity
  mv_validity :: memory_validity
  mv_evidence :: "memory_evidence_metadata list"
  mv_relations :: "memory_relation list"
  mv_created_at :: timestamp_millis
  mv_supersedes_revision_id :: "memory_revision_id option"

definition memory_revision_new :: "memory_revision \<Rightarrow> (memory_revision, value_error) result" where
  "memory_revision_new v =
     (if length (mv_evidence v) > max_memory_evidence \<or> length (mv_relations v) > max_memory_relations
      then Err CollectionTooLarge else Ok v)"

definition from_draft ::
  "memory_revision_status \<Rightarrow> memory_revision_draft \<Rightarrow> timestamp_millis \<Rightarrow> memory_revision_id option
     \<Rightarrow> memory_revision" where
  "from_draft status d created_at supersedes =
     \<lparr>mv_status = status, mv_revision_id = dr_revision_id d, mv_revision = dr_revision d,
      mv_subject_key = dr_subject_key d, mv_content_hash = dr_content_hash d, mv_origin = dr_origin d,
      mv_trust_class = dr_trust_class d, mv_confidence = dr_confidence d,
      mv_sensitivity = dr_sensitivity d, mv_validity = dr_validity d,
      mv_evidence = map from_evidence (dr_evidence d), mv_relations = dr_relations d,
      mv_created_at = created_at, mv_supersedes_revision_id = supersedes\<rparr>"

definition with_status :: "memory_revision \<Rightarrow> memory_revision_status \<Rightarrow> memory_revision" where
  "with_status v status = v\<lparr>mv_status := status\<rparr>"

section \<open>Commands\<close>

datatype memory_rejection_reason =
    Reject_ValidationFailed | Reject_AuthorityDeclined | Reject_Duplicate | Reject_Conflict

datatype memory_command_payload =
    CreateMemory memory_scope memory_kind memory_revision_draft
  | ProposeRevision memory_revision_draft memory_revision_id
  | ReviseMemory memory_revision_draft memory_revision_id
  | RecordValidation memory_revision_id memory_validation_result
  | ApproveProposal memory_revision_id memory_revision_draft
  | ActivateRevision memory_revision_id
  | RejectRevision memory_revision_id memory_rejection_reason
  | RetractMemory memory_revision_id
  | DeleteMemory memory_revision_id

fun creates_item :: "memory_command_payload \<Rightarrow> bool" where
  "creates_item (CreateMemory _ _ _) \<longleftrightarrow> True"
| "creates_item _ \<longleftrightarrow> False"

record memory_command =
  mcmd_schema_version :: nat
  mcmd_command_id :: command_id
  mcmd_memory_id :: memory_id
  mcmd_expected_sequence :: "nat option"
  mcmd_correlation_id :: correlation_id
  mcmd_payload :: memory_command_payload

definition memory_command_new_v1 ::
  "command_id \<Rightarrow> memory_id \<Rightarrow> nat option \<Rightarrow> correlation_id \<Rightarrow> memory_command_payload
     \<Rightarrow> (memory_command, value_error) result" where
  "memory_command_new_v1 cid mid expected correlation payload =
     (if creates_item payload \<noteq> (expected = None) then Err InvalidMemoryExpectedSequence
      else Ok \<lparr>mcmd_schema_version = memory_schema_v1, mcmd_command_id = cid, mcmd_memory_id = mid,
               mcmd_expected_sequence = expected, mcmd_correlation_id = correlation,
               mcmd_payload = payload\<rparr>)"

section \<open>Operations\<close>

datatype memory_causation = Mem_Cause_Command command_id | Mem_Cause_Operation memory_operation_id

datatype memory_operation_payload =
    MemoryCreated memory_scope memory_kind memory_revision
  | RevisionProposed memory_revision
  | MemoryRevised memory_revision
  | RevisionValidated memory_revision_id memory_validation_result
  | ProposalApproved memory_revision_id memory_revision
  | RevisionActivated memory_revision_id
  | RevisionSuperseded memory_revision_id memory_revision_id
  | RevisionRejected memory_revision_id memory_rejection_reason
  | MemoryRetracted memory_revision_id
  | MemoryDeleted memory_revision_id

record memory_operation =
  mo_schema_version :: nat
  mo_operation_id :: memory_operation_id
  mo_memory_id :: memory_id
  mo_sequence :: nat
  mo_occurred_at :: timestamp_millis
  mo_causation :: memory_causation
  mo_correlation_id :: correlation_id
  mo_payload :: memory_operation_payload

definition memory_operation_new_v1 ::
  "memory_operation_id \<Rightarrow> memory_id \<Rightarrow> nat \<Rightarrow> timestamp_millis \<Rightarrow> memory_causation \<Rightarrow> correlation_id
     \<Rightarrow> memory_operation_payload \<Rightarrow> memory_operation" where
  "memory_operation_new_v1 oid mid sequence occurred_at cause correlation payload =
     \<lparr>mo_schema_version = memory_schema_v1, mo_operation_id = oid, mo_memory_id = mid,
      mo_sequence = sequence, mo_occurred_at = occurred_at, mo_causation = cause,
      mo_correlation_id = correlation, mo_payload = payload\<rparr>"

section \<open>Facts\<close>

lemma set_sort_dedup [simp]: "set (sort_dedup xs) = set xs"
  by (simp add: sort_dedup_def)

lemma sort_dedup_Nil [simp]: "sort_dedup xs = [] \<longleftrightarrow> xs = []"
  by (metis set_sort_dedup set_empty)

lemma sorted_sort_dedup: "sorted (sort_dedup xs)"
  unfolding sort_dedup_def by (rule sorted_remdups_adj) simp

lemma distinct_remdups_adj: "sorted xs \<Longrightarrow> distinct (remdups_adj (xs :: 'a :: linorder list))"
  by (induction xs rule: remdups_adj.induct) force+

lemma distinct_sort_dedup: "distinct (sort_dedup xs)"
  by (simp add: sort_dedup_def distinct_remdups_adj)

lemma sort_dedup_idem: "sort_dedup (sort_dedup xs) = sort_dedup xs"
  by (metis distinct_sort_dedup remdups_adj_distinct sort_dedup_def sorted_sort_dedup sorted_sort_id)

end
