(* ===== verification/Memory_Validate.thy ===== *)
theory Memory_Validate
  imports Canonical Memory_Values "HOL-Library.Sublist"
begin

text \<open>
  The deterministic validator of memory revisions (\<open>autoharness-memory\<close>: \<open>validate.rs\<close>): it recomputes the
  digest of the content, looks for duplicates, contradictions, secrets and injected instructions, and
  decides whether a revision is accepted, needs review or is rejected.
\<close>

section \<open>Digests of content\<close>

text \<open>\<open>replace\<close> of a carriage return with its line feed, then of every other carriage return.\<close>

fun replace_crlf :: "ustring \<Rightarrow> ustring" where
  "replace_crlf (c # d # s) = (if c = 0x0D \<and> d = 0x0A then 0x0A # replace_crlf s else c # replace_crlf (d # s))"
| "replace_crlf s = s"

definition normalize_content :: "ustring \<Rightarrow> ustring" where
  "normalize_content s = map (\<lambda>c. if c = 0x0D then 0x0A else c) (replace_crlf s)"

definition normalized_content_hash :: "(bytes \<Rightarrow> bytes) \<Rightarrow> ustring \<Rightarrow> (sha256_digest, memory_error) result" where
  "normalized_content_hash sha content =
     hash_fields sha [(ascii ''memory_content_v1'', as_bytes (normalize_content content))]"

section \<open>Patterns\<close>

definition contains_any :: "string list \<Rightarrow> ustring \<Rightarrow> bool" where
  "contains_any needles content =
     list_ex (\<lambda>n. list_ex (prefix (ascii n)) (suffixes (to_ascii_lower content))) needles"

definition looks_secret_bearing :: "ustring \<Rightarrow> bool" where
  "looks_secret_bearing = contains_any
     [''-----begin private key-----'', ''authorization: bearer '', ''api_key='', ''api-key='',
      ''secret_key='', ''password='']"

definition looks_like_instruction_injection :: "ustring \<Rightarrow> bool" where
  "looks_like_instruction_injection = contains_any
     [''ignore previous instructions'', ''ignore all previous instructions'', ''system prompt'',
      ''developer message'', ''grant permission'', ''call this tool'']"

section \<open>Policy\<close>

record memory_validation_policy =
  vp_authorized_scopes :: "memory_scope list"
  vp_sensitivity_ceiling :: sensitivity

record existing_memory =
  ex_memory_id :: memory_id
  ex_scope :: memory_scope
  ex_kind :: memory_kind
  ex_subject_key :: "memory_subject_key option"
  ex_content_hash :: sha256_digest

fun origin_trust_is_valid :: "memory_origin \<Rightarrow> trust_class \<Rightarrow> bool" where
  "origin_trust_is_valid ExplicitUser t \<longleftrightarrow> t = UserApproved"
| "origin_trust_is_valid VerifiedTool t \<longleftrightarrow> t \<in> {VerifiedObservation, UntrustedProposal}"
| "origin_trust_is_valid ImportedDocument t \<longleftrightarrow> t \<in> {Imported, UntrustedProposal}"
| "origin_trust_is_valid ModelProposal t \<longleftrightarrow> t = UntrustedProposal"
| "origin_trust_is_valid Origin_Compaction t \<longleftrightarrow> t = UntrustedProposal"

definition validation_status :: "memory_origin \<Rightarrow> memory_validation_issue list \<Rightarrow> memory_validation_status" where
  "validation_status origin issues =
     (if list_ex (\<lambda>i. i \<in> {Issue_SecretDetected, Issue_MalformedContent, Issue_UnsupportedScope,
           Issue_PolicyConflict, Issue_Duplicate}) issues then Validation_Rejected
      else if origin \<noteq> ExplicitUser \<or> issues \<noteq> [] then Validation_NeedsReview
      else Validation_Accepted)"

fun issue_order :: "memory_validation_issue \<Rightarrow> nat" where
  "issue_order Issue_SecretDetected = 0"
| "issue_order Issue_UnsupportedScope = 1"
| "issue_order Issue_MalformedContent = 2"
| "issue_order Issue_PolicyConflict = 3"
| "issue_order Issue_Duplicate = 4"
| "issue_order Issue_Contradiction = 5"
| "issue_order Issue_InjectionPattern = 6"
| "issue_order Issue_UngroundedEvidence = 7"

fun validation_sensitivity_score :: "sensitivity \<Rightarrow> nat" where
  "validation_sensitivity_score Sens_Public = 0"
| "validation_sensitivity_score Sens_Internal = 1"
| "validation_sensitivity_score Sens_Sensitive = 2"
| "validation_sensitivity_score Sens_Secret = 3"

section \<open>Analysis\<close>

definition validator_version :: nat where "validator_version = 1"

definition duplicates_of ::
  "memory_scope \<Rightarrow> memory_kind \<Rightarrow> memory_revision_draft \<Rightarrow> sha256_digest \<Rightarrow> existing_memory list \<Rightarrow> memory_id list" where
  "duplicates_of scope kind draft content_hash existing =
     sort_dedup (map ex_memory_id (filter (\<lambda>c. ex_scope c = scope \<and> ex_kind c = kind
       \<and> ex_subject_key c = dr_subject_key draft \<and> ex_content_hash c = content_hash) existing))"

definition contradictions_of ::
  "memory_scope \<Rightarrow> memory_kind \<Rightarrow> memory_revision_draft \<Rightarrow> sha256_digest \<Rightarrow> existing_memory list \<Rightarrow> memory_id list" where
  "contradictions_of scope kind draft content_hash existing =
     sort_dedup
       (map ex_memory_id (filter (\<lambda>c. dr_subject_key draft \<noteq> None \<and> ex_scope c = scope \<and> ex_kind c = kind
          \<and> ex_subject_key c = dr_subject_key draft \<and> ex_content_hash c \<noteq> content_hash) existing)
        @ map rel_memory_id (filter (\<lambda>r. rel_kind r = Contradicts) (dr_relations draft)))"

definition raise_if :: "bool \<Rightarrow> 'i \<Rightarrow> 'i list" where "raise_if b i = (if b then [i] else [])"

definition issues_of ::
  "memory_validation_policy \<Rightarrow> memory_scope \<Rightarrow> memory_revision_draft \<Rightarrow> sha256_digest \<Rightarrow> memory_id list
     \<Rightarrow> memory_id list \<Rightarrow> memory_validation_issue list" where
  "issues_of policy scope draft content_hash duplicates contradictions =
     raise_if (scope \<notin> set (vp_authorized_scopes policy)) Issue_UnsupportedScope
     @ raise_if (validation_sensitivity_score (dr_sensitivity draft)
          > validation_sensitivity_score (vp_sensitivity_ceiling policy)) Issue_PolicyConflict
     @ raise_if (dr_content_hash draft \<noteq> content_hash) Issue_MalformedContent
     @ raise_if (dr_sensitivity draft = Sens_Secret \<or> looks_secret_bearing (content_str (dr_content draft)))
         Issue_SecretDetected
     @ raise_if (\<not> origin_trust_is_valid (dr_origin draft) (dr_trust_class draft)) Issue_PolicyConflict
     @ raise_if (duplicates \<noteq> []) Issue_Duplicate
     @ raise_if (contradictions \<noteq> []) Issue_Contradiction
     @ raise_if (looks_like_instruction_injection (content_str (dr_content draft))) Issue_InjectionPattern
     @ raise_if (dr_origin draft \<in> {ModelProposal, Origin_Compaction, VerifiedTool} \<and> dr_evidence draft = [])
         Issue_UngroundedEvidence"

definition analyze ::
  "(bytes \<Rightarrow> bytes) \<Rightarrow> memory_validation_policy \<Rightarrow> memory_scope \<Rightarrow> memory_kind \<Rightarrow> memory_revision_draft
     \<Rightarrow> existing_memory list \<Rightarrow> (memory_validation_result, memory_error) result" where
  "analyze sha policy scope kind draft existing =
     and_then (normalized_content_hash sha (content_str (dr_content draft))) (\<lambda>content_hash.
     let duplicates = duplicates_of scope kind draft content_hash existing;
         contradictions = contradictions_of scope kind draft content_hash existing;
         issues = remdups_adj (sort_key issue_order
           (issues_of policy scope draft content_hash duplicates contradictions))
     in map_err (\<lambda>_. InvalidDomainValue) (validation_result_new validator_version content_hash
          (validation_status (dr_origin draft) issues) issues duplicates contradictions))"

section \<open>What a verdict means\<close>

lemma issue_order_inject: "issue_order i = issue_order j \<longleftrightarrow> i = j"
  by (cases i; cases j) simp_all

lemma set_raise_if [simp]: "set (raise_if b i) = (if b then {i} else {})"
  by (simp add: raise_if_def)

lemma analyze_Ok:
  assumes "analyze sha policy scope kind draft existing = Ok v"
  obtains content_hash where
    "normalized_content_hash sha (content_str (dr_content draft)) = Ok content_hash"
    "vr_content_hash v = content_hash" "vr_validator_version v = validator_version"
    "set (vr_issues v) = set (issues_of policy scope draft content_hash
       (duplicates_of scope kind draft content_hash existing)
       (contradictions_of scope kind draft content_hash existing))"
    "vr_status v = validation_status (dr_origin draft) (vr_issues v)"
  using assms
  by (auto simp: analyze_def and_then_Ok map_err_Ok Let_def validation_result_new_def split: if_splits)

lemma validation_status_Accepted:
  "validation_status origin issues = Validation_Accepted \<longleftrightarrow> origin = ExplicitUser \<and> issues = []"
  by (auto simp: validation_status_def)

lemma analyze_Accepted:
  assumes "analyze sha policy scope kind draft existing = Ok v" "vr_status v = Validation_Accepted"
  shows "dr_origin draft = ExplicitUser" "dr_trust_class draft = UserApproved"
    "scope \<in> set (vp_authorized_scopes policy)" "dr_sensitivity draft \<noteq> Sens_Secret"
    "validation_sensitivity_score (dr_sensitivity draft) \<le> validation_sensitivity_score (vp_sensitivity_ceiling policy)"
    "normalized_content_hash sha (content_str (dr_content draft)) = Ok (dr_content_hash draft)"
    "\<not> looks_secret_bearing (content_str (dr_content draft))"
    "\<not> looks_like_instruction_injection (content_str (dr_content draft))"
    "duplicates_of scope kind draft (dr_content_hash draft) existing = []"
    "contradictions_of scope kind draft (dr_content_hash draft) existing = []"
proof -
  obtain content_hash where v:
    "normalized_content_hash sha (content_str (dr_content draft)) = Ok content_hash"
    "set (vr_issues v) = set (issues_of policy scope draft content_hash
       (duplicates_of scope kind draft content_hash existing)
       (contradictions_of scope kind draft content_hash existing))"
    "vr_status v = validation_status (dr_origin draft) (vr_issues v)"
    by (rule analyze_Ok [OF assms(1)])
  from v(3) assms(2) have origin: "dr_origin draft = ExplicitUser" and "vr_issues v = []"
    using validation_status_Accepted by metis+
  with v(2) have none: "set (issues_of policy scope draft content_hash
       (duplicates_of scope kind draft content_hash existing)
       (contradictions_of scope kind draft content_hash existing)) = {}" by simp
  show "dr_origin draft = ExplicitUser" by (fact origin)
  from none have hash: "dr_content_hash draft = content_hash"
    unfolding issues_of_def by (simp split: if_splits)
  from none show "dr_trust_class draft = UserApproved" unfolding issues_of_def using origin by (simp split: if_splits)
  from none show "scope \<in> set (vp_authorized_scopes policy)" "dr_sensitivity draft \<noteq> Sens_Secret"
    "validation_sensitivity_score (dr_sensitivity draft) \<le> validation_sensitivity_score (vp_sensitivity_ceiling policy)"
    "\<not> looks_secret_bearing (content_str (dr_content draft))"
    "\<not> looks_like_instruction_injection (content_str (dr_content draft))"
    unfolding issues_of_def by (simp_all split: if_splits)
  show "normalized_content_hash sha (content_str (dr_content draft)) = Ok (dr_content_hash draft)"
    using v(1) hash by simp
  from none show "duplicates_of scope kind draft (dr_content_hash draft) existing = []"
    "contradictions_of scope kind draft (dr_content_hash draft) existing = []"
    unfolding issues_of_def hash by (simp_all split: if_splits)
qed

end
