(* ===== verification/Memory_Schema.thy ===== *)
theory Memory_Schema
  imports Store_Port Memory_Validate
begin

text \<open>
  The tables of the memory ledger (\<open>autoharness-store-sqlite/migrations\<close>, 0004 to 0006), with the rendered
  columns of the context ledger that erasure changes. As for the session tables, a table is the list of
  its rows, a column with the text of a domain value holds the value, a column restricted to a few words
  is a datatype, and an integer column with a CHECK for its sign is a natural number.
  \<open>memory_schema_ok\<close> is the conjunction of the constraints, checked at the end of every statement. The
  row of a blob has no media type, which is one constant. The tombstones of erased sessions belong to the
  deletion of sessions and are left out.
\<close>

section \<open>Rows\<close>

record memory_item_row =
  mi_memory_id :: memory_id
  mi_scope :: memory_scope
  mi_kind :: memory_kind
  mi_lifecycle :: memory_revision_status
  mi_last_sequence :: nat
  mi_latest_revision :: nat
  mi_latest_revision_id :: "memory_revision_id option"
  mi_active_revision_id :: "memory_revision_id option"
  mi_created_at :: int
  mi_updated_at :: int

record blob_row =
  bl_content_id :: ustring
  bl_content_utf8 :: bytes
  bl_content_sha256 :: bytes
  bl_created_at :: int

record memory_operation_row =
  or_operation_id :: memory_operation_id
  or_memory_id :: memory_id
  or_sequence :: nat
  or_schema_version :: nat
  or_operation_kind :: string
  or_revision_id :: "memory_revision_id option"
  or_caused_by_command_id :: "command_id option"
  or_caused_by_operation_id :: "memory_operation_id option"
  or_correlation_id :: correlation_id
  or_occurred_at :: int
  or_envelope_json :: bytes
  or_operation_sha256 :: bytes

record memory_revision_row =
  rv_search_rowid :: nat
  rv_revision_id :: memory_revision_id
  rv_memory_id :: memory_id
  rv_revision :: nat
  rv_subject_key :: "memory_subject_key option"
  rv_introduced_operation_id :: memory_operation_id
  rv_state :: memory_revision_status
  rv_content_id :: "ustring option"
  rv_content_hash_sha256 :: bytes
  rv_metadata_json :: bytes
  rv_metadata_sha256 :: bytes
  rv_origin :: memory_origin
  rv_trust_class :: trust_class
  rv_confidence :: nat
  rv_sensitivity :: sensitivity
  rv_valid_from :: "int option"
  rv_valid_until :: "int option"
  rv_created_at :: int
  rv_supersedes_revision_id :: "memory_revision_id option"

record memory_evidence_row =
  ve_revision_id :: memory_revision_id
  ve_ordinal :: nat
  ve_evidence_id :: memory_evidence_id
  ve_source_json :: bytes
  ve_relation :: memory_evidence_relation
  ve_excerpt_content_id :: "ustring option"
  ve_excerpt_sha256 :: "bytes option"
  ve_erased_by_session_id :: "session_id option"
  ve_erased_at :: "int option"

record memory_relation_row =
  vl_revision_id :: memory_revision_id
  vl_ordinal :: nat
  vl_to_memory_id :: memory_id
  vl_relation :: memory_relation_kind

record memory_validation_row =
  vd_operation_id :: memory_operation_id
  vd_revision_id :: memory_revision_id
  vd_validator_version :: nat
  vd_content_sha256 :: bytes
  vd_outcome :: memory_validation_status
  vd_validation_json :: bytes
  vd_created_at :: int

record memory_fts_row =
  fts_rowid :: nat
  fts_content :: bytes
  fts_revision_id :: memory_revision_id
  fts_memory_id :: memory_id

text \<open>The state column of a rendering with its two nullable columns.\<close>

datatype rendering = Rendering_Retained bytes bytes | Rendering_Absent | Rendering_Erased

record rendered_turn_row =
  rt_context_turn_id :: context_turn_id
  rt_rendered :: rendering

record rendered_admission_row =
  ra_admission_id :: context_admission_id
  ra_context_turn_id :: context_turn_id
  ra_memory_revision_id :: "memory_revision_id option"
  ra_rendered :: rendering

record memory_tables =
  mt_items :: "memory_item_row list"
  mt_blobs :: "blob_row list"
  mt_operations :: "memory_operation_row list"
  mt_revisions :: "memory_revision_row list"
  mt_evidence :: "memory_evidence_row list"
  mt_relations :: "memory_relation_row list"
  mt_validations :: "memory_validation_row list"
  mt_fts :: "memory_fts_row list"
  mt_turns :: "rendered_turn_row list"
  mt_admissions :: "rendered_admission_row list"
  mt_generation :: nat
  mt_mutation_generation :: nat
  mt_state_updated_at :: int

section \<open>Constraints\<close>

definition column_len_ok :: "ustring \<Rightarrow> bool" where
  "column_len_ok s \<longleftrightarrow> 1 \<le> str_len s \<and> str_len s \<le> 512"

fun scope_id_str :: "memory_scope \<Rightarrow> ustring" where
  "scope_id_str (Scope_User (UserId s)) = s"
| "scope_id_str (Scope_In_Workspace (WorkspaceId s)) = s"
| "scope_id_str (Scope_In_Session (SessionId s)) = s"
| "scope_id_str (Scope_Agent (AgentId s)) = s"

definition null_or :: "('a \<Rightarrow> bool) \<Rightarrow> 'a option \<Rightarrow> bool" where
  "null_or P x = (case x of None \<Rightarrow> True | Some y \<Rightarrow> P y)"

definition items_ok :: "memory_tables \<Rightarrow> bool" where
  "items_ok t \<longleftrightarrow>
     distinct (map mi_memory_id (mt_items t))
     \<and> list_all (\<lambda>r. column_len_ok (memory_id_str (mi_memory_id r)) \<and> column_len_ok (scope_id_str (mi_scope r))
          \<and> (mi_lifecycle r = Rev_Active \<longleftrightarrow> mi_active_revision_id r \<noteq> None)) (mt_items t)"

definition blobs_ok :: "memory_tables \<Rightarrow> bool" where
  "blobs_ok t \<longleftrightarrow>
     distinct (map bl_content_id (mt_blobs t))
     \<and> list_all (\<lambda>r. column_len_ok (bl_content_id r) \<and> 1 \<le> length (bl_content_utf8 r)
          \<and> length (bl_content_utf8 r) \<le> 16384 \<and> length (bl_content_sha256 r) = 32) (mt_blobs t)"

definition item_exists :: "memory_tables \<Rightarrow> memory_id \<Rightarrow> bool" where
  "item_exists t m \<longleftrightarrow> m \<in> set (map mi_memory_id (mt_items t))"

definition operation_exists :: "memory_tables \<Rightarrow> memory_operation_id \<Rightarrow> bool" where
  "operation_exists t i \<longleftrightarrow> i \<in> set (map or_operation_id (mt_operations t))"

definition revision_exists :: "memory_tables \<Rightarrow> memory_revision_id \<Rightarrow> bool" where
  "revision_exists t i \<longleftrightarrow> i \<in> set (map rv_revision_id (mt_revisions t))"

definition blob_exists :: "memory_tables \<Rightarrow> ustring \<Rightarrow> bool" where
  "blob_exists t i \<longleftrightarrow> i \<in> set (map bl_content_id (mt_blobs t))"

definition operations_ok :: "memory_tables \<Rightarrow> bool" where
  "operations_ok t \<longleftrightarrow>
     distinct (map or_operation_id (mt_operations t))
     \<and> distinct (map (\<lambda>r. (or_memory_id r, or_sequence r)) (mt_operations t))
     \<and> distinct (List.map_filter or_caused_by_command_id (mt_operations t))
     \<and> list_all (\<lambda>r. column_len_ok (operation_str (or_operation_id r)) \<and> 0 < or_sequence r
          \<and> 1 \<le> or_schema_version r \<and> or_schema_version r \<le> 65535
          \<and> (case or_correlation_id r of CorrelationId s \<Rightarrow> column_len_ok s)
          \<and> 1 \<le> length (or_envelope_json r) \<and> length (or_envelope_json r) \<le> 1048576
          \<and> length (or_operation_sha256 r) = 32
          \<and> (or_caused_by_command_id r = None \<longleftrightarrow> or_caused_by_operation_id r \<noteq> None)
          \<and> item_exists t (or_memory_id r)
          \<and> null_or (operation_exists t) (or_caused_by_operation_id r)) (mt_operations t)"

definition revision_row_ok :: "memory_tables \<Rightarrow> memory_revision_row \<Rightarrow> bool" where
  "revision_row_ok t r \<longleftrightarrow>
     column_len_ok (revision_str (rv_revision_id r)) \<and> 0 < rv_revision r
     \<and> null_or (\<lambda>k. column_len_ok (subject_str k)) (rv_subject_key r)
     \<and> length (rv_content_hash_sha256 r) = 32
     \<and> 1 \<le> length (rv_metadata_json r) \<and> length (rv_metadata_json r) \<le> 1048576
     \<and> length (rv_metadata_sha256 r) = 32 \<and> rv_confidence r \<le> 10000
     \<and> null_or (\<lambda>u. null_or (\<lambda>f. f < u) (rv_valid_from r)) (rv_valid_until r)
     \<and> (rv_state r = Rev_Deleted \<longrightarrow> rv_content_id r = None)
     \<and> item_exists t (rv_memory_id r) \<and> operation_exists t (rv_introduced_operation_id r)
     \<and> null_or (blob_exists t) (rv_content_id r)
     \<and> null_or (revision_exists t) (rv_supersedes_revision_id r)"

definition revisions_ok :: "memory_tables \<Rightarrow> bool" where
  "revisions_ok t \<longleftrightarrow>
     distinct (map rv_search_rowid (mt_revisions t)) \<and> distinct (map rv_revision_id (mt_revisions t))
     \<and> distinct (map rv_introduced_operation_id (mt_revisions t))
     \<and> distinct (map (\<lambda>r. (rv_memory_id r, rv_revision r)) (mt_revisions t))
     \<and> list_all (revision_row_ok t) (mt_revisions t)"

definition evidence_ok :: "memory_tables \<Rightarrow> bool" where
  "evidence_ok t \<longleftrightarrow>
     distinct (map (\<lambda>r. (ve_revision_id r, ve_ordinal r)) (mt_evidence t))
     \<and> distinct (map ve_evidence_id (mt_evidence t))
     \<and> list_all (\<lambda>r. column_len_ok (evidence_str (ve_evidence_id r))
          \<and> 1 \<le> length (ve_source_json r) \<and> length (ve_source_json r) \<le> 16384
          \<and> (ve_excerpt_content_id r = None \<longleftrightarrow> ve_excerpt_sha256 r = None)
          \<and> null_or (\<lambda>h. length h = 32) (ve_excerpt_sha256 r)
          \<and> (ve_erased_by_session_id r = None \<longleftrightarrow> ve_erased_at r = None)
          \<and> (ve_erased_at r \<noteq> None \<longrightarrow> ve_excerpt_content_id r = None)
          \<and> revision_exists t (ve_revision_id r)
          \<and> null_or (blob_exists t) (ve_excerpt_content_id r)) (mt_evidence t)"

definition relations_ok :: "memory_tables \<Rightarrow> bool" where
  "relations_ok t \<longleftrightarrow>
     distinct (map (\<lambda>r. (vl_revision_id r, vl_ordinal r)) (mt_relations t))
     \<and> list_all (\<lambda>r. column_len_ok (memory_id_str (vl_to_memory_id r)) \<and> revision_exists t (vl_revision_id r))
          (mt_relations t)"

definition validations_ok :: "memory_tables \<Rightarrow> bool" where
  "validations_ok t \<longleftrightarrow>
     distinct (map vd_operation_id (mt_validations t))
     \<and> list_all (\<lambda>r. 1 \<le> vd_validator_version r \<and> vd_validator_version r \<le> 65535
          \<and> length (vd_content_sha256 r) = 32
          \<and> 1 \<le> length (vd_validation_json r) \<and> length (vd_validation_json r) \<le> 65536
          \<and> operation_exists t (vd_operation_id r) \<and> revision_exists t (vd_revision_id r)) (mt_validations t)"

definition fts_ok :: "memory_tables \<Rightarrow> bool" where
  "fts_ok t \<longleftrightarrow> distinct (map fts_rowid (mt_fts t))"

definition memory_schema_ok :: "memory_tables \<Rightarrow> bool" where
  "memory_schema_ok t \<longleftrightarrow>
     items_ok t \<and> blobs_ok t \<and> operations_ok t \<and> revisions_ok t \<and> evidence_ok t \<and> relations_ok t
     \<and> validations_ok t \<and> fts_ok t"

section \<open>Statements\<close>

definition run_memory :: "identity_kind \<Rightarrow> memory_tables \<Rightarrow> (memory_tables, store_error) result" where
  "run_memory kind t = (if memory_schema_ok t then Ok t else Err (SE_IdentityConflict kind))"

definition set_where :: "('r \<Rightarrow> bool) \<Rightarrow> ('r \<Rightarrow> 'r) \<Rightarrow> 'r list \<Rightarrow> 'r list" where
  "set_where p f rows = map (\<lambda>r. if p r then f r else r) rows"

text \<open>\<open>DELETE FROM memory_content_blobs\<close> with the \<open>ON DELETE SET NULL\<close> of its two references.\<close>

definition delete_blob :: "ustring \<Rightarrow> memory_tables \<Rightarrow> memory_tables" where
  "delete_blob cid t =
     t\<lparr>mt_blobs := filter (\<lambda>b. bl_content_id b \<noteq> cid) (mt_blobs t),
       mt_revisions := set_where (\<lambda>r. rv_content_id r = Some cid) (\<lambda>r. r\<lparr>rv_content_id := None\<rparr>) (mt_revisions t),
       mt_evidence := set_where (\<lambda>r. ve_excerpt_content_id r = Some cid)
         (\<lambda>r. r\<lparr>ve_excerpt_content_id := None\<rparr>) (mt_evidence t)\<rparr>"

text \<open>The row identifier SQLite gives a new row of a table with an integer primary key.\<close>

definition next_rowid :: "memory_revision_row list \<Rightarrow> nat" where
  "next_rowid rows = Suc (foldr (\<lambda>r m. max (rv_search_rowid r) m) rows 0)"

definition empty_memory_tables :: memory_tables where
  "empty_memory_tables =
     \<lparr>mt_items = [], mt_blobs = [], mt_operations = [], mt_revisions = [], mt_evidence = [],
      mt_relations = [], mt_validations = [], mt_fts = [], mt_turns = [], mt_admissions = [],
      mt_generation = 0, mt_mutation_generation = 0, mt_state_updated_at = 0\<rparr>"

lemma run_memory_Ok [result_simps]: "run_memory kind t = Ok u \<longleftrightarrow> memory_schema_ok t \<and> u = t"
  by (auto simp: run_memory_def)

lemma run_memory_no_Panic [simp]: "run_memory kind t \<noteq> Panic"
  by (simp add: run_memory_def)

lemma memory_schema_ok_empty: "memory_schema_ok empty_memory_tables"
  by (simp add: empty_memory_tables_def memory_schema_ok_def items_ok_def blobs_ok_def operations_ok_def
      revisions_ok_def evidence_ok_def relations_ok_def validations_ok_def fts_ok_def List.map_filter_def)

end
