(* ===== verification/Memory_Store.thy ===== *)
theory Memory_Store
  imports Memory_Schema
begin

text \<open>
  The memory ledger over SQLite (\<open>memory_store.rs\<close>): append of a batch of operations in one transaction,
  with its checks, its projections of revisions, items and the search index, the erasure of content, and
  the reads that commands and context construction use. The JSON codec of serde and SHA-256 are fields of
  a parameter; the text search of FTS5 is a parameter of the search. Errors of the database itself are
  not modelled.
\<close>

record memory_codec =
  mk_sha256 :: "bytes \<Rightarrow> bytes"
  mk_operation_json :: "memory_operation \<Rightarrow> bytes option"
  mk_operation_parse :: "bytes \<Rightarrow> memory_operation option"
  mk_revision_json :: "memory_revision \<Rightarrow> bytes option"
  mk_revision_parse :: "bytes \<Rightarrow> memory_revision option"
  mk_source_json :: "memory_evidence_source \<Rightarrow> bytes option"
  mk_validation_json :: "memory_validation_result \<Rightarrow> bytes option"

section \<open>Requests\<close>

record memory_evidence_content =
  mec_evidence_id :: memory_evidence_id
  mec_excerpt :: memory_evidence_excerpt

record memory_revision_content =
  mrc_revision_id :: memory_revision_id
  mrc_content :: memory_content
  mrc_evidence :: "memory_evidence_content list"

record memory_append_operation =
  mao_operation :: memory_operation
  mao_content :: "memory_revision_content option"

record memory_append_batch =
  mab_expected_last_sequence :: nat
  mab_operations :: "memory_append_operation list"

record memory_append_receipt =
  mar_disposition :: append_disposition
  mar_last_sequence :: nat
  mar_generation :: nat
  mar_mutation_generation :: nat

definition max_memory_operation_bytes :: nat where "max_memory_operation_bytes = 1024 * 1024"

definition corrupt_memory_ledger :: store_error where "corrupt_memory_ledger = SE_CorruptData CA_MemoryLedger"
definition corrupt_memory_projection :: store_error where
  "corrupt_memory_projection = SE_CorruptData CA_MemoryProjection"

definition sql_sequence :: "nat \<Rightarrow> (unit, store_error) result" where
  "sql_sequence n = ensure (n \<le> i64_max) SE_SequenceOutOfRange"

section \<open>Encodings\<close>

fun introduced_revision :: "memory_operation_payload \<Rightarrow> memory_revision option" where
  "introduced_revision (MemoryCreated _ _ v) = Some v"
| "introduced_revision (RevisionProposed v) = Some v"
| "introduced_revision (MemoryRevised v) = Some v"
| "introduced_revision (ProposalApproved _ v) = Some v"
| "introduced_revision _ = None"

fun payload_revision_id :: "memory_operation_payload \<Rightarrow> memory_revision_id option" where
  "payload_revision_id (MemoryCreated _ _ v) = Some (mv_revision_id v)"
| "payload_revision_id (RevisionProposed v) = Some (mv_revision_id v)"
| "payload_revision_id (MemoryRevised v) = Some (mv_revision_id v)"
| "payload_revision_id (ProposalApproved _ v) = Some (mv_revision_id v)"
| "payload_revision_id (RevisionValidated i _) = Some i"
| "payload_revision_id (RevisionActivated i) = Some i"
| "payload_revision_id (RevisionSuperseded i _) = Some i"
| "payload_revision_id (RevisionRejected i _) = Some i"
| "payload_revision_id (MemoryRetracted i) = Some i"
| "payload_revision_id (MemoryDeleted i) = Some i"

fun operation_kind :: "memory_operation_payload \<Rightarrow> string" where
  "operation_kind (MemoryCreated _ _ _) = ''created''"
| "operation_kind (RevisionProposed _) = ''proposed''"
| "operation_kind (MemoryRevised _) = ''revised''"
| "operation_kind (RevisionValidated _ _) = ''validated''"
| "operation_kind (ProposalApproved _ _) = ''approved''"
| "operation_kind (RevisionActivated _) = ''activated''"
| "operation_kind (RevisionSuperseded _ _) = ''superseded''"
| "operation_kind (RevisionRejected _ _) = ''rejected''"
| "operation_kind (MemoryRetracted _) = ''retracted''"
| "operation_kind (MemoryDeleted _) = ''deleted''"

fun validity_bounds :: "memory_validity \<Rightarrow> int option \<times> int option" where
  "validity_bounds Indefinite = (None, None)"
| "validity_bounds (Valid_From f) = (Some f, None)"
| "validity_bounds (Valid_Until u) = (None, Some u)"
| "validity_bounds (Valid_Window w) = (Some (vw_valid_from w), Some (vw_valid_until w))"

text \<open>The value of a hexadecimal digit; the digits of a digest are checked when it is constructed.\<close>

definition hex_digit_value :: "nat \<Rightarrow> nat option" where
  "hex_digit_value c =
     (if 48 \<le> c \<and> c \<le> 57 then Some (c - 48)
      else if 97 \<le> c \<and> c \<le> 102 then Some (c - 87)
      else if 65 \<le> c \<and> c \<le> 70 then Some (c - 55) else None)"

fun hex_pairs :: "ustring \<Rightarrow> bytes option" where
  "hex_pairs (a # b # s) =
     (case (hex_digit_value a, hex_digit_value b, hex_pairs s) of
        (Some x, Some y, Some rest) \<Rightarrow> Some ((16 * x + y) # rest) | _ \<Rightarrow> None)"
| "hex_pairs s = (if s = [] then Some [] else None)"

definition digest_bytes :: "sha256_digest \<Rightarrow> (bytes, store_error) result" where
  "digest_bytes d =
     (if str_len (digest_str d) \<noteq> 64 then Err corrupt_memory_projection
      else ok_or (hex_pairs (digest_str d)) corrupt_memory_projection)"

section \<open>Validation of a request\<close>

text \<open>The sidecars as an ordered map: an entry per evidence, none twice.\<close>

fun insert_sidecars ::
  "(memory_evidence_id \<times> memory_evidence_excerpt) list \<Rightarrow> memory_evidence_content list
     \<Rightarrow> ((memory_evidence_id \<times> memory_evidence_excerpt) list, store_error) result" where
  "insert_sidecars acc [] = Ok acc"
| "insert_sidecars acc (e # es) =
     (if mec_evidence_id e \<in> set (map fst acc) then Err (SE_IdentityConflict IK_MemoryRevision)
      else insert_sidecars (acc @ [(mec_evidence_id e, mec_excerpt e)]) es)"

fun match_sidecars ::
  "memory_codec \<Rightarrow> (memory_evidence_id \<times> memory_evidence_excerpt) list \<Rightarrow> memory_evidence_metadata list
     \<Rightarrow> ((memory_evidence_id \<times> memory_evidence_excerpt) list, store_error) result" where
  "match_sidecars lib sidecars [] = Ok sidecars"
| "match_sidecars lib sidecars (e # es) =
     (let found = map_of sidecars (evm_evidence_id e);
          rest = filter (\<lambda>(k, _). k \<noteq> evm_evidence_id e) sidecars
      in case (evm_excerpt_hash e, found) of
           (None, None) \<Rightarrow> match_sidecars lib rest es
         | (Some hash, Some excerpt) \<Rightarrow>
             and_then (digest_bytes hash) (\<lambda>expected.
             if mk_sha256 lib (as_bytes (excerpt_str excerpt)) = expected then match_sidecars lib rest es
             else Err SE_InvalidMemoryTransition)
         | _ \<Rightarrow> Err SE_InvalidMemoryTransition)"

definition validate_content_sidecar :: "memory_codec \<Rightarrow> memory_append_operation \<Rightarrow> (unit, store_error) result" where
  "validate_content_sidecar lib entry =
     (case (introduced_revision (mo_payload (mao_operation entry)), mao_content entry) of
        (None, None) \<Rightarrow> Ok ()
      | (Some v, Some content) \<Rightarrow>
          if mv_revision_id v \<noteq> mrc_revision_id content \<or> mv_sensitivity v = Sens_Secret
          then Err SE_InvalidMemoryTransition
          else
            and_then (map_err (\<lambda>_. SE_InvalidMemoryTransition)
              (normalized_content_hash (mk_sha256 lib) (content_str (mrc_content content)))) (\<lambda>hash.
            if hash \<noteq> mv_content_hash v then Err SE_InvalidMemoryTransition
            else
              and_then (insert_sidecars [] (mrc_evidence content)) (\<lambda>sidecars.
              and_then (match_sidecars lib sidecars (mv_evidence v)) (\<lambda>rest.
              ensure (rest = []) SE_InvalidMemoryTransition)))
      | _ \<Rightarrow> Err SE_InvalidMemoryTransition)"

record encoded_memory_operation =
  emo_envelope_json :: bytes
  emo_operation_hash :: bytes

definition encode_and_validate ::
  "memory_codec \<Rightarrow> nat \<Rightarrow> memory_append_operation \<Rightarrow> (encoded_memory_operation, store_error) result" where
  "encode_and_validate lib expected_last entry =
     (let operation = mao_operation entry
      in and_then (ensure (mo_schema_version operation = memory_schema_v1)
           (SE_UnsupportedMemorySchema (mo_schema_version operation))) (\<lambda>_.
         and_then (ensure (mo_sequence operation \<le> i64_max \<and> expected_last \<le> i64_max) SE_SequenceOutOfRange) (\<lambda>_.
         and_then (validate_content_sidecar lib entry) (\<lambda>_.
         and_then (ok_or (mk_operation_json lib operation) SE_Backend) (\<lambda>json.
         and_then (ensure (length json \<le> max_memory_operation_bytes) SE_LimitExceeded) (\<lambda>_.
         Ok \<lparr>emo_envelope_json = json, emo_operation_hash = mk_sha256 lib json\<rparr>))))))"

fun is_created :: "memory_operation_payload \<Rightarrow> bool" where
  "is_created (MemoryCreated _ _ _) \<longleftrightarrow> True"
| "is_created _ \<longleftrightarrow> False"

text \<open>
  The loop over a batch: \<open>first\<close> is its first operation, \<open>preceding\<close> the operations and \<open>commands\<close> the
  commands before this one, \<open>expected\<close> the sequence this one must have.
\<close>

fun encode_batch ::
  "memory_codec \<Rightarrow> memory_operation \<Rightarrow> memory_operation_id list \<Rightarrow> command_id list \<Rightarrow> nat
     \<Rightarrow> memory_append_operation list \<Rightarrow> (encoded_memory_operation list, store_error) result" where
  "encode_batch lib first preceding commands expected [] = Ok []"
| "encode_batch lib first preceding commands expected (e # es) =
     (let operation = mao_operation e
      in and_then (ensure (mo_memory_id operation = mo_memory_id first
             \<and> mo_correlation_id operation = mo_correlation_id first \<and> mo_sequence operation = expected
             \<and> (preceding = [] \<or> \<not> is_created (mo_payload operation))
             \<and> mo_operation_id operation \<notin> set preceding) SE_NonContiguousBatch) (\<lambda>_.
         and_then (ensure (preceding = [] \<or> (case mo_causation operation of
             Mem_Cause_Operation c \<Rightarrow> c \<in> set preceding | Mem_Cause_Command _ \<Rightarrow> False)) SE_InvalidCausation) (\<lambda>_.
         and_then (case mo_causation operation of
             Mem_Cause_Command c \<Rightarrow>
               if c \<in> set commands then Err (SE_IdentityConflict IK_Command) else Ok (c # commands)
           | Mem_Cause_Operation _ \<Rightarrow> Ok commands) (\<lambda>commands'.
         and_then (encode_and_validate lib (expected - 1) e) (\<lambda>enc.
         and_then (ok_or (checked_add_u64 expected 1) SE_SequenceOutOfRange) (\<lambda>following.
         and_then (encode_batch lib first (mo_operation_id operation # preceding) commands' following es) (\<lambda>encs.
         Ok (enc # encs))))))))"

definition encode_and_validate_batch ::
  "memory_codec \<Rightarrow> memory_append_batch \<Rightarrow> (encoded_memory_operation list, store_error) result" where
  "encode_and_validate_batch lib request =
     (case mab_operations request of
        [] \<Rightarrow> Err SE_EmptyAppend
      | e # es \<Rightarrow>
          and_then (ok_or (checked_add_u64 (mab_expected_last_sequence request) 1) SE_SequenceOutOfRange) (\<lambda>expected.
          encode_batch lib (mao_operation e) [] [] expected (e # es)))"

section \<open>Reading items and counters\<close>

definition find_item :: "memory_tables \<Rightarrow> memory_id \<Rightarrow> memory_item_row option" where
  "find_item t m = find (\<lambda>r. mi_memory_id r = m) (mt_items t)"

definition find_revision :: "memory_tables \<Rightarrow> memory_revision_id \<Rightarrow> memory_revision_row option" where
  "find_revision t i = find (\<lambda>r. rv_revision_id r = i) (mt_revisions t)"

definition find_blob :: "memory_tables \<Rightarrow> ustring \<Rightarrow> blob_row option" where
  "find_blob t c = find (\<lambda>b. bl_content_id b = c) (mt_blobs t)"

definition current_memory_sequence :: "memory_tables \<Rightarrow> memory_id \<Rightarrow> nat" where
  "current_memory_sequence t m = (case find_item t m of None \<Rightarrow> 0 | Some r \<Rightarrow> mi_last_sequence r)"

definition current_active_revision :: "memory_tables \<Rightarrow> memory_id \<Rightarrow> memory_revision_id option" where
  "current_active_revision t m = (case find_item t m of None \<Rightarrow> None | Some r \<Rightarrow> mi_active_revision_id r)"

definition read_generation :: "memory_tables \<Rightarrow> (nat, store_error) result" where
  "read_generation t = map_err (\<lambda>_. corrupt_memory_projection) (memory_generation_new (mt_generation t))"

definition increment_generation :: "memory_tables \<Rightarrow> int \<Rightarrow> (nat \<times> memory_tables, store_error) result" where
  "increment_generation t updated_at =
     and_then (read_generation t) (\<lambda>current.
     and_then (ok_or (memory_generation_next current) SE_SequenceOutOfRange) (\<lambda>following.
     and_then (sql_sequence following) (\<lambda>_.
     Ok (following, t\<lparr>mt_generation := following, mt_state_updated_at := updated_at\<rparr>))))"

definition increment_mutation_generation :: "memory_tables \<Rightarrow> int \<Rightarrow> (nat \<times> memory_tables, store_error) result" where
  "increment_mutation_generation t updated_at =
     and_then (ok_or (checked_add_u64 (mt_mutation_generation t) 1) SE_SequenceOutOfRange) (\<lambda>following.
     and_then (sql_sequence following) (\<lambda>_.
     Ok (following, t\<lparr>mt_mutation_generation := following, mt_state_updated_at := updated_at\<rparr>)))"

section \<open>Writing operations\<close>

definition insert_memory_item_shell :: "memory_tables \<Rightarrow> memory_operation \<Rightarrow> (memory_tables, store_error) result" where
  "insert_memory_item_shell t operation =
     (case mo_payload operation of
        MemoryCreated scope kind v \<Rightarrow>
          if mv_revision v \<noteq> 1 \<or> mv_status v \<notin> {Rev_Proposed, Rev_Active} then Err SE_InvalidMemoryTransition
          else run_memory IK_Memory (t\<lparr>mt_items := mt_items t @
            [\<lparr>mi_memory_id = mo_memory_id operation, mi_scope = scope, mi_kind = kind,
              mi_lifecycle = Rev_Proposed, mi_last_sequence = 0, mi_latest_revision = 0,
              mi_latest_revision_id = None, mi_active_revision_id = None,
              mi_created_at = mo_occurred_at operation, mi_updated_at = mo_occurred_at operation\<rparr>]\<rparr>)
      | _ \<Rightarrow> Err SE_InvalidMemoryTransition)"

definition validate_memory_causation :: "memory_tables \<Rightarrow> memory_operation \<Rightarrow> (unit, store_error) result" where
  "validate_memory_causation t operation =
     (case mo_causation operation of
        Mem_Cause_Command _ \<Rightarrow> Ok ()
      | Mem_Cause_Operation cause \<Rightarrow>
          (case find (\<lambda>r. or_operation_id r = cause) (mt_operations t) of
             None \<Rightarrow> Err SE_InvalidCausation
           | Some r \<Rightarrow>
               if or_memory_id r \<noteq> mo_memory_id operation then Err SE_InvalidCausation
               else and_then (sql_sequence (mo_sequence operation)) (\<lambda>_.
                    ensure (or_sequence r < mo_sequence operation) SE_InvalidCausation)))"

definition insert_operation ::
  "memory_tables \<Rightarrow> memory_operation \<Rightarrow> encoded_memory_operation \<Rightarrow> (memory_tables, store_error) result" where
  "insert_operation t operation enc =
     and_then (sql_sequence (mo_sequence operation)) (\<lambda>_.
     run_memory IK_MemoryOperation (t\<lparr>mt_operations := mt_operations t @
       [\<lparr>or_operation_id = mo_operation_id operation, or_memory_id = mo_memory_id operation,
         or_sequence = mo_sequence operation, or_schema_version = mo_schema_version operation,
         or_operation_kind = operation_kind (mo_payload operation),
         or_revision_id = payload_revision_id (mo_payload operation),
         or_caused_by_command_id = (case mo_causation operation of Mem_Cause_Command c \<Rightarrow> Some c | _ \<Rightarrow> None),
         or_caused_by_operation_id = (case mo_causation operation of Mem_Cause_Operation c \<Rightarrow> Some c | _ \<Rightarrow> None),
         or_correlation_id = mo_correlation_id operation, or_occurred_at = mo_occurred_at operation,
         or_envelope_json = emo_envelope_json enc, or_operation_sha256 = emo_operation_hash enc\<rparr>]\<rparr>))"

section \<open>The search index\<close>

definition add_revision_to_fts :: "memory_tables \<Rightarrow> memory_revision_id \<Rightarrow> (memory_tables, store_error) result" where
  "add_revision_to_fts t i =
     (case find_revision t i of
        None \<Rightarrow> Err SE_InvalidMemoryTransition
      | Some r \<Rightarrow>
          (case Option.bind (rv_content_id r) (find_blob t) of
             None \<Rightarrow> Err SE_InvalidMemoryTransition
           | Some b \<Rightarrow> run_memory IK_Constraint (t\<lparr>mt_fts := mt_fts t @
               [\<lparr>fts_rowid = rv_search_rowid r, fts_content = bl_content_utf8 b,
                 fts_revision_id = i, fts_memory_id = rv_memory_id r\<rparr>]\<rparr>)))"

definition remove_revision_from_fts :: "memory_tables \<Rightarrow> memory_revision_id \<Rightarrow> memory_tables" where
  "remove_revision_from_fts t i = t\<lparr>mt_fts := filter (\<lambda>f. fts_revision_id f \<noteq> i) (mt_fts t)\<rparr>"

section \<open>Revision states\<close>

definition require_revision_state ::
  "memory_tables \<Rightarrow> memory_id \<Rightarrow> memory_revision_id \<Rightarrow> memory_revision_status list \<Rightarrow> (unit, store_error) result" where
  "require_revision_state t m i allowed =
     (case find (\<lambda>r. rv_memory_id r = m \<and> rv_revision_id r = i) (mt_revisions t) of
        None \<Rightarrow> Err SE_InvalidMemoryTransition
      | Some r \<Rightarrow> ensure (rv_state r \<in> set allowed) SE_InvalidMemoryTransition)"

definition put_state :: "memory_tables \<Rightarrow> memory_revision_id \<Rightarrow> memory_revision_status \<Rightarrow> memory_tables" where
  "put_state t i state =
     t\<lparr>mt_revisions := set_where (\<lambda>r. rv_revision_id r = i) (\<lambda>r. r\<lparr>rv_state := state\<rparr>) (mt_revisions t)\<rparr>"

definition set_revision_state ::
  "memory_tables \<Rightarrow> memory_revision_id \<Rightarrow> memory_revision_status \<Rightarrow> (memory_tables, store_error) result" where
  "set_revision_state t i state =
     and_then (run_memory IK_Constraint (put_state t i state)) (\<lambda>t'.
     if length (filter (\<lambda>r. rv_revision_id r = i) (mt_revisions t)) \<noteq> 1 then Err corrupt_memory_projection
     else Ok t')"

definition update_item ::
  "memory_tables \<Rightarrow> memory_id \<Rightarrow> (memory_item_row \<Rightarrow> memory_item_row) \<Rightarrow> (memory_tables, store_error) result" where
  "update_item t m f =
     run_memory IK_Constraint (t\<lparr>mt_items := set_where (\<lambda>r. mi_memory_id r = m) f (mt_items t)\<rparr>)"

text \<open>\<open>CASE WHEN active_revision_id IS NULL THEN ... ELSE 'active' END\<close>\<close>

definition lifecycle_unless_active :: "memory_revision_status \<Rightarrow> memory_item_row \<Rightarrow> memory_revision_status" where
  "lifecycle_unless_active state r = (if mi_active_revision_id r = None then state else Rev_Active)"

definition deactivate_current_revision ::
  "memory_tables \<Rightarrow> memory_id \<Rightarrow> memory_revision_id \<Rightarrow> (memory_tables, store_error) result" where
  "deactivate_current_revision t m except =
     (case find_item t m of
        None \<Rightarrow> Err SE_Backend
      | Some r \<Rightarrow>
          (case mi_active_revision_id r of
             None \<Rightarrow> Ok t
           | Some current \<Rightarrow>
               if current = except then Ok t
               else and_then (run_memory IK_Constraint (put_state t current Rev_Superseded)) (\<lambda>t.
                    Ok (remove_revision_from_fts t current))))"

definition activate_revision ::
  "memory_tables \<Rightarrow> memory_id \<Rightarrow> memory_revision_id \<Rightarrow> bool \<Rightarrow> (memory_tables, store_error) result" where
  "activate_revision t m i maintain_fts =
     and_then (deactivate_current_revision t m i) (\<lambda>t.
     and_then (set_revision_state t i Rev_Active) (\<lambda>t.
     and_then (if maintain_fts then add_revision_to_fts t i else Ok t) (\<lambda>t.
     update_item t m (\<lambda>r. r\<lparr>mi_lifecycle := Rev_Active, mi_active_revision_id := Some i\<rparr>))))"

definition update_item_from_revision ::
  "memory_tables \<Rightarrow> memory_id \<Rightarrow> memory_revision_id \<Rightarrow> (memory_tables, store_error) result" where
  "update_item_from_revision t m i =
     (case find_revision t i of
        None \<Rightarrow> Err SE_Backend
      | Some v \<Rightarrow> update_item t m (\<lambda>r. r\<lparr>mi_lifecycle := lifecycle_unless_active (rv_state v) r\<rparr>))"

definition apply_revision_projection ::
  "memory_tables \<Rightarrow> memory_id \<Rightarrow> memory_revision \<Rightarrow> bool \<Rightarrow> (memory_tables, store_error) result" where
  "apply_revision_projection t m v maintain_fts =
     (if mv_status v = Rev_Active then
        and_then (deactivate_current_revision t m (mv_revision_id v)) (\<lambda>t.
        and_then (if maintain_fts then add_revision_to_fts t (mv_revision_id v) else Ok t) (\<lambda>t.
        and_then (sql_sequence (mv_revision v)) (\<lambda>_.
        update_item t m (\<lambda>r. r\<lparr>mi_latest_revision := mv_revision v, mi_latest_revision_id := Some (mv_revision_id v),
          mi_lifecycle := Rev_Active, mi_active_revision_id := Some (mv_revision_id v)\<rparr>))))
      else
        and_then (sql_sequence (mv_revision v)) (\<lambda>_.
        update_item t m (\<lambda>r. r\<lparr>mi_latest_revision := mv_revision v, mi_latest_revision_id := Some (mv_revision_id v),
          mi_lifecycle := lifecycle_unless_active (mv_status v) r\<rparr>)))"

section \<open>Revisions\<close>

definition insert_blob :: "identity_kind \<Rightarrow> memory_tables \<Rightarrow> blob_row \<Rightarrow> (memory_tables, store_error) result" where
  "insert_blob kind t b = run_memory kind (t\<lparr>mt_blobs := mt_blobs t @ [b]\<rparr>)"

definition memory_content_id :: "memory_revision_id \<Rightarrow> ustring" where
  "memory_content_id i = ascii ''memory-content:'' @ revision_str i"

definition evidence_content_id :: "memory_evidence_id \<Rightarrow> ustring" where
  "evidence_content_id i = ascii ''memory-evidence:'' @ evidence_str i"

definition insert_evidence ::
  "memory_codec \<Rightarrow> memory_revision \<Rightarrow> (memory_evidence_id \<Rightarrow> memory_evidence_excerpt option) \<Rightarrow> memory_tables
     \<Rightarrow> nat \<times> memory_evidence_metadata \<Rightarrow> (memory_tables, store_error) result" where
  "insert_evidence lib v sidecars t ie =
     (case ie of (ordinal, e) \<Rightarrow>
        and_then (case sidecars (evm_evidence_id e) of
            None \<Rightarrow> Ok (t, None)
          | Some excerpt \<Rightarrow>
              and_then (ok_or (evm_excerpt_hash e) SE_InvalidMemoryTransition) (\<lambda>hash.
              and_then (digest_bytes hash) (\<lambda>digest.
              and_then (insert_blob IK_Constraint t
                \<lparr>bl_content_id = evidence_content_id (evm_evidence_id e),
                 bl_content_utf8 = as_bytes (excerpt_str excerpt), bl_content_sha256 = digest,
                 bl_created_at = mv_created_at v\<rparr>) (\<lambda>t.
              Ok (t, Some (evidence_content_id (evm_evidence_id e))))))) (\<lambda>(t, excerpt_id).
        and_then (ok_or (mk_source_json lib (evm_source e)) SE_Backend) (\<lambda>source_json.
        and_then (ensure (ordinal \<le> i64_max) SE_LimitExceeded) (\<lambda>_.
        and_then (case evm_excerpt_hash e of None \<Rightarrow> Ok None
          | Some hash \<Rightarrow> and_then (digest_bytes hash) (\<lambda>d. Ok (Some d))) (\<lambda>digest.
        run_memory IK_Constraint (t\<lparr>mt_evidence := mt_evidence t @
          [\<lparr>ve_revision_id = mv_revision_id v, ve_ordinal = ordinal, ve_evidence_id = evm_evidence_id e,
            ve_source_json = source_json, ve_relation = evm_relation e,
            ve_excerpt_content_id = excerpt_id, ve_excerpt_sha256 = digest,
            ve_erased_by_session_id = None, ve_erased_at = None\<rparr>]\<rparr>))))))"

definition insert_relation ::
  "memory_revision \<Rightarrow> memory_tables \<Rightarrow> nat \<times> memory_relation \<Rightarrow> (memory_tables, store_error) result" where
  "insert_relation v t ir =
     (case ir of (ordinal, r) \<Rightarrow>
        and_then (ensure (ordinal \<le> i64_max) SE_LimitExceeded) (\<lambda>_.
        run_memory IK_Constraint (t\<lparr>mt_relations := mt_relations t @
          [\<lparr>vl_revision_id = mv_revision_id v, vl_ordinal = ordinal, vl_to_memory_id = rel_memory_id r,
            vl_relation = rel_kind r\<rparr>]\<rparr>)))"

definition revision_row ::
  "memory_codec \<Rightarrow> memory_tables \<Rightarrow> memory_operation \<Rightarrow> memory_revision \<Rightarrow> bytes \<Rightarrow> bytes \<Rightarrow> memory_revision_row" where
  "revision_row lib t operation v json content_hash =
      \<lparr>rv_search_rowid = next_rowid (mt_revisions t), rv_revision_id = mv_revision_id v,
          rv_memory_id = mo_memory_id operation, rv_revision = mv_revision v,
          rv_subject_key = mv_subject_key v, rv_introduced_operation_id = mo_operation_id operation,
          rv_state = mv_status v, rv_content_id = Some (memory_content_id (mv_revision_id v)),
          rv_content_hash_sha256 = content_hash, rv_metadata_json = json,
          rv_metadata_sha256 = mk_sha256 lib json, rv_origin = mv_origin v,
          rv_trust_class = mv_trust_class v, rv_confidence = confidence_get (mv_confidence v),
          rv_sensitivity = mv_sensitivity v, rv_valid_from = fst (validity_bounds (mv_validity v)),
          rv_valid_until = snd (validity_bounds (mv_validity v)), rv_created_at = mv_created_at v,
          rv_supersedes_revision_id = mv_supersedes_revision_id v\<rparr>"

definition insert_revision ::
  "memory_codec \<Rightarrow> memory_tables \<Rightarrow> memory_operation \<Rightarrow> memory_revision \<Rightarrow> memory_revision_content option
     \<Rightarrow> (memory_tables, store_error) result" where
  "insert_revision lib t operation v content =
     and_then (ok_or content SE_InvalidMemoryTransition) (\<lambda>content.
     and_then (ok_or (find_item t (mo_memory_id operation)) SE_Backend) (\<lambda>item.
     and_then (ok_or (checked_add_u64 (mi_latest_revision item) 1) SE_SequenceOutOfRange) (\<lambda>expected.
     if mv_revision v \<noteq> expected then Err SE_InvalidMemoryTransition
     else
       and_then (insert_blob IK_MemoryRevision t
         \<lparr>bl_content_id = memory_content_id (mv_revision_id v),
          bl_content_utf8 = as_bytes (content_str (mrc_content content)),
          bl_content_sha256 = mk_sha256 lib (as_bytes (content_str (mrc_content content))),
          bl_created_at = mv_created_at v\<rparr>) (\<lambda>t.
       and_then (ok_or (mk_revision_json lib v) SE_Backend) (\<lambda>json.
       and_then (sql_sequence (mv_revision v)) (\<lambda>_.
       and_then (digest_bytes (mv_content_hash v)) (\<lambda>digest.
       and_then (run_memory IK_MemoryRevision
         (t\<lparr>mt_revisions := mt_revisions t @ [revision_row lib t operation v json digest]\<rparr>)) (\<lambda>t.
       let sidecars = map_of (rev (map (\<lambda>e. (mec_evidence_id e, mec_excerpt e)) (mrc_evidence content)))
       in and_then (try_fold (insert_evidence lib v sidecars) t (enumerate 0 (mv_evidence v))) (\<lambda>t.
          and_then (try_fold (insert_relation v) t (enumerate 0 (mv_relations v))) (\<lambda>t.
          apply_revision_projection t (mo_memory_id operation) v True))))))))))"

section \<open>Erasure\<close>

definition revisions_of :: "memory_tables \<Rightarrow> memory_id \<Rightarrow> memory_revision_id list" where
  "revisions_of t m = map rv_revision_id (filter (\<lambda>r. rv_memory_id r = m) (mt_revisions t))"

definition erase_renderings :: "memory_tables \<Rightarrow> memory_id \<Rightarrow> memory_tables" where
  "erase_renderings t m =
     (let revisions = revisions_of t m;
          admitted = (\<lambda>a. case ra_memory_revision_id a of None \<Rightarrow> False | Some i \<Rightarrow> i \<in> set revisions);
          turns = map ra_context_turn_id (filter admitted (mt_admissions t))
      in t\<lparr>mt_turns := set_where (\<lambda>r. rt_context_turn_id r \<in> set turns)
             (\<lambda>r. r\<lparr>rt_rendered := Rendering_Erased\<rparr>) (mt_turns t),
           mt_admissions := set_where admitted (\<lambda>r. r\<lparr>ra_rendered := Rendering_Erased\<rparr>) (mt_admissions t)\<rparr>)"

definition content_ids_of :: "memory_tables \<Rightarrow> memory_id \<Rightarrow> ustring list" where
  "content_ids_of t m =
     List.map_filter rv_content_id (filter (\<lambda>r. rv_memory_id r = m) (mt_revisions t))
     @ List.map_filter ve_excerpt_content_id
         (filter (\<lambda>e. ve_revision_id e \<in> set (revisions_of t m)) (mt_evidence t))"

definition delete_memory_content ::
  "memory_tables \<Rightarrow> memory_id \<Rightarrow> memory_revision_id \<Rightarrow> (memory_tables, store_error) result" where
  "delete_memory_content t0 m i =
     (let t1 = erase_renderings t0 m;
          t2 = t1\<lparr>mt_fts := filter (\<lambda>f. fts_memory_id f \<noteq> m) (mt_fts t1)\<rparr>;
          content_ids = content_ids_of t2 m
      in and_then (run_memory IK_Constraint (t2\<lparr>mt_evidence :=
           set_where (\<lambda>e. ve_revision_id e \<in> set (revisions_of t2 m))
             (\<lambda>e. e\<lparr>ve_excerpt_content_id := None, ve_excerpt_sha256 := None\<rparr>) (mt_evidence t2)\<rparr>)) (\<lambda>t3.
         and_then (run_memory IK_Constraint (t3\<lparr>mt_revisions :=
           set_where (\<lambda>r. rv_memory_id r = m) (\<lambda>r. r\<lparr>rv_content_id := None\<rparr>) (mt_revisions t3)\<rparr>)) (\<lambda>t4.
         and_then (try_fold (\<lambda>t c. run_memory IK_Constraint (delete_blob c t)) t4 content_ids) (\<lambda>t5.
         and_then (set_revision_state t5 i Rev_Deleted) (\<lambda>t6.
         update_item t6 m (\<lambda>r. r\<lparr>mi_lifecycle := Rev_Deleted, mi_active_revision_id := None\<rparr>))))))"

section \<open>Applying operations\<close>

definition decode_revision :: "memory_codec \<Rightarrow> memory_revision_row \<Rightarrow> (memory_revision, store_error) result" where
  "decode_revision lib r =
     and_then (ensure (mk_sha256 lib (rv_metadata_json r) = rv_metadata_sha256 r) corrupt_memory_projection) (\<lambda>_.
     ok_or (mk_revision_parse lib (rv_metadata_json r)) corrupt_memory_projection)"

definition introduce ::
  "memory_codec \<Rightarrow> bool \<Rightarrow> memory_tables \<Rightarrow> memory_append_operation \<Rightarrow> memory_revision
     \<Rightarrow> (memory_tables, store_error) result" where
  "introduce lib rebuilding t entry v =
     (if rebuilding then apply_revision_projection t (mo_memory_id (mao_operation entry)) v False
      else insert_revision lib t (mao_operation entry) v (mao_content entry))"

definition record_validation ::
  "memory_codec \<Rightarrow> bool \<Rightarrow> memory_tables \<Rightarrow> memory_operation \<Rightarrow> memory_revision_id \<Rightarrow> memory_validation_result
     \<Rightarrow> (memory_tables, store_error) result" where
  "record_validation lib rebuilding t operation i validation =
     and_then (ok_or (find_revision t i) SE_Backend) (\<lambda>r.
     and_then (decode_revision lib r) (\<lambda>v.
     and_then (ensure (mv_content_hash v = vr_content_hash validation) SE_InvalidMemoryTransition) (\<lambda>_.
     if rebuilding then Ok t
     else
       and_then (ok_or (mk_validation_json lib validation) SE_Backend) (\<lambda>json.
       and_then (digest_bytes (vr_content_hash validation)) (\<lambda>digest.
       run_memory IK_Constraint (t\<lparr>mt_validations := mt_validations t @
         [\<lparr>vd_operation_id = mo_operation_id operation, vd_revision_id = i,
           vd_validator_version = vr_validator_version validation, vd_content_sha256 = digest,
           vd_outcome = vr_status validation, vd_validation_json = json,
           vd_created_at = mo_occurred_at operation\<rparr>]\<rparr>))))))"

fun apply_memory_payload ::
  "memory_codec \<Rightarrow> bool \<Rightarrow> memory_tables \<Rightarrow> memory_append_operation \<Rightarrow> memory_id \<Rightarrow> memory_operation_payload
     \<Rightarrow> (memory_tables, store_error) result" where
  "apply_memory_payload lib rebuilding t entry m (MemoryCreated _ _ v) = introduce lib rebuilding t entry v"
| "apply_memory_payload lib rebuilding t entry m (RevisionProposed v) = introduce lib rebuilding t entry v"
| "apply_memory_payload lib rebuilding t entry m (MemoryRevised v) = introduce lib rebuilding t entry v"
| "apply_memory_payload lib rebuilding t entry m (ProposalApproved proposal v) =
     and_then (require_revision_state t m proposal [Rev_Proposed]) (\<lambda>_.
     and_then (introduce lib rebuilding t entry v) (\<lambda>t.
     set_revision_state t proposal Rev_Superseded))"
| "apply_memory_payload lib rebuilding t entry m (RevisionValidated i validation) =
     and_then (require_revision_state t m i [Rev_Proposed, Rev_Active]) (\<lambda>_.
     record_validation lib rebuilding t (mao_operation entry) i validation)"
| "apply_memory_payload lib rebuilding t entry m (RevisionActivated i) =
     and_then (require_revision_state t m i [Rev_Proposed]) (\<lambda>_.
     activate_revision t m i (\<not> rebuilding))"
| "apply_memory_payload lib rebuilding t entry m (RevisionSuperseded i by_id) =
     and_then (require_revision_state t m i [Rev_Active, Rev_Superseded]) (\<lambda>_.
     and_then (require_revision_state t m by_id [Rev_Active]) (\<lambda>_.
     and_then (set_revision_state t i Rev_Superseded) (\<lambda>t.
     Ok (remove_revision_from_fts t i))))"
| "apply_memory_payload lib rebuilding t entry m (RevisionRejected i _) =
     and_then (require_revision_state t m i [Rev_Proposed]) (\<lambda>_.
     and_then (set_revision_state t i Rev_Rejected) (\<lambda>t.
     update_item_from_revision t m i))"
| "apply_memory_payload lib rebuilding t entry m (MemoryRetracted i) =
     and_then (require_revision_state t m i [Rev_Active]) (\<lambda>_.
     and_then (set_revision_state t i Rev_Retracted) (\<lambda>t.
     update_item (remove_revision_from_fts t i) m
       (\<lambda>r. r\<lparr>mi_lifecycle := Rev_Retracted, mi_active_revision_id := None\<rparr>)))"
| "apply_memory_payload lib rebuilding t entry m (MemoryDeleted i) =
     and_then (require_revision_state t m i [Rev_Proposed, Rev_Active, Rev_Rejected, Rev_Retracted]) (\<lambda>_.
     delete_memory_content t m i)"

definition apply_operation ::
  "memory_codec \<Rightarrow> bool \<Rightarrow> memory_tables \<Rightarrow> memory_append_operation \<Rightarrow> (memory_tables, store_error) result" where
  "apply_operation lib rebuilding t entry =
     apply_memory_payload lib rebuilding t entry (mo_memory_id (mao_operation entry)) (mo_payload (mao_operation entry))"

section \<open>Append\<close>

definition evidence_matches ::
  "memory_codec \<Rightarrow> memory_tables \<Rightarrow> memory_revision_id \<Rightarrow> memory_revision_content \<Rightarrow> bool" where
  "evidence_matches lib t i content =
     (let expected = map_of (rev (map (\<lambda>e. (mec_evidence_id e, mec_excerpt e)) (mrc_evidence content)));
          rows = List.map_filter (\<lambda>e. if ve_revision_id e = i
            then map_option (Pair (ve_evidence_id e)) (Option.bind (ve_excerpt_content_id e) (find_blob t)) else None)
            (sort_key ve_ordinal (mt_evidence t))
      in list_all (\<lambda>(eid, b). mk_sha256 lib (bl_content_utf8 b) = bl_content_sha256 b
             \<and> map_option (\<lambda>x. as_bytes (excerpt_str x)) (expected eid) = Some (bl_content_utf8 b)) rows
         \<and> length rows = length (remdups (map mec_evidence_id (mrc_evidence content))))"

definition validate_existing_memory_sidecar ::
  "memory_codec \<Rightarrow> memory_tables \<Rightarrow> memory_append_operation \<Rightarrow> (unit, store_error) result" where
  "validate_existing_memory_sidecar lib t entry =
     (case introduced_revision (mo_payload (mao_operation entry)) of
        None \<Rightarrow> ensure (mao_content entry = None) (SE_IdentityConflict IK_MemoryRevision)
      | Some v \<Rightarrow>
          and_then (ok_or (mao_content entry) SE_InvalidMemoryTransition) (\<lambda>content.
          and_then (ok_or (find_revision t (mv_revision_id v)) corrupt_memory_projection) (\<lambda>r.
          and_then (ok_or (find_item t (rv_memory_id r)) corrupt_memory_projection) (\<lambda>item.
          case (rv_content_id r, Option.bind (rv_content_id r) (find_blob t)) of
            (None, None) \<Rightarrow> ensure (mi_lifecycle item = Rev_Deleted) corrupt_memory_projection
          | (Some _, Some b) \<Rightarrow>
              if mk_sha256 lib (bl_content_utf8 b) = bl_content_sha256 b
                 \<and> bl_content_utf8 b = as_bytes (content_str (mrc_content content))
              then ensure (evidence_matches lib t (mv_revision_id v) content) (SE_IdentityConflict IK_MemoryRevision)
              else Err (SE_IdentityConflict IK_MemoryRevision)
          | _ \<Rightarrow> Err corrupt_memory_projection))))"

definition find_operation :: "memory_tables \<Rightarrow> memory_operation_id \<Rightarrow> memory_operation_row option" where
  "find_operation t i = find (\<lambda>r. or_operation_id r = i) (mt_operations t)"

definition count_existing ::
  "memory_tables \<Rightarrow> (memory_append_operation \<times> encoded_memory_operation) list \<Rightarrow> (nat, store_error) result" where
  "count_existing t es =
     try_fold (\<lambda>n (entry, enc). case find_operation t (mo_operation_id (mao_operation entry)) of
         None \<Rightarrow> Ok n
       | Some r \<Rightarrow> if or_envelope_json r \<noteq> emo_envelope_json enc then Err (SE_IdentityConflict IK_MemoryOperation)
                   else Ok (n + 1)) 0 es"

definition append_entry ::
  "memory_codec \<Rightarrow> memory_tables \<Rightarrow> memory_append_operation \<times> encoded_memory_operation
     \<Rightarrow> (memory_tables, store_error) result" where
  "append_entry lib t ee =
     (case ee of (entry, enc) \<Rightarrow>
        let operation = mao_operation entry
        in and_then (validate_memory_causation t operation) (\<lambda>_.
           and_then (insert_operation t operation enc) (\<lambda>t.
           and_then (apply_operation lib False t entry) (\<lambda>t.
           and_then (sql_sequence (mo_sequence operation)) (\<lambda>_.
           update_item t (mo_memory_id operation)
             (\<lambda>r. r\<lparr>mi_last_sequence := mo_sequence operation, mi_updated_at := mo_occurred_at operation\<rparr>))))))"

definition commit_new ::
  "memory_codec \<Rightarrow> memory_tables \<Rightarrow> memory_append_batch \<Rightarrow> (memory_append_operation \<times> encoded_memory_operation) list
     \<Rightarrow> memory_operation \<Rightarrow> memory_operation \<Rightarrow> (memory_append_receipt \<times> memory_tables, store_error) result" where
  "commit_new lib t request es first last_op =
     (let m = mo_memory_id first; actual = current_memory_sequence t m;
          active_before = current_active_revision t m; creates = is_created (mo_payload first)
      in and_then (ensure (actual = mab_expected_last_sequence request)
           (SE_MemoryVersionConflict m (mab_expected_last_sequence request) actual)) (\<lambda>_.
         and_then (ensure ((actual = 0) = creates) SE_InvalidMemoryTransition) (\<lambda>_.
         and_then (if creates then insert_memory_item_shell t first else Ok t) (\<lambda>t.
         and_then (try_fold (append_entry lib) t es) (\<lambda>t.
         and_then (if current_active_revision t m \<noteq> active_before
                   then increment_generation t (mo_occurred_at last_op)
                   else and_then (read_generation t) (\<lambda>g. Ok (g, t))) (\<lambda>(generation, t).
         and_then (increment_mutation_generation t (mo_occurred_at last_op)) (\<lambda>(mutation, t).
         Ok (\<lparr>mar_disposition = Committed, mar_last_sequence = mo_sequence last_op,
              mar_generation = generation, mar_mutation_generation = mutation\<rparr>, t))))))))"

definition append_batch_transaction ::
  "memory_codec \<Rightarrow> memory_tables \<Rightarrow> memory_append_batch \<Rightarrow> (memory_append_receipt \<times> memory_tables, store_error) result" where
  "append_batch_transaction lib t request =
     and_then (encode_and_validate_batch lib request) (\<lambda>encoded.
     let entries = mab_operations request; es = zip entries encoded;
         first = mao_operation (hd entries); last_op = mao_operation (last entries)
     in and_then (count_existing t es) (\<lambda>existing.
        if existing = length entries then
          and_then (try_fold (\<lambda>_ entry. validate_existing_memory_sidecar lib t entry) () entries) (\<lambda>_.
          and_then (read_generation t) (\<lambda>generation.
          Ok (\<lparr>mar_disposition = AlreadyCommitted, mar_last_sequence = current_memory_sequence t (mo_memory_id first),
               mar_generation = generation, mar_mutation_generation = mt_mutation_generation t\<rparr>, t)))
        else if existing \<noteq> 0 then Err (SE_IdentityConflict IK_MemoryOperation)
        else commit_new lib t request es first last_op))"

text \<open>A transaction that fails leaves the tables as they were.\<close>

definition append_memory_batch ::
  "memory_codec \<Rightarrow> memory_tables \<Rightarrow> memory_append_batch \<Rightarrow> (memory_append_receipt, store_error) result \<times> memory_tables" where
  "append_memory_batch lib t request =
     (case append_batch_transaction lib t request of
        Ok (receipt, t') \<Rightarrow> (Ok receipt, t') | Err e \<Rightarrow> (Err e, t) | Panic \<Rightarrow> (Panic, t))"

record memory_append_request =
  mrq_expected_last_sequence :: nat
  mrq_operation :: memory_operation
  mrq_content :: "memory_revision_content option"

definition append_memory ::
  "memory_codec \<Rightarrow> memory_tables \<Rightarrow> memory_append_request \<Rightarrow> (memory_append_receipt, store_error) result \<times> memory_tables" where
  "append_memory lib t request =
     append_memory_batch lib t \<lparr>mab_expected_last_sequence = mrq_expected_last_sequence request,
       mab_operations = [\<lparr>mao_operation = mrq_operation request, mao_content = mrq_content request\<rparr>]\<rparr>"

end
