(* ===== verification/Memory_Read.thy ===== *)
theory Memory_Read
  imports Memory_Store "HOL-Library.Product_Lexorder"
begin

text \<open>
  Reads of the memory ledger (\<open>memory_store.rs\<close>): the operations and revisions of an item, the content of a
  revision, the active heads that validation compares with, and the search that feeds context
  construction. Every read checks the digests of what it returns.
\<close>

definition default_memory_page_size :: nat where "default_memory_page_size = 256"
definition max_memory_search_candidates :: nat where "max_memory_search_candidates = 256"

section \<open>Operations and revisions\<close>

fun check_operations ::
  "memory_codec \<Rightarrow> memory_id \<Rightarrow> nat \<Rightarrow> memory_operation_row list \<Rightarrow> (memory_operation list, store_error) result" where
  "check_operations lib m expected [] = Ok []"
| "check_operations lib m expected (r # rs) =
     and_then (ensure (or_sequence r = expected \<and> mk_sha256 lib (or_envelope_json r) = or_operation_sha256 r)
       corrupt_memory_ledger) (\<lambda>_.
     and_then (ok_or (mk_operation_parse lib (or_envelope_json r)) corrupt_memory_ledger) (\<lambda>operation.
     and_then (ensure (mo_memory_id operation = m \<and> mo_sequence operation = or_sequence r)
       corrupt_memory_ledger) (\<lambda>_.
     and_then (ok_or (checked_add_u64 expected 1) SE_SequenceOutOfRange) (\<lambda>following.
     and_then (check_operations lib m following rs) (\<lambda>rest. Ok (operation # rest))))))"

definition load_memory_operations ::
  "memory_codec \<Rightarrow> memory_tables \<Rightarrow> memory_id \<Rightarrow> nat \<Rightarrow> nat \<Rightarrow> (memory_operation list, store_error) result" where
  "load_memory_operations lib t m after_sequence limit =
     (if limit = 0 then Ok []
      else if limit > default_memory_page_size then Err SE_LimitExceeded
      else
        and_then (sql_sequence after_sequence) (\<lambda>_.
        and_then (ok_or (checked_add_u64 after_sequence 1) SE_SequenceOutOfRange) (\<lambda>expected.
        check_operations lib m expected (take limit (sort_key or_sequence
          (filter (\<lambda>r. or_memory_id r = m \<and> or_sequence r > after_sequence) (mt_operations t)))))))"

definition decode_projected_revision ::
  "memory_codec \<Rightarrow> memory_revision_row \<Rightarrow> (memory_revision, store_error) result" where
  "decode_projected_revision lib r =
     and_then (decode_revision lib r) (\<lambda>v. Ok (with_status v (rv_state r)))"

definition load_memory_revisions ::
  "memory_codec \<Rightarrow> memory_tables \<Rightarrow> memory_id \<Rightarrow> (memory_revision list, store_error) result" where
  "load_memory_revisions lib t m =
     try_map (decode_projected_revision lib)
       (sort_key rv_revision (filter (\<lambda>r. rv_memory_id r = m) (mt_revisions t)))"

section \<open>Content\<close>

text \<open>\<open>String::from_utf8\<close>, the normalised digest and the bounds of content.\<close>

definition decode_content ::
  "memory_codec \<Rightarrow> corruption_area \<Rightarrow> sha256_digest \<Rightarrow> bytes \<Rightarrow> (memory_content, store_error) result" where
  "decode_content lib area expected bs =
     and_then (ok_or (from_utf8 bs) (SE_CorruptData area)) (\<lambda>text.
     and_then (map_err (\<lambda>_. SE_CorruptData area) (normalized_content_hash (mk_sha256 lib) text)) (\<lambda>hash.
     and_then (ensure (hash = expected) (SE_CorruptData area)) (\<lambda>_.
     map_err (\<lambda>_. SE_CorruptData area) (memory_content_new text))))"

definition load_memory_content ::
  "memory_codec \<Rightarrow> memory_tables \<Rightarrow> memory_revision_id \<Rightarrow> (memory_content option, store_error) result" where
  "load_memory_content lib t i =
     (case find_revision t i of
        None \<Rightarrow> Ok None
      | Some r \<Rightarrow>
          (case Option.bind (rv_content_id r) (find_blob t) of
             None \<Rightarrow> Ok None
           | Some b \<Rightarrow>
               and_then (ensure (mk_sha256 lib (bl_content_utf8 b) = bl_content_sha256 b) corrupt_memory_projection) (\<lambda>_.
               and_then (decode_revision lib r) (\<lambda>v.
               and_then (decode_content lib CA_MemoryProjection (mv_content_hash v) (bl_content_utf8 b)) (\<lambda>c.
               Ok (Some c))))))"

section \<open>Active heads\<close>

record active_memory_head_query =
  hq_eligible_scopes :: "memory_scope list"
  hq_memory_kind :: memory_kind
  hq_subject_key :: "memory_subject_key option"
  hq_content_hash :: "sha256_digest option"
  hq_limit :: nat

definition active_memory_head_query_new ::
  "memory_scope list \<Rightarrow> memory_kind \<Rightarrow> memory_subject_key option \<Rightarrow> nat
     \<Rightarrow> (active_memory_head_query, store_error) result" where
  "active_memory_head_query_new scopes kind subject row_limit =
     (if scopes = [] \<or> row_limit = 0 \<or> row_limit > max_memory_search_candidates then Err SE_LimitExceeded
      else Ok \<lparr>hq_eligible_scopes = scopes, hq_memory_kind = kind, hq_subject_key = subject,
               hq_content_hash = None, hq_limit = row_limit\<rparr>)"

definition with_content_hash :: "active_memory_head_query \<Rightarrow> sha256_digest \<Rightarrow> active_memory_head_query" where
  "with_content_hash q h = q\<lparr>hq_content_hash := Some h\<rparr>"

record active_memory_head =
  mh_memory_id :: memory_id
  mh_scope :: memory_scope
  mh_memory_kind :: memory_kind
  mh_revision :: memory_revision

fun scope_type :: "memory_scope \<Rightarrow> ustring" where
  "scope_type (Scope_User _) = ascii ''user''"
| "scope_type (Scope_In_Workspace _) = ascii ''workspace''"
| "scope_type (Scope_In_Session _) = ascii ''session''"
| "scope_type (Scope_Agent _) = ascii ''agent''"

text \<open>Items joined with the revision their active column names.\<close>

definition active_rows :: "memory_tables \<Rightarrow> (memory_item_row \<times> memory_revision_row) list" where
  "active_rows t = List.map_filter (\<lambda>i.
     if mi_lifecycle i = Rev_Active then
       (case Option.bind (mi_active_revision_id i) (find_revision t) of
          Some r \<Rightarrow> if rv_state r = Rev_Active then Some (i, r) else None | None \<Rightarrow> None)
     else None) (mt_items t)"

definition decode_head ::
  "memory_codec \<Rightarrow> memory_item_row \<times> memory_revision_row \<Rightarrow> (active_memory_head, store_error) result" where
  "decode_head lib ir =
     (case ir of (i, r) \<Rightarrow>
        and_then (decode_projected_revision lib r) (\<lambda>v.
        and_then (ensure (mv_status v = Rev_Active) corrupt_memory_projection) (\<lambda>_.
        and_then (digest_bytes (mv_content_hash v)) (\<lambda>d.
        and_then (ensure (d = rv_content_hash_sha256 r) corrupt_memory_projection) (\<lambda>_.
        Ok \<lparr>mh_memory_id = mi_memory_id i, mh_scope = mi_scope i, mh_memory_kind = mi_kind i,
            mh_revision = v\<rparr>)))))"

definition load_active_memory_heads ::
  "memory_codec \<Rightarrow> memory_tables \<Rightarrow> active_memory_head_query \<Rightarrow> (active_memory_head list, store_error) result" where
  "load_active_memory_heads lib t q =
     and_then (case hq_content_hash q of None \<Rightarrow> Ok None
       | Some h \<Rightarrow> and_then (digest_bytes h) (\<lambda>d. Ok (Some d))) (\<lambda>digest.
     try_map (decode_head lib) (take (hq_limit q)
       (sort_key (\<lambda>(i, r). (scope_type (mi_scope i), scope_id_str (mi_scope i), mi_memory_id i))
         (filter (\<lambda>(i, r). mi_kind i = hq_memory_kind q \<and> mi_scope i \<in> set (hq_eligible_scopes q)
            \<and> rv_subject_key r = hq_subject_key q
            \<and> (case digest of None \<Rightarrow> True | Some d \<Rightarrow> rv_content_hash_sha256 r = d)) (active_rows t)))))"

section \<open>Search\<close>

record memory_search_query =
  sq_query :: memory_content
  sq_eligible_scopes :: "memory_scope list"
  sq_sensitivity_ceiling :: sensitivity
  sq_as_of :: timestamp_millis
  sq_limit :: nat

definition memory_search_query_new ::
  "memory_content \<Rightarrow> memory_scope list \<Rightarrow> sensitivity \<Rightarrow> timestamp_millis \<Rightarrow> nat \<Rightarrow> (memory_search_query, store_error) result" where
  "memory_search_query_new query scopes ceiling as_of row_limit =
     (if scopes = [] \<or> row_limit = 0 \<or> row_limit > max_memory_search_candidates then Err SE_LimitExceeded
      else Ok \<lparr>sq_query = query, sq_eligible_scopes = scopes, sq_sensitivity_ceiling = ceiling, sq_as_of = as_of,
               sq_limit = row_limit\<rparr>)"

record memory_search_candidate =
  sc_memory_id :: memory_id
  sc_scope :: memory_scope
  sc_memory_kind :: memory_kind
  sc_revision :: memory_revision
  sc_content :: memory_content
  sc_fts_rank :: nat

text \<open>
  What the search uses of libraries: the character tables of Unicode and the relevance of a row of the
  index to a query, which is absent for a row that does not match.
\<close>

record search_lib =
  sl_is_alphanumeric :: "nat \<Rightarrow> bool"
  sl_to_lowercase :: "ustring \<Rightarrow> ustring"
  sl_bm25 :: "ustring \<Rightarrow> memory_fts_row list \<Rightarrow> memory_fts_row \<Rightarrow> int option"

definition max_fts_query_terms :: nat where "max_fts_query_terms = 32"

fun split_terms :: "(nat \<Rightarrow> bool) \<Rightarrow> ustring \<Rightarrow> ustring \<Rightarrow> ustring list" where
  "split_terms p term [] = [term]"
| "split_terms p term (c # s) = (if p c then split_terms p (term @ [c]) s else term # split_terms p [] s)"

definition literal_fts_query :: "search_lib \<Rightarrow> ustring \<Rightarrow> ustring option" where
  "literal_fts_query sl query =
     (let terms = sort_dedup (map (sl_to_lowercase sl) (take max_fts_query_terms
            (filter (\<lambda>w. w \<noteq> []) (split_terms (sl_is_alphanumeric sl) [] query))));
          quote = (\<lambda>w. [0x22] @ concat (map (\<lambda>c. if c = 0x22 then [0x22, 0x22] else [c]) w) @ [0x22])
      in if terms = [] then None
         else Some (quote (hd terms) @ concat (map (\<lambda>w. ascii '' OR '' @ quote w) (tl terms))))"

definition memory_valid_at :: "memory_revision_row \<Rightarrow> int \<Rightarrow> bool" where
  "memory_valid_at r as_of \<longleftrightarrow>
     null_or (\<lambda>f. f \<le> as_of) (rv_valid_from r) \<and> null_or (\<lambda>u. u > as_of) (rv_valid_until r)"

text \<open>The joined rows that satisfy the conditions of the query.\<close>

definition search_rows ::
  "search_lib \<Rightarrow> memory_tables \<Rightarrow> memory_search_query \<Rightarrow> ustring
     \<Rightarrow> (int \<times> memory_revision_row \<times> memory_item_row \<times> blob_row) list" where
  "search_rows sl t q match_query = List.map_filter (\<lambda>f.
     case (sl_bm25 sl match_query (mt_fts t) f, find (\<lambda>r. rv_search_rowid r = fts_rowid f) (mt_revisions t)) of
       (Some score, Some r) \<Rightarrow>
         (case (find_item t (rv_memory_id r), Option.bind (rv_content_id r) (find_blob t)) of
            (Some i, Some b) \<Rightarrow>
              if rv_state r = Rev_Active \<and> memory_valid_at r (sq_as_of q)
                 \<and> sensitivity_rank (rv_sensitivity r) \<le> sensitivity_rank (sq_sensitivity_ceiling q)
                 \<and> mi_scope i \<in> set (sq_eligible_scopes q)
              then Some (score, r, i, b) else None
          | _ \<Rightarrow> None)
     | _ \<Rightarrow> None) (mt_fts t)"

definition decode_candidate ::
  "memory_codec \<Rightarrow> nat \<times> int \<times> memory_revision_row \<times> memory_item_row \<times> blob_row
     \<Rightarrow> (memory_search_candidate, store_error) result" where
  "decode_candidate lib row =
     (case row of (rank, _, r, i, b) \<Rightarrow>
        and_then (decode_projected_revision lib r) (\<lambda>v.
        and_then (ensure (mk_sha256 lib (bl_content_utf8 b) = bl_content_sha256 b) (SE_CorruptData CA_MemorySearch)) (\<lambda>_.
        and_then (decode_content lib CA_MemorySearch (mv_content_hash v) (bl_content_utf8 b)) (\<lambda>c.
        and_then (ensure (rank \<le> u32_max) SE_LimitExceeded) (\<lambda>_.
        Ok \<lparr>sc_memory_id = mi_memory_id i, sc_scope = mi_scope i, sc_memory_kind = mi_kind i,
            sc_revision = v, sc_content = c, sc_fts_rank = rank\<rparr>)))))"

definition search_memory ::
  "search_lib \<Rightarrow> memory_codec \<Rightarrow> memory_tables \<Rightarrow> memory_search_query
     \<Rightarrow> (nat \<times> memory_search_candidate list, store_error) result" where
  "search_memory sl lib t q =
     and_then (read_generation t) (\<lambda>generation.
     case literal_fts_query sl (content_str (sq_query q)) of
       None \<Rightarrow> Ok (generation, [])
     | Some match_query \<Rightarrow>
         and_then (try_map (decode_candidate lib) (enumerate 0 (take (sq_limit q)
           (sort_key (\<lambda>(score, r, i, b). (score, mi_memory_id i, rv_revision r))
             (search_rows sl t q match_query))))) (\<lambda>candidates.
         and_then (ensure (length candidates \<le> max_memory_search_candidates) (SE_CorruptData CA_MemorySearch)) (\<lambda>_.
         Ok (generation, candidates))))"

end
