(* ===== verification/Memory_Runtime.thy ===== *)
theory Memory_Runtime
  imports Memory_Read
begin

text \<open>
  Trusted memory commands (\<open>autoharness-app\<close>: \<open>memory_runtime.rs\<close>): a command is planned against a snapshot
  of the ledger and becomes one batch of at most four operations, which the store appends atomically.
  Loading the snapshot, planning and appending run inside the owner of the store, one command at a time.
\<close>

definition max_memory_command_operations :: nat where "max_memory_command_operations = 4"

datatype memory_command_error =
    MCE_VersionConflict | MCE_InvalidTransition | MCE_ValidationRejected | MCE_UnsupportedCommand
  | MCE_Policy memory_error

text \<open>The two variants of the application's error that a memory command can give.\<close>

datatype memory_app_error = App_Store store_error | App_MemoryCommand memory_command_error

record memory_command_plan =
  mcp_batch :: memory_append_batch
  mcp_validation :: "memory_validation_result option"

record memory_command_commit =
  mcc_receipt :: memory_append_receipt
  mcc_validation :: "memory_validation_result option"

definition duplicate_memory_id :: "memory_command_commit \<Rightarrow> memory_id option" where
  "duplicate_memory_id c =
     Option.bind (mcc_validation c) (\<lambda>v. case vr_duplicate_candidates v of [] \<Rightarrow> None | m # _ \<Rightarrow> Some m)"

definition contradiction_candidates :: "memory_command_commit \<Rightarrow> memory_id list" where
  "contradiction_candidates c = (case mcc_validation c of None \<Rightarrow> [] | Some v \<Rightarrow> vr_contradiction_candidates v)"

section \<open>Building a batch\<close>

definition hash_field :: "bytes \<Rightarrow> bytes" where
  "hash_field bs = u64_be_bytes (min (length bs) u64_max) @ bs"

definition operation_id :: "(bytes \<Rightarrow> bytes) \<Rightarrow> memory_command \<Rightarrow> string \<Rightarrow> memory_operation_id" where
  "operation_id sha command stage =
     MemoryOperationId (ascii ''memory-operation:'' @ concat (map hex_byte (sha
       (hash_field (as_bytes (case mcmd_command_id command of CommandId s \<Rightarrow> s))
        @ hash_field (as_bytes (memory_id_str (mcmd_memory_id command)))
        @ hash_field (as_bytes (ascii stage))))))"

definition revision_sidecar :: "memory_revision_draft \<Rightarrow> memory_revision_content" where
  "revision_sidecar d =
     \<lparr>mrc_revision_id = dr_revision_id d, mrc_content = dr_content d,
      mrc_evidence = List.map_filter (\<lambda>e. map_option
        (\<lambda>x. \<lparr>mec_evidence_id = evd_evidence_id e, mec_excerpt = x\<rparr>) (evd_excerpt e)) (dr_evidence d)\<rparr>"

record batch_builder =
  bb_command :: memory_command
  bb_occurred_at :: timestamp_millis
  bb_base_sequence :: nat
  bb_operations :: "memory_append_operation list"
  bb_previous_operation_id :: "memory_operation_id option"

definition batch_builder_new :: "memory_command \<Rightarrow> timestamp_millis \<Rightarrow> nat \<Rightarrow> batch_builder" where
  "batch_builder_new command occurred_at base =
     \<lparr>bb_command = command, bb_occurred_at = occurred_at, bb_base_sequence = base, bb_operations = [],
      bb_previous_operation_id = None\<rparr>"

definition bb_push ::
  "(bytes \<Rightarrow> bytes) \<Rightarrow> batch_builder \<Rightarrow> string \<Rightarrow> memory_operation_payload \<Rightarrow> memory_revision_content option
     \<Rightarrow> (batch_builder, memory_command_error) result" where
  "bb_push sha b stage payload content =
     (if length (bb_operations b) \<ge> max_memory_command_operations then Err MCE_InvalidTransition
      else
        and_then (ok_or (checked_add_u64 (bb_base_sequence b) (length (bb_operations b))) MCE_InvalidTransition) (\<lambda>expected_last.
        and_then (ok_or (checked_add_u64 expected_last 1) MCE_InvalidTransition) (\<lambda>value.
        and_then (map_err (\<lambda>_. MCE_InvalidTransition) (memory_sequence_new value)) (\<lambda>sequence.
        let oid = operation_id sha (bb_command b) stage;
            cause = (case bb_previous_operation_id b of
                None \<Rightarrow> Mem_Cause_Command (mcmd_command_id (bb_command b))
              | Some prior \<Rightarrow> Mem_Cause_Operation prior);
            operation = memory_operation_new_v1 oid (mcmd_memory_id (bb_command b)) sequence
              (bb_occurred_at b) cause (mcmd_correlation_id (bb_command b)) payload
        in Ok (b\<lparr>bb_operations := bb_operations b @ [\<lparr>mao_operation = operation, mao_content = content\<rparr>],
                 bb_previous_operation_id := Some oid\<rparr>)))))"

definition bb_introduce ::
  "(bytes \<Rightarrow> bytes) \<Rightarrow> batch_builder \<Rightarrow> string \<Rightarrow> memory_operation_payload \<Rightarrow> memory_revision_draft
     \<Rightarrow> (batch_builder, memory_command_error) result" where
  "bb_introduce sha b stage payload d = bb_push sha b stage payload (Some (revision_sidecar d))"

definition bb_validation ::
  "(bytes \<Rightarrow> bytes) \<Rightarrow> batch_builder \<Rightarrow> memory_revision_id \<Rightarrow> memory_validation_result
     \<Rightarrow> (batch_builder, memory_command_error) result" where
  "bb_validation sha b i v = bb_push sha b ''validate'' (RevisionValidated i v) None"

definition bb_activate ::
  "(bytes \<Rightarrow> bytes) \<Rightarrow> batch_builder \<Rightarrow> memory_revision_id \<Rightarrow> (batch_builder, memory_command_error) result" where
  "bb_activate sha b i = bb_push sha b ''activate'' (RevisionActivated i) None"

definition bb_supersede ::
  "(bytes \<Rightarrow> bytes) \<Rightarrow> batch_builder \<Rightarrow> memory_revision_id \<Rightarrow> memory_revision_id
     \<Rightarrow> (batch_builder, memory_command_error) result" where
  "bb_supersede sha b i by_id = bb_push sha b ''supersede'' (RevisionSuperseded i by_id) None"

definition bb_finish :: "batch_builder \<Rightarrow> memory_validation_result option \<Rightarrow> memory_command_plan" where
  "bb_finish b validation =
     \<lparr>mcp_batch = \<lparr>mab_expected_last_sequence = bb_base_sequence b, mab_operations = bb_operations b\<rparr>,
      mcp_validation = validation\<rparr>"

section \<open>Guards\<close>

definition saturating_succ :: "nat \<Rightarrow> nat" where "saturating_succ n = min (n + 1) u64_max"

text \<open>\<open>windows(2)\<close>: every pair of neighbours.\<close>

definition consecutive :: "nat list \<Rightarrow> bool" where
  "consecutive ns = list_all (\<lambda>(a, b). b = saturating_succ a) (zip ns (tl ns))"

definition validate_snapshot ::
  "memory_command \<Rightarrow> memory_operation list \<Rightarrow> memory_revision list \<Rightarrow> nat \<Rightarrow> (unit, memory_command_error) result" where
  "validate_snapshot command operations revisions actual =
     (if list_ex (\<lambda>operation. mo_memory_id operation \<noteq> mcmd_memory_id command) operations
         \<or> \<not> consecutive (map mo_sequence operations) \<or> \<not> consecutive (map mv_revision revisions)
      then Err MCE_InvalidTransition
      else if creates_item (mcmd_payload command)
      then ensure (mcmd_expected_sequence command = None \<and> actual = 0) MCE_VersionConflict
      else ensure (mcmd_expected_sequence command = Some actual \<and> actual > 0) MCE_VersionConflict)"

definition item_scope_kind :: "memory_operation list \<Rightarrow> (memory_scope \<times> memory_kind, memory_command_error) result" where
  "item_scope_kind operations =
     (case operations of
        [] \<Rightarrow> Err MCE_InvalidTransition
      | operation # _ \<Rightarrow>
          (case mo_payload operation of
             MemoryCreated scope kind _ \<Rightarrow> Ok (scope, kind) | _ \<Rightarrow> Err MCE_InvalidTransition))"

definition validate_revision ::
  "(bytes \<Rightarrow> bytes) \<Rightarrow> memory_scope \<Rightarrow> memory_kind \<Rightarrow> memory_revision_draft \<Rightarrow> existing_memory list
     \<Rightarrow> memory_id option \<Rightarrow> (memory_validation_result, memory_command_error) result" where
  "validate_revision sha scope kind revision existing exclude =
     map_err MCE_Policy (analyze sha
       \<lparr>vp_authorized_scopes = [scope], vp_sensitivity_ceiling = Sens_Sensitive\<rparr> scope kind revision
       (filter (\<lambda>candidate. exclude \<noteq> Some (ex_memory_id candidate)) existing))"

definition find_snapshot :: "memory_revision list \<Rightarrow> memory_revision_id \<Rightarrow> memory_revision option" where
  "find_snapshot revisions i = find (\<lambda>v. mv_revision_id v = i) revisions"

definition require_subject ::
  "memory_revision list \<Rightarrow> memory_revision_id \<Rightarrow> memory_revision_draft \<Rightarrow> (unit, memory_command_error) result" where
  "require_subject revisions prior candidate =
     (case find_snapshot revisions prior of
        None \<Rightarrow> Err MCE_InvalidTransition
      | Some v \<Rightarrow> ensure (mv_subject_key v = dr_subject_key candidate) MCE_InvalidTransition)"

definition is_explicit_accepted :: "memory_revision_draft \<Rightarrow> memory_validation_result \<Rightarrow> bool" where
  "is_explicit_accepted revision validation \<longleftrightarrow>
     dr_origin revision = ExplicitUser \<and> dr_trust_class revision = UserApproved
     \<and> vr_status validation = Validation_Accepted"

definition require_revision ::
  "memory_revision list \<Rightarrow> memory_revision_id \<Rightarrow> memory_revision_status list
     \<Rightarrow> (memory_revision, memory_command_error) result" where
  "require_revision revisions i states =
     (case find_snapshot revisions i of
        None \<Rightarrow> Err MCE_InvalidTransition
      | Some v \<Rightarrow> if mv_status v \<in> set states then Ok v else Err MCE_InvalidTransition)"

definition require_next_revision ::
  "memory_revision list \<Rightarrow> memory_revision_draft \<Rightarrow> (unit, memory_command_error) result" where
  "require_next_revision current candidate =
     (let expected = (if current = [] then 1 else saturating_succ (mv_revision (last current)))
      in ensure (dr_revision candidate = expected
           \<and> list_all (\<lambda>v. mv_revision_id v \<noteq> dr_revision_id candidate) current) MCE_InvalidTransition)"

section \<open>Planning\<close>

text \<open>The arms of \<open>plan_memory_command\<close> that introduce a revision, one definition each.\<close>

definition plan_create ::
  "(bytes \<Rightarrow> bytes) \<Rightarrow> batch_builder \<Rightarrow> existing_memory list \<Rightarrow> memory_scope \<Rightarrow> memory_kind
     \<Rightarrow> memory_revision_draft \<Rightarrow> (memory_command_plan, memory_command_error) result" where
  "plan_create sha b existing scope kind revision =
     and_then (validate_revision sha scope kind revision existing None) (\<lambda>validation.
     if vr_status validation = Validation_Rejected then Err MCE_ValidationRejected
     else
       and_then (bb_introduce sha b ''create'' (MemoryCreated scope kind
         (from_draft Rev_Proposed revision (bb_occurred_at b) None)) revision) (\<lambda>b.
       and_then (bb_validation sha b (dr_revision_id revision) validation) (\<lambda>b.
       and_then (if is_explicit_accepted revision validation
                 then bb_activate sha b (dr_revision_id revision) else Ok b) (\<lambda>b.
       Ok (bb_finish b (Some validation))))))"

text \<open>What proposing, revising and approving check before the new content is looked at.\<close>

definition plan_propose ::
  "(bytes \<Rightarrow> bytes) \<Rightarrow> batch_builder \<Rightarrow> memory_operation list \<Rightarrow> memory_revision list \<Rightarrow> existing_memory list
     \<Rightarrow> memory_revision_draft \<Rightarrow> memory_revision_id \<Rightarrow> (memory_command_plan, memory_command_error) result" where
  "plan_propose sha b operations revisions existing revision supersedes =
     and_then (item_scope_kind operations) (\<lambda>(scope, kind).
     and_then (require_revision revisions supersedes [Rev_Active]) (\<lambda>_.
     and_then (require_subject revisions supersedes revision) (\<lambda>_.
     and_then (require_next_revision revisions revision) (\<lambda>_.
     and_then (validate_revision sha scope kind revision existing (Some (mcmd_memory_id (bb_command b)))) (\<lambda>validation.
     if vr_status validation = Validation_Rejected then Err MCE_ValidationRejected
     else
       and_then (bb_introduce sha b ''propose'' (RevisionProposed
         (from_draft Rev_Proposed revision (bb_occurred_at b) (Some supersedes))) revision) (\<lambda>b.
       and_then (bb_validation sha b (dr_revision_id revision) validation) (\<lambda>b.
       Ok (bb_finish b (Some validation)))))))))"

definition plan_revise ::
  "(bytes \<Rightarrow> bytes) \<Rightarrow> batch_builder \<Rightarrow> memory_operation list \<Rightarrow> memory_revision list \<Rightarrow> existing_memory list
     \<Rightarrow> memory_revision_draft \<Rightarrow> memory_revision_id \<Rightarrow> (memory_command_plan, memory_command_error) result" where
  "plan_revise sha b operations revisions existing revision supersedes =
     and_then (item_scope_kind operations) (\<lambda>(scope, kind).
     and_then (require_revision revisions supersedes [Rev_Active]) (\<lambda>_.
     and_then (require_subject revisions supersedes revision) (\<lambda>_.
     and_then (require_next_revision revisions revision) (\<lambda>_.
     and_then (validate_revision sha scope kind revision existing (Some (mcmd_memory_id (bb_command b)))) (\<lambda>validation.
     if \<not> is_explicit_accepted revision validation then Err MCE_ValidationRejected
     else
       and_then (bb_introduce sha b ''revise'' (MemoryRevised
         (from_draft Rev_Proposed revision (bb_occurred_at b) (Some supersedes))) revision) (\<lambda>b.
       and_then (bb_validation sha b (dr_revision_id revision) validation) (\<lambda>b.
       and_then (bb_activate sha b (dr_revision_id revision)) (\<lambda>b.
       and_then (bb_supersede sha b supersedes (dr_revision_id revision)) (\<lambda>b.
       Ok (bb_finish b (Some validation)))))))))))"

definition plan_approve ::
  "(bytes \<Rightarrow> bytes) \<Rightarrow> batch_builder \<Rightarrow> memory_operation list \<Rightarrow> memory_revision list \<Rightarrow> existing_memory list
     \<Rightarrow> memory_revision_id \<Rightarrow> memory_revision_draft \<Rightarrow> (memory_command_plan, memory_command_error) result" where
  "plan_approve sha b operations revisions existing proposal_id approved =
     and_then (item_scope_kind operations) (\<lambda>(scope, kind).
     and_then (require_revision revisions proposal_id [Rev_Proposed]) (\<lambda>proposal.
     let superseded = (case mv_supersedes_revision_id proposal of None \<Rightarrow> proposal_id | Some i \<Rightarrow> i) in
     and_then (if superseded \<noteq> proposal_id
               then and_then (require_revision revisions superseded [Rev_Active]) (\<lambda>_. Ok ()) else Ok ()) (\<lambda>_.
     and_then (require_subject revisions proposal_id approved) (\<lambda>_.
     and_then (require_next_revision revisions approved) (\<lambda>_.
     and_then (validate_revision sha scope kind approved existing (Some (mcmd_memory_id (bb_command b)))) (\<lambda>validation.
     if \<not> is_explicit_accepted approved validation \<or> dr_revision_id approved = proposal_id
     then Err MCE_ValidationRejected
     else
       and_then (bb_introduce sha b ''approve'' (ProposalApproved proposal_id
         (from_draft Rev_Proposed approved (bb_occurred_at b) (Some superseded))) approved) (\<lambda>b.
       and_then (bb_validation sha b (dr_revision_id approved) validation) (\<lambda>b.
       and_then (bb_activate sha b (dr_revision_id approved)) (\<lambda>b.
       and_then (bb_supersede sha b superseded (dr_revision_id approved)) (\<lambda>b.
       Ok (bb_finish b (Some validation))))))))))))"

text \<open>The arms with one operation and no revision: reject, retract and delete.\<close>

definition plan_single ::
  "(bytes \<Rightarrow> bytes) \<Rightarrow> batch_builder \<Rightarrow> memory_revision list \<Rightarrow> memory_revision_id \<Rightarrow> memory_revision_status list
     \<Rightarrow> string \<Rightarrow> memory_operation_payload \<Rightarrow> (memory_command_plan, memory_command_error) result" where
  "plan_single sha b revisions i states stage payload =
     and_then (require_revision revisions i states) (\<lambda>_.
     and_then (bb_push sha b stage payload None) (\<lambda>b.
     Ok (bb_finish b None)))"

definition plan_memory_command ::
  "(bytes \<Rightarrow> bytes) \<Rightarrow> memory_command \<Rightarrow> timestamp_millis \<Rightarrow> memory_operation list \<Rightarrow> memory_revision list
     \<Rightarrow> existing_memory list \<Rightarrow> (memory_command_plan, memory_command_error) result" where
  "plan_memory_command sha command occurred_at operations revisions existing =
     (let actual = (if operations = [] then 0 else mo_sequence (last operations));
          b = batch_builder_new command occurred_at actual
      in and_then (validate_snapshot command operations revisions actual) (\<lambda>_.
         case mcmd_payload command of
           CreateMemory scope kind revision \<Rightarrow> plan_create sha b existing scope kind revision
         | ProposeRevision revision supersedes \<Rightarrow>
             plan_propose sha b operations revisions existing revision supersedes
         | ReviseMemory revision supersedes \<Rightarrow>
             plan_revise sha b operations revisions existing revision supersedes
         | ApproveProposal proposal_id approved \<Rightarrow>
             plan_approve sha b operations revisions existing proposal_id approved
         | RejectRevision i reason \<Rightarrow>
             plan_single sha b revisions i [Rev_Proposed] ''reject'' (RevisionRejected i reason)
         | RetractMemory i \<Rightarrow> plan_single sha b revisions i [Rev_Active] ''retract'' (MemoryRetracted i)
         | DeleteMemory i \<Rightarrow>
             plan_single sha b revisions i [Rev_Proposed, Rev_Active, Rev_Rejected, Rev_Retracted] ''delete''
               (MemoryDeleted i)
         | RecordValidation _ _ \<Rightarrow> Err MCE_UnsupportedCommand
         | ActivateRevision _ \<Rightarrow> Err MCE_UnsupportedCommand))"

section \<open>Loading the snapshot\<close>

lemma check_operations_sequences:
  "check_operations lib m expected rs = Ok ops \<Longrightarrow>
     map mo_sequence ops = map or_sequence rs \<and> map or_sequence rs = [expected ..< expected + length rs]"
proof (induction rs arbitrary: expected ops)
  case (Cons r rs)
  then obtain operation rest where step: "or_sequence r = expected" "mo_sequence operation = or_sequence r"
    "check_operations lib m (expected + 1) rs = Ok rest" "ops = operation # rest"
    by (auto simp: and_then_Ok checked_add_u64_def split: if_splits)
  from Cons.IH [OF step(3)] step show ?case by (simp add: upt_conv_Cons del: upt_Suc)
qed simp

definition rows_after :: "memory_tables \<Rightarrow> memory_id \<Rightarrow> nat \<Rightarrow> memory_operation_row list" where
  "rows_after t m after = filter (\<lambda>r. or_memory_id r = m \<and> or_sequence r > after) (mt_operations t)"

lemma load_memory_operations_progress:
  assumes "load_memory_operations lib t m after default_memory_page_size = Ok page" "page \<noteq> []"
  shows "mo_sequence (last page) > after"
    "length (rows_after t m (mo_sequence (last page))) < length (rows_after t m after)"
proof -
  define rows where "rows = take default_memory_page_size (sort_key or_sequence (rows_after t m after))"
  from assms(1) have "check_operations lib m (after + 1) rows = Ok page"
    by (auto simp: load_memory_operations_def and_then_Ok rows_def rows_after_def checked_add_u64_def
        default_memory_page_size_def split: if_splits)
  from check_operations_sequences [OF this] have seqs: "map mo_sequence page = [after + 1 ..< after + 1 + length rows]"
    "map or_sequence rows = map mo_sequence page" by auto
  from assms(2) seqs have rows: "rows \<noteq> []" and len: "length page = length rows"
    using map_eq_imp_length_eq [OF seqs(2)] by auto
  have "mo_sequence (last page) = last (map mo_sequence page)" using assms(2) by (simp add: last_map)
  also have "\<dots> = after + length rows" using seqs(1) rows by (simp add: last_upt del: upt_Suc)
  finally have last: "mo_sequence (last page) = after + length rows" .
  with rows show gt: "mo_sequence (last page) > after" by simp
  have "after + 1 \<in> set [after + 1 ..< after + 1 + length rows]" using rows by (simp del: upt_Suc)
  then have "after + 1 \<in> set (map or_sequence rows)" using seqs by (simp only: mem_Collect_eq)
  then obtain r where r: "r \<in> set rows" "or_sequence r = after + 1" by auto
  from r(1) have "r \<in> set (rows_after t m after)"
    unfolding rows_def using set_take_subset by fastforce
  moreover have "r \<notin> set (rows_after t m (mo_sequence (last page)))"
    using r(2) gt by (simp add: rows_after_def)
  ultimately have "\<exists>r \<in> set (rows_after t m after). \<not> or_sequence r > mo_sequence (last page)"
    unfolding rows_after_def by auto
  then have "length (filter (\<lambda>r. or_sequence r > mo_sequence (last page)) (rows_after t m after))
      < length (rows_after t m after)" by (meson length_filter_less)
  moreover have "filter (\<lambda>r. or_sequence r > mo_sequence (last page)) (rows_after t m after)
      = rows_after t m (mo_sequence (last page))"
    unfolding rows_after_def filter_filter using gt by (intro filter_cong) auto
  ultimately show "length (rows_after t m (mo_sequence (last page))) < length (rows_after t m after)" by simp
qed

text \<open>The loop over pages: it ends with the first page that is not full.\<close>

function load_pages ::
  "memory_codec \<Rightarrow> memory_tables \<Rightarrow> memory_id \<Rightarrow> memory_operation list \<Rightarrow> nat
     \<Rightarrow> (memory_operation list, store_error) result" where
  "load_pages lib t m operations after =
     (case load_memory_operations lib t m after default_memory_page_size of
        Ok page \<Rightarrow>
          if length page < default_memory_page_size then Ok (operations @ page)
          else load_pages lib t m (operations @ page) (mo_sequence (last page))
      | Err e \<Rightarrow> Err e
      | Panic \<Rightarrow> Panic)"
  by pat_completeness auto
termination
proof (relation "measure (\<lambda>(lib, t, m, operations, after). length (rows_after t m after))", simp, simp only: in_measure case_prod_conv)
  fix lib t m and after :: nat and page :: "memory_operation list"
  assume "load_memory_operations lib t m after default_memory_page_size = Ok page"
    "\<not> length page < default_memory_page_size"
  moreover from this(2) have "page \<noteq> []" by (auto simp: default_memory_page_size_def)
  ultimately show "length (rows_after t m (mo_sequence (last page))) < length (rows_after t m after)"
    by (intro load_memory_operations_progress(2))
qed

declare load_pages.simps [simp del]

definition load_all_operations ::
  "memory_codec \<Rightarrow> memory_tables \<Rightarrow> memory_id \<Rightarrow> (memory_operation list, store_error) result" where
  "load_all_operations lib t m = load_pages lib t m [] 0"

fun command_draft :: "memory_command_payload \<Rightarrow> memory_revision_draft option" where
  "command_draft (CreateMemory _ _ revision) = Some revision"
| "command_draft (ProposeRevision revision _) = Some revision"
| "command_draft (ReviseMemory revision _) = Some revision"
| "command_draft (ApproveProposal _ approved) = Some approved"
| "command_draft _ = None"

definition push_head :: "memory_id \<Rightarrow> active_memory_head list \<Rightarrow> active_memory_head \<Rightarrow> active_memory_head list" where
  "push_head m heads head =
     (if mh_memory_id head \<noteq> m \<and> length heads < max_memory_validation_candidates
         \<and> \<not> list_ex (\<lambda>existing. mh_memory_id existing = mh_memory_id head) heads
      then heads @ [head] else heads)"

definition existing_of :: "active_memory_head \<Rightarrow> existing_memory" where
  "existing_of head =
     \<lparr>ex_memory_id = mh_memory_id head, ex_scope = mh_scope head, ex_kind = mh_memory_kind head,
      ex_subject_key = mv_subject_key (mh_revision head), ex_content_hash = mv_content_hash (mh_revision head)\<rparr>"

definition duplicate_candidates ::
  "memory_codec \<Rightarrow> memory_tables \<Rightarrow> memory_command \<Rightarrow> memory_operation list
     \<Rightarrow> (existing_memory list, memory_app_error) result" where
  "duplicate_candidates lib t command operations =
     (case command_draft (mcmd_payload command) of
        None \<Rightarrow> Ok []
      | Some draft \<Rightarrow>
          and_then (case mcmd_payload command of
              CreateMemory scope kind _ \<Rightarrow> Ok (scope, kind)
            | _ \<Rightarrow> map_err App_MemoryCommand (item_scope_kind operations)) (\<lambda>(scope, kind).
          and_then (map_err App_Store (active_memory_head_query_new [scope] kind (dr_subject_key draft)
            max_memory_validation_candidates)) (\<lambda>identity_query.
          and_then (map_err App_Store (load_active_memory_heads lib t
            (with_content_hash identity_query (dr_content_hash draft)))) (\<lambda>exact_heads.
          and_then (map_err App_Store (load_active_memory_heads lib t identity_query)) (\<lambda>identity_heads.
          Ok (map existing_of (foldl (push_head (mcmd_memory_id command)) [] (exact_heads @ identity_heads))))))))"

section \<open>Executing\<close>

definition execute_memory_command ::
  "memory_codec \<Rightarrow> memory_tables \<Rightarrow> memory_command \<Rightarrow> timestamp_millis
     \<Rightarrow> (memory_command_commit, memory_app_error) result \<times> memory_tables" where
  "execute_memory_command lib t command occurred_at =
     (case
        and_then (map_err App_Store (load_all_operations lib t (mcmd_memory_id command))) (\<lambda>operations.
        and_then (map_err App_Store (load_memory_revisions lib t (mcmd_memory_id command))) (\<lambda>revisions.
        and_then (duplicate_candidates lib t command operations) (\<lambda>existing.
        map_err App_MemoryCommand
          (plan_memory_command (mk_sha256 lib) command occurred_at operations revisions existing)))) of
        Err e \<Rightarrow> (Err e, t)
      | Panic \<Rightarrow> (Panic, t)
      | Ok plan \<Rightarrow>
          (case append_memory_batch lib t (mcp_batch plan) of
             (Ok receipt, t') \<Rightarrow> (Ok \<lparr>mcc_receipt = receipt, mcc_validation = mcp_validation plan\<rparr>, t')
           | (Err e, t') \<Rightarrow> (Err (App_Store e), t')
           | (Panic, t') \<Rightarrow> (Panic, t')))"

end
