(* ===== verification/Memory_Laws.thy ===== *)
theory Memory_Laws
  imports Memory_Runtime
begin

text \<open>
  How the statements of the memory ledger change its tables, and the invariants the batches keep. The
  first part follows the revisions: which columns stay, and which revisions become active.
\<close>

section \<open>Rows that are updated in place\<close>

lemma set_where_cases: "r \<in> set (set_where p f rows) \<Longrightarrow> \<exists>r0 \<in> set rows. r = (if p r0 then f r0 else r0)"
  by (auto simp: set_where_def)

lemma set_set_where: "set (set_where p f rows) = f ` {r \<in> set rows. p r} \<union> {r \<in> set rows. \<not> p r}"
  by (induction rows) (auto simp: set_where_def)

lemma map_set_where: "(\<And>r. p r \<Longrightarrow> g (f r) = g r) \<Longrightarrow> map g (set_where p f rows) = map g rows"
  by (simp add: set_where_def)

lemma length_set_where [simp]: "length (set_where p f rows) = length rows"
  by (simp add: set_where_def)

section \<open>Growth of the revisions\<close>

text \<open>The columns of a revision that no statement changes.\<close>

definition fixed_columns :: "memory_revision_row \<Rightarrow> memory_revision_row" where
  "fixed_columns r = r\<lparr>rv_state := Rev_Proposed, rv_content_id := None\<rparr>"

lemma fixed_columns_simps [simp]:
  "fixed_columns (r\<lparr>rv_state := s\<rparr>) = fixed_columns r" "fixed_columns (r\<lparr>rv_content_id := c\<rparr>) = fixed_columns r"
  by (simp_all add: fixed_columns_def)

lemma fixed_columns_eq:
  assumes "fixed_columns r = fixed_columns r'"
  shows "rv_revision_id r = rv_revision_id r'" "rv_memory_id r = rv_memory_id r'" "rv_origin r = rv_origin r'"
    "rv_trust_class r = rv_trust_class r'" "rv_sensitivity r = rv_sensitivity r'"
    "rv_search_rowid r = rv_search_rowid r'" "rv_revision r = rv_revision r'"
  using assms by (cases r; cases r'; simp add: fixed_columns_def)+

definition active_ids :: "memory_tables \<Rightarrow> memory_revision_id set" where
  "active_ids t = rv_revision_id ` {r \<in> set (mt_revisions t). rv_state r = Rev_Active}"

definition evolves :: "memory_revision_id set \<Rightarrow> memory_tables \<Rightarrow> memory_tables \<Rightarrow> bool" where
  "evolves X t u \<longleftrightarrow>
     (\<exists>new. map fixed_columns (mt_revisions u) = map fixed_columns (mt_revisions t) @ new)
     \<and> set (mt_validations t) \<subseteq> set (mt_validations u)
     \<and> active_ids u \<subseteq> active_ids t \<union> X"

lemma evolves_refl [simp]: "evolves X t t"
  by (simp add: evolves_def)

lemma evolves_trans: "evolves X t u \<Longrightarrow> evolves Y u w \<Longrightarrow> evolves (X \<union> Y) t w"
  unfolding evolves_def by (auto 0 3 simp: append_assoc)

lemma evolves_trans_same: "evolves X t u \<Longrightarrow> evolves X u w \<Longrightarrow> evolves X t w"
  using evolves_trans [of X t u X w] by simp

lemma evolves_mono: "evolves X t u \<Longrightarrow> X \<subseteq> Y \<Longrightarrow> evolves Y t u"
  unfolding evolves_def by auto

lemma evolves_same:
  "mt_revisions u = mt_revisions t \<Longrightarrow> set (mt_validations t) \<subseteq> set (mt_validations u) \<Longrightarrow> evolves X t u"
  by (simp add: evolves_def active_ids_def)

lemma evolves_row:
  assumes "evolves X t u" "r \<in> set (mt_revisions t)"
  shows "\<exists>r' \<in> set (mt_revisions u). fixed_columns r' = fixed_columns r"
proof -
  from assms(1) obtain new where "map fixed_columns (mt_revisions u) = map fixed_columns (mt_revisions t) @ new"
    unfolding evolves_def by blast
  then have "fixed_columns ` set (mt_revisions u) = fixed_columns ` set (mt_revisions t) \<union> set new"
    by (metis list.set_map set_append)
  with assms(2) show ?thesis by (metis UnI1 imageE imageI)
qed

lemma evolves_fold:
  assumes "try_fold f t xs = Ok u" "\<And>t x u. x \<in> set xs \<Longrightarrow> f t x = Ok u \<Longrightarrow> evolves X t u"
  shows "evolves X t u"
  using assms
proof (induction xs arbitrary: t)
  case (Cons x xs)
  then obtain w where "f t x = Ok w" "try_fold f w xs = Ok u" by (auto simp: and_then_Ok)
  with Cons show ?case by (meson evolves_trans_same list.set_intros)
qed simp

text \<open>An update of the revisions that changes only the state and the content.\<close>

lemma evolves_set_where:
  assumes "\<And>r. p r \<Longrightarrow> fixed_columns (f r) = fixed_columns r"
    "\<And>r. p r \<Longrightarrow> rv_state (f r) = Rev_Active \<Longrightarrow> rv_state r \<noteq> Rev_Active \<Longrightarrow> rv_revision_id r \<in> X"
    "mt_validations u = mt_validations t" "mt_revisions u = set_where p f (mt_revisions t)"
  shows "evolves X t u"
proof -
  have ids: "rv_revision_id (f r) = rv_revision_id r" if "p r" for r
    using assms(1) [OF that] by (rule fixed_columns_eq(1))
  have "active_ids u \<subseteq> active_ids t \<union> X"
    unfolding active_ids_def assms(4) using assms(2) ids by (fastforce dest!: set_where_cases split: if_splits)
  with assms show ?thesis unfolding evolves_def by (simp add: map_set_where)
qed

lemma evolves_put_state: "evolves (if s = Rev_Active then {i} else {}) t (put_state t i s)"
  by (rule evolves_set_where [where p = "\<lambda>r. rv_revision_id r = i"]) (auto simp: put_state_def)

lemma evolves_delete_blob: "evolves X t (delete_blob c t)"
  by (rule evolves_set_where [where p = "\<lambda>r. rv_content_id r = Some c"]) (auto simp: delete_blob_def)

text \<open>The statements that leave the revisions alone, for \<open>simp\<close>.\<close>

lemma remove_revision_from_fts_simps [simp]:
  "mt_items (remove_revision_from_fts t i) = mt_items t" "mt_blobs (remove_revision_from_fts t i) = mt_blobs t"
  "mt_revisions (remove_revision_from_fts t i) = mt_revisions t"
  "mt_evidence (remove_revision_from_fts t i) = mt_evidence t"
  "mt_validations (remove_revision_from_fts t i) = mt_validations t"
  "mt_operations (remove_revision_from_fts t i) = mt_operations t"
  "mt_generation (remove_revision_from_fts t i) = mt_generation t"
  by (simp_all add: remove_revision_from_fts_def)

lemma put_state_simps [simp]:
  "mt_items (put_state t i s) = mt_items t" "mt_blobs (put_state t i s) = mt_blobs t"
  "mt_fts (put_state t i s) = mt_fts t" "mt_evidence (put_state t i s) = mt_evidence t"
  "mt_validations (put_state t i s) = mt_validations t" "mt_operations (put_state t i s) = mt_operations t"
  "mt_generation (put_state t i s) = mt_generation t"
  by (simp_all add: put_state_def)

lemma update_item_Ok:
  "update_item t m f = Ok u \<longleftrightarrow>
     u = t\<lparr>mt_items := set_where (\<lambda>r. mi_memory_id r = m) f (mt_items t)\<rparr> \<and> memory_schema_ok u"
  by (auto simp: update_item_def result_simps)

lemma set_revision_state_Ok:
  "set_revision_state t i s = Ok u \<longleftrightarrow>
     u = put_state t i s \<and> memory_schema_ok u \<and> length (filter (\<lambda>r. rv_revision_id r = i) (mt_revisions t)) = 1"
  by (auto simp: set_revision_state_def result_simps split: if_splits)

lemma add_revision_to_fts_Ok:
  "add_revision_to_fts t i = Ok u \<longleftrightarrow>
     (\<exists>r c b. find_revision t i = Some r \<and> rv_content_id r = Some c \<and> find_blob t c = Some b
        \<and> u = t\<lparr>mt_fts := mt_fts t @ [\<lparr>fts_rowid = rv_search_rowid r, fts_content = bl_content_utf8 b,
                 fts_revision_id = i, fts_memory_id = rv_memory_id r\<rparr>]\<rparr> \<and> memory_schema_ok u)"
  by (auto simp: add_revision_to_fts_def result_simps split: option.splits Option.bind_splits)

section \<open>What every statement does to the revisions\<close>

lemma evolves_update_item: "update_item t m f = Ok u \<Longrightarrow> evolves X t u"
  by (auto simp: update_item_Ok intro: evolves_same)

lemma evolves_add_fts: "add_revision_to_fts t i = Ok u \<Longrightarrow> evolves X t u"
  by (auto simp: add_revision_to_fts_Ok intro: evolves_same)

lemma evolves_remove_fts: "evolves X t (remove_revision_from_fts t i)"
  by (rule evolves_same) simp_all

lemma evolves_set_state: "set_revision_state t i s = Ok u \<Longrightarrow> evolves (if s = Rev_Active then {i} else {}) t u"
  by (simp add: set_revision_state_Ok evolves_put_state)

lemma evolves_deactivate: "deactivate_current_revision t m i = Ok u \<Longrightarrow> evolves X t u"
  using evolves_put_state [of Rev_Superseded]
  by (auto simp: deactivate_current_revision_def result_simps split: option.splits if_splits
      intro!: evolves_trans_same [OF evolves_mono evolves_remove_fts])

lemma evolves_activate:
  assumes "activate_revision t m i maintain = Ok u" shows "evolves {i} t u"
proof -
  from assms obtain t1 t2 t3 where steps: "deactivate_current_revision t m i = Ok t1"
    "set_revision_state t1 i Rev_Active = Ok t2" "(if maintain then add_revision_to_fts t2 i else Ok t2) = Ok t3"
    "update_item t3 m (\<lambda>r. r\<lparr>mi_lifecycle := Rev_Active, mi_active_revision_id := Some i\<rparr>) = Ok u"
    by (auto simp: activate_revision_def and_then_Ok)
  have "evolves {i} t t1" using steps(1) by (rule evolves_deactivate)
  moreover have "evolves {i} t1 t2" using evolves_set_state [OF steps(2)] by simp
  moreover have "evolves {i} t2 t3" using steps(3) by (auto split: if_splits dest: evolves_add_fts)
  moreover have "evolves {i} t3 u" using steps(4) by (rule evolves_update_item)
  ultimately show ?thesis by (meson evolves_trans_same)
qed

lemma evolves_projection: "apply_revision_projection t m v maintain = Ok u \<Longrightarrow> evolves {} t u"
  by (auto simp: apply_revision_projection_def and_then_Ok split: if_splits
      intro: evolves_trans_same dest!: evolves_deactivate [where X = "{}"] evolves_add_fts [where X = "{}"]
        evolves_update_item [where X = "{}"])

lemma evolves_insert_evidence: "insert_evidence lib v sidecars t x = Ok u \<Longrightarrow> evolves X t u"
  by (auto simp: insert_evidence_def insert_blob_def result_simps split: option.splits prod.splits intro!: evolves_same)

lemma evolves_insert_relation: "insert_relation v t x = Ok u \<Longrightarrow> evolves X t u"
  by (auto simp: insert_relation_def result_simps split: prod.splits intro!: evolves_same)

text \<open>The parts of a successful insertion of a revision.\<close>

lemma insert_revision_parts:
  assumes "insert_revision lib t operation v content = Ok u"
  obtains c json digest t1 t2 t3 t4 where "content = Some c" "digest_bytes (mv_content_hash v) = Ok digest"
    "insert_blob IK_MemoryRevision t
       \<lparr>bl_content_id = memory_content_id (mv_revision_id v), bl_content_utf8 = as_bytes (content_str (mrc_content c)),
        bl_content_sha256 = mk_sha256 lib (as_bytes (content_str (mrc_content c))), bl_created_at = mv_created_at v\<rparr> = Ok t1"
    "t2 = t1\<lparr>mt_revisions := mt_revisions t1 @ [revision_row lib t1 operation v json digest]\<rparr>" "memory_schema_ok t2"
    "try_fold (insert_evidence lib v (map_of (rev (map (\<lambda>e. (mec_evidence_id e, mec_excerpt e)) (mrc_evidence c)))))
       t2 (enumerate 0 (mv_evidence v)) = Ok t3"
    "try_fold (insert_relation v) t3 (enumerate 0 (mv_relations v)) = Ok t4"
    "apply_revision_projection t4 (mo_memory_id operation) v True = Ok u"
  using assms unfolding insert_revision_def Let_def
  by (auto simp: result_simps split: if_splits)

lemma evolves_insert_revision:
  assumes "insert_revision lib t operation v content = Ok u"
  shows "evolves (if mv_status v = Rev_Active then {mv_revision_id v} else {}) t u"
    "\<exists>r \<in> set (mt_revisions u). rv_revision_id r = mv_revision_id v \<and> rv_memory_id r = mo_memory_id operation
       \<and> rv_origin r = mv_origin v \<and> rv_trust_class r = mv_trust_class v \<and> rv_sensitivity r = mv_sensitivity v"
proof -
  from assms obtain c :: memory_revision_content and json digest t1 t2 t3 t4 where p: "insert_blob IK_MemoryRevision t
       \<lparr>bl_content_id = memory_content_id (mv_revision_id v), bl_content_utf8 = as_bytes (content_str (mrc_content c)),
        bl_content_sha256 = mk_sha256 lib (as_bytes (content_str (mrc_content c))), bl_created_at = mv_created_at v\<rparr> = Ok t1"
    "t2 = t1\<lparr>mt_revisions := mt_revisions t1 @ [revision_row lib t1 operation v json digest]\<rparr>"
    "try_fold (insert_evidence lib v (map_of (rev (map (\<lambda>e. (mec_evidence_id e, mec_excerpt e)) (mrc_evidence c)))))
       t2 (enumerate 0 (mv_evidence v)) = Ok t3"
    "try_fold (insert_relation v) t3 (enumerate 0 (mv_relations v)) = Ok t4"
    "apply_revision_projection t4 (mo_memory_id operation) v True = Ok u"
    by (rule insert_revision_parts) (rule that; assumption)
  let ?X = "if mv_status v = Rev_Active then {mv_revision_id v} else {}"
  have "evolves ?X t t2"
    using p(1,2) by (auto simp: insert_blob_def result_simps evolves_def active_ids_def revision_row_def Let_def)
  moreover have later: "evolves {} t2 u"
    using evolves_fold [OF p(3), of "{}"] evolves_fold [OF p(4), of "{}"] evolves_projection [OF p(5)]
    by (meson evolves_insert_evidence evolves_insert_relation evolves_trans_same)
  ultimately show "evolves ?X t u" by (metis evolves_trans Un_empty_right)
  obtain r where r: "r \<in> set (mt_revisions u)" "fixed_columns r = fixed_columns (revision_row lib t1 operation v json digest)"
    using evolves_row [OF later, of "revision_row lib t1 operation v json digest"] p(2) by auto
  then show "\<exists>r \<in> set (mt_revisions u). rv_revision_id r = mv_revision_id v \<and> rv_memory_id r = mo_memory_id operation
       \<and> rv_origin r = mv_origin v \<and> rv_trust_class r = mv_trust_class v \<and> rv_sensitivity r = mv_sensitivity v"
    using fixed_columns_eq [OF r(2)] by (auto simp: revision_row_def Let_def)
qed

lemma evolves_delete:
  assumes "delete_memory_content t m i = Ok u" shows "evolves {} t u"
proof -
  let ?t2 = "(erase_renderings t m)\<lparr>mt_fts := filter (\<lambda>f. fts_memory_id f \<noteq> m) (mt_fts (erase_renderings t m))\<rparr>"
  let ?t3 = "?t2\<lparr>mt_evidence := set_where (\<lambda>e. ve_revision_id e \<in> set (revisions_of ?t2 m))
    (\<lambda>e. e\<lparr>ve_excerpt_content_id := None, ve_excerpt_sha256 := None\<rparr>) (mt_evidence ?t2)\<rparr>"
  let ?t4 = "?t3\<lparr>mt_revisions := set_where (\<lambda>r. rv_memory_id r = m) (\<lambda>r. r\<lparr>rv_content_id := None\<rparr>) (mt_revisions ?t3)\<rparr>"
  from assms obtain t5 t6 where
    steps: "try_fold (\<lambda>t c. run_memory IK_Constraint (delete_blob c t)) ?t4 (content_ids_of ?t2 m) = Ok t5"
    "set_revision_state t5 i Rev_Deleted = Ok t6"
    "update_item t6 m (\<lambda>r. r\<lparr>mi_lifecycle := Rev_Deleted, mi_active_revision_id := None\<rparr>) = Ok u"
    unfolding delete_memory_content_def Let_def by (auto simp: result_simps)
  have "evolves {} t ?t4"
    by (rule evolves_set_where [where p = "\<lambda>r. rv_memory_id r = m"]) (auto simp: erase_renderings_def Let_def)
  moreover have "evolves {} ?t4 t5"
    by (rule evolves_fold [OF steps(1)]) (auto simp: result_simps evolves_delete_blob)
  moreover have "evolves {} t5 t6" using evolves_set_state [OF steps(2)] by simp
  ultimately show ?thesis using evolves_update_item [OF steps(3)] by (meson evolves_trans_same)
qed

section \<open>What every operation does to the revisions\<close>

fun activated :: "memory_operation_payload \<Rightarrow> memory_revision_id set" where
  "activated (RevisionActivated i) = {i}"
| "activated p = (case introduced_revision p of
     Some v \<Rightarrow> if mv_status v = Rev_Active then {mv_revision_id v} else {} | None \<Rightarrow> {})"

lemma evolves_record_validation: "record_validation lib rebuilding t operation i v = Ok u \<Longrightarrow> evolves X t u"
  by (auto simp: record_validation_def result_simps split: if_splits intro!: evolves_same)

lemma evolves_payload:
  assumes "apply_memory_payload lib False t entry m p = Ok u" shows "evolves (activated p) t u"
proof (cases p)
  case (ProposalApproved proposal v)
  with assms obtain w where w: "insert_revision lib t (mao_operation entry) v (mao_content entry) = Ok w"
    "set_revision_state w proposal Rev_Superseded = Ok u" by (auto simp: introduce_def and_then_Ok)
  show ?thesis using ProposalApproved evolves_trans [OF evolves_insert_revision(1) [OF w(1)] evolves_set_state [OF w(2)]]
    by simp
next
  case (RevisionSuperseded i j)
  with assms show ?thesis
    by (auto simp: result_simps intro!: evolves_trans_same [OF _ evolves_remove_fts] dest: evolves_set_state)
next
  case (RevisionRejected i reason)
  with assms obtain w where w: "set_revision_state t i Rev_Rejected = Ok w" "update_item_from_revision w m i = Ok u"
    by (auto simp: and_then_Ok)
  from w(2) have "evolves {} w u"
    by (auto simp: update_item_from_revision_def split: option.splits intro: evolves_update_item)
  with evolves_set_state [OF w(1)] RevisionRejected show ?thesis by (auto intro: evolves_trans_same)
next
  case (MemoryRetracted i)
  with assms show ?thesis
    by (auto simp: and_then_Ok intro: evolves_trans_same [OF evolves_trans_same [OF _ evolves_remove_fts]]
        dest!: evolves_set_state evolves_update_item [where X = "{}"])
qed (use assms in \<open>auto simp: introduce_def and_then_Ok intro: evolves_activate evolves_delete evolves_record_validation
       dest: evolves_insert_revision(1)\<close>)

lemma evolves_entry:
  assumes "append_entry lib t (entry, enc) = Ok u"
  shows "evolves (activated (mo_payload (mao_operation entry))) t u"
proof -
  let ?p = "mo_payload (mao_operation entry)" and ?m = "mo_memory_id (mao_operation entry)"
  from assms obtain t1 t2 f where steps: "insert_operation t (mao_operation entry) enc = Ok t1"
    "apply_memory_payload lib False t1 entry ?m ?p = Ok t2" "update_item t2 ?m f = Ok u"
    by (auto simp: append_entry_def apply_operation_def Let_def and_then_Ok)
  have "evolves (activated ?p) t t1"
    using steps(1) by (auto simp: insert_operation_def result_simps intro!: evolves_same)
  with evolves_payload [OF steps(2)] evolves_update_item [OF steps(3)] show ?thesis by (meson evolves_trans_same)
qed

end
