(* ===== verification/Memory_Approval.thy ===== *)
theory Memory_Approval
  imports Memory_Laws
begin

text \<open>
  Which memories can become active. A batch is vouched for when every revision it activates was
  introduced by it as the user's own and accepted by the validator before; the plans of the trusted
  commands are, and a vouched batch keeps every active revision approved.
\<close>

section \<open>Approved revisions\<close>

definition user_ids :: "memory_tables \<Rightarrow> memory_revision_id set" where
  "user_ids t = rv_revision_id ` {r \<in> set (mt_revisions t). rv_origin r = ExplicitUser
     \<and> rv_trust_class r = UserApproved \<and> rv_sensitivity r \<noteq> Sens_Secret}"

definition accepted_ids :: "memory_tables \<Rightarrow> memory_revision_id set" where
  "accepted_ids t = vd_revision_id ` {d \<in> set (mt_validations t). vd_outcome d = Validation_Accepted}"

definition approved :: "memory_tables \<Rightarrow> bool" where
  "approved t \<longleftrightarrow> active_ids t \<subseteq> user_ids t \<inter> accepted_ids t"

lemma user_ids_mono:
  assumes "evolves X t u" shows "user_ids t \<subseteq> user_ids u"
proof
  fix i assume "i \<in> user_ids t"
  then obtain r where r: "r \<in> set (mt_revisions t)" "i = rv_revision_id r" "rv_origin r = ExplicitUser"
    "rv_trust_class r = UserApproved" "rv_sensitivity r \<noteq> Sens_Secret" unfolding user_ids_def by blast
  from evolves_row [OF assms r(1)] obtain r' where r': "r' \<in> set (mt_revisions u)" "fixed_columns r' = fixed_columns r" ..
  show "i \<in> user_ids u" unfolding user_ids_def
    using r r'(1) fixed_columns_eq [OF r'(2)] by (intro image_eqI [of _ _ r']) simp_all
qed

lemma accepted_ids_mono: "evolves X t u \<Longrightarrow> accepted_ids t \<subseteq> accepted_ids u"
  unfolding evolves_def accepted_ids_def by blast

lemma evolves_approved:
  assumes "evolves X t u" "approved t" "X \<subseteq> user_ids u \<inter> accepted_ids u"
  shows "approved u"
  using assms user_ids_mono [OF assms(1)] accepted_ids_mono [OF assms(1)]
  unfolding approved_def evolves_def by blast

section \<open>Vouched batches\<close>

definition users_own :: "memory_revision \<Rightarrow> bool" where
  "users_own v \<longleftrightarrow> mv_origin v = ExplicitUser \<and> mv_trust_class v = UserApproved \<and> mv_sensitivity v \<noteq> Sens_Secret"

text \<open>\<open>own\<close> and \<open>accepted\<close> are the revisions the batch introduced as the user's and validated so far.\<close>

fun vouched :: "memory_revision_id set \<Rightarrow> memory_revision_id set \<Rightarrow> memory_operation_payload list \<Rightarrow> bool" where
  "vouched own accepted [] \<longleftrightarrow> True"
| "vouched own accepted (p # ps) \<longleftrightarrow>
     activated p \<subseteq> own \<inter> accepted
     \<and> vouched
         (own \<union> (case introduced_revision p of Some v \<Rightarrow> if users_own v then {mv_revision_id v} else {} | None \<Rightarrow> {}))
         (accepted \<union> (case p of RevisionValidated i v \<Rightarrow> if vr_status v = Validation_Accepted then {i} else {} | _ \<Rightarrow> {}))
         ps"

lemma entry_parts:
  assumes "append_entry lib t (entry, enc) = Ok u"
  obtains t1 t2 where
    "apply_memory_payload lib False t1 entry (mo_memory_id (mao_operation entry)) (mo_payload (mao_operation entry)) = Ok t2"
    "evolves {} t2 u"
  using assms by (auto simp: append_entry_def apply_operation_def Let_def and_then_Ok intro: evolves_update_item)

lemma entry_introduces:
  assumes "append_entry lib t (entry, enc) = Ok u"
    "introduced_revision (mo_payload (mao_operation entry)) = Some v" "users_own v"
  shows "mv_revision_id v \<in> user_ids u"
proof -
  from assms(1) obtain t1 t2 where parts:
    "apply_memory_payload lib False t1 entry (mo_memory_id (mao_operation entry)) (mo_payload (mao_operation entry)) = Ok t2"
    "evolves {} t2 u" by (rule entry_parts)
  then obtain w where w: "insert_revision lib t1 (mao_operation entry) v (mao_content entry) = Ok w" "evolves {} w t2"
    using assms(2)
    by (cases "mo_payload (mao_operation entry)")
       (auto simp: introduce_def and_then_Ok dest!: evolves_set_state split: if_splits)
  from evolves_insert_revision(2) [OF w(1)] assms(3) have "mv_revision_id v \<in> user_ids w"
    by (force simp: user_ids_def users_own_def)
  then show ?thesis using user_ids_mono w(2) parts(2) by blast
qed

lemma entry_accepts:
  assumes "append_entry lib t (entry, enc) = Ok u"
    "mo_payload (mao_operation entry) = RevisionValidated i v" "vr_status v = Validation_Accepted"
  shows "i \<in> accepted_ids u"
proof -
  from assms(1) obtain t1 t2 where parts:
    "apply_memory_payload lib False t1 entry (mo_memory_id (mao_operation entry)) (mo_payload (mao_operation entry)) = Ok t2"
    "evolves {} t2 u" by (rule entry_parts)
  then have "i \<in> accepted_ids t2"
    using assms(2,3) by (force simp: record_validation_def accepted_ids_def result_simps)
  then show ?thesis using accepted_ids_mono parts(2) by blast
qed

lemma vouched_batch_approved:
  assumes "try_fold (append_entry lib) t es = Ok u" "vouched own accepted (map (mo_payload \<circ> mao_operation \<circ> fst) es)"
    "approved t" "own \<subseteq> user_ids t" "accepted \<subseteq> accepted_ids t"
  shows "approved u"
  using assms
proof (induction es arbitrary: t own accepted)
  case (Cons e es)
  obtain entry enc where e: "e = (entry, enc)" by (cases e)
  from Cons.prems(1) e obtain w where w: "append_entry lib t (entry, enc) = Ok w" "try_fold (append_entry lib) w es = Ok u"
    by (auto simp: and_then_Ok)
  have ev: "evolves (activated (mo_payload (mao_operation entry))) t w" by (rule evolves_entry [OF w(1)])
  note mono = user_ids_mono [OF ev] accepted_ids_mono [OF ev]
  have "approved w"
    using Cons.prems(2-5) e mono by (intro evolves_approved [OF ev]) auto
  define own' where "own' = own \<union> (case introduced_revision (mo_payload (mao_operation entry)) of
       Some v \<Rightarrow> if users_own v then {mv_revision_id v} else {} | None \<Rightarrow> {})"
  define accepted' where "accepted' = accepted \<union> (case mo_payload (mao_operation entry) of
       RevisionValidated i v \<Rightarrow> if vr_status v = Validation_Accepted then {i} else {} | _ \<Rightarrow> {})"
  from Cons.prems(2) e have rest: "vouched own' accepted' (map (mo_payload \<circ> mao_operation \<circ> fst) es)"
    unfolding own'_def accepted'_def by (simp add: comp_def)
  have "own' \<subseteq> user_ids w"
    using Cons.prems(4) mono entry_introduces [OF w(1)] unfolding own'_def by (auto split: option.splits)
  moreover have "accepted' \<subseteq> accepted_ids w"
    using Cons.prems(5) mono entry_accepts [OF w(1)] unfolding accepted'_def
    by (auto split: memory_operation_payload.splits)
  ultimately show ?case using Cons.IH [OF w(2) rest \<open>approved w\<close>] by blast
qed simp

section \<open>The plans are vouched\<close>

definition batch_payloads :: "memory_append_batch \<Rightarrow> memory_operation_payload list" where
  "batch_payloads request = map (mo_payload \<circ> mao_operation) (mab_operations request)"

definition payloads :: "batch_builder \<Rightarrow> memory_operation_payload list" where
  "payloads b = map (mo_payload \<circ> mao_operation) (bb_operations b)"

lemma bb_push_Ok:
  assumes "bb_push sha b stage p content = Ok b'"
  shows "payloads b' = payloads b @ [p]" "bb_command b' = bb_command b" "bb_occurred_at b' = bb_occurred_at b"
  using assms by (auto simp: bb_push_def payloads_def result_simps Let_def memory_operation_new_v1_def split: if_splits)

lemmas bb_stage_defs = bb_introduce_def bb_validation_def bb_activate_def bb_supersede_def

lemma bb_finish_payloads [simp]: "batch_payloads (mcp_batch (bb_finish b v)) = payloads b"
  by (simp add: bb_finish_def batch_payloads_def payloads_def)

lemma explicit_accepted_users_own:
  assumes "validate_revision sha scope kind d existing exclude = Ok v" "is_explicit_accepted d v"
  shows "users_own (from_draft s d at supersedes)" "vr_status v = Validation_Accepted"
  using assms analyze_Accepted(4)
  by (auto simp: validate_revision_def is_explicit_accepted_def users_own_def from_draft_def result_simps)

lemma from_draft_simps [simp]:
  "mv_status (from_draft s d at supersedes) = s" "mv_revision_id (from_draft s d at supersedes) = dr_revision_id d"
  by (simp_all add: from_draft_def)

lemma plan_create_vouched:
  assumes "plan_create sha b existing scope kind d = Ok plan" "payloads b = []"
  shows "vouched {} {} (batch_payloads (mcp_batch plan))"
  using assms
  by (auto simp: plan_create_def result_simps bb_stage_defs dest!: bb_push_Ok(1) split: if_splits
      dest: explicit_accepted_users_own)

lemma plan_propose_vouched:
  assumes "plan_propose sha b operations revisions existing d supersedes = Ok plan" "payloads b = []"
  shows "vouched {} {} (batch_payloads (mcp_batch plan))"
  using assms
  by (auto simp: plan_propose_def result_simps bb_stage_defs dest!: bb_push_Ok(1) split: if_splits)

lemma plan_revise_vouched:
  assumes "plan_revise sha b operations revisions existing d supersedes = Ok plan" "payloads b = []"
  shows "vouched {} {} (batch_payloads (mcp_batch plan))"
  using assms
  by (auto simp: plan_revise_def result_simps bb_stage_defs dest!: bb_push_Ok(1) split: if_splits
      dest: explicit_accepted_users_own)

lemma plan_approve_vouched:
  assumes "plan_approve sha b operations revisions existing i d = Ok plan" "payloads b = []"
  shows "vouched {} {} (batch_payloads (mcp_batch plan))"
  using assms
  by (auto simp: plan_approve_def result_simps bb_stage_defs Let_def dest!: bb_push_Ok(1) split: if_splits
      dest: explicit_accepted_users_own)

lemma plan_single_payload:
  "plan_single sha b revisions i states stage p = Ok plan \<Longrightarrow> payloads b = []
     \<Longrightarrow> batch_payloads (mcp_batch plan) = [p]"
  by (auto simp: plan_single_def result_simps dest!: bb_push_Ok(1))

lemma payloads_new [simp]: "payloads (batch_builder_new command at base) = []"
  by (simp add: payloads_def batch_builder_new_def)

lemma plan_vouched:
  assumes "plan_memory_command sha command at operations revisions existing = Ok plan"
  shows "vouched {} {} (batch_payloads (mcp_batch plan))"
  using assms unfolding plan_memory_command_def Let_def
  by (cases "mcmd_payload command")
     (auto simp: result_simps dest!: plan_single_payload
       intro: plan_create_vouched plan_propose_vouched plan_revise_vouched plan_approve_vouched)

section \<open>Every append of a planned batch\<close>

lemma append_cases:
  assumes "append_memory_batch lib t request = (r, u)"
  obtains "u = t"
  | receipt es where "r = Ok receipt" "mar_disposition receipt = Committed"
      "map fst es = mab_operations request" "es \<noteq> []"
      "commit_new lib t request es (mao_operation (hd (mab_operations request)))
         (mao_operation (last (mab_operations request))) = Ok (receipt, u)"
proof (cases "append_batch_transaction lib t request")
  case (Ok ru)
  with assms obtain receipt where r: "r = Ok receipt" and tr: "append_batch_transaction lib t request = Ok (receipt, u)"
    by (auto simp: append_memory_batch_def split: prod.splits)
  from tr obtain encoded where enc: "encode_and_validate_batch lib request = Ok encoded"
    by (auto simp: append_batch_transaction_def and_then_Ok)
  have "length encoded = length (mab_operations request) \<and> mab_operations request \<noteq> []"
  proof -
    have "encode_batch lib f pre cs n xs = Ok ys \<Longrightarrow> length ys = length xs" for f pre cs n xs ys
      by (induction xs arbitrary: pre cs n ys) (auto simp: result_simps Let_def)
    with enc show ?thesis by (fastforce simp: encode_and_validate_batch_def result_simps simp del: encode_batch.simps split: list.splits)
  qed
  then have es: "map fst (zip (mab_operations request) encoded) = mab_operations request"
    "zip (mab_operations request) encoded \<noteq> []" by (auto simp: map_fst_zip)
  from tr enc consider "u = t" | "commit_new lib t request (zip (mab_operations request) encoded)
      (mao_operation (hd (mab_operations request))) (mao_operation (last (mab_operations request))) = Ok (receipt, u)"
    by (auto simp: append_batch_transaction_def and_then_Ok Let_def split: if_splits)
  then show ?thesis
  proof cases
    case 2
    then have "mar_disposition receipt = Committed"
      by (auto simp: commit_new_def and_then_Ok Let_def)
    with 2 r es that show ?thesis by metis
  qed (rule that)
qed (use assms that in \<open>auto simp: append_memory_batch_def\<close>)

text \<open>The parts of a committed batch.\<close>

lemma read_generation_Ok: "read_generation t = Ok g \<Longrightarrow> g = mt_generation t"
  by (auto simp: read_generation_def memory_generation_new_def result_simps split: if_splits)

lemma increment_generation_Ok:
  "increment_generation t at = Ok (g, u) \<Longrightarrow>
     g = mt_generation t + 1 \<and> u = t\<lparr>mt_generation := mt_generation t + 1, mt_state_updated_at := at\<rparr>"
  by (auto simp: increment_generation_def memory_generation_next_def checked_add_u64_def result_simps
      dest!: read_generation_Ok split: if_splits)

lemma increment_mutation_generation_Ok:
  "increment_mutation_generation t at = Ok (g, u) \<Longrightarrow>
     g = mt_mutation_generation t + 1
     \<and> u = t\<lparr>mt_mutation_generation := mt_mutation_generation t + 1, mt_state_updated_at := at\<rparr>"
  by (auto simp: increment_mutation_generation_def checked_add_u64_def result_simps split: if_splits)

lemma commit_parts:
  assumes "commit_new lib t request es first last_op = Ok (receipt, u)"
  obtains t1 t2 where
    "(if is_created (mo_payload first) then insert_memory_item_shell t first else Ok t) = Ok t1"
    "try_fold (append_entry lib) t1 es = Ok t2"
    "u = t2\<lparr>mt_generation := mar_generation receipt, mt_mutation_generation := mt_mutation_generation t2 + 1,
            mt_state_updated_at := mo_occurred_at last_op\<rparr>"
    "mar_generation receipt = (if current_active_revision t2 (mo_memory_id first)
       = current_active_revision t (mo_memory_id first) then mt_generation t2 else mt_generation t2 + 1)"
    "mar_mutation_generation receipt = mt_mutation_generation t2 + 1"
proof -
  from assms obtain t1 t2 t3 g mutation where steps:
    "(if is_created (mo_payload first) then insert_memory_item_shell t first else Ok t) = Ok t1"
    "try_fold (append_entry lib) t1 es = Ok t2"
    "(if current_active_revision t2 (mo_memory_id first) \<noteq> current_active_revision t (mo_memory_id first)
      then increment_generation t2 (mo_occurred_at last_op)
      else and_then (read_generation t2) (\<lambda>g. Ok (g, t2))) = Ok (g, t3)"
    "increment_mutation_generation t3 (mo_occurred_at last_op) = Ok (mutation, u)"
    "mar_generation receipt = g" "mar_mutation_generation receipt = mutation"
    unfolding commit_new_def Let_def by (clarsimp simp: and_then_Ok)
  have gen: "g = (if current_active_revision t2 (mo_memory_id first)
       = current_active_revision t (mo_memory_id first) then mt_generation t2 else mt_generation t2 + 1)"
    "u = t2\<lparr>mt_generation := g, mt_mutation_generation := mt_mutation_generation t2 + 1,
            mt_state_updated_at := mo_occurred_at last_op\<rparr>" "mutation = mt_mutation_generation t2 + 1"
    using steps(3) increment_mutation_generation_Ok [OF steps(4)]
    by (auto simp: and_then_Ok dest!: increment_generation_Ok read_generation_Ok split: if_splits)
  show ?thesis using that [OF steps(1,2)] gen steps(5,6) by simp
qed

lemma evolves_commit_prefix:
  "(if c then insert_memory_item_shell t first else Ok t) = Ok u \<Longrightarrow> evolves X t u"
  by (auto simp: insert_memory_item_shell_def result_simps split: if_splits memory_operation_payload.splits
      intro: evolves_same)

lemma append_approved:
  assumes "append_memory_batch lib t request = (r, u)" "vouched {} {} (batch_payloads request)" "approved t"
  shows "approved u"
  using assms(1)
proof (cases rule: append_cases)
  case 1 with assms(3) show ?thesis by simp
next
  case (2 receipt es)
  from 2(5) obtain t1 t2 where parts:
    "(if is_created (mo_payload (mao_operation (hd (mab_operations request))))
      then insert_memory_item_shell t (mao_operation (hd (mab_operations request))) else Ok t) = Ok t1"
    "try_fold (append_entry lib) t1 es = Ok t2"
    "u = t2\<lparr>mt_generation := mar_generation receipt, mt_mutation_generation := mt_mutation_generation t2 + 1,
            mt_state_updated_at := mo_occurred_at (mao_operation (last (mab_operations request)))\<rparr>"
    by (rule commit_parts) (rule that; assumption)
  have "approved t1" using evolves_approved [OF evolves_commit_prefix [OF parts(1), of "{}"] assms(3)] by simp
  moreover have "map (mo_payload \<circ> mao_operation \<circ> fst) es = batch_payloads request"
    unfolding batch_payloads_def 2(3) [symmetric] by simp
  ultimately have "approved t2" using vouched_batch_approved [OF parts(2)] assms(2) by simp
  then show ?thesis
    using parts(3) by (simp add: approved_def active_ids_def user_ids_def accepted_ids_def)
qed

lemma command_cases:
  assumes "execute_memory_command lib t command at = (r, u)"
  obtains "u = t"
  | operations revisions existing plan r' where
      "plan_memory_command (mk_sha256 lib) command at operations revisions existing = Ok plan"
      "load_all_operations lib t (mcmd_memory_id command) = Ok operations"
      "load_memory_revisions lib t (mcmd_memory_id command) = Ok revisions"
      "append_memory_batch lib t (mcp_batch plan) = (r', u)"
      "r = (case r' of Ok receipt \<Rightarrow> Ok \<lparr>mcc_receipt = receipt, mcc_validation = mcp_validation plan\<rparr>
            | Err e \<Rightarrow> Err (App_Store e) | Panic \<Rightarrow> Panic)"
  using assms unfolding execute_memory_command_def
  by (auto simp: result_simps split: result.splits prod.splits)

lemma execute_approved:
  assumes "execute_memory_command lib t command at = (r, u)" "approved t"
  shows "approved u"
  using assms(1)
proof (cases rule: command_cases)
  case (2 operations revisions existing plan r')
  then show ?thesis using append_approved [OF 2(4) plan_vouched [OF 2(1)] assms(2)] by simp
qed (use assms(2) in simp)

end
