(* ===== verification/Memory_Index.thy ===== *)
theory Memory_Index
  imports Memory_Approval
begin

text \<open>
  The search index of the memory ledger. It holds one row for every active revision whose content is
  retained, with that content, and nothing else; every operation of a batch keeps it so.
\<close>

section \<open>The invariant\<close>

definition searchable :: "memory_revision_row \<Rightarrow> bool" where
  "searchable r \<longleftrightarrow> rv_state r = Rev_Active \<and> rv_content_id r \<noteq> None"

definition fts_of :: "memory_tables \<Rightarrow> memory_revision_row \<Rightarrow> memory_fts_row" where
  "fts_of t r = \<lparr>fts_rowid = rv_search_rowid r,
     fts_content = bl_content_utf8 (the (find_blob t (the (rv_content_id r)))),
     fts_revision_id = rv_revision_id r, fts_memory_id = rv_memory_id r\<rparr>"

text \<open>The index lacks the revisions in \<open>X\<close>, between the statements of an operation.\<close>

definition live_rows :: "memory_revision_id set \<Rightarrow> memory_tables \<Rightarrow> memory_revision_row set" where
  "live_rows X t = {r \<in> set (mt_revisions t). searchable r \<and> rv_revision_id r \<notin> X}"

definition fts_exact :: "memory_revision_id set \<Rightarrow> memory_tables \<Rightarrow> bool" where
  "fts_exact X t \<longleftrightarrow> set (mt_fts t) = fts_of t ` live_rows X t"

definition canonical_content :: "memory_tables \<Rightarrow> bool" where
  "canonical_content t \<longleftrightarrow>
     (\<forall>r \<in> set (mt_revisions t). rv_content_id r \<in> {None, Some (memory_content_id (rv_revision_id r))})
     \<and> (\<forall>e \<in> set (mt_evidence t). ve_excerpt_content_id e \<in> {None, Some (evidence_content_id (ve_evidence_id e))})"

definition index_inv :: "memory_revision_id set \<Rightarrow> memory_tables \<Rightarrow> bool" where
  "index_inv X t \<longleftrightarrow> memory_schema_ok t \<and> canonical_content t \<and> fts_exact X t"

lemma fts_of_simps [simp]:
  "fts_revision_id (fts_of t r) = rv_revision_id r" "fts_memory_id (fts_of t r) = rv_memory_id r"
  "fts_rowid (fts_of t r) = rv_search_rowid r"
  by (simp_all add: fts_of_def)

lemma memory_content_id_inject [simp]: "memory_content_id i = memory_content_id j \<longleftrightarrow> i = j"
  by (cases i; cases j) (simp add: memory_content_id_def)

lemma content_id_not_evidence_id [simp]: "memory_content_id i \<noteq> evidence_content_id e"
  by (simp add: memory_content_id_def evidence_content_id_def ascii_def)

section \<open>Schema facts\<close>

lemma schema_distinct_ids: "memory_schema_ok t \<Longrightarrow> distinct (map rv_revision_id (mt_revisions t))"
  by (simp add: memory_schema_ok_def revisions_ok_def)

lemma schema_unique:
  "memory_schema_ok t \<Longrightarrow> r \<in> set (mt_revisions t) \<Longrightarrow> r' \<in> set (mt_revisions t)
     \<Longrightarrow> rv_revision_id r = rv_revision_id r' \<Longrightarrow> r = r'"
  using schema_distinct_ids by (metis distinct_map inj_onD)

lemma schema_content_exists:
  assumes "memory_schema_ok t" "r \<in> set (mt_revisions t)" "rv_content_id r = Some c"
  shows "\<exists>b. find_blob t c = Some b"
proof -
  have "blob_exists t c"
    using assms by (auto simp: memory_schema_ok_def revisions_ok_def list_all_iff revision_row_ok_def null_or_def)
  then show ?thesis by (auto simp: blob_exists_def find_blob_def find_Some_iff2 find_None_iff simp flip: not_None_eq)
qed

lemma exists_fts_simps [simp]:
  "item_exists (t\<lparr>mt_fts := x\<rparr>) = item_exists t" "operation_exists (t\<lparr>mt_fts := x\<rparr>) = operation_exists t"
  "revision_exists (t\<lparr>mt_fts := x\<rparr>) = revision_exists t" "blob_exists (t\<lparr>mt_fts := x\<rparr>) = blob_exists t"
  by (simp_all add: fun_eq_iff item_exists_def operation_exists_def revision_exists_def blob_exists_def)

lemma schema_fts:
  "memory_schema_ok (t\<lparr>mt_fts := x\<rparr>) \<longleftrightarrow> memory_schema_ok t \<and> distinct (map fts_rowid x)" if "memory_schema_ok t"
proof -
  have "revision_row_ok (t\<lparr>mt_fts := x\<rparr>) = revision_row_ok t" by (simp add: fun_eq_iff revision_row_ok_def)
  with that show ?thesis
    by (simp add: memory_schema_ok_def items_ok_def blobs_ok_def operations_ok_def revisions_ok_def evidence_ok_def
        relations_ok_def validations_ok_def fts_ok_def)
qed

lemma schema_remove_fts: "memory_schema_ok t \<Longrightarrow> memory_schema_ok (remove_revision_from_fts t i)"
  unfolding remove_revision_from_fts_def
  by (simp add: schema_fts distinct_map_filter) (simp add: memory_schema_ok_def fts_ok_def distinct_map_filter)

lemma find_revision_iff:
  assumes "memory_schema_ok t"
  shows "find_revision t i = Some r \<longleftrightarrow> r \<in> set (mt_revisions t) \<and> rv_revision_id r = i"
proof
  assume "find_revision t i = Some r"
  then show "r \<in> set (mt_revisions t) \<and> rv_revision_id r = i"
    by (auto simp: find_revision_def find_Some_iff)
next
  assume r: "r \<in> set (mt_revisions t) \<and> rv_revision_id r = i"
  then obtain r' where "find_revision t i = Some r'"
    by (fastforce simp: find_revision_def find_None_iff simp flip: not_None_eq)
  then show "find_revision t i = Some r"
    using r schema_unique [OF assms] by (auto simp: find_revision_def find_Some_iff)
qed

section \<open>Statements that keep the index\<close>

lemma fts_exact_frame:
  assumes "fts_exact X t" "mt_fts u = mt_fts t" "mt_revisions u = mt_revisions t"
    "\<And>r c. r \<in> set (mt_revisions t) \<Longrightarrow> rv_content_id r = Some c \<Longrightarrow> find_blob u c = find_blob t c"
  shows "fts_exact X u"
proof -
  have "fts_of u r = fts_of t r" if "r \<in> set (mt_revisions t)" "searchable r" for r
    using assms(4) that by (auto simp: fts_of_def searchable_def)
  then have "fts_of u ` live_rows X t = fts_of t ` live_rows X t" by (intro image_cong) (auto simp: live_rows_def)
  moreover have "live_rows X u = live_rows X t" by (simp add: live_rows_def assms(3))
  ultimately show ?thesis using assms(1,2) by (simp add: fts_exact_def)
qed

lemma index_inv_frame:
  assumes "index_inv X t" "memory_schema_ok u" "mt_fts u = mt_fts t" "mt_revisions u = mt_revisions t"
    "mt_blobs u = mt_blobs t" "mt_evidence u = mt_evidence t"
  shows "index_inv X u"
proof -
  have "fts_exact X u"
    by (rule fts_exact_frame [of X t]) (use assms in \<open>simp_all add: index_inv_def find_blob_def\<close>)
  with assms show ?thesis by (simp add: index_inv_def canonical_content_def)
qed

lemma index_inv_update_item: "update_item t m f = Ok u \<Longrightarrow> index_inv X t \<Longrightarrow> index_inv X u"
  by (auto simp: update_item_Ok intro: index_inv_frame)

lemma index_inv_insert_blob:
  assumes "insert_blob kind t b = Ok u" "index_inv X t" shows "index_inv X u"
proof -
  have u: "u = t\<lparr>mt_blobs := mt_blobs t @ [b]\<rparr>" "memory_schema_ok u"
    using assms(1) by (auto simp: insert_blob_def result_simps)
  have "find_blob u c = find_blob t c" if "r \<in> set (mt_revisions t)" "rv_content_id r = Some c" for r c
  proof -
    from assms(2) that obtain b' where "find_blob t c = Some b'"
      using schema_content_exists unfolding index_inv_def by blast
    then show ?thesis by (auto simp: u find_blob_def find_append)
  qed
  then have "fts_exact X u" by - (rule fts_exact_frame [of X t], use assms(2) u in \<open>auto simp: index_inv_def\<close>)
  with assms(2) u show ?thesis by (simp add: index_inv_def canonical_content_def)
qed

lemma index_inv_insert_evidence:
  assumes "insert_evidence lib v sidecars t x = Ok u" "index_inv X t" shows "index_inv X u"
proof -
  have "\<exists>w row. (w = t \<or> (\<exists>kind b. insert_blob kind t b = Ok w))
    \<and> u = w\<lparr>mt_evidence := mt_evidence w @ [row]\<rparr> \<and> memory_schema_ok u
    \<and> ve_excerpt_content_id row \<in> {None, Some (evidence_content_id (ve_evidence_id row))}"
  proof (cases "sidecars (evm_evidence_id (snd x))")
    case None
    with assms(1) show ?thesis unfolding insert_evidence_def
      by (intro exI [of _ t]) (auto simp: result_simps split: option.splits prod.splits)
  next
    case (Some excerpt)
    with assms(1) obtain kind b w source_json where "insert_blob kind t b = Ok w"
      "and_then (ensure (fst x \<le> i64_max) SE_LimitExceeded) (\<lambda>_.
        and_then (case evm_excerpt_hash (snd x) of None \<Rightarrow> Ok None
          | Some hash \<Rightarrow> and_then (digest_bytes hash) (\<lambda>d. Ok (Some d))) (\<lambda>digest.
        run_memory IK_Constraint (w\<lparr>mt_evidence := mt_evidence w @
          [\<lparr>ve_revision_id = mv_revision_id v, ve_ordinal = fst x, ve_evidence_id = evm_evidence_id (snd x),
            ve_source_json = source_json, ve_relation = evm_relation (snd x),
            ve_excerpt_content_id = Some (evidence_content_id (evm_evidence_id (snd x))), ve_excerpt_sha256 = digest,
            ve_erased_by_session_id = None, ve_erased_at = None\<rparr>]\<rparr>))) = Ok u"
      unfolding insert_evidence_def by (cases x) (simp add: and_then_Ok, blast)
    then show ?thesis
      by (intro exI [of _ w]) (auto simp: result_simps split: option.splits)
  qed
  then obtain w row where w: "w = t \<or> (\<exists>kind b. insert_blob kind t b = Ok w)"
    "u = w\<lparr>mt_evidence := mt_evidence w @ [row]\<rparr>" "memory_schema_ok u"
    "ve_excerpt_content_id row \<in> {None, Some (evidence_content_id (ve_evidence_id row))}" by blast
  have "index_inv X w" using w(1) assms(2) index_inv_insert_blob by blast
  moreover from this have "fts_exact X u"
    by - (rule fts_exact_frame [of X w], simp_all add: w(2) find_blob_def index_inv_def)
  ultimately show ?thesis using w(2-4) by (auto simp: index_inv_def canonical_content_def)
qed

lemma index_inv_insert_relation: "insert_relation v t x = Ok u \<Longrightarrow> index_inv X t \<Longrightarrow> index_inv X u"
  by (auto simp: insert_relation_def result_simps split: prod.splits intro: index_inv_frame)

lemma index_inv_fold:
  assumes "try_fold f t xs = Ok u" "index_inv X t" "\<And>t x u. f t x = Ok u \<Longrightarrow> index_inv X t \<Longrightarrow> index_inv X u"
  shows "index_inv X u"
  using assms(1,2) by (induction xs arbitrary: t) (auto simp: and_then_Ok intro: assms(3))

section \<open>Changes of state\<close>

lemma put_state_rows:
  "r \<in> set (mt_revisions (put_state t i s)) \<longleftrightarrow>
     (\<exists>r0 \<in> set (mt_revisions t). rv_revision_id r0 = i \<and> r = r0\<lparr>rv_state := s\<rparr>)
     \<or> r \<in> set (mt_revisions t) \<and> rv_revision_id r \<noteq> i"
  by (auto simp: put_state_def set_set_where)

lemma put_state_state: "r \<in> set (mt_revisions (put_state t i s)) \<Longrightarrow> rv_revision_id r = i \<Longrightarrow> rv_state r = s"
  unfolding put_state_rows by (elim disjE bexE) simp_all

lemma canonical_put_state: "canonical_content t \<Longrightarrow> canonical_content (put_state t i s)"
  unfolding canonical_content_def by (fastforce simp: put_state_rows)

lemma canonical_remove [simp]: "canonical_content (remove_revision_from_fts t i) = canonical_content t"
  by (simp add: canonical_content_def)

lemma fts_of_put_state [simp]:
  "fts_of (put_state t i s) r = fts_of t r" "fts_of t (r\<lparr>rv_state := s\<rparr>) = fts_of t r"
  "fts_of (remove_revision_from_fts t i) r = fts_of t r"
  by (simp_all add: fts_of_def find_blob_def)

text \<open>A revision leaves the index with its state.\<close>

lemma index_leave:
  assumes "index_inv X t" "memory_schema_ok (put_state t i s)" "s \<noteq> Rev_Active"
  shows "index_inv X (remove_revision_from_fts (put_state t i s) i)"
proof -
  let ?u = "remove_revision_from_fts (put_state t i s) i"
  have live: "live_rows X ?u = {r \<in> live_rows X t. rv_revision_id r \<noteq> i}"
    using assms(3) by (auto simp: live_rows_def put_state_rows searchable_def split: if_splits)
  have "set (mt_fts ?u) = {f \<in> fts_of t ` live_rows X t. fts_revision_id f \<noteq> i}"
    using assms(1) by (simp add: remove_revision_from_fts_def index_inv_def fts_exact_def)
  also have "\<dots> = fts_of t ` live_rows X ?u" unfolding live by auto
  finally have "fts_exact X ?u" by (simp add: fts_exact_def)
  with assms show ?thesis
    by (simp add: index_inv_def schema_remove_fts canonical_put_state)
qed

lemma index_silent:
  assumes "index_inv X t" "memory_schema_ok (put_state t i s)" "s \<noteq> Rev_Active"
    "\<And>r. r \<in> set (mt_revisions t) \<Longrightarrow> rv_revision_id r = i \<Longrightarrow> \<not> searchable r"
  shows "index_inv X (put_state t i s)"
proof -
  have "live_rows X (put_state t i s) = live_rows X t"
    using assms(3,4) by (auto simp: live_rows_def put_state_rows searchable_def split: if_splits)
  with assms show ?thesis by (simp add: index_inv_def fts_exact_def canonical_put_state)
qed

lemma not_active_not_searchable: "i \<notin> active_ids t \<Longrightarrow> r \<in> set (mt_revisions t) \<Longrightarrow> rv_revision_id r = i \<Longrightarrow> \<not> searchable r"
  by (auto simp: active_ids_def searchable_def)

text \<open>A revision becomes active, then enters the index.\<close>

lemma index_awake:
  assumes "index_inv {} t" "memory_schema_ok (put_state t i Rev_Active)" "i \<notin> active_ids t"
  shows "index_inv {i} (put_state t i Rev_Active)"
proof -
  have "live_rows {i} (put_state t i Rev_Active) = live_rows {} t"
    using not_active_not_searchable [OF assms(3)] by (auto simp: live_rows_def put_state_rows searchable_def)
  with assms show ?thesis by (simp add: index_inv_def fts_exact_def canonical_put_state)
qed

lemma index_enter:
  assumes "add_revision_to_fts t i = Ok u" "index_inv {i} t" "\<And>r. r \<in> set (mt_revisions t) \<Longrightarrow> rv_revision_id r = i \<Longrightarrow> rv_state r = Rev_Active"
  shows "index_inv {} u"
proof -
  have ok: "memory_schema_ok t" using assms(2) by (simp add: index_inv_def)
  from assms(1) obtain r c b where r: "find_revision t i = Some r" "rv_content_id r = Some c" "find_blob t c = Some b"
    "u = t\<lparr>mt_fts := mt_fts t @ [\<lparr>fts_rowid = rv_search_rowid r, fts_content = bl_content_utf8 b,
             fts_revision_id = i, fts_memory_id = rv_memory_id r\<rparr>]\<rparr>" "memory_schema_ok u"
    by (auto simp: add_revision_to_fts_Ok)
  have row: "r \<in> set (mt_revisions t)" "rv_revision_id r = i" using r(1) by (auto simp: find_revision_iff [OF ok])
  with assms(3) r(2) have "searchable r" by (simp add: searchable_def)
  with row have live: "live_rows {} u = insert r (live_rows {i} t)"
    using schema_unique [OF ok] by (auto simp: live_rows_def r(4))
  have fts: "fts_of u = fts_of t" by (simp add: fun_eq_iff fts_of_def find_blob_def r(4))
  have "fts_of t r = \<lparr>fts_rowid = rv_search_rowid r, fts_content = bl_content_utf8 b,
             fts_revision_id = i, fts_memory_id = rv_memory_id r\<rparr>" using r(2,3) row by (simp add: fts_of_def)
  moreover have "set (mt_fts t) = fts_of t ` live_rows {i} t" using assms(2) by (simp add: index_inv_def fts_exact_def)
  ultimately have "fts_exact {} u" unfolding fts_exact_def live fts by (simp add: r(4))
  with assms(2) r(4,5) show ?thesis by (simp add: index_inv_def canonical_content_def)
qed

lemma deactivate_cases:
  assumes "deactivate_current_revision t m i = Ok u"
  obtains "u = t" | c where "c \<noteq> i" "u = remove_revision_from_fts (put_state t c Rev_Superseded) c"
    "memory_schema_ok (put_state t c Rev_Superseded)"
  using assms by (auto simp: deactivate_current_revision_def result_simps split: option.splits if_splits)

lemma index_deactivate:
  assumes "deactivate_current_revision t m i = Ok u" "index_inv X t" shows "index_inv X u"
  using assms(1) by (cases rule: deactivate_cases) (use assms(2) index_leave in auto)

lemma index_activate:
  assumes "activate_revision t m i True = Ok u" "index_inv {} t" "i \<notin> active_ids t"
  shows "index_inv {} u"
proof -
  from assms(1) obtain t1 t2 t3 where steps: "deactivate_current_revision t m i = Ok t1"
    "set_revision_state t1 i Rev_Active = Ok t2" "add_revision_to_fts t2 i = Ok t3"
    "update_item t3 m (\<lambda>r. r\<lparr>mi_lifecycle := Rev_Active, mi_active_revision_id := Some i\<rparr>) = Ok u"
    by (auto simp: activate_revision_def and_then_Ok)
  have "active_ids t1 \<subseteq> active_ids t" using evolves_deactivate [OF steps(1), of "{}"] by (simp add: evolves_def)
  then have "i \<notin> active_ids t1" using assms(3) by blast
  moreover have t2: "t2 = put_state t1 i Rev_Active" "memory_schema_ok (put_state t1 i Rev_Active)"
    using steps(2) unfolding set_revision_state_Ok by blast+
  ultimately have "index_inv {i} t2"
    using index_awake [OF index_deactivate [OF steps(1) assms(2)]] t2 by blast
  moreover have "rv_state r = Rev_Active" if "r \<in> set (mt_revisions t2)" "rv_revision_id r = i" for r
    using that put_state_state unfolding t2(1) by blast
  ultimately have "index_inv {} t3" using index_enter [OF steps(3)] by blast
  then show ?thesis using steps(4) by (blast intro: index_inv_update_item)
qed

lemma index_projection:
  assumes "apply_revision_projection t m v True = Ok u"
    "index_inv (if mv_status v = Rev_Active then {mv_revision_id v} else {}) t"
    "\<And>r. r \<in> set (mt_revisions t) \<Longrightarrow> rv_revision_id r = mv_revision_id v \<Longrightarrow> rv_state r = mv_status v"
  shows "index_inv {} u"
proof (cases "mv_status v = Rev_Active")
  case True
  with assms(1) obtain t1 t2 f where steps: "deactivate_current_revision t m (mv_revision_id v) = Ok t1"
    "add_revision_to_fts t1 (mv_revision_id v) = Ok t2" "update_item t2 m f = Ok u"
    by (auto simp: apply_revision_projection_def and_then_Ok)
  have "rv_state r = Rev_Active" if "r \<in> set (mt_revisions t1)" "rv_revision_id r = mv_revision_id v" for r
    using steps(1) that assms(3) True by (cases rule: deactivate_cases) (auto simp: put_state_rows)
  then have "index_inv {} t2" using index_enter [OF steps(2)] index_deactivate [OF steps(1)] assms(2) True by auto
  then show ?thesis using steps(3) by (blast intro: index_inv_update_item)
qed (use assms(1,2) in \<open>auto simp: apply_revision_projection_def and_then_Ok intro: index_inv_update_item\<close>)

section \<open>Introducing a revision\<close>

lemma evidence_keeps_revisions: "insert_evidence lib v sidecars t x = Ok u \<Longrightarrow> mt_revisions u = mt_revisions t"
  by (auto simp: insert_evidence_def insert_blob_def result_simps split: option.splits prod.splits)

lemma relation_keeps_revisions: "insert_relation v t x = Ok u \<Longrightarrow> mt_revisions u = mt_revisions t"
  by (auto simp: insert_relation_def result_simps split: prod.splits)

lemma fold_keeps_revisions:
  assumes "try_fold f t xs = Ok u" "\<And>t x u. f t x = Ok u \<Longrightarrow> mt_revisions u = mt_revisions t"
  shows "mt_revisions u = mt_revisions t"
  using assms(1) by (induction xs arbitrary: t) (auto simp: and_then_Ok dest!: assms(2))

lemma index_insert_revision:
  assumes "insert_revision lib t operation v content = Ok u" "index_inv {} t"
  shows "index_inv {} u" "mv_revision_id v \<notin> rv_revision_id ` set (mt_revisions t)"
proof -
  from assms(1) obtain c :: memory_revision_content and json digest t1 t2 t3 t4 where p: "insert_blob IK_MemoryRevision t
       \<lparr>bl_content_id = memory_content_id (mv_revision_id v), bl_content_utf8 = as_bytes (content_str (mrc_content c)),
        bl_content_sha256 = mk_sha256 lib (as_bytes (content_str (mrc_content c))), bl_created_at = mv_created_at v\<rparr> = Ok t1"
    "t2 = t1\<lparr>mt_revisions := mt_revisions t1 @ [revision_row lib t1 operation v json digest]\<rparr>" "memory_schema_ok t2"
    "try_fold (insert_evidence lib v (map_of (rev (map (\<lambda>e. (mec_evidence_id e, mec_excerpt e)) (mrc_evidence c)))))
       t2 (enumerate 0 (mv_evidence v)) = Ok t3"
    "try_fold (insert_relation v) t3 (enumerate 0 (mv_relations v)) = Ok t4"
    "apply_revision_projection t4 (mo_memory_id operation) v True = Ok u"
    by (rule insert_revision_parts) (rule that; assumption)
  let ?X = "if mv_status v = Rev_Active then {mv_revision_id v} else {}"
  let ?row = "revision_row lib t1 operation v json digest"
  have row: "rv_revision_id ?row = mv_revision_id v" "rv_state ?row = mv_status v"
    "rv_content_id ?row = Some (memory_content_id (mv_revision_id v))" by (simp_all add: revision_row_def Let_def)
  have t1: "index_inv {} t1" "mt_revisions t1 = mt_revisions t"
    using index_inv_insert_blob [OF p(1) assms(2)] p(1) by (auto simp: insert_blob_def result_simps)
  have fresh: "mv_revision_id v \<notin> rv_revision_id ` set (mt_revisions t1)"
    using schema_distinct_ids [OF p(3)] by (simp add: p(2) row)
  then show fresh': "mv_revision_id v \<notin> rv_revision_id ` set (mt_revisions t)" by (simp add: t1(2))
  then have other: "rv_revision_id r \<noteq> mv_revision_id v" if "r \<in> set (mt_revisions t1)" for r using that t1(2) by force
  have "live_rows ?X t2 = live_rows {} t1" using other by (auto simp: live_rows_def p(2) row searchable_def)
  moreover have "fts_of t2 = fts_of t1" by (simp add: fun_eq_iff fts_of_def find_blob_def p(2))
  ultimately have "index_inv ?X t2"
    using t1(1) p(3) row by (auto simp: index_inv_def fts_exact_def canonical_content_def p(2))
  then have "index_inv ?X t3" by (rule index_inv_fold [OF p(4)]) (rule index_inv_insert_evidence)
  then have "index_inv ?X t4" by (rule index_inv_fold [OF p(5)]) (rule index_inv_insert_relation)
  moreover have "mt_revisions t4 = mt_revisions t2"
    by (rule trans [OF fold_keeps_revisions [OF p(5)] fold_keeps_revisions [OF p(4)]])
       (erule relation_keeps_revisions evidence_keeps_revisions)+
  moreover have "rv_state r = mv_status v" if "r \<in> set (mt_revisions t2)" "rv_revision_id r = mv_revision_id v" for r
    using that other row by (auto simp: p(2))
  ultimately show "index_inv {} u" by (intro index_projection [OF p(6)]) auto
qed

section \<open>Deletion\<close>

text \<open>The tables between the statements of a deletion.\<close>

definition erased_tables :: "memory_tables \<Rightarrow> memory_id \<Rightarrow> memory_tables" where
  "erased_tables t m =
     (let t1 = erase_renderings t m
      in t1\<lparr>mt_fts := filter (\<lambda>f. fts_memory_id f \<noteq> m) (mt_fts t1),
            mt_evidence := set_where (\<lambda>e. ve_revision_id e \<in> set (revisions_of t m))
              (\<lambda>e. e\<lparr>ve_excerpt_content_id := None, ve_excerpt_sha256 := None\<rparr>) (mt_evidence t1),
            mt_revisions := set_where (\<lambda>r. rv_memory_id r = m) (\<lambda>r. r\<lparr>rv_content_id := None\<rparr>) (mt_revisions t1)\<rparr>)"

lemma erase_renderings_simps [simp]:
  "mt_items (erase_renderings t m) = mt_items t" "mt_blobs (erase_renderings t m) = mt_blobs t"
  "mt_revisions (erase_renderings t m) = mt_revisions t" "mt_evidence (erase_renderings t m) = mt_evidence t"
  "mt_fts (erase_renderings t m) = mt_fts t" "mt_operations (erase_renderings t m) = mt_operations t"
  "mt_generation (erase_renderings t m) = mt_generation t"
  by (simp_all add: erase_renderings_def Let_def)

lemma delete_parts:
  assumes "delete_memory_content t m i = Ok u"
  obtains t5 t6 where "memory_schema_ok (erased_tables t m)"
    "try_fold (\<lambda>t c. run_memory IK_Constraint (delete_blob c t)) (erased_tables t m) (content_ids_of t m) = Ok t5"
    "t6 = put_state t5 i Rev_Deleted" "memory_schema_ok t6"
    "update_item t6 m (\<lambda>r. r\<lparr>mi_lifecycle := Rev_Deleted, mi_active_revision_id := None\<rparr>) = Ok u"
proof -
  let ?t2 = "(erase_renderings t m)\<lparr>mt_fts := filter (\<lambda>f. fts_memory_id f \<noteq> m) (mt_fts (erase_renderings t m))\<rparr>"
  have ids: "content_ids_of ?t2 m = content_ids_of t m" "revisions_of ?t2 m = revisions_of t m"
    by (simp_all add: content_ids_of_def revisions_of_def)
  show ?thesis
    using assms that unfolding delete_memory_content_def Let_def ids
    by (auto simp: and_then_Ok run_memory_Ok set_revision_state_Ok erased_tables_def Let_def)
qed

text \<open>After the references are gone, deleting the blobs of an item touches nothing else.\<close>

lemma set_where_id: "(\<And>r. r \<in> set rows \<Longrightarrow> \<not> p r) \<Longrightarrow> set_where p f rows = rows"
  by (simp add: set_where_def map_idI)

lemma delete_blobs:
  assumes "try_fold (\<lambda>t c. run_memory IK_Constraint (delete_blob c t)) t cs = Ok u" "memory_schema_ok t"
    "\<And>r c. r \<in> set (mt_revisions t) \<Longrightarrow> c \<in> set cs \<Longrightarrow> rv_content_id r \<noteq> Some c"
    "\<And>e c. e \<in> set (mt_evidence t) \<Longrightarrow> c \<in> set cs \<Longrightarrow> ve_excerpt_content_id e \<noteq> Some c"
  shows "u = t\<lparr>mt_blobs := filter (\<lambda>b. bl_content_id b \<notin> set cs) (mt_blobs t)\<rparr> \<and> memory_schema_ok u"
  using assms
proof (induction cs arbitrary: t)
  case (Cons c cs)
  have del: "delete_blob c t = t\<lparr>mt_blobs := filter (\<lambda>b. bl_content_id b \<noteq> c) (mt_blobs t)\<rparr>"
    using Cons.prems(3,4) by (simp add: delete_blob_def set_where_id)
  then obtain "try_fold (\<lambda>t c. run_memory IK_Constraint (delete_blob c t)) (delete_blob c t) cs = Ok u"
    "memory_schema_ok (delete_blob c t)" using Cons.prems(1) by (auto simp: result_simps)
  from Cons.IH [OF this] Cons.prems(3,4) show ?case unfolding del by (fastforce simp: conj_commute)
qed simp

lemma find_SomeD: "find P xs = Some x \<Longrightarrow> x \<in> set xs \<and> P x"
  by (induction xs) (auto split: if_splits)

lemma find_filter: "(\<And>x. P x \<Longrightarrow> Q x) \<Longrightarrow> find P (filter Q xs) = find P xs"
  by (induction xs) auto

lemma content_ids_canonical:
  assumes "canonical_content t" "memory_schema_ok t" "c \<in> set (content_ids_of t m)"
  shows "(\<exists>r \<in> set (mt_revisions t). rv_memory_id r = m \<and> c = memory_content_id (rv_revision_id r))
    \<or> (\<exists>e \<in> set (mt_evidence t). ve_revision_id e \<in> set (revisions_of t m) \<and> c = evidence_content_id (ve_evidence_id e))"
  using assms(1,3) unfolding canonical_content_def content_ids_of_def
  by (fastforce simp: List.map_filter_def)

lemma schema_unique_evidence:
  "memory_schema_ok t \<Longrightarrow> e \<in> set (mt_evidence t) \<Longrightarrow> e' \<in> set (mt_evidence t)
     \<Longrightarrow> ve_evidence_id e = ve_evidence_id e' \<Longrightarrow> e = e'"
  using distinct_map [of ve_evidence_id "mt_evidence t"]
  by (auto simp only: memory_schema_ok_def evidence_ok_def inj_on_def)

text \<open>The blobs of an item are referenced by that item alone.\<close>

lemma content_of_others_kept:
  assumes "canonical_content t" "memory_schema_ok t" "r \<in> set (mt_revisions t)" "rv_memory_id r \<noteq> m" "rv_content_id r = Some c"
  shows "c \<notin> set (content_ids_of t m)"
proof
  assume "c \<in> set (content_ids_of t m)"
  moreover have "c = memory_content_id (rv_revision_id r)" using assms(1,3,5) by (auto simp: canonical_content_def)
  ultimately obtain r' where "r' \<in> set (mt_revisions t)" "rv_memory_id r' = m" "rv_revision_id r' = rv_revision_id r"
    using content_ids_canonical [OF assms(1,2), of c m] by auto
  then show False using schema_unique [OF assms(2), of r' r] assms(3,4) by auto
qed

lemma excerpt_of_others_kept:
  assumes "canonical_content t" "memory_schema_ok t" "e \<in> set (mt_evidence t)" "ve_revision_id e \<notin> set (revisions_of t m)"
    "ve_excerpt_content_id e = Some c"
  shows "c \<notin> set (content_ids_of t m)"
proof
  assume "c \<in> set (content_ids_of t m)"
  moreover have c: "c = evidence_content_id (ve_evidence_id e)" using assms(1,3,5) by (auto simp: canonical_content_def)
  moreover have "evidence_content_id i \<noteq> memory_content_id j" for i j using content_id_not_evidence_id by metis
  ultimately obtain e' where "e' \<in> set (mt_evidence t)" "ve_revision_id e' \<in> set (revisions_of t m)"
    "evidence_content_id (ve_evidence_id e') = evidence_content_id (ve_evidence_id e)"
    using content_ids_canonical [OF assms(1,2), of c m] by auto
  moreover from this(3) have "ve_evidence_id e' = ve_evidence_id e"
    by (cases "ve_evidence_id e'"; cases "ve_evidence_id e") (simp add: evidence_content_id_def)
  ultimately show False using schema_unique_evidence [OF assms(2), of e' e] assms(3,4) by auto
qed

text \<open>The tables after the blobs of the item are deleted.\<close>

lemma deleted_tables:
  assumes "try_fold (\<lambda>t c. run_memory IK_Constraint (delete_blob c t)) (erased_tables t m) (content_ids_of t m) = Ok u"
    "canonical_content t" "memory_schema_ok t" "memory_schema_ok (erased_tables t m)"
  shows "u = (erased_tables t m)\<lparr>mt_blobs := filter (\<lambda>b. bl_content_id b \<notin> set (content_ids_of t m)) (mt_blobs t)\<rparr>"
    "memory_schema_ok u"
proof -
  have "rv_content_id r \<noteq> Some c" if "r \<in> set (mt_revisions (erased_tables t m))" "c \<in> set (content_ids_of t m)" for r c
    using that content_of_others_kept [OF assms(2,3)] by (auto simp: erased_tables_def Let_def set_set_where)
  moreover have "ve_excerpt_content_id e \<noteq> Some c"
    if "e \<in> set (mt_evidence (erased_tables t m))" "c \<in> set (content_ids_of t m)" for e c
    using that excerpt_of_others_kept [OF assms(2,3)] by (auto simp: erased_tables_def Let_def set_set_where)
  ultimately have "u = (erased_tables t m)\<lparr>mt_blobs := filter (\<lambda>b. bl_content_id b \<notin> set (content_ids_of t m))
      (mt_blobs (erased_tables t m))\<rparr> \<and> memory_schema_ok u"
    by (intro delete_blobs [OF assms(1,4)])
  moreover have "mt_blobs (erased_tables t m) = mt_blobs t" by (simp add: erased_tables_def Let_def)
  ultimately show "u = (erased_tables t m)\<lparr>mt_blobs := filter (\<lambda>b. bl_content_id b \<notin> set (content_ids_of t m)) (mt_blobs t)\<rparr>"
    "memory_schema_ok u" by metis+
qed

lemma index_deleted_tables:
  assumes "index_inv {} t" "memory_schema_ok u"
    "u = (erased_tables t m)\<lparr>mt_blobs := filter (\<lambda>b. bl_content_id b \<notin> set (content_ids_of t m)) (mt_blobs t)\<rparr>"
  shows "index_inv {} u"
proof -
  have ok: "memory_schema_ok t" and can: "canonical_content t" and fts: "set (mt_fts t) = fts_of t ` live_rows {} t"
    using assms(1) by (simp_all add: index_inv_def fts_exact_def)
  have rows: "set (mt_revisions u) = (\<lambda>r. r\<lparr>rv_content_id := None\<rparr>) ` {r \<in> set (mt_revisions t). rv_memory_id r = m}
      \<union> {r \<in> set (mt_revisions t). rv_memory_id r \<noteq> m}"
    by (simp add: assms(3) erased_tables_def Let_def set_set_where)
  have live: "live_rows {} u = {r \<in> live_rows {} t. rv_memory_id r \<noteq> m}"
    unfolding live_rows_def rows by (auto simp: searchable_def)
  have same: "fts_of u r = fts_of t r" if r: "r \<in> live_rows {} t" "rv_memory_id r \<noteq> m" for r
  proof -
    from r obtain c where c: "rv_content_id r = Some c" "c \<notin> set (content_ids_of t m)"
      using content_of_others_kept [OF can ok, of r m] by (auto simp: live_rows_def searchable_def)
    then have "find_blob u c = find_blob t c"
      unfolding find_blob_def assms(3) by (auto intro!: find_filter)
    with c show ?thesis by (simp add: fts_of_def)
  qed
  have "set (mt_fts u) = {f \<in> fts_of t ` live_rows {} t. fts_memory_id f \<noteq> m}"
    by (simp add: assms(3) erased_tables_def Let_def fts)
  also have "\<dots> = fts_of t ` live_rows {} u" unfolding live by auto
  also have "\<dots> = fts_of u ` live_rows {} u" by (rule image_cong) (auto simp: live same)
  finally have "fts_exact {} u" by (simp add: fts_exact_def)
  moreover have "canonical_content u"
    using can unfolding canonical_content_def rows
    by (auto simp: assms(3) erased_tables_def Let_def set_set_where)
  ultimately show ?thesis using assms(2) by (simp add: index_inv_def)
qed

lemma index_delete:
  assumes "delete_memory_content t m i = Ok u" "index_inv {} t" "i \<in> set (revisions_of t m)"
  shows "index_inv {} u"
proof -
  from assms(1) obtain t5 t6 where p: "memory_schema_ok (erased_tables t m)"
    "try_fold (\<lambda>t c. run_memory IK_Constraint (delete_blob c t)) (erased_tables t m) (content_ids_of t m) = Ok t5"
    "t6 = put_state t5 i Rev_Deleted" "memory_schema_ok t6"
    "update_item t6 m (\<lambda>r. r\<lparr>mi_lifecycle := Rev_Deleted, mi_active_revision_id := None\<rparr>) = Ok u"
    by (rule delete_parts)
  have ok: "memory_schema_ok t" and can: "canonical_content t" using assms(2) by (simp_all add: index_inv_def)
  note t5 = deleted_tables [OF p(2) can ok p(1)]
  have "\<not> searchable r" if "r \<in> set (mt_revisions t5)" "rv_revision_id r = i" for r
  proof -
    from assms(3) obtain r0 where "r0 \<in> set (mt_revisions t)" "rv_memory_id r0 = m" "rv_revision_id r0 = i"
      by (auto simp: revisions_of_def)
    moreover from that(1) have "rv_content_id r = None \<or> r \<in> set (mt_revisions t) \<and> rv_memory_id r \<noteq> m"
      unfolding t5(1) by (auto simp: erased_tables_def Let_def set_set_where)
    ultimately show ?thesis using that(2) schema_unique [OF ok, of r0 r] by (auto simp: searchable_def)
  qed
  then have "index_inv {} t6"
    unfolding p(3) using index_deleted_tables [OF assms(2) t5(2,1)] p(3,4) by (intro index_silent) auto
  then show ?thesis using p(5) by (blast intro: index_inv_update_item)
qed

section \<open>Batches\<close>

lemma require_state_row:
  assumes "require_revision_state t m i states = Ok ()"
  obtains r where "r \<in> set (mt_revisions t)" "rv_memory_id r = m" "rv_revision_id r = i" "rv_state r \<in> set states"
  using assms by (auto simp: require_revision_state_def split: option.splits dest!: find_SomeD)

lemma require_state_inactive:
  assumes "require_revision_state t m i states = Ok ()" "memory_schema_ok t" "Rev_Active \<notin> set states"
  shows "i \<notin> active_ids t"
proof
  assume "i \<in> active_ids t"
  then obtain r where "r \<in> set (mt_revisions t)" "rv_revision_id r = i" "rv_state r = Rev_Active"
    by (auto simp: active_ids_def)
  with require_state_row [OF assms(1)] assms(3) schema_unique [OF assms(2)] show False by metis
qed

lemma index_set_state:
  assumes "set_revision_state t i s = Ok u" "index_inv {} t" "s \<noteq> Rev_Active" "i \<notin> active_ids t"
  shows "index_inv {} u"
  using assms index_silent not_active_not_searchable unfolding set_revision_state_Ok by metis

lemma index_payload:
  assumes "apply_memory_payload lib False t entry m p = Ok u" "index_inv {} t"
  shows "index_inv {} u"
proof -
  have ok: "memory_schema_ok t" using assms(2) by (simp add: index_inv_def)
  show ?thesis
  proof (cases p)
    case (ProposalApproved proposal v)
    with assms(1) obtain w where w: "require_revision_state t m proposal [Rev_Proposed] = Ok ()"
      "insert_revision lib t (mao_operation entry) v (mao_content entry) = Ok w"
      "set_revision_state w proposal Rev_Superseded = Ok u" by (auto simp: introduce_def and_then_Ok)
    have "proposal \<noteq> mv_revision_id v"
      using require_state_row [OF w(1)] index_insert_revision(2) [OF w(2) assms(2)] by (metis imageI)
    then have "proposal \<notin> active_ids w"
      using require_state_inactive [OF w(1) ok] evolves_insert_revision(1) [OF w(2)]
      by (auto simp: evolves_def split: if_splits)
    then show ?thesis using index_set_state [OF w(3) index_insert_revision(1) [OF w(2) assms(2)]] by simp
  next
    case (RevisionValidated i v)
    with assms show ?thesis
      by (auto simp: record_validation_def result_simps intro: index_inv_frame)
  next
    case (RevisionActivated i)
    with assms(1) have "require_revision_state t m i [Rev_Proposed] = Ok ()" "activate_revision t m i True = Ok u"
      by (auto simp: and_then_Ok)
    with index_activate [OF _ assms(2)] require_state_inactive [OF _ ok] show ?thesis by simp
  next
    case (RevisionSuperseded i j)
    with assms show ?thesis
      by (auto simp: and_then_Ok set_revision_state_Ok intro!: index_leave)
  next
    case (RevisionRejected i reason)
    with assms(1) obtain w where w: "require_revision_state t m i [Rev_Proposed] = Ok ()"
      "set_revision_state t i Rev_Rejected = Ok w" "update_item_from_revision w m i = Ok u" by (auto simp: and_then_Ok)
    then show ?thesis
      using index_set_state [OF w(2) assms(2)] require_state_inactive [OF w(1) ok]
      by (auto simp: update_item_from_revision_def split: option.splits intro: index_inv_update_item)
  next
    case (MemoryRetracted i)
    with assms(1) obtain f where "memory_schema_ok (put_state t i Rev_Retracted)"
      "update_item (remove_revision_from_fts (put_state t i Rev_Retracted) i) m f = Ok u"
      by (auto simp: and_then_Ok set_revision_state_Ok)
    with index_leave [OF assms(2)] show ?thesis by (blast intro: index_inv_update_item)
  next
    case (MemoryDeleted i)
    with assms(1) have "require_revision_state t m i [Rev_Proposed, Rev_Active, Rev_Rejected, Rev_Retracted] = Ok ()"
      "delete_memory_content t m i = Ok u" by (auto simp: and_then_Ok)
    moreover from require_state_row [OF this(1)] have "i \<in> set (revisions_of t m)" by (auto simp: revisions_of_def)
    ultimately show ?thesis using index_delete [OF _ assms(2)] by blast
  qed (use assms index_insert_revision(1) in \<open>auto simp: introduce_def\<close>)
qed

lemma index_entry:
  assumes "append_entry lib t e = Ok u" "index_inv {} t" shows "index_inv {} u"
proof -
  obtain entry enc where e: "e = (entry, enc)" by (cases e)
  from assms(1) obtain t1 t2 f where steps: "insert_operation t (mao_operation entry) enc = Ok t1"
    "apply_memory_payload lib False t1 entry (mo_memory_id (mao_operation entry)) (mo_payload (mao_operation entry)) = Ok t2"
    "update_item t2 (mo_memory_id (mao_operation entry)) f = Ok u"
    unfolding e by (auto simp: append_entry_def apply_operation_def Let_def and_then_Ok)
  have "index_inv {} t1"
    using steps(1) assms(2) by (auto simp: insert_operation_def result_simps intro: index_inv_frame)
  then show ?thesis using index_payload [OF steps(2)] index_inv_update_item [OF steps(3)] by blast
qed

lemma index_counters:
  "index_inv X (t\<lparr>mt_generation := g, mt_mutation_generation := n, mt_state_updated_at := a\<rparr>) \<longleftrightarrow> index_inv X t"
proof -
  let ?u = "t\<lparr>mt_generation := g, mt_mutation_generation := n, mt_state_updated_at := a\<rparr>"
  have ex: "item_exists ?u = item_exists t" "operation_exists ?u = operation_exists t"
    "revision_exists ?u = revision_exists t" "blob_exists ?u = blob_exists t"
    by (simp_all add: fun_eq_iff item_exists_def operation_exists_def revision_exists_def blob_exists_def)
  have "revision_row_ok ?u = revision_row_ok t" by (rule ext) (simp add: revision_row_ok_def ex)
  with ex have "memory_schema_ok ?u = memory_schema_ok t"
    by (simp add: memory_schema_ok_def items_ok_def blobs_ok_def operations_ok_def revisions_ok_def evidence_ok_def
        relations_ok_def validations_ok_def fts_ok_def)
  moreover have "fts_of ?u = fts_of t" by (simp add: fun_eq_iff fts_of_def find_blob_def)
  ultimately show ?thesis by (simp add: index_inv_def canonical_content_def fts_exact_def live_rows_def)
qed

lemma append_index:
  assumes "append_memory_batch lib t request = (r, u)" "index_inv {} t" shows "index_inv {} u"
  using assms(1)
proof (cases rule: append_cases)
  case (2 receipt es)
  from 2(5) obtain t1 t2 where parts:
    "(if is_created (mo_payload (mao_operation (hd (mab_operations request))))
      then insert_memory_item_shell t (mao_operation (hd (mab_operations request))) else Ok t) = Ok t1"
    "try_fold (append_entry lib) t1 es = Ok t2"
    "u = t2\<lparr>mt_generation := mar_generation receipt, mt_mutation_generation := mt_mutation_generation t2 + 1,
            mt_state_updated_at := mo_occurred_at (mao_operation (last (mab_operations request)))\<rparr>"
    by (rule commit_parts) (rule that; assumption)
  have "index_inv {} t1"
    using parts(1) assms(2)
    by (auto simp: insert_memory_item_shell_def result_simps split: if_splits memory_operation_payload.splits
        intro: index_inv_frame)
  then have "index_inv {} t2" by (rule index_inv_fold [OF parts(2)]) (rule index_entry)
  then show ?thesis by (simp add: parts(3) index_counters)
qed (use assms(2) in simp)

lemma index_inv_empty: "index_inv {} empty_memory_tables"
  using memory_schema_ok_empty
  by (simp add: index_inv_def canonical_content_def fts_exact_def live_rows_def empty_memory_tables_def)

end
