(* ===== verification/Memory_History.thy ===== *)
theory Memory_History
  imports Memory_Index
begin

text \<open>
  The history of a memory item: a batch appends its operations to the ledger and changes no other item,
  the counters move with the active heads, and reading page by page returns the whole history.
\<close>

section \<open>What a batch leaves alone\<close>

definition within_item :: "memory_id \<Rightarrow> memory_tables \<Rightarrow> memory_tables \<Rightarrow> bool" where
  "within_item m t u \<longleftrightarrow>
     mt_operations u = mt_operations t \<and> mt_generation u = mt_generation t
     \<and> mt_mutation_generation u = mt_mutation_generation t
     \<and> (\<forall>m'. m' \<noteq> m \<longrightarrow> find_item u m' = find_item t m')"

lemma within_refl [simp]: "within_item m t t"
  by (simp add: within_item_def)

lemma within_trans: "within_item m t u \<Longrightarrow> within_item m u w \<Longrightarrow> within_item m t w"
  by (simp add: within_item_def)

lemma within_fold:
  assumes "try_fold f t xs = Ok u" "\<And>t x u. f t x = Ok u \<Longrightarrow> within_item m t u" shows "within_item m t u"
  using assms(1) by (induction xs arbitrary: t) (auto simp: and_then_Ok dest!: assms(2) intro: within_trans)

lemma within_same:
  "mt_operations u = mt_operations t \<Longrightarrow> mt_generation u = mt_generation t
     \<Longrightarrow> mt_mutation_generation u = mt_mutation_generation t \<Longrightarrow> mt_items u = mt_items t \<Longrightarrow> within_item m t u"
  by (simp add: within_item_def find_item_def)

lemma find_set_where_other:
  "(\<And>r. mi_memory_id (f r) = mi_memory_id r) \<Longrightarrow> m' \<noteq> m
     \<Longrightarrow> find (\<lambda>r. mi_memory_id r = m') (set_where (\<lambda>r. mi_memory_id r = m) f rows) = find (\<lambda>r. mi_memory_id r = m') rows"
  by (induction rows) (auto simp: set_where_def)

lemma within_update_item:
  assumes "update_item t m f = Ok u" "\<And>r. mi_memory_id (f r) = mi_memory_id r" shows "within_item m t u"
  using assms by (auto simp: update_item_Ok within_item_def find_item_def find_set_where_other)

lemma within_put_state [simp]: "within_item m t (put_state t i s)"
  by (rule within_same) (simp_all add: put_state_def)

lemma within_remove_fts [simp]: "within_item m t (remove_revision_from_fts t i)"
  by (rule within_same) (simp_all add: remove_revision_from_fts_def)

lemma within_set_state: "set_revision_state t i s = Ok u \<Longrightarrow> within_item m t u"
  by (simp add: set_revision_state_Ok)

lemma within_add_fts: "add_revision_to_fts t i = Ok u \<Longrightarrow> within_item m t u"
  by (auto simp: add_revision_to_fts_Ok intro!: within_same)

lemma within_deactivate: "deactivate_current_revision t m i = Ok u \<Longrightarrow> within_item m' t u"
  by (erule deactivate_cases) (auto intro: within_trans [OF within_put_state within_remove_fts])

lemma within_activate:
  assumes "activate_revision t m i maintain = Ok u" shows "within_item m t u"
proof -
  from assms obtain t1 t2 t3 where steps: "deactivate_current_revision t m i = Ok t1"
    "set_revision_state t1 i Rev_Active = Ok t2" "(if maintain then add_revision_to_fts t2 i else Ok t2) = Ok t3"
    "update_item t3 m (\<lambda>r. r\<lparr>mi_lifecycle := Rev_Active, mi_active_revision_id := Some i\<rparr>) = Ok u"
    by (auto simp: activate_revision_def and_then_Ok)
  have "within_item m t2 t3" using steps(3) by (auto split: if_splits intro: within_add_fts)
  moreover have "within_item m t3 u" by (rule within_update_item [OF steps(4)]) simp
  ultimately show ?thesis using within_deactivate [OF steps(1)] within_set_state [OF steps(2)] by (meson within_trans)
qed

lemma within_projection:
  assumes "apply_revision_projection t m v maintain = Ok u" shows "within_item m t u"
proof -
  obtain t1 t2 f where steps: "t1 = t \<or> deactivate_current_revision t m (mv_revision_id v) = Ok t1"
    "t2 = t1 \<or> add_revision_to_fts t1 (mv_revision_id v) = Ok t2" "update_item t2 m f = Ok u"
    "\<And>r. mi_memory_id (f r) = mi_memory_id r"
  proof (cases "mv_status v = Rev_Active")
    case True
    with assms that show ?thesis by (fastforce simp: apply_revision_projection_def and_then_Ok split: if_splits)
  next
    case False
    with assms that [of t t] show ?thesis by (auto simp: apply_revision_projection_def and_then_Ok)
  qed
  have "within_item m t t1" using steps(1) within_deactivate by auto
  moreover have "within_item m t1 t2" using steps(2) within_add_fts by auto
  ultimately show ?thesis using within_update_item [OF steps(3,4)] by (meson within_trans)
qed

lemma within_insert_revision:
  assumes "insert_revision lib t operation v content = Ok u" shows "within_item (mo_memory_id operation) t u"
proof -
  let ?m = "mo_memory_id operation"
  from assms obtain c :: memory_revision_content and json digest t1 t2 t3 t4 where p: "insert_blob IK_MemoryRevision t
       \<lparr>bl_content_id = memory_content_id (mv_revision_id v), bl_content_utf8 = as_bytes (content_str (mrc_content c)),
        bl_content_sha256 = mk_sha256 lib (as_bytes (content_str (mrc_content c))), bl_created_at = mv_created_at v\<rparr> = Ok t1"
    "t2 = t1\<lparr>mt_revisions := mt_revisions t1 @ [revision_row lib t1 operation v json digest]\<rparr>"
    "try_fold (insert_evidence lib v (map_of (rev (map (\<lambda>e. (mec_evidence_id e, mec_excerpt e)) (mrc_evidence c)))))
       t2 (enumerate 0 (mv_evidence v)) = Ok t3"
    "try_fold (insert_relation v) t3 (enumerate 0 (mv_relations v)) = Ok t4"
    "apply_revision_projection t4 ?m v True = Ok u"
    by (rule insert_revision_parts) (rule that; assumption)
  have "within_item ?m t t2" using p(1,2) by (auto simp: insert_blob_def result_simps intro!: within_same)
  moreover have "within_item ?m t2 t3"
    by (rule within_fold [OF p(3)])
       (auto simp: insert_evidence_def insert_blob_def result_simps split: option.splits prod.splits intro!: within_same)
  moreover have "within_item ?m t3 t4"
    by (rule within_fold [OF p(4)]) (auto simp: insert_relation_def result_simps split: prod.splits intro!: within_same)
  ultimately show ?thesis using within_projection [OF p(5)] by (meson within_trans)
qed

lemma within_delete:
  assumes "delete_memory_content t m i = Ok u" shows "within_item m t u"
proof -
  from assms obtain t5 t6 where p: "memory_schema_ok (erased_tables t m)"
    "try_fold (\<lambda>t c. run_memory IK_Constraint (delete_blob c t)) (erased_tables t m) (content_ids_of t m) = Ok t5"
    "t6 = put_state t5 i Rev_Deleted" "memory_schema_ok t6"
    "update_item t6 m (\<lambda>r. r\<lparr>mi_lifecycle := Rev_Deleted, mi_active_revision_id := None\<rparr>) = Ok u"
    by (rule delete_parts)
  have "within_item m t (erased_tables t m)"
    by (rule within_same) (simp_all add: erased_tables_def erase_renderings_def Let_def)
  moreover have "within_item m (erased_tables t m) t5"
    by (rule within_fold [OF p(2)]) (auto simp: result_simps delete_blob_def intro!: within_same)
  moreover have "within_item m t6 u" by (rule within_update_item [OF p(5)]) simp
  ultimately show ?thesis unfolding p(3) by (meson within_put_state within_trans)
qed

lemma within_payload:
  assumes "apply_memory_payload lib False t entry (mo_memory_id (mao_operation entry)) p = Ok u"
  shows "within_item (mo_memory_id (mao_operation entry)) t u"
proof (cases p)
  case (ProposalApproved proposal v)
  with assms show ?thesis
    by (auto simp: introduce_def and_then_Ok intro: within_trans dest!: within_insert_revision
        within_set_state [where m = "mo_memory_id (mao_operation entry)"])
next
  case (RevisionValidated i v)
  with assms show ?thesis by (auto simp: record_validation_def result_simps intro!: within_same)
next
  case (RevisionSuperseded i j)
  with assms show ?thesis
    by (auto simp: and_then_Ok intro!: within_trans [OF within_set_state within_remove_fts])
next
  case (RevisionRejected i reason)
  with assms show ?thesis
    by (auto simp: and_then_Ok update_item_from_revision_def split: option.splits
        intro: within_trans [OF within_set_state within_update_item])
next
  case (MemoryRetracted i)
  with assms show ?thesis
    by (auto simp: and_then_Ok intro: within_trans [OF within_trans [OF within_set_state within_remove_fts] within_update_item])
qed (use assms in \<open>auto simp: introduce_def and_then_Ok intro: within_insert_revision within_activate within_delete\<close>)

text \<open>The row that an operation adds to the ledger.\<close>

definition operation_row :: "memory_operation \<Rightarrow> encoded_memory_operation \<Rightarrow> memory_operation_row" where
  "operation_row operation enc =
     \<lparr>or_operation_id = mo_operation_id operation, or_memory_id = mo_memory_id operation,
      or_sequence = mo_sequence operation, or_schema_version = mo_schema_version operation,
      or_operation_kind = operation_kind (mo_payload operation),
      or_revision_id = payload_revision_id (mo_payload operation),
      or_caused_by_command_id = (case mo_causation operation of Mem_Cause_Command c \<Rightarrow> Some c | _ \<Rightarrow> None),
      or_caused_by_operation_id = (case mo_causation operation of Mem_Cause_Operation c \<Rightarrow> Some c | _ \<Rightarrow> None),
      or_correlation_id = mo_correlation_id operation, or_occurred_at = mo_occurred_at operation,
      or_envelope_json = emo_envelope_json enc, or_operation_sha256 = emo_operation_hash enc\<rparr>"

definition row_of :: "memory_append_operation \<times> encoded_memory_operation \<Rightarrow> memory_operation_row" where
  "row_of e = operation_row (mao_operation (fst e)) (snd e)"

lemma entry_effect:
  assumes "append_entry lib t e = Ok u" "mo_memory_id (mao_operation (fst e)) = m"
  shows "mt_operations u = mt_operations t @ [row_of e]" "within_item m (t\<lparr>mt_operations := mt_operations t @ [row_of e]\<rparr>) u"
    "mo_sequence (mao_operation (fst e)) \<le> i64_max"
proof -
  obtain entry enc where e: "e = (entry, enc)" by (cases e)
  from assms(1) obtain t1 t2 where steps: "insert_operation t (mao_operation entry) enc = Ok t1"
    "apply_memory_payload lib False t1 entry (mo_memory_id (mao_operation entry)) (mo_payload (mao_operation entry)) = Ok t2"
    "update_item t2 (mo_memory_id (mao_operation entry))
       (\<lambda>r. r\<lparr>mi_last_sequence := mo_sequence (mao_operation entry), mi_updated_at := mo_occurred_at (mao_operation entry)\<rparr>) = Ok u"
    unfolding e by (auto simp: append_entry_def apply_operation_def Let_def and_then_Ok)
  from steps(1) have t1: "t1 = t\<lparr>mt_operations := mt_operations t @ [row_of e]\<rparr>"
    by (auto simp: insert_operation_def result_simps operation_row_def row_of_def e)
  from steps(1) show "mo_sequence (mao_operation (fst e)) \<le> i64_max"
    by (auto simp: insert_operation_def sql_sequence_def result_simps e)
  have m: "mo_memory_id (mao_operation entry) = m" using assms(2) by (simp add: e)
  have "within_item m t2 u" using within_update_item [OF steps(3)] m by simp
  then show "within_item m (t\<lparr>mt_operations := mt_operations t @ [row_of e]\<rparr>) u"
    using within_payload [OF steps(2)] assms(2) within_trans unfolding t1 by (auto simp: e)
  then show "mt_operations u = mt_operations t @ [row_of e]" by (simp add: within_item_def)
qed

lemma batch_effect:
  assumes "try_fold (append_entry lib) t es = Ok u" "\<And>e. e \<in> set es \<Longrightarrow> mo_memory_id (mao_operation (fst e)) = m"
  shows "mt_operations u = mt_operations t @ map row_of es" "mt_generation u = mt_generation t"
    "mt_mutation_generation u = mt_mutation_generation t" "m' \<noteq> m \<Longrightarrow> find_item u m' = find_item t m'"
    "e \<in> set es \<Longrightarrow> mo_sequence (mao_operation (fst e)) \<le> i64_max"
proof -
  have "mt_operations u = mt_operations t @ map row_of es \<and> mt_generation u = mt_generation t
     \<and> mt_mutation_generation u = mt_mutation_generation t \<and> (\<forall>m'. m' \<noteq> m \<longrightarrow> find_item u m' = find_item t m')
     \<and> (\<forall>e \<in> set es. mo_sequence (mao_operation (fst e)) \<le> i64_max)"
    using assms
  proof (induction es arbitrary: t)
    case (Cons e es)
    then obtain w where w: "append_entry lib t e = Ok w" "try_fold (append_entry lib) w es = Ok u"
      by (auto simp: and_then_Ok)
    have "mo_memory_id (mao_operation (fst e)) = m" using Cons.prems(2) by simp
    note effect = entry_effect [OF w(1) this]
    have "mt_generation w = mt_generation t \<and> mt_mutation_generation w = mt_mutation_generation t
      \<and> (\<forall>m'. m' \<noteq> m \<longrightarrow> find_item w m' = find_item t m')"
      using effect(2) by (simp add: within_item_def find_item_def)
    with Cons.IH [OF w(2)] Cons.prems(2) effect show ?case by simp
  qed simp
  then show "mt_operations u = mt_operations t @ map row_of es" "mt_generation u = mt_generation t"
    "mt_mutation_generation u = mt_mutation_generation t" "m' \<noteq> m \<Longrightarrow> find_item u m' = find_item t m'"
    "e \<in> set es \<Longrightarrow> mo_sequence (mao_operation (fst e)) \<le> i64_max" by auto
qed

section \<open>What a batch is\<close>

lemma encode_batch_facts:
  assumes "encode_batch lib first preceding commands expected es = Ok encs"
  shows "length encs = length es" "list_all (\<lambda>e. mo_memory_id (mao_operation e) = mo_memory_id first) es"
    "map (mo_sequence \<circ> mao_operation) es = [expected ..< expected + length es]"
    "list_all2 (\<lambda>e enc. mk_operation_json lib (mao_operation e) = Some (emo_envelope_json enc)
       \<and> emo_operation_hash enc = mk_sha256 lib (emo_envelope_json enc)) es encs"
proof -
  have "length encs = length es \<and> list_all (\<lambda>e. mo_memory_id (mao_operation e) = mo_memory_id first) es
    \<and> map (mo_sequence \<circ> mao_operation) es = [expected ..< expected + length es]
    \<and> list_all2 (\<lambda>e enc. mk_operation_json lib (mao_operation e) = Some (emo_envelope_json enc)
       \<and> emo_operation_hash enc = mk_sha256 lib (emo_envelope_json enc)) es encs"
    using assms
  proof (induction es arbitrary: preceding commands expected encs)
    case (Cons e es)
    from Cons.prems obtain commands' enc rest where step: "mo_memory_id (mao_operation e) = mo_memory_id first"
      "mo_sequence (mao_operation e) = expected" "encode_and_validate lib (expected - 1) e = Ok enc"
      "encode_batch lib first (mo_operation_id (mao_operation e) # preceding) commands' (expected + 1) es = Ok rest"
      "encs = enc # rest"
      by (auto simp: result_simps Let_def checked_add_u64_def split: if_splits)
    from Cons.IH [OF step(4)] step show ?case
      by (auto simp: encode_and_validate_def result_simps Let_def upt_conv_Cons simp del: upt_Suc)
  qed simp
  then show "length encs = length es" "list_all (\<lambda>e. mo_memory_id (mao_operation e) = mo_memory_id first) es"
    "map (mo_sequence \<circ> mao_operation) es = [expected ..< expected + length es]"
    "list_all2 (\<lambda>e enc. mk_operation_json lib (mao_operation e) = Some (emo_envelope_json enc)
       \<and> emo_operation_hash enc = mk_sha256 lib (emo_envelope_json enc)) es encs" by blast+
qed

lemma committed_transaction:
  assumes "append_memory_batch lib t request = (Ok receipt, u)" "mar_disposition receipt = Committed"
  obtains encoded where "encode_and_validate_batch lib request = Ok encoded"
    "commit_new lib t request (zip (mab_operations request) encoded) (mao_operation (hd (mab_operations request)))
       (mao_operation (last (mab_operations request))) = Ok (receipt, u)"
proof -
  have "append_batch_transaction lib t request = Ok (receipt, u)"
    using assms(1) by (auto simp: append_memory_batch_def split: result.splits prod.splits)
  then show ?thesis
    using that assms(2) by (auto simp: append_batch_transaction_def and_then_Ok Let_def split: if_splits)
qed

lemma within_shell:
  "(if c then insert_memory_item_shell t first else Ok t) = Ok u \<Longrightarrow> within_item (mo_memory_id first) t u"
  by (auto simp: insert_memory_item_shell_def result_simps within_item_def find_item_def find_append
      split: if_splits memory_operation_payload.splits option.splits)

lemma encoded_batch:
  assumes "encode_and_validate_batch lib request = Ok encoded" "m = mo_memory_id (mao_operation (hd (mab_operations request)))"
  shows "mab_operations request \<noteq> []" "length encoded = length (mab_operations request)"
    "\<And>e. e \<in> set (mab_operations request) \<Longrightarrow> mo_memory_id (mao_operation e) = m"
    "map (mo_sequence \<circ> mao_operation) (mab_operations request)
       = [mab_expected_last_sequence request + 1 ..< mab_expected_last_sequence request + 1 + length (mab_operations request)]"
    "list_all2 (\<lambda>e enc. mk_operation_json lib (mao_operation e) = Some (emo_envelope_json enc)
       \<and> emo_operation_hash enc = mk_sha256 lib (emo_envelope_json enc)) (mab_operations request) encoded"
proof -
  from assms(1) have ne: "mab_operations request \<noteq> []" and
    batch: "encode_batch lib (mao_operation (hd (mab_operations request))) [] [] (mab_expected_last_sequence request + 1)
      (mab_operations request) = Ok encoded"
    by (auto simp: encode_and_validate_batch_def and_then_Ok checked_add_u64_def simp del: encode_batch.simps
        split: list.splits if_splits)
  note facts = encode_batch_facts [OF batch]
  show "mab_operations request \<noteq> []" by (fact ne)
  show "length encoded = length (mab_operations request)" by (fact facts(1))
  show "mo_memory_id (mao_operation e) = m" if "e \<in> set (mab_operations request)" for e
    using facts(2) that assms(2) by (simp add: list_all_iff)
  show "map (mo_sequence \<circ> mao_operation) (mab_operations request)
       = [mab_expected_last_sequence request + 1 ..< mab_expected_last_sequence request + 1 + length (mab_operations request)]"
    by (fact facts(3))
  show "list_all2 (\<lambda>e enc. mk_operation_json lib (mao_operation e) = Some (emo_envelope_json enc)
       \<and> emo_operation_hash enc = mk_sha256 lib (emo_envelope_json enc)) (mab_operations request) encoded"
    by (fact facts(4))
qed

text \<open>A committed append, with what it wrote.\<close>

lemma committed_append:
  assumes "append_memory_batch lib t request = (Ok receipt, u)" "mar_disposition receipt = Committed"
    "m = mo_memory_id (mao_operation (hd (mab_operations request)))"
  obtains rows where
    "mt_operations u = mt_operations t @ rows"
    "map or_sequence rows = map (mo_sequence \<circ> mao_operation) (mab_operations request)"
    "map or_sequence rows = [mab_expected_last_sequence request + 1 ..< mab_expected_last_sequence request + 1 + length rows]"
    "list_all2 (\<lambda>r e. or_memory_id r = m \<and> mo_memory_id (mao_operation e) = m
       \<and> or_sequence r \<le> i64_max
       \<and> mk_operation_json lib (mao_operation e) = Some (or_envelope_json r)
       \<and> or_operation_sha256 r = mk_sha256 lib (or_envelope_json r)) rows (mab_operations request)"
    "\<And>m'. m' \<noteq> m \<Longrightarrow> find_item u m' = find_item t m'"
    "mt_mutation_generation u = mt_mutation_generation t + 1"
    "mt_generation u = mt_generation t + (if current_active_revision u m = current_active_revision t m then 0 else 1)"
    "mar_generation receipt = mt_generation u" "mar_mutation_generation receipt = mt_mutation_generation u"
    "mab_operations request \<noteq> []"
proof -
  from assms(1,2) obtain encoded where tr: "encode_and_validate_batch lib request = Ok encoded"
    "commit_new lib t request (zip (mab_operations request) encoded) (mao_operation (hd (mab_operations request)))
       (mao_operation (last (mab_operations request))) = Ok (receipt, u)" by (rule committed_transaction)
  let ?ops = "mab_operations request"
  let ?es = "zip ?ops encoded" and ?first = "mao_operation (hd ?ops)"
  note enc = encoded_batch [OF tr(1) assms(3)]
  from tr(2) obtain t1 t2 where parts:
    "(if is_created (mo_payload ?first) then insert_memory_item_shell t ?first else Ok t) = Ok t1"
    "try_fold (append_entry lib) t1 ?es = Ok t2"
    "u = t2\<lparr>mt_generation := mar_generation receipt, mt_mutation_generation := mt_mutation_generation t2 + 1,
            mt_state_updated_at := mo_occurred_at (mao_operation (last ?ops))\<rparr>"
    "mar_generation receipt = (if current_active_revision t2 (mo_memory_id ?first)
       = current_active_revision t (mo_memory_id ?first) then mt_generation t2 else mt_generation t2 + 1)"
    "mar_mutation_generation receipt = mt_mutation_generation t2 + 1"
    by (rule commit_parts)
  have members: "mo_memory_id (mao_operation (fst e)) = m" if "e \<in> set ?es" for e
    using that enc(3) by (metis in_set_zipE prod.collapse)
  note effect = batch_effect [OF parts(2) members]
  have shell: "within_item m t t1" using within_shell [OF parts(1)] assms(3) by simp
  have heads: "current_active_revision u m = current_active_revision t2 m"
    by (simp add: parts(3) current_active_revision_def find_item_def)
  show ?thesis
  proof (rule that [of "map row_of ?es"])
    show "mt_operations u = mt_operations t @ map row_of ?es"
      using effect(1) shell by (simp add: parts(3) within_item_def)
    show seqs: "map or_sequence (map row_of ?es) = map (mo_sequence \<circ> mao_operation) ?ops"
      by (rule nth_equalityI) (simp_all add: row_of_def operation_row_def enc(2))
    show "map or_sequence (map row_of ?es)
        = [mab_expected_last_sequence request + 1 ..< mab_expected_last_sequence request + 1 + length (map row_of ?es)]"
      unfolding seqs enc(4) using enc(2) by simp
    show "list_all2 (\<lambda>r e. or_memory_id r = m \<and> mo_memory_id (mao_operation e) = m \<and> or_sequence r \<le> i64_max
       \<and> mk_operation_json lib (mao_operation e) = Some (or_envelope_json r)
       \<and> or_operation_sha256 r = mk_sha256 lib (or_envelope_json r)) (map row_of ?es) ?ops"
      unfolding list_all2_conv_all_nth
    proof (intro conjI allI impI)
      fix k assume "k < length (map row_of ?es)"
      then have k: "k < length ?ops" "k < length encoded" and inn: "(?ops ! k, encoded ! k) \<in> set ?es"
        using enc(2) by (auto simp: in_set_zip)
      show "or_memory_id (map row_of ?es ! k) = m" "mo_memory_id (mao_operation (?ops ! k)) = m"
        "or_sequence (map row_of ?es ! k) \<le> i64_max"
        using members [OF inn] effect(5) [OF _ inn] members k by (simp_all add: row_of_def operation_row_def)
      show "mk_operation_json lib (mao_operation (?ops ! k)) = Some (or_envelope_json (map row_of ?es ! k))"
        "or_operation_sha256 (map row_of ?es ! k) = mk_sha256 lib (or_envelope_json (map row_of ?es ! k))"
        using list_all2_nthD [OF enc(5) k(1)] k by (simp_all add: row_of_def operation_row_def)
    qed (use enc(2) in simp)
    show "find_item u m' = find_item t m'" if "m' \<noteq> m" for m'
      using effect(4) [OF _ that] members shell that by (simp add: parts(3) within_item_def find_item_def)
    show "mt_mutation_generation u = mt_mutation_generation t + 1"
      using effect(3) shell members by (simp add: parts(3) within_item_def)
    show "mt_generation u = mt_generation t + (if current_active_revision u m = current_active_revision t m then 0 else 1)"
      unfolding heads using effect(2) shell members parts(4) assms(3) by (simp add: parts(3) within_item_def)
  qed (use parts(3,5) enc(1) in simp_all)
qed

section \<open>Reading page by page\<close>

lemma check_operations_append:
  "check_operations lib m e (xs @ ys) = Ok ops \<longleftrightarrow>
     (\<exists>as bs. check_operations lib m e xs = Ok as \<and> check_operations lib m (e + length xs) ys = Ok bs \<and> ops = as @ bs)"
proof (induction xs arbitrary: e ops)
  case (Cons r xs)
  have following: "ok_or (checked_add_u64 e 1) SE_SequenceOutOfRange = Ok f \<longleftrightarrow> f = e + 1 \<and> e + 1 \<le> u64_max" for f
    by (auto simp: checked_add_u64_def)
  show ?case
    by (simp only: append_Cons check_operations.simps and_then_Ok following Cons.IH length_Cons) auto
qed simp

lemma sorted_rows:
  assumes "memory_schema_ok t" "check_operations lib m (after + 1) (take n (sort_key or_sequence (rows_after t m after))) = Ok ops"
    "length ops = n"
  shows "sort_key or_sequence (rows_after t m (after + n)) = drop n (sort_key or_sequence (rows_after t m after))"
proof -
  let ?rows = "sort_key or_sequence (rows_after t m after)"
  have seqs: "map or_sequence (take n ?rows) = [after + 1 ..< after + 1 + length (take n ?rows)]"
    and len: "length (take n ?rows) = n"
    using check_operations_sequences [OF assms(2)] assms(3) by (auto dest: map_eq_imp_length_eq)
  have "distinct (map (\<lambda>r. (or_memory_id r, or_sequence r)) (mt_operations t))"
    using assms(1) by (simp add: memory_schema_ok_def operations_ok_def)
  then have "inj_on or_sequence (set (rows_after t m after))" "distinct (rows_after t m after)"
    unfolding rows_after_def by (auto simp: distinct_map inj_on_def)
  then have dist: "distinct (map or_sequence ?rows)" by (simp add: distinct_map)
  have "sort_key or_sequence (rows_after t m (after + n)) = filter (\<lambda>r. or_sequence r > after + n) ?rows"
    unfolding filter_sort rows_after_def filter_filter by (intro arg_cong [where f = "sort_key or_sequence"] filter_cong) auto
  also have "\<dots> = filter (\<lambda>r. or_sequence r > after + n) (take n ?rows) @ filter (\<lambda>r. or_sequence r > after + n) (drop n ?rows)"
    by (metis append_take_drop_id filter_append)
  also have "filter (\<lambda>r. or_sequence r > after + n) (take n ?rows) = []"
  proof -
    have "or_sequence r \<le> after + n" if "r \<in> set (take n ?rows)" for r
    proof -
      from that have "or_sequence r \<in> set (map or_sequence (take n ?rows))" by simp
      then show ?thesis unfolding seqs len by (simp del: upt_Suc)
    qed
    then show ?thesis by (auto simp: filter_empty_conv not_less)
  qed
  also have "filter (\<lambda>r. or_sequence r > after + n) (drop n ?rows) = drop n ?rows"
  proof -
    have "or_sequence r > after + n" if r: "r \<in> set (drop n ?rows)" for r
    proof (cases "n = 0")
      case True
      with r show ?thesis by (simp add: rows_after_def)
    next
      case False
      then have "after + n \<in> or_sequence ` set (take n ?rows)"
        unfolding list.set_map [symmetric] seqs len by (simp del: upt_Suc)
      then obtain q where q: "q \<in> set (take n ?rows)" "or_sequence q = after + n" by (elim imageE) simp
      have "or_sequence q \<le> or_sequence r"
        using sorted_append [of "map or_sequence (take n ?rows)" "map or_sequence (drop n ?rows)"] q(1) r
        by (simp flip: map_append add: sorted_sort_key)
      moreover have "or_sequence q \<noteq> or_sequence r"
        using distinct_append [of "map or_sequence (take n ?rows)" "map or_sequence (drop n ?rows)"] q(1) r dist
        by (simp flip: map_append) blast
      ultimately show ?thesis using q(2) by simp
    qed
    then show ?thesis by (simp add: filter_id_conv)
  qed
  finally show ?thesis by simp
qed

lemma load_page:
  assumes "after + 1 \<le> u64_max" "after \<le> i64_max"
  shows "load_memory_operations lib t m after default_memory_page_size
    = check_operations lib m (after + 1) (take default_memory_page_size (sort_key or_sequence (rows_after t m after)))"
  using assms by (simp add: load_memory_operations_def default_memory_page_size_def sql_sequence_def checked_add_u64_def
      rows_after_def)

lemma load_page_bounds:
  "load_memory_operations lib t m after default_memory_page_size = Ok page \<Longrightarrow> after + 1 \<le> u64_max \<and> after \<le> i64_max"
  by (auto simp: load_memory_operations_def default_memory_page_size_def sql_sequence_def checked_add_u64_def
      result_simps split: if_splits)

lemma last_sequence:
  assumes "check_operations lib m (after + 1) rows = Ok ops" "ops \<noteq> []"
  shows "mo_sequence (last ops) = after + length ops"
proof -
  from check_operations_sequences [OF assms(1)] have seqs: "map mo_sequence ops = [after + 1 ..< after + 1 + length rows]"
    and "length ops = length rows" by (auto dest: map_eq_imp_length_eq)
  then have len: "length ops = length rows" by simp
  then have "0 < length rows" using assms(2) by (cases ops) auto
  then have upt: "last [after + 1 ..< after + 1 + length rows] = after + length ops" using len by (simp add: last_upt del: upt_Suc)
  have "mo_sequence (last ops) = last (map mo_sequence ops)" using assms(2) by (simp add: last_map)
  also have "\<dots> = after + length ops" unfolding seqs by (fact upt)
  finally show ?thesis .
qed

text \<open>Reading the pages is reading all rows at once.\<close>

lemma load_pages_sound:
  assumes "load_pages lib t m acc after = Ok res" "memory_schema_ok t"
  shows "\<exists>ops. res = acc @ ops \<and> check_operations lib m (after + 1) (sort_key or_sequence (rows_after t m after)) = Ok ops"
  using assms
proof (induction lib t m acc after rule: load_pages.induct)
  case (1 lib t m acc after)
  let ?rows = "sort_key or_sequence (rows_after t m after)"
  from "1.prems"(1) obtain page where page: "load_memory_operations lib t m after default_memory_page_size = Ok page"
    by (subst (asm) load_pages.simps) (auto split: result.splits)
  then have check: "check_operations lib m (after + 1) (take default_memory_page_size ?rows) = Ok page"
    using load_page load_page_bounds by metis
  show ?case
  proof (cases "length page < default_memory_page_size")
    case True
    with check have "take default_memory_page_size ?rows = ?rows"
      using check_operations_sequences [OF check] by (auto dest!: map_eq_imp_length_eq)
    then show ?thesis using True page check "1.prems"(1) by (subst (asm) load_pages.simps) simp
  next
    case False
    then have len: "length page = default_memory_page_size"
      using check_operations_sequences [OF check] by (auto dest!: map_eq_imp_length_eq)
    then have "page \<noteq> []" by (auto simp: default_memory_page_size_def)
    from last_sequence [OF check this] have last: "mo_sequence (last page) = after + default_memory_page_size"
      by (simp add: len)
    have "load_pages lib t m (acc @ page) (mo_sequence (last page)) = Ok res"
      using "1.prems"(1) page False by (subst (asm) load_pages.simps) simp
    from "1.IH" [OF page False this "1.prems"(2)] obtain ops where ops: "res = (acc @ page) @ ops"
      "check_operations lib m (mo_sequence (last page) + 1) (sort_key or_sequence (rows_after t m (mo_sequence (last page)))) = Ok ops"
      by blast
    have "length (take default_memory_page_size ?rows) = default_memory_page_size"
      using check_operations_sequences [OF check] len by (metis length_map)
    moreover have "check_operations lib m (after + 1 + default_memory_page_size) (drop default_memory_page_size ?rows) = Ok ops"
      using ops(2) sorted_rows [OF "1.prems"(2) check len] unfolding last by (simp add: add.commute add.left_commute)
    ultimately have "check_operations lib m (after + 1) (take default_memory_page_size ?rows @ drop default_memory_page_size ?rows) = Ok (page @ ops)"
      unfolding check_operations_append using check by metis
    then show ?thesis using ops(1) by auto
  qed
qed

lemma load_pages_complete:
  assumes "check_operations lib m (after + 1) (sort_key or_sequence (rows_after t m after)) = Ok ops"
    "after + length ops \<le> i64_max" "memory_schema_ok t"
  shows "load_pages lib t m acc after = Ok (acc @ ops)"
  using assms
proof (induction lib t m acc after arbitrary: ops rule: load_pages.induct)
  case (1 lib t m acc after)
  let ?rows = "sort_key or_sequence (rows_after t m after)"
  have "check_operations lib m (after + 1) (take default_memory_page_size ?rows @ drop default_memory_page_size ?rows) = Ok ops"
    using "1.prems"(1) by simp
  then obtain page rest where split: "check_operations lib m (after + 1) (take default_memory_page_size ?rows) = Ok page"
    "check_operations lib m (after + 1 + length (take default_memory_page_size ?rows)) (drop default_memory_page_size ?rows) = Ok rest"
    "ops = page @ rest" unfolding check_operations_append by blast
  have bounds: "after + 1 \<le> u64_max" "after \<le> i64_max" using "1.prems"(2) by simp_all
  have page: "load_memory_operations lib t m after default_memory_page_size = Ok page"
    using load_page [OF bounds] split(1) by simp
  have len: "length page = length (take default_memory_page_size ?rows)"
    using check_operations_sequences [OF split(1)] by (metis length_map)
  show ?case
  proof (cases "length page < default_memory_page_size")
    case True
    then have "drop default_memory_page_size ?rows = []" using len by simp
    then have "rest = []" using split(2) by simp
    then show ?thesis using True page split(3) by (subst load_pages.simps) simp
  next
    case False
    then have full: "length page = default_memory_page_size" using len by simp
    then have "page \<noteq> []" by (auto simp: default_memory_page_size_def)
    from last_sequence [OF split(1) this] have last: "mo_sequence (last page) = after + default_memory_page_size"
      by (simp add: full)
    have "check_operations lib m (mo_sequence (last page) + 1) (sort_key or_sequence (rows_after t m (mo_sequence (last page)))) = Ok rest"
      using split(2) sorted_rows [OF "1.prems"(3) split(1) full] unfolding last len [symmetric] full
      by (simp add: add.commute add.left_commute)
    moreover have "mo_sequence (last page) + length rest \<le> i64_max" using "1.prems"(2) full last split(3) by simp
    ultimately show ?thesis
      using "1.IH" [OF page False _ _ "1.prems"(3)] False page split(3) by (subst load_pages.simps) simp
  qed
qed

section \<open>Batches of commands\<close>

definition of_command :: "memory_command \<Rightarrow> timestamp_millis \<Rightarrow> memory_operation \<Rightarrow> bool" where
  "of_command command at operation \<longleftrightarrow>
     mo_memory_id operation = mcmd_memory_id command \<and> mo_occurred_at operation = at
     \<and> mo_correlation_id operation = mcmd_correlation_id command"

definition builder_ok :: "memory_command \<Rightarrow> timestamp_millis \<Rightarrow> nat \<Rightarrow> batch_builder \<Rightarrow> bool" where
  "builder_ok command at base b \<longleftrightarrow>
     bb_command b = command \<and> bb_occurred_at b = at \<and> bb_base_sequence b = base
     \<and> length (bb_operations b) \<le> max_memory_command_operations
     \<and> list_all (of_command command at \<circ> mao_operation) (bb_operations b)"

lemma builder_ok_new: "builder_ok command at base (batch_builder_new command at base)"
  by (simp add: builder_ok_def batch_builder_new_def)

lemma builder_ok_push: "bb_push sha b stage p c = Ok b' \<Longrightarrow> builder_ok command at base b \<Longrightarrow> builder_ok command at base b'"
  by (auto simp: bb_push_def builder_ok_def of_command_def memory_operation_new_v1_def result_simps Let_def split: if_splits)

definition plan_ok :: "memory_command \<Rightarrow> timestamp_millis \<Rightarrow> nat \<Rightarrow> memory_command_plan \<Rightarrow> bool" where
  "plan_ok command at base plan \<longleftrightarrow>
     mab_expected_last_sequence (mcp_batch plan) = base
     \<and> length (mab_operations (mcp_batch plan)) \<le> max_memory_command_operations
     \<and> list_all (of_command command at \<circ> mao_operation) (mab_operations (mcp_batch plan))"

lemma plan_ok_finish: "builder_ok command at base b \<Longrightarrow> plan_ok command at base (bb_finish b v)"
  by (simp add: builder_ok_def plan_ok_def bb_finish_def)

lemmas plan_ok_intros = plan_ok_finish builder_ok_push builder_ok_new

lemma plan_arms_ok:
  assumes "builder_ok command at base b"
  shows "plan_create sha b existing scope kind d = Ok plan \<Longrightarrow> plan_ok command at base plan"
    "plan_propose sha b operations revisions existing d i = Ok plan \<Longrightarrow> plan_ok command at base plan"
    "plan_revise sha b operations revisions existing d i = Ok plan \<Longrightarrow> plan_ok command at base plan"
    "plan_approve sha b operations revisions existing i d = Ok plan \<Longrightarrow> plan_ok command at base plan"
    "plan_single sha b revisions i states stage p = Ok plan \<Longrightarrow> plan_ok command at base plan"
  using assms
  by (auto simp: plan_create_def plan_propose_def plan_revise_def plan_approve_def plan_single_def and_then_Ok
      bb_stage_defs Let_def split: if_splits intro!: plan_ok_finish dest!: builder_ok_push)

lemma plan_command_ok:
  assumes "plan_memory_command sha command at operations revisions existing = Ok plan"
  shows "plan_ok command at (if operations = [] then 0 else mo_sequence (last operations)) plan"
proof -
  define base where "base = (if operations = [] then 0 else mo_sequence (last operations))"
  note arms = plan_arms_ok [OF builder_ok_new [of command at base]]
  from assms show ?thesis unfolding plan_memory_command_def Let_def base_def [symmetric]
    by (cases "mcmd_payload command") (auto simp: and_then_Ok intro: arms)
qed

section \<open>The history after a command\<close>

lemma insort_key_append:
  "\<forall>y \<in> set ys. f x \<le> f y \<Longrightarrow> insort_key f x (as @ ys) = insort_key f x as @ ys"
  by (induction as) (simp_all add: insort_is_Cons)

lemma sort_key_append:
  assumes "sorted (map f ys)" "\<And>x y. x \<in> set xs \<Longrightarrow> y \<in> set ys \<Longrightarrow> f x \<le> f y"
  shows "sort_key f (xs @ ys) = sort_key f xs @ ys"
  using assms(2)
proof (induction xs)
  case Nil
  show ?case using assms(1) by (simp add: sort_key_id_if_sorted)
next
  case (Cons x xs)
  then show ?case by (simp add: insort_key_append)
qed

text \<open>What is assumed of the codec: parsing what was written gives the operation back.\<close>

definition memory_codec_ok :: "memory_codec \<Rightarrow> bool" where
  "memory_codec_ok lib \<longleftrightarrow>
     (\<forall>operation json. mk_operation_json lib operation = Some json \<longrightarrow> mk_operation_parse lib json = Some operation)"

lemma check_new_operations:
  assumes "list_all2 (\<lambda>r e. or_memory_id r = m \<and> mo_memory_id (mao_operation e) = m \<and> or_sequence r \<le> i64_max
       \<and> mk_operation_json lib (mao_operation e) = Some (or_envelope_json r)
       \<and> or_operation_sha256 r = mk_sha256 lib (or_envelope_json r)) rows es"
    "map or_sequence rows = [n ..< n + length rows]" "map or_sequence rows = map (mo_sequence \<circ> mao_operation) es"
    "memory_codec_ok lib"
  shows "check_operations lib m n rows = Ok (map mao_operation es)"
  using assms(1-3)
proof (induction rows es arbitrary: n rule: list_all2_induct)
  case (Cons r rows e es)
  have "map or_sequence (r # rows) = n # [n + 1 ..< n + 1 + length rows]"
    using Cons.prems(1) by (simp add: upt_conv_Cons del: upt_Suc)
  then have "or_sequence r = n" "map or_sequence rows = [n + 1 ..< n + 1 + length rows]"
    "map or_sequence rows = map (mo_sequence \<circ> mao_operation) es" "mo_sequence (mao_operation e) = n"
    using Cons.prems(2) by auto
  moreover from this have "check_operations lib m (n + 1) rows = Ok (map mao_operation es)" by (intro Cons.IH)
  ultimately show ?case using Cons.hyps(1) assms(4) by (auto simp: checked_add_u64_def memory_codec_ok_def)
qed simp

lemma load_pages_cong:
  assumes "\<And>a. rows_after u m a = rows_after t m a"
  shows "load_pages lib u m acc after = load_pages lib t m acc after"
  using assms
proof (induction lib t m acc after rule: load_pages.induct)
  case (1 lib t m acc after)
  have page: "load_memory_operations lib u m after n = load_memory_operations lib t m after n" for n
    using "1.prems" [of after] by (simp add: load_memory_operations_def rows_after_def)
  show ?case
    by (subst (1 2) load_pages.simps) (simp add: page "1.IH" "1.prems" split: result.split)
qed

lemma committed_execute:
  assumes "execute_memory_command lib t command at = (Ok commit, u)" "mar_disposition (mcc_receipt commit) = Committed"
  obtains operations revisions existing plan where
    "plan_memory_command (mk_sha256 lib) command at operations revisions existing = Ok plan"
    "load_all_operations lib t (mcmd_memory_id command) = Ok operations"
    "append_memory_batch lib t (mcp_batch plan) = (Ok (mcc_receipt commit), u)"
proof -
  from assms(1) obtain operations revisions existing plan receipt where
    "plan_memory_command (mk_sha256 lib) command at operations revisions existing = Ok plan"
    "load_all_operations lib t (mcmd_memory_id command) = Ok operations"
    "append_memory_batch lib t (mcp_batch plan) = (Ok receipt, u)" "mcc_receipt commit = receipt"
    unfolding execute_memory_command_def
    by (auto simp: result_simps split: result.splits prod.splits)
  then show ?thesis using that by simp
qed

lemma appended_history:
  assumes append: "append_memory_batch lib t request = (Ok receipt, u)" "mar_disposition receipt = Committed"
    and m: "m = mo_memory_id (mao_operation (hd (mab_operations request)))"
    and old: "load_all_operations lib t m = Ok old" "mab_expected_last_sequence request = length old"
    and codec: "memory_codec_ok lib"
    and schema: "memory_schema_ok t" "memory_schema_ok u"
  shows "load_all_operations lib u m = Ok (old @ map mao_operation (mab_operations request))"
    "m' \<noteq> m \<Longrightarrow> load_all_operations lib u m' = load_all_operations lib t m'"
proof -
  obtain rows where rows: "mt_operations u = mt_operations t @ rows"
    "map or_sequence rows = map (mo_sequence \<circ> mao_operation) (mab_operations request)"
    "map or_sequence rows = [mab_expected_last_sequence request + 1 ..< mab_expected_last_sequence request + 1 + length rows]"
    "list_all2 (\<lambda>r e. or_memory_id r = m \<and> mo_memory_id (mao_operation e) = m
       \<and> or_sequence r \<le> i64_max
       \<and> mk_operation_json lib (mao_operation e) = Some (or_envelope_json r)
       \<and> or_operation_sha256 r = mk_sha256 lib (or_envelope_json r)) rows (mab_operations request)"
    "mab_operations request \<noteq> []"
    by (rule committed_append [OF append m]) (rule that; assumption)
  have member: "or_memory_id r = m" "or_sequence r \<le> i64_max" if "r \<in> set rows" for r
    using rows(4) that by (auto simp: list_all2_conv_all_nth in_set_conv_nth)
  have check: "check_operations lib m 1 (sort_key or_sequence (rows_after t m 0)) = Ok old"
    using load_pages_sound [of lib t m "[]" 0 old] old(1) schema(1) by (simp add: load_all_operations_def)
  note seqs = check_operations_sequences [OF check]
  have n: "length (sort_key or_sequence (rows_after t m 0)) = length old" using seqs by (metis length_map)
  have rowseq: "map or_sequence rows = [length old + 1 ..< length old + 1 + length rows]" using rows(3) old(2) by simp
  have small: "or_sequence r \<le> length old" if "r \<in> set (rows_after t m 0)" for r
  proof -
    have "or_sequence r \<in> set (map or_sequence (sort_key or_sequence (rows_after t m 0)))" using that by simp
    then show ?thesis using seqs n by (simp del: upt_Suc)
  qed
  have large: "length old < or_sequence r \<and> or_sequence r \<le> length old + length rows" if "r \<in> set rows" for r
  proof -
    have "or_sequence r \<in> set (map or_sequence rows)" using that by simp
    then show ?thesis unfolding rowseq by (simp del: upt_Suc)
  qed
  then have "0 < or_sequence r" if "r \<in> set rows" for r using that by fastforce
  then have after: "rows_after u m 0 = rows_after t m 0 @ rows"
    using member by (auto simp: rows_after_def rows(1) filter_id_conv)
  have "sort_key or_sequence (rows_after t m 0 @ rows) = sort_key or_sequence (rows_after t m 0) @ rows"
  proof (rule sort_key_append)
    show "sorted (map or_sequence rows)" unfolding rowseq by (rule sorted_upt)
  qed (use small large in fastforce)
  moreover have "check_operations lib m (length old + 1) rows = Ok (map mao_operation (mab_operations request))"
    by (rule check_new_operations [OF rows(4) rowseq rows(2) codec])
  ultimately have all: "check_operations lib m (0 + 1) (sort_key or_sequence (rows_after u m 0))
      = Ok (old @ map mao_operation (mab_operations request))"
    unfolding after using check n check_operations_append [of lib m 1 _ rows] by (simp add: add.commute)
  have len: "length rows = length (mab_operations request)" using rows(4) by (rule list_all2_lengthD)
  then have "rows \<noteq> []" using rows(5) by auto
  then have "or_sequence (last rows) = length old + length rows"
    using last_map [of rows or_sequence] rowseq by (simp add: last_upt del: upt_Suc)
  then have "length old + length rows \<le> i64_max" using member(2) [of "last rows"] \<open>rows \<noteq> []\<close> by simp
  then show "load_all_operations lib u m = Ok (old @ map mao_operation (mab_operations request))"
    using load_pages_complete [OF all _ schema(2), of "[]"] len by (simp add: load_all_operations_def)
  show "load_all_operations lib u m' = load_all_operations lib t m'" if "m' \<noteq> m"
  proof -
    have "rows_after u m' a = rows_after t m' a" for a
      using member that by (auto simp: rows_after_def rows(1) filter_empty_conv)
    then show ?thesis unfolding load_all_operations_def by (rule load_pages_cong)
  qed
qed

lemma loaded_sequence:
  assumes "load_all_operations lib t m = Ok ops" "memory_schema_ok t"
  shows "(if ops = [] then 0 else mo_sequence (last ops)) = length ops"
proof -
  have "check_operations lib m (0 + 1) (sort_key or_sequence (rows_after t m 0)) = Ok ops"
    using load_pages_sound [of lib t m "[]" 0 ops] assms by (simp add: load_all_operations_def)
  from last_sequence [OF this] show ?thesis by auto
qed

end
