(* ===== verification/Memory_Example.thy ===== *)
theory Memory_Example
  imports Memory_History
begin

text \<open>
  A concrete run of the memory ledger: the user's own memory is created and activated, then deleted. The
  digest is a checksum of its input and the codec knows the four operations of the run.
\<close>

section \<open>Hexadecimal digests\<close>

lemma hex_digit_value_digit: "d < 16 \<Longrightarrow> hex_digit_value (hex_digit d) = Some d"
  by (auto simp: hex_digit_value_def hex_digit_def)

lemma hex_pairs_bytes: "\<forall>b \<in> set bs. b < 256 \<Longrightarrow> hex_pairs (concat (map hex_byte bs)) = Some bs"
  by (induction bs) (auto simp: hex_byte_def hex_digit_value_digit)

lemma digest_bytes_hex:
  assumes "\<forall>b \<in> set bs. b < 256" "length bs = 32"
  shows "digest_bytes (Sha256Digest (concat (map hex_byte bs))) = Ok bs"
  using hex_pairs_bytes [OF assms(1)] hex_bytes_valid [OF assms(1)] assms(2) by (simp add: digest_bytes_def)

section \<open>Values\<close>

definition ex_sha :: "bytes \<Rightarrow> bytes" where "ex_sha bs = replicate 31 0 @ [sum_list bs mod 256]"

lemma ex_sha_ok: "sha_ok ex_sha" "length (ex_sha bs) = 32" "\<forall>b \<in> set (ex_sha bs). b < 256"
  by (simp_all add: sha_ok_def ex_sha_def)

definition ex_id :: memory_id where "ex_id = MemoryId [109]"
definition ex_revision :: memory_revision_id where "ex_revision = MemoryRevisionId [114]"
definition ex_text :: ustring where "ex_text = [120]"
definition ex_user_scope :: memory_scope where "ex_user_scope = Scope_User (UserId [117])"

definition ex_hash :: bytes where
  "ex_hash = ex_sha (concat (map field_bytes [(ascii ''memory_content_v1'', as_bytes (normalize_content ex_text))]))"
definition ex_digest :: sha256_digest where "ex_digest = Sha256Digest (concat (map hex_byte ex_hash))"

lemma ex_content_hash: "normalized_content_hash ex_sha ex_text = Ok ex_digest"
proof -
  have "fields_fit [(ascii ''memory_content_v1'', as_bytes (normalize_content ex_text))]"
    by (simp add: fields_fit_def ex_text_def normalize_content_def ascii_def len_utf8_def utf8_char_def)
  then have "encode_fields [(ascii ''memory_content_v1'', as_bytes (normalize_content ex_text))]
      = Ok (concat (map field_bytes [(ascii ''memory_content_v1'', as_bytes (normalize_content ex_text))]))"
    by (simp only: encode_fields_Ok simp_thms)
  then show ?thesis
    by (simp only: normalized_content_hash_def hash_fields_def and_then.simps encoder_finish_Ok [OF ex_sha_ok(1)]
        ex_digest_def ex_hash_def)
qed

lemma ex_digest_bytes: "digest_bytes ex_digest = Ok ex_hash" "length ex_hash = 32"
  unfolding ex_digest_def ex_hash_def by (rule digest_bytes_hex [OF ex_sha_ok(3,2)]) (rule ex_sha_ok(2))

lemma ex_patterns: "\<not> looks_secret_bearing ex_text" "\<not> looks_like_instruction_injection ex_text"
  by code_simp+

definition ex_operation_id :: "nat \<Rightarrow> memory_operation_id" where
  "ex_operation_id k = MemoryOperationId (ascii ''memory-operation:'' @ concat (map hex_byte (replicate 31 0 @ [k])))"

lemma ex_operation_id_inject:
  assumes "j < 256" "k < 256" shows "ex_operation_id j = ex_operation_id k \<longleftrightarrow> j = k"
proof
  assume "ex_operation_id j = ex_operation_id k"
  then have "concat (map hex_byte (replicate 31 0 @ [j])) = concat (map hex_byte (replicate 31 0 @ [k]))"
    unfolding ex_operation_id_def by simp
  then have "hex_pairs (concat (map hex_byte (replicate 31 0 @ [j]))) = hex_pairs (concat (map hex_byte (replicate 31 0 @ [k])))"
    by (rule arg_cong)
  moreover have "\<forall>b \<in> set (replicate 31 0 @ [j]). b < 256" "\<forall>b \<in> set (replicate 31 0 @ [k]). b < 256"
    using assms by simp_all
  ultimately show "j = k" by (simp only: hex_pairs_bytes option.inject append_same_eq same_append_eq list.inject)
qed simp

lemma ex_operation_id_len: "k < 256 \<Longrightarrow> column_len_ok (operation_str (ex_operation_id k))"
  using hex_bytes_valid [of "replicate 31 0 @ [k]"]
  by (simp add: ex_operation_id_def column_len_ok_def ascii_def len_utf8_def)

definition ex_draft :: memory_revision_draft where
  "ex_draft = \<lparr>dr_revision_id = ex_revision, dr_revision = 1, dr_subject_key = None,
     dr_content = MemoryContent ex_text, dr_content_hash = ex_digest, dr_origin = ExplicitUser,
     dr_trust_class = UserApproved, dr_confidence = ConfidenceBasisPoints 9000,
     dr_sensitivity = Sens_Internal, dr_validity = Indefinite, dr_evidence = [], dr_relations = []\<rparr>"

definition ex_create :: memory_command where
  "ex_create = \<lparr>mcmd_schema_version = 1, mcmd_command_id = CommandId [97], mcmd_memory_id = ex_id,
     mcmd_expected_sequence = None, mcmd_correlation_id = CorrelationId [107],
     mcmd_payload = CreateMemory ex_user_scope Kind_Fact ex_draft\<rparr>"

definition ex_delete :: memory_command where
  "ex_delete = \<lparr>mcmd_schema_version = 1, mcmd_command_id = CommandId [99], mcmd_memory_id = ex_id,
     mcmd_expected_sequence = Some 3, mcmd_correlation_id = CorrelationId [107],
     mcmd_payload = DeleteMemory ex_revision\<rparr>"

lemma small_be_bytes: "n < 256 \<Longrightarrow> be_bytes (Suc k) n = replicate k 0 @ [n]"
proof -
  have "be_bytes k 0 = replicate k 0" by (induction k) (simp_all add: replicate_append_same)
  then show "n < 256 \<Longrightarrow> be_bytes (Suc k) n = replicate k 0 @ [n]" by simp
qed

lemma small_hash_field: "length bs < 256 \<Longrightarrow> hash_field bs = replicate 7 0 @ [length bs] @ bs"
  using small_be_bytes [of "length bs" 7] by (simp add: hash_field_def u64_be_bytes_def)

lemma ex_stages:
  "operation_id ex_sha ex_create ''create'' = ex_operation_id 74"
  "operation_id ex_sha ex_create ''validate'' = ex_operation_id 34"
  "operation_id ex_sha ex_create ''activate'' = ex_operation_id 41"
  "operation_id ex_sha ex_delete ''delete'' = ex_operation_id 75"
  by (simp_all add: operation_id_def ex_operation_id_def ex_create_def ex_delete_def ex_id_def ex_sha_def small_hash_field
      utf8_char_def ascii_def sum_list_replicate)

section \<open>Operations and codec\<close>

definition ex_metadata :: memory_revision where "ex_metadata = from_draft Rev_Proposed ex_draft 5 None"

definition ex_validation :: memory_validation_result where
  "ex_validation = \<lparr>vr_validator_version = 1, vr_content_hash = ex_digest, vr_status = Validation_Accepted,
     vr_issues = [], vr_duplicate_candidates = [], vr_contradiction_candidates = []\<rparr>"

definition ex_operation :: "nat \<Rightarrow> memory_operation" where
  "ex_operation k =
     (if k = 1 then memory_operation_new_v1 (ex_operation_id 74) ex_id 1 5 (Mem_Cause_Command (CommandId [97]))
        (CorrelationId [107]) (MemoryCreated ex_user_scope Kind_Fact ex_metadata)
      else if k = 2 then memory_operation_new_v1 (ex_operation_id 34) ex_id 2 5 (Mem_Cause_Operation (ex_operation_id 74))
        (CorrelationId [107]) (RevisionValidated ex_revision ex_validation)
      else if k = 3 then memory_operation_new_v1 (ex_operation_id 41) ex_id 3 5 (Mem_Cause_Operation (ex_operation_id 34))
        (CorrelationId [107]) (RevisionActivated ex_revision)
      else memory_operation_new_v1 (ex_operation_id 75) ex_id 4 7 (Mem_Cause_Command (CommandId [99]))
        (CorrelationId [107]) (MemoryDeleted ex_revision))"

definition ex_lib :: memory_codec where
  "ex_lib =
     \<lparr>mk_sha256 = ex_sha,
      mk_operation_json = (\<lambda>operation. if operation = ex_operation (mo_sequence operation) then Some [mo_sequence operation] else None),
      mk_operation_parse = (\<lambda>bs. case bs of [k] \<Rightarrow> Some (ex_operation k) | _ \<Rightarrow> None),
      mk_revision_json = (\<lambda>_. Some [0]), mk_revision_parse = (\<lambda>_. Some ex_metadata),
      mk_source_json = (\<lambda>_. Some [0]), mk_validation_json = (\<lambda>_. Some [0])\<rparr>"

lemma ex_lib_ok: "memory_codec_ok ex_lib"
  by (auto simp: memory_codec_ok_def ex_lib_def split: if_splits)

section \<open>Plans\<close>

definition ex_sidecar :: memory_revision_content where
  "ex_sidecar = \<lparr>mrc_revision_id = ex_revision, mrc_content = MemoryContent ex_text, mrc_evidence = []\<rparr>"

definition ex_create_batch :: memory_append_batch where
  "ex_create_batch = \<lparr>mab_expected_last_sequence = 0,
     mab_operations = [\<lparr>mao_operation = ex_operation (Suc 0), mao_content = Some ex_sidecar\<rparr>,
       \<lparr>mao_operation = ex_operation 2, mao_content = None\<rparr>, \<lparr>mao_operation = ex_operation 3, mao_content = None\<rparr>]\<rparr>"

lemma ex_analyze: "validate_revision ex_sha ex_user_scope Kind_Fact ex_draft [] None = Ok ex_validation"
  by (simp add: validate_revision_def analyze_def ex_draft_def ex_content_hash Let_def duplicates_of_def contradictions_of_def
      issues_of_def raise_if_def ex_patterns validation_result_new_def validation_status_def ex_validation_def
      validator_version_def sort_dedup_def)

lemma ex_create_plan:
  "plan_memory_command ex_sha ex_create 5 [] [] [] = Ok \<lparr>mcp_batch = ex_create_batch, mcp_validation = Some ex_validation\<rparr>"
proof -
  have command: "mcmd_payload ex_create = CreateMemory ex_user_scope Kind_Fact ex_draft" "mcmd_expected_sequence ex_create = None"
    "mcmd_memory_id ex_create = ex_id" "mcmd_correlation_id ex_create = CorrelationId [107]"
    "mcmd_command_id ex_create = CommandId [97]"
    by (simp_all add: ex_create_def)
  have status: "vr_status ex_validation = Validation_Accepted" "is_explicit_accepted ex_draft ex_validation"
    by (simp_all add: ex_validation_def is_explicit_accepted_def ex_draft_def)
  have draft: "dr_revision_id ex_draft = ex_revision" "revision_sidecar ex_draft = ex_sidecar"
    "from_draft Rev_Proposed ex_draft 5 None = ex_metadata"
    by (simp_all add: ex_draft_def revision_sidecar_def ex_sidecar_def List.map_filter_def ex_metadata_def)
  show ?thesis
    by (simp add: plan_memory_command_def Let_def validate_snapshot_def consecutive_def command plan_create_def ex_analyze
        status draft bb_stage_defs bb_push_def batch_builder_new_def max_memory_command_operations_def checked_add_u64_def
        memory_sequence_new_def ex_stages bb_finish_def ex_create_batch_def ex_operation_def numeral_2_eq_2 numeral_3_eq_3)
qed

lemma load_pages_empty:
  "memory_schema_ok t \<Longrightarrow> (\<And>r. r \<in> set (mt_operations t) \<Longrightarrow> or_memory_id r \<noteq> m) \<Longrightarrow> load_all_operations lib t m = Ok []"
  unfolding load_all_operations_def
  using load_pages_complete [of lib m 0 t "[]" "[]"] by (simp add: rows_after_def filter_empty_conv)

lemma ex_create_snapshot:
  "load_all_operations ex_lib empty_memory_tables ex_id = Ok []"
  "load_memory_revisions ex_lib empty_memory_tables ex_id = Ok []"
  "duplicate_candidates ex_lib empty_memory_tables ex_create [] = Ok []"
proof -
  show "load_all_operations ex_lib empty_memory_tables ex_id = Ok []"
    by (rule load_pages_empty [OF memory_schema_ok_empty]) (simp add: empty_memory_tables_def)
  show "load_memory_revisions ex_lib empty_memory_tables ex_id = Ok []"
    by (simp add: load_memory_revisions_def empty_memory_tables_def)
  show "duplicate_candidates ex_lib empty_memory_tables ex_create [] = Ok []"
    by (simp add: duplicate_candidates_def ex_create_def ex_draft_def active_memory_head_query_new_def
        max_memory_validation_candidates_def max_memory_search_candidates_def with_content_hash_def
        load_active_memory_heads_def ex_digest_bytes active_rows_def empty_memory_tables_def List.map_filter_def)
qed

section \<open>Tables\<close>

definition ex_encoded :: "nat \<Rightarrow> encoded_memory_operation" where
  "ex_encoded k = \<lparr>emo_envelope_json = [k], emo_operation_hash = ex_sha [k]\<rparr>"

definition ex_item :: "memory_revision_status \<Rightarrow> nat \<Rightarrow> bool \<Rightarrow> memory_revision_id option \<Rightarrow> int \<Rightarrow> memory_item_row" where
  "ex_item lifecycle n revised active at =
     \<lparr>mi_memory_id = ex_id, mi_scope = ex_user_scope, mi_kind = Kind_Fact, mi_lifecycle = lifecycle,
      mi_last_sequence = n, mi_latest_revision = (if revised then 1 else 0),
      mi_latest_revision_id = (if revised then Some ex_revision else None), mi_active_revision_id = active,
      mi_created_at = 5, mi_updated_at = at\<rparr>"

definition ex_revision_row :: "memory_revision_status \<Rightarrow> ustring option \<Rightarrow> memory_revision_row" where
  "ex_revision_row state content =
     \<lparr>rv_search_rowid = 1, rv_revision_id = ex_revision, rv_memory_id = ex_id, rv_revision = 1,
      rv_subject_key = None, rv_introduced_operation_id = ex_operation_id 74, rv_state = state,
      rv_content_id = content, rv_content_hash_sha256 = ex_hash, rv_metadata_json = [0],
      rv_metadata_sha256 = ex_sha [0], rv_origin = ExplicitUser, rv_trust_class = UserApproved,
      rv_confidence = 9000, rv_sensitivity = Sens_Internal, rv_valid_from = None, rv_valid_until = None,
      rv_created_at = 5, rv_supersedes_revision_id = None\<rparr>"

definition ex_content_id :: ustring where "ex_content_id = memory_content_id ex_revision"

definition ex_blob :: blob_row where
  "ex_blob = \<lparr>bl_content_id = ex_content_id, bl_content_utf8 = [120], bl_content_sha256 = ex_sha [120], bl_created_at = 5\<rparr>"

definition ex_validation_row :: memory_validation_row where
  "ex_validation_row = \<lparr>vd_operation_id = ex_operation_id 34, vd_revision_id = ex_revision, vd_validator_version = 1,
     vd_content_sha256 = ex_hash, vd_outcome = Validation_Accepted, vd_validation_json = [0], vd_created_at = 5\<rparr>"

definition ex_fts_row :: memory_fts_row where
  "ex_fts_row = \<lparr>fts_rowid = 1, fts_content = [120], fts_revision_id = ex_revision, fts_memory_id = ex_id\<rparr>"

definition ex_rows :: "nat \<Rightarrow> memory_operation_row list" where
  "ex_rows n = take n [operation_row (ex_operation (Suc 0)) (ex_encoded (Suc 0)), operation_row (ex_operation 2) (ex_encoded 2),
     operation_row (ex_operation 3) (ex_encoded 3), operation_row (ex_operation 4) (ex_encoded 4)]"

definition ex_tables ::
  "nat \<Rightarrow> nat \<Rightarrow> memory_item_row \<Rightarrow> blob_row list \<Rightarrow> memory_revision_row list \<Rightarrow> memory_validation_row list
     \<Rightarrow> memory_fts_row list \<Rightarrow> memory_tables" where
  "ex_tables g n item blobs revisions validations fts =
     empty_memory_tables\<lparr>mt_items := [item], mt_blobs := blobs, mt_operations := ex_rows n, mt_revisions := revisions,
       mt_validations := validations, mt_fts := fts, mt_generation := g, mt_mutation_generation := g,
       mt_state_updated_at := 5 * int g\<rparr>"

lemma ex_column_len [simp]:
  "column_len_ok [k]" "column_len_ok (memory_id_str ex_id)" "column_len_ok (scope_id_str ex_user_scope)"
  "column_len_ok (revision_str ex_revision)" "column_len_ok ex_content_id"
  by (simp_all add: column_len_ok_def ex_id_def ex_user_scope_def ex_revision_def ex_content_id_def memory_content_id_def
      ascii_def len_utf8_def)

lemma ex_operation_ids [simp]:
  "ex_operation_id 74 \<noteq> ex_operation_id 34" "ex_operation_id 74 \<noteq> ex_operation_id 41" "ex_operation_id 74 \<noteq> ex_operation_id 75"
  "ex_operation_id 34 \<noteq> ex_operation_id 41" "ex_operation_id 34 \<noteq> ex_operation_id 75" "ex_operation_id 41 \<noteq> ex_operation_id 75"
  "ex_operation_id 34 \<noteq> ex_operation_id 74" "ex_operation_id 41 \<noteq> ex_operation_id 74" "ex_operation_id 75 \<noteq> ex_operation_id 74"
  "ex_operation_id 41 \<noteq> ex_operation_id 34" "ex_operation_id 75 \<noteq> ex_operation_id 34" "ex_operation_id 75 \<noteq> ex_operation_id 41"
  by (simp_all add: ex_operation_id_inject)

lemmas ex_row_defs = ex_item_def ex_revision_row_def ex_blob_def ex_validation_row_def ex_fts_row_def

text \<open>The constraints on the rows of the run, evaluated once.\<close>

lemma ex_operation_parts [simp]:
  "mo_operation_id (ex_operation (Suc 0)) = ex_operation_id 74" "mo_operation_id (ex_operation 2) = ex_operation_id 34"
  "mo_operation_id (ex_operation 3) = ex_operation_id 41" "mo_operation_id (ex_operation 4) = ex_operation_id 75"
  "mo_memory_id (ex_operation k) = ex_id" "mo_correlation_id (ex_operation k) = CorrelationId [107]"
  "mo_sequence (ex_operation (Suc 0)) = Suc 0" "mo_sequence (ex_operation 2) = 2" "mo_sequence (ex_operation 3) = 3"
  "mo_sequence (ex_operation 4) = 4" "mo_schema_version (ex_operation k) = 1"
  "mo_causation (ex_operation (Suc 0)) = Mem_Cause_Command (CommandId [97])"
  "mo_causation (ex_operation 2) = Mem_Cause_Operation (ex_operation_id 74)"
  "mo_causation (ex_operation 3) = Mem_Cause_Operation (ex_operation_id 34)"
  "mo_causation (ex_operation 4) = Mem_Cause_Command (CommandId [99])"
  "mo_payload (ex_operation (Suc 0)) = MemoryCreated ex_user_scope Kind_Fact ex_metadata"
  "mo_payload (ex_operation 2) = RevisionValidated ex_revision ex_validation"
  "mo_payload (ex_operation 3) = RevisionActivated ex_revision"
  "mo_payload (ex_operation 4) = MemoryDeleted ex_revision"
  "mo_occurred_at (ex_operation (Suc 0)) = 5" "mo_occurred_at (ex_operation 2) = 5" "mo_occurred_at (ex_operation 3) = 5"
  "mo_occurred_at (ex_operation 4) = 7"
  by (simp_all add: ex_operation_def memory_operation_new_v1_def memory_schema_v1_def)

lemma ex_operations_ok:
  assumes "n \<le> 4" "mi_memory_id item = ex_id"
  shows "operations_ok (ex_tables g n item blobs revisions validations fts)"
proof -
  have "n = 0 \<or> n = 1 \<or> n = 2 \<or> n = 3 \<or> n = 4" using assms(1) by linarith
  then show ?thesis
    using assms(2)
    by (elim disjE) (simp_all add: operations_ok_def ex_tables_def ex_rows_def operation_row_def ex_encoded_def item_exists_def
        operation_exists_def List.map_filter_def null_or_def ex_operation_id_len ex_sha_ok(2))
qed

text \<open>Every table of the run satisfies the constraints.\<close>

lemma ex_schema:
  assumes "n \<le> 4" "item = ex_item lifecycle n' revised active at" "lifecycle = Rev_Active \<longleftrightarrow> active \<noteq> None"
    "blobs \<in> {[], [ex_blob]}"
    "revisions = [] \<or> revisions = [ex_revision_row state content]" "n \<ge> 1 \<or> revisions = []"
    "state = Rev_Deleted \<longrightarrow> content = None" "content = None \<or> content = Some ex_content_id \<and> blobs = [ex_blob]"
    "validations = [] \<or> validations = [ex_validation_row] \<and> n \<ge> 2 \<and> revisions \<noteq> []" "fts \<in> {[], [ex_fts_row]}"
  shows "memory_schema_ok (ex_tables g n item blobs revisions validations fts)"
proof -
  let ?t = "ex_tables g n item blobs revisions validations fts"
  have m: "mi_memory_id item = ex_id" using assms(2) by (simp add: ex_item_def)
  have first: "operation_exists ?t (ex_operation_id 74)" if "n \<ge> 1"
  proof -
    have "n = Suc 0 \<or> n = 2 \<or> n = 3 \<or> n = 4" using that assms(1) by linarith
    then show ?thesis by (elim disjE) (simp_all add: operation_exists_def ex_tables_def ex_rows_def operation_row_def)
  qed
  have second: "operation_exists ?t (ex_operation_id 34)" if "n \<ge> 2"
  proof -
    have "n = 2 \<or> n = 3 \<or> n = 4" using that assms(1) by linarith
    then show ?thesis by (elim disjE) (simp_all add: operation_exists_def ex_tables_def ex_rows_def operation_row_def)
  qed
  have "items_ok ?t" using assms(2,3) by (simp add: items_ok_def ex_tables_def ex_item_def)
  moreover have "blobs_ok ?t" using assms(4) by (auto simp: blobs_ok_def ex_tables_def ex_blob_def ex_sha_ok(2))
  moreover have "revisions_ok ?t"
    using assms(5-8) first m
    by (auto simp: revisions_ok_def ex_tables_def ex_revision_row_def revision_row_ok_def null_or_def ex_digest_bytes(2)
        ex_sha_ok(2) item_exists_def blob_exists_def ex_blob_def)
  moreover have "validations_ok ?t"
    using assms(5,9) second
    by (auto simp: validations_ok_def ex_tables_def ex_validation_row_def ex_digest_bytes(2) revision_exists_def ex_revision_row_def)
  moreover have "evidence_ok ?t" "relations_ok ?t" by (simp_all add: evidence_ok_def relations_ok_def ex_tables_def empty_memory_tables_def)
  moreover have "fts_ok ?t" using assms(10) by (auto simp: fts_ok_def ex_tables_def)
  ultimately show ?thesis using ex_operations_ok [OF assms(1) m] by (simp add: memory_schema_ok_def)
qed

section \<open>Creating\<close>

text \<open>The steps of the run, each a statement or an operation on explicit tables.\<close>

definition ex_shell :: memory_tables where
  "ex_shell = ex_tables 0 0 (ex_item Rev_Proposed 0 False None 5) [] [] [] []"
definition ex_introduced :: memory_tables where
  "ex_introduced = ex_tables 0 (Suc 0) (ex_item Rev_Proposed 1 True None 5) [ex_blob] [ex_revision_row Rev_Proposed (Some ex_content_id)] [] []"
definition ex_validated :: memory_tables where
  "ex_validated = ex_tables 0 2 (ex_item Rev_Proposed 2 True None 5) [ex_blob] [ex_revision_row Rev_Proposed (Some ex_content_id)]
     [ex_validation_row] []"
definition ex_activated :: memory_tables where
  "ex_activated = ex_tables 0 3 (ex_item Rev_Active 3 True (Some ex_revision) 5) [ex_blob]
     [ex_revision_row Rev_Active (Some ex_content_id)] [ex_validation_row] [ex_fts_row]"

lemma ex_rows_simps [simp]:
  "ex_rows 0 @ [operation_row (ex_operation (Suc 0)) (ex_encoded (Suc 0))] = ex_rows (Suc 0)"
  "ex_rows (Suc 0) @ [operation_row (ex_operation 2) (ex_encoded 2)] = ex_rows 2"
  "ex_rows 2 @ [operation_row (ex_operation 3) (ex_encoded 3)] = ex_rows 3"
  "ex_rows 3 @ [operation_row (ex_operation 4) (ex_encoded 4)] = ex_rows 4"
  by (simp_all add: ex_rows_def)

lemma ex_metadata_parts [simp]:
  "mv_revision ex_metadata = 1" "mv_revision_id ex_metadata = ex_revision" "mv_status ex_metadata = Rev_Proposed"
  "mv_content_hash ex_metadata = ex_digest" "mv_sensitivity ex_metadata = Sens_Internal" "mv_evidence ex_metadata = []"
  "mv_relations ex_metadata = []" "mv_created_at ex_metadata = 5" "mv_subject_key ex_metadata = None"
  "mv_origin ex_metadata = ExplicitUser" "mv_trust_class ex_metadata = UserApproved"
  "mv_confidence ex_metadata = ConfidenceBasisPoints 9000" "mv_validity ex_metadata = Indefinite"
  "mv_supersedes_revision_id ex_metadata = None"
  by (simp_all add: ex_metadata_def from_draft_def ex_draft_def)

lemma insert_operation_row:
  "insert_operation t operation enc =
     and_then (sql_sequence (mo_sequence operation)) (\<lambda>_.
     run_memory IK_MemoryOperation (t\<lparr>mt_operations := mt_operations t @ [operation_row operation enc]\<rparr>))"
  by (simp add: insert_operation_def operation_row_def)

lemma ex_tables_simps [simp]:
  "mt_items (ex_tables g n i b r v f) = [i]" "mt_blobs (ex_tables g n i b r v f) = b"
  "mt_operations (ex_tables g n i b r v f) = ex_rows n" "mt_revisions (ex_tables g n i b r v f) = r"
  "mt_evidence (ex_tables g n i b r v f) = []" "mt_validations (ex_tables g n i b r v f) = v"
  "mt_fts (ex_tables g n i b r v f) = f" "mt_turns (ex_tables g n i b r v f) = []"
  "mt_admissions (ex_tables g n i b r v f) = []" "mt_generation (ex_tables g n i b r v f) = g"
  "mt_mutation_generation (ex_tables g n i b r v f) = g"
  "(ex_tables g n i b r v f)\<lparr>mt_items := [i']\<rparr> = ex_tables g n i' b r v f"
  "(ex_tables g n i b r v f)\<lparr>mt_blobs := b'\<rparr> = ex_tables g n i b' r v f"
  "(ex_tables g n i b r v f)\<lparr>mt_operations := ex_rows n'\<rparr> = ex_tables g n' i b r v f"
  "(ex_tables g n i b r v f)\<lparr>mt_revisions := r'\<rparr> = ex_tables g n i b r' v f"
  "(ex_tables g n i b r v f)\<lparr>mt_validations := v'\<rparr> = ex_tables g n i b r v' f"
  "(ex_tables g n i b r v f)\<lparr>mt_fts := f'\<rparr> = ex_tables g n i b r v f'"
  "(ex_tables g n i b r v f)\<lparr>mt_evidence := []\<rparr> = ex_tables g n i b r v f"
  "(ex_tables g n i b r v f)\<lparr>mt_turns := [], mt_admissions := []\<rparr> = ex_tables g n i b r v f"
  "(ex_tables g n i b r v f)\<lparr>mt_blobs := b', mt_revisions := r', mt_evidence := []\<rparr> = ex_tables g n i b' r' v f"
  by (simp_all add: ex_tables_def empty_memory_tables_def)

lemma ex_run [simp]:
  "n \<le> 4 \<Longrightarrow> (lifecycle = Rev_Active \<longleftrightarrow> active \<noteq> None) \<Longrightarrow> b \<in> {[], [ex_blob]} \<Longrightarrow>
     run_memory kind (ex_tables g n (ex_item lifecycle n' revised active at) b [] [] [])
       = Ok (ex_tables g n (ex_item lifecycle n' revised active at) b [] [] [])"
  "1 \<le> n \<Longrightarrow> n \<le> 4 \<Longrightarrow> (lifecycle = Rev_Active \<longleftrightarrow> active \<noteq> None) \<Longrightarrow> b \<in> {[], [ex_blob]}
     \<Longrightarrow> (state = Rev_Deleted \<longrightarrow> content = None) \<Longrightarrow> content = None \<or> content = Some ex_content_id \<and> b = [ex_blob]
     \<Longrightarrow> v = [] \<or> v = [ex_validation_row] \<and> n \<ge> 2 \<Longrightarrow> f \<in> {[], [ex_fts_row]} \<Longrightarrow>
     run_memory kind (ex_tables g n (ex_item lifecycle n' revised active at) b [ex_revision_row state content] v f)
       = Ok (ex_tables g n (ex_item lifecycle n' revised active at) b [ex_revision_row state content] v f)"
  unfolding run_memory_def
  by (auto intro: ex_schema [where state = Rev_Proposed and content = None])
     (auto intro: ex_schema)

lemma ex_item_simps [simp]:
  "mi_memory_id (ex_item l n rv a at) = ex_id" "mi_active_revision_id (ex_item l n rv a at) = a"
  "mi_lifecycle (ex_item l n rv a at) = l" "mi_last_sequence (ex_item l n rv a at) = n"
  "mi_latest_revision (ex_item l n False a at) = 0"
  "(ex_item l n rv a at)\<lparr>mi_last_sequence := n', mi_updated_at := at'\<rparr> = ex_item l n' rv a at'"
  "(ex_item l n rv a at)\<lparr>mi_lifecycle := l', mi_active_revision_id := a'\<rparr> = ex_item l' n rv a' at"
  "(ex_item l n rv a at)\<lparr>mi_latest_revision := Suc 0, mi_latest_revision_id := Some ex_revision, mi_lifecycle := l'\<rparr>
     = ex_item l' n True a at"
  by (simp_all add: ex_item_def)

lemma ex_revision_row_simps [simp]:
  "rv_revision_id (ex_revision_row st c) = ex_revision" "rv_memory_id (ex_revision_row st c) = ex_id"
  "rv_state (ex_revision_row st c) = st" "rv_content_id (ex_revision_row st c) = c"
  "rv_search_rowid (ex_revision_row st c) = Suc 0" "rv_revision (ex_revision_row st c) = Suc 0"
  "(ex_revision_row st c)\<lparr>rv_state := st'\<rparr> = ex_revision_row st' c"
  "(ex_revision_row st c)\<lparr>rv_content_id := c'\<rparr> = ex_revision_row st c'"
  "rv_metadata_json (ex_revision_row st c) = [0]" "rv_metadata_sha256 (ex_revision_row st c) = ex_sha [0]"
  by (simp_all add: ex_revision_row_def)

lemma ex_lib_simps [simp]:
  "mk_sha256 ex_lib = ex_sha" "mk_revision_json ex_lib v = Some [0]" "mk_revision_parse ex_lib bs = Some ex_metadata"
  "mk_validation_json ex_lib val = Some [0]" "mk_operation_parse ex_lib [k] = Some (ex_operation k)"
  by (simp_all add: ex_lib_def)

lemmas ex_eval = append_entry_def validate_memory_causation_def insert_operation_row sql_sequence_def apply_operation_def
  introduce_def update_item_def set_where_def find_item_def find_revision_def find_blob_def require_revision_state_def
  set_revision_state_def put_state_def

lemma ex_fold_rows [simp]:
  "\<lparr>bl_content_id = memory_content_id ex_revision, bl_content_utf8 = as_bytes (content_str (mrc_content ex_sidecar)),
     bl_content_sha256 = ex_sha (as_bytes (content_str (mrc_content ex_sidecar))), bl_created_at = 5\<rparr> = ex_blob"
  "mt_revisions t = [] \<Longrightarrow> revision_row ex_lib t (ex_operation (Suc 0)) ex_metadata [0] ex_hash
     = ex_revision_row Rev_Proposed (Some ex_content_id)"
  "\<lparr>vd_operation_id = ex_operation_id 34, vd_revision_id = ex_revision, vd_validator_version = vr_validator_version ex_validation,
     vd_content_sha256 = ex_hash, vd_outcome = vr_status ex_validation, vd_validation_json = [0], vd_created_at = 5\<rparr>
     = ex_validation_row"
  "\<lparr>fts_rowid = Suc 0, fts_content = bl_content_utf8 ex_blob, fts_revision_id = ex_revision, fts_memory_id = ex_id\<rparr> = ex_fts_row"
  "bl_content_id ex_blob = ex_content_id" "mrc_evidence ex_sidecar = []" "vr_content_hash ex_validation = ex_digest"
  "or_operation_id (operation_row operation enc) = mo_operation_id operation"
  "or_memory_id (operation_row operation enc) = mo_memory_id operation"
  "or_sequence (operation_row operation enc) = mo_sequence operation"
  "fts_memory_id ex_fts_row = ex_id" "fts_revision_id ex_fts_row = ex_revision"
  by (simp_all add: ex_blob_def ex_content_id_def ex_sidecar_def ex_text_def utf8_char_def revision_row_def next_rowid_def
      ex_revision_row_def ex_validation_row_def ex_validation_def ex_fts_row_def operation_row_def)

lemma ex_find_operation [simp]:
  "find (\<lambda>r. or_operation_id r = ex_operation_id 74) (ex_rows (Suc 0)) = Some (operation_row (ex_operation (Suc 0)) (ex_encoded (Suc 0)))"
  "find (\<lambda>r. or_operation_id r = ex_operation_id 34) (ex_rows 2) = Some (operation_row (ex_operation 2) (ex_encoded 2))"
  by (simp_all add: ex_rows_def)

lemma ex_step1:
  "append_entry ex_lib ex_shell (\<lparr>mao_operation = ex_operation (Suc 0), mao_content = Some ex_sidecar\<rparr>, ex_encoded (Suc 0))
     = Ok ex_introduced"
  by (simp add: ex_eval ex_shell_def ex_introduced_def insert_revision_def checked_add_u64_def insert_blob_def Let_def
      ex_digest_bytes(1) apply_revision_projection_def lifecycle_unless_active_def)

lemma ex_step2:
  "append_entry ex_lib ex_introduced (\<lparr>mao_operation = ex_operation 2, mao_content = None\<rparr>, ex_encoded 2) = Ok ex_validated"
  by (simp add: ex_eval ex_introduced_def ex_validated_def Let_def record_validation_def decode_revision_def ex_digest_bytes(1))

lemma ex_step3:
  "append_entry ex_lib ex_validated (\<lparr>mao_operation = ex_operation 3, mao_content = None\<rparr>, ex_encoded 3) = Ok ex_activated"
  by (simp add: ex_eval ex_validated_def ex_activated_def Let_def activate_revision_def deactivate_current_revision_def
      add_revision_to_fts_def)

definition ex_created :: memory_tables where
  "ex_created = ex_tables 1 3 (ex_item Rev_Active 3 True (Some ex_revision) 5) [ex_blob]
     [ex_revision_row Rev_Active (Some ex_content_id)] [ex_validation_row] [ex_fts_row]"

definition ex_receipt :: "nat \<Rightarrow> nat \<Rightarrow> memory_append_receipt" where
  "ex_receipt n g = \<lparr>mar_disposition = Committed, mar_last_sequence = n, mar_generation = g, mar_mutation_generation = g\<rparr>"

lemma ex_json [simp]:
  "mk_operation_json ex_lib (ex_operation (Suc 0)) = Some [Suc 0]" "mk_operation_json ex_lib (ex_operation 2) = Some [2]"
  "mk_operation_json ex_lib (ex_operation 3) = Some [3]" "mk_operation_json ex_lib (ex_operation 4) = Some [4]"
  by (simp_all add: ex_lib_def)

lemma ex_create_encoded:
  "encode_and_validate_batch ex_lib ex_create_batch = Ok [ex_encoded (Suc 0), ex_encoded 2, ex_encoded 3]"
  by (simp add: encode_and_validate_batch_def ex_create_batch_def checked_add_u64_def Let_def encode_and_validate_def
      validate_content_sidecar_def memory_schema_v1_def max_memory_operation_bytes_def ex_encoded_def ex_sidecar_def
      ex_content_hash numeral_2_eq_2 [symmetric] numeral_3_eq_3 [symmetric])

lemma ex_create_append: "append_memory_batch ex_lib empty_memory_tables ex_create_batch = (Ok (ex_receipt 3 1), ex_created)"
proof -
  have shell: "insert_memory_item_shell empty_memory_tables (ex_operation (Suc 0)) = Ok ex_shell"
  proof -
    have "empty_memory_tables\<lparr>mt_items := mt_items empty_memory_tables @
       [\<lparr>mi_memory_id = ex_id, mi_scope = ex_user_scope, mi_kind = Kind_Fact, mi_lifecycle = Rev_Proposed, mi_last_sequence = 0,
         mi_latest_revision = 0, mi_latest_revision_id = None, mi_active_revision_id = None, mi_created_at = 5,
         mi_updated_at = 5\<rparr>]\<rparr> = ex_shell"
      by (simp add: ex_shell_def ex_tables_def ex_item_def empty_memory_tables_def ex_rows_def)
    then show ?thesis by (simp add: insert_memory_item_shell_def) (simp add: ex_shell_def)
  qed
  let ?ops = "[\<lparr>mao_operation = ex_operation (Suc 0), mao_content = Some ex_sidecar\<rparr>,
     \<lparr>mao_operation = ex_operation 2, mao_content = None\<rparr>, \<lparr>mao_operation = ex_operation 3, mao_content = None\<rparr>]"
  let ?es = "zip ?ops [ex_encoded (Suc 0), ex_encoded 2, ex_encoded 3]"
  have ops: "mab_operations ex_create_batch = ?ops" "mab_expected_last_sequence ex_create_batch = 0"
    by (simp_all add: ex_create_batch_def)
  have count: "count_existing empty_memory_tables ?es = Ok 0"
    by (simp add: count_existing_def find_operation_def empty_memory_tables_def)
  have before: "current_memory_sequence empty_memory_tables ex_id = 0" "current_active_revision empty_memory_tables ex_id = None"
    by (simp_all add: current_memory_sequence_def current_active_revision_def find_item_def empty_memory_tables_def)
  have after: "current_active_revision ex_activated ex_id = Some ex_revision" "mt_generation ex_activated = 0"
    "mt_mutation_generation ex_activated = 0"
    by (simp_all add: current_active_revision_def find_item_def ex_activated_def)
  have final: "ex_activated\<lparr>mt_generation := Suc 0, mt_mutation_generation := Suc 0, mt_state_updated_at := 5\<rparr> = ex_created"
    by (simp add: ex_activated_def ex_created_def ex_tables_def empty_memory_tables_def)
  have "commit_new ex_lib empty_memory_tables ex_create_batch ?es (ex_operation (Suc 0)) (ex_operation 3)
      = Ok (ex_receipt 3 1, ex_created)"
    by (simp add: commit_new_def Let_def shell ops before ex_step1 ex_step2 ex_step3 after increment_generation_def
        read_generation_def memory_generation_new_def memory_generation_next_def checked_add_u64_def sql_sequence_def
        increment_mutation_generation_def final ex_receipt_def)
  then show ?thesis
    by (simp add: append_memory_batch_def append_batch_transaction_def ex_create_encoded ops Let_def count del: zip_Cons_Cons)
qed

lemma ex_create_execute:
  "execute_memory_command ex_lib empty_memory_tables ex_create 5
     = (Ok \<lparr>mcc_receipt = ex_receipt 3 1, mcc_validation = Some ex_validation\<rparr>, ex_created)"
proof -
  have "mcmd_memory_id ex_create = ex_id" by (simp add: ex_create_def)
  then show ?thesis
    by (simp add: execute_memory_command_def ex_create_snapshot ex_create_plan ex_create_append)
qed

section \<open>Deleting\<close>

lemma ex_created_index: "index_inv {} ex_created"
  using append_index [OF ex_create_append index_inv_empty] .

definition ex_delete_batch :: memory_append_batch where
  "ex_delete_batch = \<lparr>mab_expected_last_sequence = 3,
     mab_operations = [\<lparr>mao_operation = ex_operation 4, mao_content = None\<rparr>]\<rparr>"

definition ex_deleted :: memory_tables where
  "ex_deleted = (ex_tables 1 4 (ex_item Rev_Deleted 4 True None 7) [] [ex_revision_row Rev_Deleted None] [ex_validation_row] [])
     \<lparr>mt_generation := 2, mt_mutation_generation := 2, mt_state_updated_at := 7\<rparr>"

lemma ex_created_operations:
  "load_all_operations ex_lib ex_created ex_id = Ok [ex_operation (Suc 0), ex_operation 2, ex_operation 3]"
proof -
  have "rows_after ex_created ex_id 0 = ex_rows 3"
    by (simp add: rows_after_def ex_created_def ex_rows_def)
  moreover have "sort_key or_sequence (ex_rows 3) = ex_rows 3" by (simp add: ex_rows_def)
  moreover have "check_operations ex_lib ex_id 1 (ex_rows 3) = Ok [ex_operation (Suc 0), ex_operation 2, ex_operation 3]"
    by (simp add: ex_rows_def operation_row_def ex_encoded_def checked_add_u64_def numeral_2_eq_2 [symmetric] numeral_3_eq_3 [symmetric])
  ultimately show ?thesis
    using load_pages_complete [of ex_lib ex_id 0 ex_created _ "[]"] ex_created_index
    by (simp add: load_all_operations_def index_inv_def)
qed

lemma ex_created_revisions:
  "load_memory_revisions ex_lib ex_created ex_id = Ok [with_status ex_metadata Rev_Active]"
  by (simp add: load_memory_revisions_def ex_created_def decode_projected_revision_def decode_revision_def)

lemma ex_delete_plan:
  "plan_memory_command ex_sha ex_delete 7 [ex_operation (Suc 0), ex_operation 2, ex_operation 3] [with_status ex_metadata Rev_Active] []
     = Ok \<lparr>mcp_batch = ex_delete_batch, mcp_validation = None\<rparr>"
proof -
  have command: "mcmd_payload ex_delete = DeleteMemory ex_revision" "mcmd_expected_sequence ex_delete = Some 3"
    "mcmd_memory_id ex_delete = ex_id" "mcmd_correlation_id ex_delete = CorrelationId [107]"
    "mcmd_command_id ex_delete = CommandId [99]"
    by (simp_all add: ex_delete_def)
  have op4: "memory_operation_new_v1 (ex_operation_id 75) ex_id 4 7 (Mem_Cause_Command (CommandId [99])) (CorrelationId [107])
      (MemoryDeleted ex_revision) = ex_operation 4" by (simp add: ex_operation_def)
  have found: "find_snapshot [with_status ex_metadata Rev_Active] ex_revision = Some (with_status ex_metadata Rev_Active)"
    "mv_status (with_status ex_metadata Rev_Active) = Rev_Active"
    by (simp_all add: find_snapshot_def with_status_def)
  show ?thesis
    by (simp add: plan_memory_command_def Let_def validate_snapshot_def consecutive_def saturating_succ_def command
        plan_single_def require_revision_def found bb_push_def batch_builder_new_def max_memory_command_operations_def
        checked_add_u64_def memory_sequence_new_def ex_stages bb_finish_def ex_delete_batch_def op4)
qed

lemma ex_delete_append: "append_memory_batch ex_lib ex_created ex_delete_batch = (Ok (ex_receipt 4 2), ex_deleted)"
proof -
  let ?e = "\<lparr>mao_operation = ex_operation 4, mao_content = None\<rparr>"
  let ?final = "ex_tables (Suc 0) 4 (ex_item Rev_Deleted 4 True None 7) [] [ex_revision_row Rev_Deleted None] [ex_validation_row] []"
  have enc: "encode_and_validate_batch ex_lib ex_delete_batch = Ok [ex_encoded 4]"
    by (simp add: encode_and_validate_batch_def ex_delete_batch_def checked_add_u64_def Let_def encode_and_validate_def
        validate_content_sidecar_def memory_schema_v1_def max_memory_operation_bytes_def ex_encoded_def)
  have ops: "mab_operations ex_delete_batch = [?e]" "mab_expected_last_sequence ex_delete_batch = 3"
    by (simp_all add: ex_delete_batch_def)
  have count: "count_existing ex_created [(?e, ex_encoded 4)] = Ok 0"
    by (simp add: count_existing_def find_operation_def ex_created_def ex_rows_def)
  have before: "current_memory_sequence ex_created ex_id = 3" "current_active_revision ex_created ex_id = Some ex_revision"
    by (simp_all add: current_memory_sequence_def current_active_revision_def find_item_def ex_created_def)
  have step: "append_entry ex_lib ex_created (?e, ex_encoded 4) = Ok ?final"
    by (simp add: ex_eval ex_created_def Let_def delete_memory_content_def erase_renderings_def revisions_of_def
        content_ids_of_def List.map_filter_def delete_blob_def)
  have after: "current_active_revision ?final ex_id = None" by (simp add: current_active_revision_def find_item_def)
  have "commit_new ex_lib ex_created ex_delete_batch [(?e, ex_encoded 4)] (ex_operation 4) (ex_operation 4)
      = Ok (ex_receipt 4 2, ex_deleted)"
    by (simp add: commit_new_def Let_def ops before step after increment_generation_def
        read_generation_def memory_generation_new_def memory_generation_next_def checked_add_u64_def sql_sequence_def
        increment_mutation_generation_def ex_receipt_def ex_deleted_def)
  then show ?thesis
    by (simp add: append_memory_batch_def append_batch_transaction_def enc ops Let_def count)
qed

lemma ex_delete_execute:
  "execute_memory_command ex_lib ex_created ex_delete 7
     = (Ok \<lparr>mcc_receipt = ex_receipt 4 2, mcc_validation = None\<rparr>, ex_deleted)"
proof -
  have "mcmd_memory_id ex_delete = ex_id" "mcmd_payload ex_delete = DeleteMemory ex_revision" by (simp_all add: ex_delete_def)
  then show ?thesis
    by (simp add: execute_memory_command_def ex_created_operations ex_created_revisions duplicate_candidates_def
        ex_delete_plan ex_delete_append)
qed

end
