(* ===== verification/Memory_Properties.thy ===== *)
theory Memory_Properties
  imports Memory_Example
begin

text \<open>
  The properties of the memory ledger and its commands, over the states that commands can reach. Between
  commands the context ledger may add any turns and admissions, whose renderings an erasure overwrites.
\<close>

section \<open>Reachable ledgers\<close>

inductive memory_reachable :: "memory_codec \<Rightarrow> memory_tables \<Rightarrow> bool" for lib where
  reach_empty: "memory_reachable lib empty_memory_tables"
| reach_command: "memory_reachable lib t \<Longrightarrow> execute_memory_command lib t command at = (r, u) \<Longrightarrow> memory_reachable lib u"
| reach_rendered: "memory_reachable lib t \<Longrightarrow> memory_reachable lib (t\<lparr>mt_turns := turns, mt_admissions := admissions\<rparr>)"

lemma index_rendered:
  "index_inv X (t\<lparr>mt_turns := turns, mt_admissions := admissions\<rparr>) \<longleftrightarrow> index_inv X t"
proof -
  let ?u = "t\<lparr>mt_turns := turns, mt_admissions := admissions\<rparr>"
  have ex: "item_exists ?u = item_exists t" "operation_exists ?u = operation_exists t"
    "revision_exists ?u = revision_exists t" "blob_exists ?u = blob_exists t"
    by (simp_all add: fun_eq_iff item_exists_def operation_exists_def revision_exists_def blob_exists_def)
  have "revision_row_ok ?u = revision_row_ok t" by (rule ext) (simp add: revision_row_ok_def ex)
  with ex have "memory_schema_ok ?u = memory_schema_ok t"
    by (simp add: memory_schema_ok_def items_ok_def blobs_ok_def operations_ok_def revisions_ok_def evidence_ok_def
        relations_ok_def validations_ok_def fts_ok_def)
  moreover have "fts_of ?u = fts_of t" by (simp add: fun_eq_iff fts_of_def find_blob_def)
  ultimately show ?thesis by (simp add: index_inv_def canonical_content_def fts_exact_def live_rows_def)
qed

text \<open>What a property of the tables must satisfy to hold in every reachable ledger.\<close>

locale ledger_invariant =
  fixes inv :: "memory_tables \<Rightarrow> bool"
  assumes inv_empty: "inv empty_memory_tables"
    and inv_execute: "inv t \<Longrightarrow> execute_memory_command lib t command at = (r, u) \<Longrightarrow> inv u"
    and inv_rendered: "inv t \<Longrightarrow> inv (t\<lparr>mt_turns := turns, mt_admissions := admissions\<rparr>)"
begin

lemma reachable: "memory_reachable lib t \<Longrightarrow> inv t"
  by (induction rule: memory_reachable.induct) (blast intro: inv_empty inv_execute inv_rendered)+

lemma reachable_after:
  "memory_reachable lib t \<Longrightarrow> execute_memory_command lib t command at = (r, u) \<Longrightarrow> inv t \<and> inv u"
  using reachable inv_execute by blast

end

interpretation indexed: ledger_invariant "index_inv {}"
proof unfold_locales
  show "index_inv {} empty_memory_tables" by (rule index_inv_empty)
next
  fix t lib command at r u assume inv: "index_inv {} t" and step: "execute_memory_command lib t command at = (r, u)"
  from step show "index_inv {} u" by (cases rule: command_cases) (use inv append_index in auto)
qed (simp add: index_rendered)

interpretation approving: ledger_invariant approved
proof unfold_locales
  show "approved empty_memory_tables" by (simp add: approved_def active_ids_def empty_memory_tables_def)
next
  show "approved u" if "approved t" "execute_memory_command lib t command at = (r, u)" for lib t command at r u
    using execute_approved that by blast
qed (simp add: approved_def active_ids_def user_ids_def accepted_ids_def)

lemma ex_created_reachable: "memory_reachable ex_lib ex_created"
  using reach_command [OF reach_empty ex_create_execute] .

section \<open>Approval\<close>

text \<open>
  C12: Only what the user approved is active: in every ledger that commands reach, a revision in state
  active came from the user, is marked as approved by the user, is not secret, and the ledger holds a
  validation of it with the outcome accepted. Proposals of models, tools and imports never get there.
\<close>

theorem only_approved_memory_is_active:
  assumes "memory_reachable lib t" "r \<in> set (mt_revisions t)" "rv_state r = Rev_Active"
  shows "rv_origin r = ExplicitUser \<and> rv_trust_class r = UserApproved \<and> rv_sensitivity r \<noteq> Sens_Secret
    \<and> (\<exists>d \<in> set (mt_validations t). vd_revision_id d = rv_revision_id r \<and> vd_outcome d = Validation_Accepted)"
proof -
  have inv: "approved t" "memory_schema_ok t"
    using approving.reachable [OF assms(1)] indexed.reachable [OF assms(1)] by (simp_all add: index_inv_def)
  have "rv_revision_id r \<in> user_ids t \<inter> accepted_ids t"
    using inv(1) assms(2,3) unfolding approved_def active_ids_def by blast
  then obtain r' where "r' \<in> set (mt_revisions t)" "rv_revision_id r' = rv_revision_id r" "rv_origin r' = ExplicitUser"
    "rv_trust_class r' = UserApproved" "rv_sensitivity r' \<noteq> Sens_Secret" and "rv_revision_id r \<in> accepted_ids t"
    unfolding user_ids_def by auto
  then show ?thesis using schema_unique [OF inv(2) _ assms(2)] unfolding accepted_ids_def by auto
qed

theorem only_approved_memory_is_active_witness:
  "rv_origin (ex_revision_row Rev_Active (Some ex_content_id)) = ExplicitUser
   \<and> (\<exists>d \<in> set (mt_validations ex_created). vd_revision_id d = ex_revision \<and> vd_outcome d = Validation_Accepted)"
  using only_approved_memory_is_active [OF ex_created_reachable, of "ex_revision_row Rev_Active (Some ex_content_id)"]
  by (simp add: ex_created_def)

section \<open>Search\<close>

text \<open>
  C13: The search index is exact: in every ledger that commands reach, the rows of the index are those of
  the active revisions that still have content, each with that content, so a superseded, rejected,
  retracted or deleted memory cannot be found and an active one cannot be missed.
\<close>

theorem search_index_is_exact:
  assumes "memory_reachable lib t"
  shows "f \<in> set (mt_fts t) \<longleftrightarrow>
    (\<exists>r \<in> set (mt_revisions t). \<exists>b \<in> set (mt_blobs t). rv_state r = Rev_Active \<and> rv_content_id r = Some (bl_content_id b)
       \<and> f = \<lparr>fts_rowid = rv_search_rowid r, fts_content = bl_content_utf8 b,
              fts_revision_id = rv_revision_id r, fts_memory_id = rv_memory_id r\<rparr>)"
proof -
  have inv: "memory_schema_ok t" "set (mt_fts t) = fts_of t ` live_rows {} t"
    using indexed.reachable [OF assms] by (simp_all add: index_inv_def fts_exact_def)
  have distinct: "distinct (map bl_content_id (mt_blobs t))" using inv(1) by (simp add: memory_schema_ok_def blobs_ok_def)
  have blob: "find_blob t c = Some b \<longleftrightarrow> b \<in> set (mt_blobs t) \<and> bl_content_id b = c" for b c
  proof
    assume "find_blob t c = Some b"
    then show "b \<in> set (mt_blobs t) \<and> bl_content_id b = c" by (auto simp: find_blob_def dest: find_SomeD)
  next
    assume b: "b \<in> set (mt_blobs t) \<and> bl_content_id b = c"
    then obtain b' where "find_blob t c = Some b'" by (fastforce simp: find_blob_def find_None_iff simp flip: not_None_eq)
    then show "find_blob t c = Some b"
      using b distinct by (auto simp: find_blob_def distinct_map inj_on_def dest!: find_SomeD)
  qed
  show ?thesis
  proof
    assume "f \<in> set (mt_fts t)"
    then obtain r c where r: "r \<in> set (mt_revisions t)" "rv_state r = Rev_Active" "rv_content_id r = Some c" "f = fts_of t r"
      unfolding inv(2) live_rows_def searchable_def by auto
    from schema_content_exists [OF inv(1) r(1,3)] obtain b where "find_blob t c = Some b" ..
    with r blob show "\<exists>r \<in> set (mt_revisions t). \<exists>b \<in> set (mt_blobs t). rv_state r = Rev_Active \<and> rv_content_id r = Some (bl_content_id b)
       \<and> f = \<lparr>fts_rowid = rv_search_rowid r, fts_content = bl_content_utf8 b,
              fts_revision_id = rv_revision_id r, fts_memory_id = rv_memory_id r\<rparr>"
      by (intro bexI [of _ r] bexI [of _ b]) (auto simp: fts_of_def)
  next
    assume "\<exists>r \<in> set (mt_revisions t). \<exists>b \<in> set (mt_blobs t). rv_state r = Rev_Active \<and> rv_content_id r = Some (bl_content_id b)
       \<and> f = \<lparr>fts_rowid = rv_search_rowid r, fts_content = bl_content_utf8 b,
              fts_revision_id = rv_revision_id r, fts_memory_id = rv_memory_id r\<rparr>"
    then obtain r b where r: "r \<in> set (mt_revisions t)" "b \<in> set (mt_blobs t)" "rv_state r = Rev_Active"
      "rv_content_id r = Some (bl_content_id b)"
      "f = \<lparr>fts_rowid = rv_search_rowid r, fts_content = bl_content_utf8 b,
            fts_revision_id = rv_revision_id r, fts_memory_id = rv_memory_id r\<rparr>" by blast
    then have "find_blob t (bl_content_id b) = Some b" using blob by simp
    with r have "f = fts_of t r" "r \<in> live_rows {} t" by (simp_all add: fts_of_def live_rows_def searchable_def)
    then show "f \<in> set (mt_fts t)" unfolding inv(2) by blast
  qed
qed

theorem search_index_is_exact_witness:
  "ex_fts_row \<in> set (mt_fts ex_created) \<and>
    (\<exists>r \<in> set (mt_revisions ex_created). \<exists>b \<in> set (mt_blobs ex_created). rv_state r = Rev_Active
       \<and> rv_content_id r = Some (bl_content_id b)
       \<and> ex_fts_row = \<lparr>fts_rowid = rv_search_rowid r, fts_content = bl_content_utf8 b,
              fts_revision_id = rv_revision_id r, fts_memory_id = rv_memory_id r\<rparr>)"
  using search_index_is_exact [OF ex_created_reachable, of ex_fts_row] by (simp add: ex_created_def)

section \<open>Erasure\<close>

text \<open>The tables after a committed deletion.\<close>

lemma committed_delete:
  assumes "execute_memory_command lib t command at = (Ok commit, u)" "mcmd_payload command = DeleteMemory i"
    "mar_disposition (mcc_receipt commit) = Committed" "index_inv {} t" "m = mcmd_memory_id command"
  shows "mt_fts u = filter (\<lambda>f. fts_memory_id f \<noteq> m) (mt_fts t)"
    "mt_blobs u = filter (\<lambda>b. bl_content_id b \<notin> set (content_ids_of t m)) (mt_blobs t)"
    "mt_evidence u = mt_evidence (erased_tables t m)"
    "mt_revisions u = mt_revisions (put_state (erased_tables t m) i Rev_Deleted)"
    "mt_turns u = mt_turns (erase_renderings t m)" "mt_admissions u = mt_admissions (erase_renderings t m)"
    "i \<in> set (revisions_of t m)"
proof -
  from assms(1,3) obtain operations revisions existing plan where ex:
    "plan_memory_command (mk_sha256 lib) command at operations revisions existing = Ok plan"
    "load_all_operations lib t (mcmd_memory_id command) = Ok operations"
    "append_memory_batch lib t (mcp_batch plan) = (Ok (mcc_receipt commit), u)" by (rule committed_execute)
  have payloads: "batch_payloads (mcp_batch plan) = [MemoryDeleted i]"
    using ex(1) assms(2) unfolding plan_memory_command_def Let_def
    by (auto simp: result_simps dest!: plan_single_payload)
  then obtain entry where entry: "mab_operations (mcp_batch plan) = [entry]" "mo_payload (mao_operation entry) = MemoryDeleted i"
    unfolding batch_payloads_def by auto
  have m: "mo_memory_id (mao_operation entry) = m"
    using plan_command_ok [OF ex(1)] entry(1) assms(5) by (simp add: plan_ok_def of_command_def)
  from ex(3) assms(3) obtain encoded where tr: "encode_and_validate_batch lib (mcp_batch plan) = Ok encoded"
    "commit_new lib t (mcp_batch plan) (zip [entry] encoded) (mao_operation entry) (mao_operation entry) = Ok (mcc_receipt commit, u)"
    by (rule committed_transaction) (rule that, simp_all add: entry(1))
  obtain enc where "encoded = [enc]" using encoded_batch(2) [OF tr(1) refl] entry(1) by (cases encoded) auto
  with tr(2) entry(2) obtain t2 where t2: "append_entry lib t (entry, enc) = Ok t2"
    "u = t2\<lparr>mt_generation := mar_generation (mcc_receipt commit), mt_mutation_generation := mt_mutation_generation t2 + 1,
            mt_state_updated_at := mo_occurred_at (mao_operation entry)\<rparr>"
    by (auto elim!: commit_parts simp: and_then_Ok)
  from t2(1) entry(2) m obtain t1 w f where steps: "insert_operation t (mao_operation entry) enc = Ok t1"
    "require_revision_state t1 m i [Rev_Proposed, Rev_Active, Rev_Rejected, Rev_Retracted] = Ok ()"
    "delete_memory_content t1 m i = Ok w" "update_item w m f = Ok t2"
    by (auto simp: append_entry_def apply_operation_def Let_def and_then_Ok)
  obtain row where t1: "t1 = t\<lparr>mt_operations := mt_operations t @ [row]\<rparr>" "memory_schema_ok t1"
    using steps(1) by (auto simp: insert_operation_def result_simps)
  have same: "content_ids_of t1 m = content_ids_of t m" "revisions_of t1 m = revisions_of t m" "canonical_content t1"
    using assms(4) by (simp_all add: t1(1) content_ids_of_def revisions_of_def index_inv_def canonical_content_def)
  from steps(3) obtain t5 t6 where p: "memory_schema_ok (erased_tables t1 m)"
    "try_fold (\<lambda>t c. run_memory IK_Constraint (delete_blob c t)) (erased_tables t1 m) (content_ids_of t1 m) = Ok t5"
    "t6 = put_state t5 i Rev_Deleted" "memory_schema_ok t6"
    "update_item t6 m (\<lambda>r. r\<lparr>mi_lifecycle := Rev_Deleted, mi_active_revision_id := None\<rparr>) = Ok w"
    by (rule delete_parts)
  note t5 = deleted_tables(1) [OF p(2) same(3) t1(2) p(1)]
  have w: "w = t6\<lparr>mt_items := mt_items w\<rparr>" "t2 = w\<lparr>mt_items := mt_items t2\<rparr>"
    using p(5) steps(4) by (auto simp: update_item_Ok)
  have fields: "mt_fts u = mt_fts t5" "mt_blobs u = mt_blobs t5" "mt_evidence u = mt_evidence t5"
    "mt_revisions u = mt_revisions (put_state t5 i Rev_Deleted)" "mt_turns u = mt_turns t5" "mt_admissions u = mt_admissions t5"
    by (simp_all add: t2(2), (subst w(2), subst w(1), simp add: p(3) put_state_def)+)
  have erased: "erased_tables t1 m = (erased_tables t m)\<lparr>mt_operations := mt_operations t1\<rparr>"
    by (simp add: erased_tables_def erase_renderings_def Let_def t1(1) revisions_of_def)
  show "mt_fts u = filter (\<lambda>f. fts_memory_id f \<noteq> m) (mt_fts t)"
    "mt_blobs u = filter (\<lambda>b. bl_content_id b \<notin> set (content_ids_of t m)) (mt_blobs t)"
    "mt_evidence u = mt_evidence (erased_tables t m)"
    "mt_revisions u = mt_revisions (put_state (erased_tables t m) i Rev_Deleted)"
    "mt_turns u = mt_turns (erase_renderings t m)" "mt_admissions u = mt_admissions (erase_renderings t m)"
    unfolding fields t5 erased same by (simp_all add: put_state_def t1(1) erased_tables_def Let_def)
  show "i \<in> set (revisions_of t m)"
    using require_state_row [OF steps(2)] by (auto simp: t1(1) revisions_of_def)
qed

lemma deleted_revisions:
  assumes "memory_schema_ok t" "i \<in> set (revisions_of t m)"
    "rows = mt_revisions (put_state (erased_tables t m) i Rev_Deleted)"
  shows "\<And>r. r \<in> set rows \<Longrightarrow> rv_memory_id r = m \<Longrightarrow> rv_content_id r = None"
    "map rv_revision_id rows = map rv_revision_id (mt_revisions t)"
    "map rv_memory_id rows = map rv_memory_id (mt_revisions t)"
    "\<And>r. r \<in> set (mt_revisions t) \<Longrightarrow> rv_memory_id r \<noteq> m \<Longrightarrow> r \<in> set rows"
proof -
  have erased: "mt_revisions (erased_tables t m)
      = set_where (\<lambda>r. rv_memory_id r = m) (\<lambda>r. r\<lparr>rv_content_id := None\<rparr>) (mt_revisions t)"
    by (simp add: erased_tables_def Let_def)
  have gone: "rv_content_id r = None" if "r \<in> set (mt_revisions (erased_tables t m))" "rv_memory_id r = m" for r
    using set_where_cases [OF that(1) [unfolded erased]] that(2) by (elim bexE) (simp split: if_splits)
  show "rv_content_id r = None" if "r \<in> set rows" "rv_memory_id r = m" for r
  proof -
    from that(1) obtain r0 where r0: "r0 \<in> set (mt_revisions (erased_tables t m))"
      "r = (if rv_revision_id r0 = i then r0\<lparr>rv_state := Rev_Deleted\<rparr> else r0)"
      unfolding assms(3) put_state_def by (auto dest!: set_where_cases)
    then have "rv_memory_id r0 = rv_memory_id r" "rv_content_id r0 = rv_content_id r"
      by (cases "rv_revision_id r0 = i"; simp)+
    with gone [OF r0(1)] that(2) show ?thesis by simp
  qed
  show "map rv_revision_id rows = map rv_revision_id (mt_revisions t)"
    "map rv_memory_id rows = map rv_memory_id (mt_revisions t)"
    unfolding assms(3) put_state_def by (simp_all add: erased map_set_where)
  fix r assume r: "r \<in> set (mt_revisions t)" "rv_memory_id r \<noteq> m"
  obtain r0 where "r0 \<in> set (mt_revisions t)" "rv_memory_id r0 = m" "rv_revision_id r0 = i"
    using assms(2) by (auto simp: revisions_of_def)
  with r have "rv_revision_id r \<noteq> i" using schema_unique [OF assms(1), of r r0] by auto
  moreover have "r \<in> set (mt_revisions (erased_tables t m))" using r unfolding erased set_set_where by blast
  ultimately show "r \<in> set rows" unfolding assms(3) put_state_rows by blast
qed

lemma revisions_of_cong:
  "map rv_revision_id rows = map rv_revision_id (mt_revisions t) \<Longrightarrow> map rv_memory_id rows = map rv_memory_id (mt_revisions t)
     \<Longrightarrow> mt_revisions u = rows \<Longrightarrow> revisions_of u m = revisions_of t m"
proof -
  assume a: "map rv_revision_id rows = map rv_revision_id (mt_revisions t)" "map rv_memory_id rows = map rv_memory_id (mt_revisions t)"
    "mt_revisions u = rows"
  have "map rv_revision_id (filter (\<lambda>r. rv_memory_id r = m) xs)
      = map fst (filter (\<lambda>x. snd x = m) (zip (map rv_revision_id xs) (map rv_memory_id xs)))" for xs
    by (induction xs) simp_all
  with a show ?thesis unfolding revisions_of_def by metis
qed

text \<open>
  C14: Deleting a memory erases it: once a delete command is committed, no content of any revision of the
  item can be loaded, its blobs and the excerpts of its evidence are gone with their digests, the index
  has no row of it, and every rendering of a context that admitted one of its revisions, and of the
  turn, is erased; the content of every other item can be loaded as before.
\<close>

theorem deletion_erases_the_content:
  assumes "memory_reachable lib t" "execute_memory_command lib t command at = (Ok commit, u)"
    "mcmd_payload command = DeleteMemory i" "mar_disposition (mcc_receipt commit) = Committed"
  shows "(\<forall>j \<in> set (revisions_of u (mcmd_memory_id command)). load_memory_content lib u j = Ok None)
    \<and> (\<forall>b \<in> set (mt_blobs u). bl_content_id b \<notin> set (content_ids_of t (mcmd_memory_id command)))
    \<and> (\<forall>e \<in> set (mt_evidence u). ve_revision_id e \<in> set (revisions_of u (mcmd_memory_id command))
         \<longrightarrow> ve_excerpt_content_id e = None \<and> ve_excerpt_sha256 e = None)
    \<and> (\<forall>f \<in> set (mt_fts u). fts_memory_id f \<noteq> mcmd_memory_id command)
    \<and> (\<forall>a \<in> set (mt_admissions u). \<forall>j \<in> set (revisions_of u (mcmd_memory_id command)). ra_memory_revision_id a = Some j
         \<longrightarrow> ra_rendered a = Rendering_Erased
           \<and> (\<forall>x \<in> set (mt_turns u). rt_context_turn_id x = ra_context_turn_id a \<longrightarrow> rt_rendered x = Rendering_Erased))
    \<and> (\<forall>r \<in> set (mt_revisions t). rv_memory_id r \<noteq> mcmd_memory_id command
         \<longrightarrow> load_memory_content lib u (rv_revision_id r) = load_memory_content lib t (rv_revision_id r))"
    (is "?contents \<and> ?blobs \<and> ?evidence \<and> ?fts \<and> ?renderings \<and> ?others")
proof -
  define m where "m = mcmd_memory_id command"
  have inv: "index_inv {} t" "index_inv {} u"
    using indexed.reachable_after [OF assms(1,2)] by simp_all
  then have ok: "memory_schema_ok t" "memory_schema_ok u" "canonical_content t" by (simp_all add: index_inv_def)
  note effect = committed_delete [OF assms(2,3,4) inv(1) m_def]
  note rows = deleted_revisions [OF ok(1) effect(7) effect(4)]
  have ids: "revisions_of u m = revisions_of t m" by (rule revisions_of_cong [OF rows(2,3) refl])
  have ?contents
  proof
    fix j assume "j \<in> set (revisions_of u (mcmd_memory_id command))"
    then obtain r where "r \<in> set (mt_revisions u)" "rv_memory_id r = m" "rv_revision_id r = j"
      by (auto simp: revisions_of_def m_def)
    then show "load_memory_content lib u j = Ok None"
      using rows(1) find_revision_iff [OF ok(2), of j r] by (simp add: load_memory_content_def)
  qed
  moreover have ?blobs unfolding effect(2) m_def [symmetric] by simp
  moreover have ?evidence
    unfolding effect(3) m_def [symmetric] ids by (auto simp: erased_tables_def Let_def set_set_where)
  moreover have ?fts unfolding effect(1) m_def by simp
  moreover have ?renderings
    unfolding effect(5,6) m_def [symmetric] ids by (auto simp: erase_renderings_def Let_def set_set_where)
  moreover have ?others
  proof (intro ballI impI)
    fix r assume r: "r \<in> set (mt_revisions t)" "rv_memory_id r \<noteq> mcmd_memory_id command"
    then have found: "find_revision t (rv_revision_id r) = Some r" "find_revision u (rv_revision_id r) = Some r"
      using find_revision_iff [OF ok(1)] find_revision_iff [OF ok(2)] rows(4) m_def by simp_all
    have "Option.bind (rv_content_id r) (find_blob u) = Option.bind (rv_content_id r) (find_blob t)"
    proof (cases "rv_content_id r")
      case (Some c)
      then have "c \<notin> set (content_ids_of t m)" using content_of_others_kept [OF ok(3,1) r(1) _ Some] r(2) m_def by simp
      then have "find_blob u c = find_blob t c" unfolding find_blob_def effect(2) by (auto intro!: find_filter)
      with Some show ?thesis by simp
    qed simp
    with found show "load_memory_content lib u (rv_revision_id r) = load_memory_content lib t (rv_revision_id r)"
      by (simp add: load_memory_content_def)
  qed
  ultimately show ?thesis by blast
qed

theorem deletion_erases_the_content_witness:
  "mt_revisions ex_created = [ex_revision_row Rev_Active (Some ex_content_id)]
   \<and> load_memory_content ex_lib ex_deleted ex_revision = Ok None"
  using deletion_erases_the_content [OF ex_created_reachable ex_delete_execute, of ex_revision]
  by (simp add: ex_delete_def ex_receipt_def ex_created_def revisions_of_def ex_deleted_def)

section \<open>History\<close>

text \<open>
  C15: A committed command extends the history of its item: reading the operations page by page afterwards
  gives what it gave before followed by the operations of the command, at least one and at most four, all
  with the command's time and correlation; the history of every other item reads as before. Assumed of
  the codec: parsing what was written gives the operation back.
\<close>

theorem commands_extend_the_history:
  assumes "memory_reachable lib t" "memory_codec_ok lib" "execute_memory_command lib t command at = (Ok commit, u)"
    "mar_disposition (mcc_receipt commit) = Committed"
  shows "(\<exists>old added. load_all_operations lib t (mcmd_memory_id command) = Ok old
       \<and> load_all_operations lib u (mcmd_memory_id command) = Ok (old @ added)
       \<and> 1 \<le> length added \<and> length added \<le> max_memory_command_operations
       \<and> list_all (of_command command at) added
       \<and> map mo_sequence (old @ added) = [1 ..< length (old @ added) + 1])
    \<and> (\<forall>m. m \<noteq> mcmd_memory_id command \<longrightarrow> load_all_operations lib u m = load_all_operations lib t m)"
proof -
  let ?m = "mcmd_memory_id command"
  from assms(3,4) obtain old revisions existing plan where ex:
    "plan_memory_command (mk_sha256 lib) command at old revisions existing = Ok plan"
    "load_all_operations lib t ?m = Ok old"
    "append_memory_batch lib t (mcp_batch plan) = (Ok (mcc_receipt commit), u)" by (rule committed_execute)
  have schema: "memory_schema_ok t" "memory_schema_ok u"
    using indexed.reachable_after [OF assms(1,3)] by (simp_all add: index_inv_def)
  let ?ops = "mab_operations (mcp_batch plan)"
  have plan: "mab_expected_last_sequence (mcp_batch plan) = length old" "length ?ops \<le> max_memory_command_operations"
    "list_all (of_command command at \<circ> mao_operation) ?ops"
    using plan_command_ok [OF ex(1)] loaded_sequence [OF ex(2) schema(1)] by (simp_all add: plan_ok_def)
  have ne: "?ops \<noteq> []" by (rule committed_append [OF ex(3) assms(4) refl]) (assumption)
  then have m: "?m = mo_memory_id (mao_operation (hd ?ops))"
    using plan(3) by (cases ?ops) (simp_all add: of_command_def)
  note history = appended_history [OF ex(3) assms(4) m ex(2) plan(1) assms(2) schema]
  have "check_operations lib ?m 1 (sort_key or_sequence (rows_after u ?m 0)) = Ok (old @ map mao_operation ?ops)"
    using load_pages_sound [of lib u ?m "[]" 0] history(1) schema(2) by (simp add: load_all_operations_def)
  from check_operations_sequences [OF this]
  have "map mo_sequence (old @ map mao_operation ?ops) = [1 ..< length (old @ map mao_operation ?ops) + 1]"
    by (metis add.commute length_map)
  then show ?thesis
    using ex(2) history plan ne
    by (intro conjI exI [of _ old] exI [of _ "map mao_operation ?ops"]) (auto simp: list.pred_map Suc_le_eq)
qed

theorem commands_extend_the_history_witness:
  "\<exists>old added. load_all_operations ex_lib ex_created ex_id = Ok old
     \<and> load_all_operations ex_lib ex_deleted ex_id = Ok (old @ added) \<and> 1 \<le> length added
     \<and> length old = 3"
  using commands_extend_the_history [OF ex_created_reachable ex_lib_ok ex_delete_execute] ex_created_operations
  by (auto simp: ex_delete_def ex_receipt_def)

section \<open>Generations\<close>

text \<open>
  The generation counts changes of the active heads: a committed batch raises it by one exactly when
  the active revision of its item changed, so that equal generations mean equal heads, raises the
  mutation generation by one in any case, reports both in its receipt, and leaves every other item with
  its active revision and its sequence.
\<close>

theorem generation_counts_head_changes:
  assumes "append_memory_batch lib t request = (Ok receipt, u)" "mar_disposition receipt = Committed"
    "m = mo_memory_id (mao_operation (hd (mab_operations request)))"
  shows "mt_generation u = mt_generation t + (if current_active_revision u m = current_active_revision t m then 0 else 1)
    \<and> mt_mutation_generation u = mt_mutation_generation t + 1
    \<and> mar_generation receipt = mt_generation u \<and> mar_mutation_generation receipt = mt_mutation_generation u
    \<and> (\<forall>m'. m' \<noteq> m \<longrightarrow> current_active_revision u m' = current_active_revision t m'
         \<and> current_memory_sequence u m' = current_memory_sequence t m')"
  by (rule committed_append [OF assms])
     (auto simp: current_active_revision_def current_memory_sequence_def)

section \<open>Deletion through a proposal\<close>

lemma put_state_other: "r \<in> set (mt_revisions t) \<Longrightarrow> rv_revision_id r \<noteq> i \<Longrightarrow> r \<in> set (mt_revisions (put_state t i s))"
  unfolding put_state_rows by blast

lemma delete_keeps_states:
  assumes "delete_memory_content t m i = Ok u" "r \<in> set (mt_revisions t)" "rv_revision_id r \<noteq> i"
  shows "\<exists>r' \<in> set (mt_revisions u). rv_revision_id r' = rv_revision_id r \<and> rv_memory_id r' = rv_memory_id r
    \<and> rv_state r' = rv_state r"
proof -
  let ?kept = "\<lambda>t. \<exists>r' \<in> set (mt_revisions t). rv_revision_id r' = rv_revision_id r \<and> rv_memory_id r' = rv_memory_id r
    \<and> rv_state r' = rv_state r"
  from assms(1) obtain t5 t6 where p:
    "try_fold (\<lambda>t c. run_memory IK_Constraint (delete_blob c t)) (erased_tables t m) (content_ids_of t m) = Ok t5"
    "t6 = put_state t5 i Rev_Deleted"
    "update_item t6 m (\<lambda>r. r\<lparr>mi_lifecycle := Rev_Deleted, mi_active_revision_id := None\<rparr>) = Ok u"
    by (rule delete_parts)
  have kept: "?kept w" if "?kept t" "mt_revisions w = set_where q (\<lambda>r. r\<lparr>rv_content_id := None\<rparr>) (mt_revisions t)" for t w q
  proof -
    from that(1) obtain r' where r': "r' \<in> set (mt_revisions t)" "rv_revision_id r' = rv_revision_id r"
      "rv_memory_id r' = rv_memory_id r" "rv_state r' = rv_state r" by blast
    then have "(if q r' then r'\<lparr>rv_content_id := None\<rparr> else r') \<in> set (mt_revisions w)"
      unfolding that(2) set_where_def by auto
    with r' show ?thesis by (intro bexI [of _ "if q r' then r'\<lparr>rv_content_id := None\<rparr> else r'"]) simp_all
  qed
  have "?kept (erased_tables t m)"
    by (rule kept [of t _ "\<lambda>r. rv_memory_id r = m"]) (use assms(2) in \<open>auto simp: erased_tables_def Let_def\<close>)
  then have "?kept t5"
  proof (rule try_fold_invariant [OF p(1), of ?kept])
    fix s c w assume "?kept s" "run_memory IK_Constraint (delete_blob c s) = Ok w"
    then show "?kept w" by (intro kept [of s w "\<lambda>r. rv_content_id r = Some c"]) (simp_all add: run_memory_Ok delete_blob_def)
  qed
  then have "?kept t6" unfolding p(2) using assms(3) put_state_other by metis
  then show ?thesis using p(3) by (auto simp: update_item_Ok)
qed

text \<open>
  C36: Deleting an item through a revision other than its active one leaves that one marked active: after
  the content is erased and the item is in state deleted, the check that a retraction or a new revision
  makes still accepts the revision that was active.
\<close>

theorem deletion_keeps_other_revision_active:
  assumes "memory_schema_ok t" "delete_memory_content t m i = Ok u" "r \<in> set (mt_revisions t)" "rv_memory_id r = m"
    "rv_state r = Rev_Active" "rv_revision_id r \<noteq> i"
  shows "require_revision_state u m (rv_revision_id r) [Rev_Active] = Ok ()
    \<and> (\<forall>item \<in> set (mt_items u). mi_memory_id item = m \<longrightarrow> mi_lifecycle item = Rev_Deleted \<and> mi_active_revision_id item = None)"
proof -
  obtain r' where r': "r' \<in> set (mt_revisions u)" "rv_revision_id r' = rv_revision_id r" "rv_memory_id r' = m" "rv_state r' = Rev_Active"
    using delete_keeps_states [OF assms(2,3,6)] assms(4,5) by auto
  from assms(2) obtain t6 where u: "update_item t6 m (\<lambda>r. r\<lparr>mi_lifecycle := Rev_Deleted, mi_active_revision_id := None\<rparr>) = Ok u"
    by (rule delete_parts)
  then have "memory_schema_ok u" unfolding update_item_Ok by blast
  then have "find (\<lambda>q. rv_memory_id q = m \<and> rv_revision_id q = rv_revision_id r) (mt_revisions u) = Some r'"
  proof -
    have "find (\<lambda>q. rv_memory_id q = m \<and> rv_revision_id q = rv_revision_id r) (mt_revisions u) \<noteq> None"
      using r' unfolding find_None_iff by blast
    then obtain q where q: "find (\<lambda>q. rv_memory_id q = m \<and> rv_revision_id q = rv_revision_id r) (mt_revisions u) = Some q" by blast
    with find_SomeD [OF q] r' schema_unique [OF \<open>memory_schema_ok u\<close>, of q r'] show ?thesis by simp
  qed
  with r'(4) have "require_revision_state u m (rv_revision_id r) [Rev_Active] = Ok ()" by (simp add: require_revision_state_def)
  moreover have "mi_lifecycle item = Rev_Deleted \<and> mi_active_revision_id item = None"
    if "item \<in> set (mt_items u)" "mi_memory_id item = m" for item
  proof -
    have "mt_items u = set_where (\<lambda>r. mi_memory_id r = m) (\<lambda>r. r\<lparr>mi_lifecycle := Rev_Deleted, mi_active_revision_id := None\<rparr>) (mt_items t6)"
      using u by (simp add: update_item_Ok)
    from set_where_cases [OF that(1) [unfolded this]] show ?thesis using that(2) by (elim bexE) (simp split: if_splits)
  qed
  ultimately show ?thesis by blast
qed

text \<open>An item with an active revision and a proposal to change it.\<close>

definition ex_proposal_row :: "memory_revision_status \<Rightarrow> memory_revision_row" where
  "ex_proposal_row state = (ex_revision_row state None)\<lparr>rv_search_rowid := 2, rv_revision_id := MemoryRevisionId [115],
     rv_revision := 2, rv_introduced_operation_id := ex_operation_id 34\<rparr>"

definition ex_proposed :: "memory_item_row \<Rightarrow> memory_revision_status \<Rightarrow> memory_tables" where
  "ex_proposed item state = ex_tables 0 2 item [] [ex_revision_row Rev_Active None, ex_proposal_row state] [] []"

lemma ex_proposal_simps [simp]:
  "rv_revision_id (ex_proposal_row st) = MemoryRevisionId [115]" "rv_memory_id (ex_proposal_row st) = ex_id"
  "rv_content_id (ex_proposal_row st) = None" "(ex_proposal_row st)\<lparr>rv_content_id := None\<rparr> = ex_proposal_row st"
  "(ex_proposal_row st)\<lparr>rv_state := st'\<rparr> = ex_proposal_row st'" "ex_revision \<noteq> MemoryRevisionId [115]"
  "MemoryRevisionId [115] \<noteq> ex_revision"
  by (simp_all add: ex_proposal_row_def ex_revision_row_def ex_revision_def)

lemma ex_proposed_schema:
  assumes "lifecycle = Rev_Active \<longleftrightarrow> active \<noteq> None"
  shows "memory_schema_ok (ex_proposed (ex_item lifecycle n revised active at) state)"
proof -
  let ?t = "ex_proposed (ex_item lifecycle n revised active at) state"
  have "revisions_ok ?t"
    by (simp add: revisions_ok_def ex_proposed_def revision_row_ok_def null_or_def item_exists_def operation_exists_def
        ex_rows_def ex_proposal_row_def ex_revision_row_def ex_digest_bytes(2) ex_sha_ok(2) ex_revision_def column_len_ok_def
        len_utf8_def)
  moreover have "items_ok ?t" "blobs_ok ?t" "evidence_ok ?t" "relations_ok ?t" "validations_ok ?t" "fts_ok ?t"
    using assms by (simp_all add: ex_proposed_def items_ok_def blobs_ok_def evidence_ok_def relations_ok_def validations_ok_def fts_ok_def
        ex_item_def ex_tables_def empty_memory_tables_def)
  moreover have "operations_ok ?t" unfolding ex_proposed_def by (rule ex_operations_ok) simp_all
  ultimately show ?thesis by (simp add: memory_schema_ok_def)
qed

lemma ex_proposed_delete:
  "delete_memory_content (ex_proposed (ex_item Rev_Active 2 True (Some ex_revision) 5) Rev_Proposed) ex_id (MemoryRevisionId [115])
     = Ok (ex_proposed (ex_item Rev_Deleted 2 True None 5) Rev_Deleted)"
  using ex_proposed_schema [of Rev_Active "Some ex_revision" 2 True 5 Rev_Proposed]
    ex_proposed_schema [of Rev_Active "Some ex_revision" 2 True 5 Rev_Deleted]
    ex_proposed_schema [of Rev_Deleted None 2 True 5 Rev_Deleted]
  by (simp add: delete_memory_content_def ex_proposed_def Let_def erase_renderings_def revisions_of_def content_ids_of_def
      List.map_filter_def set_where_def run_memory_def set_revision_state_def put_state_def update_item_def)

theorem deletion_keeps_other_revision_active_witness:
  "require_revision_state (ex_proposed (ex_item Rev_Deleted 2 True None 5) Rev_Deleted) ex_id ex_revision [Rev_Active] = Ok ()"
  using deletion_keeps_other_revision_active [OF ex_proposed_schema ex_proposed_delete, of "ex_revision_row Rev_Active None"]
  by (simp add: ex_proposed_def)

end
