(* ===== verification/Ordered_Map.thy ===== *)
theory Ordered_Map
  imports Prelude "HOL-Library.Multiset"
begin

text \<open>
  The ordered maps of the standard library (\<open>BTreeMap\<close>) as association lists in strictly ascending key
  order, which is the order in which they iterate. Lookup is \<open>map_of\<close>.
\<close>

fun ordered_put :: "'k :: linorder \<Rightarrow> 'v \<Rightarrow> ('k \<times> 'v) list \<Rightarrow> ('k \<times> 'v) list" where
  "ordered_put k v [] = [(k, v)]"
| "ordered_put k v ((k', v') # m) =
     (if k' < k then (k', v') # ordered_put k v m
      else if k' = k then (k, v) # m
      else (k, v) # (k', v') # m)"

definition ordered :: "('k :: linorder \<times> 'v) list \<Rightarrow> bool" where
  "ordered m \<longleftrightarrow> sorted_wrt (<) (map fst m)"

lemma keys_ordered_put: "set (map fst (ordered_put k v m)) = insert k (set (map fst m))"
  by (induction k v m rule: ordered_put.induct) (simp_all add: insert_commute)

lemma ordered_put_ordered: "ordered m \<Longrightarrow> ordered (ordered_put k v m)"
proof (induction m)
  case (Cons x m)
  then show ?case
    using keys_ordered_put [of k v m] by (cases x) (fastforce simp: ordered_def)
qed (simp add: ordered_def)

lemma ordered_put_lookup: "ordered m \<Longrightarrow> map_of (ordered_put k v m) = (map_of m)(k \<mapsto> v)"
proof (induction m)
  case (Cons x m)
  have "map_of m k = None" if "k < fst x"
    using Cons.prems that by (force simp: ordered_def map_of_eq_None_iff)
  with Cons show ?case by (cases x) (auto simp: ordered_def fun_eq_iff)
qed simp

lemma ordered_distinct: "ordered m \<Longrightarrow> distinct (map fst m)"
  by (simp add: ordered_def strict_sorted_iff)

lemma ordered_unique:
  assumes "ordered m" "ordered m'" "map_of m = map_of m'"
  shows "m = m'"
proof (rule map_sorted_distinct_set_unique [of fst])
  note d = ordered_distinct [OF assms(1)] ordered_distinct [OF assms(2)]
  show sets: "set m = set m'"
    using d assms(3) map_of_eq_Some_iff [of m] map_of_eq_Some_iff [of m'] by (auto simp del: map_of_eq_Some_iff) 
  show "inj_on fst (set m \<union> set m')" using d(1) sets by (simp add: distinct_map)
qed (use assms ordered_distinct in \<open>auto simp: ordered_def strict_sorted_iff\<close>)

lemma ordered_view:
  assumes "ordered m" "distinct (map key xs)" "\<And>k. map_of m k = map_option g (find (\<lambda>x. key x = k) xs)"
  shows "m = map (\<lambda>x. (key x, g x)) (sort_key key xs)"
proof (rule ordered_unique [OF assms(1)])
  let ?m = "map (\<lambda>x. (key x, g x)) (sort_key key xs)"
  have "map key (sort_key key xs) = sort (map key xs)" by (rule properties_for_sort [symmetric]) simp_all
  then have keys: "map fst ?m = sort (map key xs)" by (simp add: comp_def)
  then show "ordered ?m" using assms(2) by (simp add: ordered_def strict_sorted_iff)
  have "map_of ?m k = map_option g (find (\<lambda>x. key x = k) xs)" for k
  proof (cases "find (\<lambda>x. key x = k) xs")
    case None
    then have "map_of ?m k = None" by (auto simp: find_None_iff map_of_eq_None_iff)
    with None show ?thesis by simp
  next
    case (Some x)
    then have x: "x \<in> set xs" "key x = k" by (auto simp: find_Some_iff)
    have "distinct (map fst ?m)" unfolding keys using assms(2) by simp
    then have "map_of ?m k = Some (g x)" using x by (intro map_of_is_SomeI) auto
    with Some show ?thesis by simp
  qed
  with assms(3) show "map_of m = map_of ?m" by auto
qed

end
