(* ===== verification/Compaction.thy ===== *)
theory Compaction
  imports Context_Builder Memory_Validate Ordered_Map
begin

text \<open>
  Facts that must survive compaction (\<open>autoharness-memory\<close>: \<open>compaction.rs\<close>): a scan of the events of a
  session that finds the inputs not yet promoted and the tool calls not yet settled, and the canonical
  digest of these facts together with the eligible memory. The ordered maps of the scan are association
  lists in key order. SHA-256 and the JSON bytes of serde are fields of \<open>compaction_lib\<close>, of which
  nothing is assumed.
\<close>

section \<open>Identities\<close>

fun input_id_str :: "input_id \<Rightarrow> ustring" where "input_id_str (InputId s) = s"
fun tool_call_id_str :: "tool_call_id \<Rightarrow> ustring" where "tool_call_id_str (ToolCallId s) = s"
fun decision_id_str :: "permission_decision_id \<Rightarrow> ustring" where "decision_id_str (PermissionDecisionId s) = s"

lemma id_str_inject [simp]:
  "input_id_str i = input_id_str i' \<longleftrightarrow> i = i'" "tool_call_id_str t = tool_call_id_str t' \<longleftrightarrow> t = t'"
  by (cases i; cases i'; simp) (cases t; cases t'; simp)

instantiation input_id :: linorder
begin

definition less_eq_input_id :: "input_id \<Rightarrow> input_id \<Rightarrow> bool" where
  "less_eq_input_id a b \<longleftrightarrow> input_id_str a \<le> input_id_str b"

definition less_input_id :: "input_id \<Rightarrow> input_id \<Rightarrow> bool" where
  "less_input_id a b \<longleftrightarrow> input_id_str a < input_id_str b"

instance
  by standard (auto simp: less_eq_input_id_def less_input_id_def less_le)

end

instantiation tool_call_id :: linorder
begin

definition less_eq_tool_call_id :: "tool_call_id \<Rightarrow> tool_call_id \<Rightarrow> bool" where
  "less_eq_tool_call_id a b \<longleftrightarrow> tool_call_id_str a \<le> tool_call_id_str b"

definition less_tool_call_id :: "tool_call_id \<Rightarrow> tool_call_id \<Rightarrow> bool" where
  "less_tool_call_id a b \<longleftrightarrow> tool_call_id_str a < tool_call_id_str b"

instance
  by standard (auto simp: less_eq_tool_call_id_def less_tool_call_id_def less_le)

end

section \<open>Data\<close>

definition compaction_facts_version :: nat where "compaction_facts_version = 1"

datatype pending_kind = Pending_Input | Pending_Permission | Pending_Tool

record pending_fact =
  pf_kind :: pending_kind
  pf_identity_hash :: sha256_digest
  pf_state_hash :: sha256_digest

record facts_fingerprint =
  ff_hash :: sha256_digest
  ff_memory_fact_count :: nat
  ff_pending_session_fact_count :: nat

record pending_input_state =
  is_prompt :: prompt_text
  is_delivery_mode :: delivery_mode
  is_promoted :: bool

datatype pending_tool_stage =
    Stage_Proposed | Stage_PermissionPending | Stage_Authorized | Stage_DeniedPending | Stage_Running
  | Stage_Settled

record pending_tool_state =
  pts_attempt_id :: attempt_id
  pts_call :: tool_call_spec
  pts_stage :: pending_tool_stage
  pts_policy_decision :: "(permission_decision_id \<times> permission_outcome) option"
  pts_human_answer :: "(permission_decision_id \<times> permission_answer) option"

record compaction_lib =
  cl_sha256 :: "bytes \<Rightarrow> bytes"
  cl_call_json :: "tool_call_spec \<Rightarrow> bytes option"
  cl_scope_json :: "memory_scope \<Rightarrow> bytes option"
  cl_kind_json :: "memory_kind \<Rightarrow> bytes option"
  cl_trust_json :: "trust_class \<Rightarrow> bytes option"
  cl_sensitivity_json :: "sensitivity \<Rightarrow> bytes option"
  cl_validity_json :: "memory_validity \<Rightarrow> bytes option"

section \<open>Codes\<close>

fun pending_kind_code :: "pending_kind \<Rightarrow> nat" where
  "pending_kind_code Pending_Input = 1"
| "pending_kind_code Pending_Permission = 2"
| "pending_kind_code Pending_Tool = 3"

fun pending_tool_stage_code :: "pending_tool_stage \<Rightarrow> string" where
  "pending_tool_stage_code Stage_Proposed = ''proposed''"
| "pending_tool_stage_code Stage_PermissionPending = ''permission_pending''"
| "pending_tool_stage_code Stage_Authorized = ''authorized''"
| "pending_tool_stage_code Stage_DeniedPending = ''denied_pending''"
| "pending_tool_stage_code Stage_Running = ''running''"
| "pending_tool_stage_code Stage_Settled = ''settled''"

fun permission_outcome_code :: "permission_outcome \<Rightarrow> string" where
  "permission_outcome_code Outcome_Deny = ''deny''"
| "permission_outcome_code Outcome_Ask = ''ask''"
| "permission_outcome_code Outcome_Allow = ''allow''"

fun permission_answer_code :: "permission_answer \<Rightarrow> string" where
  "permission_answer_code Answer_AllowOnce = ''allow_once''"
| "permission_answer_code Answer_Deny = ''deny''"

fun delivery_mode_code :: "delivery_mode \<Rightarrow> string" where
  "delivery_mode_code NextTurn = ''next_turn''"

section \<open>Facts\<close>

text \<open>Further calls of \<open>field\<close> on an encoder; text fields carry the bytes of the text.\<close>

definition more_fields :: "bytes \<Rightarrow> (string \<times> bytes) list \<Rightarrow> (bytes, memory_error) result" where
  "more_fields out fs = try_fold (\<lambda>out (name, v). encode_field out (ascii name) v) out fs"

abbreviation text_bytes :: "string \<Rightarrow> bytes" where "text_bytes s \<equiv> as_bytes (ascii s)"

definition fact_identity_hash :: "compaction_lib \<Rightarrow> string \<Rightarrow> ustring \<Rightarrow> (sha256_digest, memory_error) result" where
  "fact_identity_hash lib kind identity =
     and_then (more_fields [] [(''kind'', text_bytes kind), (''identity'', as_bytes identity)])
       (encoder_finish (cl_sha256 lib))"

definition pending_input_fact :: "compaction_lib \<Rightarrow> input_id \<Rightarrow> pending_input_state \<Rightarrow> (pending_fact, memory_error) result" where
  "pending_input_fact lib i input =
     and_then (fact_identity_hash lib ''input'' (input_id_str i)) (\<lambda>identity_hash.
     and_then (more_fields []
       [(''kind'', text_bytes ''input''), (''input_id'', as_bytes (input_id_str i)),
        (''prompt'', as_bytes (prompt_str (is_prompt input))),
        (''delivery_mode'', text_bytes (delivery_mode_code (is_delivery_mode input)))]) (\<lambda>state.
     and_then (encoder_finish (cl_sha256 lib) state) (\<lambda>state_hash.
     Ok \<lparr>pf_kind = Pending_Input, pf_identity_hash = identity_hash, pf_state_hash = state_hash\<rparr>)))"

definition pending_permission_fact ::
  "compaction_lib \<Rightarrow> tool_call_id \<Rightarrow> pending_tool_state \<Rightarrow> (pending_fact, memory_error) result" where
  "pending_permission_fact lib t tool =
     and_then (ok_or (pts_policy_decision tool) InvalidCompactionEventStream) (\<lambda>(decision_id, outcome).
     and_then (ensure (\<not> (outcome \<noteq> Outcome_Ask \<or> pts_human_answer tool \<noteq> None))
                 InvalidCompactionEventStream) (\<lambda>_.
     and_then (fact_identity_hash lib ''permission'' (tool_call_id_str t)) (\<lambda>identity_hash.
     and_then (more_fields []
       [(''kind'', text_bytes ''permission''), (''tool_call_id'', as_bytes (tool_call_id_str t)),
        (''decision_id'', as_bytes (decision_id_str decision_id)),
        (''outcome'', text_bytes (permission_outcome_code outcome))]) (\<lambda>state.
     and_then (encoder_finish (cl_sha256 lib) state) (\<lambda>state_hash.
     Ok \<lparr>pf_kind = Pending_Permission, pf_identity_hash = identity_hash, pf_state_hash = state_hash\<rparr>)))))"

definition policy_fields :: "(permission_decision_id \<times> permission_outcome) option \<Rightarrow> (string \<times> bytes) list" where
  "policy_fields decision =
     (case decision of
        Some (d, outcome) \<Rightarrow>
          [(''policy_decision_id'', as_bytes (decision_id_str d)),
           (''policy_outcome'', text_bytes (permission_outcome_code outcome))]
      | None \<Rightarrow> [(''policy_decision_id'', []), (''policy_outcome'', [])])"

definition answer_fields :: "(permission_decision_id \<times> permission_answer) option \<Rightarrow> (string \<times> bytes) list" where
  "answer_fields answer =
     (case answer of
        Some (d, a) \<Rightarrow>
          [(''human_decision_id'', as_bytes (decision_id_str d)),
           (''human_answer'', text_bytes (permission_answer_code a))]
      | None \<Rightarrow> [(''human_decision_id'', []), (''human_answer'', [])])"

definition pending_tool_fact ::
  "compaction_lib \<Rightarrow> tool_call_id \<Rightarrow> pending_tool_state \<Rightarrow> (pending_fact, memory_error) result" where
  "pending_tool_fact lib t tool =
     and_then (fact_identity_hash lib ''tool'' (tool_call_id_str t)) (\<lambda>identity_hash.
     and_then (more_fields []
       [(''kind'', text_bytes ''tool''), (''tool_call_id'', as_bytes (tool_call_id_str t)),
        (''attempt_id'', as_bytes (attempt_id_str (pts_attempt_id tool)))]) (\<lambda>state.
     and_then (ok_or (cl_call_json lib (pts_call tool)) InvalidDomainValue) (\<lambda>call.
     and_then (more_fields state
       ([(''call'', call), (''stage'', text_bytes (pending_tool_stage_code (pts_stage tool)))]
        @ policy_fields (pts_policy_decision tool) @ answer_fields (pts_human_answer tool))) (\<lambda>state.
     and_then (encoder_finish (cl_sha256 lib) state) (\<lambda>state_hash.
     Ok \<lparr>pf_kind = Pending_Tool, pf_identity_hash = identity_hash, pf_state_hash = state_hash\<rparr>)))))"

section \<open>The scan of the events\<close>

fun check_prefix ::
  "session_id \<Rightarrow> nat \<Rightarrow> (event_id \<rightharpoonup> correlation_id) \<Rightarrow> command_id set \<Rightarrow> event_envelope list
     \<Rightarrow> (unit, memory_error) result" where
  "check_prefix sid index event_ids command_ids [] = Ok ()"
| "check_prefix sid index event_ids command_ids (ev # evs) =
     and_then (ok_or (checked_add_u64 index 1) ME_NumericOverflow) (\<lambda>expected.
     and_then (ensure (\<not> (ev_schema_version ev \<noteq> event_schema_v1 \<or> ev_session_id ev \<noteq> sid
                          \<or> ev_sequence ev \<noteq> expected \<or> event_ids (ev_event_id ev) \<noteq> None))
                 InvalidCompactionEventStream) (\<lambda>_.
     and_then (case ev_causation ev of
                 Cause_Event cause \<Rightarrow>
                   ensure (event_ids cause = Some (ev_correlation_id ev)) InvalidCompactionEventStream
               | Cause_Command c \<Rightarrow> ensure (c \<notin> command_ids) InvalidCompactionEventStream) (\<lambda>_.
     check_prefix sid (Suc index) (event_ids(ev_event_id ev \<mapsto> ev_correlation_id ev))
       (case ev_causation ev of Cause_Command c \<Rightarrow> insert c command_ids | Cause_Event _ \<Rightarrow> command_ids) evs)))"

definition validate_event_prefix ::
  "session_id \<Rightarrow> session_sequence \<Rightarrow> event_envelope list \<Rightarrow> (unit, memory_error) result" where
  "validate_event_prefix sid expected_last_sequence events =
     and_then (ensure (length events = expected_last_sequence) InvalidCompactionEventStream) (\<lambda>_.
     and_then (ensure (events \<noteq> [] \<and> ev_payload (hd events) = SessionCreated)
                 InvalidCompactionEventStream) (\<lambda>_.
     check_prefix sid 0 Map.empty {} events))"

record scan_state =
  sc_inputs :: "(input_id \<times> pending_input_state) list"
  sc_attempts :: "attempt_id set"
  sc_tools :: "(tool_call_id \<times> pending_tool_state) list"

definition scan_empty :: scan_state where
  "scan_empty = \<lparr>sc_inputs = [], sc_attempts = {}, sc_tools = []\<rparr>"

text \<open>\<open>require_tool_stage\<close> with the write through the reference it returns.\<close>

definition require_tool_stage ::
  "scan_state \<Rightarrow> tool_call_id \<Rightarrow> pending_tool_stage list
     \<Rightarrow> (pending_tool_state \<Rightarrow> (pending_tool_state, memory_error) result) \<Rightarrow> (scan_state, memory_error) result" where
  "require_tool_stage sc t expected write =
     and_then (ok_or (map_of (sc_tools sc) t) InvalidCompactionEventStream) (\<lambda>tool.
     and_then (ensure (pts_stage tool \<in> set expected) InvalidCompactionEventStream) (\<lambda>_.
     and_then (write tool) (\<lambda>tool.
     Ok (sc\<lparr>sc_tools := ordered_put t tool (sc_tools sc)\<rparr>))))"

fun stage_of_outcome :: "permission_outcome \<Rightarrow> pending_tool_stage" where
  "stage_of_outcome Outcome_Deny = Stage_DeniedPending"
| "stage_of_outcome Outcome_Ask = Stage_PermissionPending"
| "stage_of_outcome Outcome_Allow = Stage_Authorized"

fun stage_of_answer :: "permission_answer \<Rightarrow> pending_tool_stage" where
  "stage_of_answer Answer_AllowOnce = Stage_Authorized"
| "stage_of_answer Answer_Deny = Stage_DeniedPending"

fun scan_payload :: "scan_state \<Rightarrow> event_payload \<Rightarrow> (scan_state, memory_error) result" where
  "scan_payload sc (InputAdmitted i p m) =
     and_then (ensure (map_of (sc_inputs sc) i = None) InvalidCompactionEventStream) (\<lambda>_.
     Ok (sc\<lparr>sc_inputs := ordered_put i \<lparr>is_prompt = p, is_delivery_mode = m, is_promoted = False\<rparr> (sc_inputs sc)\<rparr>))"
| "scan_payload sc (AttemptPrepared a i model retry_of) =
     and_then (ensure (a \<notin> sc_attempts sc) InvalidCompactionEventStream) (\<lambda>_.
     let sc = sc\<lparr>sc_attempts := insert a (sc_attempts sc)\<rparr>
     in and_then (ok_or (map_of (sc_inputs sc) i) InvalidCompactionEventStream) (\<lambda>input.
        if retry_of = None
        then and_then (ensure (\<not> is_promoted input) InvalidCompactionEventStream) (\<lambda>_.
             Ok (sc\<lparr>sc_inputs := ordered_put i (input\<lparr>is_promoted := True\<rparr>) (sc_inputs sc)\<rparr>))
        else Ok sc))"
| "scan_payload sc (ToolCallProposed a call) =
     and_then (ensure (\<not> (a \<notin> sc_attempts sc \<or> map_of (sc_tools sc) (spec_tool_call_id call) \<noteq> None))
                 InvalidCompactionEventStream) (\<lambda>_.
     Ok (sc\<lparr>sc_tools := ordered_put (spec_tool_call_id call)
           \<lparr>pts_attempt_id = a, pts_call = call, pts_stage = Stage_Proposed, pts_policy_decision = None,
            pts_human_answer = None\<rparr> (sc_tools sc)\<rparr>))"
| "scan_payload sc (ToolPermissionRecorded t d outcome) =
     require_tool_stage sc t [Stage_Proposed] (\<lambda>tool.
       Ok (tool\<lparr>pts_policy_decision := Some (d, outcome), pts_stage := stage_of_outcome outcome\<rparr>))"
| "scan_payload sc (ToolPermissionAnswered t d answer) =
     require_tool_stage sc t [Stage_PermissionPending] (\<lambda>tool.
       and_then (ensure (pts_policy_decision tool = Some (d, Outcome_Ask)) InvalidCompactionEventStream) (\<lambda>_.
       Ok (tool\<lparr>pts_human_answer := Some (d, answer), pts_stage := stage_of_answer answer\<rparr>)))"
| "scan_payload sc (ToolCallStarted t) =
     require_tool_stage sc t [Stage_Authorized] (\<lambda>tool. Ok (tool\<lparr>pts_stage := Stage_Running\<rparr>))"
| "scan_payload sc (ToolCallCompleted t _) =
     require_tool_stage sc t [Stage_Running] (\<lambda>tool. Ok (tool\<lparr>pts_stage := Stage_Settled\<rparr>))"
| "scan_payload sc (ToolCallFailed t _) =
     require_tool_stage sc t [Stage_Running] (\<lambda>tool. Ok (tool\<lparr>pts_stage := Stage_Settled\<rparr>))"
| "scan_payload sc (ToolCallMarkedUnknown t) =
     require_tool_stage sc t [Stage_Running] (\<lambda>tool. Ok (tool\<lparr>pts_stage := Stage_Settled\<rparr>))"
| "scan_payload sc (ToolCallDenied t) =
     require_tool_stage sc t [Stage_DeniedPending] (\<lambda>tool. Ok (tool\<lparr>pts_stage := Stage_Settled\<rparr>))"
| "scan_payload sc (ToolCallCancelled t) =
     require_tool_stage sc t [Stage_Proposed, Stage_PermissionPending, Stage_Authorized, Stage_Running]
       (\<lambda>tool. Ok (tool\<lparr>pts_stage := Stage_Settled\<rparr>))"
| "scan_payload sc _ = Ok sc"

definition tool_facts ::
  "compaction_lib \<Rightarrow> tool_call_id \<Rightarrow> pending_tool_state \<Rightarrow> (pending_fact list, memory_error) result" where
  "tool_facts lib t tool =
     and_then (if pts_stage tool = Stage_PermissionPending
               then and_then (pending_permission_fact lib t tool) (\<lambda>f. Ok [f]) else Ok []) (\<lambda>permission.
     and_then (pending_tool_fact lib t tool) (\<lambda>f. Ok (permission @ [f])))"

definition scan_facts :: "compaction_lib \<Rightarrow> scan_state \<Rightarrow> (pending_fact list, memory_error) result" where
  "scan_facts lib sc =
     and_then (try_map (\<lambda>(i, input). pending_input_fact lib i input)
       (filter (\<lambda>(_, input). \<not> is_promoted input) (sc_inputs sc))) (\<lambda>inputs.
     and_then (try_map (\<lambda>(t, tool). tool_facts lib t tool)
       (filter (\<lambda>(_, tool). pts_stage tool \<noteq> Stage_Settled) (sc_tools sc))) (\<lambda>tools.
     Ok (inputs @ concat tools)))"

definition pending_session_facts_from_events ::
  "compaction_lib \<Rightarrow> session_id \<Rightarrow> session_sequence \<Rightarrow> event_envelope list \<Rightarrow> (pending_fact list, memory_error) result" where
  "pending_session_facts_from_events lib sid expected_last_sequence events =
     and_then (validate_event_prefix sid expected_last_sequence events) (\<lambda>_.
     and_then (try_fold (\<lambda>sc ev. scan_payload sc (ev_payload ev)) scan_empty events) (scan_facts lib))"

section \<open>The fingerprint\<close>

definition memory_fact_fields :: "compaction_lib \<Rightarrow> bytes \<Rightarrow> memory_candidate \<Rightarrow> (bytes, memory_error) result" where
  "memory_fact_fields lib out m =
     and_then (more_fields out [(''memory_id'', as_bytes (memory_id_str (mc_memory_id m))),
       (''revision_id'', as_bytes (revision_str (mc_revision_id m)))]) (\<lambda>out.
     and_then (ok_or (cl_scope_json lib (mc_scope m)) InvalidDomainValue) (\<lambda>scope.
     and_then (more_fields out [(''scope'', scope)]) (\<lambda>out.
     and_then (ok_or (cl_kind_json lib (mc_kind m)) InvalidDomainValue) (\<lambda>kind.
     and_then (more_fields out [(''kind'', kind)]) (\<lambda>out.
     and_then (ok_or (cl_trust_json lib (mc_trust m)) InvalidDomainValue) (\<lambda>trust.
     and_then (more_fields out [(''trust'', trust), (''confidence'', u64_be_bytes (confidence_get (mc_confidence m)))]) (\<lambda>out.
     and_then (ok_or (cl_sensitivity_json lib (mc_sensitivity m)) InvalidDomainValue) (\<lambda>sens.
     and_then (more_fields out [(''sensitivity'', sens)]) (\<lambda>out.
     and_then (ok_or (cl_validity_json lib (mc_validity m)) InvalidDomainValue) (\<lambda>validity.
     more_fields out [(''validity'', validity), (''content_hash'', as_bytes (digest_str (mc_content_hash m))),
       (''created_at'', i64_be_bytes (mc_created_at m))]))))))))))"

definition encode_memory_fact :: "compaction_lib \<Rightarrow> bytes \<Rightarrow> memory_candidate \<Rightarrow> (bytes, memory_error) result" where
  "encode_memory_fact lib out m =
     (if mc_status m \<noteq> Rev_Active then Err InvalidCompactionFact
      else and_then (normalized_content_hash (cl_sha256 lib) (content_str (mc_content m))) (\<lambda>hash.
        and_then (ensure (hash = mc_content_hash m) InvalidCompactionFact) (\<lambda>_.
        memory_fact_fields lib out m)))"

definition encode_pending_fact :: "bytes \<Rightarrow> pending_fact \<Rightarrow> (bytes, memory_error) result" where
  "encode_pending_fact out f =
     more_fields out [(''pending_kind'', u64_be_bytes (pending_kind_code (pf_kind f))),
       (''pending_identity_hash'', as_bytes (digest_str (pf_identity_hash f))),
       (''pending_state_hash'', as_bytes (digest_str (pf_state_hash f)))]"

definition memory_fact_key :: "memory_candidate \<Rightarrow> memory_id \<times> memory_revision_id" where
  "memory_fact_key m = (mc_memory_id m, mc_revision_id m)"

definition pending_fact_key :: "pending_fact \<Rightarrow> nat \<times> ustring \<times> ustring" where
  "pending_fact_key f = (pending_kind_code (pf_kind f), digest_str (pf_identity_hash f), digest_str (pf_state_hash f))"

definition checked_count :: "nat \<Rightarrow> 'a list \<Rightarrow> (nat, memory_error) result" where
  "checked_count bound xs = (if length xs > bound then Err ME_NumericOverflow else Ok (length xs))"

definition effective_durable_facts ::
  "compaction_lib \<Rightarrow> retrieval_scope \<Rightarrow> memory_candidate list \<Rightarrow> pending_fact list
     \<Rightarrow> (facts_fingerprint, memory_error) result" where
  "effective_durable_facts lib scope candidates facts =
     (let memories = sort_key memory_fact_key (filter (eligible scope) candidates);
          pending = sort_key pending_fact_key facts
      in and_then (case adjacent_duplicate (map mc_revision_id memories) of
                     Some r \<Rightarrow> Err (DuplicateMemoryRevision r) | None \<Rightarrow> Ok ()) (\<lambda>_.
         and_then (ensure (adjacent_duplicate (map (\<lambda>f. (pf_kind f, pf_identity_hash f)) pending) = None)
                     DuplicateCompactionFact) (\<lambda>_.
         and_then (checked_count u32_max memories) (\<lambda>memory_fact_count.
         and_then (checked_count u32_max pending) (\<lambda>pending_session_fact_count.
         and_then (more_fields [] [(''compaction_facts_version'', u64_be_bytes compaction_facts_version),
           (''memory_fact_count'', u64_be_bytes (length memories))]) (\<lambda>out.
         and_then (try_fold (encode_memory_fact lib) out memories) (\<lambda>out.
         and_then (more_fields out [(''pending_session_fact_count'', u64_be_bytes (length pending))]) (\<lambda>out.
         and_then (try_fold encode_pending_fact out pending) (\<lambda>out.
         and_then (encoder_finish (cl_sha256 lib) out) (\<lambda>hash.
         Ok \<lparr>ff_hash = hash, ff_memory_fact_count = memory_fact_count,
             ff_pending_session_fact_count = pending_session_fact_count\<rparr>))))))))))"

definition effective_durable_facts_hash ::
  "compaction_lib \<Rightarrow> retrieval_scope \<Rightarrow> memory_candidate list \<Rightarrow> pending_fact list
     \<Rightarrow> (sha256_digest, memory_error) result" where
  "effective_durable_facts_hash lib scope candidates facts =
     and_then (effective_durable_facts lib scope candidates facts) (\<lambda>f. Ok (ff_hash f))"

definition verify_effective_durable_facts_hash ::
  "compaction_lib \<Rightarrow> retrieval_scope \<Rightarrow> memory_candidate list \<Rightarrow> pending_fact list \<Rightarrow> sha256_digest
     \<Rightarrow> (bool, memory_error) result" where
  "verify_effective_durable_facts_hash lib scope candidates facts expected =
     and_then (effective_durable_facts_hash lib scope candidates facts) (\<lambda>hash. Ok (hash = expected))"

end
