(* ===== verification/Compaction_Laws.thy ===== *)
theory Compaction_Laws
  imports Compaction Engine_Reachable
begin

text \<open>
  The scan of compaction against the session aggregate: after every prefix of a log that replays, the
  three maps of the scan are the lookups of the replayed aggregate.
\<close>

section \<open>The scan tracks the aggregate\<close>

fun stage_of :: "tool_call_status \<Rightarrow> pending_tool_stage" where
  "stage_of Tool_Proposed = Stage_Proposed"
| "stage_of Tool_PermissionPending = Stage_PermissionPending"
| "stage_of Tool_Authorized = Stage_Authorized"
| "stage_of Tool_DeniedPending = Stage_DeniedPending"
| "stage_of Tool_Running = Stage_Running"
| "stage_of _ = Stage_Settled"

lemma stage_settled: "stage_of status = Stage_Settled \<longleftrightarrow> tool_is_settled status"
  by (cases status) simp_all

definition tracked_tool :: "tool_call_projection \<Rightarrow> pending_tool_state" where
  "tracked_tool c =
     \<lparr>pts_attempt_id = tc_attempt_id c, pts_call = tc_call c, pts_stage = stage_of (tc_status c),
      pts_policy_decision = tc_policy_decision c, pts_human_answer = tc_human_answer c\<rparr>"

definition tracked_input :: "admitted_input \<Rightarrow> pending_input_state" where
  "tracked_input x =
     \<lparr>is_prompt = ai_prompt x, is_delivery_mode = ai_delivery_mode x, is_promoted = (ai_promoted_by x \<noteq> None)\<rparr>"

lemma tracked_simps [simp]:
  "pts_stage (tracked_tool c) = stage_of (tc_status c)" "pts_policy_decision (tracked_tool c) = tc_policy_decision c"
  "pts_human_answer (tracked_tool c) = tc_human_answer c" "is_promoted (tracked_input x) \<longleftrightarrow> ai_promoted_by x \<noteq> None"
  by (simp_all add: tracked_tool_def tracked_input_def)

definition tracks :: "session_aggregate \<Rightarrow> scan_state \<Rightarrow> bool" where
  "tracks s sc \<longleftrightarrow>
     ordered (sc_inputs sc) \<and> ordered (sc_tools sc)
     \<and> (\<forall>i. map_of (sc_inputs sc) i = map_option tracked_input (find_input s i))
     \<and> sc_attempts sc = dom (attempt s)
     \<and> (\<forall>t. map_of (sc_tools sc) t = map_option tracked_tool (tool_call s t))"

definition same_views :: "session_aggregate \<Rightarrow> session_aggregate \<Rightarrow> bool" where
  "same_views s u \<longleftrightarrow> find_input u = find_input s \<and> dom (attempt u) = dom (attempt s) \<and> tool_call u = tool_call s"

lemma same_views_refl [simp]: "same_views s s"
  by (simp add: same_views_def)

lemma tracks_same:
  assumes "tracks s sc" "same_views s u"
  shows "tracks u sc"
  using assms by (simp add: tracks_def same_views_def)

lemma tracks_tool:
  assumes "tracks s sc" "indexes_ok s" "tool_call s t = Some c" "tc_status c \<in> set allowed"
    and "upd (tracked_tool c) = Ok (tracked_tool d)"
  shows "\<exists>sc'. require_tool_stage sc t (map stage_of allowed) upd = Ok sc' \<and> tracks (set_tool_call s t d) sc'"
  using assms tool_call_set_tool_call [OF assms(2,3), of d]
  by (auto simp: tracks_def require_tool_stage_def ordered_put_ordered ordered_put_lookup)

lemma tracks_empty: "tracks (aggregate_empty sid) scan_empty"
  by (simp add: tracks_def scan_empty_def ordered_def)

section \<open>One event\<close>

definition names_decision :: "session_aggregate \<Rightarrow> event_payload \<Rightarrow> bool" where
  "names_decision s p \<longleftrightarrow>
     (case p of
        ToolPermissionAnswered t d _ \<Rightarrow>
          (\<exists>c. tool_call s t = Some c \<and> map_option fst (tc_policy_decision c) = Some d)
      | _ \<Rightarrow> True)"

definition scans :: "session_aggregate \<Rightarrow> scan_state \<Rightarrow> event_payload \<Rightarrow> session_aggregate \<Rightarrow> bool" where
  "scans s sc p u \<longleftrightarrow>
     (if names_decision s p then \<exists>sc'. scan_payload sc p = Ok sc' \<and> tracks u sc'
      else scan_payload sc p = Err InvalidCompactionEventStream)"

lemma scans_transition:
  assumes "parts_ok s" "tracks s sc" "transition_tool_call s ev t allowed f = Ok u"
    and "scan_payload sc p = require_tool_stage sc t (map stage_of allowed) upd" "names_decision s p"
    and "\<And>c. tool_call s t = Some c \<Longrightarrow> tc_status c \<in> set allowed \<Longrightarrow> upd (tracked_tool c) = Ok (tracked_tool (f c))"
  shows "scans s sc p u"
proof -
  note ix = parts_okD(1) [OF assms(1)]
  obtain c where c: "tool_call s t = Some c" "tc_status c \<in> set allowed" "u = set_tool_call s t (f c)"
    using assms(3) unfolding transition_tool_call_Ok [OF ix] by blast
  show ?thesis
    using tracks_tool [where upd = upd and d = "f c", OF assms(2) ix c(1,2) assms(6) [OF c(1,2)]] assms(4,5) c(3) by (simp add: scans_def)
qed

lemma scans_proposal:
  assumes "parts_ok s" "tracks s sc" "apply_tool s ev (ToolCallProposed a call) = Ok u"
  shows "scans s sc (ToolCallProposed a call) u"
proof -
  note ix = parts_okD(1) [OF assms(1)]
  have new: "tool_call s (spec_tool_call_id call) = None" "attempt s a \<noteq> None"
    and u: "u = push_tool_call s (new_tool_call a call)"
    using assms(3) by (auto simp: result_simps tool_call_None_iff [OF ix] split: option.splits)
  have "tool_call u = (tool_call s)(spec_tool_call_id call \<mapsto> new_tool_call a call)"
    using tool_call_push_tool_call [OF ix, of "new_tool_call a call"] new u by (simp add: new_tool_call_def)
  then show ?thesis
    using assms(2) new
    by (auto simp: scans_def names_decision_def tracks_def u ordered_put_ordered ordered_put_lookup
        tracked_tool_def new_tool_call_def domIff)
qed

lemma scans_answer:
  assumes "parts_ok s" "tracks s sc" "apply_tool s ev (ToolPermissionAnswered t d answer) = Ok u"
  shows "scans s sc (ToolPermissionAnswered t d answer) u"
proof -
  have trans: "transition_tool_call s ev t [Tool_PermissionPending]
      (\<lambda>c. c\<lparr>tc_human_answer := Some (d, answer), tc_status := status_of_answer answer\<rparr>) = Ok u"
    using assms(3) by simp
  then obtain c where c: "tool_call s t = Some c" "tc_status c = Tool_PermissionPending"
    unfolding transition_tool_call_Ok [OF parts_okD(1) [OF assms(1)]] by auto
  then obtain k where k: "tc_policy_decision c = Some (k, Outcome_Ask)"
    using parts_okD(7) [OF assms(1) c(1)] by (auto simp: tool_wf_def tool_undecided_def policy_outcome_def)
  show ?thesis
  proof (cases "k = d")
    case True
    then show ?thesis
      using c k
      by (intro scans_transition [OF assms(1,2) trans, where upd = "\<lambda>tool.
            and_then (ensure (pts_policy_decision tool = Some (d, Outcome_Ask)) InvalidCompactionEventStream) (\<lambda>_.
            Ok (tool\<lparr>pts_human_answer := Some (d, answer), pts_stage := stage_of_answer answer\<rparr>))"])
        (cases answer; simp add: names_decision_def tracked_tool_def)+
  next
    case False
    then show ?thesis
      using assms(2) c k by (auto simp: scans_def names_decision_def tracks_def require_tool_stage_def)
  qed
qed

lemma stage_of_status [simp]:
  "stage_of (status_of_outcome x) = stage_of_outcome x" "stage_of (status_of_answer y) = stage_of_answer y"
  by (cases x; simp) (cases y; simp)

fun is_tool_payload :: "event_payload \<Rightarrow> bool" where
  "is_tool_payload (ToolCallProposed _ _) = True"
| "is_tool_payload (ToolPermissionRecorded _ _ _) = True"
| "is_tool_payload (ToolPermissionAnswered _ _ _) = True"
| "is_tool_payload (ToolCallStarted _) = True"
| "is_tool_payload (ToolCallCompleted _ _) = True"
| "is_tool_payload (ToolCallFailed _ _) = True"
| "is_tool_payload (ToolCallDenied _) = True"
| "is_tool_payload (ToolCallCancelled _) = True"
| "is_tool_payload (ToolCallMarkedUnknown _) = True"
| "is_tool_payload _ = False"

lemma scans_tool:
  assumes "parts_ok s" "tracks s sc" "apply_tool s ev p = Ok u"
    and "is_tool_payload p"
  shows "scans s sc p u"
proof (cases p)
  case (ToolPermissionRecorded t d outcome)
  then have "transition_tool_call s ev t [Tool_Proposed] (\<lambda>c. c\<lparr>tc_policy_decision := Some (d, outcome), tc_status := status_of_outcome outcome\<rparr>) = Ok u"
    using assms(3) by (auto simp: Let_def result_simps)
  then show ?thesis
    by (rule scans_transition [OF assms(1,2), where upd = "\<lambda>tool. Ok (tool\<lparr>pts_policy_decision := Some (d, outcome), pts_stage := stage_of_outcome outcome\<rparr>)"])
      (simp_all add: ToolPermissionRecorded names_decision_def tracked_tool_def)
next
  case (ToolCallStarted t)
  then have "transition_tool_call s ev t [Tool_Authorized] (\<lambda>c. c\<lparr>tc_status := Tool_Running\<rparr>) = Ok u"
    using assms(3) by (auto simp: Let_def result_simps)
  then show ?thesis
    by (rule scans_transition [OF assms(1,2), where upd = "\<lambda>tool. Ok (tool\<lparr>pts_stage := Stage_Running\<rparr>)"])
      (simp_all add: ToolCallStarted names_decision_def tracked_tool_def)
next
  case (ToolCallCompleted t x)
  then have "transition_tool_call s ev t [Tool_Running] (\<lambda>c. c\<lparr>tc_status := Tool_Completed, tc_output := Some x\<rparr>) = Ok u"
    using assms(3) by (auto simp: Let_def result_simps)
  then show ?thesis
    by (rule scans_transition [OF assms(1,2), where upd = "\<lambda>tool. Ok (tool\<lparr>pts_stage := Stage_Settled\<rparr>)"])
      (simp_all add: ToolCallCompleted names_decision_def tracked_tool_def)
next
  case (ToolCallFailed t x)
  then have "transition_tool_call s ev t [Tool_Running] (\<lambda>c. c\<lparr>tc_status := Tool_Failed, tc_failure := Some x\<rparr>) = Ok u"
    using assms(3) by (auto simp: Let_def result_simps)
  then show ?thesis
    by (rule scans_transition [OF assms(1,2), where upd = "\<lambda>tool. Ok (tool\<lparr>pts_stage := Stage_Settled\<rparr>)"])
      (simp_all add: ToolCallFailed names_decision_def tracked_tool_def)
next
  case (ToolCallDenied t)
  then have "transition_tool_call s ev t [Tool_DeniedPending] (\<lambda>c. c\<lparr>tc_status := Tool_Denied\<rparr>) = Ok u"
    using assms(3) by (auto simp: Let_def result_simps)
  then show ?thesis
    by (rule scans_transition [OF assms(1,2), where upd = "\<lambda>tool. Ok (tool\<lparr>pts_stage := Stage_Settled\<rparr>)"])
      (simp_all add: ToolCallDenied names_decision_def tracked_tool_def)
next
  case (ToolCallCancelled t)
  then have "transition_tool_call s ev t [Tool_Proposed, Tool_PermissionPending, Tool_Authorized, Tool_Running] (\<lambda>c. c\<lparr>tc_status := Tool_Cancelled\<rparr>) = Ok u"
    using assms(3) by (auto simp: Let_def result_simps)
  then show ?thesis
    by (rule scans_transition [OF assms(1,2), where upd = "\<lambda>tool. Ok (tool\<lparr>pts_stage := Stage_Settled\<rparr>)"])
      (simp_all add: ToolCallCancelled names_decision_def tracked_tool_def)
next
  case (ToolCallMarkedUnknown t)
  then have "transition_tool_call s ev t [Tool_Running] (\<lambda>c. c\<lparr>tc_status := Tool_Unknown\<rparr>) = Ok u"
    using assms(3) by (auto simp: Let_def result_simps)
  then show ?thesis
    by (rule scans_transition [OF assms(1,2), where upd = "\<lambda>tool. Ok (tool\<lparr>pts_stage := Stage_Settled\<rparr>)"])
      (simp_all add: ToolCallMarkedUnknown names_decision_def tracked_tool_def)
next
  case (ToolPermissionAnswered t d answer)
  then show ?thesis using scans_answer assms by blast
next
  case (ToolCallProposed a call)
  then show ?thesis using scans_proposal assms by blast
qed (use assms(4) in simp_all)

text \<open>Every other event but those of a prompt keeps the inputs, the known attempts and the tool calls.\<close>

lemma transition_attempt_views:
  assumes "indexes_ok s" "transition_attempt s ev a allowed f = Ok u"
  shows "same_views s u"
proof -
  obtain p where p: "attempt s a = Some p" "u = set_attempt s a (f p)"
    using assms(2) unfolding transition_attempt_Ok [OF assms(1)] by blast
  with attempt_set_attempt [OF assms(1) p(1)] show ?thesis by (auto simp: same_views_def)
qed

lemma attempt_views:
  assumes "indexes_ok s" "apply_attempt s ev p = Ok u"
  shows "same_views s u"
  using assms(2) transition_attempt_views [OF assms(1), of ev]
  by (cases p) (auto simp: result_simps)

lemma run_views:
  assumes "indexes_ok s" "apply_run s ev p = Ok u"
  shows "same_views s u"
proof (cases p)
  case (ContextTurnBound a k x h)
  then obtain t where "transition_attempt s ev a [Attempt_InFlight]
      (\<lambda>p. p\<lparr>ap_context_turn_bindings := ap_context_turn_bindings p @
         [\<lparr>ctb_run_turn = k, ctb_context_turn_id = x, ctb_manifest_hash = h, ctb_bound_sequence = ev_sequence ev\<rparr>]\<rparr>) = Ok t"
    "u = t\<lparr>sa_context_turn_ids := insert x (sa_context_turn_ids t)\<rparr>"
    using assms(2) by (auto simp: Let_def result_simps)
  then show ?thesis
    using transition_attempt_views [OF assms(1)] by (fastforce simp: same_views_def find_input_def attempt_def tool_call_def)
qed (use assms(2) transition_attempt_views [OF assms(1), of ev] in \<open>auto simp: Let_def result_simps\<close>)

lemma session_views:
  "apply_session s ev p = Ok u \<Longrightarrow> same_views s u"
  by (cases p) (auto simp: result_simps same_views_def find_input_def attempt_def tool_call_def)

lemma scans_admission:
  assumes "parts_ok s" "tracks s sc" "apply_prompt s ev (InputAdmitted i x m) = Ok u"
  shows "scans s sc (InputAdmitted i x m) u"
proof -
  note ix = parts_okD(1) [OF assms(1)]
  have new: "i \<notin> sa_admitted_input_ids s"
    and u: "u = s\<lparr>sa_admitted_input_ids := insert i (sa_admitted_input_ids s), sa_admitted_inputs :=
      sa_admitted_inputs s @ [\<lparr>ai_input_id = i, ai_prompt = x, ai_delivery_mode = m, ai_promoted_by = None\<rparr>]\<rparr>"
    using assms(3) by (auto simp: result_simps)
  have fresh: "find_input s i = None" using new by (simp add: find_input_None_iff [OF ix])
  have "find_input u = (find_input s)(i \<mapsto> \<lparr>ai_input_id = i, ai_prompt = x, ai_delivery_mode = m, ai_promoted_by = None\<rparr>)"
    using fresh unfolding u by (auto simp: fun_eq_iff find_input_def find_append split: option.splits)
  moreover have "attempt u = attempt s" "tool_call u = tool_call s" unfolding u by (auto simp: attempt_def tool_call_def)
  ultimately show ?thesis
    using assms(2) fresh
    by (auto simp: scans_def names_decision_def tracks_def ordered_put_ordered ordered_put_lookup tracked_input_def)
qed

lemma scans_preparation:
  assumes "parts_ok s" "tracks s sc" "apply_prompt s ev (AttemptPrepared a i model retry_of) = Ok u"
  shows "scans s sc (AttemptPrepared a i model retry_of) u"
proof -
  note ix = parts_okD(1) [OF assms(1)]
  obtain n where new: "attempt s a = None" and n: "position (\<lambda>x. ai_input_id x = i) (sa_admitted_inputs s) = Some n"
    using assms(3) by (auto simp: result_simps attempt_None_iff [OF ix])
  let ?x = "sa_admitted_inputs s ! n"
  have x: "n < length (sa_admitted_inputs s)" "ai_input_id ?x = i" using position_Some [OF n] by auto
  have look: "find_input s i = Some ?x" using x inputs_mem [OF ix, of ?x] by simp
  show ?thesis
  proof (cases retry_of)
    case None
    let ?y = "?x\<lparr>ai_promoted_by := Some a\<rparr>"
    let ?s = "s\<lparr>sa_admitted_inputs := (sa_admitted_inputs s)[n := ?y]\<rparr>"
    have u: "u = push_attempt ?s (new_attempt a i model None)" and unpromoted: "ai_promoted_by ?x = None"
      using assms(3) n None by (auto simp: result_simps)
    have "find_input ?s = (find_input s)(i \<mapsto> ?y)"
      using find_update_position [OF n, of ?y] x(2) by (auto simp: fun_eq_iff find_input_def)
    moreover have "attempt ?s = attempt s" "tool_call ?s = tool_call s" by (auto simp: attempt_def tool_call_def)
    moreover from this have "attempt u = (attempt s)(a \<mapsto> new_attempt a i model None)"
      using attempt_push_attempt [OF indexes_ok_promote [OF ix x(1), of "Some a"], of "new_attempt a i model None"] new u
      by (simp add: new_attempt_def)
    ultimately show ?thesis
      using assms(2) None look new unpromoted u
      by (auto simp: scans_def names_decision_def tracks_def ordered_put_ordered ordered_put_lookup tracked_input_def domIff)
  next
    case (Some b)
    then have u: "u = push_attempt s (new_attempt a i model retry_of)" using assms(3) by (auto simp: result_simps)
    then have "attempt u = (attempt s)(a \<mapsto> new_attempt a i model retry_of)"
      using attempt_push_attempt [OF ix, of "new_attempt a i model retry_of"] new by (simp add: new_attempt_def)
    then show ?thesis
      using assms(2) Some look new u by (auto simp: scans_def names_decision_def tracks_def domIff)
  qed
qed

fun is_prompt_payload :: "event_payload \<Rightarrow> bool" where
  "is_prompt_payload (InputAdmitted _ _ _) = True"
| "is_prompt_payload (AttemptPrepared _ _ _ _) = True"
| "is_prompt_payload _ = False"

lemma other_scan:
  "\<not> is_tool_payload p \<Longrightarrow> \<not> is_prompt_payload p \<Longrightarrow> scan_payload sc p = Ok sc \<and> names_decision s p"
  by (cases p) (simp_all add: names_decision_def)

lemma other_views:
  assumes "indexes_ok s" "apply_payload s ev p = Ok u" "\<not> is_tool_payload p" "\<not> is_prompt_payload p"
  shows "same_views s u"
  using assms(2-4) attempt_views [OF assms(1), of ev p u] run_views [OF assms(1), of ev p u] session_views [of s ev p u]
  by (cases p) (simp_all only: apply_payload.simps event_payload.case is_tool_payload.simps is_prompt_payload.simps simp_thms)

lemma scans_payload:
  assumes "parts_ok s" "tracks s sc" "apply_payload s ev p = Ok u"
  shows "scans s sc p u"
proof -
  consider "is_tool_payload p" | "is_prompt_payload p" | "\<not> is_tool_payload p" "\<not> is_prompt_payload p" by blast
  then show ?thesis
  proof cases
    case 1
    then have "apply_tool s ev p = Ok u" using assms(3) by (cases p) (simp_all only: apply_payload.simps event_payload.case is_tool_payload.simps)
    then show ?thesis using scans_tool [OF assms(1,2)] 1 by blast
  next
    case 2
    then have "apply_prompt s ev p = Ok u" using assms(3) by (cases p) (simp_all only: apply_payload.simps event_payload.case is_prompt_payload.simps)
    then show ?thesis using scans_admission [OF assms(1,2)] scans_preparation [OF assms(1,2)] 2 by (cases p) auto
  next
    case 3
    then show ?thesis
      using other_scan [OF 3, of sc s] tracks_same [OF assms(2) other_views [OF parts_okD(1) [OF assms(1)] assms(3) 3]]
      by (simp add: scans_def)
  qed
qed

section \<open>A whole log\<close>

text \<open>Every answer of a human names the decision it answers, given what the log held before.\<close>

fun answers_named :: "event_payload list \<Rightarrow> event_payload list \<Rightarrow> bool" where
  "answers_named seen [] \<longleftrightarrow> True"
| "answers_named seen (p # ps) \<longleftrightarrow>
     (case p of ToolPermissionAnswered t d _ \<Rightarrow> ToolPermissionRecorded t d Outcome_Ask \<in> set seen | _ \<Rightarrow> True)
     \<and> answers_named (p # seen) ps"

lemma transition_keeps_decision:
  assumes "indexes_ok s" "transition_tool_call s ev a allowed f = Ok u" "tool_call s t = Some c" "tc_policy_decision c = Some k"
    and "tc_status c \<in> set allowed \<Longrightarrow> tc_policy_decision (f c) = tc_policy_decision c"
  shows "\<exists>c'. tool_call u t = Some c' \<and> tc_policy_decision c' = Some k"
  using assms by (auto simp: transition_tool_call_Ok [OF assms(1)] tool_call_set_tool_call [OF assms(1)])

lemma tool_keeps_decision:
  assumes "parts_ok s" "apply_tool s ev p = Ok u" "tool_call s t = Some c" "tc_policy_decision c = Some k"
  shows "\<exists>c'. tool_call u t = Some c' \<and> tc_policy_decision c' = Some k"
proof -
  note ix = parts_okD(1) [OF assms(1)]
  have judged: "tc_status c \<noteq> Tool_Proposed"
    using parts_okD(7) [OF assms(1,3)] assms(4) by (auto simp: tool_wf_def tool_unjudged_def policy_outcome_def)
  note keep = transition_keeps_decision [OF ix _ assms(3,4)]
  show ?thesis
  proof (cases p)
    case (ToolCallProposed a call)
    then have "tool_call s (spec_tool_call_id call) = None" "u = push_tool_call s (new_tool_call a call)"
      using assms(2) by (auto simp: result_simps tool_call_None_iff [OF ix])
    then show ?thesis
      using tool_call_push_tool_call [OF ix, of "new_tool_call a call"] assms(3,4) by (auto simp: new_tool_call_def)
  qed (use assms(2-4) judged in \<open>auto simp: result_simps Let_def elim!: keep\<close>)
qed

lemma decision_recorded_once:
  assumes "rehydrate sid evs = Ok s" "ToolPermissionRecorded t d x \<in> ev_payload ` set evs"
  shows "\<exists>c. tool_call s t = Some c \<and> tc_policy_decision c = Some (d, x)"
  using assms
proof (induction evs arbitrary: s rule: rev_induct)
  case (snoc ev evs)
  obtain r u where r: "rehydrate sid evs = Ok r" "apply_payload r ev (ev_payload ev) = Ok u" "s = record_envelope ev u"
    using snoc.prems(1) unfolding rehydrate_snoc apply_one_Ok by blast
  have parts: "parts_ok r" using rehydrate_log(1) [OF r(1)] by (simp add: log_of_def aggregate_inv_def)
  note ix = parts_okD(1) [OF parts]
  have same: "tool_call s = tool_call u" using r(3) by (simp add: record_envelope_def tool_call_def fun_eq_iff)
  show ?case
  proof (cases "ev_payload ev = ToolPermissionRecorded t d x")
    case True
    then obtain c where "tool_call r t = Some c"
      "u = set_tool_call r t (c\<lparr>tc_policy_decision := Some (d, x), tc_status := status_of_outcome x\<rparr>)"
      using r(2) transition_tool_call_Ok [OF ix] by auto
    then show ?thesis using tool_call_set_tool_call [OF ix] same by auto
  next
    case False
    then obtain c where c: "tool_call r t = Some c" "tc_policy_decision c = Some (d, x)"
      using snoc.IH [OF r(1)] snoc.prems(2) by auto
    then have "\<exists>c'. tool_call u t = Some c' \<and> tc_policy_decision c' = Some (d, x)"
      using apply_payload_tools [OF r(2)] tool_keeps_decision [OF parts _ c] by auto
    with same show ?thesis by simp
  qed
qed simp

lemma names_decision_log:
  assumes "rehydrate sid evs = Ok s" "apply_payload s ev p = Ok u" "set seen = ev_payload ` set evs"
  shows "names_decision s p \<longleftrightarrow>
    (case p of ToolPermissionAnswered t d _ \<Rightarrow> ToolPermissionRecorded t d Outcome_Ask \<in> set seen | _ \<Rightarrow> True)"
proof (cases "\<exists>t d a. p = ToolPermissionAnswered t d a")
  case True
  then obtain t d a where p: "p = ToolPermissionAnswered t d a" by blast
  have parts: "parts_ok s" using rehydrate_log(1) [OF assms(1)] by (simp add: log_of_def aggregate_inv_def)
  obtain c where c: "tool_call s t = Some c" "tc_status c = Tool_PermissionPending"
    using assms(2) p by (auto simp: transition_tool_call_Ok [OF parts_okD(1) [OF parts]])
  then obtain k where k: "tc_policy_decision c = Some (k, Outcome_Ask)"
    using parts_okD(7) [OF parts c(1)] by (auto simp: tool_wf_def tool_undecided_def policy_outcome_def)
  have "ToolPermissionRecorded t k Outcome_Ask \<in> set seen"
    using log_evidence(1) [OF assms(1) c(1) k] assms(3) by simp
  moreover have "k = d" if "ToolPermissionRecorded t d Outcome_Ask \<in> set seen"
    using decision_recorded_once [OF assms(1), of t d Outcome_Ask] that assms(3) c k by auto
  ultimately show ?thesis using c k p by (auto simp: names_decision_def)
next
  case False
  then show ?thesis by (auto simp: names_decision_def split: event_payload.splits)
qed

lemma scan_log:
  assumes "rehydrate sid xs = Ok s" "tracks s sc" "set seen = ev_payload ` set xs" "try_fold apply_one s ys = Ok u"
  shows "if answers_named seen (map ev_payload ys)
    then \<exists>sc'. try_fold (\<lambda>sc ev. scan_payload sc (ev_payload ev)) sc ys = Ok sc' \<and> tracks u sc'
    else try_fold (\<lambda>sc ev. scan_payload sc (ev_payload ev)) sc ys = Err InvalidCompactionEventStream"
  using assms
proof (induction ys arbitrary: xs s sc seen)
  case (Cons ev ys)
  obtain v where v: "apply_one s ev = Ok v" "try_fold apply_one v ys = Ok u"
    using Cons.prems(4) by (auto simp: result_simps)
  obtain w where w: "apply_payload s ev (ev_payload ev) = Ok w" "v = record_envelope ev w"
    using v(1) unfolding apply_one_Ok by blast
  have parts: "parts_ok s" using rehydrate_log(1) [OF Cons.prems(1)] by (simp add: log_of_def aggregate_inv_def)
  have "find_input v = find_input w" "attempt v = attempt w" "tool_call v = tool_call w"
    using w(2) by (simp_all add: record_envelope_def find_input_def attempt_def tool_call_def fun_eq_iff)
  then have views: "same_views w v" by (simp add: same_views_def)
  have log: "rehydrate sid (xs @ [ev]) = Ok v" using Cons.prems(1) v(1) unfolding rehydrate_snoc by blast
  note names = names_decision_log [OF Cons.prems(1) w(1) Cons.prems(3)]
  show ?case
  proof (cases "names_decision s (ev_payload ev)")
    case True
    then obtain sc' where sc': "scan_payload sc (ev_payload ev) = Ok sc'" "tracks w sc'"
      using scans_payload [OF parts Cons.prems(2) w(1)] by (auto simp: scans_def)
    have "set (ev_payload ev # seen) = ev_payload ` set (xs @ [ev])" using Cons.prems(3) by simp
    from Cons.IH [OF log tracks_same [OF sc'(2) views] this v(2)] show ?thesis
      using True names sc'(1) by simp
  next
    case False
    then show ?thesis
      using scans_payload [OF parts Cons.prems(2) w(1)] names by (simp add: scans_def)
  qed
qed simp

section \<open>The envelopes\<close>

fun correlated :: "(event_id \<rightharpoonup> correlation_id) \<Rightarrow> event_envelope list \<Rightarrow> bool" where
  "correlated ids [] \<longleftrightarrow> True"
| "correlated ids (ev # evs) \<longleftrightarrow>
     (case ev_causation ev of Cause_Event e \<Rightarrow> ids e = Some (ev_correlation_id ev) | Cause_Command _ \<Rightarrow> True)
     \<and> correlated (ids(ev_event_id ev \<mapsto> ev_correlation_id ev)) evs"

lemma correlated_append:
  "correlated ids (xs @ ys) \<longleftrightarrow>
     correlated ids xs \<and> correlated (fold (\<lambda>ev m. m(ev_event_id ev \<mapsto> ev_correlation_id ev)) xs ids) ys"
  by (induction xs arbitrary: ids) auto

lemma chained_correlated:
  assumes "chained cause n evs" "list_all (\<lambda>ev. ev_correlation_id ev = k) evs"
    and "\<And>e. cause = Cause_Event e \<Longrightarrow> ids e = Some k"
  shows "correlated ids evs"
  using assms
proof (induction evs arbitrary: cause n ids)
  case (Cons ev evs)
  have "correlated (ids(ev_event_id ev \<mapsto> ev_correlation_id ev)) evs"
    by (rule Cons.IH [of "Cause_Event (ev_event_id ev)" "Suc n"]) (use Cons.prems in auto)
  then show ?case using Cons.prems by (auto split: causation.splits)
qed simp

lemma prefix_checked:
  assumes "log_of s xs" "try_fold apply_one s ys = Ok u" "sa_session_id s = sid"
    and "dom ids = set (map ev_event_id xs)" "correlated ids ys"
  shows "check_prefix sid (length xs) ids (set (command_causes xs)) ys = Ok ()"
  using assms
proof (induction ys arbitrary: s xs ids)
  case (Cons ev ys)
  obtain v where v: "apply_one s ev = Ok v" "try_fold apply_one v ys = Ok u"
    using Cons.prems(2) by (auto simp: result_simps)
  have valid: "validate_envelope s ev = Ok ()" using v(1) unfolding apply_one_Ok by blast
  have seq: "ev_sequence ev = Suc (length xs)" "Suc (length xs) \<le> i64_max"
    using valid Cons.prems(1) expected_sequence_bound [of s "ev_sequence ev"]
    unfolding validate_envelope_Ok expected_sequence_Ok log_of_def by (auto simp del: int_max_values split: if_splits)
  have log: "log_of v (xs @ [ev])" using log_of_snoc [OF Cons.prems(1) v(1)] .
  have "check_prefix sid (length (xs @ [ev])) (ids(ev_event_id ev \<mapsto> ev_correlation_id ev)) (set (command_causes (xs @ [ev]))) ys = Ok ()"
  proof (rule Cons.IH [OF log v(2)])
    show "sa_session_id v = sid" using Cons.prems(3) by (simp add: apply_one_cursor(1) [OF v(1)])
    show "dom (ids(ev_event_id ev \<mapsto> ev_correlation_id ev)) = set (map ev_event_id (xs @ [ev]))"
      using Cons.prems(4) by simp
    show "correlated (ids(ev_event_id ev \<mapsto> ev_correlation_id ev)) ys" using Cons.prems(5) by simp
  qed
  moreover have "checked_add_u64 (length xs) 1 = Some (Suc (length xs))" using seq(2) by (simp add: checked_add_u64_def)
  moreover have "ids (ev_event_id ev) = None"
    using valid Cons.prems(1,4) unfolding validate_envelope_Ok log_of_def by (auto simp: domIff [symmetric])
  ultimately show ?case
    using valid seq Cons.prems(1,3,5) unfolding validate_envelope_Ok log_of_def
    by (auto split: causation.splits)
qed simp

lemma prepare_events_correlated:
  "\<lbrakk>prepare_events draw e sid cmd index ps n ids evs m = (Ok (all, ids'), m');
    list_all (\<lambda>ev. ev_correlation_id ev = cmd_correlation_id cmd) evs\<rbrakk>
   \<Longrightarrow> list_all (\<lambda>ev. ev_correlation_id ev = cmd_correlation_id cmd) all"
proof (induction ps arbitrary: index n ids evs m)
  case (Cons p ps)
  then show ?case by (auto simp: Let_def split: option.splits prod.splits if_splits)
qed simp

lemma execute_correlated:
  assumes "execute draw e cmd = (Ok evs, e')"
  shows "list_all (\<lambda>ev. ev_correlation_id ev = cmd_correlation_id cmd) evs"
proof -
  obtain p m where p: "prepare draw e cmd = (Ok p, m)" "evs = pc_events p"
    using assms by (auto simp: execute_def split: prod.splits result.splits)
  then obtain ps n ids m' where "prepare_events draw e (command_session_id (cmd_payload cmd)) cmd 0 ps n {} []
      (ime_metadata_source e) = (Ok (evs, ids), m')"
    by (auto simp: prepare_def Let_def result_simps split: if_splits result.splits option.splits prod.splits)
  then show ?thesis by (rule prepare_events_correlated) simp
qed

lemma execute_not_Ok: "execute draw e cmd = (r, e') \<Longrightarrow> \<not> is_ok r \<Longrightarrow> ime_events e' = ime_events e"
  by (auto simp: execute_def is_ok_iff split: prod.splits result.splits)

lemma reachable_correlated:
  "engine_reachable draw e \<Longrightarrow> correlated Map.empty (session_events sid (ime_events e))"
proof (induction rule: engine_reachable.induct)
  case (start m)
  then show ?case by (simp add: engine_new_def session_events_def)
next
  case (step e cmd r e')
  show ?case
  proof (cases r)
    case (Ok evs)
    obtain p m where p: "prepared_ok e cmd p" "evs = pc_events p" "e' = commit_prepared (e\<lparr>ime_metadata_source := m\<rparr>) p"
      using execute_Ok [OF reachable_inv [OF step.hyps(1)]] step.hyps(2) Ok by metis
    have "log_of (pc_candidate p) (session_events (pc_session_id p) (ime_events e) @ evs)"
      using log_of_fold engine_inv_session(1) [OF reachable_inv [OF step.hyps(1)]] p(1,2)
      unfolding prepared_ok_def apply_uncommitted_batch_def by blast
    moreover have "sa_session_id (pc_candidate p) = pc_session_id p"
      using p(1) fold_session_id engine_inv_session(2) [OF reachable_inv [OF step.hyps(1)]]
      unfolding prepared_ok_def apply_uncommitted_batch_def by metis
    ultimately have own: "list_all (\<lambda>ev. ev_session_id ev = pc_session_id p) evs" by (auto simp: log_of_def list_all_iff)
    have batch: "correlated ids evs" for ids
      using chained_correlated [OF _ execute_correlated] step.hyps(2) Ok p(1,2) unfolding prepared_ok_def by blast
    have "session_events sid evs = evs \<or> session_events sid evs = []"
      using own by (cases "sid = pc_session_id p") (auto simp: session_events_def list_all_iff filter_empty_conv)
    then show ?thesis
      using step.IH batch p(2,3) by (auto simp: commit_prepared_def correlated_append)
  qed (use step execute_not_Ok [OF step.hyps(2)] in \<open>simp_all add: is_ok_iff\<close>)
next
  case (restart e ys m e')
  then show ?case using replay_sound [OF restart.hyps(3)] by simp
qed

section \<open>The facts of a session\<close>

definition unsettled_facts :: "compaction_lib \<Rightarrow> session_aggregate \<Rightarrow> (pending_fact list, memory_error) result" where
  "unsettled_facts lib s =
     and_then (try_map (\<lambda>x. pending_input_fact lib (ai_input_id x) (tracked_input x))
       (sort_key ai_input_id (filter (\<lambda>x. ai_promoted_by x = None) (sa_admitted_inputs s)))) (\<lambda>inputs.
     and_then (try_map (\<lambda>c. tool_facts lib (tc_id c) (tracked_tool c))
       (sort_key tc_id (filter (\<lambda>c. \<not> tool_is_settled (tc_status c)) (sa_tool_calls s)))) (\<lambda>tools.
     Ok (inputs @ concat tools)))"

lemma try_map_map: "try_map f (map g xs) = try_map (\<lambda>x. f (g x)) xs"
  by (induction xs) simp_all

lemma tool_call_find:
  assumes "indexes_ok s"
  shows "tool_call s t = find (\<lambda>c. tc_id c = t) (sa_tool_calls s)" "distinct (map tc_id (sa_tool_calls s))"
proof -
  show d: "distinct (map tc_id (sa_tool_calls s))" using assms index_ok_distinct by (auto simp: indexes_ok_def)
  show "tool_call s t = find (\<lambda>c. tc_id c = t) (sa_tool_calls s)"
  proof (cases "find (\<lambda>c. tc_id c = t) (sa_tool_calls s)")
    case None
    have "tool_call s t \<noteq> Some c" for c
      using None tool_calls_mem [OF assms, of c] tool_call_id_of [OF assms, of t c] unfolding find_None_iff by blast
    with None show ?thesis by (metis option.exhaust)
  next
    case (Some c)
    then have "c \<in> set (sa_tool_calls s)" "tc_id c = t" by (auto simp: find_Some_iff)
    with Some show ?thesis using tool_calls_mem [OF assms, of c] by simp
  qed
qed

lemma tracks_facts:
  assumes "indexes_ok s" "tracks s sc"
  shows "scan_facts lib sc = unsettled_facts lib s"
proof -
  have inputs: "sc_inputs sc = map (\<lambda>x. (ai_input_id x, tracked_input x)) (sort_key ai_input_id (sa_admitted_inputs s))"
    using assms by (intro ordered_view) (auto simp: tracks_def indexes_ok_def find_input_def)
  have tools: "sc_tools sc = map (\<lambda>c. (tc_id c, tracked_tool c)) (sort_key tc_id (sa_tool_calls s))"
  proof (rule ordered_view)
    show "ordered (sc_tools sc)" using assms(2) by (simp add: tracks_def)
    show "map_of (sc_tools sc) t = map_option tracked_tool (find (\<lambda>c. tc_id c = t) (sa_tool_calls s))" for t
      unfolding tool_call_find(1) [OF assms(1), symmetric] using assms(2) by (simp add: tracks_def)
  qed (rule tool_call_find(2) [OF assms(1)])
  show ?thesis
    unfolding scan_facts_def unsettled_facts_def inputs tools
    by (simp add: filter_map try_map_map filter_sort comp_def stage_settled)
qed

end
