(* ===== verification/Compaction_Properties.thy ===== *)
theory Compaction_Properties
  imports Compaction_Laws Context_Laws Engine_Properties
begin

text \<open>
  Properties of compaction: the facts it derives from a log are those of the replayed session, a human
  answer that does not name the recorded decision makes them underivable, and their fingerprint does not
  depend on the order or the retrieval signals of its inputs.
\<close>

section \<open>Pending facts\<close>

lemma facts_of_log:
  assumes "rehydrate sid log = Ok s" "log \<noteq> []" "correlated Map.empty log"
  shows "pending_session_facts_from_events lib sid (length log) log =
    (if answers_named [] (map ev_payload log) then unsettled_facts lib s else Err InvalidCompactionEventStream)"
proof -
  obtain ev evs where log: "log = ev # evs" using assms(2) by (cases log) auto
  obtain v where "apply_one (aggregate_empty sid) ev = Ok v" using assms(1) log by (auto simp: rehydrate_def result_simps)
  then obtain w where "apply_payload (aggregate_empty sid) ev (ev_payload ev) = Ok w" unfolding apply_one_Ok by blast
  then have "ev_payload ev = SessionCreated"
    by (cases "ev_payload ev") (auto simp: result_simps require_created_for_replay_def aggregate_empty_def
        transition_attempt_def transition_tool_call_def Let_def attempt_def tool_call_def get_index_def
        require_replay_attempt_tool_calls_settled_def has_live_tool_call_def)
  moreover have "check_prefix sid 0 Map.empty {} log = Ok ()"
    using prefix_checked [OF log_of_empty, of sid log s sid Map.empty] assms
    by (simp add: rehydrate_def aggregate_empty_def)
  ultimately have "validate_event_prefix sid (length log) log = Ok ()"
    using log by (simp add: validate_event_prefix_def)
  moreover have "rehydrate sid [] = Ok (aggregate_empty sid)" by (simp add: rehydrate_def)
  from scan_log [OF this tracks_empty, of "[]" log s] have
    "if answers_named [] (map ev_payload log)
     then \<exists>sc'. try_fold (\<lambda>sc ev. scan_payload sc (ev_payload ev)) scan_empty log = Ok sc' \<and> tracks s sc'
     else try_fold (\<lambda>sc ev. scan_payload sc (ev_payload ev)) scan_empty log = Err InvalidCompactionEventStream"
    using assms(1) by (simp add: rehydrate_def)
  ultimately show ?thesis
    using tracks_facts [OF rehydrate_indexes [OF assms(1)]]
    by (auto simp: pending_session_facts_from_events_def split: if_splits)
qed

text \<open>
  C21: Compaction keeps exactly what the session has not settled. From the log of any session of a reachable
  engine it derives, in the order of their identities, one fact for each input that no attempt has
  promoted and, for each tool call that has not settled, its fact, preceded by the permission that a
  human still has to give, all computed from the projections of the live session. It does so exactly if
  every human answer in the log names the decision it answers; otherwise it rejects the log.
\<close>

theorem compaction_facts_are_exact:
  assumes "engine_reachable draw e" "ime_sessions e sid = Some s" "session_events sid (ime_events e) = log"
  shows "pending_session_facts_from_events lib sid (length log) log =
    (if answers_named [] (map ev_payload log) then unsettled_facts lib s else Err InvalidCompactionEventStream)"
proof (rule facts_of_log)
  have inv: "engine_inv e" using assms(1) by (rule reachable_inv)
  then have "rehydrate sid log = Ok (session_or_empty e sid)" "ime_sessions e sid = None \<longleftrightarrow> log = []"
    using assms(3) unfolding engine_inv_def by blast+
  then show "rehydrate sid log = Ok s" "log \<noteq> []" using assms(2) by (simp_all add: session_or_empty_def)
  show "correlated Map.empty log" using reachable_correlated [OF assms(1), of sid] assms(3) by simp
qed

text \<open>A session with an admitted prompt that no attempt has taken up.\<close>

definition titled_engine :: "nat in_memory_engine" where
  "titled_engine = snd (execute counter example_engine
     (example_command 2 (RenameSession example_session (SessionTitle [116]))))"

definition prompted_engine :: "nat in_memory_engine" where
  "prompted_engine = snd (execute counter titled_engine
     (example_command 3 (AdmitPrompt example_session (InputId [105]) (PromptText [104, 105]) NextTurn)))"

definition compaction_example_lib :: compaction_lib where
  "compaction_example_lib = \<lparr>cl_sha256 = (\<lambda>_. replicate 32 7), cl_call_json = (\<lambda>_. Some []), cl_scope_json = (\<lambda>_. Some []),
     cl_kind_json = (\<lambda>_. Some []), cl_trust_json = (\<lambda>_. Some []), cl_sensitivity_json = (\<lambda>_. Some []),
     cl_validity_json = (\<lambda>_. Some [])\<rparr>"

lemma prompted_log:
  "ime_events prompted_engine = [example_event 1 SessionCreated, example_event 2 (SessionRenamed (SessionTitle [116])),
     example_event 3 (InputAdmitted (InputId [105]) (PromptText [104, 105]) NextTurn)]"
  "ime_sessions prompted_engine example_session \<noteq> None" "engine_reachable counter prompted_engine"
proof -
  have "engine_reachable counter titled_engine" unfolding titled_engine_def
    by (rule engine_reachable.step [OF example_engine_reachable surjective_pairing])
  then show "engine_reachable counter prompted_engine" unfolding prompted_engine_def
    by (rule engine_reachable.step [OF _ surjective_pairing])
  show "ime_events prompted_engine = [example_event 1 SessionCreated, example_event 2 (SessionRenamed (SessionTitle [116])),
      example_event 3 (InputAdmitted (InputId [105]) (PromptText [104, 105]) NextTurn)]"
    "ime_sessions prompted_engine example_session \<noteq> None"
    unfolding prompted_engine_def titled_engine_def example_engine_def
    by (simp_all add: execute_eval replay_eval example_defs require_created_def require_not_archived_def admit_prompt_events_def)
qed

theorem compaction_facts_are_exact_witness:
  "\<exists>s. ime_sessions prompted_engine example_session = Some s
     \<and> pending_session_facts_from_events compaction_example_lib example_session (length (ime_events prompted_engine))
           (ime_events prompted_engine)
         = unsettled_facts compaction_example_lib s"
proof -
  obtain s where s: "ime_sessions prompted_engine example_session = Some s" using prompted_log(2) by blast
  have "session_events example_session (ime_events prompted_engine) = ime_events prompted_engine"
    by (simp add: session_events_def prompted_log(1) example_event_def)
  from compaction_facts_are_exact [OF prompted_log(3) s this, of compaction_example_lib] s show ?thesis
    by (simp add: prompted_log(1) example_event_def)
qed

section \<open>Answers with an identity of their own\<close>

lemma answers_named_unnamed:
  "answers_named seen (ps @ ToolPermissionAnswered t d a # qs) \<Longrightarrow>
     ToolPermissionRecorded t d Outcome_Ask \<in> set seen \<union> set ps"
proof (induction ps arbitrary: seen)
  case (Cons p ps)
  then have "answers_named (p # seen) (ps @ ToolPermissionAnswered t d a # qs)" by simp
  from Cons.IH [OF this] show ?case by auto
qed simp

text \<open>
  C37: A session in which a human answered a permission request under an identity other than that of the
  recorded decision can never be compacted: the engine accepts and replays such a log, and no extension
  of it yields the facts that compaction needs.
\<close>

theorem foreign_answer_blocks_compaction:
  assumes "rehydrate sid (before @ ev # later) = Ok s" "ev_payload ev = ToolPermissionAnswered t d a"
    and "ToolPermissionRecorded t d Outcome_Ask \<notin> ev_payload ` set before"
  shows "\<not> is_ok (pending_session_facts_from_events lib sid n (before @ ev # later))"
proof -
  let ?log = "before @ ev # later"
  have start: "rehydrate sid [] = Ok (aggregate_empty sid)" by (simp add: rehydrate_def)
  have "\<not> answers_named [] (map ev_payload ?log)"
    using answers_named_unnamed [of "[]" "map ev_payload before" t d a "map ev_payload later"] assms(2,3) by auto
  then have "try_fold (\<lambda>sc ev. scan_payload sc (ev_payload ev)) scan_empty ?log = Err InvalidCompactionEventStream"
    using scan_log [OF start tracks_empty, of "[]" ?log s] assms(1) by (simp add: rehydrate_def)
  then show ?thesis by (auto simp: pending_session_facts_from_events_def is_ok_iff result_simps)
qed

theorem foreign_answer_blocks_compaction_witness:
  "\<not> is_ok (pending_session_facts_from_events compaction_example_lib example_session 12 (example_prefix @ [example_start]))"
proof -
  let ?answer = "example_event 11 (ToolPermissionAnswered (ToolCallId [116]) (PermissionDecisionId [101]) Answer_AllowOnce)"
  have split: "example_prefix @ [example_start] = butlast example_prefix @ ?answer # [example_start]"
    by (simp add: example_prefix_def)
  have "is_ok (rehydrate example_session (butlast example_prefix @ ?answer # [example_start]))"
    by (simp add: replay_eval example_defs)
  then show ?thesis
    unfolding split is_ok_iff
    by (elim exE) (rule foreign_answer_blocks_compaction [unfolded is_ok_iff, where t = "ToolCallId [116]"
        and d = "PermissionDecisionId [101]" and a = Answer_AllowOnce]; simp add: example_defs)
qed

section \<open>The fingerprint\<close>

lemma adjacent_duplicate_map: "adjacent_duplicate (map f xs) = None \<Longrightarrow> adjacent_duplicate xs = None"
  by (induction xs rule: adjacent_duplicate.induct) (auto split: if_splits)

lemma sort_key_map: "sort_key f (map g xs) = map g (sort_key (\<lambda>x. f (g x)) xs)"
proof -
  have "insort_key f (g x) (map g ys) = map g (insort_key (\<lambda>x. f (g x)) x ys)" for x ys by (induction ys) simp_all
  then show ?thesis by (induction xs) simp_all
qed

text \<open>What a candidate contributes besides the signals of one retrieval.\<close>

definition durable_part :: "memory_candidate \<Rightarrow> memory_candidate" where
  "durable_part c = c\<lparr>mc_exact_match := False, mc_lexical_basis_points := 0\<rparr>"

lemma durable_part_simps [simp]:
  "eligible scope (durable_part c) \<longleftrightarrow> eligible scope c" "memory_fact_key (durable_part c) = memory_fact_key c"
  "mc_revision_id (durable_part c) = mc_revision_id c" "encode_memory_fact lib out (durable_part c) = encode_memory_fact lib out c"
  by (simp_all add: durable_part_def eligible_def memory_fact_key_def encode_memory_fact_def memory_fact_fields_def)

lemma facts_durable_part:
  "effective_durable_facts lib scope (map durable_part cs) facts = effective_durable_facts lib scope cs facts"
proof -
  have fold: "try_fold (encode_memory_fact lib) out (map durable_part xs) = try_fold (encode_memory_fact lib) out xs" for out xs
    by (induction xs arbitrary: out) simp_all
  have count: "checked_count b (map durable_part xs) = checked_count b xs" for b xs by (simp add: checked_count_def)
  show ?thesis
    unfolding effective_durable_facts_def Let_def
    by (simp add: filter_map comp_def sort_key_map count fold del: int_max_values)
qed

lemma pending_fact_key_inject: "pending_fact_key f = pending_fact_key g \<longleftrightarrow> f = g"
proof
  assume "pending_fact_key f = pending_fact_key g"
  then have "pending_kind_code (pf_kind f) = pending_kind_code (pf_kind g)" "pf_identity_hash f = pf_identity_hash g"
    "pf_state_hash f = pf_state_hash g"
    by (cases "pf_identity_hash f"; cases "pf_identity_hash g"; cases "pf_state_hash f"; cases "pf_state_hash g";
        simp add: pending_fact_key_def)+
  then show "f = g" by (cases "pf_kind f"; cases "pf_kind g"; simp)
qed simp

lemma facts_permuted:
  assumes "mset cs = mset cs'" "mset fs = mset fs'"
  shows "effective_durable_facts lib scope cs fs = effective_durable_facts lib scope cs' fs'"
proof -
  let ?xs = "filter (eligible scope) cs" and ?ys = "filter (eligible scope) cs'"
  have msets: "mset ?xs = mset ?ys" using assms(1) by simp
  have "map mc_revision_id zs = map snd (map memory_fact_key zs)" for zs by (simp add: memory_fact_key_def)
  with sorted_keys_mset [OF msets, of memory_fact_key]
  have ids: "map mc_revision_id (sort_key memory_fact_key ?xs) = map mc_revision_id (sort_key memory_fact_key ?ys)" by metis
  have "sort_key memory_fact_key ?xs = sort_key memory_fact_key ?ys"
    if "adjacent_duplicate (map mc_revision_id (sort_key memory_fact_key ?xs)) = None"
  proof (rule sort_key_no_duplicate [OF _ msets])
    show "adjacent_duplicate (map memory_fact_key (sort_key memory_fact_key ?xs)) = None"
      using that by (intro adjacent_duplicate_map [of snd]) (simp add: memory_fact_key_def comp_def)
  qed
  moreover have "sort_key pending_fact_key fs = sort_key pending_fact_key fs'"
  proof (rule sort_key_inj_key_eq)
    show "inj_on pending_fact_key (set fs)" by (rule inj_onI) (simp add: pending_fact_key_inject)
  qed (use assms(2) in simp_all)
  ultimately show ?thesis
    using ids by (cases "adjacent_duplicate (map mc_revision_id (sort_key memory_fact_key ?xs))")
      (simp_all add: effective_durable_facts_def)
qed

text \<open>
  The fingerprint of a compaction depends on the durable facts alone: candidates and pending facts in
  any order, and with any lexical scores and exact-match flags, give the same fingerprint, or the same
  error.
\<close>

theorem fingerprint_ignores_retrieval:
  assumes "mset (map durable_part cs) = mset (map durable_part cs')" "mset fs = mset fs'"
  shows "effective_durable_facts lib scope cs fs = effective_durable_facts lib scope cs' fs'"
  using facts_permuted [OF assms, of lib scope] by (simp only: facts_durable_part)

definition compaction_example_candidate :: memory_candidate where
  "compaction_example_candidate =
     \<lparr>mc_memory_id = MemoryId [109], mc_revision_id = MemoryRevisionId [114], mc_status = Rev_Active,
      mc_scope = Scope_User (UserId [117]), mc_kind = Kind_Preference, mc_trust = UserApproved, mc_confidence = ConfidenceBasisPoints 10000,
      mc_sensitivity = Sens_Public, mc_validity = Indefinite, mc_content = MemoryContent [99],
      mc_content_hash = Sha256Digest [48], mc_created_at = 0, mc_exact_match = True, mc_lexical_basis_points = 70,
      mc_conflicted = False\<rparr>"

definition compaction_example_scope :: retrieval_scope where
  "compaction_example_scope = \<lparr>rs_user_id = UserId [117], rs_workspace_id = WorkspaceId [119],
     rs_session_id = example_session, rs_agent_id = None, rs_as_of = 1, rs_sensitivity_ceiling = Sens_Internal\<rparr>"

definition compaction_example_fact :: "pending_kind \<Rightarrow> pending_fact" where
  "compaction_example_fact kind = \<lparr>pf_kind = kind, pf_identity_hash = Sha256Digest [48], pf_state_hash = Sha256Digest [49]\<rparr>"

end
