(* ===== verification/Settings_Document.thy ===== *)
theory Settings_Document
  imports Domain_Memory Utf8 Ordered_Map "HOL-Library.Monad_Syntax"
begin

text \<open>
  Settings documents (\<open>autoharness-settings\<close>: \<open>preferences.rs\<close>, \<open>profile.rs\<close>, \<open>source.rs\<close>, \<open>error.rs\<close>) and
  how serde reads them from a JSON value. A derived struct is read from an object by name, where an
  undeclared name is refused, or from an array by position, where missing trailing elements count as
  absent and surplus elements are refused. A null is absence for an \<open>Option\<close> field. A failure is \<open>None\<close>:
  the callers forget which one it was.
\<close>

section \<open>Reading JSON\<close>

definition struct_fields :: "string list \<Rightarrow> json \<Rightarrow> json option list option" where
  "struct_fields names v =
     (case v of
        JObject fs \<Rightarrow>
          if list_all (\<lambda>(k, _). k \<in> set (map ascii names)) fs
          then Some (map (\<lambda>n. map_of fs (ascii n)) names) else None
      | JArray vs \<Rightarrow>
          if length vs \<le> length names
          then Some (map Some vs @ replicate (length names - length vs) None) else None
      | _ \<Rightarrow> None)"

definition optional :: "(json \<Rightarrow> 'a option) \<Rightarrow> json option \<Rightarrow> 'a option option" where
  "optional read f =
     (case f of None \<Rightarrow> Some None | Some JNull \<Rightarrow> Some None | Some v \<Rightarrow> map_option Some (read v))"

definition or_default :: "'a \<Rightarrow> (json \<Rightarrow> 'a option) \<Rightarrow> json option \<Rightarrow> 'a option" where
  "or_default d read f = (case f of None \<Rightarrow> Some d | Some v \<Rightarrow> read v)"

definition required :: "(json \<Rightarrow> 'a option) \<Rightarrow> json option \<Rightarrow> 'a option" where
  "required read f = (case f of None \<Rightarrow> None | Some v \<Rightarrow> read v)"

fun string_de :: "json \<Rightarrow> ustring option" where
  "string_de (JString s) = Some s"
| "string_de _ = None"

fun bool_de :: "json \<Rightarrow> bool option" where
  "bool_de (JBool b) = Some b"
| "bool_de _ = None"

fun unit_variant_name :: "json \<Rightarrow> ustring option" where
  "unit_variant_name (JString s) = Some s"
| "unit_variant_name (JObject [(s, JNull)]) = Some s"
| "unit_variant_name _ = None"

definition enum_de :: "('a \<times> string) list \<Rightarrow> json \<Rightarrow> 'a option" where
  "enum_de variants v =
     Option.bind (unit_variant_name v) (\<lambda>s. map_option fst (find (\<lambda>(_, n). ascii n = s) variants))"

text \<open>A number is an unsigned integer if its literal is one that fits; any sign, fraction or exponent
  makes it a float.\<close>

fun as_u64 :: "json \<Rightarrow> nat option" where
  "as_u64 (JNumber s) =
     (if s \<noteq> [] \<and> list_all (\<lambda>c. 0x30 \<le> c \<and> c \<le> 0x39) s \<and> undecimal s \<le> u64_max then Some (undecimal s) else None)"
| "as_u64 _ = None"

definition unsigned_de :: "nat \<Rightarrow> json \<Rightarrow> nat option" where
  "unsigned_de bound v = Option.bind (as_u64 v) (\<lambda>n. if n \<le> bound then Some n else None)"

fun option_list :: "'a option list \<Rightarrow> 'a list option" where
  "option_list [] = Some []"
| "option_list (x # xs) = do { y \<leftarrow> x; ys \<leftarrow> option_list xs; Some (y # ys) }"

fun vec_de :: "(json \<Rightarrow> 'a option) \<Rightarrow> json \<Rightarrow> 'a list option" where
  "vec_de read (JArray vs) = option_list (map read vs)"
| "vec_de _ _ = None"

section \<open>Preferences\<close>

definition max_display_label_chars :: nat where "max_display_label_chars = 64"

datatype display_label = DisplayLabel ustring

definition display_label_new :: "ustring \<Rightarrow> display_label option" where
  "display_label_new value =
     (if trim_is_empty value \<or> length value > max_display_label_chars \<or> list_ex is_control value
      then None else Some (DisplayLabel value))"

definition display_label_de :: "json \<Rightarrow> display_label option" where
  "display_label_de v = Option.bind (string_de v) display_label_new"

datatype theme_preset =
  Theme_System | Theme_Light | Theme_Dark | Theme_Aurora | Theme_Ember | Theme_Midnight | Theme_Ocean | Theme_Forest | Theme_Rose
datatype color_mode = Color_Color | Color_Soft | Color_Vivid | Color_NoColor | Color_HighContrast
datatype glyph_mode = Glyph_Unicode | Glyph_NerdFont | Glyph_Ascii
datatype density = Density_Comfortable | Density_Compact
datatype layout = Layout_Responsive | Layout_SingleColumn
datatype timestamp_style = Timestamp_Relative | Timestamp_Absolute | Timestamp_Hidden
datatype composer_submit_behavior = Submit_ControlS | Submit_Enter
datatype gui_font_size = Font_Small | Font_Standard | Font_Large | Font_ExtraLarge
datatype prompt_status_detail = Status_Essential | Status_Workspace | Status_Detailed
datatype gui_zoom_percent = GuiZoomPercent nat

definition theme_preset_de :: "json \<Rightarrow> theme_preset option" where
  "theme_preset_de = enum_de [(Theme_System, ''system''), (Theme_Light, ''light''), (Theme_Dark, ''dark''),
     (Theme_Aurora, ''aurora''), (Theme_Ember, ''ember''), (Theme_Midnight, ''midnight''), (Theme_Ocean, ''ocean''),
     (Theme_Forest, ''forest''), (Theme_Rose, ''rose'')]"

definition color_mode_de :: "json \<Rightarrow> color_mode option" where
  "color_mode_de = enum_de [(Color_Color, ''color''), (Color_Soft, ''soft''), (Color_Vivid, ''vivid''),
     (Color_NoColor, ''no_color''), (Color_HighContrast, ''high_contrast'')]"

definition glyph_mode_de :: "json \<Rightarrow> glyph_mode option" where
  "glyph_mode_de = enum_de [(Glyph_Unicode, ''unicode''), (Glyph_NerdFont, ''nerd_font''), (Glyph_Ascii, ''ascii'')]"

definition density_de :: "json \<Rightarrow> density option" where
  "density_de = enum_de [(Density_Comfortable, ''comfortable''), (Density_Compact, ''compact'')]"

definition layout_de :: "json \<Rightarrow> layout option" where
  "layout_de = enum_de [(Layout_Responsive, ''responsive''), (Layout_SingleColumn, ''single_column'')]"

definition timestamp_style_de :: "json \<Rightarrow> timestamp_style option" where
  "timestamp_style_de =
     enum_de [(Timestamp_Relative, ''relative''), (Timestamp_Absolute, ''absolute''), (Timestamp_Hidden, ''hidden'')]"

definition composer_submit_behavior_de :: "json \<Rightarrow> composer_submit_behavior option" where
  "composer_submit_behavior_de = enum_de [(Submit_ControlS, ''control_s''), (Submit_Enter, ''enter'')]"

definition gui_font_size_de :: "json \<Rightarrow> gui_font_size option" where
  "gui_font_size_de = enum_de [(Font_Small, ''small''), (Font_Standard, ''standard''), (Font_Large, ''large''),
     (Font_ExtraLarge, ''extra_large'')]"

definition prompt_status_detail_de :: "json \<Rightarrow> prompt_status_detail option" where
  "prompt_status_detail_de =
     enum_de [(Status_Essential, ''essential''), (Status_Workspace, ''workspace''), (Status_Detailed, ''detailed'')]"

definition gui_zoom_min :: nat where "gui_zoom_min = 75"
definition gui_zoom_max :: nat where "gui_zoom_max = 200"

definition gui_zoom_new :: "nat \<Rightarrow> gui_zoom_percent option" where
  "gui_zoom_new value = (if value < gui_zoom_min \<or> value > gui_zoom_max then None else Some (GuiZoomPercent value))"

definition gui_zoom_de :: "json \<Rightarrow> gui_zoom_percent option" where
  "gui_zoom_de v = Option.bind (unsigned_de u16_max v) gui_zoom_new"

record shared_preferences =
  sp_theme_preset :: "theme_preset option"
  sp_color_mode :: "color_mode option"
  sp_reduced_motion :: "bool option"
  sp_density :: "density option"
  sp_timestamp_style :: "timestamp_style option"
  sp_composer_submit_behavior :: "composer_submit_behavior option"

record gui_preferences =
  gp_zoom_percent :: "gui_zoom_percent option"
  gp_font_size :: "gui_font_size option"

record terminal_preferences =
  tp_glyph_mode :: "glyph_mode option"
  tp_layout :: "layout option"
  tp_prompt_status_detail :: "prompt_status_detail option"

record local_preferences =
  lp_shared :: shared_preferences
  lp_gui :: gui_preferences
  lp_terminal :: terminal_preferences

record local_profile =
  lf_display_label :: "display_label option"
  lf_preferences :: local_preferences

definition shared_preferences_new :: shared_preferences where
  "shared_preferences_new = \<lparr>sp_theme_preset = None, sp_color_mode = None, sp_reduced_motion = None, sp_density = None,
     sp_timestamp_style = None, sp_composer_submit_behavior = None\<rparr>"

definition gui_preferences_new :: gui_preferences where
  "gui_preferences_new = \<lparr>gp_zoom_percent = None, gp_font_size = None\<rparr>"

definition terminal_preferences_new :: terminal_preferences where
  "terminal_preferences_new = \<lparr>tp_glyph_mode = None, tp_layout = None, tp_prompt_status_detail = None\<rparr>"

definition local_preferences_new :: local_preferences where
  "local_preferences_new =
     \<lparr>lp_shared = shared_preferences_new, lp_gui = gui_preferences_new, lp_terminal = terminal_preferences_new\<rparr>"

definition local_profile_new :: local_profile where
  "local_profile_new = \<lparr>lf_display_label = None, lf_preferences = local_preferences_new\<rparr>"

definition shared_names :: "string list" where
  "shared_names = [''theme_preset'', ''color_mode'', ''reduced_motion'', ''density'', ''timestamp_style'', ''composer_submit_behavior'']"

definition shared_preferences_de :: "json \<Rightarrow> shared_preferences option" where
  "shared_preferences_de v = do {
     fs \<leftarrow> struct_fields shared_names v;
     theme \<leftarrow> optional theme_preset_de (fs ! 0);
     color \<leftarrow> optional color_mode_de (fs ! 1);
     motion \<leftarrow> optional bool_de (fs ! 2);
     dens \<leftarrow> optional density_de (fs ! 3);
     stamp \<leftarrow> optional timestamp_style_de (fs ! 4);
     submit \<leftarrow> optional composer_submit_behavior_de (fs ! 5);
     Some \<lparr>sp_theme_preset = theme, sp_color_mode = color, sp_reduced_motion = motion, sp_density = dens,
           sp_timestamp_style = stamp, sp_composer_submit_behavior = submit\<rparr> }"

definition gui_preferences_de :: "json \<Rightarrow> gui_preferences option" where
  "gui_preferences_de v = do {
     fs \<leftarrow> struct_fields [''zoom_percent'', ''font_size''] v;
     zoom \<leftarrow> optional gui_zoom_de (fs ! 0);
     font \<leftarrow> optional gui_font_size_de (fs ! 1);
     Some \<lparr>gp_zoom_percent = zoom, gp_font_size = font\<rparr> }"

definition terminal_preferences_de :: "json \<Rightarrow> terminal_preferences option" where
  "terminal_preferences_de v = do {
     fs \<leftarrow> struct_fields [''glyph_mode'', ''layout'', ''prompt_status_detail''] v;
     glyph \<leftarrow> optional glyph_mode_de (fs ! 0);
     lay \<leftarrow> optional layout_de (fs ! 1);
     detail \<leftarrow> optional prompt_status_detail_de (fs ! 2);
     Some \<lparr>tp_glyph_mode = glyph, tp_layout = lay, tp_prompt_status_detail = detail\<rparr> }"

definition local_preferences_de :: "json \<Rightarrow> local_preferences option" where
  "local_preferences_de v = do {
     fs \<leftarrow> struct_fields [''shared'', ''gui'', ''terminal''] v;
     shared \<leftarrow> or_default shared_preferences_new shared_preferences_de (fs ! 0);
     gui \<leftarrow> or_default gui_preferences_new gui_preferences_de (fs ! 1);
     terminal \<leftarrow> or_default terminal_preferences_new terminal_preferences_de (fs ! 2);
     Some \<lparr>lp_shared = shared, lp_gui = gui, lp_terminal = terminal\<rparr> }"

definition local_profile_de :: "json \<Rightarrow> local_profile option" where
  "local_profile_de v = do {
     fs \<leftarrow> struct_fields [''display_label'', ''preferences''] v;
     label \<leftarrow> optional display_label_de (fs ! 0);
     preferences \<leftarrow> or_default local_preferences_new local_preferences_de (fs ! 1);
     Some \<lparr>lf_display_label = label, lf_preferences = preferences\<rparr> }"

section \<open>Profiles and documents\<close>

definition settings_schema_version :: nat where "settings_schema_version = 5"

datatype profile_id = ProfileId (profile_id_str: ustring)

instantiation profile_id :: linorder
begin

definition less_eq_profile_id :: "profile_id \<Rightarrow> profile_id \<Rightarrow> bool" where
  "less_eq_profile_id a b \<longleftrightarrow> profile_id_str a \<le> profile_id_str b"

definition less_profile_id :: "profile_id \<Rightarrow> profile_id \<Rightarrow> bool" where
  "less_profile_id a b \<longleftrightarrow> profile_id_str a < profile_id_str b"

instance
  by standard (auto simp: less_eq_profile_id_def less_profile_id_def profile_id.expand)

end

definition is_ascii_graphic :: "nat \<Rightarrow> bool" where "is_ascii_graphic c \<longleftrightarrow> 0x21 \<le> c \<and> c \<le> 0x7E"

definition profile_id_new :: "ustring \<Rightarrow> profile_id option" where
  "profile_id_new value =
     (if value = [] \<or> str_len value > 64 \<or> \<not> list_all (\<lambda>c. is_ascii_graphic c \<and> c \<noteq> 0x22) value
      then None else Some (ProfileId value))"

definition profile_id_de :: "json \<Rightarrow> profile_id option" where
  "profile_id_de v = Option.bind (string_de v) profile_id_new"

datatype credential_reference = CredentialReference ustring

definition credential_reference_new :: "ustring \<Rightarrow> credential_reference option" where
  "credential_reference_new value =
     (let trimmed = str_trim value
      in if trimmed = [] \<or> str_len trimmed > 256 \<or> \<not> list_all is_ascii_graphic trimmed
         then None else Some (CredentialReference trimmed))"

definition credential_reference_de :: "json \<Rightarrow> credential_reference option" where
  "credential_reference_de v = Option.bind (string_de v) credential_reference_new"

datatype provider_kind = Provider_Gemini | Provider_Router | Provider_CodexCli

definition provider_kind_de :: "json \<Rightarrow> provider_kind option" where
  "provider_kind_de = enum_de [(Provider_Gemini, ''gemini''), (Provider_Router, ''router''), (Provider_CodexCli, ''codexcli'')]"

record credential_document =
  cred_reference :: credential_reference

record provider_profile =
  pp_kind :: provider_kind
  pp_base_url :: "ustring option"
  pp_project :: "ustring option"
  pp_auth_header :: "ustring option"
  pp_models_path :: "ustring option"
  pp_chat_path :: "ustring option"
  pp_default_model :: "ustring option"
  pp_default_reasoning_effort :: "ustring option"
  pp_credential :: "credential_document option"

definition credential_document_de :: "json \<Rightarrow> credential_document option" where
  "credential_document_de v = do {
     fs \<leftarrow> struct_fields [''reference''] v;
     r \<leftarrow> required credential_reference_de (fs ! 0);
     Some \<lparr>cred_reference = r\<rparr> }"

definition provider_profile_de :: "json \<Rightarrow> provider_profile option" where
  "provider_profile_de v = do {
     fs \<leftarrow> struct_fields [''kind'', ''base_url'', ''project'', ''auth_header'', ''models_path'', ''chat_path'',
             ''default_model'', ''default_reasoning_effort'', ''credential''] v;
     kind \<leftarrow> required provider_kind_de (fs ! 0);
     base_url \<leftarrow> optional string_de (fs ! 1);
     project \<leftarrow> optional string_de (fs ! 2);
     auth_header \<leftarrow> optional string_de (fs ! 3);
     models_path \<leftarrow> optional string_de (fs ! 4);
     chat_path \<leftarrow> optional string_de (fs ! 5);
     default_model \<leftarrow> optional string_de (fs ! 6);
     effort \<leftarrow> optional string_de (fs ! 7);
     credential \<leftarrow> optional credential_document_de (fs ! 8);
     Some \<lparr>pp_kind = kind, pp_base_url = base_url, pp_project = project, pp_auth_header = auth_header,
           pp_models_path = models_path, pp_chat_path = chat_path, pp_default_model = default_model,
           pp_default_reasoning_effort = effort, pp_credential = credential\<rparr> }"

definition profile_of_kind :: "provider_kind \<Rightarrow> ustring option \<Rightarrow> ustring option \<Rightarrow> ustring option \<Rightarrow> provider_profile" where
  "profile_of_kind kind base_url project auth_header =
     \<lparr>pp_kind = kind, pp_base_url = base_url, pp_project = project, pp_auth_header = auth_header, pp_models_path = None,
      pp_chat_path = None, pp_default_model = None, pp_default_reasoning_effort = None, pp_credential = None\<rparr>"

definition profile_gemini :: provider_profile where
  "profile_gemini = profile_of_kind Provider_Gemini None None None"

definition profile_codex_cli :: provider_profile where
  "profile_codex_cli = profile_of_kind Provider_CodexCli None None None"

definition option_values :: "'a option \<Rightarrow> 'a list" where
  "option_values v = (case v of Some x \<Rightarrow> [x] | None \<Rightarrow> [])"

definition profile_router :: "ustring \<Rightarrow> ustring option \<Rightarrow> ustring option \<Rightarrow> (provider_profile, string) result" where
  "profile_router base_url project auth_header =
     and_then (ensure (\<not> trim_is_empty base_url) ''router base URL must not be empty'') (\<lambda>_.
     and_then (ensure (str_len base_url \<le> 2048 \<and> \<not> list_ex is_control base_url) ''router base URL is invalid'') (\<lambda>_.
     and_then (ensure (list_all (\<lambda>v. str_len v \<le> 256 \<and> \<not> list_ex is_control v) (option_values project @ option_values auth_header))
       ''router profile field is invalid'') (\<lambda>_.
     Ok (profile_of_kind Provider_Router (Some base_url) project auth_header))))"

definition without_credential :: "provider_profile \<Rightarrow> provider_profile" where
  "without_credential p = p\<lparr>pp_credential := None\<rparr>"

definition with_default_model :: "ustring option \<Rightarrow> provider_profile \<Rightarrow> (provider_profile, string) result" where
  "with_default_model default_model p =
     and_then (ensure (list_all (\<lambda>m. \<not> trim_is_empty m \<and> str_len m \<le> 256 \<and> \<not> list_ex is_control m) (option_values default_model))
       ''default model identifier is invalid'') (\<lambda>_.
     Ok (p\<lparr>pp_default_model := default_model\<rparr>))"

definition with_default_reasoning_effort :: "ustring option \<Rightarrow> provider_profile \<Rightarrow> (provider_profile, string) result" where
  "with_default_reasoning_effort effort p =
     and_then (ensure (list_all (\<lambda>v. v \<in> set (map ascii [''none'', ''minimal'', ''low'', ''medium'', ''high'', ''xhigh'', ''max'']))
         (option_values effort)) ''default reasoning effort is invalid'') (\<lambda>_.
     Ok (p\<lparr>pp_default_reasoning_effort := effort\<rparr>))"

datatype credential_recovery_kind = Recovery_UncommittedSave | Recovery_Delete

record credential_recovery_record =
  crr_profile :: profile_id
  crr_reference :: credential_reference
  crr_kind :: credential_recovery_kind

definition credential_recovery_record_de :: "json \<Rightarrow> credential_recovery_record option" where
  "credential_recovery_record_de v = do {
     fs \<leftarrow> struct_fields [''profile'', ''reference'', ''kind''] v;
     profile \<leftarrow> required profile_id_de (fs ! 0);
     r \<leftarrow> required credential_reference_de (fs ! 1);
     kind \<leftarrow> required (enum_de [(Recovery_UncommittedSave, ''uncommitted_save''), (Recovery_Delete, ''delete'')]) (fs ! 2);
     Some \<lparr>crr_profile = profile, crr_reference = r, crr_kind = kind\<rparr> }"

fun profiles_de :: "json \<Rightarrow> (profile_id \<times> provider_profile) list option" where
  "profiles_de (JObject fs) =
     map_option (fold (\<lambda>(k, p) m. ordered_put k p m))
       (option_list (map (\<lambda>(k, v). do { i \<leftarrow> profile_id_new k; p \<leftarrow> provider_profile_de v; Some (i, p) }) fs)) \<bind> (\<lambda>f. Some (f []))"
| "profiles_de _ = None"

record settings_document =
  doc_schema_version :: nat
  doc_provider :: "provider_kind option"
  doc_profiles :: "(profile_id \<times> provider_profile) list"
  doc_active_profile :: "profile_id option"
  doc_credential_recovery :: "credential_recovery_record list"
  doc_local_profile :: local_profile

definition settings_document_new :: settings_document where
  "settings_document_new =
     \<lparr>doc_schema_version = settings_schema_version, doc_provider = None, doc_profiles = [], doc_active_profile = None,
      doc_credential_recovery = [], doc_local_profile = local_profile_new\<rparr>"

record legacy_preferences =
  leg_theme_preset :: "theme_preset option"
  leg_color_mode :: "color_mode option"
  leg_glyph_mode :: "glyph_mode option"
  leg_reduced_motion :: "bool option"
  leg_density :: "density option"
  leg_layout :: "layout option"
  leg_timestamp_style :: "timestamp_style option"
  leg_composer_submit_behavior :: "composer_submit_behavior option"
  leg_prompt_status_detail :: "prompt_status_detail option"

definition legacy_names :: "string list" where
  "legacy_names = [''theme_preset'', ''color_mode'', ''glyph_mode'', ''reduced_motion'', ''density'', ''layout'',
     ''terminal_timestamp_style'', ''composer_submit_behavior'', ''prompt_status_detail'']"

definition legacy_preferences_new :: legacy_preferences where
  "legacy_preferences_new = \<lparr>leg_theme_preset = None, leg_color_mode = None, leg_glyph_mode = None, leg_reduced_motion = None,
     leg_density = None, leg_layout = None, leg_timestamp_style = None, leg_composer_submit_behavior = None,
     leg_prompt_status_detail = None\<rparr>"

definition legacy_preferences_de :: "json \<Rightarrow> legacy_preferences option" where
  "legacy_preferences_de v = do {
     fs \<leftarrow> struct_fields legacy_names v;
     theme \<leftarrow> optional theme_preset_de (fs ! 0);
     color \<leftarrow> optional color_mode_de (fs ! 1);
     glyph \<leftarrow> optional glyph_mode_de (fs ! 2);
     motion \<leftarrow> optional bool_de (fs ! 3);
     dens \<leftarrow> optional density_de (fs ! 4);
     lay \<leftarrow> optional layout_de (fs ! 5);
     stamp \<leftarrow> optional timestamp_style_de (fs ! 6);
     submit \<leftarrow> optional composer_submit_behavior_de (fs ! 7);
     detail \<leftarrow> optional prompt_status_detail_de (fs ! 8);
     Some \<lparr>leg_theme_preset = theme, leg_color_mode = color, leg_glyph_mode = glyph, leg_reduced_motion = motion,
           leg_density = dens, leg_layout = lay, leg_timestamp_style = stamp, leg_composer_submit_behavior = submit,
           leg_prompt_status_detail = detail\<rparr> }"

definition migrate_legacy_local_profile :: "display_label option \<Rightarrow> legacy_preferences \<Rightarrow> local_profile" where
  "migrate_legacy_local_profile label legacy =
     \<lparr>lf_display_label = label,
      lf_preferences =
        \<lparr>lp_shared = \<lparr>sp_theme_preset = leg_theme_preset legacy, sp_color_mode = leg_color_mode legacy,
            sp_reduced_motion = leg_reduced_motion legacy, sp_density = leg_density legacy,
            sp_timestamp_style = leg_timestamp_style legacy,
            sp_composer_submit_behavior = leg_composer_submit_behavior legacy\<rparr>,
         lp_gui = gui_preferences_new,
         lp_terminal = \<lparr>tp_glyph_mode = leg_glyph_mode legacy, tp_layout = leg_layout legacy,
            tp_prompt_status_detail = leg_prompt_status_detail legacy\<rparr>\<rparr>\<rparr>"

definition legacy_local_profile_de :: "json \<Rightarrow> local_profile option" where
  "legacy_local_profile_de v = do {
     fs \<leftarrow> struct_fields [''display_label'', ''preferences''] v;
     label \<leftarrow> optional display_label_de (fs ! 0);
     preferences \<leftarrow> or_default legacy_preferences_new legacy_preferences_de (fs ! 1);
     Some (migrate_legacy_local_profile label preferences) }"

definition document_names :: "string list" where
  "document_names = [''schema_version'', ''provider'', ''profiles'', ''active_profile'', ''credential_recovery'', ''local_profile'']"

definition settings_document_de :: "json \<Rightarrow> settings_document option" where
  "settings_document_de v = do {
     fs \<leftarrow> struct_fields document_names v;
     version \<leftarrow> required (unsigned_de u32_max) (fs ! 0);
     provider \<leftarrow> optional provider_kind_de (fs ! 1);
     profiles \<leftarrow> or_default [] profiles_de (fs ! 2);
     active \<leftarrow> optional profile_id_de (fs ! 3);
     recovery \<leftarrow> or_default [] (vec_de credential_recovery_record_de) (fs ! 4);
     raw \<leftarrow> optional Some (fs ! 5);
     if 1 \<le> version \<and> version \<le> settings_schema_version
     then do {
       profile \<leftarrow> (case raw of
                     None \<Rightarrow> Some local_profile_new
                   | Some w \<Rightarrow> if version < settings_schema_version then legacy_local_profile_de w else local_profile_de w);
       Some \<lparr>doc_schema_version = settings_schema_version, doc_provider = provider, doc_profiles = profiles,
             doc_active_profile = active, doc_credential_recovery = recovery, doc_local_profile = profile\<rparr> }
     else None }"

section \<open>Sources and errors\<close>

datatype settings_source = Source_Default | Source_UserFile | Source_WorkspaceFile | Source_Environment | Source_CommandLine

datatype settings_error =
    MalformedLayer string
  | UnsupportedSchemaVersion string nat
  | DisallowedWorkspaceKey ustring
  | InvalidMerge ustring

fun settings_error_text :: "settings_error \<Rightarrow> ustring" where
  "settings_error_text (MalformedLayer layer) =
     ascii ''the '' @ ascii layer @ ascii '' could not be parsed and was ignored''"
| "settings_error_text (UnsupportedSchemaVersion layer found) =
     ascii ''the '' @ ascii layer @ ascii '' declares unsupported schema version '' @ decimal found @ ascii ''; it was ignored''"
| "settings_error_text (DisallowedWorkspaceKey key) =
     ascii ''the workspace settings file may not override '' @ [0x27] @ key @ [0x27]"
| "settings_error_text (InvalidMerge reason) = reason"

end
