(* ===== verification/Settings_Resolver.thy ===== *)
theory Settings_Resolver
  imports Settings_Document
begin

text \<open>
  Resolution of settings layers (\<open>autoharness-settings/src/resolver.rs\<close> and the effective values of
  \<open>preferences.rs\<close>): the user files and then the workspace files are parsed and merged leaf by leaf,
  every leaf with the layer it came from; workspace files are first held to an allowlist of keys.
  The JSON text parser is the parameter \<open>parse\<close> (\<open>None\<close> where \<open>serde_json\<close> reports an error).
\<close>

section \<open>Layers and their effective values\<close>

datatype layer_kind = Layer_UserFile | Layer_WorkspaceFile

fun layer_label :: "layer_kind \<Rightarrow> string" where
  "layer_label Layer_UserFile = ''user settings file''"
| "layer_label Layer_WorkspaceFile = ''workspace settings file''"

fun layer_source :: "layer_kind \<Rightarrow> settings_source" where
  "layer_source Layer_UserFile = Source_UserFile"
| "layer_source Layer_WorkspaceFile = Source_WorkspaceFile"

type_synonym 'a sourced = "('a \<times> settings_source) option"

record raw_local_profile =
  raw_display_label :: "display_label sourced"
  raw_theme_preset :: "theme_preset sourced"
  raw_color_mode :: "color_mode sourced"
  raw_glyph_mode :: "glyph_mode sourced"
  raw_reduced_motion :: "bool sourced"
  raw_density :: "density sourced"
  raw_layout :: "layout sourced"
  raw_timestamp_style :: "timestamp_style sourced"
  raw_composer_submit_behavior :: "composer_submit_behavior sourced"
  raw_prompt_status_detail :: "prompt_status_detail sourced"
  raw_gui_zoom_percent :: "gui_zoom_percent sourced"
  raw_gui_font_size :: "gui_font_size sourced"

record raw_layer =
  raw_provider :: "provider_kind sourced"
  raw_active_profile :: "ustring sourced"
  raw_profiles :: "(profile_id \<times> provider_profile \<times> settings_source) list"
  raw_local_profile :: raw_local_profile

definition raw_local_profile_new :: raw_local_profile where
  "raw_local_profile_new =
     \<lparr>raw_display_label = None, raw_theme_preset = None, raw_color_mode = None, raw_glyph_mode = None,
      raw_reduced_motion = None, raw_density = None, raw_layout = None, raw_timestamp_style = None,
      raw_composer_submit_behavior = None, raw_prompt_status_detail = None, raw_gui_zoom_percent = None,
      raw_gui_font_size = None\<rparr>"

definition raw_layer_new :: raw_layer where
  "raw_layer_new =
     \<lparr>raw_provider = None, raw_active_profile = None, raw_profiles = [], raw_local_profile = raw_local_profile_new\<rparr>"

record 'a effective_value =
  eff_value :: 'a
  eff_source :: settings_source

record effective_local_preferences =
  eff_theme_preset :: "theme_preset effective_value"
  eff_color_mode :: "color_mode effective_value"
  eff_glyph_mode :: "glyph_mode effective_value"
  eff_reduced_motion :: "bool effective_value"
  eff_density :: "density effective_value"
  eff_layout :: "layout effective_value"
  eff_timestamp_style :: "timestamp_style effective_value"
  eff_composer_submit_behavior :: "composer_submit_behavior effective_value"
  eff_prompt_status_detail :: "prompt_status_detail effective_value"
  eff_gui_zoom_percent :: "gui_zoom_percent effective_value"
  eff_gui_font_size :: "gui_font_size effective_value"

record effective_local_profile =
  eff_display_label :: "display_label option effective_value"
  eff_preferences :: effective_local_preferences

definition effective_leaf :: "'a \<Rightarrow> 'a sourced \<Rightarrow> 'a effective_value" where
  "effective_leaf d leaf =
     (case leaf of Some (v, s) \<Rightarrow> \<lparr>eff_value = v, eff_source = s\<rparr>
      | None \<Rightarrow> \<lparr>eff_value = d, eff_source = Source_Default\<rparr>)"

definition effective_optional_leaf :: "'a sourced \<Rightarrow> 'a option effective_value" where
  "effective_optional_leaf leaf =
     (case leaf of Some (v, s) \<Rightarrow> \<lparr>eff_value = Some v, eff_source = s\<rparr>
      | None \<Rightarrow> \<lparr>eff_value = None, eff_source = Source_Default\<rparr>)"

definition effective_local_profile_of :: "raw_local_profile \<Rightarrow> effective_local_profile" where
  "effective_local_profile_of raw =
     \<lparr>eff_display_label = effective_optional_leaf (raw_display_label raw),
      eff_preferences =
        \<lparr>eff_theme_preset = effective_leaf Theme_System (raw_theme_preset raw),
         eff_color_mode = effective_leaf Color_Color (raw_color_mode raw),
         eff_glyph_mode = effective_leaf Glyph_Unicode (raw_glyph_mode raw),
         eff_reduced_motion = effective_leaf False (raw_reduced_motion raw),
         eff_density = effective_leaf Density_Comfortable (raw_density raw),
         eff_layout = effective_leaf Layout_Responsive (raw_layout raw),
         eff_timestamp_style = effective_leaf Timestamp_Relative (raw_timestamp_style raw),
         eff_composer_submit_behavior = effective_leaf Submit_ControlS (raw_composer_submit_behavior raw),
         eff_prompt_status_detail = effective_leaf Status_Workspace (raw_prompt_status_detail raw),
         eff_gui_zoom_percent = effective_leaf (GuiZoomPercent 100) (raw_gui_zoom_percent raw),
         eff_gui_font_size = effective_leaf Font_Standard (raw_gui_font_size raw)\<rparr>\<rparr>"

section \<open>Merging a document\<close>

definition overlay :: "'a option \<Rightarrow> settings_source \<Rightarrow> 'a sourced \<Rightarrow> 'a sourced" where
  "overlay v s leaf = (case v of Some x \<Rightarrow> Some (x, s) | None \<Rightarrow> leaf)"

definition merge_local_profile :: "raw_local_profile \<Rightarrow> local_profile \<Rightarrow> settings_source \<Rightarrow> raw_local_profile" where
  "merge_local_profile m profile s =
     (let p = lf_preferences profile
      in \<lparr>raw_display_label = overlay (lf_display_label profile) s (raw_display_label m),
          raw_theme_preset = overlay (sp_theme_preset (lp_shared p)) s (raw_theme_preset m),
          raw_color_mode = overlay (sp_color_mode (lp_shared p)) s (raw_color_mode m),
          raw_glyph_mode = overlay (tp_glyph_mode (lp_terminal p)) s (raw_glyph_mode m),
          raw_reduced_motion = overlay (sp_reduced_motion (lp_shared p)) s (raw_reduced_motion m),
          raw_density = overlay (sp_density (lp_shared p)) s (raw_density m),
          raw_layout = overlay (tp_layout (lp_terminal p)) s (raw_layout m),
          raw_timestamp_style = overlay (sp_timestamp_style (lp_shared p)) s (raw_timestamp_style m),
          raw_composer_submit_behavior =
            overlay (sp_composer_submit_behavior (lp_shared p)) s (raw_composer_submit_behavior m),
          raw_prompt_status_detail = overlay (tp_prompt_status_detail (lp_terminal p)) s (raw_prompt_status_detail m),
          raw_gui_zoom_percent = overlay (gp_zoom_percent (lp_gui p)) s (raw_gui_zoom_percent m),
          raw_gui_font_size = overlay (gp_font_size (lp_gui p)) s (raw_gui_font_size m)\<rparr>)"

definition merge_document :: "raw_layer \<Rightarrow> settings_document \<Rightarrow> settings_source \<Rightarrow> raw_layer" where
  "merge_document m d s =
     \<lparr>raw_provider = overlay (doc_provider d) s (raw_provider m),
      raw_active_profile = overlay (map_option profile_id_str (doc_active_profile d)) s (raw_active_profile m),
      raw_profiles = fold (\<lambda>(i, p) ps. ordered_put i (p, s) ps) (doc_profiles d) (raw_profiles m),
      raw_local_profile = merge_local_profile (raw_local_profile m) (doc_local_profile d) s\<rparr>"

section \<open>Workspace files\<close>

fun check_keys :: "(ustring \<Rightarrow> json \<Rightarrow> (unit, settings_error) result) \<Rightarrow> (ustring \<times> json) list \<Rightarrow> (unit, settings_error) result" where
  "check_keys check [] = Ok ()"
| "check_keys check ((k, v) # fs) = and_then (check k v) (\<lambda>_. check_keys check fs)"

definition validate_workspace_preference_group :: "string \<Rightarrow> string list \<Rightarrow> json \<Rightarrow> (unit, settings_error) result" where
  "validate_workspace_preference_group grp permitted value =
     (case value of
        JObject fs \<Rightarrow> check_keys (\<lambda>key _. ensure (key \<in> set (map ascii permitted))
            (DisallowedWorkspaceKey (ascii ''local_profile.preferences.'' @ ascii grp @ ascii ''.'' @ key))) fs
      | _ \<Rightarrow> Ok ())"

definition legacy_workspace_names :: "string list" where
  "legacy_workspace_names = [''theme_preset'', ''color_mode'', ''glyph_mode'', ''reduced_motion'', ''density'', ''layout'',
     ''terminal_timestamp_style'', ''prompt_status_detail'']"

definition validate_legacy_workspace_preferences :: "(ustring \<times> json) list \<Rightarrow> (unit, settings_error) result" where
  "validate_legacy_workspace_preferences =
     check_keys (\<lambda>key _. ensure (key \<in> set (map ascii legacy_workspace_names))
       (DisallowedWorkspaceKey (ascii ''local_profile.preferences.'' @ key)))"

definition validate_workspace_preferences :: "nat \<Rightarrow> json \<Rightarrow> (unit, settings_error) result" where
  "validate_workspace_preferences version value =
     (case value of
        JObject fs \<Rightarrow>
          if version < settings_schema_version then validate_legacy_workspace_preferences fs
          else check_keys (\<lambda>key v.
            if key = ascii ''shared''
            then validate_workspace_preference_group ''shared''
                   [''theme_preset'', ''color_mode'', ''reduced_motion'', ''density'', ''timestamp_style''] v
            else if key = ascii ''gui''
            then validate_workspace_preference_group ''gui'' [''zoom_percent'', ''font_size''] v
            else if key = ascii ''terminal''
            then validate_workspace_preference_group ''terminal'' [''glyph_mode'', ''layout'', ''prompt_status_detail''] v
            else Err (DisallowedWorkspaceKey (ascii ''local_profile.preferences.'' @ key))) fs
      | _ \<Rightarrow> Ok ())"

definition validate_workspace_local_profile :: "nat \<Rightarrow> json \<Rightarrow> (unit, settings_error) result" where
  "validate_workspace_local_profile version value =
     (case value of
        JObject fs \<Rightarrow> check_keys (\<lambda>key v.
            if key = ascii ''preferences'' then validate_workspace_preferences version v
            else Err (DisallowedWorkspaceKey (ascii ''local_profile.'' @ key))) fs
      | _ \<Rightarrow> Ok ())"

definition validate_workspace_document :: "nat \<Rightarrow> (ustring \<times> json) list \<Rightarrow> (unit, settings_error) result" where
  "validate_workspace_document version =
     check_keys (\<lambda>key v.
       if key = ascii ''schema_version'' then Ok ()
       else if key = ascii ''local_profile'' then validate_workspace_local_profile version v
       else Err (DisallowedWorkspaceKey key))"

section \<open>Parsing and resolving\<close>

definition malformed :: "layer_kind \<Rightarrow> settings_error" where
  "malformed kind = MalformedLayer (layer_label kind)"

definition parse_layer :: "(ustring \<Rightarrow> json option) \<Rightarrow> layer_kind \<Rightarrow> ustring \<Rightarrow> (settings_document, settings_error) result" where
  "parse_layer parse kind json =
     (if trim_is_empty json then Ok settings_document_new
      else case parse json of
        Some (JObject fs) \<Rightarrow>
          (let version = (case Option.bind (map_of fs (ascii ''schema_version'')) as_u64 of
                            Some n \<Rightarrow> n | None \<Rightarrow> settings_schema_version)
           in and_then (ensure (version \<le> settings_schema_version)
                (UnsupportedSchemaVersion (layer_label kind) (min version u32_max))) (\<lambda>_.
              and_then (if kind = Layer_WorkspaceFile then validate_workspace_document version fs else Ok ()) (\<lambda>_.
              case settings_document_de (JObject fs) of Some d \<Rightarrow> Ok d | None \<Rightarrow> Err (malformed kind))))
      | _ \<Rightarrow> Err (malformed kind))"

definition parse_provider_value :: "ustring \<Rightarrow> provider_kind option" where
  "parse_provider_value value =
     (let name = to_ascii_lower (str_trim value)
      in if name = ascii ''gemini'' \<or> name = ascii ''google'' then Some Provider_Gemini
         else if name = ascii ''router'' \<or> name = ascii ''openai'' then Some Provider_Router
         else None)"

record settings_builder =
  bld_layers :: "(layer_kind \<times> ustring) list"
  bld_environment :: "(ustring \<times> ustring) list"

definition settings_builder_new :: settings_builder where
  "settings_builder_new = \<lparr>bld_layers = [], bld_environment = []\<rparr>"

definition with_layer :: "layer_kind \<Rightarrow> ustring \<Rightarrow> settings_builder \<Rightarrow> settings_builder" where
  "with_layer kind json b = b\<lparr>bld_layers := bld_layers b @ [(kind, json)]\<rparr>"

definition with_environment :: "(ustring \<times> ustring) list \<Rightarrow> settings_builder \<Rightarrow> settings_builder" where
  "with_environment variables b = b\<lparr>bld_environment := bld_environment b @ variables\<rparr>"

fun resolve_layers :: "(ustring \<Rightarrow> json option) \<Rightarrow> layer_kind \<Rightarrow> (layer_kind \<times> ustring) list \<Rightarrow>
    raw_layer \<times> ustring list \<Rightarrow> (raw_layer \<times> ustring list, settings_error) result" where
  "resolve_layers parse expected [] st = Ok st"
| "resolve_layers parse expected ((kind, json) # layers) (merged, diagnostics) =
     (if kind \<noteq> expected then resolve_layers parse expected layers (merged, diagnostics)
      else case parse_layer parse kind json of
        Ok d \<Rightarrow> resolve_layers parse expected layers (merge_document merged d (layer_source kind), diagnostics)
      | Err (UnsupportedSchemaVersion layer found) \<Rightarrow> Err (UnsupportedSchemaVersion layer found)
      | Err (DisallowedWorkspaceKey key) \<Rightarrow> Err (DisallowedWorkspaceKey key)
      | Err e \<Rightarrow> resolve_layers parse expected layers (merged, diagnostics @ [settings_error_text e])
      | Panic \<Rightarrow> Panic)"

fun resolve_environment :: "(ustring \<times> ustring) list \<Rightarrow> raw_layer \<times> ustring list \<Rightarrow> raw_layer \<times> ustring list" where
  "resolve_environment [] st = st"
| "resolve_environment ((name, val) # vars) (merged, diagnostics) =
     resolve_environment vars
       (if name = ascii ''AUTOHARNESS_PROVIDER''
        then case parse_provider_value val of
            Some kind \<Rightarrow> (merged\<lparr>raw_provider := Some (kind, Source_Environment)\<rparr>, diagnostics)
          | None \<Rightarrow> (merged, diagnostics @ [ascii ''unknown provider '' @ [0x27] @ val @ [0x27]])
        else (merged, diagnostics))"

record resolved_settings =
  res_inner :: raw_layer
  res_local_profile :: effective_local_profile
  res_diagnostics :: "ustring list"

definition undeclared_active :: "raw_layer \<Rightarrow> ustring option" where
  "undeclared_active merged =
     (case raw_active_profile merged of
        Some (active, _) \<Rightarrow>
          if list_ex (\<lambda>(i, _). profile_id_str i = active) (raw_profiles merged) then None else Some active
      | None \<Rightarrow> None)"

definition resolve_settings :: "(ustring \<Rightarrow> json option) \<Rightarrow> settings_builder \<Rightarrow> (resolved_settings, settings_error) result" where
  "resolve_settings parse b =
     and_then (resolve_layers parse Layer_UserFile (bld_layers b) (raw_layer_new, [])) (\<lambda>st.
     and_then (resolve_layers parse Layer_WorkspaceFile (bld_layers b) st) (\<lambda>st'.
     let (merged, diagnostics) = resolve_environment (bld_environment b) st'
     in case undeclared_active merged of
          Some active \<Rightarrow> Err (InvalidMerge (ascii ''active profile '' @ [0x27] @ active @ [0x27] @ ascii '' is not declared''))
        | None \<Rightarrow> Ok \<lparr>res_inner = merged, res_local_profile = effective_local_profile_of (raw_local_profile merged),
                    res_diagnostics = diagnostics\<rparr>))"

definition resolved_provider :: "resolved_settings \<Rightarrow> provider_kind option" where
  "resolved_provider r = map_option fst (raw_provider (res_inner r))"

definition resolved_profiles :: "resolved_settings \<Rightarrow> (profile_id \<times> provider_profile) list" where
  "resolved_profiles r = map (\<lambda>(i, p, _). (i, p)) (raw_profiles (res_inner r))"

definition resolved_profile :: "resolved_settings \<Rightarrow> profile_id \<Rightarrow> provider_profile option" where
  "resolved_profile r i = map_option fst (map_of (raw_profiles (res_inner r)) i)"

definition resolved_active_profile :: "resolved_settings \<Rightarrow> ustring option" where
  "resolved_active_profile r = map_option fst (raw_active_profile (res_inner r))"

definition leaf_provenance :: "effective_local_profile \<Rightarrow> (string \<times> settings_source) list" where
  "leaf_provenance lp =
     (let p = eff_preferences lp
      in [(''local_profile.display_label'', eff_source (eff_display_label lp)),
          (''local_profile.preferences.shared.theme_preset'', eff_source (eff_theme_preset p)),
          (''local_profile.preferences.shared.color_mode'', eff_source (eff_color_mode p)),
          (''local_profile.preferences.terminal.glyph_mode'', eff_source (eff_glyph_mode p)),
          (''local_profile.preferences.shared.reduced_motion'', eff_source (eff_reduced_motion p)),
          (''local_profile.preferences.shared.density'', eff_source (eff_density p)),
          (''local_profile.preferences.terminal.layout'', eff_source (eff_layout p)),
          (''local_profile.preferences.shared.timestamp_style'', eff_source (eff_timestamp_style p)),
          (''local_profile.preferences.shared.composer_submit_behavior'', eff_source (eff_composer_submit_behavior p)),
          (''local_profile.preferences.terminal.prompt_status_detail'', eff_source (eff_prompt_status_detail p)),
          (''local_profile.preferences.gui.zoom_percent'', eff_source (eff_gui_zoom_percent p)),
          (''local_profile.preferences.gui.font_size'', eff_source (eff_gui_font_size p))])"

definition provenance :: "resolved_settings \<Rightarrow> (ustring \<times> settings_source) list" where
  "provenance r =
     (let inner = res_inner r;
          provider = (case raw_provider inner of Some (_, s) \<Rightarrow> [(ascii ''provider'', s)] | None \<Rightarrow> []);
          active = (case raw_active_profile inner of Some (_, s) \<Rightarrow> [(ascii ''active_profile'', s)] | None \<Rightarrow> []);
          profiles = map (\<lambda>(i, _, s). (ascii ''profiles.'' @ profile_id_str i, s)) (raw_profiles inner);
          leaves = map (\<lambda>(k, s). (ascii k, s)) (leaf_provenance (res_local_profile r))
      in fold (\<lambda>(k, s). ordered_put k s) (provider @ active @ profiles @ leaves) [])"

end
