(* ===== verification/Settings_Laws.thy ===== *)
theory Settings_Laws
  imports Settings_Resolver
begin

text \<open>
  What the settings resolver computes: the documents it accepts in order of precedence, each leaf as the
  last of their values, and what the workspace allowlist leaves of a document.
\<close>

section \<open>Accepted documents\<close>

definition accepted :: "(ustring \<Rightarrow> json option) \<Rightarrow> layer_kind \<Rightarrow> (layer_kind \<times> ustring) list \<Rightarrow>
    (settings_document \<times> settings_source) list" where
  "accepted parse kind layers =
     List.map_filter (\<lambda>(_, json). case parse_layer parse kind json of
         Ok d \<Rightarrow> Some (d, layer_source kind) | _ \<Rightarrow> None) (filter (\<lambda>(k, _). k = kind) layers)"

definition documents :: "(ustring \<Rightarrow> json option) \<Rightarrow> settings_builder \<Rightarrow> (settings_document \<times> settings_source) list" where
  "documents parse b = accepted parse Layer_UserFile (bld_layers b) @ accepted parse Layer_WorkspaceFile (bld_layers b)"

definition last_set :: "(settings_document \<Rightarrow> 'a option) \<Rightarrow> (settings_document \<times> settings_source) list \<Rightarrow> 'a sourced" where
  "last_set leaf ds = fold (\<lambda>(d, s). overlay (leaf d) s) ds None"

definition merge_all :: "(settings_document \<times> settings_source) list \<Rightarrow> raw_layer \<Rightarrow> raw_layer" where
  "merge_all = fold (\<lambda>(d, s) m. merge_document m d s)"

lemma accepted_simps [simp]:
  "accepted parse kind [] = []"
  "accepted parse kind ((k, json) # layers) =
     (if k = kind then (case parse_layer parse kind json of Ok d \<Rightarrow> [(d, layer_source kind)] | _ \<Rightarrow> []) else [])
       @ accepted parse kind layers"
  by (auto simp: accepted_def map_filter_simps split: result.splits)

lemma accepted_append: "accepted parse kind (ls @ ls') = accepted parse kind ls @ accepted parse kind ls'"
  by (induction ls) auto

lemma accepted_other: "\<forall>(k, _) \<in> set ls. k \<noteq> kind \<Longrightarrow> accepted parse kind ls = []"
  by (induction ls) auto

lemma accepted_parsed:
  assumes "(d, s) \<in> set (accepted parse kind ls)"
  shows "s = layer_source kind \<and> (\<exists>json. (kind, json) \<in> set ls \<and> parse_layer parse kind json = Ok d)"
  using assms
proof (induction ls)
  case (Cons l ls)
  obtain k json where l: "l = (k, json)" by fastforce
  show ?case
  proof (cases "(d, s) \<in> set (accepted parse kind ls)")
    case True
    then show ?thesis using Cons.IH by auto
  next
    case False
    then have "k = kind" "parse_layer parse kind json = Ok d" "s = layer_source kind"
      using Cons.prems by (cases "k = kind"; cases "parse_layer parse kind json"; simp add: l)+
    then show ?thesis by (auto simp: l)
  qed
qed simp

text \<open>One layer either aborts the run or transforms the accumulated values.\<close>

definition layer_effect :: "(ustring \<Rightarrow> json option) \<Rightarrow> layer_kind \<Rightarrow> layer_kind \<times> ustring \<Rightarrow>
    (raw_layer \<times> ustring list \<Rightarrow> raw_layer \<times> ustring list, settings_error) result" where
  "layer_effect parse expected l =
     (case l of (kind, json) \<Rightarrow>
        if kind \<noteq> expected then Ok id
        else case parse_layer parse kind json of
          Ok d \<Rightarrow> Ok (\<lambda>(m, ds). (merge_document m d (layer_source kind), ds))
        | Err (UnsupportedSchemaVersion layer found) \<Rightarrow> Err (UnsupportedSchemaVersion layer found)
        | Err (DisallowedWorkspaceKey key) \<Rightarrow> Err (DisallowedWorkspaceKey key)
        | Err e \<Rightarrow> Ok (\<lambda>(m, ds). (m, ds @ [settings_error_text e]))
        | Panic \<Rightarrow> Panic)"

lemma resolve_layers_Cons:
  "resolve_layers parse kind (l # ls) st = and_then (layer_effect parse kind l) (\<lambda>f. resolve_layers parse kind ls (f st))"
  by (cases l; cases st) (simp add: layer_effect_def split: result.split settings_error.split)

lemma layer_effect_merge:
  "layer_effect parse kind l = Ok f \<Longrightarrow> fst (f st) = merge_all (accepted parse kind [l]) (fst st)"
  by (cases l; cases st) (auto simp: layer_effect_def merge_all_def split: if_splits result.splits settings_error.splits)

lemma merge_all_append: "merge_all (ds @ es) m = merge_all es (merge_all ds m)"
  by (simp add: merge_all_def)

lemma accepted_Cons: "accepted parse kind (l # ls) = accepted parse kind [l] @ accepted parse kind ls"
  by (cases l) simp

lemma resolve_layers_merge:
  "resolve_layers parse kind ls st = Ok st' \<Longrightarrow> fst st' = merge_all (accepted parse kind ls) (fst st)"
proof (induction ls arbitrary: st)
  case Nil
  then show ?case by (simp add: merge_all_def)
next
  case (Cons l ls)
  then obtain f where f: "layer_effect parse kind l = Ok f" "resolve_layers parse kind ls (f st) = Ok st'"
    by (auto simp: resolve_layers_Cons and_then_Ok)
  then show ?case
    unfolding accepted_Cons [of parse kind l ls] merge_all_append
    by (simp only: Cons.IH [OF f(2)] layer_effect_merge [OF f(1)])
qed

text \<open>A run over one kind of layer neither looks at the accumulated values nor is affected by the other kind.\<close>

lemma resolve_layers_indep:
  "resolve_layers parse kind ls st = Ok st' \<Longrightarrow> \<exists>st2'. resolve_layers parse kind ls st2 = Ok st2'"
proof (induction ls arbitrary: st st2)
  case (Cons l ls)
  then obtain f where f: "layer_effect parse kind l = Ok f" "resolve_layers parse kind ls (f st) = Ok st'"
    by (auto simp: resolve_layers_Cons and_then_Ok)
  show ?case using Cons.IH [OF f(2), of "f st2"] f(1) by (simp add: resolve_layers_Cons)
qed simp

lemma layer_effect_other: "fst l \<noteq> kind \<Longrightarrow> layer_effect parse kind l = Ok id"
  by (cases l) (simp add: layer_effect_def)

lemma resolve_layers_filter:
  "resolve_layers parse kind (filter (\<lambda>(k, _). k = kind) ls) st = resolve_layers parse kind ls st"
proof (induction ls arbitrary: st)
  case (Cons l ls)
  then show ?case by (cases "fst l = kind") (auto simp: resolve_layers_Cons layer_effect_other split: prod.splits)
qed simp

lemma resolve_layers_none: "\<forall>(k, _) \<in> set ls. k \<noteq> kind \<Longrightarrow> resolve_layers parse kind ls st = Ok st"
  by (induction ls) (auto simp: resolve_layers_Cons layer_effect_other)

lemma resolve_layers_append:
  "resolve_layers parse kind (ls @ ls') st = and_then (resolve_layers parse kind ls st) (resolve_layers parse kind ls')"
  by (induction ls arbitrary: st) (simp_all add: resolve_layers_Cons and_then_assoc)

section \<open>Leaves\<close>

lemma fold_overlay:
  assumes "\<And>m d s. get (merge_document m d s) = overlay (leaf d) s (get m)"
  shows "get (merge_all ds m) = fold (\<lambda>(d, s). overlay (leaf d) s) ds (get m)"
  unfolding merge_all_def by (induction ds arbitrary: m) (auto simp: assms)

lemma merge_leaves:
  "raw_provider (merge_all ds raw_layer_new) = last_set doc_provider ds"
  "raw_active_profile (merge_all ds raw_layer_new) = last_set (map_option profile_id_str \<circ> doc_active_profile) ds"
  by (simp_all add: last_set_def raw_layer_new_def
      fold_overlay [where get = raw_provider and leaf = doc_provider]
      fold_overlay [where get = raw_active_profile and leaf = "map_option profile_id_str \<circ> doc_active_profile"]
      merge_document_def)

lemma last_set_unset: "\<forall>(d, s) \<in> set ds'. leaf d = None \<Longrightarrow> last_set leaf (ds @ ds') = last_set leaf ds"
  unfolding last_set_def by (induction ds' rule: rev_induct) (auto simp: overlay_def)

lemma last_set_final: "leaf d = Some v \<Longrightarrow> last_set leaf (ds @ [(d, s)]) = Some (v, s)"
  by (simp add: last_set_def overlay_def)

lemma merge_profiles_ordered: "ordered (raw_profiles m) \<Longrightarrow> ordered (raw_profiles (merge_document m d s))"
proof -
  have "ordered ps \<Longrightarrow> ordered (fold (\<lambda>(i, p) ps. ordered_put i (p, s) ps) es ps)" for es ps
    by (induction es arbitrary: ps) (auto simp: ordered_put_ordered)
  then show "ordered (raw_profiles m) \<Longrightarrow> ?thesis" by (simp add: merge_document_def)
qed

lemma fold_put_lookup:
  "ordered ps \<Longrightarrow> distinct (map fst es) \<Longrightarrow>
   map_of (fold (\<lambda>(i, p) ps. ordered_put i (p, s) ps) es ps) i = overlay (map_of es i) s (map_of ps i)"
proof (induction es arbitrary: ps)
  case (Cons e es)
  obtain k p where e: "e = (k, p)" by fastforce
  have "map_of es k = None" using Cons.prems(2) by (simp add: e map_of_eq_None_iff)
  then show ?case using Cons by (auto simp: e ordered_put_ordered ordered_put_lookup overlay_def split: option.split)
qed (simp add: overlay_def)

lemma merged_profile:
  assumes "\<forall>(d, s) \<in> set ds. distinct (map fst (doc_profiles d))"
  shows "ordered (raw_profiles (merge_all ds raw_layer_new)) \<and>
    map_of (raw_profiles (merge_all ds raw_layer_new)) i = last_set (\<lambda>d. map_of (doc_profiles d) i) ds"
  using assms
proof (induction ds rule: rev_induct)
  case Nil
  then show ?case by (simp add: merge_all_def last_set_def raw_layer_new_def ordered_def)
next
  case (snoc x ds)
  obtain d s where x: "x = (d, s)" by fastforce
  have step: "merge_all (ds @ [x]) raw_layer_new = merge_document (merge_all ds raw_layer_new) d s"
    by (simp add: merge_all_def x)
  have ih: "ordered (raw_profiles (merge_all ds raw_layer_new))"
    "map_of (raw_profiles (merge_all ds raw_layer_new)) i = last_set (\<lambda>d. map_of (doc_profiles d) i) ds"
    using snoc by simp_all
  have "distinct (map fst (doc_profiles d))" using snoc.prems by (simp add: x)
  then show ?case
    unfolding step using ih
    by (simp add: merge_profiles_ordered x) (simp add: merge_document_def fold_put_lookup last_set_def)
qed

section \<open>Documents\<close>

lemma check_keys_Ok: "check_keys c fs = Ok u \<longleftrightarrow> (\<forall>(k, v) \<in> set fs. c k v = Ok ())"
  by (induction fs) (auto simp: and_then_Ok)

lemma profiles_de_distinct: "profiles_de v = Some ps \<Longrightarrow> distinct (map fst ps)"
proof -
  have "ordered m \<Longrightarrow> ordered (fold (\<lambda>(k, p) m. ordered_put k p m) es m)"
    for es and m :: "(profile_id \<times> provider_profile) list"
    by (induction es arbitrary: m) (auto simp: ordered_put_ordered)
  then have "ordered (fold (\<lambda>(k, p) m. ordered_put k p m) es [])" for es :: "(profile_id \<times> provider_profile) list"
    by (simp add: ordered_def)
  then show "profiles_de v = Some ps \<Longrightarrow> ?thesis"
    by (cases v) (auto simp: ordered_distinct bind_eq_Some_conv)
qed

lemma document_profiles_distinct: "settings_document_de v = Some d \<Longrightarrow> distinct (map fst (doc_profiles d))"
  by (auto simp: settings_document_de_def or_default_def bind_eq_Some_conv profiles_de_distinct
      split: if_splits option.splits)

lemma parse_layer_Ok:
  assumes "parse_layer parse kind json = Ok d" "\<not> trim_is_empty json"
  obtains fs version where "parse json = Some (JObject fs)" "settings_document_de (JObject fs) = Some d"
    "version = (case Option.bind (map_of fs (ascii ''schema_version'')) as_u64 of Some n \<Rightarrow> n | None \<Rightarrow> settings_schema_version)"
    "version \<le> settings_schema_version" "kind = Layer_WorkspaceFile \<Longrightarrow> validate_workspace_document version fs = Ok ()"
  using assms by (auto simp: parse_layer_def Let_def and_then_Ok split: option.splits json.splits if_splits)

lemma parse_layer_empty: "trim_is_empty json \<Longrightarrow> parse_layer parse kind json = Ok settings_document_new"
  by (simp add: parse_layer_def)

lemma parsed_profiles_distinct:
  assumes "parse_layer parse kind json = Ok d"
  shows "distinct (map fst (doc_profiles d))"
proof (cases "trim_is_empty json")
  case True
  then have "d = settings_document_new" using assms by (simp add: parse_layer_empty)
  then show ?thesis by (simp add: settings_document_new_def)
next
  case False
  show ?thesis by (rule parse_layer_Ok [OF assms False]) (rule document_profiles_distinct)
qed

lemma documents_profiles_distinct: "(d, s) \<in> set (documents parse b) \<Longrightarrow> distinct (map fst (doc_profiles d))"
  using accepted_parsed [of d s parse] parsed_profiles_distinct by (fastforce simp: documents_def)

section \<open>The workspace allowlist\<close>

declare ascii_inject [simp]

lemma struct_object:
  "struct_fields names (JObject fs) = Some gs \<Longrightarrow> gs = map (\<lambda>n. map_of fs (ascii n)) names"
  by (simp add: struct_fields_def split: if_splits)

lemma document_fields:
  assumes "settings_document_de (JObject fs) = Some d"
  shows "optional provider_kind_de (map_of fs (ascii ''provider'')) = Some (doc_provider d)"
    "or_default [] profiles_de (map_of fs (ascii ''profiles'')) = Some (doc_profiles d)"
    "optional profile_id_de (map_of fs (ascii ''active_profile'')) = Some (doc_active_profile d)"
    "or_default [] (vec_de credential_recovery_record_de) (map_of fs (ascii ''credential_recovery'')) = Some (doc_credential_recovery d)"
    "\<exists>version raw. required (unsigned_de u32_max) (map_of fs (ascii ''schema_version'')) = Some version \<and>
       optional Some (map_of fs (ascii ''local_profile'')) = Some raw \<and>
       (case raw of None \<Rightarrow> Some local_profile_new
        | Some w \<Rightarrow> if version < settings_schema_version then legacy_local_profile_de w else local_profile_de w)
         = Some (doc_local_profile d)"
proof -
  obtain gs where gs: "struct_fields document_names (JObject fs) = Some gs"
    using assms by (auto simp: settings_document_de_def bind_eq_Some_conv)
  note fields = gs struct_object [OF gs, unfolded document_names_def, simplified]
  note de = assms [unfolded settings_document_de_def fields(1), unfolded fields(2), simplified, unfolded bind_eq_Some_conv]
  show "optional provider_kind_de (map_of fs (ascii ''provider'')) = Some (doc_provider d)"
    "or_default [] profiles_de (map_of fs (ascii ''profiles'')) = Some (doc_profiles d)"
    "optional profile_id_de (map_of fs (ascii ''active_profile'')) = Some (doc_active_profile d)"
    "or_default [] (vec_de credential_recovery_record_de) (map_of fs (ascii ''credential_recovery'')) = Some (doc_credential_recovery d)"
    using de by (auto simp: bind_eq_Some_conv split: if_splits)
  show "\<exists>version raw. required (unsigned_de u32_max) (map_of fs (ascii ''schema_version'')) = Some version \<and>
       optional Some (map_of fs (ascii ''local_profile'')) = Some raw \<and>
       (case raw of None \<Rightarrow> Some local_profile_new
        | Some w \<Rightarrow> if version < settings_schema_version then legacy_local_profile_de w else local_profile_de w)
         = Some (doc_local_profile d)"
    using de by (fastforce simp: bind_eq_Some_conv split: if_splits)
qed

lemma allowed_document:
  assumes "validate_workspace_document version fs = Ok ()" "settings_document_de (JObject fs) = Some d"
  shows "doc_provider d = None" "doc_active_profile d = None" "doc_profiles d = []" "doc_credential_recovery d = []"
proof -
  have keys: "map_of fs (ascii n) = None" if "n \<notin> {''schema_version'', ''local_profile''}" for n
  proof (rule ccontr)
    assume "map_of fs (ascii n) \<noteq> None"
    then obtain v where "(ascii n, v) \<in> set fs" by (auto dest: map_of_SomeD)
    then show False
      using that assms(1) by (fastforce simp: validate_workspace_document_def check_keys_Ok split: if_splits)
  qed
  then show "doc_provider d = None" "doc_active_profile d = None" "doc_profiles d = []" "doc_credential_recovery d = []"
    using document_fields [OF assms(2)] by (simp_all add: optional_def or_default_def)
qed

text \<open>A document whose nested preference values are objects as far as the allowlist descends into them.\<close>

definition is_object :: "json \<Rightarrow> bool" where
  "is_object v \<longleftrightarrow> (case v of JObject _ \<Rightarrow> True | _ \<Rightarrow> False)"

definition nested_object :: "string \<Rightarrow> (json \<Rightarrow> bool) \<Rightarrow> json \<Rightarrow> bool" where
  "nested_object name p v \<longleftrightarrow>
     (case v of JObject fs \<Rightarrow> (case map_of fs (ascii name) of Some w \<Rightarrow> p w | None \<Rightarrow> True) | _ \<Rightarrow> False)"

definition objects_only :: "json \<Rightarrow> bool" where
  "objects_only = nested_object ''local_profile'' (nested_object ''preferences'' (nested_object ''shared'' is_object))"

lemma nested_objectE:
  assumes "nested_object name p v"
  obtains fs where "v = JObject fs" "\<And>w. map_of fs (ascii name) = Some w \<Longrightarrow> p w"
proof (cases v)
  case (JObject fs)
  then show ?thesis using assms by (intro that [of fs]) (simp_all add: nested_object_def)
qed (use assms in \<open>simp_all add: nested_object_def\<close>)

lemma is_objectE:
  assumes "is_object v" obtains fs where "v = JObject fs"
  using assms by (auto simp: is_object_def split: json.splits)

lemma check_keys_at: "check_keys c fs = Ok u \<Longrightarrow> map_of fs k = Some v \<Longrightarrow> c k v = Ok ()"
  by (fastforce simp: check_keys_Ok dest: map_of_SomeD)

lemma check_keys_absent: "check_keys c fs = Ok u \<Longrightarrow> (\<And>v. c k v \<noteq> Ok ()) \<Longrightarrow> map_of fs k = None"
  by (cases "map_of fs k") (auto dest: check_keys_at)

lemma shared_submit:
  "shared_preferences_de (JObject ss) = Some sp \<Longrightarrow> map_of ss (ascii ''composer_submit_behavior'') = None \<Longrightarrow>
   sp_composer_submit_behavior sp = None"
  by (auto simp: shared_preferences_de_def struct_fields_def shared_names_def bind_eq_Some_conv optional_def split: if_splits)

lemma legacy_submit:
  "legacy_preferences_de (JObject hs) = Some l \<Longrightarrow> map_of hs (ascii ''composer_submit_behavior'') = None \<Longrightarrow>
   leg_composer_submit_behavior l = None"
  by (auto simp: legacy_preferences_de_def struct_fields_def legacy_names_def bind_eq_Some_conv
      optional_def [of composer_submit_behavior_de] split: if_splits)

lemma preferences_submit:
  assumes "local_preferences_de v = Some p" "nested_object ''shared'' is_object v"
    "validate_workspace_preferences settings_schema_version v = Ok ()"
  shows "sp_composer_submit_behavior (lp_shared p) = None"
proof -
  obtain hs where hs: "v = JObject hs" "\<And>w. map_of hs (ascii ''shared'') = Some w \<Longrightarrow> is_object w"
    using assms(2) by (blast elim: nested_objectE)
  have shared: "or_default shared_preferences_new shared_preferences_de (map_of hs (ascii ''shared'')) = Some (lp_shared p)"
    using assms(1) by (auto simp: hs local_preferences_de_def struct_fields_def bind_eq_Some_conv split: if_splits)
  show ?thesis
  proof (cases "map_of hs (ascii ''shared'')")
    case None
    then have "lp_shared p = shared_preferences_new" using shared by (simp add: or_default_def)
    then show ?thesis by (simp add: shared_preferences_new_def)
  next
    case (Some w)
    then obtain ss where w: "w = JObject ss" using hs(2) by (blast elim: is_objectE)
    have "validate_workspace_preference_group ''shared''
        [''theme_preset'', ''color_mode'', ''reduced_motion'', ''density'', ''timestamp_style''] w = Ok ()"
      using check_keys_at [OF assms(3) [unfolded hs validate_workspace_preferences_def, simplified] Some] by simp
    then have "map_of ss (ascii ''composer_submit_behavior'') = None"
      by (auto simp: w validate_workspace_preference_group_def intro: check_keys_absent)
    then show ?thesis using shared Some by (simp add: w or_default_def shared_submit)
  qed
qed

lemma legacy_preferences_submit:
  assumes "legacy_preferences_de v = Some l" "is_object v" "version < settings_schema_version"
    "validate_workspace_preferences version v = Ok ()"
  shows "leg_composer_submit_behavior l = None"
proof -
  obtain hs where hs: "v = JObject hs" using assms(2) by (blast elim: is_objectE)
  have "validate_legacy_workspace_preferences hs = Ok ()" using assms(3,4) by (simp add: hs validate_workspace_preferences_def)
  then have "map_of hs (ascii ''composer_submit_behavior'') = None"
    unfolding validate_legacy_workspace_preferences_def
    by (rule check_keys_absent) (auto simp: legacy_workspace_names_def)
  then show ?thesis using assms(1) legacy_submit by (simp add: hs)
qed

definition protected_unset :: "local_profile \<Rightarrow> bool" where
  "protected_unset p \<longleftrightarrow> lf_display_label p = None \<and> sp_composer_submit_behavior (lp_shared (lf_preferences p)) = None"

lemma profile_new_protected: "protected_unset local_profile_new"
  by (simp add: protected_unset_def local_profile_new_def local_preferences_new_def shared_preferences_new_def)

lemma allowed_profile:
  assumes valid: "validate_workspace_local_profile version v = Ok ()" and version: "version \<le> settings_schema_version"
    and plain: "nested_object ''preferences'' (nested_object ''shared'' is_object) v"
    and read: "(if version < settings_schema_version then legacy_local_profile_de v else local_profile_de v) = Some p"
  shows "protected_unset p"
proof -
  obtain gs where v: "v = JObject gs" and prefs: "\<And>w. map_of gs (ascii ''preferences'') = Some w \<Longrightarrow> nested_object ''shared'' is_object w"
    using plain by (blast elim: nested_objectE)
  note checked = valid [unfolded v validate_workspace_local_profile_def, simplified]
  have label: "map_of gs (ascii ''display_label'') = None" by (rule check_keys_absent [OF checked]) simp
  have valid_prefs: "validate_workspace_preferences version w = Ok ()" if "map_of gs (ascii ''preferences'') = Some w" for w
    using check_keys_at [OF checked that] by simp
  show ?thesis
  proof (cases "version < settings_schema_version")
    case True
    then obtain l where l: "or_default legacy_preferences_new legacy_preferences_de (map_of gs (ascii ''preferences'')) = Some l"
      "p = migrate_legacy_local_profile None l"
      using read label
      by (auto simp: v legacy_local_profile_de_def struct_fields_def bind_eq_Some_conv optional_def [of display_label_de]
          split: if_splits)
    have "leg_composer_submit_behavior l = None"
    proof (cases "map_of gs (ascii ''preferences'')")
      case None
      then have "l = legacy_preferences_new" using l(1) by (simp add: or_default_def)
      then show ?thesis by (simp add: legacy_preferences_new_def)
    next
      case (Some w)
      have "is_object w" using prefs [OF Some] by (auto simp: is_object_def elim: nested_objectE)
      then show ?thesis
        using legacy_preferences_submit [OF _ _ True valid_prefs [OF Some]] l(1) Some by (simp add: or_default_def)
    qed
    then show ?thesis by (simp add: l(2) protected_unset_def migrate_legacy_local_profile_def)
  next
    case False
    then have current: "version = settings_schema_version" using version by simp
    have p: "or_default local_preferences_new local_preferences_de (map_of gs (ascii ''preferences'')) = Some (lf_preferences p)"
      "lf_display_label p = None"
      using read label False
      by (auto simp: v local_profile_de_def struct_fields_def bind_eq_Some_conv optional_def [of display_label_de]
          split: if_splits)
    have "sp_composer_submit_behavior (lp_shared (lf_preferences p)) = None"
    proof (cases "map_of gs (ascii ''preferences'')")
      case None
      then have "lf_preferences p = local_preferences_new" using p(1) by (simp add: or_default_def)
      then show ?thesis by (simp add: local_preferences_new_def shared_preferences_new_def)
    next
      case (Some w)
      then show ?thesis
        using preferences_submit [OF _ prefs [OF Some] valid_prefs [OF Some, unfolded current]] p(1)
        by (simp add: or_default_def)
    qed
    then show ?thesis using p(2) by (simp add: protected_unset_def)
  qed
qed

lemma allowed_document_protected:
  assumes valid: "validate_workspace_document version fs = Ok ()" and read: "settings_document_de (JObject fs) = Some d"
    and version: "version = (case Option.bind (map_of fs (ascii ''schema_version'')) as_u64 of Some n \<Rightarrow> n | None \<Rightarrow> settings_schema_version)"
      "version \<le> settings_schema_version"
    and plain: "objects_only (JObject fs)"
  shows "protected_unset (doc_local_profile d)"
proof -
  obtain n raw where n: "required (unsigned_de u32_max) (map_of fs (ascii ''schema_version'')) = Some n"
    and raw: "optional Some (map_of fs (ascii ''local_profile'')) = Some raw"
    and profile: "(case raw of None \<Rightarrow> Some local_profile_new
        | Some w \<Rightarrow> if n < settings_schema_version then legacy_local_profile_de w else local_profile_de w)
         = Some (doc_local_profile d)"
    using document_fields(5) [OF read] by blast
  have n_version: "n = version"
    using n by (auto simp: version(1) required_def unsigned_de_def bind_eq_Some_conv split: option.splits if_splits)
  show ?thesis
  proof (cases raw)
    case None
    then show ?thesis using profile profile_new_protected by simp
  next
    case (Some w)
    then have w: "map_of fs (ascii ''local_profile'') = Some w"
      using raw by (auto simp: optional_def split: option.splits json.splits)
    have "validate_workspace_local_profile version w = Ok ()"
      using check_keys_at [OF valid [unfolded validate_workspace_document_def] w] by simp
    moreover have "nested_object ''preferences'' (nested_object ''shared'' is_object) w"
      using plain w by (simp add: objects_only_def nested_object_def)
    ultimately show ?thesis using allowed_profile version(2) profile by (simp add: Some n_version)
  qed
qed

definition workspace_plain :: "(ustring \<Rightarrow> json option) \<Rightarrow> settings_builder \<Rightarrow> bool" where
  "workspace_plain parse b \<longleftrightarrow>
     list_all (\<lambda>(kind, json). kind = Layer_WorkspaceFile \<longrightarrow> (case parse json of Some v \<Rightarrow> objects_only v | None \<Rightarrow> True))
       (bld_layers b)"

lemma parsed_workspace:
  assumes "parse_layer parse Layer_WorkspaceFile json = Ok d"
  shows "doc_provider d = None \<and> doc_active_profile d = None \<and> doc_profiles d = [] \<and> doc_credential_recovery d = []"
    "(case parse json of Some v \<Rightarrow> objects_only v | None \<Rightarrow> True) \<Longrightarrow> protected_unset (doc_local_profile d)"
proof -
  have "(doc_provider d = None \<and> doc_active_profile d = None \<and> doc_profiles d = [] \<and> doc_credential_recovery d = []) \<and>
    ((case parse json of Some v \<Rightarrow> objects_only v | None \<Rightarrow> True) \<longrightarrow> protected_unset (doc_local_profile d))"
  proof (cases "trim_is_empty json")
    case True
    then have "d = settings_document_new" using assms by (simp add: parse_layer_empty)
    then show ?thesis by (simp add: settings_document_new_def profile_new_protected)
  next
    case False
    then obtain fs version where fs: "parse json = Some (JObject fs)" "settings_document_de (JObject fs) = Some d"
      "version = (case Option.bind (map_of fs (ascii ''schema_version'')) as_u64 of Some n \<Rightarrow> n | None \<Rightarrow> settings_schema_version)"
      "version \<le> settings_schema_version" "validate_workspace_document version fs = Ok ()"
      using assms by (metis parse_layer_Ok)
    then show ?thesis
      using allowed_document [OF fs(5,2)] allowed_document_protected [OF fs(5,2,3,4)] by simp
  qed
  then show "doc_provider d = None \<and> doc_active_profile d = None \<and> doc_profiles d = [] \<and> doc_credential_recovery d = []"
    "(case parse json of Some v \<Rightarrow> objects_only v | None \<Rightarrow> True) \<Longrightarrow> protected_unset (doc_local_profile d)"
    by blast+
qed

end
