(* ===== verification/Settings_Properties.thy ===== *)
theory Settings_Properties
  imports Settings_Laws
begin

text \<open>
  Properties of settings resolution: precedence, what a workspace file may change, and where the
  workspace allowlist does not reach.
\<close>

section \<open>Runs\<close>

definition merged_layers :: "(ustring \<Rightarrow> json option) \<Rightarrow> settings_builder \<Rightarrow> raw_layer" where
  "merged_layers parse b = merge_all (documents parse b) raw_layer_new"

definition layers_pass :: "(ustring \<Rightarrow> json option) \<Rightarrow> settings_builder \<Rightarrow> bool" where
  "layers_pass parse b \<longleftrightarrow> (\<forall>kind. \<exists>st. resolve_layers parse kind (bld_layers b) (raw_layer_new, []) = Ok st)"

definition environment_provider :: "(ustring \<times> ustring) list \<Rightarrow> provider_kind option" where
  "environment_provider env =
     fold (\<lambda>(name, val) acc. if name = ascii ''AUTOHARNESS_PROVIDER''
             then case parse_provider_value val of Some kind \<Rightarrow> Some kind | None \<Rightarrow> acc else acc) env None"

definition overlaid_provider :: "(ustring \<times> ustring) list \<Rightarrow> raw_layer \<Rightarrow> provider_kind sourced" where
  "overlaid_provider env m = overlay (environment_provider env) Source_Environment (raw_provider m)"

lemma environment_provider_snoc:
  "environment_provider (env @ [(name, val)]) =
     (if name = ascii ''AUTOHARNESS_PROVIDER'' then case parse_provider_value val of Some kind \<Rightarrow> Some kind | None \<Rightarrow> environment_provider env
      else environment_provider env)"
  unfolding environment_provider_def by simp

lemma resolve_environment_append: "resolve_environment (env @ env') st = resolve_environment env' (resolve_environment env st)"
  by (induction env st rule: resolve_environment.induct) simp_all

lemma environment_merged:
  "fst (resolve_environment env st) = (fst st)\<lparr>raw_provider := overlaid_provider env (fst st)\<rparr>"
proof (induction env rule: rev_induct)
  case Nil
  then show ?case by (simp add: overlaid_provider_def environment_provider_def overlay_def)
next
  case (snoc e env)
  obtain name val m ds where e: "e = (name, val)" "resolve_environment env st = (m, ds)" by (metis surj_pair)
  have m: "m = (fst st)\<lparr>raw_provider := overlaid_provider env (fst st)\<rparr>" using snoc e(2) by simp
  show ?case
    unfolding resolve_environment_append e
    by (simp add: m overlaid_provider_def environment_provider_snoc overlay_def split: option.split)
qed

lemma undeclared_provider: "undeclared_active (m\<lparr>raw_provider := p\<rparr>) = undeclared_active m"
  by (simp add: undeclared_active_def split: option.split)

definition resolves_to :: "(ustring \<Rightarrow> json option) \<Rightarrow> settings_builder \<Rightarrow> resolved_settings \<Rightarrow> bool" where
  "resolves_to parse b r \<longleftrightarrow>
     (let m = merged_layers parse b
      in res_inner r = m\<lparr>raw_provider := overlaid_provider (bld_environment b) m\<rparr> \<and>
         res_local_profile r = effective_local_profile_of (raw_local_profile m))"

lemma resolve_OkD:
  assumes "resolve_settings parse b = Ok r"
  shows "layers_pass parse b" "undeclared_active (merged_layers parse b) = None" "resolves_to parse b r"
proof -
  obtain st st' where st: "resolve_layers parse Layer_UserFile (bld_layers b) (raw_layer_new, []) = Ok st"
    "resolve_layers parse Layer_WorkspaceFile (bld_layers b) st = Ok st'"
    and r: "(let (merged, diagnostics) = resolve_environment (bld_environment b) st'
       in case undeclared_active merged of
          Some active \<Rightarrow> Err (InvalidMerge (ascii ''active profile '' @ [0x27] @ active @ [0x27] @ ascii '' is not declared''))
        | None \<Rightarrow> Ok \<lparr>res_inner = merged, res_local_profile = effective_local_profile_of (raw_local_profile merged),
                    res_diagnostics = diagnostics\<rparr>) = Ok r"
    using assms by (auto simp: resolve_settings_def and_then_Ok)
  have "\<exists>st. resolve_layers parse kind (bld_layers b) (raw_layer_new, []) = Ok st" for kind
    using st(1) resolve_layers_indep [OF st(2)] by (cases kind) blast+
  then show "layers_pass parse b" by (simp add: layers_pass_def)
  have m: "fst st' = merged_layers parse b"
    using resolve_layers_merge [OF st(1)] resolve_layers_merge [OF st(2)]
    by (simp add: merged_layers_def documents_def merge_all_append)
  obtain m' ds where env: "resolve_environment (bld_environment b) st' = (m', ds)" by fastforce
  then have m': "m' = (merged_layers parse b)\<lparr>raw_provider := overlaid_provider (bld_environment b) (merged_layers parse b)\<rparr>"
    using environment_merged [of "bld_environment b" st'] by (simp add: m)
  show "undeclared_active (merged_layers parse b) = None" "resolves_to parse b r"
    using r by (auto simp: env m' undeclared_provider resolves_to_def split: option.splits)
qed

lemma resolve_OkI:
  assumes "layers_pass parse b" "undeclared_active (merged_layers parse b) = None"
  shows "\<exists>r. resolve_settings parse b = Ok r"
proof -
  obtain st where st: "resolve_layers parse Layer_UserFile (bld_layers b) (raw_layer_new, []) = Ok st"
    using assms(1) unfolding layers_pass_def by blast
  obtain st0 where "resolve_layers parse Layer_WorkspaceFile (bld_layers b) (raw_layer_new, []) = Ok st0"
    using assms(1) unfolding layers_pass_def by blast
  then obtain st' where st': "resolve_layers parse Layer_WorkspaceFile (bld_layers b) st = Ok st'"
    using resolve_layers_indep by blast
  have m: "fst st' = merged_layers parse b"
    using resolve_layers_merge [OF st] resolve_layers_merge [OF st']
    by (simp add: merged_layers_def documents_def merge_all_append)
  obtain m' ds where env: "resolve_environment (bld_environment b) st' = (m', ds)" by fastforce
  then have "undeclared_active m' = None"
    using environment_merged [of "bld_environment b" st'] assms(2) by (simp add: m undeclared_provider)
  then show ?thesis by (simp add: resolve_settings_def st st' env)
qed

section \<open>Precedence\<close>

lemma merged_leaf:
  assumes "\<And>m d s. get (merge_document m d s) = overlay (leaf d) s (get m)" "get raw_layer_new = None"
  shows "get (merged_layers parse b) = last_set leaf (documents parse b)"
  using fold_overlay [of get leaf, OF assms(1)] assms(2) by (simp add: merged_layers_def last_set_def)

lemmas leaf_simps = merge_document_def merge_local_profile_def Let_def raw_layer_new_def raw_local_profile_new_def

definition profile_leaf :: "(local_profile \<Rightarrow> 'a option) \<Rightarrow> (settings_document \<times> settings_source) list \<Rightarrow> 'a sourced" where
  "profile_leaf leaf = last_set (\<lambda>d. leaf (doc_local_profile d))"

lemma merged_profile_leaves:
  fixes parse b
  defines "lp \<equiv> raw_local_profile (merged_layers parse b)" and "ds \<equiv> documents parse b"
  shows "raw_display_label lp = profile_leaf lf_display_label ds"
    "raw_theme_preset lp = profile_leaf (sp_theme_preset \<circ> lp_shared \<circ> lf_preferences) ds"
    "raw_color_mode lp = profile_leaf (sp_color_mode \<circ> lp_shared \<circ> lf_preferences) ds"
    "raw_glyph_mode lp = profile_leaf (tp_glyph_mode \<circ> lp_terminal \<circ> lf_preferences) ds"
    "raw_reduced_motion lp = profile_leaf (sp_reduced_motion \<circ> lp_shared \<circ> lf_preferences) ds"
    "raw_density lp = profile_leaf (sp_density \<circ> lp_shared \<circ> lf_preferences) ds"
    "raw_layout lp = profile_leaf (tp_layout \<circ> lp_terminal \<circ> lf_preferences) ds"
    "raw_timestamp_style lp = profile_leaf (sp_timestamp_style \<circ> lp_shared \<circ> lf_preferences) ds"
    "raw_composer_submit_behavior lp = profile_leaf (sp_composer_submit_behavior \<circ> lp_shared \<circ> lf_preferences) ds"
    "raw_prompt_status_detail lp = profile_leaf (tp_prompt_status_detail \<circ> lp_terminal \<circ> lf_preferences) ds"
    "raw_gui_zoom_percent lp = profile_leaf (gp_zoom_percent \<circ> lp_gui \<circ> lf_preferences) ds"
    "raw_gui_font_size lp = profile_leaf (gp_font_size \<circ> lp_gui \<circ> lf_preferences) ds"
  unfolding lp_def ds_def profile_leaf_def
  by (rule merged_leaf [where get = "\<lambda>m. g (raw_local_profile m)" for g]; simp add: leaf_simps)+

text \<open>C22: precedence of settings. Whatever layers and environment are given, when resolution succeeds every
  effective preference is the value of the last accepted document that sets it, user files before workspace
  files and each kind in the order given, together with that document's source, and the built-in default with
  the default source when none sets it. The same holds of the active profile and of every declared profile, and
  the provider is the last recognised value of the environment variable before any file.\<close>

theorem last_layer_wins:
  assumes "resolve_settings parse b = Ok r"
  shows "let ds = documents parse b; lp = res_local_profile r; p = eff_preferences lp;
      shared = lp_shared \<circ> lf_preferences; gui = lp_gui \<circ> lf_preferences; terminal = lp_terminal \<circ> lf_preferences
    in eff_display_label lp = effective_optional_leaf (profile_leaf lf_display_label ds) \<and>
       eff_theme_preset p = effective_leaf Theme_System (profile_leaf (sp_theme_preset \<circ> shared) ds) \<and>
       eff_color_mode p = effective_leaf Color_Color (profile_leaf (sp_color_mode \<circ> shared) ds) \<and>
       eff_glyph_mode p = effective_leaf Glyph_Unicode (profile_leaf (tp_glyph_mode \<circ> terminal) ds) \<and>
       eff_reduced_motion p = effective_leaf False (profile_leaf (sp_reduced_motion \<circ> shared) ds) \<and>
       eff_density p = effective_leaf Density_Comfortable (profile_leaf (sp_density \<circ> shared) ds) \<and>
       eff_layout p = effective_leaf Layout_Responsive (profile_leaf (tp_layout \<circ> terminal) ds) \<and>
       eff_timestamp_style p = effective_leaf Timestamp_Relative (profile_leaf (sp_timestamp_style \<circ> shared) ds) \<and>
       eff_composer_submit_behavior p =
         effective_leaf Submit_ControlS (profile_leaf (sp_composer_submit_behavior \<circ> shared) ds) \<and>
       eff_prompt_status_detail p =
         effective_leaf Status_Workspace (profile_leaf (tp_prompt_status_detail \<circ> terminal) ds) \<and>
       eff_gui_zoom_percent p = effective_leaf (GuiZoomPercent 100) (profile_leaf (gp_zoom_percent \<circ> gui) ds) \<and>
       eff_gui_font_size p = effective_leaf Font_Standard (profile_leaf (gp_font_size \<circ> gui) ds) \<and>
       raw_active_profile (res_inner r) = last_set (map_option profile_id_str \<circ> doc_active_profile) ds \<and>
       map_of (raw_profiles (res_inner r)) = (\<lambda>i. last_set (\<lambda>d. map_of (doc_profiles d) i) ds) \<and>
       raw_provider (res_inner r) =
         overlay (environment_provider (bld_environment b)) Source_Environment (last_set doc_provider ds)"
proof -
  have res: "res_inner r = (merged_layers parse b)\<lparr>raw_provider := overlaid_provider (bld_environment b) (merged_layers parse b)\<rparr>"
    "res_local_profile r = effective_local_profile_of (raw_local_profile (merged_layers parse b))"
    using resolve_OkD(3) [OF assms] by (simp_all add: resolves_to_def Let_def)
  have "map_of (raw_profiles (merged_layers parse b)) i = last_set (\<lambda>d. map_of (doc_profiles d) i) (documents parse b)" for i
    using merged_profile [of "documents parse b" i] documents_profiles_distinct [of _ _ parse b]
    by (auto simp: merged_layers_def)
  moreover have "raw_active_profile (merged_layers parse b) = last_set (map_option profile_id_str \<circ> doc_active_profile) (documents parse b)"
    "raw_provider (merged_layers parse b) = last_set doc_provider (documents parse b)"
    by (simp_all add: merged_layers_def merge_leaves)
  ultimately show ?thesis
    by (simp add: Let_def res effective_local_profile_of_def merged_profile_leaves overlaid_provider_def fun_eq_iff comp_assoc)
qed

text \<open>A user file and a workspace file, with a parser that knows their texts.\<close>

definition sample_user :: json where
  "sample_user = JObject [(ascii ''local_profile'', JObject [(ascii ''preferences'', JObject [(ascii ''shared'', JObject
     [(ascii ''composer_submit_behavior'', JString (ascii ''enter'')), (ascii ''theme_preset'', JString (ascii ''dark''))])])]),
     (ascii ''provider'', JString (ascii ''gemini'')), (ascii ''schema_version'', JNumber (ascii ''5''))]"

definition sample_workspace :: json where
  "sample_workspace = JObject [(ascii ''local_profile'', JObject [(ascii ''preferences'', JObject [(ascii ''shared'', JObject
     [(ascii ''theme_preset'', JString (ascii ''light''))])])]), (ascii ''schema_version'', JNumber (ascii ''5''))]"

definition positional_workspace :: "ustring \<Rightarrow> json" where
  "positional_workspace label = JObject [(ascii ''local_profile'', JArray [JString label,
       JArray [JArray [JNull, JNull, JNull, JNull, JNull, JString (ascii ''enter'')]]]),
     (ascii ''schema_version'', JNumber (ascii ''5''))]"

definition sample_parse :: "ustring \<Rightarrow> json option" where
  "sample_parse json = map_of [(ascii ''user'', sample_user), (ascii ''workspace'', sample_workspace),
     (ascii ''positional'', positional_workspace (ascii ''Mallory''))] json"

definition sample_builder :: settings_builder where
  "sample_builder =
     with_environment [(ascii ''AUTOHARNESS_PROVIDER'', ascii '' OpenAI '')]
       (with_layer Layer_UserFile (ascii ''user'') (with_layer Layer_WorkspaceFile (ascii ''workspace'') settings_builder_new))"

lemmas document_reading = settings_document_de_def struct_fields_def document_names_def optional_def or_default_def required_def
  local_profile_de_def local_preferences_de_def shared_preferences_de_def shared_names_def
  enum_de_def theme_preset_de_def composer_submit_behavior_de_def provider_kind_de_def display_label_de_def

lemma version_5: "as_u64 (JNumber (ascii ''5'')) = Some 5" "unsigned_de u32_max (JNumber (ascii ''5'')) = Some 5"
  by (simp_all add: unsigned_de_def ascii_def undecimal_def)

declare as_u64.simps [simp del]

lemma sample_texts: "\<not> trim_is_empty (ascii ''user'')" "\<not> trim_is_empty (ascii ''workspace'')" "\<not> trim_is_empty (ascii ''positional'')"
  by (simp_all add: ascii_def trim_is_empty_def is_whitespace_def)

definition preferences_document :: "provider_kind option \<Rightarrow> display_label option \<Rightarrow> theme_preset option \<Rightarrow>
    composer_submit_behavior option \<Rightarrow> settings_document" where
  "preferences_document provider label theme submit = settings_document_new
     \<lparr>doc_provider := provider,
      doc_local_profile := local_profile_new\<lparr>lf_display_label := label,
        lf_preferences := local_preferences_new\<lparr>lp_shared := shared_preferences_new
          \<lparr>sp_theme_preset := theme, sp_composer_submit_behavior := submit\<rparr>\<rparr>\<rparr>\<rparr>"

lemmas new_values = preferences_document_def settings_document_new_def local_profile_new_def local_preferences_new_def shared_preferences_new_def

lemma sample_user_parsed:
  "parse_layer sample_parse Layer_UserFile (ascii ''user'') =
     Ok (preferences_document (Some Provider_Gemini) None (Some Theme_Dark) (Some Submit_Enter))"
  by (simp add: parse_layer_def sample_texts sample_parse_def sample_user_def version_5 [simplified] settings_schema_version_def document_reading new_values)

lemma sample_workspace_parsed:
  "parse_layer sample_parse Layer_WorkspaceFile (ascii ''workspace'') =
     Ok (preferences_document None None (Some Theme_Light) None)"
  by (simp add: parse_layer_def sample_texts sample_parse_def sample_workspace_def version_5 [simplified] settings_schema_version_def document_reading
      new_values validate_workspace_document_def validate_workspace_local_profile_def validate_workspace_preferences_def
      validate_workspace_preference_group_def)

lemma positional_parsed:
  assumes "parse json = Some (positional_workspace label)" "\<not> trim_is_empty json" "display_label_new label = Some l"
  shows "parse_layer parse Layer_WorkspaceFile json = Ok (preferences_document None (Some l) None (Some Submit_Enter))"
  using assms
  by (simp add: parse_layer_def positional_workspace_def version_5 [simplified] settings_schema_version_def document_reading
      new_values validate_workspace_document_def validate_workspace_local_profile_def)

lemma sample_documents:
  "documents sample_parse sample_builder =
     [(preferences_document (Some Provider_Gemini) None (Some Theme_Dark) (Some Submit_Enter), Source_UserFile),
      (preferences_document None None (Some Theme_Light) None, Source_WorkspaceFile)]"
  by (simp add: documents_def sample_builder_def with_environment_def with_layer_def settings_builder_new_def
      sample_user_parsed sample_workspace_parsed)

lemma no_active_profile:
  "(\<And>d s. (d, s) \<in> set (documents parse b) \<Longrightarrow> doc_active_profile d = None) \<Longrightarrow> undeclared_active (merged_layers parse b) = None"
  using last_set_unset [of "documents parse b" "map_option profile_id_str \<circ> doc_active_profile" "[]"]
  by (fastforce simp: undeclared_active_def merged_layers_def merge_leaves last_set_def)

lemma sample_resolves: "\<exists>r. resolve_settings sample_parse sample_builder = Ok r"
proof (rule resolve_OkI)
  have "\<exists>st. resolve_layers sample_parse kind (bld_layers sample_builder) (raw_layer_new, []) = Ok st" for kind
    by (cases kind) (simp_all add: sample_builder_def with_environment_def with_layer_def settings_builder_new_def
        sample_user_parsed sample_workspace_parsed)
  then show "layers_pass sample_parse sample_builder" by (simp add: layers_pass_def)
  show "undeclared_active (merged_layers sample_parse sample_builder) = None"
    by (rule no_active_profile) (auto simp: sample_documents new_values)
qed

theorem last_layer_wins_witness:
  "\<exists>r. resolve_settings sample_parse sample_builder = Ok r \<and>
     eff_theme_preset (eff_preferences (res_local_profile r)) = \<lparr>eff_value = Theme_Light, eff_source = Source_WorkspaceFile\<rparr> \<and>
     eff_composer_submit_behavior (eff_preferences (res_local_profile r)) = \<lparr>eff_value = Submit_Enter, eff_source = Source_UserFile\<rparr> \<and>
     eff_density (eff_preferences (res_local_profile r)) = \<lparr>eff_value = Density_Comfortable, eff_source = Source_Default\<rparr> \<and>
     raw_provider (res_inner r) = Some (Provider_Router, Source_Environment)"
proof -
  obtain r where r: "resolve_settings sample_parse sample_builder = Ok r" using sample_resolves by blast
  have env: "environment_provider (bld_environment sample_builder) = Some Provider_Router"
    by (simp add: sample_builder_def with_environment_def with_layer_def settings_builder_new_def environment_provider_def
        parse_provider_value_def str_trim_def to_ascii_lower_def ascii_def is_whitespace_def)
  show ?thesis
    using last_layer_wins [OF r] r
    by (intro exI [of _ r])
      (simp add: Let_def sample_documents env profile_leaf_def last_set_def overlay_def new_values effective_leaf_def)
qed

section \<open>What a workspace file may change\<close>

definition without_workspace :: "settings_builder \<Rightarrow> settings_builder" where
  "without_workspace b = b\<lparr>bld_layers := filter (\<lambda>(kind, _). kind = Layer_UserFile) (bld_layers b)\<rparr>"

lemma accepted_filter: "accepted parse kind (filter (\<lambda>(k, _). k = kind) ls) = accepted parse kind ls"
  by (induction ls) auto

lemma documents_split:
  "documents parse b = documents parse (without_workspace b) @ accepted parse Layer_WorkspaceFile (bld_layers b)"
  by (simp add: documents_def without_workspace_def accepted_filter accepted_other)

lemma workspace_documents:
  assumes "(d, s) \<in> set (accepted parse Layer_WorkspaceFile (bld_layers b))"
  shows "doc_provider d = None" "doc_active_profile d = None" "doc_profiles d = []"
    "workspace_plain parse b \<Longrightarrow> protected_unset (doc_local_profile d)"
  using accepted_parsed [OF assms] parsed_workspace by (fastforce simp: workspace_plain_def list_all_iff)+

lemma merge_no_profiles: "\<forall>(d, s) \<in> set ds. doc_profiles d = [] \<Longrightarrow> raw_profiles (merge_all ds m) = raw_profiles m"
proof (induction ds rule: rev_induct)
  case (snoc x ds)
  have "raw_profiles (merge_all (ds @ [x]) m) = raw_profiles (merge_all ds m)"
    using snoc.prems by (cases x) (simp add: merge_all_def merge_document_def)
  then show ?case using snoc by simp
qed (simp add: merge_all_def)

lemma workspace_frame:
  fixes parse b
  defines "m \<equiv> merged_layers parse b" and "n \<equiv> merged_layers parse (without_workspace b)"
  shows "raw_provider m = raw_provider n" "raw_active_profile m = raw_active_profile n" "raw_profiles m = raw_profiles n"
    "workspace_plain parse b \<Longrightarrow> raw_display_label (raw_local_profile m) = raw_display_label (raw_local_profile n)"
    "workspace_plain parse b \<Longrightarrow>
       raw_composer_submit_behavior (raw_local_profile m) = raw_composer_submit_behavior (raw_local_profile n)"
proof -
  note ws = workspace_documents [of _ _ parse b]
  have unset: "last_set leaf (documents parse b) = last_set leaf (documents parse (without_workspace b))"
    if "\<And>d s. (d, s) \<in> set (accepted parse Layer_WorkspaceFile (bld_layers b)) \<Longrightarrow> leaf d = None" for leaf :: "settings_document \<Rightarrow> 'a option"
    unfolding documents_split [of parse b] using that by (intro last_set_unset) auto
  show "raw_provider m = raw_provider n" "raw_active_profile m = raw_active_profile n"
    unfolding m_def n_def merged_layers_def merge_leaves using ws by (auto intro!: unset)
  show "raw_profiles m = raw_profiles n"
    unfolding m_def n_def merged_layers_def documents_split [of parse b] merge_all_append
    using ws(3) by (auto intro!: merge_no_profiles)
  show "workspace_plain parse b \<Longrightarrow> raw_display_label (raw_local_profile m) = raw_display_label (raw_local_profile n)"
    "workspace_plain parse b \<Longrightarrow>
       raw_composer_submit_behavior (raw_local_profile m) = raw_composer_submit_behavior (raw_local_profile n)"
    unfolding m_def n_def merged_profile_leaves profile_leaf_def using ws(4) by (auto intro!: unset simp: protected_unset_def)
qed

text \<open>C23: the workspace allowlist. If resolution succeeds, it also succeeds with every workspace file left out, and the
  workspace files have changed neither the provider nor the active profile nor the set, contents or sources of the
  declared profiles. If moreover the values the workspace files nest under the local profile, its preferences and their
  shared group are objects, the workspace files have not changed the display label or the composer submit behavior
  either.\<close>

theorem workspace_keeps_protected_settings:
  assumes "resolve_settings parse b = Ok r"
  shows "\<exists>u. resolve_settings parse (without_workspace b) = Ok u \<and>
     raw_provider (res_inner r) = raw_provider (res_inner u) \<and>
     raw_active_profile (res_inner r) = raw_active_profile (res_inner u) \<and>
     raw_profiles (res_inner r) = raw_profiles (res_inner u) \<and>
     (workspace_plain parse b \<longrightarrow>
        eff_display_label (res_local_profile r) = eff_display_label (res_local_profile u) \<and>
        eff_composer_submit_behavior (eff_preferences (res_local_profile r)) =
          eff_composer_submit_behavior (eff_preferences (res_local_profile u)))"
proof -
  note r = resolve_OkD [OF assms]
  note same = workspace_frame [of parse b]
  have "\<exists>st. resolve_layers parse kind (bld_layers (without_workspace b)) (raw_layer_new, []) = Ok st" for kind
    using r(1) resolve_layers_filter [of parse Layer_UserFile "bld_layers b"]
    by (cases kind) (auto simp: layers_pass_def without_workspace_def resolve_layers_none)
  then have "layers_pass parse (without_workspace b)" by (simp add: layers_pass_def)
  moreover have "undeclared_active (merged_layers parse (without_workspace b)) = None"
    using r(2) unfolding undeclared_active_def same(2,3) .
  ultimately obtain u where u: "resolve_settings parse (without_workspace b) = Ok u" using resolve_OkI by blast
  have "bld_environment (without_workspace b) = bld_environment b" by (simp add: without_workspace_def)
  then show ?thesis
    using u r(3) resolve_OkD(3) [OF u] same
    by (intro exI [of _ u]) (simp add: resolves_to_def Let_def overlaid_provider_def effective_local_profile_of_def)
qed

theorem workspace_keeps_protected_settings_witness:
  "\<exists>r u. resolve_settings sample_parse sample_builder = Ok r \<and> resolve_settings sample_parse (without_workspace sample_builder) = Ok u \<and>
     raw_provider (res_inner r) = raw_provider (res_inner u) \<and> workspace_plain sample_parse sample_builder \<and>
     eff_composer_submit_behavior (eff_preferences (res_local_profile r)) =
       eff_composer_submit_behavior (eff_preferences (res_local_profile u))"
proof -
  have "workspace_plain sample_parse sample_builder"
    by (simp add: workspace_plain_def sample_builder_def with_environment_def with_layer_def settings_builder_new_def
        sample_parse_def sample_workspace_def objects_only_def nested_object_def is_object_def)
  then show ?thesis using sample_resolves workspace_keeps_protected_settings [of sample_parse sample_builder] by blast
qed

text \<open>C38: the workspace allowlist does not reach into arrays. For every configuration that resolves, every valid label and
  every further workspace file whose local profile is written as an array (the label, then the preferences with their
  shared group as arrays), resolution succeeds with that file added, and the display label and the composer submit
  behavior, which a workspace file may not override by name, are the file's, whatever the user files say.\<close>

theorem positional_workspace_overrides_protected:
  assumes "resolve_settings parse b = Ok r" "parse json = Some (positional_workspace label)" "\<not> trim_is_empty json"
    "display_label_new label = Some l"
  shows "\<exists>r'. resolve_settings parse (with_layer Layer_WorkspaceFile json b) = Ok r' \<and>
     eff_display_label (res_local_profile r') = \<lparr>eff_value = Some l, eff_source = Source_WorkspaceFile\<rparr> \<and>
     eff_composer_submit_behavior (eff_preferences (res_local_profile r')) =
       \<lparr>eff_value = Submit_Enter, eff_source = Source_WorkspaceFile\<rparr>"
proof -
  let ?b = "with_layer Layer_WorkspaceFile json b"
  let ?d = "preferences_document None (Some l) None (Some Submit_Enter)"
  note r = resolve_OkD [OF assms(1)]
  note parsed = positional_parsed [of parse json label l, OF assms(2-4)]
  have docs: "documents parse ?b = documents parse b @ [(?d, Source_WorkspaceFile)]"
    by (simp add: documents_def with_layer_def accepted_append parsed)
  have "\<exists>st. resolve_layers parse kind (bld_layers ?b) (raw_layer_new, []) = Ok st" for kind
    using r(1) parsed
    by (cases kind) (auto simp: layers_pass_def with_layer_def resolve_layers_append dest!: spec [of _ kind])
  then have "layers_pass parse ?b" by (simp add: layers_pass_def)
  moreover have "merged_layers parse ?b = merge_document (merged_layers parse b) ?d Source_WorkspaceFile"
    by (simp add: merged_layers_def docs merge_all_def)
  then have frame: "raw_active_profile (merged_layers parse ?b) = raw_active_profile (merged_layers parse b)"
    "raw_profiles (merged_layers parse ?b) = raw_profiles (merged_layers parse b)"
    by (simp_all add: merge_document_def overlay_def new_values)
  moreover have "undeclared_active (merged_layers parse ?b) = None"
    using r(2) unfolding undeclared_active_def frame .
  ultimately obtain r' where r': "resolve_settings parse ?b = Ok r'" using resolve_OkI by blast
  have "profile_leaf lf_display_label (documents parse ?b) = Some (l, Source_WorkspaceFile)"
    "profile_leaf (sp_composer_submit_behavior \<circ> lp_shared \<circ> lf_preferences) (documents parse ?b) = Some (Submit_Enter, Source_WorkspaceFile)"
    unfolding profile_leaf_def docs by (rule last_set_final, simp add: new_values)+
  then show ?thesis
    using r' resolve_OkD(3) [OF r']
    by (intro exI [of _ r'])
      (simp add: resolves_to_def Let_def effective_local_profile_of_def merged_profile_leaves effective_leaf_def effective_optional_leaf_def)
qed

theorem positional_workspace_overrides_protected_witness:
  "\<exists>r'. resolve_settings sample_parse (with_layer Layer_WorkspaceFile (ascii ''positional'') sample_builder) = Ok r' \<and>
     eff_display_label (res_local_profile r') =
       \<lparr>eff_value = Some (DisplayLabel (ascii ''Mallory'')), eff_source = Source_WorkspaceFile\<rparr>"
proof -
  obtain r where "resolve_settings sample_parse sample_builder = Ok r" using sample_resolves by blast
  moreover have "sample_parse (ascii ''positional'') = Some (positional_workspace (ascii ''Mallory''))" by (simp add: sample_parse_def)
  moreover have "display_label_new (ascii ''Mallory'') = Some (DisplayLabel (ascii ''Mallory''))"
    by (simp add: display_label_new_def trim_is_empty_def max_display_label_chars_def ascii_def is_whitespace_def is_control_def)
  ultimately show ?thesis using positional_workspace_overrides_protected sample_texts(3) by blast
qed

end
