(* ===== verification/Client_Values.thy ===== *)
theory Client_Values
  imports Domain_Text
begin

text \<open>
  Values of the client protocol (\<open>autoharness-client\<close>: \<open>error.rs\<close>, \<open>bounds.rs\<close>, \<open>id.rs\<close>, \<open>content.rs\<close>, \<open>failure.rs\<close>,
  \<open>profile.rs\<close> and the notices of \<open>command.rs\<close>). Decimal integers of the wire are natural numbers, and
  milliseconds of the clock are integers. The identities and texts of the protocol are types of their own.
\<close>

section \<open>Errors and bounds\<close>

datatype validation_error =
    VE_Empty string
  | VE_TooLong string nat nat
  | VE_TooMany string nat nat
  | VE_Invalid string
  | VE_Zero string
  | VE_Overflow string
  | VE_Inconsistent string

type_synonym validated = "(unit, validation_error) result"

definition max_id_bytes :: nat where "max_id_bytes = 512"
definition max_prompt_bytes :: nat where "max_prompt_bytes = 128 * 1024"
definition max_transcript_content_bytes :: nat where "max_transcript_content_bytes = 1024 * 1024"
definition max_session_title_bytes :: nat where "max_session_title_bytes = 128"
definition max_label_bytes :: nat where "max_label_bytes = 512"
definition max_router_url_bytes :: nat where "max_router_url_bytes = 2 * 1024"
definition max_profile_field_bytes :: nat where "max_profile_field_bytes = 256"
definition max_detail_bytes :: nat where "max_detail_bytes = 4 * 1024"
definition max_permission_detail_bytes :: nat where "max_permission_detail_bytes = 512 * 1024"
definition max_permission_total_bytes :: nat where "max_permission_total_bytes = 512 * 1024"
definition max_failure_message_bytes :: nat where "max_failure_message_bytes = 4 * 1024"
definition max_failure_code_bytes :: nat where "max_failure_code_bytes = 64"
definition max_retry_delay_ms :: nat where "max_retry_delay_ms = 7 * 24 * 60 * 60 * 1000"
definition max_sessions :: nat where "max_sessions = 4096"
definition max_transcript_items :: nat where "max_transcript_items = 65536"
definition max_permission_requests :: nat where "max_permission_requests = 256"
definition max_permission_details :: nat where "max_permission_details = 260"
definition max_catalog_models :: nat where "max_catalog_models = 4096"
definition max_providers :: nat where "max_providers = 64"

definition validate_text :: "string \<Rightarrow> ustring \<Rightarrow> nat \<Rightarrow> validated" where
  "validate_text field value max_bytes = ensure (str_len value \<le> max_bytes) (VE_TooLong field max_bytes (str_len value))"

definition validate_non_empty_text :: "string \<Rightarrow> ustring \<Rightarrow> nat \<Rightarrow> validated" where
  "validate_non_empty_text field value max_bytes =
     and_then (ensure (\<not> trim_is_empty value) (VE_Empty field)) (\<lambda>_. validate_text field value max_bytes)"

definition validate_security_text :: "string \<Rightarrow> ustring \<Rightarrow> nat \<Rightarrow> validated" where
  "validate_security_text field value max_bytes =
     and_then (validate_text field value max_bytes) (\<lambda>_.
     ensure (\<not> contains_unsafe_display_control value) (VE_Invalid field))"

definition validate_non_empty_security_text :: "string \<Rightarrow> ustring \<Rightarrow> nat \<Rightarrow> validated" where
  "validate_non_empty_security_text field value max_bytes =
     and_then (validate_non_empty_text field value max_bytes) (\<lambda>_. validate_security_text field value max_bytes)"

definition validate_id :: "string \<Rightarrow> ustring \<Rightarrow> validated" where
  "validate_id field value =
     and_then (validate_non_empty_text field value max_id_bytes) (\<lambda>_.
     ensure (str_trim value = value \<and> \<not> list_ex is_control value) (VE_Invalid field))"

definition validate_count :: "string \<Rightarrow> nat \<Rightarrow> nat \<Rightarrow> validated" where
  "validate_count field actual_items max_items = ensure (actual_items \<le> max_items) (VE_TooMany field max_items actual_items)"

section \<open>Identities and contents\<close>

datatype client_session_id = ClientSessionId ustring
datatype client_input_id = ClientInputId ustring
datatype client_attempt_id = ClientAttemptId ustring
datatype client_tool_call_id = ClientToolCallId ustring
datatype client_provider_id = ClientProviderId ustring
datatype client_connection_id = ClientConnectionId ustring
datatype client_model_id = ClientModelId ustring
datatype client_memory_id = ClientMemoryId ustring

definition client_session_id_new :: "ustring \<Rightarrow> (client_session_id, validation_error) result" where
  "client_session_id_new value = and_then (validate_id ''session_id'' value) (\<lambda>_. Ok (ClientSessionId value))"

datatype client_request_id = ClientRequestId nat
datatype transport_revision = TransportRevision (revision_value: nat)

definition client_request_id_new :: "nat \<Rightarrow> (client_request_id, validation_error) result" where
  "client_request_id_new value = and_then (ensure (value \<noteq> 0) (VE_Zero ''request_id'')) (\<lambda>_. Ok (ClientRequestId value))"

definition initial_revision :: transport_revision where "initial_revision = TransportRevision 1"

definition transport_revision_new :: "nat \<Rightarrow> (transport_revision, validation_error) result" where
  "transport_revision_new value =
     and_then (ensure (value \<noteq> 0) (VE_Zero ''transport_revision'')) (\<lambda>_. Ok (TransportRevision value))"

definition next_of_revision :: "transport_revision \<Rightarrow> (transport_revision, validation_error) result" where
  "next_of_revision r =
     (case checked_add_u64 (revision_value r) 1 of
        Some n \<Rightarrow> Ok (TransportRevision n) | None \<Rightarrow> Err (VE_Overflow ''transport_revision''))"

datatype prompt_content = PromptContent ustring
datatype transcript_content = TranscriptContent ustring
datatype client_session_title = ClientSessionTitle ustring

definition prompt_content_new :: "ustring \<Rightarrow> (prompt_content, validation_error) result" where
  "prompt_content_new value = and_then (validate_non_empty_text ''prompt'' value max_prompt_bytes) (\<lambda>_. Ok (PromptContent value))"

definition transcript_content_new :: "ustring \<Rightarrow> (transcript_content, validation_error) result" where
  "transcript_content_new value =
     and_then (validate_text ''transcript_content'' value max_transcript_content_bytes) (\<lambda>_. Ok (TranscriptContent value))"

definition client_session_title_new :: "ustring \<Rightarrow> (client_session_title, validation_error) result" where
  "client_session_title_new value =
     and_then (validate_non_empty_text ''session_title'' value max_session_title_bytes) (\<lambda>_. Ok (ClientSessionTitle value))"

section \<open>Failures\<close>

datatype failure_class =
    FC_Validation | FC_NotFound | FC_Conflict | FC_Authentication | FC_PermissionDenied | FC_RateLimited
  | FC_Timeout | FC_Unavailable | FC_Cancelled | FC_Protocol | FC_Storage | FC_Internal

datatype retry_directive = Retry_Never | Retry_Immediate | Retry_After nat

definition retry_after :: "nat \<Rightarrow> (retry_directive, validation_error) result" where
  "retry_after delay_ms =
     and_then (ensure (delay_ms \<noteq> 0 \<and> delay_ms \<le> max_retry_delay_ms) (VE_Invalid ''retry_delay_ms'')) (\<lambda>_.
     Ok (Retry_After delay_ms))"

record safe_failure =
  sf_class :: failure_class
  sf_code :: ustring
  sf_message :: ustring
  sf_retry :: retry_directive

definition failure_code_char :: "nat \<Rightarrow> bool" where
  "failure_code_char c \<longleftrightarrow> (0x61 \<le> c \<and> c \<le> 0x7A) \<or> (0x30 \<le> c \<and> c \<le> 0x39) \<or> c = 0x5F \<or> c = 0x2D \<or> c = 0x2E"

definition safe_failure_new ::
    "failure_class \<Rightarrow> ustring \<Rightarrow> ustring \<Rightarrow> retry_directive \<Rightarrow> (safe_failure, validation_error) result" where
  "safe_failure_new cls code message retry =
     and_then (validate_non_empty_text ''failure_code'' code max_failure_code_bytes) (\<lambda>_.
     and_then (ensure (list_all failure_code_char code) (VE_Invalid ''failure_code'')) (\<lambda>_.
     and_then (validate_non_empty_text ''failure_message'' message max_failure_message_bytes) (\<lambda>_.
     and_then (ensure (list_all (\<lambda>c. is_control c \<longrightarrow> c = 0x0A \<or> c = 0x09) message) (VE_Invalid ''failure_message'')) (\<lambda>_.
     and_then (case retry of Retry_After d \<Rightarrow> ensure (d \<noteq> 0 \<and> d \<le> max_retry_delay_ms) (VE_Invalid ''retry_delay_ms'') | _ \<Rightarrow> Ok ()) (\<lambda>_.
     Ok \<lparr>sf_class = cls, sf_code = code, sf_message = message, sf_retry = retry\<rparr>)))))"

section \<open>Provider configuration\<close>

datatype client_provider_kind = CPK_Gemini | CPK_Router | CPK_CodexSubscription
datatype reasoning_effort = RE_None | RE_Minimal | RE_Low | RE_Medium | RE_High | RE_Xhigh | RE_Max
datatype provider_credential_state = PCS_Disconnected | PCS_Stored | PCS_RecoveryPending
datatype provider_profile_scope = Scope_Named | Scope_SessionDefault

record provider_configuration =
  pc_kind :: client_provider_kind
  pc_base_url :: "ustring option"
  pc_project :: "ustring option"
  pc_auth_header :: "ustring option"

definition validate_profile_field :: "string \<Rightarrow> ustring option \<Rightarrow> validated" where
  "validate_profile_field field v =
     (case v of
        Some t \<Rightarrow>
          and_then (validate_text field t max_profile_field_bytes) (\<lambda>_.
          ensure (t \<noteq> [] \<and> \<not> list_ex is_control t) (VE_Invalid field))
      | None \<Rightarrow> Ok ())"

definition validate_configuration :: "provider_configuration \<Rightarrow> validated" where
  "validate_configuration c =
     (if pc_kind c = CPK_Router
      then and_then (case pc_base_url c of
              Some url \<Rightarrow> and_then (validate_non_empty_text ''provider_base_url'' url max_router_url_bytes) (\<lambda>_.
                 ensure (\<not> list_ex is_control url) (VE_Invalid ''provider_base_url''))
            | None \<Rightarrow> Ok ()) (\<lambda>_.
           and_then (validate_profile_field ''provider_project'' (pc_project c)) (\<lambda>_.
           validate_profile_field ''provider_auth_header'' (pc_auth_header c)))
      else ensure (pc_base_url c = None \<and> pc_project c = None \<and> pc_auth_header c = None)
             (VE_Inconsistent ''provider_configuration''))"

section \<open>Notices\<close>

datatype authentication_state = Auth_BrowserOpened | Auth_Completed | Auth_Cancelled
datatype shutdown_state = Shutdown_Requested | Shutdown_Ready

datatype client_notice =
    Notice_CommandCommitted client_request_id
  | Notice_CommandRejected client_request_id safe_failure
  | Notice_Authentication client_request_id authentication_state
  | Notice_Shutdown shutdown_state

fun notice_request_id :: "client_notice \<Rightarrow> client_request_id option" where
  "notice_request_id (Notice_CommandCommitted i) = Some i"
| "notice_request_id (Notice_CommandRejected i _) = Some i"
| "notice_request_id (Notice_Authentication i _) = Some i"
| "notice_request_id (Notice_Shutdown _) = None"

end
