(* ===== verification/Client_Snapshot.thy ===== *)
theory Client_Snapshot
  imports Client_Values
begin

text \<open>
  The complete snapshot that the host publishes to a renderer (\<open>autoharness-client\<close>: \<open>projection.rs\<close>,
  \<open>memory.rs\<close>, \<open>settings.rs\<close>) and the checks of its constructors. The number of bytes that serde writes for a
  memory page is the parameter \<open>page_bytes\<close>.
\<close>

section \<open>Sessions\<close>

record client_model_ref =
  mr_provider_id :: client_provider_id
  mr_model_id :: client_model_id

record usage_projection =
  up_input_tokens :: "nat option"
  up_output_tokens :: "nat option"
  up_cached_input_tokens :: "nat option"
  up_reasoning_tokens :: "nat option"
  up_tool_tokens :: "nat option"
  up_total_tokens :: "nat option"

datatype client_attempt_state = AS_Streaming | AS_Cancelling | AS_Completed | AS_Cancelled | AS_Failed safe_failure

datatype client_tool_call_state =
    TS_Proposed | TS_PermissionPending | TS_Authorized | TS_Denying | TS_Running | TS_Completed
  | TS_Failed safe_failure | TS_Denied | TS_Cancelled | TS_Unknown

record client_tool_call_projection =
  tcp_tool_call_id :: client_tool_call_id
  tcp_tool_name :: ustring
  tcp_capability :: ustring
  tcp_resource :: ustring
  tcp_state :: client_tool_call_state
  tcp_summary :: "ustring option"

definition validate_tool_call :: "client_tool_call_projection \<Rightarrow> validated" where
  "validate_tool_call t =
     and_then (validate_non_empty_text ''tool_name'' (tcp_tool_name t) max_label_bytes) (\<lambda>_.
     and_then (validate_non_empty_text ''tool_capability'' (tcp_capability t) max_label_bytes) (\<lambda>_.
     and_then (validate_non_empty_text ''tool_resource'' (tcp_resource t) max_detail_bytes) (\<lambda>_.
     (case tcp_summary t of Some s \<Rightarrow> validate_text ''tool_summary'' s max_detail_bytes | None \<Rightarrow> Ok ()))))"

datatype transcript_item =
    Item_User client_input_id transcript_content
  | Item_Assistant client_attempt_id transcript_content client_attempt_state "usage_projection option" "client_attempt_id option"
  | Item_Tool client_tool_call_projection

record client_permission_detail =
  pd_label :: ustring
  pd_value :: ustring

definition validate_permission_detail :: "client_permission_detail \<Rightarrow> validated" where
  "validate_permission_detail d =
     and_then (validate_non_empty_security_text ''permission_detail_label'' (pd_label d) max_label_bytes) (\<lambda>_.
     validate_security_text ''permission_detail_value'' (pd_value d) max_permission_detail_bytes)"

record client_permission_request =
  pr_tool_call_id :: client_tool_call_id
  pr_tool_name :: ustring
  pr_capability :: ustring
  pr_resource :: ustring
  pr_details :: "client_permission_detail list"

fun check_each :: "('a \<Rightarrow> ('b, 'e) result) \<Rightarrow> 'a list \<Rightarrow> (unit, 'e) result" where
  "check_each f [] = Ok ()"
| "check_each f (x # xs) = and_then (f x) (\<lambda>_. check_each f xs)"

definition permission_total_bytes :: "client_permission_request \<Rightarrow> nat" where
  "permission_total_bytes p =
     str_len (pr_tool_name p) + str_len (pr_capability p) + str_len (pr_resource p)
       + sum_list (map (\<lambda>d. str_len (pd_label d) + str_len (pd_value d)) (pr_details p))"

definition validate_permission_request :: "client_permission_request \<Rightarrow> validated" where
  "validate_permission_request p =
     and_then (validate_non_empty_security_text ''permission_tool_name'' (pr_tool_name p) max_label_bytes) (\<lambda>_.
     and_then (validate_non_empty_security_text ''permission_capability'' (pr_capability p) max_label_bytes) (\<lambda>_.
     and_then (validate_non_empty_security_text ''permission_resource'' (pr_resource p) max_permission_detail_bytes) (\<lambda>_.
     and_then (validate_count ''permission_details'' (length (pr_details p)) max_permission_details) (\<lambda>_.
     and_then (check_each validate_permission_detail (pr_details p)) (\<lambda>_.
     ensure (permission_total_bytes p \<le> max_permission_total_bytes)
       (VE_TooLong ''permission_request'' max_permission_total_bytes (permission_total_bytes p)))))))"

record session_projection =
  spj_session_id :: client_session_id
  spj_revision :: nat
  spj_selected_model :: "client_model_ref option"
  spj_transcript :: "transcript_item list"
  spj_permission_requests :: "client_permission_request list"

fun check_permissions :: "client_tool_call_id set \<Rightarrow> client_permission_request list \<Rightarrow> validated" where
  "check_permissions pending [] = Ok ()"
| "check_permissions pending (p # ps) =
     and_then (validate_permission_request p) (\<lambda>_.
     and_then (ensure (pr_tool_call_id p \<notin> pending) (VE_Inconsistent ''permission_requests'')) (\<lambda>_.
     check_permissions (insert (pr_tool_call_id p) pending) ps))"

definition session_projection_new :: "client_session_id \<Rightarrow> nat \<Rightarrow> client_model_ref option \<Rightarrow> transcript_item list \<Rightarrow>
    client_permission_request list \<Rightarrow> (session_projection, validation_error) result" where
  "session_projection_new session_id revision selected_model transcript permission_requests =
     and_then (validate_count ''transcript'' (length transcript) max_transcript_items) (\<lambda>_.
     and_then (validate_count ''permission_requests'' (length permission_requests) max_permission_requests) (\<lambda>_.
     and_then (check_permissions {} permission_requests) (\<lambda>_.
     Ok \<lparr>spj_session_id = session_id, spj_revision = revision, spj_selected_model = selected_model,
         spj_transcript = transcript, spj_permission_requests = permission_requests\<rparr>)))"

record client_session_summary =
  ss_session_id :: client_session_id
  ss_title :: client_session_title
  ss_revision :: "nat option"
  ss_selected_model :: "client_model_ref option"
  ss_updated_at_ms :: "int option"
  ss_message_count :: "nat option"
  ss_archived :: bool

section \<open>Catalog and providers\<close>

datatype client_capability_support = Support_Supported | Support_Unsupported | Support_Unknown

record client_model_summary =
  cms_model :: client_model_ref
  cms_display_name :: ustring
  cms_detail :: ustring
  cms_context_window_tokens :: "nat option"
  cms_selectable :: bool
  cms_chat :: client_capability_support
  cms_streaming :: client_capability_support
  cms_thinking :: client_capability_support
  cms_tool_calling :: client_capability_support

definition validate_model_summary :: "client_model_summary \<Rightarrow> validated" where
  "validate_model_summary m =
     and_then (validate_non_empty_text ''model_display_name'' (cms_display_name m) max_label_bytes) (\<lambda>_.
     validate_text ''model_detail'' (cms_detail m) max_detail_bytes)"

datatype catalog_projection =
    Catalog_CredentialRequired
  | Catalog_Loading
  | Catalog_Ready nat "client_model_summary list" bool
  | Catalog_Failed safe_failure

fun validate_catalog :: "catalog_projection \<Rightarrow> validated" where
  "validate_catalog (Catalog_Ready _ models _) =
     and_then (validate_count ''catalog_models'' (length models) max_catalog_models) (\<lambda>_.
     and_then (check_each validate_model_summary models) (\<lambda>_.
     ensure (distinct (map cms_model models)) (VE_Inconsistent ''catalog_models'')))"
| "validate_catalog _ = Ok ()"

datatype credential_source = Credential_None | Credential_Environment | Credential_Vault | Credential_SessionOnly

datatype provider_status =
    PS_Disconnected | PS_CredentialRequired | PS_Untested | PS_Connecting | PS_Ready | PS_Offline | PS_Failed safe_failure

record provider_projection =
  prv_connection_id :: client_connection_id
  prv_provider_id :: client_provider_id
  prv_display_name :: ustring
  prv_configuration :: provider_configuration
  prv_scope :: provider_profile_scope
  prv_active :: bool
  prv_status :: provider_status
  prv_credential_source :: credential_source
  prv_credential_state :: provider_credential_state
  prv_default_model :: "client_model_ref option"
  prv_default_reasoning_effort :: "reasoning_effort option"

definition validate_provider :: "provider_projection \<Rightarrow> validated" where
  "validate_provider p =
     and_then (validate_non_empty_text ''provider_display_name'' (prv_display_name p) max_label_bytes) (\<lambda>_.
     and_then (validate_configuration (prv_configuration p)) (\<lambda>_.
     and_then (ensure (\<not> (prv_credential_source p = Credential_None \<and> prv_status p = PS_Ready))
       (VE_Inconsistent ''provider_status'')) (\<lambda>_.
     and_then (ensure (case prv_default_model p of Some m \<Rightarrow> mr_provider_id m = prv_provider_id p | None \<Rightarrow> True)
       (VE_Inconsistent ''provider_default_model'')) (\<lambda>_.
     and_then (ensure (\<not> (prv_default_reasoning_effort p \<noteq> None \<and> prv_default_model p = None))
       (VE_Inconsistent ''provider_default_reasoning_effort'')) (\<lambda>_.
     ensure (\<not> (prv_credential_source p = Credential_Vault \<and> prv_credential_state p \<noteq> PCS_Stored))
       (VE_Inconsistent ''provider_credential_state''))))))"

datatype client_lifecycle =
  Lifecycle_Starting | Lifecycle_Ready | Lifecycle_Offline | Lifecycle_ShuttingDown | Lifecycle_Failed safe_failure

section \<open>Settings\<close>

datatype client_theme_preset =
    CTheme_System | CTheme_Light | CTheme_Dark | CTheme_Aurora | CTheme_Ember | CTheme_Midnight | CTheme_Ocean
  | CTheme_Forest | CTheme_Rose
datatype client_color_mode = CColor_Color | CColor_Soft | CColor_Vivid | CColor_NoColor | CColor_HighContrast
datatype client_density = CDensity_Comfortable | CDensity_Compact
datatype client_timestamp_style = CTimestamp_Relative | CTimestamp_Absolute | CTimestamp_Hidden
datatype client_submit_behavior = CSubmit_ControlS | CSubmit_Enter
datatype client_font_size = CFont_Small | CFont_Standard | CFont_Large | CFont_ExtraLarge
datatype client_zoom_percent = ClientZoomPercent nat
datatype preference_source = PSrc_Default | PSrc_UserFile | PSrc_WorkspaceFile | PSrc_Environment | PSrc_CommandLine

record 'a effective_setting =
  es_value :: 'a
  es_source :: preference_source
  es_user_override :: bool

record client_settings_projection =
  csp_theme_preset :: "client_theme_preset effective_setting"
  csp_color_mode :: "client_color_mode effective_setting"
  csp_zoom_percent :: "client_zoom_percent effective_setting"
  csp_font_size :: "client_font_size effective_setting"
  csp_density :: "client_density effective_setting"
  csp_reduced_motion :: "bool effective_setting"
  csp_timestamp_style :: "client_timestamp_style effective_setting"
  csp_composer_submit_behavior :: "client_submit_behavior effective_setting"

definition default_setting :: "'a \<Rightarrow> 'a effective_setting" where
  "default_setting v = \<lparr>es_value = v, es_source = PSrc_Default, es_user_override = False\<rparr>"

definition client_settings_default :: client_settings_projection where
  "client_settings_default =
     \<lparr>csp_theme_preset = default_setting CTheme_System, csp_color_mode = default_setting CColor_Color,
      csp_zoom_percent = default_setting (ClientZoomPercent 100), csp_font_size = default_setting CFont_Standard,
      csp_density = default_setting CDensity_Comfortable, csp_reduced_motion = default_setting False,
      csp_timestamp_style = default_setting CTimestamp_Relative,
      csp_composer_submit_behavior = default_setting CSubmit_ControlS\<rparr>"

section \<open>Memory pages\<close>

datatype client_memory_text = ClientMemoryText ustring

datatype client_memory_status =
  CMS_Active | CMS_Proposed | CMS_Conflicting | CMS_Superseded | CMS_Rejected | CMS_Retracted | CMS_Expired | CMS_Deleted
datatype client_memory_scope = CMC_User | CMC_Workspace | CMC_Session | CMC_Agent
datatype client_memory_trust = CMT_UserApproved | CMT_VerifiedObservation | CMT_Imported | CMT_UntrustedProposal
datatype client_memory_origin = CMO_ExplicitUser | CMO_VerifiedTool | CMO_ImportedDocument | CMO_ModelProposal | CMO_Compaction
datatype client_memory_sensitivity = CMY_Public | CMY_Internal | CMY_Sensitive | CMY_Secret
datatype client_evidence_availability = CME_Retained | CME_Absent | CME_Erased
datatype client_relation_kind =
  CMR_DuplicateOf | CMR_Contradicts | CMR_Refines | CMR_Supersedes | CMR_Related | CMR_DerivedFrom
datatype client_finding_kind =
    CMF_Duplicate | CMF_Contradiction | CMF_SecretDetected | CMF_UnsupportedScope | CMF_MalformedContent
  | CMF_PolicyConflict | CMF_InjectionPattern | CMF_UngroundedEvidence

record client_memory_evidence =
  cev_label :: client_memory_text
  cev_source :: client_memory_text
  cev_excerpt :: "client_memory_text option"
  cev_availability :: client_evidence_availability

record client_memory_relation =
  crl_kind :: client_relation_kind
  crl_memory_id :: client_memory_id

record client_memory_finding =
  cfi_kind :: client_finding_kind
  cfi_related_memory_id :: client_memory_text
  cfi_summary :: client_memory_text

record client_revision_context =
  crc_expected_last_sequence :: nat
  crc_revision_id :: client_memory_id
  crc_proposal_revision_id :: "client_memory_id option"
  crc_scope_identity :: client_memory_text
  crc_origin :: client_memory_origin
  crc_sensitivity :: client_memory_sensitivity
  crc_evidence :: "client_memory_evidence list"
  crc_relations :: "client_memory_relation list"
  crc_findings :: "client_memory_finding list"

record client_admission_context =
  cac_provider_attempt :: client_memory_text
  cac_run_turn :: nat
  cac_epoch :: client_memory_text
  cac_token_count :: nat
  cac_source_revision :: client_memory_text
  cac_renderer_version :: client_memory_text
  cac_reason_factors :: "client_memory_text list"

record client_memory_admission =
  cma_session :: client_memory_text
  cma_model :: client_memory_text
  cma_reason :: client_memory_text
  cma_admitted_at_ms :: int
  cma_rank :: nat
  cma_context :: "client_admission_context option"

record client_memory_detail =
  cmd_revision :: nat
  cmd_content :: "client_memory_text option"
  cmd_source :: client_memory_text
  cmd_trust :: client_memory_trust
  cmd_created_at_ms :: int
  cmd_valid_until_ms :: "int option"
  cmd_admissions :: "client_memory_admission list"
  cmd_revision_context :: "client_revision_context option"

record client_memory_row =
  cmw_memory_id :: client_memory_id
  cmw_preview :: client_memory_text
  cmw_status :: client_memory_status
  cmw_scope :: client_memory_scope
  cmw_updated_at_ms :: int
  cmw_confidence_bps :: "nat option"
  cmw_admission_count :: nat
  cmw_detail :: "client_memory_detail option"

datatype memory_load_state = Load_Ready | Load_Loading | Load_Failed safe_failure

record memory_projection =
  mp_view_generation :: nat
  mp_generation :: nat
  mp_state :: memory_load_state
  mp_rows :: "client_memory_row list"
  mp_total :: nat
  mp_stale :: bool
  mp_next_cursor :: "client_memory_text option"

definition memory_projection_default :: memory_projection where
  "memory_projection_default = \<lparr>mp_view_generation = 0, mp_generation = 0, mp_state = Load_Ready, mp_rows = [],
     mp_total = 0, mp_stale = False, mp_next_cursor = None\<rparr>"

definition max_memory_page_bytes :: nat where "max_memory_page_bytes = 8 * 1024 * 1024"

definition check_admission :: "client_memory_admission \<Rightarrow> validated" where
  "check_admission a =
     (case cma_context a of
        Some c \<Rightarrow> validate_count ''memory_reason_factors'' (length (cac_reason_factors c)) 16 | None \<Rightarrow> Ok ())"

definition check_memory_row :: "client_memory_row \<Rightarrow> validated" where
  "check_memory_row row =
     (case cmw_detail row of
        None \<Rightarrow> Ok ()
      | Some d \<Rightarrow>
          and_then (validate_count ''memory_admissions'' (length (cmd_admissions d)) 64) (\<lambda>_.
          and_then (check_each check_admission (cmd_admissions d)) (\<lambda>_.
          (case cmd_revision_context d of
             None \<Rightarrow> Ok ()
           | Some c \<Rightarrow>
               and_then (validate_count ''memory_evidence'' (length (crc_evidence c)) 64) (\<lambda>_.
               and_then (validate_count ''memory_relations'' (length (crc_relations c)) 64) (\<lambda>_.
               validate_count ''memory_findings'' (length (crc_findings c)) 352))))))"

definition validate_memory :: "(memory_projection \<Rightarrow> nat) \<Rightarrow> memory_projection \<Rightarrow> validated" where
  "validate_memory page_bytes m =
     and_then (validate_count ''memory_rows'' (length (mp_rows m)) 100) (\<lambda>_.
     and_then (ensure (distinct (map cmw_memory_id (mp_rows m)) \<and> length (mp_rows m) \<le> mp_total m)
       (VE_Inconsistent ''memory_rows'')) (\<lambda>_.
     and_then (check_each check_memory_row (mp_rows m)) (\<lambda>_.
     ensure (page_bytes m \<le> max_memory_page_bytes)
       (VE_TooLong ''memory_page'' max_memory_page_bytes (max_memory_page_bytes + 1)))))"

section \<open>Snapshots\<close>

definition client_schema_version :: nat where "client_schema_version = 4"

record client_snapshot =
  cs_memory :: memory_projection
  cs_schema_version :: nat
  cs_lifecycle :: client_lifecycle
  cs_active_session_id :: "client_session_id option"
  cs_sessions :: "client_session_summary list"
  cs_active_session :: "session_projection option"
  cs_catalog :: catalog_projection
  cs_providers :: "provider_projection list"
  cs_settings :: client_settings_projection
  cs_provider_recovery_pending :: nat

definition with_memory ::
    "(memory_projection \<Rightarrow> nat) \<Rightarrow> memory_projection \<Rightarrow> client_snapshot \<Rightarrow> (client_snapshot, validation_error) result" where
  "with_memory page_bytes memory s = and_then (validate_memory page_bytes memory) (\<lambda>_. Ok (s\<lparr>cs_memory := memory\<rparr>))"

definition active_consistent :: "client_session_id option \<Rightarrow> session_projection option \<Rightarrow> client_session_summary list \<Rightarrow> bool" where
  "active_consistent active_id active sessions \<longleftrightarrow>
     (case (active_id, active) of
        (None, None) \<Rightarrow> True
      | (Some i, Some session) \<Rightarrow> i = spj_session_id session \<and> i \<in> set (map ss_session_id sessions)
      | _ \<Rightarrow> False)"

definition client_snapshot_new :: "client_lifecycle \<Rightarrow> client_session_id option \<Rightarrow> client_session_summary list \<Rightarrow>
    session_projection option \<Rightarrow> catalog_projection \<Rightarrow> provider_projection list \<Rightarrow> client_settings_projection \<Rightarrow> nat \<Rightarrow>
    (client_snapshot, validation_error) result" where
  "client_snapshot_new lifecycle active_id sessions active catalog providers settings recovery_pending =
     and_then (validate_count ''sessions'' (length sessions) max_sessions) (\<lambda>_.
     and_then (validate_count ''providers'' (length providers) max_providers) (\<lambda>_.
     and_then (validate_catalog catalog) (\<lambda>_.
     and_then (check_each validate_provider providers) (\<lambda>_.
     and_then (ensure (distinct (map ss_session_id sessions)) (VE_Inconsistent ''sessions'')) (\<lambda>_.
     and_then (ensure (distinct (map prv_connection_id providers) \<and> length (filter prv_active providers) \<le> 1)
       (VE_Inconsistent ''providers'')) (\<lambda>_.
     and_then (ensure (active_consistent active_id active sessions) (VE_Inconsistent ''active_session'')) (\<lambda>_.
     Ok \<lparr>cs_memory = memory_projection_default, cs_schema_version = client_schema_version, cs_lifecycle = lifecycle,
         cs_active_session_id = active_id, cs_sessions = sessions, cs_active_session = active, cs_catalog = catalog,
         cs_providers = providers, cs_settings = settings, cs_provider_recovery_pending = recovery_pending\<rparr>)))))))"

end
