(* ===== verification/Client_Delta.thy ===== *)
theory Client_Delta
  imports Client_Snapshot
begin

text \<open>
  Incremental updates and ordered frames of the client protocol (\<open>autoharness-client\<close>: \<open>delta.rs\<close>, \<open>frame.rs\<close>).
  The \<open>expect\<close> calls of a splice are the outcome \<open>Panic\<close>.
\<close>

section \<open>Deltas\<close>

record transcript_splice =
  ts_start :: nat
  ts_delete_count :: nat
  ts_items :: "transcript_item list"

definition common_prefix :: "'a list \<Rightarrow> 'a list \<Rightarrow> nat" where
  "common_prefix xs ys = length (takeWhile (\<lambda>(l, r). l = r) (zip xs ys))"

definition u32_expect :: "nat \<Rightarrow> (nat, 'e) result" where
  "u32_expect n = (if n \<le> u32_max then Ok n else Panic)"

definition splice_between :: "transcript_item list \<Rightarrow> transcript_item list \<Rightarrow> (transcript_splice, validation_error) result" where
  "splice_between previous new =
     (let prefix = common_prefix previous new;
          suffix_limit = min (length previous) (length new) - prefix;
          suffix = length (takeWhile (\<lambda>(l, r). l = r) (take suffix_limit (zip (rev previous) (rev new))));
          previous_end = length previous - suffix;
          new_end = length new - suffix
      in and_then (u32_expect prefix) (\<lambda>start.
         and_then (u32_expect (previous_end - prefix)) (\<lambda>delete_count.
         Ok \<lparr>ts_start = start, ts_delete_count = delete_count, ts_items = drop prefix (take new_end new)\<rparr>)))"

record active_session_delta =
  ad_session_id :: client_session_id
  ad_revision :: nat
  ad_summary :: client_session_summary
  ad_selected_model :: "client_model_ref option"
  ad_transcript :: transcript_splice
  ad_permission_requests :: "client_permission_request list"

definition same_elsewhere :: "client_session_id \<Rightarrow> client_session_summary list \<Rightarrow> client_session_summary list \<Rightarrow> bool" where
  "same_elsewhere active_id previous new \<longleftrightarrow>
     \<not> list_ex (\<lambda>(l, r). ss_session_id l \<noteq> ss_session_id r \<or> (ss_session_id l \<noteq> active_id \<and> l \<noteq> r)) (zip previous new)"

definition delta_between ::
    "client_snapshot \<Rightarrow> client_snapshot \<Rightarrow> (active_session_delta option, validation_error) result" where
  "delta_between previous new =
     (if cs_memory previous \<noteq> cs_memory new \<or> cs_schema_version previous \<noteq> cs_schema_version new
         \<or> cs_lifecycle previous \<noteq> cs_lifecycle new \<or> cs_active_session_id previous \<noteq> cs_active_session_id new
         \<or> cs_catalog previous \<noteq> cs_catalog new \<or> cs_providers previous \<noteq> cs_providers new
         \<or> cs_settings previous \<noteq> cs_settings new \<or> length (cs_sessions previous) \<noteq> length (cs_sessions new)
      then Ok None
      else case (cs_active_session previous, cs_active_session new) of
        (Some previous_active, Some new_active) \<Rightarrow>
          (if spj_session_id previous_active \<noteq> spj_session_id new_active
              \<or> \<not> same_elsewhere (spj_session_id new_active) (cs_sessions previous) (cs_sessions new)
           then Ok None
           else case find (\<lambda>s. ss_session_id s = spj_session_id new_active) (cs_sessions new) of
             None \<Rightarrow> Ok None
           | Some summary \<Rightarrow>
               and_then (splice_between (spj_transcript previous_active) (spj_transcript new_active)) (\<lambda>splice.
               Ok (Some \<lparr>ad_session_id = spj_session_id new_active, ad_revision = spj_revision new_active,
                         ad_summary = summary, ad_selected_model = spj_selected_model new_active,
                         ad_transcript = splice, ad_permission_requests = spj_permission_requests new_active\<rparr>)))
      | _ \<Rightarrow> Ok None)"

fun replace_summary ::
    "client_session_id \<Rightarrow> client_session_summary \<Rightarrow> client_session_summary list \<Rightarrow> client_session_summary list option" where
  "replace_summary i s [] = None"
| "replace_summary i s (x # xs) =
     (if ss_session_id x = i then Some (s # xs) else map_option ((#) x) (replace_summary i s xs))"

definition delta_apply :: "active_session_delta \<Rightarrow> client_snapshot \<Rightarrow> (client_snapshot, validation_error) result" where
  "delta_apply d s =
     and_then (ensure (cs_active_session_id s = Some (ad_session_id d)) (VE_Inconsistent ''session_delta_identity'')) (\<lambda>_.
     and_then (ok_or (cs_active_session s) (VE_Inconsistent ''session_delta_identity'')) (\<lambda>active.
     and_then (ensure (spj_session_id active = ad_session_id d) (VE_Inconsistent ''session_delta_identity'')) (\<lambda>_.
     let start = ts_start (ad_transcript d); delete_count = ts_delete_count (ad_transcript d);
         old = spj_transcript active; items = ts_items (ad_transcript d);
         final_len = length old - delete_count + length items
     in and_then (ensure (start + delete_count \<le> length old) (VE_Inconsistent ''transcript_delta_range'')) (\<lambda>_.
        and_then (ensure (final_len \<le> max_transcript_items) (VE_TooMany ''transcript'' max_transcript_items final_len)) (\<lambda>_.
        and_then (session_projection_new (ad_session_id d) (ad_revision d) (ad_selected_model d)
            (take start old @ items @ drop (start + delete_count) old) (ad_permission_requests d)) (\<lambda>active_session.
        and_then (ok_or (replace_summary (ad_session_id d) (ad_summary d) (cs_sessions s))
            (VE_Inconsistent ''session_delta_summary'')) (\<lambda>sessions.
        client_snapshot_new (cs_lifecycle s) (cs_active_session_id s) sessions (Some active_session) (cs_catalog s)
          (cs_providers s) (cs_settings s) (cs_provider_recovery_pending s))))))))"

section \<open>Frames\<close>

datatype snapshot_reason = Reason_Initial | Reason_Projection | Reason_Resynchronization

datatype frame_payload =
    Frame_Snapshot snapshot_reason client_snapshot
  | Frame_Delta active_session_delta
  | Frame_Notice client_notice

record server_frame =
  fr_schema_version :: nat
  fr_revision :: transport_revision
  fr_payload :: frame_payload

definition server_frame_new :: "transport_revision \<Rightarrow> frame_payload \<Rightarrow> server_frame" where
  "server_frame_new revision payload =
     \<lparr>fr_schema_version = client_schema_version, fr_revision = revision, fr_payload = payload\<rparr>"

datatype frame_disposition =
    Disposition_Baseline
  | Disposition_Next
  | Disposition_Stale transport_revision transport_revision
  | Disposition_Gap transport_revision transport_revision
  | Disposition_InvalidBaseline transport_revision
  | Disposition_SequenceExhausted transport_revision

fun is_resynchronization :: "frame_payload \<Rightarrow> bool" where
  "is_resynchronization (Frame_Snapshot Reason_Resynchronization _) = True"
| "is_resynchronization _ = False"

fun is_baseline :: "frame_payload \<Rightarrow> bool" where
  "is_baseline (Frame_Snapshot Reason_Initial _) = True"
| "is_baseline (Frame_Snapshot Reason_Resynchronization _) = True"
| "is_baseline _ = False"

definition classify_after :: "server_frame \<Rightarrow> transport_revision option \<Rightarrow> frame_disposition" where
  "classify_after f last_applied =
     (case last_applied of
        None \<Rightarrow> if is_baseline (fr_payload f) then Disposition_Baseline else Disposition_InvalidBaseline (fr_revision f)
      | Some l \<Rightarrow>
          if revision_value (fr_revision f) \<le> revision_value l then Disposition_Stale l (fr_revision f)
          else if is_resynchronization (fr_payload f) then Disposition_Baseline
          else case next_of_revision l of
              Ok expected \<Rightarrow> if fr_revision f = expected then Disposition_Next else Disposition_Gap expected (fr_revision f)
            | _ \<Rightarrow> Disposition_SequenceExhausted l)"

end
