(* ===== verification/Client_Bridge.thy ===== *)
theory Client_Bridge
  imports Client_Delta
begin

text \<open>
  The bridge between the application and a renderer (\<open>BridgeActor\<close> of \<open>autoharness-app/src/gui.rs\<close>): which frames are
  sent in which order, what waits for an acknowledgement and which requests are pending. The channel is the
  list of the frames it has carried. What the environment contributes to a call is an argument: the snapshot
  that the watched projections give at that moment, whether the channel takes a frame, whether the intent
  queue takes an intent, and whether a projection has changed. The translation of commands and notices
  and the counter of catalog generations, which only the snapshot shows, are on that side too.
\<close>

section \<open>State\<close>

datatype bridge_error =
    IPC_Busy | IPC_Disconnected | IPC_RendererRestartRequired | IPC_InvalidCommand | IPC_InvalidProjection
  | IPC_InvalidCredential | WorkerStopped

definition max_pending_requests :: nat where "max_pending_requests = 32"
definition max_pending_notices :: nat where "max_pending_notices = max_pending_requests * 2 + 2"

record queued_notice =
  qn_notice :: client_notice
  qn_terminal_request_id :: "nat option"
  qn_wait_for_projection :: bool

datatype in_flight_payload = InFlight_Snapshot | InFlight_Notice queued_notice

record in_flight_frame =
  if_revision :: transport_revision
  if_payload :: in_flight_payload

record bridge =
  br_channel :: "server_frame list option"
  br_last_snapshot :: "client_snapshot option"
  br_next_request_id :: nat
  br_next_revision :: transport_revision
  br_pending_requests :: "nat set"
  br_pending_notices :: "queued_notice list"
  br_in_flight :: "in_flight_frame option"
  br_pending_resynchronization :: "client_request_id option"
  br_projection_dirty :: bool
  br_requested_notice_sent :: bool
  br_ready_notice_sent :: bool
  br_shutdown_started :: bool
  br_ready_acknowledged :: bool

record bridge_env =
  env_snapshot :: "(client_snapshot, bridge_error) result"
  env_delivers :: bool

definition bridge_new :: bridge where
  "bridge_new = \<lparr>br_channel = None, br_last_snapshot = None, br_next_request_id = 1, br_next_revision = initial_revision,
     br_pending_requests = {}, br_pending_notices = [], br_in_flight = None, br_pending_resynchronization = None,
     br_projection_dirty = True, br_requested_notice_sent = False, br_ready_notice_sent = False,
     br_shutdown_started = False, br_ready_acknowledged = False\<rparr>"

text \<open>A call returns its result and the state it leaves, which a failing call may have changed.\<close>

type_synonym 'a call = "bridge \<Rightarrow> ('a, bridge_error) result \<times> bridge"

definition return_call :: "'a \<Rightarrow> 'a call" where "return_call x b = (Ok x, b)"
definition fail_call :: "bridge_error \<Rightarrow> 'a call" where "fail_call e b = (Err e, b)"

definition seq_call :: "'a call \<Rightarrow> ('a \<Rightarrow> 'b call) \<Rightarrow> 'b call" where
  "seq_call m f b = (case m b of (Ok x, b') \<Rightarrow> f x b' | (Err e, b') \<Rightarrow> (Err e, b') | (Panic, b') \<Rightarrow> (Panic, b'))"

definition update_call :: "(bridge \<Rightarrow> bridge) \<Rightarrow> unit call" where "update_call f b = (Ok (), f b)"

definition lift_call :: "('a, bridge_error) result \<Rightarrow> 'a call" where "lift_call r b = (r, b)"

section \<open>Sending\<close>

definition take_revision :: "transport_revision call" where
  "take_revision b =
     (case next_of_revision (br_next_revision b) of
        Ok r \<Rightarrow> (Ok (br_next_revision b), b\<lparr>br_next_revision := r\<rparr>)
      | _ \<Rightarrow> (Err IPC_Disconnected, b))"

definition send_frame :: "bool \<Rightarrow> server_frame \<Rightarrow> in_flight_payload \<Rightarrow> unit call" where
  "send_frame delivers frame payload b =
     (if br_in_flight b \<noteq> None then (Err IPC_Busy, b)
      else case br_channel b of
        None \<Rightarrow> (Err IPC_Disconnected, b)
      | Some frames \<Rightarrow>
          if delivers
          then (Ok (), b\<lparr>br_channel := Some (frames @ [frame]),
                        br_in_flight := Some \<lparr>if_revision = fr_revision frame, if_payload = payload\<rparr>\<rparr>)
          else (Err IPC_Disconnected, b\<lparr>br_channel := None\<rparr>))"

definition send_snapshot :: "bool \<Rightarrow> snapshot_reason \<Rightarrow> client_snapshot \<Rightarrow> unit call" where
  "send_snapshot delivers reason s =
     seq_call take_revision (\<lambda>r. send_frame delivers (server_frame_new r (Frame_Snapshot reason s)) InFlight_Snapshot)"

definition send_notice :: "bool \<Rightarrow> queued_notice \<Rightarrow> unit call" where
  "send_notice delivers q =
     seq_call take_revision (\<lambda>r. send_frame delivers (server_frame_new r (Frame_Notice (qn_notice q))) (InFlight_Notice q))"

definition send_active_session_delta :: "bool \<Rightarrow> active_session_delta \<Rightarrow> unit call" where
  "send_active_session_delta delivers d =
     seq_call take_revision (\<lambda>r. send_frame delivers (server_frame_new r (Frame_Delta d)) InFlight_Snapshot)"

definition mark_published :: "client_snapshot \<Rightarrow> bridge \<Rightarrow> bridge" where
  "mark_published s b = b\<lparr>br_last_snapshot := Some s, br_projection_dirty := False\<rparr>"

definition publish_projection :: "bridge_env \<Rightarrow> unit call" where
  "publish_projection e b =
     (if br_in_flight b \<noteq> None \<or> br_channel b = None then (Ok (), b)
      else case env_snapshot e of
        Ok s \<Rightarrow>
          if br_last_snapshot b = Some s then (Ok (), b\<lparr>br_projection_dirty := False\<rparr>)
          else (case (case br_last_snapshot b of Some previous \<Rightarrow> delta_between previous s | None \<Rightarrow> Ok None) of
              Panic \<Rightarrow> (Panic, b)
            | delta \<Rightarrow>
                (case (case delta of
                    Ok (Some d) \<Rightarrow> send_active_session_delta (env_delivers e) d b
                  | _ \<Rightarrow> send_snapshot (env_delivers e) Reason_Projection s b) of
                  (Ok _, b') \<Rightarrow> (Ok (), mark_published s b')
                | (Err _, b') \<Rightarrow> (Ok (), b')
                | (Panic, b') \<Rightarrow> (Panic, b')))
      | Err _ \<Rightarrow> (Ok (), b)
      | Panic \<Rightarrow> (Panic, b))"

section \<open>Notices\<close>

fun is_authentication_of :: "client_notice \<Rightarrow> client_notice \<Rightarrow> bool" where
  "is_authentication_of (Notice_Authentication i _) (Notice_Authentication j _) \<longleftrightarrow> j = i"
| "is_authentication_of _ _ \<longleftrightarrow> False"

fun is_shutdown_notice :: "client_notice \<Rightarrow> bool" where
  "is_shutdown_notice (Notice_Shutdown _) = True"
| "is_shutdown_notice _ = False"

fun update_first :: "('a \<Rightarrow> bool) \<Rightarrow> ('a \<Rightarrow> 'a) \<Rightarrow> 'a list \<Rightarrow> 'a list" where
  "update_first p f [] = []"
| "update_first p f (x # xs) = (if p x then f x # xs else x # update_first p f xs)"

definition queue_notice :: "client_notice \<Rightarrow> nat option \<Rightarrow> unit call" where
  "queue_notice notice terminal_id b =
     (if list_ex (\<lambda>q. is_authentication_of notice (qn_notice q)) (br_pending_notices b)
      then (Ok (), b\<lparr>br_pending_notices := update_first (\<lambda>q. is_authentication_of notice (qn_notice q))
              (\<lambda>q. q\<lparr>qn_notice := notice\<rparr>) (br_pending_notices b)\<rparr>)
      else if length (br_pending_notices b) \<ge> max_pending_notices then (Err IPC_Busy, b)
      else (Ok (), b\<lparr>br_pending_notices := br_pending_notices b @
              [\<lparr>qn_notice = notice, qn_terminal_request_id = terminal_id,
                qn_wait_for_projection = br_projection_dirty b \<and> (terminal_id \<noteq> None \<or> is_shutdown_notice notice)\<rparr>]\<rparr>))"

definition front_waits :: "bridge \<Rightarrow> bool" where
  "front_waits b \<longleftrightarrow> (case br_pending_notices b of q # _ \<Rightarrow> qn_wait_for_projection q | [] \<Rightarrow> False)"

definition release_front :: "bridge \<Rightarrow> bridge" where
  "release_front b =
     b\<lparr>br_pending_notices := (case br_pending_notices b of q # qs \<Rightarrow> q\<lparr>qn_wait_for_projection := False\<rparr> # qs | [] \<Rightarrow> [])\<rparr>"

definition pump_queue :: "bridge_env \<Rightarrow> unit call" where
  "pump_queue e b =
     (case br_pending_notices b of
        [] \<Rightarrow> if br_projection_dirty b then publish_projection e b else (Ok (), b)
      | q # qs \<Rightarrow>
          (case send_notice (env_delivers e) q (b\<lparr>br_pending_notices := qs\<rparr>) of
             (Ok _, b') \<Rightarrow> (Ok (), b')
           | (Err err, b') \<Rightarrow> (Err err, b'\<lparr>br_pending_notices := q # br_pending_notices b'\<rparr>)
           | (Panic, b') \<Rightarrow> (Panic, b')))"

definition pump_resynchronization :: "bridge_env \<Rightarrow> client_request_id \<Rightarrow> unit call" where
  "pump_resynchronization e request_id =
     seq_call (lift_call (env_snapshot e)) (\<lambda>s.
     seq_call (send_snapshot (env_delivers e) Reason_Resynchronization s) (\<lambda>_.
     seq_call (update_call (\<lambda>b. (mark_published s b)\<lparr>br_pending_resynchronization := None\<rparr>)) (\<lambda>_.
     queue_notice (Notice_CommandCommitted request_id) (case request_id of ClientRequestId n \<Rightarrow> Some n))))"

definition pump_outbound :: "bridge_env \<Rightarrow> unit call" where
  "pump_outbound e b =
     (if br_in_flight b \<noteq> None \<or> br_channel b = None then (Ok (), b)
      else case br_pending_resynchronization b of
        Some request_id \<Rightarrow> pump_resynchronization e request_id b
      | None \<Rightarrow>
          if front_waits b then
            (if br_projection_dirty b then
               (case publish_projection e b of
                  (Ok _, b1) \<Rightarrow>
                    (let b2 = (if \<not> br_projection_dirty b1 then release_front b1 else b1)
                     in if br_in_flight b2 \<noteq> None \<or> br_projection_dirty b2 then (Ok (), b2) else pump_queue e b2)
                | (r, b1) \<Rightarrow> (r, b1))
             else pump_queue e (release_front b))
          else pump_queue e b)"

section \<open>Requests\<close>

definition issue_request_id :: "client_request_id call" where
  "issue_request_id b =
     (case checked_add_u64 (br_next_request_id b) 1 of
        None \<Rightarrow> (Err IPC_Disconnected, b)
      | Some n \<Rightarrow>
          (case client_request_id_new (br_next_request_id b) of
             Ok i \<Rightarrow> (Ok i, b\<lparr>br_next_request_id := n\<rparr>)
           | _ \<Rightarrow> (Err IPC_Disconnected, b\<lparr>br_next_request_id := n\<rparr>)))"

definition connect_channel :: "bridge_env \<Rightarrow> unit call" where
  "connect_channel e b =
     (if br_in_flight b \<noteq> None then (Err IPC_RendererRestartRequired, b)
      else case seq_call (lift_call (env_snapshot e)) (\<lambda>s.
             seq_call (send_snapshot (env_delivers e) Reason_Initial s) (\<lambda>_.
             update_call (mark_published s))) (b\<lparr>br_channel := Some []\<rparr>) of
        (Ok _, b') \<Rightarrow> (Ok (), b')
      | (r, b') \<Rightarrow> (r, b'\<lparr>br_channel := None, br_in_flight := None\<rparr>))"

definition queue_shutdown_notice :: "shutdown_state \<Rightarrow> unit call" where
  "queue_shutdown_notice state b =
     (if (case state of Shutdown_Requested \<Rightarrow> br_requested_notice_sent b | Shutdown_Ready \<Rightarrow> br_ready_notice_sent b) then (Ok (), b)
      else seq_call (queue_notice (Notice_Shutdown state) None) (\<lambda>_. update_call (\<lambda>b.
             case state of Shutdown_Requested \<Rightarrow> b\<lparr>br_requested_notice_sent := True\<rparr>
                         | Shutdown_Ready \<Rightarrow> b\<lparr>br_ready_notice_sent := True\<rparr>)) b)"

definition begin_shutdown :: "bridge_env \<Rightarrow> client_request_id option \<Rightarrow> unit call" where
  "begin_shutdown e command_request_id b =
     (if br_shutdown_started b then (Ok (), b)
      else seq_call (update_call (\<lambda>b. b\<lparr>br_shutdown_started := True, br_projection_dirty := True,
               br_pending_resynchronization := None\<rparr>)) (\<lambda>_.
           seq_call (case command_request_id of
               Some (ClientRequestId n) \<Rightarrow>
                 seq_call (update_call (\<lambda>b. b\<lparr>br_pending_requests := insert n (br_pending_requests b)\<rparr>)) (\<lambda>_.
                 queue_notice (Notice_CommandCommitted (ClientRequestId n)) (Some n))
             | None \<Rightarrow> return_call ()) (\<lambda>_.
           seq_call (queue_shutdown_notice Shutdown_Requested) (\<lambda>_.
           seq_call (queue_shutdown_notice Shutdown_Ready) (\<lambda>_.
           pump_outbound e)))) b)"

fun terminal_request :: "client_notice \<Rightarrow> nat option" where
  "terminal_request (Notice_CommandCommitted (ClientRequestId n)) = Some n"
| "terminal_request (Notice_CommandRejected (ClientRequestId n) _) = Some n"
| "terminal_request (Notice_Authentication (ClientRequestId n) Auth_Completed) = Some n"
| "terminal_request (Notice_Authentication (ClientRequestId n) Auth_Cancelled) = Some n"
| "terminal_request _ = None"

definition terminal_notice_outstanding :: "nat \<Rightarrow> bridge \<Rightarrow> bool" where
  "terminal_notice_outstanding n b \<longleftrightarrow>
     list_ex (\<lambda>q. qn_terminal_request_id q = Some n) (br_pending_notices b) \<or>
     (case br_in_flight b of
        Some f \<Rightarrow> (case if_payload f of InFlight_Notice q \<Rightarrow> qn_terminal_request_id q = Some n | _ \<Rightarrow> False)
      | None \<Rightarrow> False)"

definition notice_is_dropped :: "client_notice \<Rightarrow> bridge \<Rightarrow> bool" where
  "notice_is_dropped notice b \<longleftrightarrow>
     (case terminal_request notice of
        Some n \<Rightarrow> n \<notin> br_pending_requests b \<or> terminal_notice_outstanding n b
      | None \<Rightarrow>
          (case notice_request_id notice of Some (ClientRequestId n) \<Rightarrow> n \<notin> br_pending_requests b | None \<Rightarrow> False))"

text \<open>
  What asking the watched projections gives, in the order they are asked: \<open>None\<close> for a projection whose
  sender is gone, otherwise whether it has changed. A projection that has changed marks the snapshot as
  dirty before the later ones are asked.
\<close>

type_synonym watches = "bool option list"

fun observe_pending_projections :: "watches \<Rightarrow> unit call" where
  "observe_pending_projections [] = return_call ()"
| "observe_pending_projections (None # ws) = lift_call (Err WorkerStopped)"
| "observe_pending_projections (Some changed # ws) =
     seq_call (update_call (\<lambda>b. if changed then b\<lparr>br_projection_dirty := True\<rparr> else b))
       (\<lambda>_. observe_pending_projections ws)"

definition handle_notice :: "bridge_env \<Rightarrow> watches \<Rightarrow> client_notice \<Rightarrow> unit call" where
  "handle_notice e ws notice b =
     (if notice_is_dropped notice b then (Ok (), b)
      else seq_call (observe_pending_projections ws) (\<lambda>_ b1.
             case queue_notice notice (terminal_request notice) b1 of
               (Ok _, b2) \<Rightarrow> (case pump_outbound e b2 of (Panic, b3) \<Rightarrow> (Panic, b3) | (_, b3) \<Rightarrow> (Ok (), b3))
             | (Err _, b2) \<Rightarrow> (Err WorkerStopped, b2)
             | (Panic, b2) \<Rightarrow> (Panic, b2)) b)"

fun drain_notices :: "(bridge_env \<times> watches \<times> client_notice) list \<Rightarrow> unit call" where
  "drain_notices [] = return_call ()"
| "drain_notices ((e, c, n) # ns) = seq_call (handle_notice e c n) (\<lambda>_. drain_notices ns)"

definition acknowledge_frame :: "bridge_env \<Rightarrow> transport_revision \<Rightarrow> unit call" where
  "acknowledge_frame e revision b =
     (case br_in_flight b of
        None \<Rightarrow> (Err IPC_InvalidCommand, b)
      | Some f \<Rightarrow>
          if if_revision f \<noteq> revision then (Err IPC_InvalidCommand, b)
          else (let b1 = b\<lparr>br_in_flight := None\<rparr>;
                    b2 = (case if_payload f of
                        InFlight_Notice q \<Rightarrow>
                          b1\<lparr>br_pending_requests :=
                               (case qn_terminal_request_id q of Some n \<Rightarrow> br_pending_requests b1 - {n} | None \<Rightarrow> br_pending_requests b1),
                             br_ready_acknowledged := br_ready_acknowledged b1 \<or> qn_notice q = Notice_Shutdown Shutdown_Ready\<rparr>
                      | InFlight_Snapshot \<Rightarrow> b1)
                in pump_outbound e b2))"

datatype command_action =
    Action_Intent
  | Action_CancelAuthentication client_request_id
  | Action_Resynchronize
  | Action_Shutdown

definition admit_intent :: "(unit, bridge_error) result \<Rightarrow> nat \<Rightarrow> unit call" where
  "admit_intent sent n b =
     (if card (br_pending_requests b) \<ge> max_pending_requests then (Err IPC_Busy, b)
      else seq_call (lift_call sent) (\<lambda>_.
        update_call (\<lambda>b. b\<lparr>br_pending_requests := insert n (br_pending_requests b)\<rparr>)) b)"

definition resynchronize :: "bridge_env \<Rightarrow> client_request_id \<Rightarrow> nat \<Rightarrow> unit call" where
  "resynchronize e request_id n b =
     (if br_pending_resynchronization b \<noteq> None \<or> card (br_pending_requests b) \<ge> max_pending_requests then (Err IPC_Busy, b)
      else case pump_outbound e (b\<lparr>br_pending_requests := insert n (br_pending_requests b),
                  br_pending_resynchronization := Some request_id\<rparr>) of
        (Err err, b') \<Rightarrow> (Err err, b'\<lparr>br_pending_resynchronization := None, br_pending_requests := br_pending_requests b' - {n}\<rparr>)
      | r \<Rightarrow> r)"

definition run_action :: "bridge_env \<Rightarrow> (unit, bridge_error) result \<Rightarrow> (bridge_env \<times> watches \<times> client_notice) list \<Rightarrow>
    command_action \<Rightarrow> client_request_id \<Rightarrow> client_request_id call" where
  "run_action e sent waiting action request_id b =
     (case request_id of ClientRequestId n \<Rightarrow>
        (case action of
           Action_Intent \<Rightarrow> seq_call (admit_intent sent n) (\<lambda>_. return_call request_id)
         | Action_CancelAuthentication (ClientRequestId m) \<Rightarrow>
             (\<lambda>b. if m \<notin> br_pending_requests b then (Err IPC_InvalidCommand, b)
                  else seq_call (lift_call sent) (\<lambda>_. return_call (ClientRequestId m)) b)
         | Action_Resynchronize \<Rightarrow> seq_call (resynchronize e request_id n) (\<lambda>_. return_call request_id)
         | Action_Shutdown \<Rightarrow>
             (\<lambda>b. if card (br_pending_requests b) \<ge> max_pending_requests then (Err IPC_Busy, b)
                  else (case drain_notices waiting b of
                      (Ok _, b') \<Rightarrow> seq_call (begin_shutdown e (Some request_id)) (\<lambda>_. return_call request_id) b'
                    | (Err _, b') \<Rightarrow> (Err IPC_Disconnected, b')
                    | (Panic, b') \<Rightarrow> (Panic, b')))) b)"

text \<open>The action is what translating the command gives.\<close>

definition dispatch_command :: "bridge_env \<Rightarrow> (unit, bridge_error) result \<Rightarrow> (bridge_env \<times> watches \<times> client_notice) list \<Rightarrow>
    (command_action, bridge_error) result \<Rightarrow> client_request_id call" where
  "dispatch_command e sent waiting action b =
     (if br_channel b = None then (Err IPC_Disconnected, b)
      else if br_shutdown_started b then (Err IPC_InvalidCommand, b)
      else seq_call issue_request_id (\<lambda>request_id.
           seq_call (lift_call action) (\<lambda>a. run_action e sent waiting a request_id)) b)"

text \<open>What the credential's target allows is read off the snapshot; whether the credential itself is acceptable is
  decided outside.\<close>

definition dispatch_credential :: "bridge_env \<Rightarrow> (unit, bridge_error) result \<Rightarrow> (client_snapshot \<Rightarrow> bool) \<Rightarrow> bool \<Rightarrow>
    client_request_id call" where
  "dispatch_credential e sent allowed acceptable b =
     (if br_channel b = None then (Err IPC_Disconnected, b)
      else if br_shutdown_started b then (Err IPC_InvalidCommand, b)
      else seq_call (lift_call (env_snapshot e)) (\<lambda>s.
           seq_call (lift_call (ensure (allowed s) IPC_InvalidCredential)) (\<lambda>_.
           seq_call issue_request_id (\<lambda>request_id.
           seq_call (lift_call (ensure acceptable IPC_InvalidCredential)) (\<lambda>_.
           seq_call (admit_intent sent (case request_id of ClientRequestId n \<Rightarrow> n)) (\<lambda>_.
           return_call request_id))))) b)"

end
