(* ===== verification/Client_Laws.thy ===== *)
theory Client_Laws
  imports Client_Bridge
begin

text \<open>
  Laws of the client protocol: a splice rebuilds the new transcript, a delta rebuilds the new snapshot up to the
  fields it does not carry, and no call of the bridge breaks the agreement between what it believes it has
  published and what a renderer makes of the frames.
\<close>

section \<open>Splices\<close>

lemma common_prefix_take: "take (common_prefix xs ys) xs = take (common_prefix xs ys) ys"
proof (induction xs arbitrary: ys)
  case (Cons x xs)
  then show ?case by (cases ys) (simp_all add: common_prefix_def)
qed (simp add: common_prefix_def)

lemma common_prefix_le: "common_prefix xs ys \<le> length xs" "common_prefix xs ys \<le> length ys"
  using length_takeWhile_le [of "\<lambda>(l, r). l = r" "zip xs ys"] by (simp_all add: common_prefix_def)

lemma common_suffix:
  assumes "j \<le> length xs" "j \<le> length ys"
  defines "m \<equiv> length (takeWhile (\<lambda>(l, r). l = r) (take j (zip (rev xs) (rev ys))))"
  shows "m \<le> j" "drop (length xs - m) xs = drop (length ys - m) ys"
proof -
  have m: "m = common_prefix (take j (rev xs)) (take j (rev ys))" by (simp add: m_def common_prefix_def take_zip)
  show le: "m \<le> j" using common_prefix_le [of "take j (rev xs)" "take j (rev ys)"] assms by (simp add: m)
  have "take m (take j (rev xs)) = take m (take j (rev ys))" unfolding m by (rule common_prefix_take)
  then have "take m (rev xs) = take m (rev ys)" using le by (simp add: min_absorb1)
  then show "drop (length xs - m) xs = drop (length ys - m) ys" by (simp add: take_rev)
qed

lemma splice_between_exact:
  assumes "splice_between p n = Ok sp"
  shows "ts_start sp + ts_delete_count sp \<le> length p"
    "take (ts_start sp) p @ ts_items sp @ drop (ts_start sp + ts_delete_count sp) p = n"
    "length p - ts_delete_count sp + length (ts_items sp) = length n"
proof -
  define k where "k = common_prefix p n"
  define m where "m = length (takeWhile (\<lambda>(l, r). l = r) (take (min (length p) (length n) - k) (zip (rev p) (rev n))))"
  have k: "k \<le> length p" "k \<le> length n" "take k p = take k n"
    using common_prefix_le [of p n] common_prefix_take [of p n] by (simp_all add: k_def)
  have m: "m \<le> min (length p) (length n) - k" "drop (length p - m) p = drop (length n - m) n"
    using common_suffix [of "min (length p) (length n) - k" p n] by (simp_all add: m_def)
  have sp: "ts_start sp = k" "ts_delete_count sp = length p - m - k" "ts_items sp = drop k (take (length n - m) n)"
    using assms by (auto simp: splice_between_def Let_def and_then_Ok u32_expect_def split: if_splits simp flip: k_def m_def)
  show "ts_start sp + ts_delete_count sp \<le> length p" using k(1) m(1) by (simp add: sp)
  have total: "ts_start sp + ts_delete_count sp = length p - m" using k m(1) by (simp add: sp)
  have "take k n @ drop k (take (length n - m) n) = take (length n - m) n"
    using append_take_drop_id [of k "take (length n - m) n"] k m(1) by (simp add: min_absorb1)
  then show "take (ts_start sp) p @ ts_items sp @ drop (ts_start sp + ts_delete_count sp) p = n"
    unfolding total using k(3) m(2) append_take_drop_id [of "length n - m" n] by (simp add: sp flip: append_assoc)
  show "length p - ts_delete_count sp + length (ts_items sp) = length n" using k m(1) by (simp add: sp)
qed

lemma splice_between_total:
  assumes "length p \<le> max_transcript_items" "length n \<le> max_transcript_items"
  shows "\<exists>sp. splice_between p n = Ok sp"
  using assms common_prefix_le [of p n]
  by (auto simp: splice_between_def Let_def and_then_Ok u32_expect_def max_transcript_items_def)

section \<open>Deltas\<close>

definition valid_session :: "session_projection \<Rightarrow> bool" where
  "valid_session a \<longleftrightarrow> session_projection_new (spj_session_id a) (spj_revision a) (spj_selected_model a) (spj_transcript a)
     (spj_permission_requests a) = Ok a"

definition valid_snapshot :: "client_snapshot \<Rightarrow> bool" where
  "valid_snapshot s \<longleftrightarrow>
     client_snapshot_new (cs_lifecycle s) (cs_active_session_id s) (cs_sessions s) (cs_active_session s) (cs_catalog s)
       (cs_providers s) (cs_settings s) (cs_provider_recovery_pending s) = Ok (s\<lparr>cs_memory := memory_projection_default\<rparr>) \<and>
     (case cs_active_session s of Some a \<Rightarrow> valid_session a | None \<Rightarrow> True)"

definition carried :: "client_snapshot \<Rightarrow> client_snapshot" where
  "carried s = s\<lparr>cs_memory := memory_projection_default, cs_provider_recovery_pending := 0\<rparr>"

lemma carried_fields:
  assumes "carried v = carried s"
  shows "cs_schema_version v = cs_schema_version s" "cs_lifecycle v = cs_lifecycle s"
    "cs_active_session_id v = cs_active_session_id s" "cs_sessions v = cs_sessions s"
    "cs_active_session v = cs_active_session s" "cs_catalog v = cs_catalog s" "cs_providers v = cs_providers s"
    "cs_settings v = cs_settings s"
  using assms by (cases v; cases s; simp add: carried_def)+

lemma snapshot_recovery:
  "client_snapshot_new l i ss a c ps st n = Ok s \<Longrightarrow>
   client_snapshot_new l i ss a c ps st k = Ok (s\<lparr>cs_provider_recovery_pending := k\<rparr>)"
  by (auto simp: client_snapshot_new_def and_then_Ok)

lemma snapshot_sessions:
  assumes "client_snapshot_new l i ss a c ps st n = Ok s"
  shows "distinct (map ss_session_id ss)" "active_consistent i a ss"
  using assms by (auto simp: client_snapshot_new_def and_then_Ok)

lemma same_elsewhere_Cons:
  "same_elsewhere i (x # xs) (y # ys) \<longleftrightarrow>
     ss_session_id x = ss_session_id y \<and> (ss_session_id x \<noteq> i \<longrightarrow> x = y) \<and> same_elsewhere i xs ys"
  by (auto simp: same_elsewhere_def)

lemma same_elsewhere_absent:
  "length xs = length ys \<Longrightarrow> same_elsewhere i xs ys \<Longrightarrow> i \<notin> set (map ss_session_id ys) \<Longrightarrow> xs = ys"
  by (induction xs ys rule: list_induct2) (auto simp: same_elsewhere_Cons)

lemma replace_summary_exact:
  assumes "length xs = length ys" "same_elsewhere i xs ys" "distinct (map ss_session_id ys)"
    "find (\<lambda>s. ss_session_id s = i) ys = Some summary"
  shows "replace_summary i summary xs = Some ys"
  using assms
proof (induction xs ys rule: list_induct2)
  case (Cons x xs y ys)
  show ?case
  proof (cases "ss_session_id y = i")
    case True
    have "xs = ys"
      using Cons.prems(1,2) True by (intro same_elsewhere_absent [OF Cons.hyps, of i]) (simp_all add: same_elsewhere_Cons)
    moreover have "summary = y" "ss_session_id x = i" using Cons.prems(1,3) True by (simp_all add: same_elsewhere_Cons)
    ultimately show ?thesis by simp
  next
    case False
    have xy: "x = y" "same_elsewhere i xs ys" using Cons.prems(1) False by (metis same_elsewhere_Cons)+
    have found: "find (\<lambda>s. ss_session_id s = i) ys = Some summary" using Cons.prems(3) False by simp
    have "replace_summary i summary xs = Some ys" using Cons.prems(2) by (intro Cons.IH xy(2) found) simp
    then show ?thesis using False by (simp add: xy(1))
  qed
qed simp

lemma delta_exact:
  assumes delta: "delta_between p n = Ok (Some d)" and n: "valid_snapshot n" and v: "carried v = carried p"
  shows "delta_apply d v =
    Ok (n\<lparr>cs_memory := memory_projection_default, cs_provider_recovery_pending := cs_provider_recovery_pending v\<rparr>)"
proof -
  note same = carried_fields [OF v]
  obtain pa na summary sp where fields: "cs_lifecycle p = cs_lifecycle n" "cs_active_session_id p = cs_active_session_id n"
      "cs_catalog p = cs_catalog n" "cs_providers p = cs_providers n" "cs_settings p = cs_settings n"
      "length (cs_sessions p) = length (cs_sessions n)"
    and pa: "cs_active_session p = Some pa" and na: "cs_active_session n = Some na"
    and ids: "spj_session_id pa = spj_session_id na" "same_elsewhere (spj_session_id na) (cs_sessions p) (cs_sessions n)"
    and summary: "find (\<lambda>s. ss_session_id s = spj_session_id na) (cs_sessions n) = Some summary"
    and sp: "splice_between (spj_transcript pa) (spj_transcript na) = Ok sp"
    and d: "d = \<lparr>ad_session_id = spj_session_id na, ad_revision = spj_revision na, ad_summary = summary,
        ad_selected_model = spj_selected_model na, ad_transcript = sp, ad_permission_requests = spj_permission_requests na\<rparr>"
    using delta by (auto simp: delta_between_def and_then_Ok split: if_splits option.splits)
  have new: "client_snapshot_new (cs_lifecycle n) (cs_active_session_id n) (cs_sessions n) (Some na) (cs_catalog n)
       (cs_providers n) (cs_settings n) (cs_provider_recovery_pending n) = Ok (n\<lparr>cs_memory := memory_projection_default\<rparr>)"
    and session: "session_projection_new (spj_session_id na) (spj_revision na) (spj_selected_model na) (spj_transcript na)
      (spj_permission_requests na) = Ok na"
    using n by (simp_all add: valid_snapshot_def valid_session_def na)
  have active: "cs_active_session_id n = Some (spj_session_id na)"
    using snapshot_sessions(2) [OF new] by (simp add: active_consistent_def split: option.splits)
  have sessions: "replace_summary (spj_session_id na) summary (cs_sessions p) = Some (cs_sessions n)"
    by (rule replace_summary_exact [OF fields(6) ids(2) snapshot_sessions(1) [OF new] summary])
  have bound: "length (spj_transcript na) \<le> max_transcript_items"
    using session by (auto simp: session_projection_new_def and_then_Ok validate_count_def)
  show ?thesis
    using splice_between_exact [OF sp] bound
    by (simp add: delta_apply_def d same fields active pa ids sessions session snapshot_recovery [OF new, unfolded active])
qed

lemma delta_between_total:
  assumes "valid_snapshot p" "valid_snapshot n"
  shows "\<exists>d. delta_between p n = Ok d"
proof -
  have bound: "length (spj_transcript a) \<le> max_transcript_items" if "valid_session a" for a
    using that by (auto simp: valid_session_def session_projection_new_def and_then_Ok validate_count_def)
  show ?thesis
  proof (cases "cs_active_session p = None \<or> cs_active_session n = None")
    case True
    then show ?thesis by (auto simp: delta_between_def split: option.split)
  next
    case False
    then obtain pa na where a: "cs_active_session p = Some pa" "cs_active_session n = Some na" by auto
    then have "valid_session pa" "valid_session na" using assms by (simp_all add: valid_snapshot_def)
    then obtain sp where "splice_between (spj_transcript pa) (spj_transcript na) = Ok sp"
      using bound splice_between_total by blast
    then show ?thesis by (auto simp: delta_between_def a split: option.split)
  qed
qed

section \<open>Renderers\<close>

text \<open>A renderer that applies the frames it classifies as a baseline or as the next one, and stops at any other.\<close>

record renderer =
  rd_last :: "transport_revision option"
  rd_view :: "client_snapshot option"

definition renderer_new :: renderer where "renderer_new = \<lparr>rd_last = None, rd_view = None\<rparr>"

fun show_payload :: "frame_payload \<Rightarrow> client_snapshot option \<Rightarrow> client_snapshot option option" where
  "show_payload (Frame_Snapshot _ s) view = Some (Some s)"
| "show_payload (Frame_Delta d) (Some v) = (case delta_apply d v of Ok v' \<Rightarrow> Some (Some v') | _ \<Rightarrow> None)"
| "show_payload (Frame_Delta d) None = None"
| "show_payload (Frame_Notice n) view = Some view"

definition receive_frame :: "server_frame \<Rightarrow> renderer \<Rightarrow> renderer option" where
  "receive_frame f r =
     (if classify_after f (rd_last r) \<in> {Disposition_Baseline, Disposition_Next}
      then map_option (\<lambda>view. \<lparr>rd_last = Some (fr_revision f), rd_view = view\<rparr>) (show_payload (fr_payload f) (rd_view r))
      else None)"

fun receive_frames :: "server_frame list \<Rightarrow> renderer \<Rightarrow> renderer option" where
  "receive_frames [] r = Some r"
| "receive_frames (f # fs) r = Option.bind (receive_frame f r) (receive_frames fs)"

lemma receive_frames_append:
  "receive_frames (fs @ gs) r = Option.bind (receive_frames fs r) (receive_frames gs)"
  by (induction fs arbitrary: r) (auto split: option.splits bind_splits)

text \<open>The agreement: with a channel, a new renderer accepts every frame it carried, has applied the revision before the
  next one, and shows the snapshot the bridge has published last, up to what deltas do not carry.\<close>

definition shows_last :: "server_frame list \<Rightarrow> bridge \<Rightarrow> bool" where
  "shows_last frames b \<longleftrightarrow>
     (\<exists>r v s. receive_frames frames renderer_new = Some \<lparr>rd_last = Some r, rd_view = Some v\<rparr> \<and>
        next_of_revision r = Ok (br_next_revision b) \<and> br_last_snapshot b = Some s \<and> valid_snapshot s \<and> carried v = carried s)"

definition contiguous :: "server_frame list \<Rightarrow> bridge \<Rightarrow> bool" where
  "contiguous frames b \<longleftrightarrow>
     (\<exists>k. map (revision_value \<circ> fr_revision) frames = [k..<revision_value (br_next_revision b)])"

definition agrees :: "bridge \<Rightarrow> bool" where
  "agrees b \<longleftrightarrow>
     (case br_channel b of
        None \<Rightarrow> br_in_flight b = None
      | Some frames \<Rightarrow> shows_last frames b \<and> contiguous frames b)"

lemma agrees_frame [simp]:
  "agrees (b\<lparr>br_pending_notices := qs\<rparr>) = agrees b"
  "agrees (b\<lparr>br_pending_requests := rs\<rparr>) = agrees b"
  "agrees (b\<lparr>br_pending_resynchronization := q\<rparr>) = agrees b"
  "agrees (b\<lparr>br_projection_dirty := p\<rparr>) = agrees b"
  "agrees (b\<lparr>br_next_request_id := i\<rparr>) = agrees b"
  "agrees (b\<lparr>br_requested_notice_sent := p\<rparr>) = agrees b"
  "agrees (b\<lparr>br_ready_notice_sent := p\<rparr>) = agrees b"
  "agrees (b\<lparr>br_shutdown_started := p\<rparr>) = agrees b"
  "agrees (b\<lparr>br_ready_acknowledged := p\<rparr>) = agrees b"
  by (simp_all add: agrees_def shows_last_def contiguous_def split: option.split)

lemma agrees_acknowledged: "agrees b \<Longrightarrow> agrees (b\<lparr>br_in_flight := None\<rparr>)"
  by (simp add: agrees_def shows_last_def contiguous_def split: option.splits)

text \<open>What sending a payload does when nothing is in flight.\<close>

definition send_payload :: "bool \<Rightarrow> frame_payload \<Rightarrow> in_flight_payload \<Rightarrow> unit call" where
  "send_payload delivers payload waiting =
     seq_call take_revision (\<lambda>r. send_frame delivers (server_frame_new r payload) waiting)"

lemma send_payload_simps:
  "send_snapshot delivers reason s = send_payload delivers (Frame_Snapshot reason s) InFlight_Snapshot"
  "send_notice delivers q = send_payload delivers (Frame_Notice (qn_notice q)) (InFlight_Notice q)"
  "send_active_session_delta delivers d = send_payload delivers (Frame_Delta d) InFlight_Snapshot"
  by (simp_all add: send_payload_def send_snapshot_def send_notice_def send_active_session_delta_def)

definition after_send :: "frame_payload \<Rightarrow> in_flight_payload \<Rightarrow> transport_revision \<Rightarrow> server_frame list \<Rightarrow> bridge \<Rightarrow> bridge" where
  "after_send payload waiting r frames b =
     b\<lparr>br_next_revision := r, br_channel := Some (frames @ [server_frame_new (br_next_revision b) payload]),
       br_in_flight := Some \<lparr>if_revision = br_next_revision b, if_payload = waiting\<rparr>\<rparr>"

lemma send_payload_cases:
  assumes "br_in_flight b = None" "br_channel b = Some frames" "send_payload delivers payload waiting b = (res, b')"
  obtains (Sent) r where "res = Ok ()" "next_of_revision (br_next_revision b) = Ok r" "b' = after_send payload waiting r frames b"
  | (Failed) "res = Err IPC_Disconnected" "b' = b \<or> (\<exists>r. b' = b\<lparr>br_next_revision := r, br_channel := None\<rparr>)"
  using assms
  by (auto simp: send_payload_def seq_call_def take_revision_def send_frame_def after_send_def server_frame_new_def
      split: result.splits if_splits)

lemma agrees_disconnected: "br_in_flight b = None \<Longrightarrow> agrees (b\<lparr>br_next_revision := r, br_channel := None\<rparr>)"
  by (simp add: agrees_def)

lemma next_of_revision_value: "next_of_revision r = Ok r' \<Longrightarrow> revision_value r' = Suc (revision_value r)"
  by (auto simp: next_of_revision_def checked_add_u64_def split: option.splits if_splits)

lemma contiguous_sent:
  assumes "contiguous frames b" "frames \<noteq> []" "next_of_revision (br_next_revision b) = Ok r"
  shows "contiguous (frames @ [server_frame_new (br_next_revision b) payload]) (after_send payload waiting r frames b)"
proof -
  obtain k where k: "map (revision_value \<circ> fr_revision) frames = [k..<revision_value (br_next_revision b)]"
    using assms(1) by (auto simp: contiguous_def)
  then have "k \<le> revision_value (br_next_revision b)" using assms(2) by (cases "k < revision_value (br_next_revision b)") auto
  then show ?thesis
    using k next_of_revision_value [OF assms(3)] by (auto simp: contiguous_def after_send_def server_frame_new_def intro!: exI [of _ k])
qed

lemma shows_sent:
  assumes "shows_last frames b" "next_of_revision (br_next_revision b) = Ok r'" "br_next_revision b' = r'"
    "br_last_snapshot b' = Some s'" "valid_snapshot s'"
    "\<And>v s. br_last_snapshot b = Some s \<Longrightarrow> carried v = carried s \<Longrightarrow>
       \<exists>v'. show_payload payload (Some v) = Some (Some v') \<and> carried v' = carried s'"
  shows "shows_last (frames @ [server_frame_new (br_next_revision b) payload]) b'"
proof -
  let ?f = "server_frame_new (br_next_revision b) payload"
  obtain r v s where r: "receive_frames frames renderer_new = Some \<lparr>rd_last = Some r, rd_view = Some v\<rparr>"
    "next_of_revision r = Ok (br_next_revision b)" "br_last_snapshot b = Some s" "carried v = carried s"
    using assms(1) by (auto simp: shows_last_def)
  obtain v' where v': "show_payload payload (Some v) = Some (Some v')" "carried v' = carried s'"
    using assms(6) [OF r(3,4)] by blast
  have "classify_after ?f (Some r) \<in> {Disposition_Baseline, Disposition_Next}"
    using next_of_revision_value [OF r(2)] by (simp add: classify_after_def r(2) server_frame_new_def)
  then have "receive_frame ?f \<lparr>rd_last = Some r, rd_view = Some v\<rparr> = Some \<lparr>rd_last = Some (br_next_revision b), rd_view = Some v'\<rparr>"
    using v'(1) by (simp add: receive_frame_def server_frame_new_def)
  then show ?thesis
    unfolding shows_last_def using assms(2-5) r v' by (auto simp: receive_frames_append)
qed

lemma shows_last_nonempty: "shows_last frames b \<Longrightarrow> frames \<noteq> []"
  by (auto simp: shows_last_def renderer_new_def)

lemma agrees_sent:
  assumes "agrees b" "br_channel b = Some frames" "next_of_revision (br_next_revision b) = Ok r"
    "br_last_snapshot b' = Some s'" "valid_snapshot s'"
    "\<And>v s. br_last_snapshot b = Some s \<Longrightarrow> carried v = carried s \<Longrightarrow>
       \<exists>v'. show_payload payload (Some v) = Some (Some v') \<and> carried v' = carried s'"
    "br_channel b' = br_channel (after_send payload waiting r frames b)" "br_next_revision b' = r"
  shows "agrees b'"
proof -
  have b: "shows_last frames b" "contiguous frames b" using assms(1,2) by (simp_all add: agrees_def)
  have "contiguous (frames @ [server_frame_new (br_next_revision b) payload]) b'"
    using contiguous_sent [OF b(2) shows_last_nonempty [OF b(1)] assms(3), of payload waiting] assms(8)
    by (simp add: contiguous_def after_send_def)
  then show ?thesis
    using shows_sent [OF b(1) assms(3) assms(8) assms(4,5,6)] by (simp add: agrees_def assms(7)) (simp add: after_send_def)
qed

definition env_ok :: "bridge_env \<Rightarrow> bool" where
  "env_ok e \<longleftrightarrow> (case env_snapshot e of Ok s \<Rightarrow> valid_snapshot s | Err _ \<Rightarrow> True | Panic \<Rightarrow> False)"

lemma send_snapshot_agrees:
  assumes "agrees b" "br_in_flight b = None" "br_channel b \<noteq> None" "valid_snapshot s" "send_snapshot delivers reason s b = (res, b')"
  shows "(res = Ok () \<and> agrees (mark_published s b')) \<or> (res = Err IPC_Disconnected \<and> agrees b')"
proof -
  obtain frames where frames: "br_channel b = Some frames" using assms(3) by blast
  show ?thesis
  proof (rule send_payload_cases [OF assms(2) frames assms(5) [unfolded send_payload_simps]], goal_cases)
    case (1 r)
    then have "agrees (mark_published s b')"
      by (intro agrees_sent [OF assms(1) frames 1(2), where s' = s and payload = "Frame_Snapshot reason s"])
        (simp_all add: mark_published_def after_send_def assms(4))
    with 1 show ?case by simp
  next
    case 2
    then show ?case using assms(1,2) agrees_disconnected by auto
  qed
qed

lemma send_notice_agrees:
  assumes "agrees b" "br_in_flight b = None" "br_channel b \<noteq> None" "send_notice delivers q b = (res, b')"
  shows "(res = Ok () \<or> res = Err IPC_Disconnected) \<and> agrees b'"
proof -
  obtain frames where frames: "br_channel b = Some frames" using assms(3) by blast
  show ?thesis
  proof (rule send_payload_cases [OF assms(2) frames assms(4) [unfolded send_payload_simps]], goal_cases)
    case (1 r)
    obtain s where "br_last_snapshot b = Some s" "valid_snapshot s"
      using assms(1) frames by (auto simp: agrees_def shows_last_def)
    then have "agrees b'"
      using 1 by (intro agrees_sent [OF assms(1) frames 1(2), where s' = s and payload = "Frame_Notice (qn_notice q)"])
        (simp_all add: after_send_def)
    with 1 show ?case by simp
  next
    case 2
    then show ?case using assms(1,2) agrees_disconnected by auto
  qed
qed

lemma send_delta_agrees:
  assumes "agrees b" "br_in_flight b = None" "br_channel b \<noteq> None" "valid_snapshot s"
    "br_last_snapshot b = Some p" "delta_between p s = Ok (Some d)" "send_active_session_delta delivers d b = (res, b')"
  shows "(res = Ok () \<and> agrees (mark_published s b')) \<or> (res = Err IPC_Disconnected \<and> agrees b')"
proof -
  obtain frames where frames: "br_channel b = Some frames" using assms(3) by blast
  show ?thesis
  proof (rule send_payload_cases [OF assms(2) frames assms(7) [unfolded send_payload_simps]], goal_cases)
    case (1 r)
    have "\<exists>v'. show_payload (Frame_Delta d) (Some v) = Some (Some v') \<and> carried v' = carried s" if "carried v = carried p" for v
      using delta_exact [OF assms(6,4) that] by (simp add: carried_def)
    then have "agrees (mark_published s b')"
      using 1 assms(5) by (intro agrees_sent [OF assms(1) frames 1(2), where s' = s and payload = "Frame_Delta d"])
        (simp_all add: mark_published_def after_send_def assms(4))
    with 1 show ?case by simp
  next
    case 2
    then show ?case using assms(1,2) agrees_disconnected by auto
  qed
qed

section \<open>Calls keep the agreement\<close>

definition keeps :: "'a call \<Rightarrow> bool" where
  "keeps m \<longleftrightarrow> (\<forall>b. agrees b \<longrightarrow> agrees (snd (m b)) \<and> fst (m b) \<noteq> Panic)"

lemma keepsD: "keeps m \<Longrightarrow> agrees b \<Longrightarrow> m b = (res, b') \<Longrightarrow> agrees b' \<and> res \<noteq> Panic"
  by (metis keeps_def fst_conv snd_conv)

lemma keepsI: "(\<And>b res b'. agrees b \<Longrightarrow> m b = (res, b') \<Longrightarrow> agrees b' \<and> res \<noteq> Panic) \<Longrightarrow> keeps m"
  unfolding keeps_def by (metis prod.collapse)

lemma keeps_seq: "keeps m \<Longrightarrow> (\<And>x. keeps (f x)) \<Longrightarrow> keeps (seq_call m f)"
  by (rule keepsI) (auto simp: seq_call_def split: prod.splits result.splits dest: keepsD)

lemma keeps_update: "(\<And>b. agrees b \<Longrightarrow> agrees (f b)) \<Longrightarrow> keeps (update_call f)"
  by (simp add: keeps_def update_call_def)

lemma keeps_lift: "r \<noteq> Panic \<Longrightarrow> keeps (lift_call r)"
  by (simp add: keeps_def lift_call_def)

lemma keeps_return: "keeps (return_call x)"
  by (simp add: keeps_def return_call_def)

lemma keeps_queue_notice: "keeps (queue_notice n t)"
  by (simp add: keeps_def queue_notice_def)

lemma agrees_release_front: "agrees (release_front b) = agrees b"
  by (simp add: release_front_def)

lemma last_snapshot_valid: "agrees b \<Longrightarrow> br_channel b \<noteq> None \<Longrightarrow> \<exists>s. br_last_snapshot b = Some s \<and> valid_snapshot s"
  by (auto simp: agrees_def shows_last_def)

lemma keeps_publish:
  assumes "env_ok e"
  shows "keeps (publish_projection e)"
proof (rule keepsI)
  fix b res b'
  assume b: "agrees b" and run: "publish_projection e b = (res, b')"
  show "agrees b' \<and> res \<noteq> Panic"
  proof (cases "br_in_flight b \<noteq> None \<or> br_channel b = None \<or> (\<forall>s. env_snapshot e \<noteq> Ok s)")
    case True
    then show ?thesis using run b assms by (auto simp: publish_projection_def env_ok_def split: result.splits)
  next
    case False
    then obtain s where s: "env_snapshot e = Ok s" "valid_snapshot s" using assms by (auto simp: env_ok_def)
    have free: "br_in_flight b = None" "br_channel b \<noteq> None" using False by auto
    obtain p where p: "br_last_snapshot b = Some p" "valid_snapshot p" using last_snapshot_valid [OF b free(2)] by blast
    obtain d where d: "delta_between p s = Ok d" using delta_between_total [OF p(2) s(2)] by blast
    show ?thesis
    proof (cases "p = s")
      case True
      then show ?thesis using run b free by (auto simp: publish_projection_def s(1) p(1))
    next
      case False
      obtain res1 b1 where b1: "(case d of Some d' \<Rightarrow> send_active_session_delta (env_delivers e) d' b
          | None \<Rightarrow> send_snapshot (env_delivers e) Reason_Projection s b) = (res1, b1)" by fastforce
      have "(res1 = Ok () \<and> agrees (mark_published s b1)) \<or> (res1 = Err IPC_Disconnected \<and> agrees b1)"
        using b1 d send_delta_agrees [OF b free s(2) p(1)] send_snapshot_agrees [OF b free s(2)]
        by (cases d) auto
      then show ?thesis
        using run b1 free False by (cases d) (auto simp: publish_projection_def s(1) p(1) d)
    qed
  qed
qed

lemma keeps_pump_queue:
  assumes "env_ok e" "agrees b" "br_in_flight b = None" "br_channel b \<noteq> None" "pump_queue e b = (res, b')"
  shows "agrees b' \<and> res \<noteq> Panic"
proof (cases "br_pending_notices b")
  case Nil
  then show ?thesis using assms keepsD [OF keeps_publish [OF assms(1)] assms(2)] by (auto simp: pump_queue_def split: if_splits)
next
  case (Cons q qs)
  obtain res1 b1 where b1: "send_notice (env_delivers e) q (b\<lparr>br_pending_notices := qs\<rparr>) = (res1, b1)" by fastforce
  have "(res1 = Ok () \<or> res1 = Err IPC_Disconnected) \<and> agrees b1"
    using assms(2-4) by (intro send_notice_agrees [OF _ _ _ b1]) simp_all
  then show ?thesis using assms(5) by (auto simp: pump_queue_def Cons b1)
qed

lemma keeps_pump_resynchronization:
  assumes "env_ok e" "agrees b" "br_in_flight b = None" "br_channel b \<noteq> None" "pump_resynchronization e i b = (res, b')"
  shows "agrees b' \<and> res \<noteq> Panic"
proof (cases "env_snapshot e")
  case (Ok s)
  then have s: "valid_snapshot s" using assms(1) by (simp add: env_ok_def)
  obtain res1 b1 where b1: "send_snapshot (env_delivers e) Reason_Resynchronization s b = (res1, b1)" by fastforce
  show ?thesis
    using send_snapshot_agrees [OF assms(2-4) s b1] assms(5)
    by (auto simp: pump_resynchronization_def seq_call_def lift_call_def update_call_def Ok b1
        dest!: keepsD [OF keeps_queue_notice, rotated])
qed (use assms in \<open>auto simp: pump_resynchronization_def seq_call_def lift_call_def env_ok_def\<close>)

lemma keeps_pump:
  assumes "env_ok e"
  shows "keeps (pump_outbound e)"
proof (rule keepsI)
  fix b res b'
  assume b: "agrees b" and run: "pump_outbound e b = (res, b')"
  show "agrees b' \<and> res \<noteq> Panic"
  proof (cases "br_in_flight b \<noteq> None \<or> br_channel b = None")
    case True
    then show ?thesis using run b by (auto simp: pump_outbound_def)
  next
    case False
    then have free: "br_in_flight b = None" "br_channel b \<noteq> None" by auto
    show ?thesis
    proof (cases "br_pending_resynchronization b")
      case (Some i)
      then show ?thesis using run free keeps_pump_resynchronization [OF assms b free] by (simp add: pump_outbound_def)
    next
      case None
      show ?thesis
      proof (cases "front_waits b \<and> br_projection_dirty b")
        case False
        then show ?thesis
          using run free None keeps_pump_queue [OF assms b free] keeps_pump_queue [OF assms, of "release_front b"] b
          by (auto simp: pump_outbound_def agrees_release_front release_front_def split: if_splits)
      next
        case True
        obtain res1 b1 where b1: "publish_projection e b = (res1, b1)" by fastforce
        have keep: "agrees b1" "res1 \<noteq> Panic" using keepsD [OF keeps_publish [OF assms] b b1] by auto
        have connected: "br_channel b1 \<noteq> None" if "br_in_flight b1 = None" "\<not> br_projection_dirty b1"
          using that b1 free True
          by (auto simp: publish_projection_def send_payload_simps send_payload_def seq_call_def take_revision_def
              send_frame_def mark_published_def split: result.splits option.splits if_splits)
        show ?thesis
          using run free None True keep connected keeps_pump_queue [OF assms, of "release_front b1"]
          by (cases res1) (auto simp: pump_outbound_def b1 Let_def agrees_release_front release_front_def split: if_splits)
      qed
    qed
  qed
qed

section \<open>Requests\<close>

lemma agrees_new: "agrees bridge_new"
  by (simp add: agrees_def bridge_new_def)

lemma keeps_connect:
  assumes "env_ok e"
  shows "keeps (connect_channel e)"
proof (rule keepsI)
  fix b res b'
  assume b: "agrees b" and run: "connect_channel e b = (res, b')"
  show "agrees b' \<and> res \<noteq> Panic"
  proof (cases "br_in_flight b \<noteq> None \<or> (\<forall>s. env_snapshot e \<noteq> Ok s)")
    case True
    then show ?thesis
      using run b assms
      by (auto simp: connect_channel_def seq_call_def lift_call_def env_ok_def agrees_def split: result.splits if_splits)
  next
    case False
    then obtain s where s: "env_snapshot e = Ok s" "valid_snapshot s" using assms by (auto simp: env_ok_def)
    let ?b = "b\<lparr>br_channel := Some []\<rparr>"
    obtain res1 b1 where b1: "send_snapshot (env_delivers e) Reason_Initial s ?b = (res1, b1)" by fastforce
    have free: "br_in_flight ?b = None" "br_channel ?b = Some []" using False by simp_all
    show ?thesis
    proof (rule send_payload_cases [OF free b1 [unfolded send_payload_simps]], goal_cases)
      case (1 r)
      have "agrees (mark_published s b1)"
        using 1(2) next_of_revision_value [OF 1(2)] s(2)
        by (auto simp: 1(3) after_send_def mark_published_def agrees_def shows_last_def contiguous_def server_frame_new_def
            receive_frame_def renderer_new_def classify_after_def intro!: exI [of _ "revision_value (br_next_revision b)"])
      then show ?case using run False 1(1) by (auto simp: connect_channel_def seq_call_def lift_call_def update_call_def s(1) b1)
    next
      case 2
      then show ?case
        using run False by (auto simp: connect_channel_def seq_call_def lift_call_def s(1) b1 agrees_def)
    qed
  qed
qed

lemma keeps_shutdown_notice: "keeps (queue_shutdown_notice st)"
proof -
  have "keeps (seq_call (queue_notice (Notice_Shutdown st) None) (\<lambda>_. update_call (\<lambda>b.
      case st of Shutdown_Requested \<Rightarrow> b\<lparr>br_requested_notice_sent := True\<rparr> | Shutdown_Ready \<Rightarrow> b\<lparr>br_ready_notice_sent := True\<rparr>)))"
    by (intro keeps_seq keeps_update keeps_queue_notice) (cases st; simp)
  then show ?thesis by (rule_tac keepsI) (auto simp: queue_shutdown_notice_def dest: keepsD split: if_splits)
qed

lemma keeps_unless: "keeps m \<Longrightarrow> r \<noteq> Panic \<Longrightarrow> keeps (\<lambda>b. if c b then (r, b) else m b)"
  by (rule keepsI) (auto split: if_splits dest: keepsD)

lemma keeps_begin_shutdown: "env_ok e \<Longrightarrow> keeps (begin_shutdown e i)"
  unfolding begin_shutdown_def
  by (intro keeps_unless keeps_seq keeps_update keeps_shutdown_notice keeps_pump)
    (auto intro!: keeps_seq keeps_update keeps_queue_notice keeps_return split: option.split client_request_id.split)

lemma keeps_acknowledge:
  assumes "env_ok e"
  shows "keeps (acknowledge_frame e r)"
proof (rule keepsI)
  fix b res b'
  assume "agrees b" "acknowledge_frame e r b = (res, b')"
  then show "agrees b' \<and> res \<noteq> Panic"
    using agrees_acknowledged [of b]
    by (auto simp: acknowledge_frame_def Let_def split: option.splits if_splits in_flight_payload.splits
        dest!: keepsD [OF keeps_pump [OF assms], rotated])
qed

lemma keeps_observe: "keeps (observe_pending_projections ws)"
  by (induction ws rule: observe_pending_projections.induct)
    (auto intro!: keeps_return keeps_lift keeps_seq keeps_update)

lemma keeps_queue_and_pump:
  assumes "env_ok e"
  shows "keeps (\<lambda>b. case queue_notice n i b of
      (Ok _, b2) \<Rightarrow> (case pump_outbound e b2 of (Panic, b3) \<Rightarrow> (Panic, b3) | (_, b3) \<Rightarrow> (Ok (), b3))
    | (Err _, b2) \<Rightarrow> (Err WorkerStopped, b2) | (Panic, b2) \<Rightarrow> (Panic, b2))"
proof (rule keepsI)
  fix b res b'
  assume b: "agrees b"
    and run: "(case queue_notice n i b of
        (Ok _, b2) \<Rightarrow> (case pump_outbound e b2 of (Panic, b3) \<Rightarrow> (Panic, b3) | (_, b3) \<Rightarrow> (Ok (), b3))
      | (Err _, b2) \<Rightarrow> (Err WorkerStopped, b2) | (Panic, b2) \<Rightarrow> (Panic, b2)) = (res, b')"
  obtain res2 b2 where b2: "queue_notice n i b = (res2, b2)" by fastforce
  obtain res3 b3 where b3: "pump_outbound e b2 = (res3, b3)" by fastforce
  have 2: "agrees b2 \<and> res2 \<noteq> Panic" by (rule keepsD [OF keeps_queue_notice b b2])
  have 3: "agrees b3 \<and> res3 \<noteq> Panic" using 2 by (intro keepsD [OF keeps_pump [OF assms] _ b3]) simp
  show "agrees b' \<and> res \<noteq> Panic" using run 2 3 b2 b3 by (cases res2; cases res3) auto
qed

lemma keeps_handle_notice: "env_ok e \<Longrightarrow> keeps (handle_notice e ws n)"
  unfolding handle_notice_def
  by (intro keeps_unless keeps_seq keeps_observe keeps_queue_and_pump) simp_all

lemma keeps_drain: "\<forall>(e, c, n) \<in> set ns. env_ok e \<Longrightarrow> keeps (drain_notices ns)"
  by (induction ns rule: drain_notices.induct) (auto intro!: keeps_return keeps_seq keeps_handle_notice)

lemma keeps_resynchronize:
  assumes "env_ok e"
  shows "keeps (resynchronize e i n)"
proof (rule keepsI)
  fix b res b'
  assume b: "agrees b" and run: "resynchronize e i n b = (res, b')"
  let ?b = "b\<lparr>br_pending_requests := insert n (br_pending_requests b), br_pending_resynchronization := Some i\<rparr>"
  obtain res1 b1 where b1: "pump_outbound e ?b = (res1, b1)" by fastforce
  have "agrees b1 \<and> res1 \<noteq> Panic" using b by (intro keepsD [OF keeps_pump [OF assms] _ b1]) simp
  then show "agrees b' \<and> res \<noteq> Panic"
    using run b b1 by (cases res1) (auto simp: resynchronize_def split: if_splits)
qed

lemma keeps_issue: "keeps issue_request_id"
  by (simp add: keeps_def issue_request_id_def split: option.split result.split)

lemma keeps_admit: "sent \<noteq> Panic \<Longrightarrow> keeps (admit_intent sent n)"
  unfolding admit_intent_def by (intro keeps_unless keeps_seq keeps_lift keeps_update) simp_all

lemma keeps_credential:
  assumes "env_ok e" "sent \<noteq> Panic"
  shows "keeps (dispatch_credential e sent allowed acceptable)"
proof -
  have "env_snapshot e \<noteq> Panic" using assms(1) by (auto simp: env_ok_def)
  then show ?thesis
    unfolding dispatch_credential_def using assms(2)
    by (intro keeps_unless keeps_seq keeps_lift keeps_issue keeps_admit keeps_return) simp_all
qed

lemma keeps_dispatch:
  assumes "env_ok e" "\<forall>(e, c, n) \<in> set ns. env_ok e" "sent \<noteq> Panic" "action \<noteq> Panic"
  shows "keeps (dispatch_command e sent ns action)"
proof -
  have shutdown: "keeps (\<lambda>b. case drain_notices ns b of
      (Ok _, b') \<Rightarrow> seq_call (begin_shutdown e (Some i)) (\<lambda>_. return_call i) b'
    | (Err _, b') \<Rightarrow> (Err IPC_Disconnected, b') | (Panic, b') \<Rightarrow> (Panic, b'))" for i
    by (rule keepsI)
      (auto split: prod.splits result.splits dest: keepsD [OF keeps_drain [OF assms(2)]]
        keepsD [OF keeps_seq [OF keeps_begin_shutdown [OF assms(1)] keeps_return]])
  have run: "keeps (run_action e sent ns a i)" for a i
    unfolding run_action_def
    by (cases i; cases a)
      (auto intro!: keeps_seq keeps_return keeps_admit keeps_resynchronize assms(1) keeps_unless keeps_lift assms(3) shutdown
        split: client_request_id.split)
  show ?thesis
    unfolding dispatch_command_def
    by (intro keeps_unless keeps_seq keeps_issue keeps_lift run assms(4)) simp_all
qed

end
