(* ===== verification/Client_Properties.thy ===== *)
theory Client_Properties
  imports Client_Laws
begin

text \<open>
  Properties of the client protocol: what a delta rebuilds, what a renderer sees of the host, and two things it
  does not get.
\<close>

section \<open>The bridge as a state machine\<close>

text \<open>One turn of the loop of the bridge; every snapshot the projections give passes its own constructors.\<close>

inductive bridge_step :: "bridge \<Rightarrow> bridge \<Rightarrow> bool" where
  Connect: "env_ok e \<Longrightarrow> bridge_step b (snd (connect_channel e b))"
| Dispatch: "env_ok e \<Longrightarrow> \<forall>(e', _, _) \<in> set ns. env_ok e' \<Longrightarrow> accepted \<noteq> Panic \<Longrightarrow> action \<noteq> Panic \<Longrightarrow>
    bridge_step b (snd (dispatch_command e accepted ns action b))"
| Credential: "env_ok e \<Longrightarrow> accepted \<noteq> Panic \<Longrightarrow> bridge_step b (snd (dispatch_credential e accepted allowed acceptable b))"
| Acknowledge: "env_ok e \<Longrightarrow> bridge_step b (snd (acknowledge_frame e r b))"
| Notice: "env_ok e \<Longrightarrow> \<not> br_shutdown_started b \<Longrightarrow> bridge_step b (snd (handle_notice e c n b))"
| Changed: "\<not> br_shutdown_started b \<Longrightarrow> bridge_step b (b\<lparr>br_projection_dirty := True\<rparr>)"
| Tick: "env_ok e \<Longrightarrow> bridge_step b (snd (pump_outbound e b))"
| Stop: "env_ok e \<Longrightarrow> \<forall>(e', _, _) \<in> set ns. env_ok e' \<Longrightarrow> \<not> br_shutdown_started b \<Longrightarrow>
    bridge_step b (snd (seq_call (drain_notices ns) (\<lambda>_. begin_shutdown e None) b))"

inductive bridge_reachable :: "bridge \<Rightarrow> bool" where
  start: "bridge_reachable bridge_new"
| step: "bridge_reachable b \<Longrightarrow> bridge_step b b' \<Longrightarrow> bridge_reachable b'"

lemma keeps_snd: "keeps m \<Longrightarrow> agrees b \<Longrightarrow> agrees (snd (m b))"
  by (simp add: keeps_def)

lemma step_agrees: "bridge_step b b' \<Longrightarrow> agrees b \<Longrightarrow> agrees b'"
  by (induction rule: bridge_step.induct)
    (simp_all add: keeps_snd keeps_connect keeps_dispatch keeps_credential keeps_acknowledge keeps_handle_notice
      keeps_pump keeps_seq keeps_drain keeps_begin_shutdown)

lemma reachable_agrees: "bridge_reachable b \<Longrightarrow> agrees b"
  by (induction rule: bridge_reachable.induct) (auto intro: agrees_new step_agrees)

section \<open>Samples\<close>

definition sample_session :: session_projection where
  "sample_session = \<lparr>spj_session_id = ClientSessionId (ascii ''s''), spj_revision = 3, spj_selected_model = None,
     spj_transcript = [Item_User (ClientInputId (ascii ''i'')) (TranscriptContent (ascii ''hello''))], spj_permission_requests = []\<rparr>"

definition sample_summary :: client_session_summary where
  "sample_summary = \<lparr>ss_session_id = ClientSessionId (ascii ''s''), ss_title = ClientSessionTitle (ascii ''t''),
     ss_revision = Some 3, ss_selected_model = None, ss_updated_at_ms = None, ss_message_count = Some 1, ss_archived = False\<rparr>"

definition sample_snapshot :: client_snapshot where
  "sample_snapshot = \<lparr>cs_memory = memory_projection_default, cs_schema_version = client_schema_version,
     cs_lifecycle = Lifecycle_Ready, cs_active_session_id = Some (ClientSessionId (ascii ''s'')), cs_sessions = [sample_summary],
     cs_active_session = Some sample_session, cs_catalog = Catalog_Loading, cs_providers = [],
     cs_settings = client_settings_default, cs_provider_recovery_pending = 0\<rparr>"

definition longer_snapshot :: client_snapshot where
  "longer_snapshot = sample_snapshot\<lparr>cs_active_session := Some (sample_session\<lparr>spj_revision := 4, spj_transcript :=
     spj_transcript sample_session @ [Item_Assistant (ClientAttemptId (ascii ''a'')) (TranscriptContent (ascii ''hi'')) AS_Streaming None None]\<rparr>)\<rparr>"

definition sample_env :: "client_snapshot \<Rightarrow> bridge_env" where
  "sample_env s = \<lparr>env_snapshot = Ok s, env_delivers = True\<rparr>"

lemma sample_valid: "valid_snapshot sample_snapshot" "valid_snapshot longer_snapshot"
  by (simp_all add: valid_snapshot_def valid_session_def client_snapshot_new_def session_projection_new_def validate_count_def
      sample_snapshot_def sample_summary_def sample_session_def longer_snapshot_def active_consistent_def max_sessions_def
      max_providers_def max_transcript_items_def max_permission_requests_def)

section \<open>Deltas\<close>

text \<open>C25: deltas are exact. For any two valid snapshots, computing the difference never panics, and when it is a delta,
  applying it to the older snapshot succeeds and gives the newer one in every field of the session list, the active
  session, the catalog, the providers, the settings and the lifecycle; only the memory page, which is reset, and the
  count of pending provider recoveries, which stays the older one's, are not the newer ones.\<close>

theorem delta_rebuilds_the_snapshot:
  assumes "valid_snapshot p" "valid_snapshot n"
  shows "\<exists>d. delta_between p n = Ok d \<and>
    (\<forall>d'. d = Some d' \<longrightarrow> delta_apply d' p =
       Ok (n\<lparr>cs_memory := memory_projection_default, cs_provider_recovery_pending := cs_provider_recovery_pending p\<rparr>))"
  using delta_between_total [OF assms] delta_exact [OF _ assms(2), of p _ p] by blast

theorem delta_rebuilds_the_snapshot_witness:
  "\<exists>d. delta_between sample_snapshot longer_snapshot = Ok (Some d) \<and> delta_apply d sample_snapshot = Ok longer_snapshot"
proof -
  obtain d where d: "delta_between sample_snapshot longer_snapshot = Ok d"
    "\<forall>d'. d = Some d' \<longrightarrow> delta_apply d' sample_snapshot = Ok (longer_snapshot\<lparr>cs_memory := memory_projection_default,
       cs_provider_recovery_pending := cs_provider_recovery_pending sample_snapshot\<rparr>)"
    using delta_rebuilds_the_snapshot [OF sample_valid] by blast
  have "\<exists>d. delta_between sample_snapshot longer_snapshot = Ok (Some d)"
    by (simp add: delta_between_def sample_snapshot_def longer_snapshot_def sample_session_def sample_summary_def same_elsewhere_def
        splice_between_def Let_def u32_expect_def common_prefix_def)
  then show ?thesis using d by (auto simp: sample_snapshot_def longer_snapshot_def)
qed

section \<open>What a renderer sees\<close>

text \<open>C24: renderers follow the host. After any sequence of connections, commands, credentials, acknowledgements, notices,
  changed projections, ticks and shutdown, with any failures of the channel, the frames a connected renderer has been
  sent carry consecutive revisions; it classifies every one of them as a baseline or as the next frame and can apply
  it, it has then applied the revision before the one the bridge will use next, and what it shows is the snapshot the
  bridge recorded as published, up to the memory page and the count of pending provider recoveries.\<close>

theorem renderer_follows_the_host:
  assumes "bridge_reachable b" "br_channel b = Some frames"
  shows "\<exists>r v s k. receive_frames frames renderer_new = Some \<lparr>rd_last = Some r, rd_view = Some v\<rparr> \<and>
    next_of_revision r = Ok (br_next_revision b) \<and> br_last_snapshot b = Some s \<and> carried v = carried s \<and>
    map (revision_value \<circ> fr_revision) frames = [k..<revision_value (br_next_revision b)]"
  using reachable_agrees [OF assms(1)] assms(2) unfolding agrees_def shows_last_def contiguous_def by fastforce

definition connected_bridge :: bridge where
  "connected_bridge = snd (connect_channel (sample_env sample_snapshot) bridge_new)"

lemma sample_env_ok: "env_ok (sample_env sample_snapshot)" "env_ok (sample_env longer_snapshot)"
  by (simp_all add: env_ok_def sample_env_def sample_valid)

lemma connected_eq:
  "connected_bridge = bridge_new\<lparr>br_channel := Some [server_frame_new initial_revision (Frame_Snapshot Reason_Initial sample_snapshot)],
     br_next_revision := TransportRevision 2, br_last_snapshot := Some sample_snapshot, br_projection_dirty := False,
     br_in_flight := Some \<lparr>if_revision = initial_revision, if_payload = InFlight_Snapshot\<rparr>\<rparr>"
  by (simp add: connected_bridge_def connect_channel_def seq_call_def lift_call_def update_call_def sample_env_def send_snapshot_def
      take_revision_def send_frame_def mark_published_def next_of_revision_def checked_add_u64_def initial_revision_def
      bridge_new_def server_frame_new_def)

theorem renderer_follows_the_host_witness:
  "\<exists>b frames v. bridge_reachable b \<and> br_channel b = Some frames \<and> frames \<noteq> [] \<and>
     receive_frames frames renderer_new = Some \<lparr>rd_last = Some initial_revision, rd_view = Some v\<rparr> \<and> carried v = carried sample_snapshot"
proof -
  have reachable: "bridge_reachable connected_bridge"
    unfolding connected_bridge_def by (rule step [OF start Connect [OF sample_env_ok(1)]])
  let ?frames = "[server_frame_new initial_revision (Frame_Snapshot Reason_Initial sample_snapshot)]"
  have frames: "br_channel connected_bridge = Some ?frames" by (simp add: connected_eq)
  obtain r v s where r: "receive_frames ?frames renderer_new = Some \<lparr>rd_last = Some r, rd_view = Some v\<rparr>"
    "br_last_snapshot connected_bridge = Some s" "carried v = carried s"
    using renderer_follows_the_host [OF reachable frames] by blast
  moreover have "r = initial_revision" "s = sample_snapshot"
    using r(1,2) by (simp_all add: connected_eq receive_frame_def classify_after_def renderer_new_def server_frame_new_def)
  ultimately show ?thesis using reachable frames by blast
qed

section \<open>What a renderer does not get\<close>

lemma same_elsewhere_refl: "same_elsewhere i xs xs"
  by (induction xs) (simp_all add: same_elsewhere_Cons, simp add: same_elsewhere_def)

lemma recovery_delta:
  assumes "valid_snapshot s" "cs_active_session s = Some a"
  shows "\<exists>d. delta_between s (s\<lparr>cs_provider_recovery_pending := n\<rparr>) = Ok (Some d)"
proof -
  have new: "client_snapshot_new (cs_lifecycle s) (cs_active_session_id s) (cs_sessions s) (Some a) (cs_catalog s)
       (cs_providers s) (cs_settings s) (cs_provider_recovery_pending s) = Ok (s\<lparr>cs_memory := memory_projection_default\<rparr>)"
    and a: "valid_session a" using assms by (simp_all add: valid_snapshot_def)
  have "spj_session_id a \<in> set (map ss_session_id (cs_sessions s))"
    using snapshot_sessions(2) [OF new] by (auto simp: active_consistent_def split: option.splits)
  then obtain summary where "find (\<lambda>x. ss_session_id x = spj_session_id a) (cs_sessions s) = Some summary"
    by (cases "find (\<lambda>x. ss_session_id x = spj_session_id a) (cs_sessions s)") (auto simp: find_None_iff)
  moreover have "length (spj_transcript a) \<le> max_transcript_items"
    using a by (auto simp: valid_session_def session_projection_new_def and_then_Ok validate_count_def)
  then obtain sp where "splice_between (spj_transcript a) (spj_transcript a) = Ok sp" using splice_between_total by blast
  ultimately show ?thesis by (simp add: delta_between_def assms(2) same_elsewhere_refl)
qed

text \<open>C39: a changed count of pending provider recoveries is not delivered. When a session is open and the count is all that
  changed since the last published snapshot, publishing sends a delta, which cannot carry the count, records the new
  snapshot as published and clears the dirty flag; a renderer that applies the delta still shows the old count.\<close>

theorem recovery_count_is_not_delivered:
  assumes "br_in_flight b = None" "br_channel b = Some frames" "br_last_snapshot b = Some s" "valid_snapshot s"
    "cs_active_session s \<noteq> None" "n \<noteq> cs_provider_recovery_pending s"
    "env_snapshot e = Ok (s\<lparr>cs_provider_recovery_pending := n\<rparr>)" "env_delivers e"
    "next_of_revision (br_next_revision b) = Ok r"
  shows "\<exists>d b' v. publish_projection e b = (Ok (), b') \<and>
    br_channel b' = Some (frames @ [server_frame_new (br_next_revision b) (Frame_Delta d)]) \<and>
    br_last_snapshot b' = Some (s\<lparr>cs_provider_recovery_pending := n\<rparr>) \<and> \<not> br_projection_dirty b' \<and>
    delta_apply d s = Ok v \<and> cs_provider_recovery_pending v = cs_provider_recovery_pending s"
proof -
  let ?n = "s\<lparr>cs_provider_recovery_pending := n\<rparr>"
  obtain d where d: "delta_between s ?n = Ok (Some d)" using recovery_delta [OF assms(4)] assms(5) by blast
  have "valid_snapshot ?n" using assms(4) snapshot_recovery by (fastforce simp: valid_snapshot_def)
  then have v: "delta_apply d s = Ok (?n\<lparr>cs_memory := memory_projection_default,
      cs_provider_recovery_pending := cs_provider_recovery_pending s\<rparr>)"
    using delta_exact [OF d _ refl] by simp
  have "s \<noteq> ?n" using assms(6) by (metis client_snapshot.select_convs(10) client_snapshot.surjective client_snapshot.update_convs(10))
  then show ?thesis
    using assms d v
    by (intro exI [of _ d])
      (simp add: publish_projection_def send_active_session_delta_def seq_call_def take_revision_def send_frame_def mark_published_def)
qed

theorem recovery_count_is_not_delivered_witness:
  "\<exists>d b'. publish_projection (sample_env (sample_snapshot\<lparr>cs_provider_recovery_pending := 2\<rparr>))
      (connected_bridge\<lparr>br_in_flight := None\<rparr>) = (Ok (), b') \<and>
    br_channel b' = Some [server_frame_new initial_revision (Frame_Snapshot Reason_Initial sample_snapshot),
      server_frame_new (TransportRevision 2) (Frame_Delta d)] \<and> \<not> br_projection_dirty b'"
proof -
  let ?b = "connected_bridge\<lparr>br_in_flight := None\<rparr>"
  have "next_of_revision (br_next_revision ?b) = Ok (TransportRevision 3)"
    by (simp add: connected_eq next_of_revision_def checked_add_u64_def)
  then show ?thesis
    using recovery_count_is_not_delivered [of ?b "[server_frame_new initial_revision (Frame_Snapshot Reason_Initial sample_snapshot)]"
        sample_snapshot 2 "sample_env (sample_snapshot\<lparr>cs_provider_recovery_pending := 2\<rparr>)" "TransportRevision 3"] sample_valid(1)
    by (force simp: connected_eq sample_env_def sample_snapshot_def [THEN arg_cong, of cs_active_session]
        sample_snapshot_def [THEN arg_cong, of cs_provider_recovery_pending])
qed

text \<open>C40: a coalesced authentication is never released. When a notice that the browser has opened waits behind a frame in
  flight and none of the six projections has changed, the notice that the authentication has completed replaces it but not its request to release; after the
  renderer has acknowledged the frame and the notice, nothing is queued or in flight and the request still counts
  as pending.\<close>

theorem coalesced_authentication_stays_pending:
  assumes "br_channel b = Some frames" "br_in_flight b = Some \<lparr>if_revision = r, if_payload = InFlight_Snapshot\<rparr>"
    "br_pending_notices b = [\<lparr>qn_notice = Notice_Authentication (ClientRequestId i) Auth_BrowserOpened,
       qn_terminal_request_id = None, qn_wait_for_projection = False\<rparr>]"
    "i \<in> br_pending_requests b" "br_pending_resynchronization b = None" "\<not> br_projection_dirty b"
    "env_delivers e" "next_of_revision (br_next_revision b) = Ok r'"
  shows "\<exists>b1 b2 b3. handle_notice e (replicate 6 (Some False)) (Notice_Authentication (ClientRequestId i) Auth_Completed) b = (Ok (), b1) \<and>
    acknowledge_frame e r b1 = (Ok (), b2) \<and>
    br_channel b2 = Some (frames @ [server_frame_new (br_next_revision b) (Frame_Notice (Notice_Authentication (ClientRequestId i) Auth_Completed))]) \<and>
    acknowledge_frame e (br_next_revision b) b2 = (Ok (), b3) \<and>
    br_in_flight b3 = None \<and> br_pending_notices b3 = [] \<and> i \<in> br_pending_requests b3"
  using assms
  by (simp add: handle_notice_def numeral_eq_Suc update_call_def return_call_def notice_is_dropped_def terminal_notice_outstanding_def queue_notice_def Let_def pump_outbound_def
      acknowledge_frame_def pump_queue_def send_notice_def seq_call_def take_revision_def send_frame_def server_frame_new_def front_waits_def)

theorem coalesced_authentication_stays_pending_witness:
  "\<exists>b1 b2 b3. handle_notice (sample_env sample_snapshot) (replicate 6 (Some False)) (Notice_Authentication (ClientRequestId 7) Auth_Completed)
       (connected_bridge\<lparr>br_pending_requests := {7}, br_pending_notices := [\<lparr>qn_notice = Notice_Authentication (ClientRequestId 7) Auth_BrowserOpened,
          qn_terminal_request_id = None, qn_wait_for_projection = False\<rparr>]\<rparr>) = (Ok (), b1) \<and>
     acknowledge_frame (sample_env sample_snapshot) initial_revision b1 = (Ok (), b2) \<and>
     acknowledge_frame (sample_env sample_snapshot) (TransportRevision 2) b2 = (Ok (), b3) \<and> 7 \<in> br_pending_requests b3"
proof -
  let ?b = "connected_bridge\<lparr>br_pending_requests := {7}, br_pending_notices := [\<lparr>qn_notice = Notice_Authentication (ClientRequestId 7) Auth_BrowserOpened,
          qn_terminal_request_id = None, qn_wait_for_projection = False\<rparr>]\<rparr>"
  have b: "br_channel ?b = Some [server_frame_new initial_revision (Frame_Snapshot Reason_Initial sample_snapshot)]"
    "br_in_flight ?b = Some \<lparr>if_revision = initial_revision, if_payload = InFlight_Snapshot\<rparr>"
    "br_pending_resynchronization ?b = None" "\<not> br_projection_dirty ?b" "env_delivers (sample_env sample_snapshot)"
    "br_next_revision ?b = TransportRevision 2" "next_of_revision (br_next_revision ?b) = Ok (TransportRevision 3)"
    by (simp_all add: connected_eq bridge_new_def sample_env_def next_of_revision_def checked_add_u64_def)
  show ?thesis
    using coalesced_authentication_stays_pending [OF b(1,2) _ _ b(3,4,5,7), of 7] b(6) by auto
qed

end
