(* ===== verification/Spec2Isabelle.thy ===== *)
theory Spec2Isabelle
  imports Store_Properties Tool_Properties Sse Context_Properties Memory_Properties Compaction_Properties Settings_Properties Client_Properties
begin

text \<open>
  AutoHarness: a verification development of the session core of the repository.

  The program runs conversations with language models. A session is a stream of immutable events; a
  command is decided against the state that replaying the stream gives, the events it causes are
  appended to a durable store, and only then published. This development models that core:

  \<^item> Values and text (\<^theory_text>\<open>Domain_Text\<close>, \<^theory_text>\<open>Domain_Types\<close>): crate \<open>autoharness-domain\<close>, files \<open>value.rs\<close>,
    \<open>id.rs\<close>, \<open>text.rs\<close>, \<open>command.rs\<close>, \<open>event.rs\<close>, \<open>tool.rs\<close>, \<open>error.rs\<close>. A string is the list of its
    Unicode scalar values and its length is the UTF-8 length; identifiers are newtypes; every command
    and event of the enums is a constructor.
  \<^item> The session aggregate (\<^theory_text>\<open>Aggregate\<close>, \<^theory_text>\<open>Replay\<close>): \<open>aggregate.rs\<close> of \<open>autoharness-engine\<close>. \<open>decide\<close> maps a
    command to events or a rejection, arm by arm; \<open>apply_one\<close> validates and applies one event, arm by
    arm; \<open>rehydrate\<close> folds it over a log. Indexes into the vectors are kept as in the code, and the
    \<open>expect\<close> calls of the code are the constructor \<open>Panic\<close> of the result type.
  \<^item> The in-memory engine (\<^theory_text>\<open>Engine\<close>): \<open>engine.rs\<close>. \<open>prepare\<close>, \<open>commit_prepared\<close>, \<open>execute\<close>, \<open>replay\<close>. The
    source of event identities and times is a parameter.
  \<^item> The store port (\<^theory_text>\<open>Store_Port\<close>): \<open>autoharness-store\<close>. The locale \<open>session_store\<close> states what the engine
    relies on; its abstraction is the log of committed events.
  \<^item> The durable engine (\<^theory_text>\<open>Durable\<close>): \<open>durable.rs\<close>. Its lemmas are proved once in the locale.
  \<^item> The SQLite store (\<^theory_text>\<open>Sqlite_Schema\<close>, \<^theory_text>\<open>Sqlite_Projection\<close>, \<^theory_text>\<open>Sqlite_Store\<close>): \<open>sqlite_store.rs\<close>, the binding of
    context turns in \<open>context_store.rs\<close> and the tables of the migrations. Tables are lists of rows and a
    statement commits only if every constraint of the schema holds afterwards. The JSON codec of serde,
    SHA-256 and the check of a context manifest's digest are fields of a record parameter.
  \<^item> Tool calls (\<^theory_text>\<open>Tool_Plan\<close>, \<^theory_text>\<open>Tool_Policy\<close>, \<^theory_text>\<open>Tool_Capability\<close>, \<^theory_text>\<open>Tool_Runtime\<close>): \<open>autoharness-tool\<close>. A call of the
    model is parsed strictly and frozen with the capability that authorises it, a policy and a human
    decide, and the runtime executes it through the ports for files, processes and HTTP. The filesystem
    has directories, files and symbolic links; \<open>canonicalize\<close> follows at most 40 links, as Linux does. The
    ports are the locales \<open>filesystem_capability\<close> and \<open>artifact_store\<close>, interpreted on the local adapters.
    Which branch of a race wins, what a child process or a server answers and how a write ends are
    arguments. URL and method parsing and SHA-256 are parameters of which nothing is assumed.
  \<^item> Provider streams (\<^theory_text>\<open>Sse\<close>): \<open>autoharness-provider\<close>, files \<open>error.rs\<close> and \<open>sse.rs\<close>. The decoder of server-sent
    events takes one byte at a time, with its buffer bound and its pending carriage return.
  \<^item> Context construction (\<^theory_text>\<open>Domain_Memory\<close>, \<^theory_text>\<open>Context_Values\<close>, \<^theory_text>\<open>Canonical\<close>, \<^theory_text>\<open>Context_Rank\<close>, \<^theory_text>\<open>Context_Source\<close>,
    \<^theory_text>\<open>Context_Builder\<close>): \<open>context.rs\<close> and \<open>memory.rs\<close> of the domain and \<open>autoharness-memory\<close>. Registered sources
    are observed, memory candidates are ranked, both are rendered as quoted records and admitted while
    the budgets allow, and the result is sealed into a manifest that carries the digest of its canonical
    encoding. The ranker and the sizer are the locales \<open>memory_ranker\<close> and \<open>context_sizer\<close>, interpreted on
    the deterministic ranker and the byte sizer.
  \<^item> The memory ledger (\<^theory_text>\<open>Memory_Values\<close>, \<^theory_text>\<open>Memory_Validate\<close>, \<^theory_text>\<open>Memory_Schema\<close>, \<^theory_text>\<open>Memory_Store\<close>,
    \<^theory_text>\<open>Memory_Read\<close>, \<^theory_text>\<open>Memory_Runtime\<close>): \<open>memory.rs\<close> of the domain, \<open>validate.rs\<close>, \<open>memory_store.rs\<close> with its
    migrations, and \<open>memory_runtime.rs\<close>. A memory item is a stream of operations; a command is planned
    against the operations and revisions of its item and the active heads, and its batch of operations
    is appended with the projections, the full-text index and the generations in one transaction. The
    tables are lists of rows with the constraints of the schema. serde, SHA-256 and the tokenizer of the
    index are fields of the parameters \<open>memory_codec\<close> and \<open>search_lib\<close>.
  \<^item> Compaction (\<^theory_text>\<open>Ordered_Map\<close>, \<^theory_text>\<open>Compaction\<close>): \<open>compaction.rs\<close> of \<open>autoharness-memory\<close>. The pending facts of a
    session are derived by one scan of its events, joined with the eligible memories, put in order and
    hashed in their canonical encoding. The scan keeps its two \<open>BTreeMap\<close>s as ordered association lists.
    SHA-256 and the serde encodings are fields of the parameter \<open>compaction_lib\<close>.
  \<^item> Settings (\<^theory_text>\<open>Settings_Document\<close>, \<^theory_text>\<open>Settings_Resolver\<close>): \<open>autoharness-settings\<close>. Documents of every schema version
    are read from JSON values as the derived deserialisers do, by name or by position; user and
    workspace layers are merged leaf by leaf with the source of every leaf, workspace layers after the check
    of their keys. The parser of JSON text is a parameter.
  \<^item> The client protocol (\<^theory_text>\<open>Client_Values\<close>, \<^theory_text>\<open>Client_Snapshot\<close>, \<^theory_text>\<open>Client_Delta\<close>): \<open>autoharness-client\<close>. Snapshots with the
    checks of their constructors, deltas between them, and the classification of frames by revision.
  \<^item> The renderer bridge (\<^theory_text>\<open>Client_Bridge\<close>): \<open>BridgeActor\<close> of \<open>gui.rs\<close> in \<open>autoharness-app\<close>. Every call returns its result
    and the state it leaves, also when it fails. The snapshot of the moment, whether the channel takes a
    frame and how commands and notices translate are arguments; snapshots pass their own constructors.

  What the lemmas show. \<^theory_text>\<open>Aggregate_View\<close> and \<^theory_text>\<open>Aggregate_Inv\<close>: the invariant of the aggregate (indexes agree
  with the vectors, statuses agree with the recorded evidence, tool calls belong to attempts, turns are
  bound in order) is kept by every event. \<^theory_text>\<open>Decide_Sound\<close>: every batch that \<open>decide\<close> chooses is accepted by
  \<open>apply_one\<close>, and neither panics. \<^theory_text>\<open>Engine_Inv\<close> and \<^theory_text>\<open>Engine_Reachable\<close>: an engine is determined by its log,
  and replaying any interleaving of its sessions rebuilds it. \<^theory_text>\<open>Session_History\<close>: what a log must contain for
  a state to be reached. \<^theory_text>\<open>Sqlite_Inv\<close> and \<^theory_text>\<open>Sqlite_Laws\<close>: the SQLite store keeps the laws of the port, which
  interprets the locale. The properties are in \<^theory_text>\<open>Session_Properties\<close>, \<^theory_text>\<open>Engine_Properties\<close> and
  \<^theory_text>\<open>Store_Properties\<close> and at the end of \<^theory_text>\<open>Domain_Text\<close>. \<^theory_text>\<open>Tool_Plan_Laws\<close> shows the shape of every
  accepted plan, and the properties of tools are in \<^theory_text>\<open>Tool_Properties\<close>. \<^theory_text>\<open>Context_Laws\<close> proves selection, weight and sealing for
  every ranker and sizer that keep the contracts; \<^theory_text>\<open>Context_Properties\<close> states the properties.
  \<^theory_text>\<open>Memory_Laws\<close> takes every operation of the memory store apart; \<^theory_text>\<open>Memory_Approval\<close> and \<^theory_text>\<open>Memory_Index\<close> show the
  two invariants of the ledger, each an interpretation of the locale \<open>ledger_invariant\<close>; \<^theory_text>\<open>Memory_History\<close> follows
  a command to the rows it appends, and \<^theory_text>\<open>Memory_Properties\<close> states the properties on the example
  of \<^theory_text>\<open>Memory_Example\<close>. \<^theory_text>\<open>Compaction_Laws\<close> shows that the scan of the events and the replay of the aggregate
  agree event by event, from which \<^theory_text>\<open>Compaction_Properties\<close> derives that the facts are exact. \<^theory_text>\<open>Settings_Laws\<close>
  turns a resolution into a fold over the accepted documents and follows the workspace allowlist into
  the deserialisers; \<^theory_text>\<open>Settings_Properties\<close> states precedence and what a workspace file can change.
  \<^theory_text>\<open>Client_Laws\<close> shows that deltas are exact and that every call of the bridge keeps what it believes published
  in step with what a renderer makes of the frames; \<^theory_text>\<open>Client_Properties\<close> has the loop of the bridge as a step relation
  and the properties.

  Bounds and fuel. The only fuel is the bound on symbolic links, which the operating system has too. The paging loop of recovery is a partial function, shown to
  end on every store that keeps the laws; the paging loop of memory operations is total, each page ending
  beyond the one before. Sequences are natural numbers with the checks against the
  signed 64-bit maximum written out; \<open>checked_add\<close> is modelled at its width.

  Hypotheses on code outside the repository. \<open>codec_ok\<close>: decoding what serde encoded gives the value
  back; \<open>memory_codec_ok\<close>: the same for memory operations. Both idealise \<open>serde_json\<close> at its extremes: it refuses values nested
  deeper than 128 levels and may round a floating-point number, so arguments of a tool call that reach
  them are outside the theorems that rest on the hypotheses. Nothing is assumed of SHA-256. A column that holds the text of a validated domain value is
  modelled as the value, so the text round trip of identifiers is not part of the model.

  Not modelled. Errors of SQLite itself (busy, input and output), migrations and pragmas; the read models of
  inputs, attempts and transcripts, deletion of sessions and the catalog cache; of the memory store the
  inspection pages, admissions, erasure of sessions and rebuild; the commit of context turns; the writing of settings; provider adapters, the runtime messages of the client, the translation of projections for the renderer, and the coordinator and engine actor of the application, which
  compose the modelled core with the operating system, the network and the user interface. A change of
  the filesystem by others between a check and its use is outside the model of the tools.
\<close>

end
